(* ===== verification/Prelude.thy ===== *)
theory Prelude
  imports Main "HOL-Library.Sublist"
begin

text \<open>
  Shared vocabulary of the development.

  \<^item> \<open>gostring\<close> is the Go type \<open>string\<close>: a sequence of bytes. HOL's \<open>char\<close> is a byte, so
    \<open>length\<close> is Go's \<open>len\<close> and slicing is \<open>take\<close>/\<open>drop\<close>.
  \<^item> \<open>time\<close> and \<open>duration\<close> are nanoseconds as \<open>int\<close>.
  \<^item> \<open>state_machine\<close> is the interface of every component that is a state with steps: the
    provider gives an initial state, a step relation and an invariant and shows that the invariant
    is inductive; the client gets it for every reachable state.
  \<^item> \<open>codec\<close> is the interface of every pair of a writer and a reader of a wire format; the
    client gets injectivity of the writer and the uniqueness of the decoded value.
\<close>

type_synonym gostring = string
type_synonym time = int
type_synonym duration = int

text \<open>
  Collections of rewrite rules: \<open>go_defs\<close> holds the defining equations of the modelled string
  operations that a concrete evaluation unfolds, \<open>go_sets\<close> the rules on the bytes a string
  operation can output, \<open>tbl\<close> the rules on database tables.
\<close>

named_theorems go_defs
named_theorems go_sets
named_theorems tbl

subsection \<open>Durations of the package time\<close>

definition nanosecond :: duration where "nanosecond = 1"
definition millisecond :: duration where "millisecond = 1000000"
definition second :: duration where "second = 1000000000"
definition minute :: duration where "minute = 60 * second"
definition hour :: duration where "hour = 60 * minute"

lemmas duration_defs = nanosecond_def millisecond_def second_def minute_def hour_def

subsection \<open>Lists\<close>

lemma filter_length_mono: "(\<And>x. P x \<Longrightarrow> Q x) \<Longrightarrow> length (filter P xs) \<le> length (filter Q xs)"
  by (induction xs) auto

lemma sorted_filter_suffix:
  fixes xs :: "'a::linorder list"
  assumes "sorted xs" and up: "\<And>x y. P x \<Longrightarrow> x \<le> y \<Longrightarrow> P y"
  shows "filter P xs = drop (length xs - length (filter P xs)) xs"
  using assms(1)
proof (induction xs)
  case Nil
  then show ?case by simp
next
  case (Cons x xs)
  then have sx: "sorted xs" and le: "\<forall>y\<in>set xs. x \<le> y" by auto
  show ?case
  proof (cases "P x")
    case True
    with le have "filter P xs = xs" using up by (auto intro: filter_True)
    with True show ?thesis by simp
  next
    case False
    have "length (filter P xs) \<le> length xs" by simp
    then have "Suc (length xs) - length (filter P xs) = Suc (length xs - length (filter P xs))"
      by arith
    with False Cons.IH [OF sx] show ?thesis by simp
  qed
qed

lemma list_all_filter [simp]: "list_all P (filter P xs)"
  by (induction xs) auto

subsection \<open>State machines\<close>

locale state_machine =
  fixes init :: "'s \<Rightarrow> bool"
    and step :: "'s \<Rightarrow> 's \<Rightarrow> bool"
    and inv :: "'s \<Rightarrow> bool"
  assumes inv_init: "init s \<Longrightarrow> inv s"
    and inv_step: "inv s \<Longrightarrow> step s t \<Longrightarrow> inv t"
begin

inductive reach :: "'s \<Rightarrow> bool" where
  start: "init s \<Longrightarrow> reach s"
| more: "reach s \<Longrightarrow> step s t \<Longrightarrow> reach t"

lemma reach_inv: "reach s \<Longrightarrow> inv s"
  by (induction rule: reach.induct) (auto intro: inv_init inv_step)

lemma steps_inv: "step\<^sup>*\<^sup>* s t \<Longrightarrow> inv s \<Longrightarrow> inv t"
  by (induction rule: rtranclp_induct) (auto intro: inv_step)

lemma reach_steps: "reach s \<Longrightarrow> step\<^sup>*\<^sup>* s t \<Longrightarrow> reach t"
  by (rotate_tac, induction rule: rtranclp_induct) (auto intro: reach.more)

end

subsection \<open>Wire formats\<close>

locale codec =
  fixes enc :: "'a \<Rightarrow> 'w"
    and dec :: "'w \<Rightarrow> 'a"
    and ok :: "'a \<Rightarrow> bool"
  assumes dec_enc: "ok x \<Longrightarrow> dec (enc x) = x"
begin

lemma enc_inj: "ok x \<Longrightarrow> ok y \<Longrightarrow> enc x = enc y \<Longrightarrow> x = y"
  by (metis dec_enc)

lemma enc_inj_on: "inj_on enc {x. ok x}"
  by (auto intro: inj_onI enc_inj)

end

end
