(* ===== verification/Go_Strings.thy ===== *)
theory Go_Strings
  imports Prelude
begin

text \<open>
  The operations of Go's packages \<open>strings\<close> and \<open>strconv\<close> that the program uses, on byte
  strings. White space is Go's \<open>unicode.IsSpace\<close> on the UTF-8 encoding: the six ASCII
  characters and the encodings of the nineteen other characters. Case mapping is the ASCII part of
  \<open>strings.ToLower\<close>/\<open>ToUpper\<close>: bytes of 128 and above are unchanged, so the model is exact on
  ASCII strings (domain names, SMTP commands and header names are). Separators are never empty in
  the program, and \<open>split\<close>, \<open>cut\<close> and \<open>replace_all\<close> are only meant for such separators.
\<close>

subsection \<open>Bytes\<close>

definition is_ascii_char :: "char \<Rightarrow> bool" where
  [go_defs]: "is_ascii_char c = (of_char c < (128 :: int))"

definition lower_char :: "char \<Rightarrow> char" where
  [go_defs]: "lower_char c =
     (let n = (of_char c :: int) in if 65 \<le> n \<and> n \<le> 90 then char_of (n + 32) else c)"

definition upper_char :: "char \<Rightarrow> char" where
  [go_defs]: "upper_char c =
     (let n = (of_char c :: int) in if 97 \<le> n \<and> n \<le> 122 then char_of (n - 32) else c)"

definition is_digit :: "char \<Rightarrow> bool" where
  [go_defs]: "is_digit c = (let n = (of_char c :: int) in 48 \<le> n \<and> n \<le> 57)"

definition digit_val :: "char \<Rightarrow> int" where
  [go_defs]: "digit_val c = of_char c - 48"

abbreviation CR :: char where "CR \<equiv> CHR 0x0D"
abbreviation LF :: char where "LF \<equiv> CHR 0x0A"
abbreviation TAB :: char where "TAB \<equiv> CHR 0x09"
abbreviation SP :: char where "SP \<equiv> CHR '' ''"
abbreviation crlf :: gostring where "crlf \<equiv> [CR, LF]"

text \<open>The UTF-8 encodings of the German letters that occur in the program's messages.\<close>

abbreviation ae :: gostring where "ae \<equiv> [CHR 0xC3, CHR 0xA4]"
abbreviation oe :: gostring where "oe \<equiv> [CHR 0xC3, CHR 0xB6]"
abbreviation ue :: gostring where "ue \<equiv> [CHR 0xC3, CHR 0xBC]"
abbreviation sz :: gostring where "sz \<equiv> [CHR 0xC3, CHR 0x9F]"

definition ascii_space :: "char \<Rightarrow> bool" where
  [go_defs]: "ascii_space c = (let n = (of_char c :: int) in n = 32 \<or> (9 \<le> n \<and> n \<le> 13))"

text \<open>The UTF-8 encodings of the white space characters beyond ASCII.\<close>

definition utf8_spaces :: "gostring list" where
  [go_defs]: "utf8_spaces =
     [[CHR 0xC2, CHR 0x85], [CHR 0xC2, CHR 0xA0], [CHR 0xE1, CHR 0x9A, CHR 0x80],
      [CHR 0xE2, CHR 0x80, CHR 0x80], [CHR 0xE2, CHR 0x80, CHR 0x81], [CHR 0xE2, CHR 0x80, CHR 0x82],
      [CHR 0xE2, CHR 0x80, CHR 0x83], [CHR 0xE2, CHR 0x80, CHR 0x84], [CHR 0xE2, CHR 0x80, CHR 0x85],
      [CHR 0xE2, CHR 0x80, CHR 0x86], [CHR 0xE2, CHR 0x80, CHR 0x87], [CHR 0xE2, CHR 0x80, CHR 0x88],
      [CHR 0xE2, CHR 0x80, CHR 0x89], [CHR 0xE2, CHR 0x80, CHR 0x8A], [CHR 0xE2, CHR 0x80, CHR 0xA8],
      [CHR 0xE2, CHR 0x80, CHR 0xA9], [CHR 0xE2, CHR 0x80, CHR 0xAF], [CHR 0xE2, CHR 0x81, CHR 0x9F],
      [CHR 0xE3, CHR 0x80, CHR 0x80]]"

subsection \<open>Prefixes, suffixes and searching\<close>

fun has_prefix :: "gostring \<Rightarrow> gostring \<Rightarrow> bool" where
  "has_prefix s [] = True"
| "has_prefix [] (p # ps) = False"
| "has_prefix (c # cs) (p # ps) = (c = p \<and> has_prefix cs ps)"

definition has_suffix :: "gostring \<Rightarrow> gostring \<Rightarrow> bool" where
  [go_defs]: "has_suffix s suf = has_prefix (rev s) (rev suf)"

definition trim_prefix :: "gostring \<Rightarrow> gostring \<Rightarrow> gostring" where
  [go_defs]: "trim_prefix s p = (if has_prefix s p then drop (length p) s else s)"

definition trim_suffix :: "gostring \<Rightarrow> gostring \<Rightarrow> gostring" where
  [go_defs]: "trim_suffix s p = (if has_suffix s p then take (length s - length p) s else s)"

text \<open>\<open>strings.Index\<close>: the position of the first occurrence; \<open>None\<close> is Go's \<open>-1\<close>.\<close>

fun index :: "gostring \<Rightarrow> gostring \<Rightarrow> nat option" where
  "index [] sub = (if sub = [] then Some 0 else None)"
| "index (c # cs) sub =
     (if has_prefix (c # cs) sub then Some 0 else map_option Suc (index cs sub))"

definition contains :: "gostring \<Rightarrow> gostring \<Rightarrow> bool" where
  [go_defs]: "contains s sub = (index s sub \<noteq> None)"

text \<open>\<open>strings.LastIndex\<close> of a single byte.\<close>

definition last_index_char :: "gostring \<Rightarrow> char \<Rightarrow> nat option" where
  [go_defs]: "last_index_char s c =
     (case index (rev s) [c] of None \<Rightarrow> None | Some i \<Rightarrow> Some (length s - 1 - i))"

text \<open>\<open>strings.Cut\<close>: the text around the first separator, and whether there is one.\<close>

definition cut :: "gostring \<Rightarrow> gostring \<Rightarrow> gostring \<times> gostring \<times> bool" where
  [go_defs]: "cut s sep =
     (case index s sep of None \<Rightarrow> (s, [], False)
      | Some i \<Rightarrow> (take i s, drop (i + length sep) s, True))"

subsection \<open>Splitting, joining, replacing\<close>

text \<open>\<open>strings.Split\<close> at a single byte.\<close>

fun split :: "char \<Rightarrow> gostring \<Rightarrow> gostring list" where
  "split sep [] = [[]]"
| "split sep (c # cs) =
     (if c = sep then [] # split sep cs
      else (case split sep cs of [] \<Rightarrow> [[c]] | w # ws \<Rightarrow> (c # w) # ws))"

fun join :: "gostring \<Rightarrow> gostring list \<Rightarrow> gostring" where
  "join sep [] = []"
| "join sep [w] = w"
| "join sep (w # v # ws) = w @ sep @ join sep (v # ws)"

fun replace_all :: "gostring \<Rightarrow> gostring \<Rightarrow> gostring \<Rightarrow> gostring" where
  "replace_all old new [] = []"
| "replace_all old new (c # cs) =
     (if old \<noteq> [] \<and> has_prefix (c # cs) old
      then new @ replace_all old new (drop (length old - 1) cs)
      else c # replace_all old new cs)"

subsection \<open>Trimming and case\<close>

text \<open>
  \<open>skip_space u s\<close> drops white space from the front of \<open>s\<close>, where \<open>u\<close> are the encodings of
  the white space characters beyond ASCII. Trimming on the right is the same on the reversed string
  with the reversed encodings: a UTF-8 sequence is recognised from its last byte backwards.
\<close>

definition space_len :: "gostring list \<Rightarrow> gostring \<Rightarrow> nat" where
  [go_defs]: "space_len u s =
     (case s of [] \<Rightarrow> 0
      | c # cs \<Rightarrow> if is_ascii_char c then (if ascii_space c then 1 else 0)
          else (case find (has_prefix s) u of None \<Rightarrow> 0 | Some w \<Rightarrow> length w))"

function skip_space :: "gostring list \<Rightarrow> gostring \<Rightarrow> gostring" where
  "skip_space u s = (if s = [] \<or> space_len u s = 0 then s else skip_space u (drop (space_len u s) s))"
  by pat_completeness auto
termination
  by (relation "measure (\<lambda>(u, s). length s)") auto

declare skip_space.simps [simp del]

definition trim_left_space :: "gostring \<Rightarrow> gostring" where
  [go_defs]: "trim_left_space s = skip_space utf8_spaces s"

definition trim_right_space :: "gostring \<Rightarrow> gostring" where
  [go_defs]: "trim_right_space s = rev (skip_space (map rev utf8_spaces) (rev s))"

definition trim_space :: "gostring \<Rightarrow> gostring" where
  [go_defs]: "trim_space s = trim_right_space (trim_left_space s)"

text \<open>\<open>strings.Trim\<close>, \<open>TrimLeft\<close> and \<open>TrimRight\<close> with a cutset of ASCII characters.\<close>

definition trim_right :: "gostring \<Rightarrow> gostring \<Rightarrow> gostring" where
  [go_defs]: "trim_right s cutset = rev (dropWhile (\<lambda>c. c \<in> set cutset) (rev s))"

definition trim_set :: "gostring \<Rightarrow> gostring \<Rightarrow> gostring" where
  [go_defs]: "trim_set s cutset = trim_right (dropWhile (\<lambda>c. c \<in> set cutset) s) cutset"

definition to_lower :: "gostring \<Rightarrow> gostring" where
  [go_defs]: "to_lower s = map lower_char s"

definition to_upper :: "gostring \<Rightarrow> gostring" where
  [go_defs]: "to_upper s = map upper_char s"

definition equal_fold :: "gostring \<Rightarrow> gostring \<Rightarrow> bool" where
  [go_defs]: "equal_fold s t = (to_lower s = to_lower t)"

text \<open>\<open>strings.Fields\<close>: the words between runs of white space. \<open>acc\<close> holds the current word.\<close>

function fields_acc :: "gostring \<Rightarrow> gostring \<Rightarrow> gostring list" where
  "fields_acc acc s =
     (case s of [] \<Rightarrow> (if acc = [] then [] else [acc])
      | c # cs \<Rightarrow>
          if space_len utf8_spaces s = 0 then fields_acc (acc @ [c]) cs
          else (if acc = [] then [] else [acc]) @ fields_acc [] (drop (space_len utf8_spaces s) s))"
  by pat_completeness auto
termination
  by (relation "measure (\<lambda>(acc, s). length s)") auto

declare fields_acc.simps [simp del]

definition fields :: "gostring \<Rightarrow> gostring list" where
  [go_defs]: "fields s = fields_acc [] s"

subsection \<open>Numbers\<close>

text \<open>\<open>%d\<close> and \<open>strconv.Itoa\<close>; \<open>show_digits\<close> is for numbers that are not negative.\<close>

function show_digits :: "int \<Rightarrow> gostring" where
  "show_digits n = (if n < 10 then [char_of (48 + n)] else show_digits (n div 10) @ [char_of (48 + n mod 10)])"
  by pat_completeness auto
termination
  by (relation "measure nat") auto

declare show_digits.simps [simp del]

definition show_int :: "int \<Rightarrow> gostring" where
  [go_defs]: "show_int i = (if i < 0 then ''-'' @ show_digits (- i) else show_digits i)"

abbreviation show_nat :: "nat \<Rightarrow> gostring" where
  "show_nat n \<equiv> show_int (int n)"

fun digits_val :: "int \<Rightarrow> gostring \<Rightarrow> int" where
  "digits_val acc [] = acc"
| "digits_val acc (c # cs) = digits_val (10 * acc + digit_val c) cs"

text \<open>
  \<open>strconv.Atoi\<close> and \<open>strconv.ParseInt(s, 10, 64)\<close>: an optional sign, then at least one decimal
  digit and nothing else; a value outside the 64-bit range is an error. \<open>None\<close> is the error.
\<close>

definition atoi :: "gostring \<Rightarrow> int option" where
  [go_defs]: "atoi s =
     (let neg = has_prefix s ''-'';
          body = (if has_prefix s ''-'' \<or> has_prefix s ''+'' then drop 1 s else s)
      in if body = [] \<or> \<not> list_all is_digit body then None
         else let v = (if neg then - digits_val 0 body else digits_val 0 body)
              in if v < - (2 ^ 63) \<or> 2 ^ 63 \<le> v then None else Some v)"


subsection \<open>Characters\<close>

text \<open>
  The length of the UTF-8 sequence at the front of a string, as \<open>utf8.DecodeRuneInString\<close> gives it: 1 for an ASCII
  byte and for a byte that starts no valid sequence.
\<close>

definition cont_byte :: "nat \<Rightarrow> nat \<Rightarrow> char \<Rightarrow> bool" where
  "cont_byte lo hi c = (lo \<le> of_char c \<and> of_char c \<le> hi)"

definition rune_len :: "gostring \<Rightarrow> nat" where
  "rune_len s =
     (case s of
        a # b # c # e # t \<Rightarrow>
          let n = (of_char a :: nat) in
          if 0xC2 \<le> n \<and> n \<le> 0xDF \<and> cont_byte 0x80 0xBF b then 2
          else if 0xE0 \<le> n \<and> n \<le> 0xEF \<and> cont_byte (if n = 0xE0 then 0xA0 else 0x80) (if n = 0xED then 0x9F else 0xBF) b \<and> cont_byte 0x80 0xBF c then 3
          else if 0xF0 \<le> n \<and> n \<le> 0xF4 \<and> cont_byte (if n = 0xF0 then 0x90 else 0x80) (if n = 0xF4 then 0x8F else 0xBF) b
                  \<and> cont_byte 0x80 0xBF c \<and> cont_byte 0x80 0xBF e then 4 else 1
      | [a, b, c] \<Rightarrow>
          let n = (of_char a :: nat) in
          if 0xC2 \<le> n \<and> n \<le> 0xDF \<and> cont_byte 0x80 0xBF b then 2
          else if 0xE0 \<le> n \<and> n \<le> 0xEF \<and> cont_byte (if n = 0xE0 then 0xA0 else 0x80) (if n = 0xED then 0x9F else 0xBF) b \<and> cont_byte 0x80 0xBF c then 3
          else 1
      | [a, b] \<Rightarrow> if 0xC2 \<le> (of_char a :: nat) \<and> (of_char a :: nat) \<le> 0xDF \<and> cont_byte 0x80 0xBF b then 2 else 1
      | _ \<Rightarrow> 1)"

text \<open>The conversion \<open>[]rune(s)\<close>, each character as its bytes.\<close>

function runes :: "gostring \<Rightarrow> gostring list" where
  "runes s = (if s = [] then [] else take (rune_len s) s # runes (drop (rune_len s) s))"
  by pat_completeness auto

lemma rune_len_pos: "0 < rune_len s"
  by (auto simp: rune_len_def Let_def split: list.splits)

termination runes
  by (relation "measure length") (use rune_len_pos in \<open>auto simp: diff_less\<close>)

declare runes.simps [simp del]

subsection \<open>Laws: prefixes and searching\<close>

lemma has_prefix_iff: "has_prefix s p \<longleftrightarrow> prefix p s"
  by (induction s p rule: has_prefix.induct) auto

lemma has_prefixE: "has_prefix s p \<Longrightarrow> (\<And>t. s = p @ t \<Longrightarrow> thesis) \<Longrightarrow> thesis"
  by (auto simp: has_prefix_iff prefix_def)

lemma has_prefix_append [simp]: "has_prefix (p @ s) p"
  by (simp add: has_prefix_iff)

lemma has_prefix_self [simp]: "has_prefix s s"
  by (simp add: has_prefix_iff)

lemma has_prefix_take: "has_prefix s p \<longleftrightarrow> take (length p) s = p"
  by (auto simp: has_prefix_iff prefix_def) (metis append_take_drop_id)

lemma has_suffix_iff: "has_suffix s p \<longleftrightarrow> suffix p s"
  by (simp add: has_suffix_def has_prefix_iff suffix_to_prefix)

lemma has_suffixE: "has_suffix s p \<Longrightarrow> (\<And>t. s = t @ p \<Longrightarrow> thesis) \<Longrightarrow> thesis"
  by (auto simp: has_suffix_iff suffix_def)

lemma has_suffix_append [simp]: "has_suffix (s @ p) p"
  by (simp add: has_suffix_iff suffix_def)

lemma has_suffix_cancel [simp]: "has_suffix (s @ q) (p @ q) = has_suffix s p"
  by (simp add: has_suffix_iff suffix_def)

lemma trim_prefix_append [simp]: "trim_prefix (p @ s) p = s"
  by (simp add: trim_prefix_def)

lemma trim_suffix_append [simp]: "trim_suffix (s @ p) p = s"
  by (simp add: trim_suffix_def)

lemma index_Some:
  "index s sub = Some i \<Longrightarrow> i + length sub \<le> length s \<and> take (length sub) (drop i s) = sub"
proof (induction s sub arbitrary: i rule: index.induct)
  case (1 sub)
  then show ?case by (auto split: if_splits)
next
  case (2 c cs sub)
  then show ?case
    by (auto simp: has_prefix_take split: if_splits dest: arg_cong [of _ _ length])
qed

lemma index_split: "index s sub = Some i \<Longrightarrow> s = take i s @ sub @ drop (i + length sub) s"
  by (metis (no_types) index_Some append_take_drop_id drop_drop add.commute)

lemma index_None: "index s sub = None \<Longrightarrow> \<not> sublist sub s"
proof (induction s sub rule: index.induct)
  case (1 sub)
  then show ?case by (auto split: if_splits)
next
  case (2 c cs sub)
  then show ?case by (auto simp: has_prefix_iff sublist_Cons_right split: if_splits)
qed

lemma index_append_first:
  assumes "index s sub = Some i"
  shows "index (s @ t) sub = Some i"
  using assms
proof (induction s sub arbitrary: i rule: index.induct)
  case (1 sub)
  then show ?case by (cases t) (auto split: if_splits)
next
  case (2 c cs sub)
  show ?case
  proof (cases "has_prefix (c # cs) sub")
    case True
    then have "has_prefix ((c # cs) @ t) sub" by (metis has_prefix_iff prefix_prefix)
    with True 2 show ?thesis by simp
  next
    case False
    with 2 obtain j where j: "index cs sub = Some j" "i = Suc j" by auto
    have "length sub \<le> length (c # cs)" using index_Some [OF j(1)] by simp
    then have "take (length sub) ((c # cs) @ t) = take (length sub) (c # cs)"
      by (simp only: take_append) simp
    with False have "\<not> has_prefix ((c # cs) @ t) sub" by (metis has_prefix_take)
    with 2 False j show ?thesis by auto
  qed
qed

lemma contains_iff: "contains s sub \<longleftrightarrow> sublist sub s"
proof
  assume "contains s sub"
  then obtain i where "index s sub = Some i" by (auto simp: contains_def)
  then show "sublist sub s" by (metis index_split sublist_appendI)
next
  assume "sublist sub s"
  then show "contains s sub" using index_None [of s sub] by (auto simp: contains_def)
qed

lemma index_char_None [simp]: "index s [c] = None \<longleftrightarrow> c \<notin> set s"
  by (induction s) auto

lemma index_char_takeWhile: "index s [c] = Some i \<Longrightarrow> take i s = takeWhile (\<lambda>x. x \<noteq> c) s"
  by (induction s arbitrary: i) (auto split: if_splits)

lemma index_char_first: "index s [c] = Some i \<Longrightarrow> c \<notin> set (take i s) \<and> i < length s \<and> s ! i = c"
  by (induction s arbitrary: i) (auto split: if_splits)

lemma index_char_append [simp]: "c \<notin> set s \<Longrightarrow> index (s @ c # t) [c] = Some (length s)"
  by (induction s) auto

lemma cut_char [simp]: "c \<notin> set s \<Longrightarrow> cut (s @ c # t) [c] = (s, t, True)"
  by (simp add: cut_def)

lemma cut_none [simp]: "index s sep = None \<Longrightarrow> cut s sep = (s, [], False)"
  by (simp add: cut_def)

lemma cut_Some: "cut s sep = (a, b, True) \<Longrightarrow> s = a @ sep @ b"
  by (auto simp: cut_def split: option.splits dest: index_split)

lemma cut_set: "cut s sep = (a, b, x) \<Longrightarrow> set a \<subseteq> set s \<and> set b \<subseteq> set s"
  by (auto simp: cut_def split: option.splits dest: in_set_takeD in_set_dropD)

subsection \<open>Laws: split and join\<close>

lemma split_not_Nil [simp]: "split c s \<noteq> []"
  by (cases s) (auto split: list.splits)

lemma split_no_sep: "w \<in> set (split c s) \<Longrightarrow> c \<notin> set w"
proof (induction s arbitrary: w)
  case Nil
  then show ?case by simp
next
  case (Cons x xs)
  show ?case
  proof (cases "x = c")
    case True
    with Cons show ?thesis by auto
  next
    case False
    obtain v vs where v: "split c xs = v # vs" by (cases "split c xs") auto
    with Cons False show ?thesis by auto
  qed
qed

lemma split_set: "w \<in> set (split c s) \<Longrightarrow> set w \<subseteq> set s"
proof (induction s arbitrary: w)
  case Nil
  then show ?case by simp
next
  case (Cons x xs)
  obtain v vs where v: "split c xs = v # vs" by (cases "split c xs") auto
  from Cons.prems consider "x = c" "w = []" | "w = x # v" "x \<noteq> c" | "w \<in> set (split c xs)"
    by (auto simp: v split: if_splits)
  then show ?case using Cons.IH [of v] Cons.IH [of w] v by cases auto
qed

lemma split_no_occ [simp]: "c \<notin> set s \<Longrightarrow> split c s = [s]"
  by (induction s) auto

lemma split_append_sep [simp]: "c \<notin> set w \<Longrightarrow> split c (w @ c # s) = w # split c s"
  by (induction w) auto

lemma split_append: "split c (s @ c # t) = split c s @ split c t"
proof (induction s)
  case (Cons x s)
  then show ?case by (cases "split c s") auto
qed simp

lemma join_split: "join [c] (split c s) = s"
proof (induction s)
  case Nil
  then show ?case by simp
next
  case (Cons x xs)
  obtain v vs where v: "split c xs = v # vs" by (cases "split c xs") auto
  with Cons show ?case by (cases vs) auto
qed

lemma split_join: "ws \<noteq> [] \<Longrightarrow> (\<And>w. w \<in> set ws \<Longrightarrow> c \<notin> set w) \<Longrightarrow> split c (join [c] ws) = ws"
  by (induction "[c]" ws rule: join.induct) auto

lemma join_append:
  "xs \<noteq> [] \<Longrightarrow> ys \<noteq> [] \<Longrightarrow> join sep (xs @ ys) = join sep xs @ sep @ join sep ys"
proof (induction sep xs rule: join.induct)
  case (2 sep w)
  then show ?case by (cases ys) auto
qed auto

lemma set_join: "set (join sep ws) \<subseteq> set sep \<union> (\<Union>w\<in>set ws. set w)"
  by (induction sep ws rule: join.induct) auto

interpretation lines: codec "join [c]" "split c" "\<lambda>ws. ws \<noteq> [] \<and> (\<forall>w\<in>set ws. c \<notin> set w)"
  by unfold_locales (auto intro: split_join)


subsection \<open>Laws: white space\<close>

definition plain_char :: "char \<Rightarrow> bool" where
  "plain_char c = (is_ascii_char c \<and> \<not> ascii_space c)"

lemma space_len_Nil [simp]: "space_len u [] = 0"
  by (simp add: space_len_def)

lemma space_len_plain [simp]: "plain_char c \<Longrightarrow> space_len u (c # cs) = 0"
  by (simp add: space_len_def plain_char_def)

lemma space_len_prefix:
  assumes "prefix p t" and "space_len u t = 0" and "[] \<notin> set u"
  shows "space_len u p = 0"
proof (cases p)
  case Nil
  then show ?thesis by simp
next
  case (Cons c cs)
  with assms(1) obtain ds where t: "t = c # ds" and ds: "prefix cs ds" by (cases t) auto
  show ?thesis
  proof (cases "is_ascii_char c")
    case True
    with assms(2) Cons t show ?thesis by (auto simp: space_len_def)
  next
    case False
    have none: "find (has_prefix t) u = None"
    proof (rule ccontr)
      assume "find (has_prefix t) u \<noteq> None"
      then obtain w where w: "find (has_prefix t) u = Some w" by auto
      then have "w \<in> set u" by (metis find_Some_iff nth_mem)
      with w assms False t show False by (auto simp: space_len_def)
    qed
    then have "\<not> has_prefix p w" if "w \<in> set u" for w
      using that assms(1) by (auto simp: find_None_iff has_prefix_iff dest: prefix_order.trans)
    then have "find (has_prefix p) u = None" by (auto simp: find_None_iff)
    with Cons False show ?thesis by (simp add: space_len_def)
  qed
qed

lemma skip_space_id [simp]: "space_len u s = 0 \<Longrightarrow> skip_space u s = s"
  by (simp add: skip_space.simps)

lemma skip_space_Nil [simp]: "skip_space u [] = []"
  by simp

lemma skip_space_done [simp]: "space_len u (skip_space u s) = 0"
proof (induction u s rule: skip_space.induct)
  case (1 u s)
  then show ?case by (subst skip_space.simps) auto
qed

lemma skip_space_suffix: "suffix (skip_space u s) s"
proof (induction u s rule: skip_space.induct)
  case (1 u s)
  show ?case
  proof (cases "s = [] \<or> space_len u s = 0")
    case True
    then show ?thesis by (auto simp: skip_space.simps [of u s])
  next
    case False
    with 1 have "suffix (skip_space u (drop (space_len u s) s)) (drop (space_len u s) s)" by simp
    then have "suffix (skip_space u (drop (space_len u s) s)) s"
      by (meson suffix_drop suffix_order.trans)
    with False show ?thesis by (simp add: skip_space.simps [of u s])
  qed
qed

lemma utf8_spaces_not_Nil: "[] \<notin> set utf8_spaces" "[] \<notin> set (map rev utf8_spaces)"
  by (simp_all add: utf8_spaces_def)

lemma trim_left_space_suffix: "suffix (trim_left_space s) s"
  by (simp add: trim_left_space_def skip_space_suffix)

lemma trim_right_space_prefix: "prefix (trim_right_space s) s"
  by (simp add: trim_right_space_def suffix_to_prefix [symmetric] skip_space_suffix
      flip: suffix_to_prefix) (metis rev_rev_ident skip_space_suffix suffix_to_prefix)

lemma trim_space_sublist: "sublist (trim_space s) s"
  unfolding trim_space_def
  by (meson prefix_imp_sublist suffix_imp_sublist sublist_order.order_trans
      trim_left_space_suffix trim_right_space_prefix)

lemma set_trim_space [go_sets]: "set (trim_space s) \<subseteq> set s"
  by (meson trim_space_sublist set_mono_sublist)

lemma length_trim_space: "length (trim_space s) \<le> length s"
  by (meson sublist_length_le trim_space_sublist)

lemma trim_space_Nil [simp]: "trim_space [] = []"
  by (simp add: trim_space_def trim_left_space_def trim_right_space_def)

lemma trim_space_front [simp]: "space_len utf8_spaces (trim_space s) = 0"
proof -
  have "space_len utf8_spaces (trim_left_space s) = 0"
    by (simp add: trim_left_space_def)
  with trim_right_space_prefix show ?thesis
    unfolding trim_space_def using space_len_prefix utf8_spaces_not_Nil(1) by blast
qed

lemma trim_space_back [simp]: "space_len (map rev utf8_spaces) (rev (trim_space s)) = 0"
  by (simp add: trim_space_def trim_right_space_def)

lemma trim_space_idI:
  "space_len utf8_spaces s = 0 \<Longrightarrow> space_len (map rev utf8_spaces) (rev s) = 0 \<Longrightarrow> trim_space s = s"
  by (simp add: trim_space_def trim_left_space_def trim_right_space_def)

lemma trim_space_idem [simp]: "trim_space (trim_space s) = trim_space s"
  by (rule trim_space_idI) simp_all

lemma trim_space_plain:
  assumes "s \<noteq> []" "plain_char (hd s)" "plain_char (last s)"
  shows "trim_space s = s"
proof (rule trim_space_idI)
  show "space_len utf8_spaces s = 0"
    using assms by (cases s) auto
  obtain ys y where s: "s = ys @ [y]" using assms(1) by (meson rev_exhaust)
  then show "space_len (map rev utf8_spaces) (rev s) = 0"
    using assms by simp
qed

lemma fields_words: "w \<in> set (fields_acc acc s) \<Longrightarrow> w \<noteq> [] \<and> set w \<subseteq> set acc \<union> set s"
proof (induction acc s rule: fields_acc.induct)
  case (1 acc s)
  show ?case
  proof (cases s)
    case Nil
    with 1 show ?thesis by (auto simp: fields_acc.simps [of acc "[]"] split: if_splits)
  next
    case (Cons c cs)
    show ?thesis
    proof (cases "space_len utf8_spaces s = 0")
      case True
      with 1 Cons show ?thesis by (auto simp: fields_acc.simps [of acc "c # cs"])
    next
      case False
      with 1(3) Cons have "w = acc \<and> acc \<noteq> [] \<or> w \<in> set (fields_acc [] (drop (space_len utf8_spaces s) s))"
        by (auto simp: fields_acc.simps [of acc "c # cs"] split: if_splits)
      with 1(2) [OF Cons False] show ?thesis by (auto dest: in_set_dropD)
    qed
  qed
qed

lemma fields_not_Nil: "w \<in> set (fields s) \<Longrightarrow> w \<noteq> []"
  by (auto simp: fields_def dest: fields_words)

lemma fields_set [go_sets]: "w \<in> set (fields s) \<Longrightarrow> set w \<subseteq> set s"
  using fields_words [of w "[]" s] by (auto simp: fields_def)


subsection \<open>Laws: case mapping\<close>

lemma lower_char_idem [simp]: "lower_char (lower_char c) = lower_char c"
  by (simp add: lower_char_def Let_def)

lemma to_lower_idem [simp]: "to_lower (to_lower s) = to_lower s"
  by (simp add: to_lower_def)

lemma to_lower_append [simp]: "to_lower (s @ t) = to_lower s @ to_lower t"
  by (simp add: to_lower_def)

lemma to_lower_Nil [simp]: "to_lower [] = []" "to_lower s = [] \<longleftrightarrow> s = []"
  by (simp_all add: to_lower_def)

lemma length_to_lower [simp]: "length (to_lower s) = length s"
  by (simp add: to_lower_def)

lemma is_ascii_lower [simp]: "is_ascii_char (lower_char c) = is_ascii_char c"
  by (simp add: lower_char_def is_ascii_char_def Let_def)

lemma ascii_space_lower [simp]: "ascii_space (lower_char c) = ascii_space c"
  by (auto simp: lower_char_def ascii_space_def Let_def)

lemma lower_char_non_ascii [simp]: "\<not> is_ascii_char c \<Longrightarrow> lower_char c = c"
  by (simp add: lower_char_def is_ascii_char_def Let_def)

lemma lower_char_eq_non_ascii: "\<not> is_ascii_char d \<Longrightarrow> lower_char c = d \<longleftrightarrow> c = d"
  by (metis is_ascii_lower lower_char_non_ascii)

lemma has_prefix_map_lower:
  "list_all (\<lambda>d. \<not> is_ascii_char d) w \<Longrightarrow> has_prefix (map lower_char s) w = has_prefix s w"
  by (induction s w rule: has_prefix.induct) (auto simp: lower_char_eq_non_ascii)

lemma space_len_lower:
  assumes "\<And>w. w \<in> set u \<Longrightarrow> list_all (\<lambda>d. \<not> is_ascii_char d) w"
  shows "space_len u (map lower_char s) = space_len u s"
proof (cases s)
  case Nil
  then show ?thesis by simp
next
  case (Cons c cs)
  have "find (has_prefix (map lower_char s)) u = find (has_prefix s) u"
    using assms by (intro find_cong) (auto simp: has_prefix_map_lower)
  with Cons show ?thesis by (cases "is_ascii_char c") (simp_all add: space_len_def)
qed

lemma skip_space_lower:
  assumes "\<And>w. w \<in> set u \<Longrightarrow> list_all (\<lambda>d. \<not> is_ascii_char d) w"
  shows "skip_space u (map lower_char s) = map lower_char (skip_space u s)"
  using assms
proof (induction u s rule: skip_space.induct)
  case (1 u s)
  then show ?case
    by (cases "s = [] \<or> space_len u s = 0")
      (auto simp: skip_space.simps [of u s] skip_space.simps [of u "map lower_char s"]
        space_len_lower drop_map)
qed

lemma utf8_spaces_non_ascii:
  "w \<in> set utf8_spaces \<Longrightarrow> list_all (\<lambda>d. \<not> is_ascii_char d) w"
  "w \<in> set (map rev utf8_spaces) \<Longrightarrow> list_all (\<lambda>d. \<not> is_ascii_char d) w"
  by (auto simp: utf8_spaces_def is_ascii_char_def)

lemma skip_space_lower_utf8:
  "skip_space utf8_spaces (map lower_char s) = map lower_char (skip_space utf8_spaces s)"
  "skip_space (map rev utf8_spaces) (map lower_char s) =
     map lower_char (skip_space (map rev utf8_spaces) s)"
  by (rule skip_space_lower, erule utf8_spaces_non_ascii)+

lemma trim_space_to_lower: "trim_space (to_lower s) = to_lower (trim_space s)"
  by (simp add: trim_space_def trim_left_space_def trim_right_space_def to_lower_def
      skip_space_lower_utf8 rev_map)

lemma trim_space_to_lower_trim [simp]: "trim_space (to_lower (trim_space s)) = to_lower (trim_space s)"
  by (simp add: trim_space_to_lower)

lemma to_lower_no_char:
  assumes "lower_char c = c" and "c \<in> set (to_lower s)"
  shows "\<exists>d\<in>set s. lower_char d = c"
  using assms by (auto simp: to_lower_def)

lemma equal_fold_refl [simp]: "equal_fold s s"
  by (simp add: equal_fold_def)

subsection \<open>Laws: replacing\<close>

lemma replace_all_remove_char [simp]: "replace_all [c] [] s = filter (\<lambda>x. x \<noteq> c) s"
  by (induction s) auto

lemma replace_all_char: "replace_all [c] w s = concat (map (\<lambda>x. if x = c then w else [x]) s)"
  by (induction s) auto

lemma replace_all_absent [simp]: "old \<noteq> [] \<Longrightarrow> \<not> sublist old s \<Longrightarrow> replace_all old new s = s"
  by (induction s) (auto simp: has_prefix_iff sublist_Cons_right)

definition to_lf :: "gostring \<Rightarrow> gostring" where
  [go_defs]: "to_lf s = replace_all crlf [LF] s"

definition to_crlf :: "gostring \<Rightarrow> gostring" where
  [go_defs]: "to_crlf s = replace_all [LF] crlf s"

lemma to_lf_simps [simp]:
  "to_lf [] = []"
  "to_lf (CR # LF # s) = LF # to_lf s"
  "c \<noteq> CR \<Longrightarrow> to_lf (c # s) = c # to_lf s"
  "to_lf [c] = [c]"
  "d \<noteq> LF \<Longrightarrow> to_lf (c # d # s) = c # to_lf (d # s)"
  by (simp_all add: to_lf_def)

lemma to_crlf_simps [simp]:
  "to_crlf [] = []"
  "to_crlf (LF # s) = CR # LF # to_crlf s"
  "c \<noteq> LF \<Longrightarrow> to_crlf (c # s) = c # to_crlf s"
  by (simp_all add: to_crlf_def)

lemma to_crlf_append: "to_crlf (s @ t) = to_crlf s @ to_crlf t"
  by (simp add: to_crlf_def replace_all_char)

lemma to_crlf_no_lf: "LF \<notin> set s \<Longrightarrow> to_crlf s = s"
  by (induction s) auto

lemma to_crlf_hd: "to_crlf s \<noteq> LF # t"
  by (cases s; cases "hd s = LF") auto

text \<open>Normalising the line ends of a text written with CRLF gives the text back, for every text.\<close>

lemma to_lf_to_crlf [simp]: "to_lf (to_crlf s) = s"
proof (induction s)
  case Nil
  then show ?case by simp
next
  case (Cons c s)
  show ?case
  proof (cases "c = LF")
    case True
    with Cons show ?thesis by simp
  next
    case False
    show ?thesis
    proof (cases "to_crlf s")
      case Nil
      with False Cons show ?thesis by (cases s) auto
    next
      case (Cons d t)
      with to_crlf_hd [of s t] have "d \<noteq> LF" by auto
      with Cons False Cons.IH show ?thesis by simp
    qed
  qed
qed

interpretation line_ends: codec to_crlf to_lf "\<lambda>_. True"
  by unfold_locales simp

subsection \<open>Laws: decimal numbers\<close>

lemma digits_val_append: "digits_val a (xs @ [c]) = 10 * digits_val a xs + digit_val c"
  by (induction xs arbitrary: a) auto

lemma is_digit_char_of: "0 \<le> n \<Longrightarrow> n < 10 \<Longrightarrow> is_digit (char_of (48 + n :: int))"
  by (simp add: is_digit_def Let_def)

lemma digit_val_char_of: "0 \<le> n \<Longrightarrow> n < 10 \<Longrightarrow> digit_val (char_of (48 + n :: int)) = n"
  by (simp add: digit_val_def)

lemma show_digits_digits: "0 \<le> n \<Longrightarrow> list_all is_digit (show_digits n)"
proof (induction n rule: show_digits.induct)
  case (1 n)
  then show ?case by (subst show_digits.simps) (auto simp: is_digit_char_of)
qed

lemma show_digits_not_Nil [simp]: "show_digits n \<noteq> []"
  by (subst show_digits.simps) simp

lemma digits_val_show [simp]: "0 \<le> n \<Longrightarrow> digits_val 0 (show_digits n) = n"
proof (induction n rule: show_digits.induct)
  case (1 n)
  show ?case
  proof (cases "n < 10")
    case True
    with 1 show ?thesis by (subst show_digits.simps) (simp add: digit_val_char_of)
  next
    case False
    with 1 have ih: "digits_val 0 (show_digits (n div 10)) = n div 10" by simp
    show ?thesis
      by (subst show_digits.simps) (use False ih in \<open>simp add: digits_val_append digit_val_char_of\<close>)
  qed
qed

lemma show_digits_no_sign:
  assumes "0 \<le> n"
  shows "\<not> has_prefix (show_digits n) ''-''" "\<not> has_prefix (show_digits n) ''+''"
  using show_digits_digits [OF assms] by (cases "show_digits n"; auto simp: is_digit_def)+

lemma show_int_set: "set (show_int i) \<subseteq> insert (CHR ''-'') {c. is_digit c}"
  using show_digits_digits [of i] show_digits_digits [of "- i"]
  by (auto simp: show_int_def list_all_iff)

lemma atoi_show_int:
  assumes "- (2 ^ 63) \<le> i" and "i < 2 ^ 63"
  shows "atoi (show_int i) = Some i"
proof (cases "i < 0")
  case True
  with assms show ?thesis
    using show_digits_digits [of "- i"] by (auto simp: atoi_def show_int_def Let_def)
next
  case False
  with assms show ?thesis
    using show_digits_digits [of i] show_digits_no_sign [of i] by (auto simp: atoi_def show_int_def Let_def)
qed

interpretation decimal: codec show_int "the \<circ> atoi" "\<lambda>i. - (2 ^ 63) \<le> i \<and> i < 2 ^ 63"
  by unfold_locales (simp add: atoi_show_int)

end
