(* ===== verification/Regex.thy ===== *)
theory Regex
  imports Go_Strings
begin

text \<open>
  The part of Go's package \<open>regexp\<close> that the analyzer uses: patterns over characters (as \<open>runes\<close> gives them) with classes, sequence,
  alternatives, greedy repetition and groups. Go prefers the leftmost match and among those the one a backtracking matcher would find first; \<open>alts\<close>
  lists what is left of the text after every possible match at its front, in this order of preference. The declarative meaning of a
  pattern is its language \<open>lang\<close>, and the lemmas at the end show that the matcher finds a match exactly where the language has a word.
\<close>

subsection \<open>Patterns\<close>

type_synonym rune = gostring

type_synonym captures = "(nat \<times> gostring) list"

datatype rx =
    RNil
  | ROne "rune \<Rightarrow> bool"
  | RSeq rx rx
  | RAlt rx rx
  | RStar rx
  | RCap nat rx

definition opt :: "rx \<Rightarrow> rx" where "opt r = RAlt r RNil"

definition plus1 :: "rx \<Rightarrow> rx" where "plus1 r = RSeq r (RStar r)"

text \<open>At most \<open>n\<close> times, and between once and \<open>n\<close> times.\<close>

fun upto_times :: "nat \<Rightarrow> rx \<Rightarrow> rx" where
  "upto_times 0 r = RNil"
| "upto_times (Suc n) r = opt (RSeq r (upto_times n r))"

definition times1 :: "nat \<Rightarrow> rx \<Rightarrow> rx" where "times1 n r = RSeq r (upto_times (n - 1) r)"

definition seq :: "rx list \<Rightarrow> rx" where "seq rs = foldr RSeq rs RNil"

fun any_of :: "rx list \<Rightarrow> rx" where
  "any_of [r] = r"
| "any_of (r # rs) = RAlt r (any_of rs)"
| "any_of [] = ROne (\<lambda>_. False)"

text \<open>A class of ASCII characters and its complement.\<close>

definition in_class :: "(char \<Rightarrow> bool) \<Rightarrow> rune \<Rightarrow> bool" where
  "in_class p r = (case r of [c] \<Rightarrow> is_ascii_char c \<and> p c | _ \<Rightarrow> False)"

definition cls :: "(char \<Rightarrow> bool) \<Rightarrow> rx" where "cls p = ROne (in_class p)"

definition ncls :: "(char \<Rightarrow> bool) \<Rightarrow> rx" where "ncls p = ROne (\<lambda>r. \<not> in_class p r)"

definition lit :: "gostring \<Rightarrow> rx" where "lit s = seq (map (\<lambda>r. ROne (\<lambda>r'. r' = r)) (runes s))"

text \<open>
  The flag \<open>(?i)\<close>: characters that Unicode folds to the same one. The patterns contain ASCII letters and the small a with
  diaeresis; beyond ASCII the Kelvin sign folds to k, the long s to s, and the Latin-1 capitals to their small letters.
\<close>

definition fold_rune :: "rune \<Rightarrow> rune" where
  "fold_rune r =
     (if r = [CHR 0xE2, CHR 0x84, CHR 0xAA] then ''k''
      else if r = [CHR 0xC5, CHR 0xBF] then ''s''
      else (case r of
          [c] \<Rightarrow> [lower_char c]
        | [a, b] \<Rightarrow> if a = CHR 0xC3 \<and> (of_char b :: nat) \<le> 0x9E \<and> b \<noteq> CHR 0x97 then [a, char_of ((of_char b :: nat) + 0x20)] else r
        | _ \<Rightarrow> r))"

definition ilit :: "gostring \<Rightarrow> rx" where
  "ilit s = seq (map (\<lambda>r. ROne (\<lambda>r'. fold_rune r' = fold_rune r)) (runes s))"

definition rx_space :: "char \<Rightarrow> bool" where "rx_space c = (c \<in> {TAB, LF, CHR 0x0C, CR, SP})"

definition rx_dot :: rx where "rx_dot = ncls (\<lambda>c. c = LF)"

subsection \<open>Matching\<close>

definition join_alts :: "(rune list \<Rightarrow> (rune list \<times> captures) list) \<Rightarrow> (rune list \<times> captures) list \<Rightarrow> (rune list \<times> captures) list" where
  "join_alts f ms = concat (map (\<lambda>(t, cs). map (\<lambda>(u, ds). (u, cs @ ds)) (f t)) ms)"

fun star_alts :: "(rune list \<Rightarrow> (rune list \<times> captures) list) \<Rightarrow> nat \<Rightarrow> rune list \<Rightarrow> (rune list \<times> captures) list" where
  "star_alts f 0 s = [(s, [])]"
| "star_alts f (Suc n) s = join_alts (star_alts f n) (filter (\<lambda>(t, cs). length t < length s) (f s)) @ [(s, [])]"

definition consumed :: "rune list \<Rightarrow> rune list \<Rightarrow> gostring" where
  "consumed s t = concat (take (length s - length t) s)"

primrec alts :: "rx \<Rightarrow> rune list \<Rightarrow> (rune list \<times> captures) list" where
  "alts RNil s = [(s, [])]"
| "alts (ROne p) s = (case s of [] \<Rightarrow> [] | r # t \<Rightarrow> if p r then [(t, [])] else [])"
| "alts (RSeq a b) s = join_alts (alts b) (alts a s)"
| "alts (RAlt a b) s = alts a s @ alts b s"
| "alts (RStar a) s = star_alts (alts a) (length s) s"
| "alts (RCap n a) s = map (\<lambda>(t, cs). (t, cs @ [(n, consumed s t)])) (alts a s)"

text \<open>\<open>FindStringSubmatch\<close>: the leftmost match with its groups.\<close>

fun search :: "rx \<Rightarrow> rune list \<Rightarrow> (gostring \<times> captures) option" where
  "search r [] = (case alts r [] of [] \<Rightarrow> None | (t, cs) # _ \<Rightarrow> Some ([], cs))"
| "search r (c # s) =
     (case alts r (c # s) of [] \<Rightarrow> search r s | (t, cs) # _ \<Rightarrow> Some (consumed (c # s) t, cs))"

definition match_string :: "rx \<Rightarrow> gostring \<Rightarrow> bool" where
  "match_string r s = (search r (runes s) \<noteq> None)"

definition find_submatch :: "rx \<Rightarrow> gostring \<Rightarrow> (gostring \<times> captures) option" where
  "find_submatch r s = search r (runes s)"

definition group_text :: "captures \<Rightarrow> nat \<Rightarrow> gostring" where
  "group_text cs n = (case map_of cs n of Some t \<Rightarrow> t | None \<Rightarrow> [])"

text \<open>\<open>FindAllString\<close> for patterns that do not match the empty string: the matches one after the other, without overlap.\<close>

function all_matches :: "rx \<Rightarrow> rune list \<Rightarrow> gostring list" where
  "all_matches r s =
     (case s of
        [] \<Rightarrow> []
      | c # u \<Rightarrow>
          (case alts r s of
             [] \<Rightarrow> all_matches r u
           | (t, cs) # _ \<Rightarrow> if length t < length s then consumed s t # all_matches r t else all_matches r u))"
  by pat_completeness auto
termination
  by (relation "measure (\<lambda>(r, s). length s)") auto

declare all_matches.simps [simp del]

definition find_all_string :: "rx \<Rightarrow> gostring \<Rightarrow> gostring list" where
  "find_all_string r s = all_matches r (runes s)"

subsection \<open>Languages\<close>

definition conc :: "rune list set \<Rightarrow> rune list set \<Rightarrow> rune list set" where
  "conc A B = {u @ v | u v. u \<in> A \<and> v \<in> B}"

inductive_set star :: "rune list set \<Rightarrow> rune list set" for A where
  star_Nil: "[] \<in> star A"
| star_step: "u \<in> A \<Longrightarrow> v \<in> star A \<Longrightarrow> u @ v \<in> star A"

primrec lang :: "rx \<Rightarrow> rune list set" where
  "lang RNil = {[]}"
| "lang (ROne p) = {[r] | r. p r}"
| "lang (RSeq a b) = conc (lang a) (lang b)"
| "lang (RAlt a b) = lang a \<union> lang b"
| "lang (RStar a) = star (lang a)"
| "lang (RCap n a) = lang a"

subsection \<open>The matcher finds the words of the language\<close>

definition rests :: "(rune list \<times> captures) list \<Rightarrow> rune list set" where
  "rests ms = fst ` set ms"

lemma rests_join: "t \<in> rests (join_alts f ms) \<longleftrightarrow> (\<exists>u \<in> rests ms. t \<in> rests (f u))"
  by (force simp: rests_def join_alts_def)

lemma rests_append [simp]: "rests (xs @ ys) = rests xs \<union> rests ys"
  by (auto simp: rests_def)

lemma rests_shorter: "rests (filter (\<lambda>(t, cs). length t < n) ms) = {t \<in> rests ms. length t < n}"
  by (force simp: rests_def)

lemma star_nonempty_step: "w \<in> star A \<Longrightarrow> w \<noteq> [] \<Longrightarrow> \<exists>u v. w = u @ v \<and> u \<in> A \<and> u \<noteq> [] \<and> v \<in> star A"
proof (induction rule: star.induct)
  case (star_step u v)
  then show ?case by (cases "u = []") auto
qed simp

lemma star_alts_rests:
  assumes f: "\<And>s t. t \<in> rests (f s) \<longleftrightarrow> (\<exists>w \<in> A. s = w @ t)"
  shows "length s \<le> n \<Longrightarrow> t \<in> rests (star_alts f n s) \<longleftrightarrow> (\<exists>w \<in> star A. s = w @ t)"
proof (induction n arbitrary: s)
  case 0
  then show ?case by (auto simp: rests_def intro: star.star_Nil)
next
  case (Suc n)
  have IH: "t \<in> rests (star_alts f n u) \<longleftrightarrow> (\<exists>w \<in> star A. u = w @ t)" if "length u < length s" for u
    using that Suc.prems by (intro Suc.IH) simp
  have "t \<in> rests (star_alts f (Suc n) s) \<longleftrightarrow>
      t = s \<or> (\<exists>u. u \<in> rests (f s) \<and> length u < length s \<and> t \<in> rests (star_alts f n u))"
    by (auto simp: rests_join rests_shorter) (auto simp: rests_def)
  also have "\<dots> \<longleftrightarrow> t = s \<or> (\<exists>u v w. s = v @ u \<and> v \<in> A \<and> v \<noteq> [] \<and> u = w @ t \<and> w \<in> star A)" (is "_ \<longleftrightarrow> ?steps")
  proof -
    have "u \<in> rests (f s) \<and> length u < length s \<longleftrightarrow> (\<exists>v. s = v @ u \<and> v \<in> A \<and> v \<noteq> [])" for u
    proof
      assume "u \<in> rests (f s) \<and> length u < length s"
      then obtain v where "v \<in> A" "s = v @ u" "length u < length s" by (auto simp: f)
      then show "\<exists>v. s = v @ u \<and> v \<in> A \<and> v \<noteq> []" by (intro exI [of _ v]) auto
    qed (auto simp: f)
    then have "(\<exists>u. u \<in> rests (f s) \<and> length u < length s \<and> t \<in> rests (star_alts f n u))
        \<longleftrightarrow> (\<exists>u. (\<exists>v. s = v @ u \<and> v \<in> A \<and> v \<noteq> []) \<and> (\<exists>w \<in> star A. u = w @ t))"
      using IH by (intro ex_cong1) (metis (no_types, lifting))
    then show ?thesis by blast
  qed
  also have "\<dots> \<longleftrightarrow> (\<exists>w \<in> star A. s = w @ t)"
  proof
    assume ?steps
    then show "\<exists>w \<in> star A. s = w @ t"
      by (metis append_assoc append_Nil star.star_Nil star.star_step)
  next
    assume "\<exists>w \<in> star A. s = w @ t"
    then obtain w where w: "w \<in> star A" "s = w @ t" by blast
    show ?steps
    proof (cases "w = []")
      case False
      with star_nonempty_step [OF w(1)] obtain u v where "w = u @ v" "u \<in> A" "u \<noteq> []" "v \<in> star A" by blast
      with w(2) have "s = u @ (v @ t) \<and> u \<in> A \<and> u \<noteq> [] \<and> v \<in> star A" by simp
      then show ?thesis by blast
    qed (use w in simp)
  qed
  finally show ?case .
qed

theorem alts_lang: "t \<in> rests (alts r s) \<longleftrightarrow> (\<exists>w \<in> lang r. s = w @ t)"
proof (induction r arbitrary: s t)
  case (RSeq a b)
  have "t \<in> rests (alts (RSeq a b) s) \<longleftrightarrow> (\<exists>u. (\<exists>v \<in> lang a. s = v @ u) \<and> (\<exists>w \<in> lang b. u = w @ t))"
    using RSeq.IH by (simp add: rests_join Bex_def)
  also have "\<dots> \<longleftrightarrow> (\<exists>v \<in> lang a. \<exists>w \<in> lang b. s = v @ w @ t)" by blast
  also have "\<dots> \<longleftrightarrow> (\<exists>w \<in> lang (RSeq a b). s = w @ t)"
    proof -
    have "(\<exists>w \<in> conc (lang a) (lang b). s = w @ t) \<longleftrightarrow> (\<exists>v w. v \<in> lang a \<and> w \<in> lang b \<and> s = (v @ w) @ t)"
      unfolding conc_def by blast
    then show ?thesis by (simp add: Bex_def)
  qed
  finally show ?case .
next
  case (RStar a)
  then show ?case using star_alts_rests [of "alts a" "lang a" s "length s"] by simp
next
  case (RCap n a)
  have "rests (map (\<lambda>(t, cs). (t, cs @ [(n, consumed s t)])) ms) = rests ms" for ms by (force simp: rests_def)
  with RCap show ?case by simp
next
  case (RAlt a b)
  then show ?case by (simp add: bex_Un)
qed (auto simp: rests_def split: list.splits)

lemma alts_empty_iff: "alts r s = [] \<longleftrightarrow> (\<forall>w \<in> lang r. \<forall>t. s \<noteq> w @ t)"
proof -
  have "alts r s = [] \<longleftrightarrow> rests (alts r s) = {}" by (simp add: rests_def)
  then show ?thesis by (auto simp: alts_lang set_eq_iff)
qed

lemma alts_hd:
  assumes "alts r s = (t, cs) # ms"
  obtains w where "w \<in> lang r" "s = w @ t" "consumed s t = concat w"
proof -
  have "t \<in> rests (alts r s)" using assms by (simp add: rests_def)
  then obtain w where "w \<in> lang r" "s = w @ t" by (auto simp: alts_lang)
  then show thesis by (intro that) (auto simp: consumed_def)
qed

lemma search_None: "search r s = None \<longleftrightarrow> (\<forall>u w v. s = u @ w @ v \<longrightarrow> w \<notin> lang r)"
proof (induction s)
  case Nil
  have "search r [] = None \<longleftrightarrow> alts r [] = []" by (auto split: list.splits)
  moreover have "alts r [] = [] \<longleftrightarrow> [] \<notin> lang r" by (auto simp: alts_empty_iff)
  ultimately show ?case by auto
next
  case (Cons c s)
  show ?case
  proof (cases "alts r (c # s)")
    case Nil
    then have n: "\<forall>w \<in> lang r. \<forall>t. c # s \<noteq> w @ t" by (simp add: alts_empty_iff)
    have "(\<exists>u w v. c # s = u @ w @ v \<and> w \<in> lang r) \<longleftrightarrow> (\<exists>u w v. s = u @ w @ v \<and> w \<in> lang r)"
    proof
      assume "\<exists>u w v. c # s = u @ w @ v \<and> w \<in> lang r"
      then obtain u w v where uwv: "c # s = u @ w @ v" "w \<in> lang r" by blast
      with n obtain u' where "u = c # u'" by (cases u) auto
      with uwv show "\<exists>u w v. s = u @ w @ v \<and> w \<in> lang r" by auto
    qed (metis append_Cons)
    then have "(\<forall>u w v. c # s = u @ w @ v \<longrightarrow> w \<notin> lang r) \<longleftrightarrow> (\<forall>u w v. s = u @ w @ v \<longrightarrow> w \<notin> lang r)" by blast
    then show ?thesis using Nil Cons.IH by simp
  next
    case (Cons m ms)
    then obtain t cs where a: "alts r (c # s) = (t, cs) # ms" by (cases m) auto
    from alts_hd [OF this] obtain w where "w \<in> lang r" "c # s = [] @ w @ t" by auto
    moreover have "search r (c # s) \<noteq> None" using a by simp
    ultimately have "search r (c # s) \<noteq> None" "c # s = [] @ w @ t" "w \<in> lang r" by blast+
    then show ?thesis by blast
  qed
qed

lemma match_string_iff: "match_string r s \<longleftrightarrow> (\<exists>u w v. runes s = u @ w @ v \<and> w \<in> lang r)"
  by (auto simp: match_string_def search_None)

lemma search_Some:
  "search r s = Some (x, cs) \<Longrightarrow> \<exists>u w v. s = u @ w @ v \<and> w \<in> lang r \<and> x = concat w"
proof (induction s)
  case Nil
  then show ?case by (auto split: list.splits elim!: alts_hd)
next
  case (Cons c s)
  show ?case
  proof (cases "alts r (c # s)")
    case Nil
    with Cons.prems have "search r s = Some (x, cs)" by simp
    from Cons.IH [OF this] show ?thesis by (metis append_Cons)
  next
    case (Cons m ms)
    then obtain t ds where a: "alts r (c # s) = (t, ds) # ms" by (cases m) auto
    from alts_hd [OF this] obtain w where "w \<in> lang r" "c # s = w @ t" "consumed (c # s) t = concat w" by metis
    moreover have "x = consumed (c # s) t" using Cons.prems a by simp
    ultimately have "c # s = [] @ w @ t \<and> w \<in> lang r \<and> x = concat w" by simp
    then show ?thesis by blast
  qed
qed

lemma all_matches_sound: "x \<in> set (all_matches r s) \<Longrightarrow> \<exists>u w v. s = u @ w @ v \<and> w \<in> lang r \<and> x = concat w"
proof (induction r s rule: all_matches.induct)
  case (1 r s)
  show ?case
  proof (cases s)
    case Nil
    with "1.prems" show ?thesis using all_matches.simps [of r s] by simp
  next
    case (Cons c u)
    show ?thesis
    proof (cases "alts r s")
      case Nil
      with "1.prems" Cons have "x \<in> set (all_matches r u)" by (simp add: all_matches.simps [of r "c # u"])
      from "1.IH"(1) [OF Cons Nil this] show ?thesis using Cons by (metis append_Cons)
    next
      case (Cons m ms)
      obtain t cs where m: "m = (t, cs)" by (cases m)
      note a = Cons [unfolded m]
      from alts_hd [OF a] obtain w where w: "w \<in> lang r" "s = w @ t" "consumed s t = concat w" by metis
      show ?thesis
      proof (cases "length t < length s")
        case True
        with "1.prems" a \<open>s = c # u\<close> have "x = consumed s t \<or> x \<in> set (all_matches r t)"
          by (simp add: all_matches.simps [of r "c # u"])
        then show ?thesis
        proof
          assume "x = consumed s t"
          with w show ?thesis by (metis append_Nil)
        next
          assume "x \<in> set (all_matches r t)"
          from "1.IH"(2) [OF \<open>s = c # u\<close> a refl True this] w show ?thesis by (metis append_assoc)
        qed
      next
        case False
        with "1.prems" a \<open>s = c # u\<close> have "x \<in> set (all_matches r u)" by (simp add: all_matches.simps [of r "c # u"])
        from "1.IH"(3) [OF \<open>s = c # u\<close> a refl False this] show ?thesis using \<open>s = c # u\<close> by (metis append_Cons)
      qed
    qed
  qed
qed

subsection \<open>ASCII text in the model of characters\<close>

lemma cont_byte_ascii: "is_ascii_char c \<Longrightarrow> 128 \<le> lo \<Longrightarrow> \<not> cont_byte lo hi c"
  by (simp add: cont_byte_def is_ascii_char_def) (metis (mono_tags) linorder_not_less of_char_def of_nat_less_iff of_nat_numeral order.strict_trans2 of_nat_of_char)

lemma rune_len_ascii_front: "is_ascii_char c \<Longrightarrow> rune_len (c # t) = 1"
proof -
  assume "is_ascii_char c"
  then have "(of_char c :: nat) < 128" by (simp add: is_ascii_char_def) (metis of_nat_less_iff of_nat_numeral of_nat_of_char)
  then show ?thesis by (auto simp: rune_len_def Let_def split: list.split)
qed

lemma rune_len_before_ascii:
  assumes "is_ascii_char c" "s \<noteq> []"
  shows "rune_len (s @ c # t) = rune_len s"
proof -
  have no: "\<not> cont_byte lo hi c" if "128 \<le> lo" for lo hi using assms(1) that by (rule cont_byte_ascii)
  show ?thesis using assms(2)
    by (cases s; cases "tl s"; cases "tl (tl s)"; cases "tl (tl (tl s))")
      (auto simp: rune_len_def Let_def no split: list.split)
qed

lemma runes_Cons_ascii: "is_ascii_char c \<Longrightarrow> runes (c # t) = [c] # runes t"
  by (simp add: runes.simps [of "c # t"] rune_len_ascii_front)

lemma rune_len_le: "s \<noteq> [] \<Longrightarrow> rune_len s \<le> length s"
  by (auto simp: rune_len_def Let_def split: list.splits)

lemma runes_append_ascii: "is_ascii_char c \<Longrightarrow> runes (s @ c # t) = runes s @ [c] # runes t"
proof (induction s rule: runes.induct)
  case (1 s)
  show ?case
  proof (cases "s = []")
    case True
    with "1.prems" show ?thesis by (simp add: runes_Cons_ascii runes.simps [of "[]"])
  next
    case False
    let ?k = "rune_len s"
    have k: "?k \<le> length s" using False by (rule rune_len_le)
    have "runes (s @ c # t) = take ?k s # runes (drop ?k s @ c # t)"
      using False k "1.prems" by (simp add: runes.simps [of "s @ c # t"] rune_len_before_ascii)
    also have "\<dots> = take ?k s # runes (drop ?k s) @ [c] # runes t" using "1.IH" [OF False "1.prems"] by simp
    also have "\<dots> = runes s @ [c] # runes t" using False by (simp add: runes.simps [of s])
    finally show ?thesis .
  qed
qed

lemma runes_ascii_word: "list_all is_ascii_char x \<Longrightarrow> runes (x @ t) = map (\<lambda>c. [c]) x @ runes t"
  by (induction x) (simp_all add: runes_Cons_ascii)

lemma runes_around_ascii:
  "list_all is_ascii_char x \<Longrightarrow> x \<noteq> [] \<Longrightarrow> runes (s @ x @ t) = runes s @ map (\<lambda>c. [c]) x @ runes t"
  by (cases x) (simp_all add: runes_append_ascii runes_ascii_word)

subsection \<open>Words without regard to letter case\<close>

lemma concI: "u \<in> A \<Longrightarrow> v \<in> B \<Longrightarrow> u @ v \<in> conc A B"
  by (auto simp: conc_def)

lemma lang_seq_ones: "ws \<in> lang (seq (map (\<lambda>r. ROne (P r)) rs)) \<longleftrightarrow> list_all2 (\<lambda>r w. P r w) rs ws"
proof (induction rs arbitrary: ws)
  case (Cons r rs)
  have "ws \<in> lang (seq (map (\<lambda>r. ROne (P r)) (r # rs))) \<longleftrightarrow> (\<exists>w u. ws = w # u \<and> P r w \<and> u \<in> lang (seq (map (\<lambda>r. ROne (P r)) rs)))"
  proof
    assume "\<exists>w u. ws = w # u \<and> P r w \<and> u \<in> lang (seq (map (\<lambda>r. ROne (P r)) rs))"
    then obtain w u where "ws = [w] @ u" "P r w" "u \<in> lang (seq (map (\<lambda>r. ROne (P r)) rs))" by auto
    then show "ws \<in> lang (seq (map (\<lambda>r. ROne (P r)) (r # rs)))" unfolding seq_def list.map foldr.simps comp_def lang.simps by (metis (mono_tags, lifting) concI mem_Collect_eq)
  qed (auto simp: seq_def conc_def)
  then show ?case using Cons.IH by (auto simp: list_all2_Cons1)
qed (simp add: seq_def)

lemma lower_char_ascii: "is_ascii_char (lower_char c) \<longleftrightarrow> is_ascii_char c"
  by (auto simp: is_ascii_char_def lower_char_def Let_def)

lemma ilit_word:
  assumes "list_all is_ascii_char w" "map lower_char x = map lower_char w"
  shows "map (\<lambda>c. [c]) x \<in> lang (ilit w)"
proof -
  have "runes w = map (\<lambda>c. [c]) w" using runes_ascii_word [OF assms(1), of "[]"] by (simp add: runes.simps [of "[]"])
  moreover have "list_all2 (\<lambda>c d. fold_rune [d] = fold_rune [c]) w x"
    using assms(2) by (auto simp: list_all2_conv_all_nth fold_rune_def dest: arg_cong [where f = length]) (metis length_map nth_map)+
  ultimately show ?thesis unfolding ilit_def lang_seq_ones by (simp add: list.rel_map)
qed

lemma any_of_word: "r \<in> set rs \<Longrightarrow> w \<in> lang r \<Longrightarrow> w \<in> lang (any_of rs)"
  by (induction rs rule: any_of.induct) auto

lemma lower_sublist:
  assumes "contains (to_lower u) w"
  obtains s x t where "u = s @ x @ t" "map lower_char x = w"
proof -
  from assms have "sublist w (map lower_char u)" by (simp add: contains_iff to_lower_def)
  then obtain a b where "map lower_char u = a @ w @ b" by (auto simp: sublist_def)
  then show thesis by (auto simp: map_eq_append_conv append_eq_map_conv intro: that)
qed

end
