(* ===== verification/Float64.thy ===== *)
theory Float64
  imports Complex_Main "HOL-Library.Log_Nat"
begin

text \<open>
  Go's \<open>float64\<close>. A value is the rational number it stands for; every operation of the program is the
  exact one followed by \<open>fl\<close>, rounding to the nearest number with a 53-bit significand, ties to
  even. The exponent is not bounded: the program's numbers (scores, ratios, counters) stay far
  from overflow and from the subnormal range. NaN and the infinities do not arise in the modelled code.
\<close>

type_synonym float64 = rat

text \<open>The exponent \<open>k\<close> with \<open>2^k \<le> x < 2^(k+1)\<close> of a positive number.\<close>

definition binade :: "rat \<Rightarrow> int" where
  "binade x = (case quotient_of x of (n, d) \<Rightarrow>
     let k = bitlen n - bitlen d in if 2 powi k \<le> x then k else k - 1)"

definition round_half_even :: "rat \<Rightarrow> int" where
  "round_half_even x = (let f = \<lfloor>x\<rfloor>; d = x - of_int f in
     if d < 1/2 then f else if 1/2 < d then f + 1 else if even f then f else f + 1)"

definition fl :: "rat \<Rightarrow> float64" where
  "fl x = (if x = 0 then 0
     else let u = 2 powi (binade \<bar>x\<bar> - 52) in of_int (round_half_even (x / u)) * u)"

definition fadd :: "float64 \<Rightarrow> float64 \<Rightarrow> float64" where "fadd x y = fl (x + y)"
definition fmul :: "float64 \<Rightarrow> float64 \<Rightarrow> float64" where "fmul x y = fl (x * y)"
definition fdiv :: "float64 \<Rightarrow> float64 \<Rightarrow> float64" where "fdiv x y = fl (x / y)"

text \<open>The conversion \<open>int(x)\<close> truncates towards zero.\<close>

definition to_int :: "float64 \<Rightarrow> int" where
  "to_int x = (if 0 \<le> x then \<lfloor>x\<rfloor> else \<lceil>x\<rceil>)"

definition is_float64 :: "rat \<Rightarrow> bool" where
  "is_float64 x = (fl x = x)"

subsection \<open>The binade of a number\<close>

lemma powi_Suc: "(2 :: rat) powi (k + 1) = 2 * 2 powi k"
  by (simp add: power_int_add)

lemma powi_mono: "a \<le> b \<Longrightarrow> (2 :: rat) powi a \<le> 2 powi b"
  by (simp add: power_int_increasing)

lemma powi_pos [simp]: "0 < (2 :: rat) powi k"
  by (simp add: zero_less_power_int)

lemma bitlen_bounds_rat: "0 < n \<Longrightarrow> 2 powi (bitlen n - 1) \<le> (of_int n :: rat) \<and> (of_int n :: rat) < 2 powi bitlen n"
proof -
  assume n: "0 < n"
  then have b: "2 ^ nat (bitlen n - 1) \<le> n" "n < 2 ^ nat (bitlen n)" using bitlen_bounds [of n] by auto
  have p: "1 \<le> bitlen n" using n bitlen_ge_iff_power [of 1 n] by simp
  have "(of_int (2 ^ nat (bitlen n - 1)) :: rat) \<le> of_int n" "(of_int n :: rat) < of_int (2 ^ nat (bitlen n))"
    using b by (simp_all only: of_int_le_iff of_int_less_iff)
  then show ?thesis using p by (simp add: power_int_def)
qed

lemma binade:
  assumes "0 < x"
  shows "2 powi (binade x) \<le> x" "x < 2 powi (binade x + 1)"
proof -
  obtain n d where q: "quotient_of x = (n, d)" by (cases "quotient_of x")
  have d: "0 < d" using quotient_of_denom_pos [OF q] .
  have x: "x = of_int n / of_int d" using quotient_of_div [OF q] .
  with assms d have n: "0 < n" by (simp add: zero_less_divide_iff)
  let ?k = "bitlen n - bitlen d"
  have nb: "2 powi (bitlen n - 1) \<le> (of_int n :: rat)" "(of_int n :: rat) < 2 powi bitlen n"
    and db: "2 powi (bitlen d - 1) \<le> (of_int d :: rat)" "(of_int d :: rat) < 2 powi bitlen d"
    using bitlen_bounds_rat n d by auto
  have dp: "(0 :: rat) < of_int d" using d by simp
  have "2 powi (?k - 1) * of_int d \<le> (2 powi (?k - 1) * 2 powi bitlen d :: rat)"
    using db(2) by (intro mult_left_mono) auto
  also have "\<dots> = 2 powi (bitlen n - 1)" by (simp add: power_int_add [symmetric])
  also have "\<dots> \<le> of_int n" by (rule nb(1))
  finally have lo: "2 powi (?k - 1) \<le> x" using dp by (simp add: x pos_le_divide_eq)
  have "of_int n < (2 powi bitlen n :: rat)" by (rule nb(2))
  also have "\<dots> = 2 powi (?k + 1) * 2 powi (bitlen d - 1)" by (simp add: power_int_add [symmetric])
  also have "\<dots> \<le> 2 powi (?k + 1) * of_int d" using db(1) by (intro mult_left_mono) auto
  finally have hi: "x < 2 powi (?k + 1)" using dp by (simp add: x pos_divide_less_eq)
  show "2 powi (binade x) \<le> x" "x < 2 powi (binade x + 1)"
    using lo hi q by (auto simp: binade_def Let_def)
qed

lemma binade_unique: "0 < x \<Longrightarrow> 2 powi k \<le> x \<Longrightarrow> x < 2 powi (k + 1) \<Longrightarrow> binade x = k"
proof (rule ccontr)
  assume x: "0 < x" "2 powi k \<le> x" "x < 2 powi (k + 1)" and "binade x \<noteq> k"
  then consider "binade x + 1 \<le> k" | "k + 1 \<le> binade x" by linarith
  then show False
    using binade [OF x(1)] x powi_mono [of "binade x + 1" k] powi_mono [of "k + 1" "binade x"]
    by cases auto
qed

lemma binade_mono: "0 < x \<Longrightarrow> x \<le> y \<Longrightarrow> binade x \<le> binade y"
proof (rule ccontr)
  assume a: "0 < x" "x \<le> y" "\<not> binade x \<le> binade y"
  then have "2 powi (binade y + 1) \<le> (2 powi binade x :: rat)" by (intro powi_mono) simp
  with a binade(1) [of x] binade(2) [of y] show False by auto
qed

subsection \<open>Rounding\<close>

lemma round_int [simp]: "round_half_even (of_int n) = n"
  by (simp add: round_half_even_def)

lemma round_mono: "x \<le> y \<Longrightarrow> round_half_even x \<le> round_half_even y"
proof -
  assume xy: "x \<le> y"
  then have f: "\<lfloor>x\<rfloor> \<le> \<lfloor>y\<rfloor>" by (rule floor_mono)
  show ?thesis
  proof (cases "\<lfloor>x\<rfloor> = \<lfloor>y\<rfloor>")
    case True
    with xy show ?thesis by (auto simp: round_half_even_def Let_def)
  next
    case False
    with f have "\<lfloor>x\<rfloor> + 1 \<le> \<lfloor>y\<rfloor>" by simp
    moreover have "round_half_even x \<le> \<lfloor>x\<rfloor> + 1" "\<lfloor>y\<rfloor> \<le> round_half_even y"
      by (auto simp: round_half_even_def Let_def)
    ultimately show ?thesis by linarith
  qed
qed

lemma round_minus: "round_half_even (- x) = - round_half_even x"
proof (cases "x \<in> \<int>")
  case True
  then obtain n where "x = of_int n" by (auto elim: Ints_cases)
  then have "- x = of_int (- n)" by simp
  then show ?thesis using \<open>x = of_int n\<close> round_int by metis
next
  case False
  then have "\<lceil>x\<rceil> = \<lfloor>x\<rfloor> + 1" by (simp add: ceiling_altdef) (metis Ints_of_int)
  then have f: "\<lfloor>- x\<rfloor> = - \<lfloor>x\<rfloor> - 1" by (simp add: floor_minus)
  show ?thesis
    unfolding round_half_even_def Let_def f by (auto simp: field_simps)
qed

lemma fl_0 [simp]: "fl 0 = 0"
  by (simp add: fl_def)

lemma fl_minus: "fl (- x) = - fl x"
  by (simp add: fl_def Let_def round_minus)

lemma fl_grid:
  assumes "0 < x"
  shows "2 powi binade x \<le> fl x" "fl x \<le> 2 powi (binade x + 1)"
proof -
  let ?u = "2 powi (binade x - 52) :: rat"
  have u: "0 < ?u" by simp
  have g: "2 powi binade x = of_int (2 ^ 52) * ?u" "2 powi (binade x + 1) = of_int (2 ^ 53) * ?u"
    by (simp_all add: power_int_diff power_int_add)
  have "of_int (2 ^ 52) \<le> x / ?u" using binade(1) [OF assms] u by (simp add: g pos_le_divide_eq)
  from round_mono [OF this] have "2 ^ 52 \<le> round_half_even (x / ?u)" using round_int by metis
  then have "(of_int (2 ^ 52) :: rat) * ?u \<le> of_int (round_half_even (x / ?u)) * ?u"
    by (intro mult_right_mono) (simp_all only: of_int_le_iff, simp)
  then show "2 powi binade x \<le> fl x" using assms by (simp add: fl_def Let_def g)
  have "x / ?u \<le> of_int (2 ^ 53)" using binade(2) [OF assms] u by (simp add: g pos_divide_le_eq)
  from round_mono [OF this] have "round_half_even (x / ?u) \<le> 2 ^ 53" using round_int by metis
  then have "of_int (round_half_even (x / ?u)) * ?u \<le> (of_int (2 ^ 53) :: rat) * ?u"
    by (intro mult_right_mono) (simp_all only: of_int_le_iff, simp)
  then show "fl x \<le> 2 powi (binade x + 1)" using assms by (simp add: fl_def Let_def g)
qed

lemma fl_mono_pos: "0 < x \<Longrightarrow> x \<le> y \<Longrightarrow> fl x \<le> fl y"
proof -
  assume x: "0 < x" "x \<le> y"
  then have y: "0 < y" by simp
  show ?thesis
  proof (cases "binade x = binade y")
    case True
    let ?u = "2 powi (binade y - 52) :: rat"
    have "x / ?u \<le> y / ?u" using x by (simp add: divide_right_mono)
    from round_mono [OF this] have "of_int (round_half_even (x / ?u)) * ?u \<le> of_int (round_half_even (y / ?u)) * ?u"
      by (intro mult_right_mono) simp_all
    with True x y show ?thesis by (simp add: fl_def Let_def)
  next
    case False
    with binade_mono [OF x] have "binade x + 1 \<le> binade y" by simp
    then have "2 powi (binade x + 1) \<le> (2 powi binade y :: rat)" by (rule powi_mono)
    with fl_grid(2) [OF x(1)] fl_grid(1) [OF y] show ?thesis by linarith
  qed
qed

lemma fl_pos: "0 < x \<Longrightarrow> 0 < fl x"
  using fl_grid(1) [of x] powi_pos [of "binade x"] by linarith

lemma fl_mono: "x \<le> y \<Longrightarrow> fl x \<le> fl y"
proof -
  assume xy: "x \<le> y"
  consider "0 < x" | "x \<le> 0" "0 \<le> y" | "y < 0" using xy by linarith
  then show ?thesis
  proof cases
    case 1
    with xy show ?thesis by (intro fl_mono_pos)
  next
    case 2
    have "0 \<le> fl y" using 2 fl_pos [of y] by (cases "y = 0") auto
    moreover have "fl x \<le> 0" using 2 fl_pos [of "- x"] by (cases "x = 0") (auto simp: fl_minus)
    ultimately show ?thesis by simp
  next
    case 3
    with xy have "fl (- y) \<le> fl (- x)" by (intro fl_mono_pos) auto
    then show ?thesis by (simp add: fl_minus)
  qed
qed

lemma fl_powi: "fl (2 powi k) = 2 powi k"
proof -
  have b: "binade (2 powi k) = k" by (rule binade_unique) (simp_all add: power_int_add)
  have g: "(2 powi k :: rat) = of_int (2 ^ 52) * 2 powi (k - 52)" by (simp add: power_int_diff)
  then have "(2 powi k :: rat) / 2 powi (k - 52) = of_int (2 ^ 52)" by simp
  then have "fl (2 powi k) = of_int (2 ^ 52) * 2 powi (k - 52)"
    by (simp only: fl_def Let_def b abs_of_pos powi_pos round_int) simp
  with g show ?thesis by simp
qed

text \<open>Integer multiples of \<open>2^e\<close> with at most 53 bits are represented exactly.\<close>

lemma fl_exact_pos:
  assumes "0 < m" "m \<le> 2 ^ 53"
  shows "fl (of_int m * 2 powi e) = of_int m * 2 powi e"
proof (cases "m = 2 ^ 53")
  case True
  then have "(of_int m * 2 powi e :: rat) = 2 powi (e + 53)" by (simp add: power_int_add)
  then show ?thesis by (simp only: fl_powi)
next
  case False
  let ?x = "of_int m * 2 powi e :: rat"
  have x: "0 < ?x" using assms by simp
  have m: "m < 2 ^ 53" using False assms by simp
  have "?x < 2 powi (e + 53)"
  proof -
    have "(of_int m :: rat) < of_int (2 ^ 53)" using m by (simp only: of_int_less_iff)
    then have "?x < of_int (2 ^ 53) * 2 powi e" by (intro mult_strict_right_mono) simp_all
    then show ?thesis by (simp add: power_int_add mult.commute)
  qed
  then have "binade ?x < e + 53"
    using binade(1) [OF x] powi_mono [of "e + 53" "binade ?x"] by linarith
  then have le: "binade ?x - 52 \<le> e" by simp
  define u where "u = (2 powi (binade ?x - 52) :: rat)"
  define k where "k = nat (e - (binade ?x - 52))"
  have k: "2 powi e = 2 ^ k * u"
    using le by (simp add: k_def u_def power_int_def [symmetric] power_int_add [symmetric] flip: power_int_of_nat)
  have u: "u \<noteq> 0" using powi_pos [of "binade ?x - 52"] unfolding u_def by simp
  have q: "?x / u = of_int (m * 2 ^ k)" using u by (simp add: k)
  have "fl ?x = of_int (round_half_even (?x / u)) * u"
    using x assms(1) unfolding fl_def u_def by (simp add: Let_def)
  then show ?thesis unfolding q round_int by (simp add: k)
qed

lemma fl_exact: "\<bar>m\<bar> \<le> 2 ^ 53 \<Longrightarrow> fl (of_int m * 2 powi e) = of_int m * 2 powi e"
proof -
  assume m: "\<bar>m\<bar> \<le> 2 ^ 53"
  consider "0 < m" | "m = 0" | "m < 0" by linarith
  then show ?thesis
  proof cases
    case 3
    with m have "fl (of_int (- m) * 2 powi e) = of_int (- m) * 2 powi e" by (intro fl_exact_pos) auto
    then show ?thesis by (simp add: fl_minus)
  qed (use m fl_exact_pos in auto)
qed

lemma fl_int [simp]: "\<bar>n\<bar> \<le> 2 ^ 53 \<Longrightarrow> fl (of_int n) = of_int n"
  using fl_exact [of n 0] by simp

text \<open>What the program needs of the arithmetic, as an interface: rounding is monotone and exact on small integers.\<close>

locale rounding =
  fixes rnd :: "rat \<Rightarrow> rat"
  assumes mono: "x \<le> y \<Longrightarrow> rnd x \<le> rnd y"
    and exact_int: "\<bar>n\<bar> \<le> 2 ^ 53 \<Longrightarrow> rnd (of_int n) = of_int n"
begin

lemma below_int: "x \<le> of_int n \<Longrightarrow> \<bar>n\<bar> \<le> 2 ^ 53 \<Longrightarrow> rnd x \<le> of_int n"
  using mono [of x "of_int n"] exact_int [of n] by simp

lemma above_int: "of_int n \<le> x \<Longrightarrow> \<bar>n\<bar> \<le> 2 ^ 53 \<Longrightarrow> of_int n \<le> rnd x"
  using mono [of "of_int n" x] exact_int [of n] by simp

lemma add_nonpos: "rnd x = x \<Longrightarrow> d \<le> 0 \<Longrightarrow> rnd (x + d) \<le> x"
  using mono [of "x + d" x] by simp

lemma add_nonneg: "rnd x = x \<Longrightarrow> 0 \<le> d \<Longrightarrow> x \<le> rnd (x + d)"
  using mono [of x "x + d"] by simp

end

interpretation float: rounding fl
  by unfold_locales (simp_all add: fl_mono)

end
