(* ===== verification/Findings.thy ===== *)
theory Findings
  imports Float64 Prelude
begin

text \<open>
  What a check reports and how the score comes about: the types of \<open>internal/model/types.go\<close> and
  the scoring of \<open>internal/analyzer/analyzer.go\<close> (categories, importance, severity, score deltas,
  the essential gate, labels) with the runner for concurrent checks.

  A \<open>model.CheckResult\<close> is the record \<open>CheckResult\<close>. Its first fields are the record \<open>finding\<close>: what a
  check decides. The checks are modelled up to their wording, so they return a \<open>finding\<close>; the
  texts for the reader (\<open>Name\<close>, \<open>Summary\<close>, \<open>Suggestion\<close>, \<open>Explanation\<close>, \<open>Recommendation\<close> and the
  English variants) are the extension and are not computed here. The scoring functions are
  polymorphic in the extension.
\<close>

subsection \<open>Types\<close>

type_synonym details = "gostring \<rightharpoonup> gostring"

record finding =
  ID :: gostring
  Status :: gostring
  ScoreDelta :: float64
  TechnicalDetails :: details
  Severity :: gostring
  Category :: gostring
  Importance :: gostring

record DocLink =
  Title :: gostring
  URL :: gostring

record CheckResult = finding +
  Name :: gostring
  Summary :: gostring
  Suggestion :: gostring
  Explanation :: gostring
  Recommendation :: gostring
  DocLinks :: "DocLink list"
  NameEN :: gostring
  SummaryEN :: gostring
  ExplanationEN :: gostring
  RecommendationEN :: gostring

record AnalysisReport =
  ReportID :: int
  MessageID :: int
  CreatedAt :: time
  Score :: float64
  ScoreLabel :: gostring
  MailType :: gostring
  Checks :: "CheckResult list"
  Warnings :: "gostring list"
  Suggestions :: "gostring list"
  RawHeaders :: "gostring \<rightharpoonup> gostring list"
  Links :: "gostring list"
  SpamSignals :: "gostring list"

subsection \<open>Building a finding\<close>

definition finding_of :: "gostring \<Rightarrow> gostring \<Rightarrow> float64 \<Rightarrow> finding" where
  "finding_of i st d = \<lparr>ID = i, Status = st, ScoreDelta = d, TechnicalDetails = Map.empty,
     Severity = [], Category = [], Importance = []\<rparr>"

definition pass :: "gostring \<Rightarrow> float64 \<Rightarrow> finding" where "pass i d = finding_of i ''pass'' d"
definition warn :: "gostring \<Rightarrow> float64 \<Rightarrow> finding" where "warn i d = finding_of i ''warn'' d"
definition fail :: "gostring \<Rightarrow> float64 \<Rightarrow> finding" where "fail i d = finding_of i ''fail'' d"
definition info :: "gostring \<Rightarrow> float64 \<Rightarrow> finding" where "info i d = finding_of i ''info'' d"
definition na :: "gostring \<Rightarrow> finding" where "na i = finding_of i ''na'' 0"

lemmas finding_defs = pass_def warn_def fail_def info_def na_def finding_of_def

definition withDetails :: "finding \<Rightarrow> details \<Rightarrow> finding" where
  "withDetails c d = c\<lparr>TechnicalDetails := d\<rparr>"

definition unresolvedDetailKey :: gostring where "unresolvedDetailKey = ''dns_lookup''"

definition unresolved :: "gostring \<Rightarrow> finding" where
  "unresolved i = withDetails (info i 0)
     [unresolvedDetailKey \<mapsto> ''nicht beantwortet (kein NXDOMAIN, sondern Fehler oder Zeit'' @ [CHR 0xC3, CHR 0xBC] @ ''berschreitung)'']"

definition countUnresolved :: "'a finding_scheme list \<Rightarrow> nat" where
  "countUnresolved cs = length (filter (\<lambda>c. TechnicalDetails c unresolvedDetailKey \<noteq> None) cs)"

definition errorCheck :: "gostring \<Rightarrow> gostring \<Rightarrow> finding" where
  "errorCheck i msg = (withDetails (info i 0) [''error'' \<mapsto> msg])\<lparr>Category := ''Header und Rohdaten''\<rparr>"

subsection \<open>Weights\<close>

definition checkCategory :: "gostring \<Rightarrow> gostring" where
  "checkCategory i =
     (if i \<in> set [''spf'', ''dkim'', ''dmarc'', ''spf_alignment'', ''dkim_alignment'', ''dmarc_alignment'',
          ''from_alignment'', ''return_path'', ''reply_to'', ''dmarc_policy'', ''spf_strictness'',
          ''dkim_keylength'', ''display_name'', ''x_google_dkim'']
      then ''Authentifizierung''
      else if i \<in> set [''ptr'', ''helo'', ''mx_records'', ''address_records'', ''tls_transport'', ''received_chain'', ''rbl'',
          ''ptr_pattern'', ''envelope_mx'', ''mta_sts'', ''tls_rpt'', ''bimi'', ''dnssec'', ''dane_tlsa'', ''domain_age'',
          ''from_domain_rcv'']
      then ''DNS und Infrastruktur''
      else if i \<in> set [''spamassassin'', ''rspamd'', ''domain_blocklist'', ''link_blocklist'']
      then ''Spamfilter''
      else if i \<in> set [''mime_ct'', ''mime_boundary'', ''plain_text'', ''multipart_alt'', ''attachments'',
          ''image_text_ratio'', ''image_alt'', ''charset'', ''links'', ''shortener'', ''tracking_links'', ''html'',
          ''hidden_html'', ''html_validity'', ''harmful_html'', ''subject'', ''subject_exclaim'', ''subject_caps'',
          ''unicode'', ''list_unsub'', ''preheader'', ''one_click_unsub'', ''template_urls'', ''too_many_links'',
          ''link_domain_mismatch'', ''broken_links'']
      then ''Format und Inhalt''
      else ''Header und Rohdaten'')"

definition checkImportance :: "gostring \<Rightarrow> gostring" where
  "checkImportance i =
     (if i \<in> set [''spf'', ''dkim'', ''dmarc'', ''ptr'', ''rbl'', ''domain_blocklist'', ''link_blocklist''] then ''Kritisch''
      else if i \<in> set [''spf_strictness'', ''dkim_keylength'', ''dmarc_policy'', ''spf_alignment'', ''dkim_alignment'',
          ''dmarc_alignment'', ''from_alignment'', ''helo'', ''mx_records'', ''tls_transport'', ''spamassassin'',
          ''rspamd'', ''display_name'', ''list_unsub'', ''mime_parse'', ''mime_ct'', ''mime_boundary'', ''message_id'',
          ''received_chain'', ''one_click_unsub'', ''harmful_html'']
      then ''Wichtig''
      else if i \<in> set [''mta_sts'', ''tls_rpt'', ''bimi'', ''dnssec'', ''dane_tlsa'', ''arc'', ''preheader'', ''x_google_dkim'']
      then ''Optional''
      else if i = ''link_domain_mismatch'' then ''Kritisch''
      else ''Empfohlen'')"

definition checkSeverity :: "gostring \<Rightarrow> gostring" where
  "checkSeverity st = (if st = ''fail'' then ''high'' else if st = ''warn'' then ''medium''
     else if st = ''pass'' then ''low'' else if st = ''na'' then ''none'' else ''info'')"

definition scoreFor :: "gostring \<Rightarrow> gostring \<Rightarrow> float64" where
  "scoreFor importance st =
     (if st = ''fail'' then
        (if importance = ''Kritisch'' then fl (- 26/10) else if importance = ''Wichtig'' then fl (- 13/10)
         else if importance = ''Optional'' then 0 else fl (- 5/10))
      else if st = ''warn'' then
        (if importance = ''Kritisch'' then fl (- 13/10) else if importance = ''Wichtig'' then fl (- 6/10)
         else if importance = ''Optional'' then 0 else fl (- 25/100))
      else 0)"

definition recheckPendingDetailKey :: gostring where "recheckPendingDetailKey = ''recheck_pending''"

text \<open>A missing key reads as the empty string.\<close>

definition detail :: "'a finding_scheme \<Rightarrow> gostring \<Rightarrow> gostring" where
  "detail c k = (case TechnicalDetails c k of Some v \<Rightarrow> v | None \<Rightarrow> [])"

definition self_scored :: "gostring \<Rightarrow> bool" where
  "self_scored i = (i \<in> set [''domain_age'', ''rbl'', ''spamassassin'', ''rspamd'', ''spf_strictness''])"

text \<open>The part of \<open>enrichCheckResult\<close> that sets category, severity, importance and score.\<close>

definition enrichCheckResult :: "'a finding_scheme \<Rightarrow> 'a finding_scheme" where
  "enrichCheckResult c =
     (if Status c = ''na'' then c\<lparr>Category := checkCategory (ID c), Severity := ''none'', ScoreDelta := 0\<rparr>
      else (let c1 = c\<lparr>Category := checkCategory (ID c), Severity := checkSeverity (Status c),
                       Importance := checkImportance (ID c)\<rparr>
            in if detail c recheckPendingDetailKey \<noteq> [] then c1
               else if self_scored (ID c) then c1
               else c1\<lparr>ScoreDelta := scoreFor (Importance c1) (Status c)\<rparr>))"

subsection \<open>The score\<close>

definition clampScore :: "float64 \<Rightarrow> float64" where
  "clampScore s = (if s < 0 then 0 else if 10 < s then 10
     else fdiv (of_int (to_int (fadd (fmul s 10) (1/2)))) 10)"

definition label_of :: "float64 \<Rightarrow> gostring" where
  "label_of s = (if 9 \<le> s then ''Excellent'' else if 15/2 \<le> s then ''Good''
     else if 11/2 \<le> s then ''Needs Work'' else ''High Risk'')"

definition assignLabel :: "AnalysisReport \<Rightarrow> AnalysisReport" where
  "assignLabel r = r\<lparr>ScoreLabel := label_of (Score r)\<rparr>"

definition essentialPerfectCap :: float64 where "essentialPerfectCap = 19/2"

definition essentialsAllPass :: "'a finding_scheme list \<Rightarrow> bool" where
  "essentialsAllPass cs = list_all (\<lambda>c. ID c \<in> set [''spf'', ''dkim'', ''dmarc'', ''ptr''] \<longrightarrow> Status c = ''pass'') cs"

definition sum_deltas :: "float64 \<Rightarrow> 'a finding_scheme list \<Rightarrow> float64" where
  "sum_deltas s cs = fold (\<lambda>c acc. fadd acc (ScoreDelta c)) cs s"

definition ComputeScore :: "'a finding_scheme list \<Rightarrow> float64 \<times> gostring" where
  "ComputeScore cs =
     (let s = clampScore (sum_deltas 10 cs);
          s = (if essentialPerfectCap < s \<and> \<not> essentialsAllPass cs then essentialPerfectCap else s)
      in (s, label_of s))"

text \<open>The end of \<open>Analyze\<close>: enrichment of every check, sum, clamp, gate (not in the simulator), label.\<close>

definition analyze_score :: "bool \<Rightarrow> 'a finding_scheme list \<Rightarrow> 'a finding_scheme list \<times> float64 \<times> gostring" where
  "analyze_score simulation cs =
     (let cs = map enrichCheckResult cs;
          s = clampScore (sum_deltas 10 cs);
          s = (if \<not> simulation \<and> essentialPerfectCap < s \<and> \<not> essentialsAllPass cs then essentialPerfectCap else s)
      in (cs, s, label_of s))"

subsection \<open>Concurrent checks\<close>

text \<open>
  \<open>runChecksConcurrently\<close>: every task writes its own slot of \<open>results\<close>. A task is its name and either
  the text of the panic it ends with or its findings; \<open>finish\<close> is the completion of the task
  with index \<open>i\<close>, and a run is a list of the indices in the order in which the goroutines end.
\<close>

type_synonym task = "gostring \<times> (gostring + finding list)"

definition finish :: "task list \<Rightarrow> nat \<Rightarrow> finding list list \<Rightarrow> finding list list" where
  "finish tasks i results =
     results[i := (case tasks ! i of (name, Inl msg) \<Rightarrow> [errorCheck name msg] | (name, Inr fs) \<Rightarrow> fs)]"

definition runChecksConcurrently :: "task list \<Rightarrow> nat list \<Rightarrow> finding list" where
  "runChecksConcurrently tasks order = concat (fold (finish tasks) order (replicate (length tasks) []))"

subsection \<open>Laws of the score\<close>

lemma scoreFor_nonpos: "scoreFor i st \<le> 0"
proof -
  have "fl x \<le> 0" if "x \<le> 0" for x using fl_mono [OF that] by simp
  then show ?thesis by (simp add: scoreFor_def)
qed

lemma fadd_mono: "a \<le> b \<Longrightarrow> c \<le> d \<Longrightarrow> fadd a c \<le> fadd b d"
  unfolding fadd_def by (intro fl_mono add_mono)

lemma to_int_floor: "0 \<le> x \<Longrightarrow> to_int x = \<lfloor>x\<rfloor>"
  by (simp add: to_int_def)

text \<open>The tenth a score between 0 and 10 is rounded to.\<close>

definition tenth :: "float64 \<Rightarrow> int" where
  "tenth s = \<lfloor>fadd (fmul s 10) (1/2)\<rfloor>"

lemma tenth_arg_nonneg: "0 \<le> s \<Longrightarrow> 0 \<le> fadd (fmul s 10) (1/2)"
  unfolding fadd_def fmul_def using fl_mono [of 0 "s * 10"] fl_mono [of 0 "fl (s * 10) + 1/2"] by simp

lemma tenth_mono: "a \<le> b \<Longrightarrow> tenth a \<le> tenth b"
  unfolding tenth_def fadd_def fmul_def by (intro floor_mono fl_mono) (simp add: fl_mono)

lemma fl_half_100: "fl (201/2) = 201/2"
  using fl_exact [of 201 "- 1"] by (simp add: power_int_minus)

lemma tenth_bounds: "0 \<le> s \<Longrightarrow> s \<le> 10 \<Longrightarrow> 0 \<le> tenth s \<and> tenth s \<le> 100"
proof -
  assume s: "0 \<le> s" "s \<le> 10"
  have "fmul s 10 \<le> 100" using s float.below_int [of "s * 10" 100] by (simp add: fmul_def)
  then have "fadd (fmul s 10) (1/2) \<le> 201/2"
    using fl_mono [of "fmul s 10 + 1/2" "201/2"] by (simp add: fadd_def fl_half_100)
  then have "fadd (fmul s 10) (1/2) < 101" by linarith
  then have "tenth s \<le> 100" by (simp add: tenth_def floor_le_iff)
  with tenth_arg_nonneg [OF s(1)] show ?thesis by (simp add: tenth_def)
qed

lemma clampScore_tenth: "0 \<le> s \<Longrightarrow> s \<le> 10 \<Longrightarrow> clampScore s = fl (of_int (tenth s) / 10)"
  using tenth_arg_nonneg [of s] by (auto simp: clampScore_def tenth_def fdiv_def to_int_floor)

lemma clampScore_grid: "\<exists>n. 0 \<le> n \<and> n \<le> 100 \<and> clampScore s = fl (of_int n / 10)"
proof -
  consider "s < 0" | "10 < s" | "0 \<le> s" "s \<le> 10" by linarith
  then show ?thesis
  proof cases
    case 1
    then show ?thesis by (intro exI [of _ 0]) (simp add: clampScore_def)
  next
    case 2
    then show ?thesis using fl_int [of 10] by (intro exI [of _ 100]) (simp add: clampScore_def)
  next
    case 3
    then show ?thesis using tenth_bounds clampScore_tenth by blast
  qed
qed

lemma grid_range: "0 \<le> n \<Longrightarrow> n \<le> 100 \<Longrightarrow> 0 \<le> fl (of_int n / 10) \<and> fl (of_int n / 10) \<le> 10"
  using fl_mono [of 0 "of_int n / 10"] float.below_int [of "of_int n / 10" 10] by simp

lemma clampScore_range: "0 \<le> clampScore s \<and> clampScore s \<le> 10"
  using clampScore_grid [of s] grid_range by auto

lemma clampScore_mono: "a \<le> b \<Longrightarrow> clampScore a \<le> clampScore b"
proof -
  assume ab: "a \<le> b"
  consider "a < 0" | "10 < b" | "0 \<le> a" "b \<le> 10" by linarith
  then show ?thesis
  proof cases
    case 1
    then have "clampScore a = 0" by (simp add: clampScore_def)
    with clampScore_range [of b] show ?thesis by simp
  next
    case 2
    then have "clampScore b = 10" by (simp add: clampScore_def)
    with clampScore_range [of a] show ?thesis by simp
  next
    case 3
    with ab have "clampScore a = fl (of_int (tenth a) / 10)" "clampScore b = fl (of_int (tenth b) / 10)"
      by (auto intro: clampScore_tenth)
    with tenth_mono [OF ab] show ?thesis by (simp add: fl_mono divide_right_mono)
  qed
qed

text \<open>
  C12: Whatever the checks report, the score is one of the hundred and one tenths from 0 to 10 (as
  a float64), the label follows from it by the thresholds 9, 7.5 and 5.5, and a score above 9.5 is only
  given when every SPF, DKIM, DMARC and PTR finding of the report is a pass.
\<close>

theorem ComputeScore_spec:
  fixes cs :: "'a finding_scheme list"
  shows "(\<exists>n. 0 \<le> n \<and> n \<le> 100 \<and> fst (ComputeScore cs) = fl (of_int n / 10))
    \<and> 0 \<le> fst (ComputeScore cs) \<and> fst (ComputeScore cs) \<le> 10
    \<and> snd (ComputeScore cs) = label_of (fst (ComputeScore cs))
    \<and> (19/2 < fst (ComputeScore cs) \<longrightarrow>
        list_all (\<lambda>c. ID c \<in> {''spf'', ''dkim'', ''dmarc'', ''ptr''} \<longrightarrow> Status c = ''pass'') cs)"
proof -
  have cap: "fl (of_int 95 / 10) = 19/2" using fl_exact [of 19 "- 1"] by (simp add: power_int_minus)
  have "\<exists>n. 0 \<le> n \<and> n \<le> 100 \<and> fst (ComputeScore cs) = fl (of_int n / 10)"
  proof (cases "essentialPerfectCap < clampScore (sum_deltas 10 cs) \<and> \<not> essentialsAllPass cs")
    case True
    then show ?thesis by (intro exI [of _ 95]) (simp add: ComputeScore_def Let_def essentialPerfectCap_def cap [simplified])
  next
    case False
    then show ?thesis using clampScore_grid [of "sum_deltas 10 cs"] by (auto simp: ComputeScore_def Let_def)
  qed
  moreover have "0 \<le> fst (ComputeScore cs) \<and> fst (ComputeScore cs) \<le> 10"
    using clampScore_range [of "sum_deltas 10 cs"] by (simp add: ComputeScore_def Let_def essentialPerfectCap_def)
  moreover have "19/2 < fst (ComputeScore cs) \<longrightarrow> essentialsAllPass cs"
    by (auto simp: ComputeScore_def Let_def essentialPerfectCap_def)
  ultimately show ?thesis by (simp add: ComputeScore_def Let_def essentialsAllPass_def)
qed

theorem ComputeScore_spec_witness:
  "19/2 < fst (ComputeScore [pass ''spf'' 0, pass ''ptr'' 0, warn ''arc'' 0])
   \<and> list_all (\<lambda>c. ID c \<in> {''spf'', ''dkim'', ''dmarc'', ''ptr''} \<longrightarrow> Status c = ''pass'')
       [pass ''spf'' 0, pass ''ptr'' 0, warn ''arc'' 0]"
proof -
  have "19/2 < fst (ComputeScore [pass ''spf'' 0, pass ''ptr'' 0, warn ''arc'' 0])" by code_simp
  with ComputeScore_spec [of "[pass ''spf'' 0, pass ''ptr'' 0, warn ''arc'' 0]"] show ?thesis by blast
qed

lemma sum_deltas_mono:
  assumes "list_all2 (\<lambda>a b. ScoreDelta a \<le> ScoreDelta b) as bs" "s \<le> t"
  shows "sum_deltas s as \<le> sum_deltas t bs"
  using assms
proof (induction as bs arbitrary: s t rule: list_all2_induct)
  case (Cons a as b bs)
  then show ?case by (simp add: sum_deltas_def fadd_mono)
qed (simp add: sum_deltas_def)

text \<open>
  C13: The score does not reward problems: when, check by check, one report has the same IDs, deltas that are
  at most those of another and no pass where the other has none, its score is at most the other's.
  This is not immediate for float64 arithmetic, whose additions round.
\<close>

theorem ComputeScore_monotone:
  assumes "list_all2 (\<lambda>a b. ID a = ID b \<and> ScoreDelta a \<le> ScoreDelta b \<and> (Status a = ''pass'' \<longrightarrow> Status b = ''pass'')) as bs"
  shows "fst (ComputeScore as) \<le> fst (ComputeScore bs)"
proof -
  have "list_all2 (\<lambda>a b. ScoreDelta a \<le> ScoreDelta b) as bs" using assms by (rule list_all2_mono) auto
  then have "clampScore (sum_deltas 10 as) \<le> clampScore (sum_deltas 10 bs)"
    by (intro clampScore_mono sum_deltas_mono) auto
  moreover have "essentialsAllPass as \<longrightarrow> essentialsAllPass bs"
    using assms by (induction rule: list_all2_induct) (auto simp: essentialsAllPass_def)
  ultimately show ?thesis by (auto simp: ComputeScore_def Let_def)
qed

theorem ComputeScore_monotone_witness:
  "fst (ComputeScore [fail ''spf'' (fl (- 26/10)), warn ''helo'' (fl (- 6/10))])
   \<le> fst (ComputeScore [warn ''spf'' (fl (- 13/10)), pass ''helo'' 0])"
proof (rule ComputeScore_monotone)
  have "fl (- 26/10) \<le> fl (- 13/10)" "fl (- 6/10) \<le> 0" by code_simp+
  then show "list_all2 (\<lambda>a b. ID a = ID b \<and> ScoreDelta a \<le> ScoreDelta b \<and> (Status a = ''pass'' \<longrightarrow> Status b = ''pass''))
     [fail ''spf'' (fl (- 26/10)), warn ''helo'' (fl (- 6/10))] [warn ''spf'' (fl (- 13/10)), pass ''helo'' 0]"
    by (simp add: finding_defs)
qed

text \<open>
  A check that could not ask DNS never moves the score, whatever its ID: after enrichment its delta
  is 0, and it counts as unresolved for the note in the report header.
\<close>

theorem unresolved_is_neutral:
  "ScoreDelta (enrichCheckResult (unresolved i)) = 0
   \<and> sum_deltas s (as @ [enrichCheckResult (unresolved i)]) = fl (sum_deltas s as)
   \<and> countUnresolved [enrichCheckResult (unresolved i)] = 1"
  by (simp add: enrichCheckResult_def unresolved_def withDetails_def finding_defs scoreFor_def sum_deltas_def
      fadd_def countUnresolved_def detail_def Let_def)

lemma fold_finish:
  assumes "distinct order" "set order \<subseteq> {..<length tasks}" "length results = length tasks"
  shows "length (fold (finish tasks) order results) = length tasks
    \<and> (\<forall>i<length tasks. fold (finish tasks) order results ! i =
         (if i \<in> set order then (case tasks ! i of (name, Inl msg) \<Rightarrow> [errorCheck name msg] | (name, Inr fs) \<Rightarrow> fs)
          else results ! i))"
  using assms
proof (induction order arbitrary: results)
  case (Cons j order)
  then have "length (finish tasks j results) = length tasks" by (simp add: finish_def)
  from Cons.IH [OF _ _ this] Cons.prems show ?case
    by (auto simp: finish_def nth_list_update)
qed simp

lemma runChecks_slots:
  assumes "distinct order" "set order = {..<length tasks}"
  shows "runChecksConcurrently tasks order =
    concat (map (\<lambda>(name, r). case r of Inl msg \<Rightarrow> [errorCheck name msg] | Inr fs \<Rightarrow> fs) tasks)"
proof -
  let ?r = "\<lambda>(name, r). case r of Inl msg \<Rightarrow> [errorCheck name msg] | Inr fs \<Rightarrow> fs"
  have "fold (finish tasks) order (replicate (length tasks) []) = map ?r tasks"
    using fold_finish [of order tasks "replicate (length tasks) []"] assms
    by (intro nth_equalityI) (auto split: prod.splits sum.splits)
  then show ?thesis by (simp add: runChecksConcurrently_def)
qed

text \<open>
  The results of the concurrent checks come out in the order of the tasks, one slot each, for every order in which
  the goroutines end; a check that panics contributes an informational finding in its place.
\<close>

theorem runChecksConcurrently_deterministic:
  assumes "distinct order" "set order = {..<length tasks}"
  shows "runChecksConcurrently tasks order =
    concat (map (\<lambda>(name, r). case r of Inl msg \<Rightarrow> [errorCheck name msg] | Inr fs \<Rightarrow> fs) tasks)"
  using assms by (rule runChecks_slots)

theorem runChecksConcurrently_deterministic_witness:
  "runChecksConcurrently [(''mx'', Inr [pass ''mx'' 0]), (''ptr'', Inl ''boom''), (''rbl'', Inr [])] [2, 0, 1] =
   concat (map (\<lambda>(name, r). case r of Inl msg \<Rightarrow> [errorCheck name msg] | Inr fs \<Rightarrow> fs)
     [(''mx'', Inr [pass ''mx'' 0]), (''ptr'', Inl ''boom''), (''rbl'', Inr [])])"
  by (rule runChecksConcurrently_deterministic) auto

end
