(* ===== verification/Net_IP.thy ===== *)
theory Net_IP
  imports Go_Strings "HOL-Library.Word"
begin

unbundle bit_operations_syntax

text \<open>
  The part of Go's package \<open>net\<close> the program computes with: IP addresses and their text form.

  A \<open>net.IP\<close> is a slice of 4 or of 16 bytes; a nil slice is \<open>None\<close> where it can occur. The two
  forms of an IPv4 address (4 bytes, or 16 bytes with the prefix \<open>::ffff:0:0/96\<close>) are equal for
  \<open>IP.Equal\<close> but not for \<open>IP.Mask\<close>, so the model keeps them apart.
\<close>

datatype ip = IP4 "32 word" | IP16 "128 word"

definition v4_prefix :: "96 word" where
  "v4_prefix = 0xFFFF"

definition v4_mapped :: "32 word \<Rightarrow> 128 word" where
  "v4_mapped a = push_bit 32 (ucast v4_prefix) OR ucast a"

definition to16 :: "ip \<Rightarrow> 128 word" where
  "to16 i = (case i of IP4 a \<Rightarrow> v4_mapped a | IP16 w \<Rightarrow> w)"

definition to4 :: "ip \<Rightarrow> 32 word option" where
  "to4 i = (case i of IP4 a \<Rightarrow> Some a
     | IP16 w \<Rightarrow> if drop_bit 32 w = ucast v4_prefix then Some (ucast w) else None)"

definition ip_equal :: "ip \<Rightarrow> ip \<Rightarrow> bool" where
  "ip_equal a b = (to16 a = to16 b)"

text \<open>\<open>net.CIDRMask(ones, bits)\<close> for \<open>ones \<le> bits\<close>: leading ones.\<close>

definition cidr_mask :: "nat \<Rightarrow> 'a::len word" where
  "cidr_mask ones = NOT (mask (LENGTH('a) - ones))"

text \<open>
  \<open>IP.Mask\<close> with a 16-byte mask of \<open>n\<close> leading ones. A 4-byte address only accepts it when its
  first 12 bytes are all ones.
\<close>

definition ip_mask16 :: "nat \<Rightarrow> ip \<Rightarrow> ip option" where
  "ip_mask16 n i = (case i of
       IP4 a \<Rightarrow> if 96 \<le> n then Some (IP4 (a AND cidr_mask (n - 96))) else None
     | IP16 w \<Rightarrow> Some (IP16 (w AND cidr_mask n)))"

text \<open>\<open>IP.Equal\<close> where both sides may be nil.\<close>

definition ip_equal_opt :: "ip option \<Rightarrow> ip option \<Rightarrow> bool" where
  "ip_equal_opt a b = (case (a, b) of (None, None) \<Rightarrow> True | (Some x, Some y) \<Rightarrow> ip_equal x y | _ \<Rightarrow> False)"

subsection \<open>Text form\<close>

text \<open>An octet: digits without a leading zero, at most 255.\<close>

definition parse_octet :: "gostring \<Rightarrow> int option" where
  "parse_octet s =
     (if s = [] \<or> \<not> list_all is_digit s \<or> (1 < length s \<and> has_prefix s ''0'') \<or> 255 < digits_val 0 s
      then None else Some (digits_val 0 s))"

definition parse_ip4 :: "gostring \<Rightarrow> (32 word) option" where
  "parse_ip4 s =
     (case map parse_octet (split (CHR ''.'') s) of
        [Some a, Some b, Some c, Some d] \<Rightarrow> Some (word_of_int (((a * 256 + b) * 256 + c) * 256 + d))
      | _ \<Rightarrow> None)"

definition hex_val :: "char \<Rightarrow> int option" where
  "hex_val c = (let n = (of_char c :: int) in
     if 48 \<le> n \<and> n \<le> 57 then Some (n - 48)
     else if 97 \<le> n \<and> n \<le> 102 then Some (n - 87)
     else if 65 \<le> n \<and> n \<le> 70 then Some (n - 55) else None)"

text \<open>The hexadecimal digits at the front of a string, their value, and the rest.\<close>

fun hex_run :: "gostring \<Rightarrow> nat \<Rightarrow> int \<Rightarrow> nat \<times> int \<times> gostring" where
  "hex_run [] off acc = (off, acc, [])"
| "hex_run (c # cs) off acc =
     (case hex_val c of None \<Rightarrow> (off, acc, c # cs) | Some v \<Rightarrow> hex_run cs (Suc off) (16 * acc + v))"

lemma hex_run_length: "hex_run s off acc = (off', acc', r) \<Longrightarrow> length r + off' = length s + off"
  by (induction s off acc rule: hex_run.induct) (auto split: option.splits)

text \<open>
  The loop of \<open>netip.parseIPv6\<close>: \<open>gs\<close> are the 16-bit groups read so far, \<open>ell\<close> the position of
  the ellipsis. \<open>None\<close> is a parse error. The result is the groups and the position.
\<close>

function parse_groups :: "gostring \<Rightarrow> int list \<Rightarrow> nat option \<Rightarrow> (int list \<times> nat option) option" where
  "parse_groups s gs ell =
     (if 8 \<le> length gs then (if s = [] then Some (gs, ell) else None)
      else (case hex_run s 0 0 of (off, acc, r) \<Rightarrow>
        if off = 0 \<or> 4 < off then None
        else if has_prefix r ''.'' then
          (if ell = None \<and> length gs \<noteq> 6 then None
           else if 6 < length gs then None
           else (case parse_ip4 s of None \<Rightarrow> None
                 | Some a \<Rightarrow> Some (gs @ [uint (drop_bit 16 a), uint (a AND 0xFFFF)], ell)))
        else (case r of
            [] \<Rightarrow> Some (gs @ [acc], ell)
          | c # r1 \<Rightarrow>
              if c \<noteq> CHR '':'' \<or> r1 = [] then None
              else if has_prefix r1 '':'' then
                (if ell \<noteq> None then None
                 else if drop 1 r1 = [] then Some (gs @ [acc], Some (length gs + 1))
                 else parse_groups (drop 1 r1) (gs @ [acc]) (Some (length gs + 1)))
              else parse_groups r1 (gs @ [acc]) ell)))"
  by pat_completeness auto
termination
  by (relation "measure (\<lambda>(s, gs, ell). 8 - length gs)") auto

declare parse_groups.simps [simp del]

fun groups_val :: "int list \<Rightarrow> int" where
  "groups_val gs = fold (\<lambda>g acc. acc * 65536 + g) gs 0"

definition parse_ip6 :: "gostring \<Rightarrow> (128 word) option" where
  "parse_ip6 s =
     (let lead = has_prefix s ''::''; s1 = (if lead then drop 2 s else s)
      in if lead \<and> s1 = [] then Some 0
         else (case parse_groups s1 [] (if lead then Some 0 else None) of
             None \<Rightarrow> None
           | Some (gs, ell) \<Rightarrow>
               if length gs < 8
               then (case ell of None \<Rightarrow> None
                     | Some e \<Rightarrow> Some (word_of_int (groups_val (take e gs @ replicate (8 - length gs) 0 @ drop e gs))))
               else if ell \<noteq> None then None
               else Some (word_of_int (groups_val gs))))"

text \<open>
  \<open>net.ParseIP\<close>: the first of the characters dot, colon and percent decides the syntax; an address
  with a zone is refused. The result is in 16-byte form.
\<close>

definition ParseIP :: "gostring \<Rightarrow> ip option" where
  "ParseIP s =
     (if CHR ''%'' \<in> set s then None
      else (case find (\<lambda>c. c = CHR ''.'' \<or> c = CHR '':'') s of
          None \<Rightarrow> None
        | Some c \<Rightarrow> if c = CHR ''.'' then map_option (IP16 \<circ> v4_mapped) (parse_ip4 s)
                   else map_option IP16 (parse_ip6 s)))"

text \<open>\<open>IP.String\<close>: dotted form for an IPv4 address in either form, otherwise the RFC 5952 form.\<close>

definition octets :: "32 word \<Rightarrow> int list" where
  "octets a = map (\<lambda>i. uint (drop_bit i a) mod 256) [24, 16, 8, 0]"

definition groups16 :: "128 word \<Rightarrow> int list" where
  "groups16 w = map (\<lambda>i. uint (drop_bit i w) mod 65536) [112, 96, 80, 64, 48, 32, 16, 0]"

definition hex_digit :: "int \<Rightarrow> char" where
  "hex_digit n = char_of (if n < 10 then 48 + n else 87 + n)"

definition show_hex16 :: "int \<Rightarrow> gostring" where
  "show_hex16 g = (case dropWhile (\<lambda>d. d = 0) [g div 4096, g div 256 mod 16, g div 16 mod 16] of
     ds \<Rightarrow> map hex_digit (ds @ [g mod 16]))"

definition zero_run :: "int list \<Rightarrow> nat \<Rightarrow> nat" where
  "zero_run gs i = length (takeWhile (\<lambda>g. g = 0) (drop i gs))"

text \<open>Start and length of the first longest run of at least two zero groups.\<close>

definition longest_zeros :: "int list \<Rightarrow> nat \<times> nat" where
  "longest_zeros gs = fold (\<lambda>i (st, l). let r = zero_run gs i in if 2 \<le> r \<and> l < r then (i, r) else (st, l))
     [0..<8] (0, 0)"

definition ip_string :: "ip \<Rightarrow> gostring" where
  "ip_string i = (case to4 i of
       Some a \<Rightarrow> join ''.'' (map show_int (octets a))
     | None \<Rightarrow> (let gs = groups16 (to16 i) in case longest_zeros gs of (st, l) \<Rightarrow>
         if l = 0 then join '':'' (map show_hex16 gs)
         else join '':'' (map show_hex16 (take st gs)) @ ''::'' @ join '':'' (map show_hex16 (drop (st + l) gs))))"

subsection \<open>Host and port\<close>

text \<open>\<open>net.SplitHostPort\<close>; \<open>None\<close> is its error.\<close>

definition SplitHostPort :: "gostring \<Rightarrow> (gostring \<times> gostring) option" where
  "SplitHostPort hp =
     (case last_index_char hp (CHR '':'') of
        None \<Rightarrow> None
      | Some i \<Rightarrow>
          if has_prefix hp ''['' then
            (case index hp '']'' of
               None \<Rightarrow> None
             | Some e \<Rightarrow>
                 if e + 1 \<noteq> i then None
                 else if CHR ''['' \<in> set (drop 1 hp) \<or> CHR '']'' \<in> set (drop (e + 1) hp) then None
                 else Some (take (e - 1) (drop 1 hp), drop (i + 1) hp))
          else if CHR '':'' \<in> set (take i hp) then None
          else if CHR ''['' \<in> set hp \<or> CHR '']'' \<in> set hp then None
          else Some (take i hp, drop (i + 1) hp))"

definition JoinHostPort :: "gostring \<Rightarrow> gostring \<Rightarrow> gostring" where
  "JoinHostPort host port =
     (if CHR '':'' \<in> set host then ''['' @ host @ '']:'' @ port else host @ '':'' @ port)"

subsection \<open>Laws\<close>

lemma last_index_char_append [simp]: "c \<notin> set t \<Longrightarrow> last_index_char (s @ c # t) c = Some (length s)"
  by (simp add: last_index_char_def)

lemma split_join_host_port:
  assumes "CHR ''['' \<notin> set host" "CHR '']'' \<notin> set host"
    and "CHR '':'' \<notin> set port" "CHR ''['' \<notin> set port" "CHR '']'' \<notin> set port"
  shows "SplitHostPort (JoinHostPort host port) = Some (host, port)"
proof (cases "CHR '':'' \<in> set host")
  case False
  have "last_index_char (host @ CHR '':'' # port) (CHR '':'') = Some (length host)"
    using assms by simp
  moreover have "\<not> has_prefix (host @ CHR '':'' # port) ''[''"
    using assms(1) by (cases host) auto
  ultimately show ?thesis using False assms by (simp add: SplitHostPort_def JoinHostPort_def)
next
  case True
  let ?hp = "''['' @ host @ '']:'' @ port"
  have "last_index_char ((''['' @ host @ '']'') @ CHR '':'' # port) (CHR '':'') = Some (length host + 2)"
    using assms by (subst last_index_char_append) simp_all
  then have i: "last_index_char ?hp (CHR '':'') = Some (length host + 2)" by simp
  have "index ((''['' @ host) @ CHR '']'' # ('':'' @ port)) '']'' = Some (length (''['' @ host))"
    using assms by (intro index_char_append) auto
  then have e: "index ?hp '']'' = Some (length host + 1)" by simp
  have "JoinHostPort host port = ?hp" using True by (simp add: JoinHostPort_def)
  then show ?thesis using assms i e by (simp add: SplitHostPort_def)
qed

text \<open>The characters of a textual IP address.\<close>

definition ip_char :: "char \<Rightarrow> bool" where
  "ip_char c = (hex_val c \<noteq> None \<or> c = CHR ''.'' \<or> c = CHR '':'')"

lemma is_digit_hex: "is_digit c \<Longrightarrow> hex_val c \<noteq> None"
  by (auto simp: is_digit_def hex_val_def Let_def)

lemma parse_octet_chars: "parse_octet s = Some v \<Longrightarrow> list_all ip_char s"
  by (auto simp: parse_octet_def list_all_iff ip_char_def is_digit_hex split: if_splits)

lemma parse_ip4_chars: "parse_ip4 s = Some a \<Longrightarrow> list_all ip_char s"
proof -
  assume "parse_ip4 s = Some a"
  then have parts: "\<forall>w\<in>set (split (CHR ''.'') s). list_all ip_char w"
    by (auto simp: parse_ip4_def parse_octet_chars split: list.splits option.splits)
  have "set (join ''.'' (split (CHR ''.'') s)) \<subseteq> set ''.'' \<union> (\<Union>w\<in>set (split (CHR ''.'') s). set w)"
    by (rule set_join)
  then show "list_all ip_char s"
    using parts by (auto simp: join_split list_all_iff ip_char_def)
qed

lemma hex_run_chars: "hex_run s off acc = (off', acc', r) \<Longrightarrow> \<exists>h. s = h @ r \<and> list_all ip_char h"
proof (induction s off acc rule: hex_run.induct)
  case (2 c cs off acc)
  show ?case
  proof (cases "hex_val c")
    case None
    with 2(2) show ?thesis by auto
  next
    case (Some v)
    with 2 obtain h where "cs = h @ r" "list_all ip_char h" by auto
    with Some have "c # cs = (c # h) @ r" "list_all ip_char (c # h)" by (auto simp: ip_char_def)
    then show ?thesis by blast
  qed
qed auto

lemma parse_groups_chars: "parse_groups s gs ell = Some x \<Longrightarrow> list_all ip_char s"
proof (induction s gs ell rule: parse_groups.induct)
  case (1 s gs ell)
  obtain off acc r where h: "hex_run s 0 0 = (off, acc, r)" by (cases "hex_run s 0 0") auto
  from hex_run_chars [OF h] obtain w where w: "s = w @ r" "list_all ip_char w" by blast
  have colon: "ip_char (CHR '':'')" by (simp add: ip_char_def)
  show ?case
  proof (cases "8 \<le> length gs \<or> has_prefix r ''.'' \<or> r = []")
    case True
    with 1(3) h have "parse_ip4 s \<noteq> None \<or> s = [] \<or> r = []"
      by (auto simp: parse_groups.simps [of s gs ell] split: if_splits option.splits)
    with w show ?thesis by (auto dest: parse_ip4_chars)
  next
    case False
    then obtain c r1 where r: "r = c # r1" by (cases r) auto
    from 1(3) h False r have c: "c = CHR '':''" "r1 \<noteq> []" "off \<noteq> 0" "\<not> 4 < off"
      by (auto simp: parse_groups.simps [of s gs ell] split: if_splits)
    have "list_all ip_char r1"
    proof (cases "has_prefix r1 '':''")
      case True
      then obtain r2 where r2: "r1 = CHR '':'' # r2" by (cases r1) auto
      have "list_all ip_char r2"
        using 1(1) [OF _ h [symmetric]] 1(3) False h r c r2 True
        by (auto simp: parse_groups.simps [of s gs ell] split: if_splits)
      with r2 colon show ?thesis by simp
    next
      case nocolon: False
      then show ?thesis
        using 1(2) [OF _ h [symmetric]] 1(3) False h r c
        by (auto simp: parse_groups.simps [of s gs ell] split: if_splits)
    qed
    with w r c colon show ?thesis by simp
  qed
qed

lemma ParseIP_chars: "ParseIP s = Some i \<Longrightarrow> list_all ip_char s"
proof -
  assume "ParseIP s = Some i"
  then consider a where "parse_ip4 s = Some a" | a where "parse_ip6 s = Some a"
    by (auto simp: ParseIP_def split: if_splits option.splits)
  then show "list_all ip_char s"
  proof cases
    case 1
    then show ?thesis by (rule parse_ip4_chars)
  next
    case 2
    show ?thesis
    proof (cases "has_prefix s ''::''")
      case True
      then obtain t where t: "s = ''::'' @ t" by (rule has_prefixE)
      with 2 have "list_all ip_char t"
        by (auto simp: parse_ip6_def Let_def split: if_splits option.splits prod.splits dest: parse_groups_chars)
      with t show ?thesis by (simp add: ip_char_def)
    next
      case False
      with 2 show ?thesis
        by (auto simp: parse_ip6_def Let_def split: if_splits option.splits prod.splits dest: parse_groups_chars)
    qed
  qed
qed

lemma ParseIP_no_bracket: "ParseIP s = Some i \<Longrightarrow> CHR ''['' \<notin> set s \<and> CHR '']'' \<notin> set s"
  using ParseIP_chars [of s i] by (auto simp: list_all_iff ip_char_def hex_val_def)


lemma drop_v4_mapped: "drop_bit 32 (v4_mapped a) = ucast v4_prefix"
  by (rule bit_eqI)
    (auto simp: v4_mapped_def v4_prefix_def bit_simps possible_bit_word dest: bit_imp_le_length)

lemma ucast_v4_mapped [simp]: "(ucast (v4_mapped a) :: 32 word) = a"
  by (rule bit_eqI) (auto simp: v4_mapped_def bit_simps possible_bit_word)

lemma v4_mapped_inj [simp]: "v4_mapped a = v4_mapped b \<longleftrightarrow> a = b"
  by (metis ucast_v4_mapped)

lemma to4_IP4 [simp]: "to4 (IP4 a) = Some a"
  by (simp add: to4_def)

lemma to4_mapped [simp]: "to4 (IP16 (v4_mapped a)) = Some a"
  by (simp add: to4_def drop_v4_mapped)

lemma ip_equal_refl [simp]: "ip_equal a a"
  by (simp add: ip_equal_def)

lemma ip_equal_sym: "ip_equal a b = ip_equal b a"
  by (auto simp: ip_equal_def)

text \<open>Masking with \<open>k\<close> leading ones compares the top \<open>k\<close> bits.\<close>

lemma cidr_mask_eq_iff:
  fixes x y :: "'a::len word"
  shows "x AND cidr_mask k = y AND cidr_mask k \<longleftrightarrow> drop_bit (LENGTH('a) - k) x = drop_bit (LENGTH('a) - k) y"
    (is "?l = ?r")
proof
  let ?n = "LENGTH('a) - k"
  have drop: "drop_bit ?n (z AND cidr_mask k) = drop_bit ?n z" for z :: "'a word"
    by (rule bit_eqI) (auto simp: cidr_mask_def bit_simps possible_bit_word dest: bit_imp_le_length)
  show "?l \<Longrightarrow> ?r" by (metis drop)
  have push: "z AND cidr_mask k = push_bit ?n (drop_bit ?n z)" for z :: "'a word"
    by (rule bit_eqI) (auto simp: cidr_mask_def bit_simps possible_bit_word dest: bit_imp_le_length)
  show "?r \<Longrightarrow> ?l" by (simp add: push)
qed

lemma to4_None_IP16: "to4 i = None \<Longrightarrow> \<exists>w. i = IP16 w"
  by (cases i) (auto simp: to4_def)

end
