(* ===== verification/Dns.thy ===== *)
theory Dns
  imports Net_IP
begin

text \<open>
  DNS access: the package \<open>internal/dnsfallback\<close> (TXT lookups that ask external resolvers when the
  local one has no answer) and the three-valued lookups of \<open>internal/analyzer/dns.go\<close>.

  The resolvers are code outside the repository. They are the fields of \<open>dns_env\<close>: one answer per
  question, the same for the whole evaluation of one message. An answer is a pair of the records and
  the error, because the Go functions return both. \<open>ctx_done name i\<close> tells whether the context of
  the lookup of \<open>name\<close> had ended when external resolver number \<open>i\<close> was due.

  An error is a \<open>net.DNSError\<close>, an error that wraps another one, or any other error:
  \<open>errors.As\<close> looks through wrappers and a type assertion does not.
\<close>

subsection \<open>The environment\<close>

datatype dns_error =
    DNSError (IsNotFound: bool)
  | WrappedError dns_error
  | OtherError

type_synonym 'a answer = "'a list \<times> dns_error option"

record MX =
  Host :: gostring
  Pref :: nat

record resolver =
  addr :: gostring
  dial_timeout :: duration

record fallback =
  resolvers :: "resolver list"
  wait :: duration

record dns_env =
  localLookup :: "gostring \<Rightarrow> gostring answer"
  query :: "resolver \<Rightarrow> duration \<Rightarrow> gostring \<Rightarrow> gostring answer"
  ctx_done :: "gostring \<Rightarrow> nat \<Rightarrow> bool"
  fb :: fallback
  LookupMX :: "gostring \<Rightarrow> MX answer"
  LookupIPAddr :: "gostring \<Rightarrow> ip answer"
  LookupHost :: "gostring \<Rightarrow> gostring answer"
  LookupAddr :: "gostring \<Rightarrow> gostring answer"
  idnaToASCII :: "gostring \<Rightarrow> gostring option"
  EffectiveTLDPlusOne :: "gostring \<Rightarrow> gostring option"

subsection \<open>Configuration of the fallback\<close>

definition DefaultResolvers :: gostring where "DefaultResolvers = ''1.1.1.1,8.8.8.8,9.9.9.9''"
definition Off :: gostring where "Off = ''none''"
definition DefaultTimeout :: duration where "DefaultTimeout = 2 * second"
definition MaxResolvers :: nat where "MaxResolvers = 5"

datatype resolver_error =
    NotAnIP gostring
  | BadPort gostring gostring
  | TooManyResolvers nat

definition normalizeAddr :: "gostring \<Rightarrow> resolver_error + gostring" where
  "normalizeAddr s =
     (case (case SplitHostPort s of Some hp \<Rightarrow> hp | None \<Rightarrow> (trim_set s ''[]'', ''53'')) of (host, port) \<Rightarrow>
        if ParseIP host = None then Inl (NotAnIP s)
        else (case atoi port of
            None \<Rightarrow> Inl (BadPort s port)
          | Some n \<Rightarrow> if n < 1 \<or> 65535 < n then Inl (BadPort s port)
                     else Inr (JoinHostPort host port)))"

fun parse_parts :: "gostring list \<Rightarrow> resolver_error + gostring list" where
  "parse_parts [] = Inr []"
| "parse_parts (p # ps) =
     (if trim_space p = [] then parse_parts ps
      else (case normalizeAddr (trim_space p) of
          Inl e \<Rightarrow> Inl e
        | Inr a \<Rightarrow> (case parse_parts ps of Inl e \<Rightarrow> Inl e | Inr as \<Rightarrow> Inr (a # as))))"

definition ParseResolvers :: "gostring \<Rightarrow> resolver_error + gostring list" where
  "ParseResolvers l =
     (let l = trim_space l
      in if l = [] \<or> equal_fold l Off then Inr []
         else (case parse_parts (split (CHR '','') l) of
             Inl e \<Rightarrow> Inl e
           | Inr out \<Rightarrow> if MaxResolvers < length out then Inl (TooManyResolvers (length out)) else Inr out))"

definition Configure :: "gostring list \<Rightarrow> duration \<Rightarrow> fallback \<Rightarrow> fallback" where
  "Configure addrs t f =
     f\<lparr>resolvers := map (\<lambda>a. \<lparr>addr = a, dial_timeout = t\<rparr>) addrs,
       wait := (if 0 < t then t else wait f)\<rparr>"

definition Resolvers :: "fallback \<Rightarrow> gostring list" where
  "Resolvers f = map addr (resolvers f)"

definition Hosts :: "fallback \<Rightarrow> gostring list" where
  "Hosts f = map (\<lambda>a. case SplitHostPort a of Some (h, _) \<Rightarrow> h | None \<Rightarrow> a) (Resolvers f)"

subsection \<open>TXT lookup with fallback\<close>

text \<open>
  The loop over the external resolvers. The second component lists the addresses that were asked, in
  order: it records the traffic the privacy statement of the package is about.
\<close>

definition answered :: "'a answer \<Rightarrow> bool" where
  "answered a = (snd a = None \<and> fst a \<noteq> [])"

fun ask :: "dns_env \<Rightarrow> gostring \<Rightarrow> nat \<Rightarrow> resolver list \<Rightarrow> (gostring list \<times> gostring) option \<times> gostring list" where
  "ask env name i [] = (None, [])"
| "ask env name i (r # rs) =
     (if ctx_done env name i then (None, [])
      else (let got = query env r (wait (fb env)) name
            in if answered got then (Some (fst got, addr r), [addr r])
               else (case ask env name (i + 1) rs of (res, asked) \<Rightarrow> (res, addr r # asked))))"

record txt_result =
  recs :: "gostring list"
  source :: gostring
  err :: "dns_error option"
  asked :: "gostring list"

definition LookupTXTSource :: "dns_env \<Rightarrow> gostring \<Rightarrow> txt_result" where
  "LookupTXTSource env name =
     (let l = localLookup env name
      in if answered l then \<lparr>recs = fst l, source = [], err = None, asked = []\<rparr>
         else (case ask env name 0 (resolvers (fb env)) of
             (Some (got, a), qs) \<Rightarrow> \<lparr>recs = got, source = a, err = None, asked = qs\<rparr>
           | (None, qs) \<Rightarrow> \<lparr>recs = fst l, source = [], err = snd l, asked = qs\<rparr>))"

definition LookupTXT :: "dns_env \<Rightarrow> gostring \<Rightarrow> gostring answer" where
  "LookupTXT env name = (let r = LookupTXTSource env name in (recs r, err r))"

subsection \<open>Three-valued lookups\<close>

datatype dnsStatus = dnsOK | dnsAbsent | dnsUnavailable

text \<open>The counter \<open>dnsFailures\<close>, an \<open>atomic.Uint64\<close>, is passed through.\<close>

type_synonym dnsFailures = "64 word"

fun as_DNSError :: "dns_error \<Rightarrow> bool option" where
  "as_DNSError (DNSError nf) = Some nf"
| "as_DNSError (WrappedError e) = as_DNSError e"
| "as_DNSError OtherError = None"

definition classifyDNSError :: "dns_error option \<Rightarrow> dnsFailures \<Rightarrow> dnsStatus \<times> dnsFailures" where
  "classifyDNSError e n =
     (case e of
        None \<Rightarrow> (dnsOK, n)
      | Some d \<Rightarrow> if as_DNSError d = Some True then (dnsAbsent, n) else (dnsUnavailable, n + 1))"

definition DNSLookupFailed :: "dns_error option \<Rightarrow> dnsFailures \<Rightarrow> bool \<times> dnsFailures" where
  "DNSLookupFailed e n = (case classifyDNSError e n of (st, m) \<Rightarrow> (st = dnsUnavailable, m))"

definition isASCII :: "gostring \<Rightarrow> bool" where
  "isASCII s = list_all is_ascii_char s"

fun ascii_labels :: "(gostring \<Rightarrow> gostring option) \<Rightarrow> gostring list \<Rightarrow> gostring list option" where
  "ascii_labels toASCII [] = Some []"
| "ascii_labels toASCII (l # ls) =
     (case (if isASCII l then Some l else toASCII l) of
        None \<Rightarrow> None
      | Some c \<Rightarrow> map_option ((#) c) (ascii_labels toASCII ls))"

definition asciiDomain :: "dns_env \<Rightarrow> gostring \<Rightarrow> gostring option" where
  "asciiDomain env name =
     (let trimmed = trim_suffix (trim_space name) ''.''
      in if trimmed = [] then None
         else if isASCII trimmed then Some trimmed
         else map_option (join ''.'') (ascii_labels (idnaToASCII env) (split (CHR ''.'') trimmed)))"

text \<open>What the five lookups share once the name is known: the error decides, then the records.\<close>

definition classified :: "'a answer \<Rightarrow> dnsFailures \<Rightarrow> ('a list \<times> dnsStatus) \<times> dnsFailures" where
  "classified a n =
     (case a of (rs, e) \<Rightarrow>
        if e \<noteq> None then (case classifyDNSError e n of (st, m) \<Rightarrow> (([], st), m))
        else if rs = [] then (([], dnsAbsent), n)
        else ((rs, dnsOK), n))"

definition lookupTXT :: "dns_env \<Rightarrow> gostring \<Rightarrow> dnsFailures \<Rightarrow> (gostring list \<times> dnsStatus) \<times> dnsFailures" where
  "lookupTXT env name n =
     (case asciiDomain env name of None \<Rightarrow> (([], dnsAbsent), n) | Some a \<Rightarrow> classified (LookupTXT env a) n)"

definition lookupMX :: "dns_env \<Rightarrow> gostring \<Rightarrow> dnsFailures \<Rightarrow> (MX list \<times> dnsStatus) \<times> dnsFailures" where
  "lookupMX env name n =
     (case asciiDomain env name of None \<Rightarrow> (([], dnsAbsent), n) | Some a \<Rightarrow> classified (LookupMX env a) n)"

definition lookupIPAddr :: "dns_env \<Rightarrow> gostring \<Rightarrow> dnsFailures \<Rightarrow> (ip list \<times> dnsStatus) \<times> dnsFailures" where
  "lookupIPAddr env name n =
     (case asciiDomain env name of None \<Rightarrow> (([], dnsAbsent), n) | Some a \<Rightarrow> classified (LookupIPAddr env a) n)"

definition lookupHost :: "dns_env \<Rightarrow> gostring \<Rightarrow> dnsFailures \<Rightarrow> (gostring list \<times> dnsStatus) \<times> dnsFailures" where
  "lookupHost env name n =
     (case asciiDomain env name of None \<Rightarrow> (([], dnsAbsent), n) | Some a \<Rightarrow> classified (LookupHost env a) n)"

definition lookupAddr :: "dns_env \<Rightarrow> gostring \<Rightarrow> dnsFailures \<Rightarrow> (gostring list \<times> dnsStatus) \<times> dnsFailures" where
  "lookupAddr env ip n = classified (LookupAddr env ip) n"

subsection \<open>Domains\<close>

definition normDomain :: "gostring \<Rightarrow> gostring" where
  "normDomain d = trim_suffix (to_lower (trim_space d)) ''.''"

definition registrableDomain :: "dns_env \<Rightarrow> gostring \<Rightarrow> gostring" where
  "registrableDomain env domain =
     (let d = normDomain domain
      in if d = [] then [] else (case EffectiveTLDPlusOne env d of Some e \<Rightarrow> e | None \<Rightarrow> d))"

definition relaxedAligned :: "dns_env \<Rightarrow> gostring \<Rightarrow> gostring \<Rightarrow> bool" where
  "relaxedAligned env authDomain fromDomain =
     (let a = registrableDomain env authDomain; f = registrableDomain env fromDomain
      in a \<noteq> [] \<and> f \<noteq> [] \<and> a = f)"

fun tag_of :: "gostring list \<Rightarrow> gostring \<Rightarrow> gostring" where
  "tag_of [] key = []"
| "tag_of (t # ts) key =
     (if has_prefix (trim_space t) (key @ ''='')
      then trim_space (trim_prefix (trim_space t) (key @ ''=''))
      else tag_of ts key)"

definition extractTagValue :: "gostring \<Rightarrow> gostring \<Rightarrow> gostring" where
  "extractTagValue v key = tag_of (split (CHR '';'') v) key"

definition domainFromDKIM :: "gostring \<Rightarrow> gostring" where
  "domainFromDKIM sig = extractTagValue (to_lower sig) ''d''"

fun dedupe_from :: "gostring list \<Rightarrow> gostring list \<Rightarrow> gostring list" where
  "dedupe_from seen [] = []"
| "dedupe_from seen (s # ss) =
     (if s = [] \<or> s \<in> set seen then dedupe_from seen ss else s # dedupe_from (s # seen) ss)"

definition dedupeKeepOrder :: "gostring list \<Rightarrow> gostring list" where
  "dedupeKeepOrder xs = dedupe_from [] xs"

text \<open>\<open>dkimSigningDomains\<close> over the values of the header \<open>Dkim-Signature\<close>.\<close>

definition dkimSigningDomains :: "gostring list \<Rightarrow> gostring list" where
  "dkimSigningDomains sigs = dedupe_from [] (map domainFromDKIM sigs)"

subsection \<open>The DMARC record of a domain\<close>

record dmarcLookupResult =
  Records :: "gostring list"
  Policy :: gostring
  Domain :: gostring
  ViaOrg :: bool
  Status :: dnsStatus

definition is_dmarc1 :: "gostring \<Rightarrow> bool" where
  "is_dmarc1 r = has_prefix (to_lower (trim_space r)) ''v=dmarc1''"

definition dmarcRecordsAt :: "dns_env \<Rightarrow> gostring \<Rightarrow> dnsFailures \<Rightarrow> (dmarcLookupResult \<times> bool) \<times> dnsFailures" where
  "dmarcRecordsAt env domain n =
     (case lookupTXT env (''_dmarc.'' @ domain) n of ((rs, st), m) \<Rightarrow>
        (let out = \<lparr>Records = [], Policy = [], Domain = domain, ViaOrg = False, Status = st\<rparr>
         in if st \<noteq> dnsOK then ((out, False), m)
            else (let found = map trim_space (filter is_dmarc1 rs)
                  in if found = [] then ((out\<lparr>Status := dnsAbsent\<rparr>, False), m)
                     else ((out\<lparr>Records := found\<rparr>, True), m))))"

definition lookupDMARCRecord :: "dns_env \<Rightarrow> gostring \<Rightarrow> dnsFailures \<Rightarrow> dmarcLookupResult \<times> dnsFailures" where
  "lookupDMARCRecord env fromDomain n =
     (let d = normDomain fromDomain;
          none = \<lparr>Records = [], Policy = [], Domain = [], ViaOrg = False, Status = dnsAbsent\<rparr>
      in if d = [] then (none, n)
         else (case dmarcRecordsAt env d n of ((res, ok), m) \<Rightarrow>
           if ok then (res\<lparr>Policy := extractTagValue (to_lower (hd (Records res))) ''p''\<rparr>, m)
           else if Status res = dnsUnavailable then (res, m)
           else (let org = registrableDomain env d
                 in if org = [] \<or> org = d then (none\<lparr>Domain := d\<rparr>, m)
                    else (case dmarcRecordsAt env org m of ((ores, ook), k) \<Rightarrow>
                      if \<not> ook then (ores, k)
                      else (let lower = to_lower (hd (Records ores)); sp = extractTagValue lower ''sp''
                            in (ores\<lparr>ViaOrg := True,
                                     Policy := (if sp \<noteq> [] then sp else extractTagValue lower ''p'')\<rparr>, k))))))"

subsection \<open>Configured resolvers are IP addresses\<close>

lemma last_index_char_after: "last_index_char s c = Some i \<Longrightarrow> c \<notin> set (drop (i + 1) s)"
proof -
  assume "last_index_char s c = Some i"
  then obtain j where j: "index (rev s) [c] = Some j" and i: "i = length s - 1 - j"
    by (auto simp: last_index_char_def split: option.splits)
  from index_char_first [OF j] have "c \<notin> set (take j (rev s))" "j < length s" by auto
  moreover have "take j (rev s) = rev (drop (length s - j) s)" by (simp add: take_rev)
  moreover have "length s - j = i + 1" using i \<open>j < length s\<close> by simp
  ultimately show ?thesis by simp
qed

lemma in_set_drop_Suc: "x \<in> set (drop (Suc n) xs) \<Longrightarrow> x \<in> set (drop n xs)"
  using set_drop_subset_set_drop [of n "Suc n" xs] by auto

lemma SplitHostPort_port:
  assumes "SplitHostPort s = Some (h, p)"
  shows "CHR '':'' \<notin> set p \<and> CHR ''['' \<notin> set p \<and> CHR '']'' \<notin> set p"
proof -
  from assms obtain i where i: "last_index_char s (CHR '':'') = Some i" and p: "p = drop (i + 1) s"
    by (auto simp: SplitHostPort_def split: option.splits if_splits)
  have "CHR '':'' \<notin> set p" using last_index_char_after [OF i] p by simp
  moreover have "CHR ''['' \<notin> set p \<and> CHR '']'' \<notin> set p"
  proof (cases "has_prefix s ''[''")
    case True
    then obtain t where t: "s = CHR ''['' # t" by (cases s) auto
    with assms i p True show ?thesis
      by (auto simp: SplitHostPort_def split: option.splits if_splits dest: in_set_dropD in_set_drop_Suc)
  next
    case False
    with assms i p show ?thesis
      by (auto simp: SplitHostPort_def split: option.splits if_splits dest: in_set_dropD)
  qed
  ultimately show ?thesis by blast
qed

lemma normalizeAddr_Inr:
  assumes "normalizeAddr s = Inr a"
  obtains host port n where "a = JoinHostPort host port" "SplitHostPort a = Some (host, port)"
    "ParseIP host \<noteq> None" "atoi port = Some n" "1 \<le> n" "n \<le> 65535"
proof -
  obtain host port where hp: "(case SplitHostPort s of Some hp \<Rightarrow> hp | None \<Rightarrow> (trim_set s ''[]'', ''53'')) = (host, port)"
    by (cases "case SplitHostPort s of Some hp \<Rightarrow> hp | None \<Rightarrow> (trim_set s ''[]'', ''53'')")
  have port: "CHR '':'' \<notin> set port" "CHR ''['' \<notin> set port" "CHR '']'' \<notin> set port"
    using hp by (auto split: option.splits dest: SplitHostPort_port)
  from assms hp obtain n where n: "a = JoinHostPort host port" "ParseIP host \<noteq> None"
      "atoi port = Some n" "1 \<le> n" "n \<le> 65535"
    by (auto simp: normalizeAddr_def split: if_splits option.splits)
  from n(2) have "CHR ''['' \<notin> set host" "CHR '']'' \<notin> set host"
    using ParseIP_no_bracket by auto
  then have "SplitHostPort a = Some (host, port)"
    using port n(1) by (simp add: split_join_host_port)
  with n show thesis by (intro that) auto
qed

lemma normalizeAddr_fixed: "normalizeAddr s = Inr a \<Longrightarrow> normalizeAddr a = Inr a"
  by (erule normalizeAddr_Inr) (auto simp: normalizeAddr_def)

lemma parse_parts_all: "parse_parts ps = Inr as \<Longrightarrow> a \<in> set as \<Longrightarrow> \<exists>p. normalizeAddr p = Inr a"
  by (induction ps arbitrary: as) (auto split: if_splits sum.splits)

lemma Hosts_Configure:
  "(\<And>a. a \<in> set as \<Longrightarrow> \<exists>p. normalizeAddr p = Inr a) \<Longrightarrow> h \<in> set (Hosts (Configure as t f)) \<Longrightarrow> ParseIP h \<noteq> None"
  by (fastforce simp: Hosts_def Resolvers_def Configure_def elim: normalizeAddr_Inr)

text \<open>
  A list accepted by \<open>ParseResolvers\<close> has at most five entries; each is in normal form, so that
  parsing it again changes nothing; after \<open>Configure\<close> exactly these addresses are asked, in this
  order, and each host is an IP address: no TXT question can reach a resolver that would first
  have to be looked up in DNS itself.
\<close>

theorem ParseResolvers_sound:
  assumes "ParseResolvers l = Inr as"
  shows "length as \<le> 5 \<and> list_all (\<lambda>a. normalizeAddr a = Inr a) as
    \<and> Resolvers (Configure as t f) = as
    \<and> list_all (\<lambda>h. ParseIP h \<noteq> None) (Hosts (Configure as t f))"
proof -
  from assms have len: "length as \<le> 5"
    by (auto simp: ParseResolvers_def MaxResolvers_def Let_def split: if_splits sum.splits)
  from assms have norm: "\<exists>p. normalizeAddr p = Inr a" if "a \<in> set as" for a
    using that by (auto simp: ParseResolvers_def Let_def split: if_splits sum.splits dest: parse_parts_all)
  then have "list_all (\<lambda>a. normalizeAddr a = Inr a) as"
    using normalizeAddr_fixed by (auto simp: list_all_iff)
  moreover have "list_all (\<lambda>h. ParseIP h \<noteq> None) (Hosts (Configure as t f))"
    using Hosts_Configure [OF norm] by (auto simp: list_all_iff)
  moreover have "Resolvers (Configure as t f) = as"
    by (simp add: Resolvers_def Configure_def o_def)
  ultimately show ?thesis using len by blast
qed

theorem ParseResolvers_sound_witness:
  "ParseResolvers '' 1.1.1.1, [2001:db8::1]:5353,, ::1 '' = Inr [''1.1.1.1:53'', ''[2001:db8::1]:5353'', ''[::1]:53'']
   \<and> Hosts (Configure [''1.1.1.1:53'', ''[2001:db8::1]:5353'', ''[::1]:53''] second \<lparr>resolvers = [], wait = DefaultTimeout\<rparr>)
     = [''1.1.1.1'', ''2001:db8::1'', ''::1'']
   \<and> list_all (\<lambda>h. ParseIP h \<noteq> None)
       (Hosts (Configure [''1.1.1.1:53'', ''[2001:db8::1]:5353'', ''[::1]:53''] second \<lparr>resolvers = [], wait = DefaultTimeout\<rparr>))"
proof -
  have p: "ParseResolvers '' 1.1.1.1, [2001:db8::1]:5353,, ::1 '' = Inr [''1.1.1.1:53'', ''[2001:db8::1]:5353'', ''[::1]:53'']"
    by code_simp
  moreover have "Hosts (Configure [''1.1.1.1:53'', ''[2001:db8::1]:5353'', ''[::1]:53''] second \<lparr>resolvers = [], wait = DefaultTimeout\<rparr>)
     = [''1.1.1.1'', ''2001:db8::1'', ''::1'']"
    by code_simp
  ultimately show ?thesis using ParseResolvers_sound [OF p] by blast
qed

subsection \<open>The order of the resolvers\<close>

text \<open>The resolvers whose turn comes before the context ends.\<close>

definition in_time :: "dns_env \<Rightarrow> gostring \<Rightarrow> resolver list" where
  "in_time env name = map snd (takeWhile (\<lambda>(i, r). \<not> ctx_done env name i)
     (zip [0..<length (resolvers (fb env))] (resolvers (fb env))))"

fun until :: "('a \<Rightarrow> bool) \<Rightarrow> 'a list \<Rightarrow> 'a list" where
  "until P [] = []"
| "until P (x # xs) = (if P x then [x] else x # until P xs)"

lemma ask_spec:
  assumes "rs' = map snd (takeWhile (\<lambda>(j, r). \<not> ctx_done env name j) (zip [i..<i + length rs] rs))"
  shows "ask env name i rs =
     (map_option (\<lambda>r. (fst (query env r (wait (fb env)) name), addr r))
        (find (\<lambda>r. answered (query env r (wait (fb env)) name)) rs'),
      map addr (until (\<lambda>r. answered (query env r (wait (fb env)) name)) rs'))"
  using assms
proof (induction rs arbitrary: i rs')
  case (Cons r rs)
  have "zip [i..<i + length (r # rs)] (r # rs) = (i, r) # zip [Suc i..<Suc i + length rs] rs"
    by (simp add: upt_conv_Cons del: upt_Suc)
  with Cons.IH [OF refl, of "Suc i"] Cons.prems show ?case
    by (auto simp: Let_def simp del: upt_Suc)
qed simp

text \<open>
  The TXT lookup asks the local resolver first; a usable local answer is returned and no
  question leaves for an external resolver. Otherwise the external resolvers are asked in the
  configured order while the context lasts, up to and including the first that answers, whose
  records and address are returned; when none answers, the caller gets the local resolver's
  records and error.
\<close>

theorem LookupTXTSource_order:
  "LookupTXTSource env name =
     (let l = localLookup env name;
          ok = (\<lambda>r. answered (query env r (wait (fb env)) name))
      in if answered l then \<lparr>recs = fst l, source = [], err = None, asked = []\<rparr>
         else (case find ok (in_time env name) of
             Some r \<Rightarrow> \<lparr>recs = fst (query env r (wait (fb env)) name), source = addr r, err = None,
                        asked = map addr (until ok (in_time env name))\<rparr>
           | None \<Rightarrow> \<lparr>recs = fst l, source = [], err = snd l,
                     asked = map addr (until ok (in_time env name))\<rparr>))"
proof -
  have "in_time env name = map snd (takeWhile (\<lambda>(j, r). \<not> ctx_done env name j)
      (zip [0..<0 + length (resolvers (fb env))] (resolvers (fb env))))"
    by (simp add: in_time_def)
  from ask_spec [OF this] show ?thesis
    by (auto simp: LookupTXTSource_def Let_def split: option.splits)
qed

subsection \<open>An outage is never an absent record\<close>

lemma classified_failures:
  "classified a n = ((rs, st), m) \<Longrightarrow> m = (if st = dnsUnavailable then n + 1 else n)"
  by (auto simp: classified_def classifyDNSError_def split: prod.splits option.splits if_splits)

lemma lookupTXT_failures:
  "lookupTXT env name n = ((rs, st), m) \<Longrightarrow> m = (if st = dnsUnavailable then n + 1 else n)"
  by (auto simp: lookupTXT_def split: option.splits if_splits dest: classified_failures)

lemma dmarcRecordsAt_ok:
  assumes "dmarcRecordsAt env d n = ((res, ok), m)"
  shows "m = (if Status res = dnsUnavailable then n + 1 else n) \<and> Domain res = d
    \<and> (ok \<longleftrightarrow> Status res = dnsOK) \<and> (ok \<longleftrightarrow> Records res \<noteq> [])
    \<and> list_all is_dmarc1 (Records res)"
proof -
  obtain rs st k where t: "lookupTXT env (''_dmarc.'' @ d) n = ((rs, st), k)"
    by (metis prod.exhaust)
  from lookupTXT_failures [OF t] assms t show ?thesis
    by (auto simp: dmarcRecordsAt_def Let_def list_all_iff is_dmarc1_def filter_empty_conv split: if_splits)
qed

text \<open>
  The result of the DMARC lookup separates an absent record from a lookup that was not
  answered. \<open>dnsFailures\<close> grows (by one) exactly when the status is \<open>dnsUnavailable\<close>; records are
  returned exactly when the status is \<open>dnsOK\<close>, all of them \<open>v=DMARC1\<close> records; and the record comes
  from the From domain itself or, flagged \<open>ViaOrg\<close>, from its organisational domain, and then only
  after the From domain's own lookup was answered without a record.
\<close>

theorem lookupDMARCRecord_status:
  assumes "lookupDMARCRecord env fromDomain n = (res, m)"
  shows "m = (if Status res = dnsUnavailable then n + 1 else n)
    \<and> (Status res = dnsOK \<longleftrightarrow> Records res \<noteq> []) \<and> list_all is_dmarc1 (Records res)
    \<and> (Status res = dnsOK \<longrightarrow> Domain res =
         (if ViaOrg res then registrableDomain env (normDomain fromDomain) else normDomain fromDomain))
    \<and> (ViaOrg res \<longrightarrow> fst (fst (dmarcRecordsAt env (normDomain fromDomain) n)) =
         \<lparr>Records = [], Policy = [], Domain = normDomain fromDomain, ViaOrg = False, Status = dnsAbsent\<rparr>)"
proof -
  let ?d = "normDomain fromDomain"
  obtain r ok k where a: "dmarcRecordsAt env ?d n = ((r, ok), k)" by (metis prod.exhaust)
  obtain r' ok' k' where b: "dmarcRecordsAt env (registrableDomain env ?d) k = ((r', ok'), k')"
    by (metis prod.exhaust)
  have plain: "\<not> ViaOrg r" "\<not> ViaOrg r'" and absent: "Status r = dnsAbsent \<longrightarrow>
      r = \<lparr>Records = [], Policy = [], Domain = ?d, ViaOrg = False, Status = dnsAbsent\<rparr>"
    using a b by (auto simp: dmarcRecordsAt_def Let_def split: prod.splits if_splits)
  note facts = dmarcRecordsAt_ok [OF a] dmarcRecordsAt_ok [OF b] plain absent
  show ?thesis
  proof (cases "Status r")
    case dnsAbsent
    with assms a b facts show ?thesis
      by (auto simp: lookupDMARCRecord_def Let_def split: if_splits)
  qed (use assms a facts in \<open>auto simp: lookupDMARCRecord_def Let_def split: if_splits\<close>)+
qed

text \<open>A zone with one record on the organisational domain, as the examples of the documentation have it.\<close>

definition demo_env :: dns_env where
  "demo_env =
     \<lparr>localLookup = (\<lambda>name.
         if name = ''_dmarc.example.org'' then ([''v=DMARC1; p=reject; sp=quarantine''], None)
         else if name = ''_dmarc.broken.example'' then ([], Some OtherError)
         else if name = ''example.org'' then ([''v=spf1 ip4:192.0.2.0/24 include:_spf.example.net -all''], None)
         else if name = ''_spf.example.net'' then ([''v=spf1 a:out.example.net ~all''], None)
         else if name = ''loop.example'' then ([''v=spf1 redirect=loop.example''], None)
         else if name = ''ptr.example'' then ([''v=spf1 ptr -all''], None)
         else if name = ''down.example'' then ([''v=spf1 a:down.example.net -all''], None)
         else ([], Some (DNSError True))),
      query = (\<lambda>r t name. if name = ''late.example'' \<and> addr r = ''8.8.8.8:53'' then ([''x''], None) else ([], Some OtherError)),
      ctx_done = (\<lambda>name i. False),
      fb = Configure [''1.1.1.1:53'', ''8.8.8.8:53'', ''9.9.9.9:53''] DefaultTimeout \<lparr>resolvers = [], wait = DefaultTimeout\<rparr>,
      LookupMX = (\<lambda>name. ([], Some (DNSError True))),
      LookupIPAddr = (\<lambda>name. if name = ''out.example.net'' then ([IP4 0xC6336401], None)
         else if name = ''down.example.net'' then ([], Some OtherError)
         else ([], Some (DNSError True))),
      LookupHost = (\<lambda>name. ([], Some (DNSError True))),
      LookupAddr = (\<lambda>ip. ([''host.notptr.example.''], None)),
      idnaToASCII = (\<lambda>l. None),
      EffectiveTLDPlusOne = (\<lambda>d. if d = ''mail.example.org'' \<or> d = ''example.org'' then Some ''example.org'' else None)\<rparr>"

theorem lookupDMARCRecord_status_witness:
  "lookupDMARCRecord demo_env ''Mail.Example.org.'' 7 =
     (\<lparr>Records = [''v=DMARC1; p=reject; sp=quarantine''], Policy = ''quarantine'', Domain = ''example.org'',
       ViaOrg = True, Status = dnsOK\<rparr>, 7)
   \<and> fst (fst (dmarcRecordsAt demo_env (normDomain ''Mail.Example.org.'') 7)) =
       \<lparr>Records = [], Policy = [], Domain = normDomain ''Mail.Example.org.'', ViaOrg = False, Status = dnsAbsent\<rparr>"
proof -
  have l: "lookupDMARCRecord demo_env ''Mail.Example.org.'' 7 =
     (\<lparr>Records = [''v=DMARC1; p=reject; sp=quarantine''], Policy = ''quarantine'', Domain = ''example.org'',
       ViaOrg = True, Status = dnsOK\<rparr>, 7)"
    by code_simp
  from lookupDMARCRecord_status [OF l] show ?thesis using l by simp
qed

end
