(* ===== verification/SPF.thy ===== *)
theory SPF
  imports Dns
begin

text \<open>
  The SPF evaluation of \<open>cmd/sender-report/auth.go\<close> (\<open>evaluateSPF\<close> and what it calls).

  \<open>checkSPFDomain\<close> and \<open>matchSPFMechanism\<close> call each other: an \<open>include\<close> or \<open>redirect\<close> evaluates
  another domain at \<open>depth + 1\<close> and stops with permerror when \<open>depth > 10\<close>. The model is a primitive
  recursion on the levels that are left, \<open>11 - depth\<close>; the mechanism takes the evaluation of the
  next level as an argument. The two counters behind pointers (\<open>lookups\<close> and the process-wide
  \<open>dnsFailures\<close>) are the state that is passed on. The set \<open>seen\<close> is entered on the way down and left
  by \<open>defer\<close>, so it is the path from the first domain and is an argument.
\<close>

record spf_state =
  lookups :: int
  failures :: dnsFailures

subsection \<open>Helpers\<close>

definition emptyFallback :: "gostring \<Rightarrow> gostring \<Rightarrow> gostring" where
  "emptyFallback v fallback = (if trim_space v = [] then fallback else v)"

definition extractDomain :: "gostring \<Rightarrow> gostring" where
  "extractDomain v =
     (let v = trim_space (trim_set v ''<>'')
      in if v = [] then []
         else (case last_index_char v (CHR ''@'') of
             None \<Rightarrow> []
           | Some at \<Rightarrow> if length v \<le> at + 1 then [] else to_lower (trim_space (drop (at + 1) v))))"

definition parseCIDRBits :: "gostring \<Rightarrow> int" where
  "parseCIDRBits v = (case atoi (trim_space v) of None \<Rightarrow> - 1 | Some i \<Rightarrow> i)"

definition normalizeCIDR :: "int \<Rightarrow> int \<Rightarrow> int" where
  "normalizeCIDR cidr bits = (if cidr < 0 then bits else cidr)"

definition is_qualifier :: "char \<Rightarrow> bool" where
  "is_qualifier c = (c \<in> set ''+-~?'')"

definition nameOrToken :: "gostring \<Rightarrow> gostring" where
  "nameOrToken token =
     (let t = trim_space token
      in if t = [] then []
         else (let t = (if is_qualifier (hd t) then tl t else t)
               in (case index t '':'' of
                     Some i \<Rightarrow> to_lower (trim_space (take i t))
                   | None \<Rightarrow> to_lower t)))"

definition qualifierToResult :: "char \<Rightarrow> gostring" where
  "qualifierToResult q =
     (if q = CHR ''+'' then ''pass'' else if q = CHR ''-'' then ''fail''
      else if q = CHR ''~'' then ''softfail'' else ''neutral'')"

definition parseSPFMechanism :: "gostring \<Rightarrow> gostring \<times> gostring \<times> int" where
  "parseSPFMechanism mech =
     (let raw = trim_space mech;
          (name, value) = (case index raw '':'' of
              Some i \<Rightarrow> (to_lower (trim_space (take i raw)), trim_space (drop (i + 1) raw))
            | None \<Rightarrow> (to_lower raw, []));
          (name, cidr) = (case index name ''/'' of
              Some j \<Rightarrow> (trim_space (take j name), parseCIDRBits (drop (j + 1) name))
            | None \<Rightarrow> (name, - 1))
      in (case index value ''/'' of
            Some k \<Rightarrow> (name, take k value, parseCIDRBits (trim_space (drop (k + 1) value)))
          | None \<Rightarrow> (name, value, cidr)))"

definition ptrNameUnderDomain :: "gostring \<Rightarrow> gostring \<Rightarrow> bool" where
  "ptrNameUnderDomain host domain =
     (let host = trim_suffix (to_lower (trim_space host)) ''.'';
          domain = trim_suffix (to_lower (trim_space domain)) ''.''
      in host \<noteq> [] \<and> domain \<noteq> [] \<and> (host = domain \<or> has_suffix host (''.'' @ domain)))"

definition ipMatchesWithOptionalCIDR :: "ip option \<Rightarrow> ip option \<Rightarrow> int \<Rightarrow> bool" where
  "ipMatchesWithOptionalCIDR remoteIP candidate cidr =
     (case (remoteIP, candidate) of
        (Some r, Some c) \<Rightarrow>
          if cidr < 0 then ip_equal r c
          else (case (to4 c, to4 r) of
              (Some base, Some chk) \<Rightarrow>
                if 32 < cidr then False
                else base AND cidr_mask (nat cidr) = chk AND cidr_mask (nat cidr)
            | _ \<Rightarrow>
                if 128 < cidr then False
                else ip_equal_opt (ip_mask16 (nat cidr) c) (ip_mask16 (nat cidr) r))
      | _ \<Rightarrow> False)"

subsection \<open>Mechanisms that query DNS\<close>

definition lookupSPFRecord :: "dns_env \<Rightarrow> gostring \<Rightarrow> gostring \<times> gostring" where
  "lookupSPFRecord env domain =
     (case LookupTXT env domain of
        (txts, Some e) \<Rightarrow> ([], if e = DNSError True then ''none'' else ''temperror'')
      | (txts, None) \<Rightarrow>
          (case filter (\<lambda>rec. has_prefix (to_lower rec) ''v=spf1'') (map trim_space txts) of
             [] \<Rightarrow> ([], ''none'')
           | [rec] \<Rightarrow> (rec, [])
           | _ \<Rightarrow> ([], ''permerror'')))"

definition hostResolvesToIP :: "dns_env \<Rightarrow> gostring \<Rightarrow> ip option \<Rightarrow> int \<Rightarrow> dnsFailures \<Rightarrow> (bool \<times> gostring) \<times> dnsFailures" where
  "hostResolvesToIP env host remoteIP cidr n =
     (case LookupIPAddr env host of
        (addrs, Some e) \<Rightarrow>
          (case DNSLookupFailed (Some e) n of (failed, m) \<Rightarrow> ((False, if failed then ''temperror'' else []), m))
      | (addrs, None) \<Rightarrow> ((list_ex (\<lambda>a. ipMatchesWithOptionalCIDR remoteIP (Some a) cidr) addrs, []), n))"

fun mx_loop :: "dns_env \<Rightarrow> ip option \<Rightarrow> int \<Rightarrow> MX list \<Rightarrow> gostring \<Rightarrow> dnsFailures \<Rightarrow> (bool \<times> gostring) \<times> dnsFailures" where
  "mx_loop env remoteIP cidr [] deferred n = ((False, deferred), n)"
| "mx_loop env remoteIP cidr (mx # mxs) deferred n =
     (case hostResolvesToIP env (trim_suffix (Host mx) ''.'') remoteIP cidr n of ((matched, errRes), m) \<Rightarrow>
        if matched then ((True, []), m)
        else mx_loop env remoteIP cidr mxs (if errRes \<noteq> [] then errRes else deferred) m)"

definition mxResolvesToIP :: "dns_env \<Rightarrow> gostring \<Rightarrow> ip option \<Rightarrow> int \<Rightarrow> dnsFailures \<Rightarrow> (bool \<times> gostring) \<times> dnsFailures" where
  "mxResolvesToIP env domain remoteIP cidr n =
     (case LookupMX env domain of
        (mxs, Some e) \<Rightarrow>
          (case DNSLookupFailed (Some e) n of (failed, m) \<Rightarrow> ((False, if failed then ''temperror'' else []), m))
      | (mxs, None) \<Rightarrow> mx_loop env remoteIP cidr (sort_key Pref mxs) [] n)"

fun ptr_loop :: "dns_env \<Rightarrow> ip option \<Rightarrow> gostring \<Rightarrow> gostring list \<Rightarrow> dnsFailures \<Rightarrow> (bool \<times> gostring) \<times> dnsFailures" where
  "ptr_loop env remoteIP target [] n = ((False, []), n)"
| "ptr_loop env remoteIP target (p # ptrs) n =
     (let host = trim_suffix (to_lower p) ''.''
      in if \<not> ptrNameUnderDomain host target then ptr_loop env remoteIP target ptrs n
         else (case hostResolvesToIP env host remoteIP (- 1) n of ((matched, errRes), m) \<Rightarrow>
           if matched then ((True, []), m)
           else if errRes \<noteq> [] then ((False, errRes), m)
           else ptr_loop env remoteIP target ptrs m))"

definition match_exists :: "dns_env \<Rightarrow> gostring \<Rightarrow> dnsFailures \<Rightarrow> (bool \<times> gostring) \<times> dnsFailures" where
  "match_exists env target n =
     (case LookupHost env target of
        (ips, Some e) \<Rightarrow>
          (case DNSLookupFailed (Some e) n of (failed, m) \<Rightarrow> ((False, if failed then ''temperror'' else []), m))
      | (ips, None) \<Rightarrow> ((ips \<noteq> [], []), n))"

definition match_ptr :: "dns_env \<Rightarrow> ip \<Rightarrow> gostring \<Rightarrow> gostring \<Rightarrow> dnsFailures \<Rightarrow> (bool \<times> gostring) \<times> dnsFailures" where
  "match_ptr env remoteIP value currentDomain n =
     (let target = to_lower (trim_space value);
          target = (if target = [] then to_lower (trim_space currentDomain) else target)
      in if target = [] then ((False, []), n)
         else (case LookupAddr env (ip_string remoteIP) of
             (ptrs, Some e) \<Rightarrow>
               (case DNSLookupFailed (Some e) n of (failed, m) \<Rightarrow> ((False, if failed then ''temperror'' else []), m))
           | (ptrs, None) \<Rightarrow> ptr_loop env (Some remoteIP) target ptrs n))"

subsection \<open>The evaluation\<close>

definition spfLookupBudget :: int where "spfLookupBudget = 10"

type_synonym spf_eval = "gostring \<Rightarrow> gostring list \<Rightarrow> spf_state \<Rightarrow> (gostring \<times> gostring) \<times> spf_state"

definition with_failures :: "spf_state \<Rightarrow> 'r \<times> dnsFailures \<Rightarrow> 'r \<times> spf_state" where
  "with_failures st r = (fst r, st\<lparr>failures := snd r\<rparr>)"

definition costs_lookup :: "gostring \<Rightarrow> bool" where
  "costs_lookup name = (name \<in> {''include'', ''a'', ''mx'', ''ptr'', ''exists''})"

text \<open>The switch over the name of the mechanism, once the lookup is paid for.\<close>

definition match_named ::
  "dns_env \<Rightarrow> ip \<Rightarrow> spf_eval \<Rightarrow> gostring \<Rightarrow> gostring \<Rightarrow> gostring \<Rightarrow> int \<Rightarrow> gostring list \<Rightarrow> spf_state
   \<Rightarrow> (bool \<times> gostring) \<times> spf_state" where
  "match_named env remoteIP next_level currentDomain name value cidr seen st =
     (let target = (if value = [] then currentDomain else value)
      in if name = ''all'' then ((True, []), st)
         else if name = ''include'' then
           (if value = [] then ((False, ''permerror''), st)
            else (case next_level value seen st of ((res, _), st1) \<Rightarrow>
              if res = ''pass'' then ((True, []), st1)
              else if res = ''temperror'' \<or> res = ''permerror'' then ((False, res), st1)
              else ((False, []), st1)))
         else if name = ''ip4'' then
           ((ipMatchesWithOptionalCIDR (Some remoteIP) (ParseIP value) (normalizeCIDR cidr 32), []), st)
         else if name = ''ip6'' then
           ((ipMatchesWithOptionalCIDR (Some remoteIP) (ParseIP value) (normalizeCIDR cidr 128), []), st)
         else if name = ''a'' then with_failures st (hostResolvesToIP env target (Some remoteIP) cidr (failures st))
         else if name = ''mx'' then with_failures st (mxResolvesToIP env target (Some remoteIP) cidr (failures st))
         else if name = ''exists'' then with_failures st (match_exists env target (failures st))
         else if name = ''ptr'' then with_failures st (match_ptr env remoteIP value currentDomain (failures st))
         else ((False, []), st))"

definition matchSPFMechanism ::
  "dns_env \<Rightarrow> ip \<Rightarrow> spf_eval \<Rightarrow> gostring \<Rightarrow> gostring \<Rightarrow> gostring list \<Rightarrow> spf_state \<Rightarrow> (bool \<times> gostring) \<times> spf_state" where
  "matchSPFMechanism env remoteIP next_level currentDomain mechanism seen st =
     (case parseSPFMechanism mechanism of (name, value, cidr) \<Rightarrow>
        if costs_lookup name
        then (let st1 = st\<lparr>lookups := lookups st + 1\<rparr>
              in if spfLookupBudget < lookups st1 then ((False, ''permerror''), st1)
                 else match_named env remoteIP next_level currentDomain name value cidr seen st1)
        else match_named env remoteIP next_level currentDomain name value cidr seen st)"

text \<open>
  The loop over the terms of a record. The result is \<open>Inl\<close> of the returned pair, or \<open>Inr\<close> of the last
  redirect target when every term was passed over.
\<close>

fun spf_terms ::
  "dns_env \<Rightarrow> ip \<Rightarrow> spf_eval \<Rightarrow> gostring \<Rightarrow> gostring list \<Rightarrow> gostring list \<Rightarrow> gostring \<Rightarrow> spf_state
   \<Rightarrow> ((gostring \<times> gostring) + gostring) \<times> spf_state" where
  "spf_terms env remoteIP next_level domain seen [] redirect st = (Inr redirect, st)"
| "spf_terms env remoteIP next_level domain seen (tok # toks) redirect st =
     (let tok = trim_space tok
      in if tok = [] then spf_terms env remoteIP next_level domain seen toks redirect st
         else if has_prefix (to_lower tok) ''redirect=''
         then spf_terms env remoteIP next_level domain seen toks (trim_space (fst (snd (cut tok ''='')))) st
         else if has_prefix (to_lower tok) ''exp='' \<or> contains tok ''=''
         then spf_terms env remoteIP next_level domain seen toks redirect st
         else (let qualifier = (if is_qualifier (hd tok) then hd tok else CHR ''+'');
                   tok = (if is_qualifier (hd tok) then tl tok else tok)
               in (case matchSPFMechanism env remoteIP next_level domain tok seen st of ((matched, errRes), st1) \<Rightarrow>
                     if errRes \<noteq> [] then (Inl (errRes, nameOrToken tok), st1)
                     else if matched then (Inl (qualifierToResult qualifier, nameOrToken tok), st1)
                     else spf_terms env remoteIP next_level domain seen toks redirect st1)))"

text \<open>One call of \<open>checkSPFDomain\<close> below the depth limit; \<open>next_level\<close> is the call at \<open>depth + 1\<close>.\<close>

definition spf_domain :: "dns_env \<Rightarrow> ip \<Rightarrow> spf_eval \<Rightarrow> spf_eval" where
  "spf_domain env remoteIP next_level domain seen st =
     (let domain = to_lower (trim_space domain)
      in if domain = [] then ((''none'', ''empty-domain''), st)
         else if domain \<in> set seen then ((''permerror'', ''loop-detected''), st)
         else (case lookupSPFRecord env domain of (record, recErr) \<Rightarrow>
           if recErr = ''none'' then ((''none'', ''no-record''), st)
           else if recErr = ''temperror'' then ((''temperror'', ''dns-temporary-error''), st)
           else if recErr = ''permerror'' then ((''permerror'', ''multiple-records''), st)
           else (case Go_Strings.fields record of
               [] \<Rightarrow> ((''none'', ''empty-record''), st)
             | _ # toks \<Rightarrow>
                 (case spf_terms env remoteIP next_level domain (domain # seen) toks [] st of
                    (Inl r, st1) \<Rightarrow> (r, st1)
                  | (Inr redirect, st1) \<Rightarrow>
                      if redirect \<noteq> [] then
                        (let st2 = st1\<lparr>lookups := lookups st1 + 1\<rparr>
                         in if spfLookupBudget < lookups st2 then ((''permerror'', ''lookup-limit''), st2)
                            else (case next_level redirect (domain # seen) st2 of ((res, mech), st3) \<Rightarrow>
                              ((res, ''redirect->'' @ (if mech = [] then ''redirect'' else mech)), st3)))
                      else ((''neutral'', ''default-neutral''), st1)))))"

primrec spf_levels :: "nat \<Rightarrow> dns_env \<Rightarrow> ip \<Rightarrow> spf_eval" where
  "spf_levels 0 env remoteIP = (\<lambda>domain seen st. ((''permerror'', ''depth-limit''), st))"
| "spf_levels (Suc k) env remoteIP = spf_domain env remoteIP (spf_levels k env remoteIP)"

definition checkSPFDomain :: "dns_env \<Rightarrow> ip \<Rightarrow> gostring \<Rightarrow> nat \<Rightarrow> gostring list \<Rightarrow> spf_state \<Rightarrow> (gostring \<times> gostring) \<times> spf_state" where
  "checkSPFDomain env remoteIP domain depth seen st = spf_levels (11 - depth) env remoteIP domain seen st"

record spf_verdict =
  SPFResult :: gostring
  SPFDomain :: gostring
  SPFDetail :: gostring

definition evaluateSPF :: "dns_env \<Rightarrow> ip option \<Rightarrow> gostring \<Rightarrow> gostring \<Rightarrow> dnsFailures \<Rightarrow> spf_verdict \<times> dnsFailures" where
  "evaluateSPF env remoteIP helo envelopeFrom n =
     (let domain = extractDomain envelopeFrom;
          domain = (if domain = [] then to_lower (trim_space helo) else domain)
      in case remoteIP of
           Some r \<Rightarrow>
             if domain = [] then (\<lparr>SPFResult = ''none'', SPFDomain = domain, SPFDetail = ''missing sender domain or remote ip''\<rparr>, n)
             else (case checkSPFDomain env r domain 0 [] \<lparr>lookups = 0, failures = n\<rparr> of ((res, matchedBy), st) \<Rightarrow>
               (\<lparr>SPFResult = res, SPFDomain = domain,
                 SPFDetail = ''domain='' @ domain @ '' mechanism='' @ emptyFallback matchedBy ''none''\<rparr>, failures st))
         | None \<Rightarrow> (\<lparr>SPFResult = ''none'', SPFDomain = domain, SPFDetail = ''missing sender domain or remote ip''\<rparr>, n))"

subsection \<open>The contract of an evaluation\<close>

definition spf_results :: "gostring set" where
  "spf_results = {''none'', ''neutral'', ''pass'', ''fail'', ''softfail'', ''temperror'', ''permerror''}"

text \<open>The budget is kept, or it was exceeded by one lookup and the result says so.\<close>

definition within_budget :: "gostring \<Rightarrow> spf_state \<Rightarrow> bool" where
  "within_budget res st = (lookups st \<le> spfLookupBudget \<or> (lookups st = spfLookupBudget + 1 \<and> res = ''permerror''))"

lemma qualifier_result: "qualifierToResult q \<in> spf_results"
  by (simp add: qualifierToResult_def spf_results_def)

lemma DNSLookupFailed_eq:
  "DNSLookupFailed (Some e) n = (if as_DNSError e = Some True then (False, n) else (True, n + 1))"
  by (simp add: DNSLookupFailed_def classifyDNSError_def)

lemma host_error: "hostResolvesToIP env h ip c n = ((m, e), k) \<Longrightarrow>
    (e = [] \<and> k = n) \<or> (e = ''temperror'' \<and> \<not> m \<and> k = n + 1)"
  by (auto simp: hostResolvesToIP_def DNSLookupFailed_eq split: prod.splits option.splits if_splits)

lemma mx_loop_error: "mx_loop env ip c mxs d n = ((m, e), k) \<Longrightarrow> d \<in> {[], ''temperror''} \<Longrightarrow>
    e \<in> {[], ''temperror''} \<and> (\<not> m \<longrightarrow> e = [] \<longrightarrow> d = [] \<and> k = n)"
proof (induction mxs arbitrary: d n)
  case (Cons mx mxs)
  obtain m' e' k' where h: "hostResolvesToIP env (trim_suffix (Host mx) ''.'') ip c n = ((m', e'), k')"
    by (metis prod.exhaust)
  show ?case
  proof (cases m')
    case True
    with Cons.prems h show ?thesis by auto
  next
    case False
    with Cons.prems(1) h have "mx_loop env ip c mxs (if e' \<noteq> [] then e' else d) k' = ((m, e), k)"
      by simp
    from Cons.IH [OF this] host_error [OF h] Cons.prems(2) show ?thesis by (auto split: if_splits)
  qed
qed auto

lemma mx_error: "mxResolvesToIP env dm ip c n = ((m, e), k) \<Longrightarrow>
    e \<in> {[], ''temperror''} \<and> (\<not> m \<longrightarrow> e = [] \<longrightarrow> k = n)"
  using mx_loop_error [of env ip c _ "[]" n m e k]
  by (auto simp: mxResolvesToIP_def DNSLookupFailed_eq split: prod.splits option.splits if_splits)

lemma ptr_loop_error: "ptr_loop env ip t ps n = ((m, e), k) \<Longrightarrow>
    e \<in> {[], ''temperror''} \<and> (\<not> m \<longrightarrow> e = [] \<longrightarrow> k = n)"
proof (induction ps arbitrary: n)
  case (Cons p ps)
  let ?h = "trim_suffix (to_lower p) ''.''"
  obtain m' e' k' where h: "hostResolvesToIP env ?h ip (- 1) n = ((m', e'), k')"
    by (metis prod.exhaust)
  consider "\<not> ptrNameUnderDomain ?h t" | "ptrNameUnderDomain ?h t" "m' \<or> e' \<noteq> []"
    | "ptrNameUnderDomain ?h t" "\<not> m'" "e' = []" by blast
  then show ?case
  proof cases
    case 1
    with Cons show ?thesis by simp
  next
    case 2
    with Cons.prems h host_error [OF h] show ?thesis by (auto simp: Let_def)
  next
    case 3
    with Cons.prems h have "ptr_loop env ip t ps k' = ((m, e), k)" by (simp add: Let_def)
    from Cons.IH [OF this] host_error [OF h] 3 show ?thesis by auto
  qed
qed auto

lemma ptr_error: "match_ptr env ip v cur n = ((m, e), k) \<Longrightarrow>
    e \<in> {[], ''temperror''} \<and> (\<not> m \<longrightarrow> e = [] \<longrightarrow> k = n)"
  by (auto simp: match_ptr_def Let_def DNSLookupFailed_eq split: prod.splits option.splits if_splits
      dest: ptr_loop_error)

lemma exists_error: "match_exists env t n = ((m, e), k) \<Longrightarrow>
    e \<in> {[], ''temperror''} \<and> (\<not> m \<longrightarrow> e = [] \<longrightarrow> k = n)"
  by (auto simp: match_exists_def DNSLookupFailed_eq split: prod.splits option.splits if_splits)

lemmas query_errors = host_error mx_error ptr_error exists_error

lemma with_failures_eq: "with_failures st r = ((m, e), st') \<Longrightarrow> \<exists>k. r = ((m, e), k) \<and> st' = st\<lparr>failures := k\<rparr>"
  by (cases r) (auto simp: with_failures_def)

lemma spf_terms_Cons:
  assumes "spf_terms env ip nl dm seen (tok # toks) rd st = (r, st')"
  obtains (skip) rd' where "spf_terms env ip nl dm seen toks rd' st = (r, st')"
  | (mech) u q m e st1 where "matchSPFMechanism env ip nl dm u seen st = ((m, e), st1)"
      "(r, st') = (if e \<noteq> [] then (Inl (e, nameOrToken u), st1)
         else if m then (Inl (qualifierToResult q, nameOrToken u), st1)
         else spf_terms env ip nl dm seen toks rd st1)"
proof -
  let ?t = "trim_space tok"
  let ?u = "if is_qualifier (hd ?t) then tl ?t else ?t"
  obtain m e st1 where h: "matchSPFMechanism env ip nl dm ?u seen st = ((m, e), st1)"
    by (metis prod.exhaust)
  consider "?t = [] \<or> has_prefix (to_lower ?t) ''redirect='' \<or> has_prefix (to_lower ?t) ''exp='' \<or> contains ?t ''=''"
    | "\<not> (?t = [] \<or> has_prefix (to_lower ?t) ''redirect='' \<or> has_prefix (to_lower ?t) ''exp='' \<or> contains ?t ''='')"
    by blast
  then show thesis
  proof cases
    case 1
    with assms show ?thesis by (auto simp: Let_def split: if_splits intro: skip)
  next
    case 2
    let ?q = "if is_qualifier (hd ?t) then hd ?t else CHR ''+''"
    from assms h 2 have "(r, st') = (if e \<noteq> [] then (Inl (e, nameOrToken ?u), st1)
         else if m then (Inl (qualifierToResult ?q, nameOrToken ?u), st1)
         else spf_terms env ip nl dm seen toks rd st1)"
      by (simp add: Let_def)
    with h show ?thesis by (rule mech)
  qed
qed

locale spf_evaluation =
  fixes next_level :: spf_eval
  assumes rfc_result: "next_level d seen st = ((res, mech), st') \<Longrightarrow> res \<in> spf_results"
    and budget: "next_level d seen st = ((res, mech), st') \<Longrightarrow> lookups st \<le> spfLookupBudget \<Longrightarrow> within_budget res st'"
begin

lemma named:
  assumes "match_named env ip next_level cur name v c seen st = ((m, e), st')"
  shows "e \<in> {[], ''temperror'', ''permerror''} \<and> (lookups st \<le> spfLookupBudget \<longrightarrow> within_budget e st')"
proof -
  obtain res mc st2 where n: "next_level v seen st = ((res, mc), st2)" by (metis prod.exhaust)
  consider "name = ''include''" "v \<noteq> []" | "name \<noteq> ''include'' \<or> v = []" by blast
  then show ?thesis
  proof cases
    case 1
    with assms n rfc_result [OF n] budget [OF n] show ?thesis
      by (auto simp: match_named_def within_budget_def split: if_splits)
  next
    case 2
    with assms show ?thesis
      by (auto simp: match_named_def within_budget_def Let_def split: if_splits
          dest!: with_failures_eq dest: query_errors)
  qed
qed

lemma mechanism:
  assumes "matchSPFMechanism env ip next_level cur mech seen st = ((m, e), st')"
  shows "e \<in> {[], ''temperror'', ''permerror''}"
    and "lookups st \<le> spfLookupBudget \<Longrightarrow> within_budget e st'"
proof -
  obtain name v c where p: "parseSPFMechanism mech = (name, v, c)" by (metis prod.exhaust)
  consider "costs_lookup name" "spfLookupBudget < lookups st + 1"
    | st1 where "match_named env ip next_level cur name v c seen st1 = ((m, e), st')"
        "lookups st \<le> spfLookupBudget \<longrightarrow> lookups st1 \<le> spfLookupBudget"
    using assms p by (cases "costs_lookup name") (force simp: matchSPFMechanism_def Let_def split: if_splits)+
  then have "e \<in> {[], ''temperror'', ''permerror''} \<and> (lookups st \<le> spfLookupBudget \<longrightarrow> within_budget e st')"
  proof cases
    case 1
    with assms p show ?thesis by (auto simp: matchSPFMechanism_def within_budget_def)
  next
    case 2
    with named [OF 2(1)] show ?thesis by blast
  qed
  then show "e \<in> {[], ''temperror'', ''permerror''}"
    and "lookups st \<le> spfLookupBudget \<Longrightarrow> within_budget e st'" by auto
qed

lemma terms:
  assumes "spf_terms env ip next_level dm seen toks rd st = (r, st')"
  shows "(case r of Inl (res, mech) \<Rightarrow> res \<in> spf_results | Inr _ \<Rightarrow> True)
    \<and> (lookups st \<le> spfLookupBudget \<longrightarrow>
      (case r of Inl (res, mech) \<Rightarrow> within_budget res st' | Inr _ \<Rightarrow> lookups st' \<le> spfLookupBudget))"
  using assms
proof (induction toks arbitrary: rd st)
  case Nil
  then show ?case by auto
next
  case (Cons tok toks)
  from Cons.prems show ?case
  proof (cases rule: spf_terms_Cons)
    case (skip rd')
    then show ?thesis by (rule Cons.IH)
  next
    case (mech u q m e st1)
    note me = mechanism [OF mech(1)]
    consider "e \<noteq> []" | "e = []" "m" | "e = []" "\<not> m" by blast
    then show ?thesis
    proof cases
      case 1
      with mech(2) me show ?thesis by (auto simp: spf_results_def)
    next
      case 2
      with mech(2) me show ?thesis by (auto simp: qualifier_result within_budget_def)
    next
      case 3
      with mech(2) Cons.IH [of rd st1] me(2) show ?thesis by (auto simp: within_budget_def)
    qed
  qed
qed

lemma domain_result:
  "spf_domain env ip next_level d seen st = ((res, mech), st') \<Longrightarrow> res \<in> spf_results"
  by (auto simp: spf_domain_def Let_def split: prod.splits if_splits list.splits sum.splits
      dest!: terms rfc_result) (auto simp: spf_results_def)

lemma domain_budget:
  "spf_domain env ip next_level d seen st = ((res, mech), st') \<Longrightarrow> lookups st \<le> spfLookupBudget \<Longrightarrow> within_budget res st'"
  by (auto simp: spf_domain_def Let_def split: prod.splits if_splits list.splits sum.splits
      dest!: terms dest: budget) (auto simp: within_budget_def)

lemma next_domain: "spf_evaluation (spf_domain env ip next_level)"
  by unfold_locales (fact domain_result, fact domain_budget)

end

text \<open>The depth limit is an evaluation, and each level makes an evaluation of the one below.\<close>

lemma spf_levels_evaluation: "spf_evaluation (spf_levels k env ip)"
proof (induction k)
  case 0
  show ?case by unfold_locales (auto simp: spf_results_def within_budget_def)
next
  case (Suc k)
  then show ?case by (simp add: spf_evaluation.next_domain)
qed

interpretation level: spf_evaluation "spf_levels k env ip" for k env ip
  by (rule spf_levels_evaluation)


subsection \<open>No match is concluded only from answers\<close>

lemma match_named_answered:
  assumes "match_named env ip nl cur name v c seen st = ((False, e), st')" "name \<noteq> ''include''"
  shows "e = ''temperror'' \<or> failures st' = failures st"
  using assms
  by (auto simp: match_named_def Let_def split: if_splits dest!: with_failures_eq dest: query_errors)

text \<open>
  A mechanism other than \<open>include\<close> is only passed over as not matching when every question it
  asked was answered: a lookup that failed leaves \<open>dnsFailures\<close> raised and then the mechanism matched by
  another host or the evaluation stops with temperror or permerror. So an outage of the resolver
  cannot make a trailing \<open>-all\<close> decide.
\<close>

theorem no_match_means_answered:
  assumes "fst (parseSPFMechanism mechanism) \<noteq> ''include''"
    and "matchSPFMechanism env remoteIP next_level currentDomain mechanism seen st = ((matched, errRes), st')"
    and "failures st' \<noteq> failures st"
  shows "matched \<or> errRes = ''temperror'' \<or> errRes = ''permerror''"
proof -
  obtain name v c where p: "parseSPFMechanism mechanism = (name, v, c)" by (metis prod.exhaust)
  with assms(1) have "name \<noteq> ''include''" by simp
  with assms(2,3) p show ?thesis
    by (cases matched) (auto simp: matchSPFMechanism_def Let_def split: if_splits dest: match_named_answered)
qed

theorem no_match_means_answered_witness:
  "matchSPFMechanism demo_env (IP4 0xC0000201) (spf_levels 10 demo_env (IP4 0xC0000201)) ''down.example''
     ''a:down.example.net'' [''down.example''] \<lparr>lookups = 0, failures = 4\<rparr>
   = ((False, ''temperror''), \<lparr>lookups = 1, failures = 5\<rparr>)
   \<and> (False \<or> ''temperror'' = ''temperror'' \<or> ''temperror'' = ''permerror'')"
proof -
  have m: "matchSPFMechanism demo_env (IP4 0xC0000201) (spf_levels 10 demo_env (IP4 0xC0000201)) ''down.example''
     ''a:down.example.net'' [''down.example''] \<lparr>lookups = 0, failures = 4\<rparr>
   = ((False, ''temperror''), \<lparr>lookups = 1, failures = 5\<rparr>)"
    by code_simp
  have "fst (parseSPFMechanism ''a:down.example.net'') \<noteq> ''include''" by code_simp
  from no_match_means_answered [OF this m] m show ?thesis by simp
qed

subsection \<open>Addresses and names that match\<close>

text \<open>
  For two addresses of the same family and a prefix length, the address test of the mechanisms
  \<open>ip4\<close>, \<open>ip6\<close>, \<open>a\<close> and \<open>mx\<close> holds exactly when the prefix length fits the family and the leading
  bits of that number agree, whatever of its two forms an IPv4 address comes in.
\<close>

theorem ip_match_leading_bits:
  assumes "0 \<le> cidr" and "to4 r = None \<longleftrightarrow> to4 c = None"
  shows "ipMatchesWithOptionalCIDR (Some r) (Some c) cidr =
    (case (to4 r, to4 c) of
       (Some a, Some b) \<Rightarrow> cidr \<le> 32 \<and> drop_bit (32 - nat cidr) a = drop_bit (32 - nat cidr) b
     | _ \<Rightarrow> cidr \<le> 128 \<and> drop_bit (128 - nat cidr) (to16 r) = drop_bit (128 - nat cidr) (to16 c))"
proof (cases "to4 r")
  case None
  with assms(2) obtain w v where "r = IP16 w" "c = IP16 v" using to4_None_IP16 by metis
  with None assms show ?thesis
    using cidr_mask_eq_iff [of v "nat cidr" w]
    by (auto simp: ipMatchesWithOptionalCIDR_def ip_mask16_def ip_equal_opt_def ip_equal_def to16_def)
next
  case (Some a)
  with assms(2) obtain b where "to4 c = Some b" by auto
  with Some assms(1) show ?thesis
    using cidr_mask_eq_iff [of b "nat cidr" a]
    by (auto simp: ipMatchesWithOptionalCIDR_def)
qed

theorem ip_match_leading_bits_witness:
  "ipMatchesWithOptionalCIDR (Some (IP16 (v4_mapped 0xC0000207))) (Some (IP4 0xC00002FF)) 24
   \<and> \<not> ipMatchesWithOptionalCIDR (Some (IP16 (v4_mapped 0xC0000207))) (Some (IP4 0xC00002FF)) 25"
proof -
  have f: "to4 (IP16 (v4_mapped 0xC0000207)) = None \<longleftrightarrow> to4 (IP4 0xC00002FF) = None" by simp
  have "(drop_bit 8 (0xC0000207 :: 32 word)) = drop_bit 8 0xC00002FF"
    "(drop_bit 7 (0xC0000207 :: 32 word)) \<noteq> drop_bit 7 0xC00002FF" by code_simp+
  with ip_match_leading_bits [OF _ f, of 24] ip_match_leading_bits [OF _ f, of 25] show ?thesis
    by simp
qed

lemma suffix_labels:
  assumes "h \<noteq> []" "d \<noteq> []"
  shows "h = d \<or> has_suffix h (''.'' @ d) \<longleftrightarrow> suffix (split (CHR ''.'') d) (split (CHR ''.'') h)"
proof
  assume "h = d \<or> has_suffix h (''.'' @ d)"
  then show "suffix (split (CHR ''.'') d) (split (CHR ''.'') h)"
    by (auto elim!: has_suffixE simp: split_append intro: suffixI)
next
  assume "suffix (split (CHR ''.'') d) (split (CHR ''.'') h)"
  then obtain ls where ls: "split (CHR ''.'') h = ls @ split (CHR ''.'') d" by (auto simp: suffix_def)
  have "h = join ''.'' (ls @ split (CHR ''.'') d)" using ls by (metis join_split)
  then show "h = d \<or> has_suffix h (''.'' @ d)"
    by (cases "ls = []") (auto simp: join_append join_split)
qed

text \<open>
  A name found by reverse lookup counts as belonging to a domain exactly when, both normalised,
  neither is empty and the labels of the domain are the last labels of the name. So an empty
  domain covers nothing, and \<open>notexample.org\<close> is not under \<open>example.org\<close>.
\<close>

theorem ptrNameUnderDomain_labels:
  "ptrNameUnderDomain host domain =
     (normDomain host \<noteq> [] \<and> normDomain domain \<noteq> []
      \<and> suffix (split (CHR ''.'') (normDomain domain)) (split (CHR ''.'') (normDomain host)))"
  using suffix_labels [of "normDomain host" "normDomain domain"]
  by (auto simp: ptrNameUnderDomain_def normDomain_def Let_def)

text \<open>
  The prefix length of a mechanism is applied without regard to the address family (finding): \<open>ip4:0.0.0.0/0\<close>
  covers every IPv6 sender, and the length written for IPv4 in \<open>a/16\<close> also decides about an IPv6
  address, where RFC 7208 section 5.6 applies the default of 128 bits; a dual length such as
  \<open>a/24//64\<close> is read as no length at all.
\<close>

lemma spf_cidr_ignores_family:
  "ipMatchesWithOptionalCIDR (ParseIP ''2001:db8::1'') (ParseIP ''0.0.0.0'') (normalizeCIDR 0 32)
   \<and> ipMatchesWithOptionalCIDR (ParseIP ''2001:db8:1::1'') (ParseIP ''2001:9999::2'') 16
   \<and> parseSPFMechanism ''a/24//64'' = (''a'', [], - 1)"
proof (intro conjI)
  show "ipMatchesWithOptionalCIDR (ParseIP ''2001:db8::1'') (ParseIP ''0.0.0.0'') (normalizeCIDR 0 32)" by code_simp
  show "ipMatchesWithOptionalCIDR (ParseIP ''2001:db8:1::1'') (ParseIP ''2001:9999::2'') 16" by code_simp
  show "parseSPFMechanism ''a/24//64'' = (''a'', [], - 1)" by code_simp
qed

end
