(* ===== verification/Rate_Limit.thy ===== *)
theory Rate_Limit
  imports Go_Strings
begin

text \<open>
  \<open>internal/ratelimit/ratelimit.go\<close>: the sliding-window limiter. \<open>time.Now()\<close> is the argument
  \<open>now\<close> of each call; the calls are serialised by the mutex, so a history of calls is a list.

  The locale \<open>admission\<close> is the contract its clients (the SMTP server's connection gate, the web
  server's middleware) rely on: a run of calls never admits more than the cap in one window.
\<close>

record limiter =
  window :: duration
  maxHits :: int
  hits :: "gostring \<rightharpoonup> time list"

definition new_limiter :: "duration \<Rightarrow> int \<Rightarrow> limiter" where
  "new_limiter w m = \<lparr>window = w, maxHits = m, hits = Map.empty\<rparr>"

text \<open>Reading an absent key of a Go map gives the zero value, here the nil slice.\<close>

definition entries :: "limiter \<Rightarrow> gostring \<Rightarrow> time list" where
  "entries l key = (case hits l key of None \<Rightarrow> [] | Some ts \<Rightarrow> ts)"

definition kept :: "limiter \<Rightarrow> gostring \<Rightarrow> time \<Rightarrow> time list" where
  "kept l key now = filter (\<lambda>t. now - window l < t) (entries l key)"

definition Allow :: "limiter \<Rightarrow> gostring \<Rightarrow> time \<Rightarrow> bool \<times> limiter" where
  "Allow l key now =
     (let ks = kept l key now
      in if maxHits l \<le> int (length ks) then (False, l\<lparr>hits := (hits l)(key \<mapsto> ks)\<rparr>)
         else (True, l\<lparr>hits := (hits l)(key \<mapsto> ks @ [now])\<rparr>))"

definition RetryAfter :: "limiter \<Rightarrow> gostring \<Rightarrow> time \<Rightarrow> duration" where
  "RetryAfter l key now =
     (if maxHits l \<le> 0 then window l
      else let ks = kept l key now
           in if int (length ks) < maxHits l then 0
              else ks ! (length ks - nat (maxHits l)) + window l - now)"

subsection \<open>The contract of an admission gate\<close>

text \<open>A run of calls: the gate after it and the admitted calls in order.\<close>

fun run_gate :: "('l \<Rightarrow> 'k \<Rightarrow> time \<Rightarrow> bool \<times> 'l) \<Rightarrow> 'l \<Rightarrow> ('k \<times> time) list \<Rightarrow> 'l \<times> ('k \<times> time) list" where
  "run_gate allow l [] = (l, [])"
| "run_gate allow l ((k, t) # cs) =
     (let (ok, l') = allow l k t; (l'', adm) = run_gate allow l' cs
      in (l'', if ok then (k, t) # adm else adm))"

fun times_of :: "'k \<Rightarrow> ('k \<times> time) list \<Rightarrow> time list" where
  "times_of k [] = []"
| "times_of k ((k', t) # cs) = (if k' = k then t # times_of k cs else times_of k cs)"

text \<open>How many of the times \<open>ts\<close> lie in the window of length \<open>w\<close> after \<open>x\<close>.\<close>

definition in_window :: "duration \<Rightarrow> time \<Rightarrow> time list \<Rightarrow> nat" where
  "in_window w x ts = length (filter (\<lambda>t. x < t \<and> t \<le> x + w) ts)"

lemma times_of_append [simp]: "times_of k (xs @ ys) = times_of k xs @ times_of k ys"
  by (induction k xs rule: times_of.induct) auto

lemma times_of_sorted: "sorted (map snd cs) \<Longrightarrow> sorted (times_of k cs)"
proof (induction k cs rule: times_of.induct)
  case (2 k k' t cs)
  have "set (times_of k cs) \<subseteq> set (map snd cs)" for k :: 'a and cs :: "('a \<times> time) list"
    by (induction k cs rule: times_of.induct) auto
  with 2 show ?case by auto
qed simp

locale admission =
  fixes allow :: "'l \<Rightarrow> 'k \<Rightarrow> time \<Rightarrow> bool \<times> 'l"
    and cap :: "'l \<Rightarrow> int"
    and span :: "'l \<Rightarrow> duration"
    and tracks :: "'l \<Rightarrow> ('k \<times> time) list \<Rightarrow> time \<Rightarrow> bool"
  assumes allow_frame: "cap (snd (allow l k t)) = cap l" "span (snd (allow l k t)) = span l"
    and allow_tracks: "tracks l log now \<Longrightarrow> now \<le> t \<Longrightarrow>
      tracks (snd (allow l k t)) (if fst (allow l k t) then log @ [(k, t)] else log) t"
    and tracks_bound: "tracks l log now \<Longrightarrow> int (in_window (span l) x (times_of k log)) \<le> max 0 (cap l)"
begin

lemma run_tracks:
  "tracks l log now \<Longrightarrow> sorted (now # map snd cs) \<Longrightarrow> run_gate allow l cs = (l', adm) \<Longrightarrow>
   (\<exists>now'. tracks l' (log @ adm) now') \<and> cap l' = cap l \<and> span l' = span l"
proof (induction cs arbitrary: l log now adm l')
  case Nil
  then show ?case by auto
next
  case (Cons c cs)
  obtain k t where c: "c = (k, t)" by (cases c)
  obtain ok l1 where a: "allow l k t = (ok, l1)" by (cases "allow l k t")
  obtain l2 adm1 where r: "run_gate allow l1 cs = (l2, adm1)" by (cases "run_gate allow l1 cs")
  have tr: "tracks l1 (if ok then log @ [(k, t)] else log) t"
    using allow_tracks [OF Cons.prems(1), of t k] Cons.prems(2) a c by simp
  have "sorted (t # map snd cs)" using Cons.prems(2) c by simp
  note ih = Cons.IH [OF tr this r]
  show ?case
    using ih Cons.prems(3) a r c allow_frame [of l k t] by (auto split: if_splits)
qed

lemma run_bound:
  assumes "tracks l [] now" and "sorted (now # map snd cs)" and "run_gate allow l cs = (l', adm)"
  shows "int (in_window (span l) x (times_of k adm)) \<le> max 0 (cap l)"
proof -
  from run_tracks [OF assms] obtain now' where "tracks l' adm now'" "cap l' = cap l" "span l' = span l"
    by auto
  then show ?thesis using tracks_bound by metis
qed

end

subsection \<open>The limiter keeps the contract\<close>

text \<open>
  \<open>tracks_log l log now\<close>: at time \<open>now\<close> the stored hits of every key are, inside the window, the
  admitted calls of the history \<open>log\<close>, and no window of the history holds more than the cap.
\<close>

definition tracks_log :: "limiter \<Rightarrow> (gostring \<times> time) list \<Rightarrow> time \<Rightarrow> bool" where
  "tracks_log l log now \<longleftrightarrow>
     (\<forall>k. filter (\<lambda>t. now - window l < t) (entries l k) = filter (\<lambda>t. now - window l < t) (times_of k log) \<and>
          (\<forall>x. int (in_window (window l) x (times_of k log)) \<le> max 0 (maxHits l)))"

lemma Allow_frame [simp]:
  "window (snd (Allow l k t)) = window l" "maxHits (snd (Allow l k t)) = maxHits l"
  by (simp_all add: Allow_def Let_def)

lemma entries_Allow:
  "entries (snd (Allow l k t)) k' =
     (if k' = k then kept l k t @ (if fst (Allow l k t) then [t] else []) else entries l k')"
  by (simp add: Allow_def Let_def entries_def)

lemma filter_later:
  fixes now :: time
  assumes "filter (\<lambda>t. now - w < t) xs = filter (\<lambda>t. now - w < t) ys" and "now \<le> now'"
  shows "filter (\<lambda>t. now' - w < t) xs = filter (\<lambda>t. now' - w < t) ys"
proof -
  have "filter (\<lambda>t. now' - w < t) zs = filter (\<lambda>t. now' - w < t) (filter (\<lambda>t. now - w < t) zs)" for zs
    using assms(2) by (auto simp: filter_filter intro: filter_cong)
  with assms(1) show ?thesis by metis
qed

lemma Allow_window:
  assumes tr: "tracks_log l log now" and le: "now \<le> t" and ok: "fst (Allow l k t)"
  shows "int (in_window (window l) x (times_of k log @ [t])) \<le> max 0 (maxHits l)"
proof (cases "x < t \<and> t \<le> x + window l")
  case False
  then have "in_window (window l) x (times_of k log @ [t]) = in_window (window l) x (times_of k log)"
    by (auto simp: in_window_def)
  then show ?thesis using tr by (simp add: tracks_log_def)
next
  case True
  have "filter (\<lambda>u. t - window l < u) (times_of k log) = kept l k t"
    using tr le filter_later [of now "window l" "entries l k" "times_of k log" t]
    by (simp add: tracks_log_def kept_def)
  moreover have "in_window (window l) x (times_of k log) \<le> length (filter (\<lambda>u. t - window l < u) (times_of k log))"
    unfolding in_window_def using True by (intro filter_length_mono) auto
  ultimately have "in_window (window l) x (times_of k log) \<le> length (kept l k t)" by simp
  moreover have "int (length (kept l k t)) < maxHits l"
    using ok by (simp add: Allow_def Let_def split: if_splits)
  ultimately show ?thesis using True by (simp add: in_window_def)
qed

lemma Allow_tracks:
  assumes tr: "tracks_log l log now" and le: "now \<le> t"
  shows "tracks_log (snd (Allow l k t)) (if fst (Allow l k t) then log @ [(k, t)] else log) t"
proof -
  have later: "filter (\<lambda>u. t - window l < u) (entries l k') = filter (\<lambda>u. t - window l < u) (times_of k' log)" for k'
    using tr le filter_later [of now "window l" "entries l k'" "times_of k' log" t]
    by (simp add: tracks_log_def)
  have bound: "int (in_window (window l) x (times_of k' log)) \<le> max 0 (maxHits l)" for k' x
    using tr by (simp add: tracks_log_def)
  show ?thesis
    using later bound Allow_window [OF tr le]
    by (auto simp: tracks_log_def entries_Allow kept_def)
qed

interpretation limiter: admission Allow maxHits window tracks_log
  by unfold_locales (auto simp: Allow_tracks, simp add: tracks_log_def)

lemma tracks_new: "tracks_log (new_limiter w m) [] now"
  by (simp add: tracks_log_def new_limiter_def entries_def in_window_def)

subsection \<open>Retry-After is exact\<close>

lemma kept_later: "0 \<le> d \<Longrightarrow> kept l k (now + d) = filter (\<lambda>t. now + d - window l < t) (kept l k now)"
  by (auto simp: kept_def filter_filter intro: filter_cong)

lemma sorted_count_above:
  fixes ks :: "int list"
  assumes "sorted ks" and "0 < m" and "m \<le> length ks"
  shows "length (filter (\<lambda>t. c < t) ks) < m \<longleftrightarrow> ks ! (length ks - m) \<le> c"
proof -
  let ?i = "length ks - m"
  have split: "ks = take ?i ks @ drop ?i ks" by simp
  show ?thesis
  proof
    assume "length (filter (\<lambda>t. c < t) ks) < m"
    moreover have "filter (\<lambda>t. c < t) (drop ?i ks) = drop ?i ks" if "c < ks ! ?i"
    proof (rule filter_True, rule ballI)
      fix t assume "t \<in> set (drop ?i ks)"
      then obtain j where "j < length (drop ?i ks)" "t = drop ?i ks ! j" by (auto simp: in_set_conv_nth)
      then have "t = ks ! (?i + j)" "?i + j < length ks" by auto
      with \<open>sorted ks\<close> have "ks ! ?i \<le> t" by (auto intro: sorted_nth_mono)
      with that show "c < t" by simp
    qed
    moreover have "length (filter (\<lambda>t. c < t) (drop ?i ks)) \<le> length (filter (\<lambda>t. c < t) ks)"
      by (subst (2) split) (simp only: filter_append length_append)
    ultimately show "ks ! ?i \<le> c" using assms(3) by fastforce
  next
    assume le: "ks ! ?i \<le> c"
    have "\<forall>t\<in>set (take (Suc ?i) ks). \<not> c < t"
    proof
      fix t assume "t \<in> set (take (Suc ?i) ks)"
      then obtain j where "j < length (take (Suc ?i) ks)" "t = ks ! j" by (auto simp: in_set_conv_nth)
      then have "j \<le> ?i" "?i < length ks" using assms by auto
      with \<open>t = ks ! j\<close> \<open>sorted ks\<close> have "t \<le> ks ! ?i" by (auto intro: sorted_nth_mono)
      with le show "\<not> c < t" by simp
    qed
    then have "filter (\<lambda>t. c < t) (take (Suc ?i) ks) = []" by (simp add: filter_empty_conv)
    then have "length (filter (\<lambda>t. c < t) ks) = length (filter (\<lambda>t. c < t) (drop (Suc ?i) ks))"
      by (metis append_take_drop_id filter_append append_Nil)
    also have "\<dots> \<le> length (drop (Suc ?i) ks)" by (rule length_filter_le)
    finally show "length (filter (\<lambda>t. c < t) ks) < m" using assms by simp
  qed
qed

lemma Allow_fst: "fst (Allow l k t) \<longleftrightarrow> int (length (kept l k t)) < maxHits l"
  by (auto simp: Allow_def Let_def)

lemma retry_exact:
  assumes pos: "0 < maxHits l" and srt: "sorted (entries l k)" and d: "0 \<le> d"
  shows "fst (Allow l k (now + d)) \<longleftrightarrow> RetryAfter l k now \<le> d"
proof -
  let ?ks = "kept l k now" and ?m = "nat (maxHits l)"
  have sk: "sorted ?ks" using srt by (simp add: kept_def sorted_filter [where f = id, simplified])
  have shrink: "length (kept l k (now + d)) \<le> length ?ks"
    using d by (simp add: kept_later)
  show ?thesis
  proof (cases "int (length ?ks) < maxHits l")
    case True
    with pos d shrink show ?thesis by (simp add: Allow_fst RetryAfter_def Let_def)
  next
    case False
    then have m: "0 < ?m" "?m \<le> length ?ks" using pos by auto
    have "fst (Allow l k (now + d)) \<longleftrightarrow> length (filter (\<lambda>t. now + d - window l < t) ?ks) < ?m"
      using d pos by (auto simp: Allow_fst kept_later)
    also have "\<dots> \<longleftrightarrow> ?ks ! (length ?ks - ?m) \<le> now + d - window l"
      by (rule sorted_count_above [OF sk m])
    also have "\<dots> \<longleftrightarrow> RetryAfter l k now \<le> d"
      using False pos by (auto simp: RetryAfter_def Let_def)
    finally show ?thesis .
  qed
qed

text \<open>A limiter that starts empty keeps its bound over every run.\<close>

lemma new_limiter_bound:
  assumes "sorted (map snd cs)" and "run_gate Allow (new_limiter w m) cs = (l', adm)"
  shows "int (in_window w x (times_of k adm)) \<le> max 0 m"
proof (cases cs)
  case Nil
  with assms show ?thesis by (simp add: in_window_def)
next
  case (Cons c cs')
  have "sorted (snd c # map snd cs)" using assms(1) Cons by auto
  from limiter.run_bound [OF tracks_new [of w m "snd c"] this assms(2), where x = x and k = k]
  show ?thesis by (simp add: new_limiter_def)
qed

subsection \<open>Properties\<close>

text \<open>
  C15: Over any history of calls in time order, a limiter created with window \<open>w\<close> and limit
  \<open>m\<close> never admits more than \<open>m\<close> calls of one key inside one window, wherever that window
  starts (not only at the current time).
\<close>

theorem limiter_window_bound:
  assumes "sorted (map snd cs)" and "run_gate Allow (new_limiter w m) cs = (l', adm)"
  shows "int (in_window w x (times_of k adm)) \<le> max 0 m"
  using assms by (rule new_limiter_bound)

theorem limiter_window_bound_witness:
  "int (in_window 10 0 (times_of ''a'' (snd (run_gate Allow (new_limiter 10 2)
     [(''a'', 1), (''a'', 2), (''b'', 2), (''a'', 3), (''a'', 11)])))) \<le> max 0 2"
  by (rule limiter_window_bound
      [where cs = "[(''a'', 1), (''a'', 2), (''b'', 2), (''a'', 3), (''a'', 11)]"])
    (simp, rule surjective_pairing)

text \<open>
  \<open>RetryAfter\<close> is exact: with a positive limit and the hits of the key stored in time order,
  a call after the wait \<open>d\<close> is admitted if and only if \<open>d\<close> is at least \<open>RetryAfter\<close>. A client
  that waits as told gets through, and no shorter wait would do.
\<close>

theorem RetryAfter_exact:
  assumes "0 < maxHits l" and "sorted (entries l k)" and "0 \<le> d"
  shows "fst (Allow l k (now + d)) \<longleftrightarrow> RetryAfter l k now \<le> d"
  using assms by (rule retry_exact)

theorem RetryAfter_exact_witness:
  "fst (Allow (new_limiter 10 2\<lparr>hits := [''a'' \<mapsto> [1, 4]]\<rparr>) ''a'' (5 + 6)) \<longleftrightarrow>
   RetryAfter (new_limiter 10 2\<lparr>hits := [''a'' \<mapsto> [1, 4]]\<rparr>) ''a'' 5 \<le> 6"
  by (rule RetryAfter_exact) (simp_all add: new_limiter_def entries_def)

text \<open>
  Calls of \<open>Allow\<close> in time order keep the stored hits of every key in time order, which is
  what \<open>RetryAfter\<close> relies on, and store at most the limit of them.
\<close>

definition hits_inv :: "limiter \<Rightarrow> time \<Rightarrow> bool" where
  "hits_inv l now \<longleftrightarrow>
     (\<forall>k. sorted (entries l k) \<and> (\<forall>t\<in>set (entries l k). t \<le> now) \<and>
          int (length (entries l k)) \<le> max 0 (maxHits l))"

lemma Allow_hits_inv:
  assumes "hits_inv l now" and "now \<le> t"
  shows "hits_inv (snd (Allow l k t)) t"
proof -
  have old: "sorted (entries l k')" "\<forall>u\<in>set (entries l k'). u \<le> t"
    "int (length (entries l k')) \<le> max 0 (maxHits l)" for k'
  proof -
    have "\<forall>u\<in>set (entries l k'). u \<le> now" using assms(1) by (simp add: hits_inv_def)
    with assms(2) show "\<forall>u\<in>set (entries l k'). u \<le> t" by auto
  qed (use assms(1) in \<open>simp_all add: hits_inv_def\<close>)
  have ks: "sorted (kept l k t)" "\<forall>u\<in>set (kept l k t). u \<le> t" "length (kept l k t) \<le> length (entries l k)"
    using old by (auto simp: kept_def sorted_filter [where f = id, simplified])
  have "int (length (kept l k t)) \<le> max 0 (maxHits l)"
    using ks(3) old(3) [of k] by linarith
  with old ks show ?thesis
    by (auto simp: hits_inv_def entries_Allow Allow_fst sorted_append)
qed

end
