(* ===== verification/SMTP_Server.thy ===== *)
theory SMTP_Server
  imports Rate_Limit
begin

text \<open>
  \<open>internal/smtp/server.go\<close>: one SMTP connection.

  The connection's input is the byte string the client sends; \<open>bufio.Reader.ReadString\<close> cuts it at
  line feeds and fails at its end. \<open>handshake\<close> is the result of the TLS handshake that STARTTLS
  runs: \<open>None\<close> when it fails, else the decrypted bytes the client sends from then on. Bytes the
  plain reader had buffered are gone after the switch, as the code creates a new reader.

  \<open>AllowRecipient\<close> and \<open>HandleMail\<close> act on a world \<open>'w\<close> (the database, the clock); every call
  of them is recorded in \<open>calls\<close> together with the world it saw, in order.
\<close>

record ReceivedMail =
  RemoteIP :: gostring
  HELO :: gostring
  MailFrom :: gostring
  RcptTo :: gostring
  Data :: gostring
  TLS :: bool

record 'w server =
  Domain :: gostring
  MaxMessageBytes :: int
  TLSConfig :: bool
  OnRateLimited :: "('w \<Rightarrow> gostring \<Rightarrow> 'w) option"
  HandleMail :: "('w \<Rightarrow> ReceivedMail \<Rightarrow> bool \<times> 'w) option"
  AllowRecipient :: "('w \<Rightarrow> gostring \<Rightarrow> bool \<times> 'w) option"

datatype 'w call = CallAllow 'w gostring bool | CallMail 'w ReceivedMail

record 'w session =
  remoteIP :: gostring
  helo :: gostring
  mailFrom :: gostring
  rcptTo :: "gostring list"
  isTLS :: bool
  input :: gostring
  handshake :: "gostring option"
  out :: "gostring list"
  world :: 'w
  calls :: "'w call list"

subsection \<open>Reading lines\<close>

text \<open>\<open>ReadString('\n')\<close>: the line with its line feed, and the rest; \<open>None\<close> at the end of input.\<close>

definition read_line :: "gostring \<Rightarrow> (gostring \<times> gostring) option" where
  "read_line s = (case index s [LF] of None \<Rightarrow> None | Some i \<Rightarrow> Some (take (Suc i) s, drop (Suc i) s))"

lemma read_line_length: "read_line s = Some (l, r) \<Longrightarrow> length r < length s"
  by (auto simp: read_line_def split: option.splits dest: index_char_first)

lemma read_line_cons [simp]: "LF \<notin> set l \<Longrightarrow> read_line (l @ LF # r) = Some (l @ [LF], r)"
  by (simp add: read_line_def)

definition writeLine :: "'w session \<Rightarrow> gostring \<Rightarrow> 'w session" where
  "writeLine s line = s\<lparr>out := out s @ [line @ crlf]\<rparr>"

definition extractSMTPPath :: "gostring \<Rightarrow> gostring" where
  "extractSMTPPath s0 =
     (let s1 = trim_space s0;
          s2 = (if has_prefix s1 ''<''
                then (case index s1 ''>'' of
                        Some end \<Rightarrow> if 0 < end then take (end - 1) (drop 1 s1) else trim_prefix s1 ''<''
                      | None \<Rightarrow> trim_prefix s1 ''<'')
                else s1);
          s3 = (case index s2 '' '' of Some i \<Rightarrow> if 0 < i then take i s2 else s2 | None \<Rightarrow> s2)
      in to_lower (trim_space s3))"

datatype data_error = ReadError | TooLarge

text \<open>
  \<open>readData\<close>: collects the lines up to the lone dot. The result also carries what is left of the
  input, also after an error: the reader stays where it stopped.
\<close>

function read_data :: "int \<Rightarrow> gostring \<Rightarrow> gostring \<Rightarrow> (data_error + gostring) \<times> gostring" where
  "read_data maxBytes acc inp =
     (case read_line inp of
        None \<Rightarrow> (Inl ReadError, [])
      | Some (line, rest) \<Rightarrow>
          if line = ''.'' @ crlf \<or> line = ''.'' @ [LF] then (Inr acc, rest)
          else let line' = (if has_prefix line ''..'' then drop 1 line else line)
               in if int (length acc + length line') > maxBytes then (Inl TooLarge, rest)
                  else read_data maxBytes (acc @ line') rest)"
  by pat_completeness auto
termination
  by (relation "measure (\<lambda>(m, acc, inp). length inp)") (auto dest: read_line_length)

declare read_data.simps [simp del]

definition readData :: "int \<Rightarrow> gostring \<Rightarrow> (data_error + gostring) \<times> gostring" where
  "readData maxBytes inp = read_data maxBytes [] inp"

subsection \<open>Commands\<close>

text \<open>\<open>Next\<close> goes on with the loop, \<open>Closed\<close> returns from the handler.\<close>

datatype 'w outcome = Next "'w session" | Closed "'w session"

definition cmd_helo :: "'w server \<Rightarrow> gostring \<Rightarrow> 'w session \<Rightarrow> 'w session" where
  "cmd_helo srv line s =
     (let s1 = writeLine (s\<lparr>helo := trim_space (drop 5 line)\<rparr>) (''250-'' @ Domain srv);
          s2 = (if TLSConfig srv \<and> \<not> isTLS s then writeLine s1 ''250-STARTTLS'' else s1)
      in writeLine s2 (''250 SIZE '' @ show_int (MaxMessageBytes srv)))"

definition cmd_starttls :: "'w server \<Rightarrow> 'w session \<Rightarrow> 'w outcome" where
  "cmd_starttls srv s =
     (if \<not> TLSConfig srv then Next (writeLine s (''502 5.5.1 STARTTLS nicht verf'' @ ue @ ''gbar''))
      else if isTLS s then Next (writeLine s ''503 5.5.1 TLS bereits aktiv'')
      else let s1 = writeLine s (''220 2.0.0 bereit f'' @ ue @ ''r TLS'')
           in case handshake s1 of
                None \<Rightarrow> Closed s1
              | Some bytes \<Rightarrow>
                  Next (s1\<lparr>input := bytes, isTLS := True, helo := [], mailFrom := [], rcptTo := []\<rparr>))"

definition cmd_mail :: "gostring \<Rightarrow> 'w session \<Rightarrow> 'w session" where
  "cmd_mail line s =
     writeLine (s\<lparr>mailFrom := extractSMTPPath (drop 10 line), rcptTo := []\<rparr>) ''250 2.1.0 OK''"

definition allow_recipient :: "'w server \<Rightarrow> gostring \<Rightarrow> 'w session \<Rightarrow> bool \<times> 'w session" where
  "allow_recipient srv rcpt s =
     (case AllowRecipient srv of
        None \<Rightarrow> (True, s)
      | Some f \<Rightarrow> let (ok, w) = f (world s) rcpt
                 in (ok, s\<lparr>world := w, calls := calls s @ [CallAllow (world s) rcpt ok]\<rparr>))"

definition cmd_rcpt :: "'w server \<Rightarrow> gostring \<Rightarrow> 'w session \<Rightarrow> 'w session" where
  "cmd_rcpt srv line s =
     (let rcpt = extractSMTPPath (drop 8 line)
      in if rcpt = [] then writeLine s (''501 5.1.3 ung'' @ ue @ ''ltiger Empf'' @ ae @ ''nger'')
         else let (ok, s1) = allow_recipient srv rcpt s
              in if \<not> ok then writeLine s1 (''550 5.1.1 Empf'' @ ae @ ''nger abgelehnt'')
                 else writeLine (s1\<lparr>rcptTo := rcptTo s1 @ [to_lower rcpt]\<rparr>) ''250 2.1.5 OK'')"

definition received_mail :: "'w session \<Rightarrow> gostring \<Rightarrow> gostring \<Rightarrow> ReceivedMail" where
  "received_mail s data rcpt =
     \<lparr>RemoteIP = remoteIP s, HELO = helo s, MailFrom = mailFrom s, RcptTo = rcpt, Data = data, TLS = isTLS s\<rparr>"

text \<open>The loop over the recipients. An error of the handler is logged and does not stop it.\<close>

fun deliver :: "'w server \<Rightarrow> gostring \<Rightarrow> gostring list \<Rightarrow> 'w session \<Rightarrow> 'w session" where
  "deliver srv data [] s = s"
| "deliver srv data (rcpt # rs) s =
     deliver srv data rs
       (case HandleMail srv of
          None \<Rightarrow> s
        | Some f \<Rightarrow> let m = received_mail s data rcpt
                   in s\<lparr>world := snd (f (world s) m), calls := calls s @ [CallMail (world s) m]\<rparr>)"

definition cmd_data :: "'w server \<Rightarrow> 'w session \<Rightarrow> 'w session" where
  "cmd_data srv s =
     (if mailFrom s = [] \<or> rcptTo s = []
      then writeLine s (''503 5.5.1 ung'' @ ue @ ''ltige Reihenfolge'')
      else let s1 = writeLine s ''354 Daten senden, Ende mit <CR><LF>.<CR><LF>''
           in case readData (MaxMessageBytes srv) (input s1) of
                (Inl e, rest) \<Rightarrow>
                  writeLine (s1\<lparr>input := rest\<rparr>) (''552 5.3.4 Nachricht zu gro'' @ sz @ '' oder fehlerhaft'')
              | (Inr data, rest) \<Rightarrow>
                  writeLine (deliver srv data (rcptTo s1) (s1\<lparr>input := rest\<rparr>)) ''250 2.0.0 eingereiht'')"

text \<open>The switch over the command line, in the order of its cases.\<close>

definition smtp_command :: "'w server \<Rightarrow> gostring \<Rightarrow> 'w session \<Rightarrow> 'w outcome" where
  "smtp_command srv line0 s =
     (let line = trim_space line0; upper = to_upper line
      in if has_prefix upper ''EHLO '' \<or> has_prefix upper ''HELO '' then Next (cmd_helo srv line s)
         else if upper = ''STARTTLS'' then cmd_starttls srv s
         else if has_prefix upper ''MAIL FROM:'' then Next (cmd_mail line s)
         else if has_prefix upper ''RCPT TO:'' then Next (cmd_rcpt srv line s)
         else if upper = ''DATA'' then Next (cmd_data srv s)
         else if upper = ''RSET''
              then Next (writeLine (s\<lparr>mailFrom := [], rcptTo := []\<rparr>) (''250 2.0.0 zur'' @ ue @ ''ckgesetzt''))
         else if upper = ''NOOP'' then Next (writeLine s ''250 2.0.0 OK'')
         else if upper = ''QUIT'' then Closed (writeLine s ''221 2.0.0 auf Wiedersehen'')
         else Next (writeLine s ''500 5.5.2 Befehl nicht erkannt''))"

definition smtp_step :: "'w server \<Rightarrow> 'w session \<Rightarrow> 'w outcome" where
  "smtp_step srv s =
     (case read_line (input s) of
        None \<Rightarrow> Closed s
      | Some (line, rest) \<Rightarrow> smtp_command srv line (s\<lparr>input := rest\<rparr>))"

subsection \<open>What a command leaves alone, and termination of the loop\<close>

lemma writeLine_frame [simp]:
  "remoteIP (writeLine s l) = remoteIP s" "helo (writeLine s l) = helo s"
  "mailFrom (writeLine s l) = mailFrom s" "rcptTo (writeLine s l) = rcptTo s"
  "isTLS (writeLine s l) = isTLS s" "input (writeLine s l) = input s"
  "handshake (writeLine s l) = handshake s" "world (writeLine s l) = world s"
  "calls (writeLine s l) = calls s" "out (writeLine s l) = out s @ [l @ crlf]"
  by (simp_all add: writeLine_def)

lemma deliver_frame [simp]:
  "remoteIP (deliver srv d rs s) = remoteIP s" "helo (deliver srv d rs s) = helo s"
  "mailFrom (deliver srv d rs s) = mailFrom s" "rcptTo (deliver srv d rs s) = rcptTo s"
  "isTLS (deliver srv d rs s) = isTLS s" "input (deliver srv d rs s) = input s"
  "handshake (deliver srv d rs s) = handshake s"
  by (induction rs arbitrary: s) (auto split: option.splits simp: Let_def)

lemma allow_recipient_frame:
  assumes "allow_recipient srv rcpt s = (ok, s')"
  shows "remoteIP s' = remoteIP s" "helo s' = helo s" "mailFrom s' = mailFrom s" "rcptTo s' = rcptTo s"
    "isTLS s' = isTLS s" "input s' = input s" "handshake s' = handshake s"
  using assms by (auto simp: allow_recipient_def split: option.splits prod.splits)

lemma read_data_length: "snd (read_data m acc inp) = rest \<Longrightarrow> length rest \<le> length inp"
proof (induction m acc inp arbitrary: rest rule: read_data.induct)
  case (1 m acc inp)
  show ?case
  proof (cases "read_line inp")
    case None
    with 1 show ?thesis by (simp add: read_data.simps [of m acc inp])
  next
    case (Some p)
    obtain l r where p: "p = (l, r)" by (cases p)
    have "length r < length inp" using read_line_length Some p by blast
    with 1 Some p show ?thesis
      by (fastforce simp: read_data.simps [of m acc inp] Let_def split: if_splits)
  qed
qed

lemma readData_length: "readData m inp = (x, rest) \<Longrightarrow> length rest \<le> length inp"
  using read_data_length [of m "[]" inp rest] by (simp add: readData_def)

text \<open>
  A command either leaves the TLS state alone and never puts input back, or it is the one switch
  to TLS.
\<close>

lemma smtp_command_input:
  assumes "smtp_command srv l s = Next s'"
  shows "isTLS s' = isTLS s \<and> length (input s') \<le> length (input s) \<or> \<not> isTLS s \<and> isTLS s'"
proof -
  have helo: "isTLS (cmd_helo srv l s) = isTLS s" "input (cmd_helo srv l s) = input s" for l
    by (simp_all add: cmd_helo_def Let_def)
  have rcpt: "isTLS (cmd_rcpt srv l s) = isTLS s" "input (cmd_rcpt srv l s) = input s" for l
    by (auto simp: cmd_rcpt_def Let_def split: prod.splits dest: allow_recipient_frame)
  have data: "isTLS (cmd_data srv s) = isTLS s" "length (input (cmd_data srv s)) \<le> length (input s)"
    by (auto simp: cmd_data_def Let_def split: prod.splits sum.splits dest: readData_length)
  show ?thesis
    using assms
    by (auto simp: smtp_command_def cmd_starttls_def cmd_mail_def Let_def helo rcpt data
        split: if_splits option.splits)
qed

function serve :: "'w server \<Rightarrow> 'w session \<Rightarrow> 'w session" where
  "serve srv s = (case smtp_step srv s of Next s' \<Rightarrow> serve srv s' | Closed s' \<Rightarrow> s')"
  by pat_completeness auto
termination
proof (relation "measures [\<lambda>(srv, s). if isTLS s then 0 else 1, \<lambda>(srv, s). length (input s)]")
  fix srv :: "'w server" and s s' :: "'w session"
  assume "smtp_step srv s = Next s'"
  then obtain l r where "read_line (input s) = Some (l, r)" and c: "smtp_command srv l (s\<lparr>input := r\<rparr>) = Next s'"
    by (auto simp: smtp_step_def split: option.splits)
  then have "length r < length (input s)" by (auto dest: read_line_length)
  with smtp_command_input [OF c]
  show "((srv, s'), srv, s) \<in> measures [\<lambda>(srv, s). if isTLS s then 0 else 1, \<lambda>(srv, s). length (input s)]"
    by auto
qed simp

declare serve.simps [simp del]

subsection \<open>The connection\<close>

record gate =
  RateLimiter :: "limiter option"
  BurstLimiter :: "limiter option"

text \<open>The two limiters in the order of the code: the second is asked only if the first admits.\<close>

definition opt_allow :: "limiter option \<Rightarrow> gostring \<Rightarrow> time \<Rightarrow> bool \<times> limiter option" where
  "opt_allow ol key now =
     (case ol of None \<Rightarrow> (True, None) | Some l \<Rightarrow> (fst (Allow l key now), Some (snd (Allow l key now))))"

definition gate_allow :: "gate \<Rightarrow> gostring \<Rightarrow> time \<Rightarrow> bool \<times> gate" where
  "gate_allow g ip now =
     (let (ok1, rl) = opt_allow (RateLimiter g) (''smtp:hour:'' @ ip) now
      in if \<not> ok1 then (False, g\<lparr>RateLimiter := rl\<rparr>)
         else let (ok2, bl) = opt_allow (BurstLimiter g) (''smtp:burst:'' @ ip) now
              in (ok2, g\<lparr>RateLimiter := rl, BurstLimiter := bl\<rparr>))"

definition new_session :: "gostring \<Rightarrow> gostring \<Rightarrow> gostring option \<Rightarrow> 'w \<Rightarrow> 'w session" where
  "new_session ip inp hs w =
     \<lparr>remoteIP = ip, helo = [], mailFrom = [], rcptTo = [], isTLS = False, input = inp,
      handshake = hs, out = [], world = w, calls = []\<rparr>"

definition handleConn ::
  "'w server \<Rightarrow> gate \<Rightarrow> gostring \<Rightarrow> time \<Rightarrow> gostring \<Rightarrow> gostring option \<Rightarrow> 'w \<Rightarrow> 'w session \<times> gate" where
  "handleConn srv g ip now inp hs w =
     (let (ok, g') = gate_allow g ip now; s = new_session ip inp hs w
      in if \<not> ok
         then (writeLine (case OnRateLimited srv of None \<Rightarrow> s | Some f \<Rightarrow> s\<lparr>world := f w ip\<rparr>)
                 ''451 4.7.1 rate limit exceeded'', g')
         else (serve srv (writeLine s (''220 '' @ Domain srv @ '' Sender-Report SMTP'')), g'))"


subsection \<open>Dot stuffing\<close>

text \<open>What a client sends for a message of the given lines, each with its line feed.\<close>

definition wire_line :: "gostring \<Rightarrow> bool" where
  "wire_line l = (l \<noteq> [] \<and> last l = LF \<and> LF \<notin> set (butlast l))"

definition dot_stuff :: "gostring \<Rightarrow> gostring" where
  "dot_stuff l = (if has_prefix l ''.'' then ''.'' @ l else l)"

definition data_wire :: "gostring list \<Rightarrow> gostring" where
  "data_wire ls = concat (map dot_stuff ls) @ ''.'' @ crlf"

lemma read_line_wire: "wire_line l \<Longrightarrow> read_line (l @ r) = Some (l, r)"
proof -
  assume w: "wire_line l"
  then have l: "l = butlast l @ [LF]" by (metis append_butlast_last_id wire_line_def)
  have "read_line (butlast l @ LF # r) = Some (butlast l @ [LF], r)"
    using w by (simp add: wire_line_def)
  then show ?thesis using l by (metis append.assoc append_Cons append_Nil)
qed

lemma wire_line_stuff: "wire_line l \<Longrightarrow> wire_line (dot_stuff l)"
  by (auto simp: wire_line_def dot_stuff_def)

lemma dot_stuff_not_end: "wire_line l \<Longrightarrow> dot_stuff l \<noteq> ''.'' @ crlf \<and> dot_stuff l \<noteq> ''.'' @ [LF]"
  by (cases l) (auto simp: dot_stuff_def)

lemma dot_unstuff: "wire_line l \<Longrightarrow> (if has_prefix (dot_stuff l) ''..'' then drop 1 (dot_stuff l) else dot_stuff l) = l"
  by (cases l) (auto simp: dot_stuff_def)

lemma read_data_wire:
  assumes "\<And>l. l \<in> set ls \<Longrightarrow> wire_line l" and "0 \<le> m" and "int (length acc + length (concat ls)) \<le> m"
  shows "read_data m acc (data_wire ls @ rest) = (Inr (acc @ concat ls), rest)"
  using assms
proof (induction ls arbitrary: acc)
  case Nil
  have "read_line (''.'' @ crlf @ rest) = Some (''.'' @ crlf, rest)"
    using read_line_wire [of "''.'' @ crlf" rest] by (simp add: wire_line_def)
  then show ?case by (simp add: data_wire_def read_data.simps)
next
  case (Cons l ls)
  then have wl: "wire_line l" by simp
  have inp: "data_wire (l # ls) @ rest = dot_stuff l @ data_wire ls @ rest" by (simp add: data_wire_def)
  have rl: "read_line (data_wire (l # ls) @ rest) = Some (dot_stuff l, data_wire ls @ rest)"
    unfolding inp by (rule read_line_wire) (rule wire_line_stuff [OF wl])
  have "read_data m acc (data_wire (l # ls) @ rest) = read_data m (acc @ l) (data_wire ls @ rest)"
    using Cons.prems
    by (subst read_data.simps) (simp only: rl option.case prod.case dot_stuff_not_end [OF wl]
        dot_unstuff [OF wl] Let_def, simp)
  also have "\<dots> = (Inr ((acc @ l) @ concat ls), rest)"
    using Cons.prems by (intro Cons.IH) auto
  finally show ?case by simp
qed

text \<open>The lines of a text, each with its line feed.\<close>

function wire_lines :: "gostring \<Rightarrow> gostring list" where
  "wire_lines s =
     (case read_line s of None \<Rightarrow> (if s = [] then [] else [s]) | Some (l, r) \<Rightarrow> l # wire_lines r)"
  by pat_completeness auto
termination
  by (relation "measure length") (auto dest: read_line_length)

declare wire_lines.simps [simp del]

lemma wire_lines_concat: "(\<And>l. l \<in> set ls \<Longrightarrow> wire_line l) \<Longrightarrow> wire_lines (concat ls) = ls"
proof (induction ls)
  case Nil
  then show ?case by (simp add: wire_lines.simps read_line_def)
next
  case (Cons l ls)
  then show ?case using read_line_wire [of l "concat ls"] by (simp add: wire_lines.simps [of "l @ concat ls"])
qed

lemma data_wire_length: "length (concat ls) \<le> length (data_wire ls)"
proof -
  have "length (concat ls) \<le> length (concat (map dot_stuff ls))"
    by (induction ls) (auto simp: dot_stuff_def)
  then show ?thesis by (simp add: data_wire_def)
qed

lemma read_data_too_large:
  assumes "\<And>k. k \<in> set (ls1 @ l # ls2) \<Longrightarrow> wire_line k" and "int (length acc + length (concat ls1)) \<le> m"
    and "m < int (length acc + length (concat ls1) + length l)"
  shows "read_data m acc (data_wire (ls1 @ l # ls2) @ rest) = (Inl TooLarge, data_wire ls2 @ rest)"
  using assms
proof (induction ls1 arbitrary: acc)
  case Nil
  then have wl: "wire_line l" by simp
  have rl: "read_line (data_wire ([] @ l # ls2) @ rest) = Some (dot_stuff l, data_wire ls2 @ rest)"
    using read_line_wire [OF wire_line_stuff [OF wl]] by (simp add: data_wire_def)
  show ?case
    using Nil.prems by (subst read_data.simps) (simp only: rl option.case prod.case dot_stuff_not_end [OF wl]
        dot_unstuff [OF wl] Let_def, simp)
next
  case (Cons k ls1)
  then have wk: "wire_line k" by simp
  have rl: "read_line (data_wire ((k # ls1) @ l # ls2) @ rest) = Some (dot_stuff k, data_wire (ls1 @ l # ls2) @ rest)"
    using read_line_wire [OF wire_line_stuff [OF wk]] by (simp add: data_wire_def)
  have "read_data m acc (data_wire ((k # ls1) @ l # ls2) @ rest) = read_data m (acc @ k) (data_wire (ls1 @ l # ls2) @ rest)"
    using Cons.prems
    by (subst read_data.simps) (simp only: rl option.case prod.case dot_stuff_not_end [OF wk]
        dot_unstuff [OF wk] Let_def, simp)
  also have "\<dots> = (Inl TooLarge, data_wire ls2 @ rest)"
    using Cons.prems by (intro Cons.IH) auto
  finally show ?case .
qed

interpretation dot_stuffing:
  codec data_wire "\<lambda>w. wire_lines (projr (fst (readData (int (length w)) w)))" "list_all wire_line"
proof unfold_locales
  fix ls assume ok: "list_all wire_line ls"
  then have "readData (int (length (data_wire ls))) (data_wire ls @ []) = (Inr (concat ls), [])"
    unfolding readData_def using data_wire_length [of ls]
    by (subst read_data_wire) (auto simp: list_all_iff)
  with ok show "wire_lines (projr (fst (readData (int (length (data_wire ls))) (data_wire ls)))) = ls"
    by (simp add: wire_lines_concat list_all_iff)
qed

lemma read_data_bound:
  "read_data m acc inp = (Inr d, rest) \<Longrightarrow> int (length d) \<le> max m (int (length acc))"
proof (induction m acc inp rule: read_data.induct)
  case (1 m acc inp)
  show ?case
  proof (cases "read_line inp")
    case None
    with 1 show ?thesis by (simp add: read_data.simps [of m acc inp])
  next
    case (Some p)
    obtain l r where p: "p = (l, r)" by (cases p)
    with 1 Some show ?thesis
      by (fastforce simp: read_data.simps [of m acc inp] Let_def split: if_splits)
  qed
qed

lemma readData_bound: "readData m inp = (Inr d, rest) \<Longrightarrow> int (length d) \<le> max 0 m"
  using read_data_bound [of m "[]" inp d rest] by (simp add: readData_def max.commute)

subsection \<open>No relaying: an invariant of the session\<close>

definition accepted :: "'w server \<Rightarrow> 'w call list \<Rightarrow> gostring \<Rightarrow> bool" where
  "accepted srv cs r \<longleftrightarrow>
     (\<exists>w rcpt f. CallAllow w rcpt True \<in> set cs \<and> AllowRecipient srv = Some f \<and> fst (f w rcpt) \<and>
        to_lower rcpt = r)"

definition mail_wf :: "'w server \<Rightarrow> ReceivedMail \<Rightarrow> bool" where
  "mail_wf srv m \<longleftrightarrow> MailFrom m \<noteq> [] \<and> int (length (Data m)) \<le> max 0 (MaxMessageBytes srv)"

text \<open>
  Every call of \<open>HandleMail\<close> in the history comes after a call of \<open>AllowRecipient\<close> that accepted
  its recipient, and hands over a message with a sender and within the size limit.
\<close>

definition relay_trace :: "'w server \<Rightarrow> 'w call list \<Rightarrow> bool" where
  "relay_trace srv cs \<longleftrightarrow>
     (\<forall>pre w m post. cs = pre @ CallMail w m # post \<longrightarrow> accepted srv pre (RcptTo m) \<and> mail_wf srv m)"

definition relay_inv :: "'w server \<Rightarrow> 'w session \<Rightarrow> bool" where
  "relay_inv srv s \<longleftrightarrow> relay_trace srv (calls s) \<and> (\<forall>r\<in>set (rcptTo s). accepted srv (calls s) r)"

definition session_step :: "'w server \<Rightarrow> 'w session \<Rightarrow> 'w session \<Rightarrow> bool" where
  "session_step srv s t \<longleftrightarrow> smtp_step srv s = Next t \<or> smtp_step srv s = Closed t"

lemma accepted_mono: "accepted srv cs r \<Longrightarrow> set cs \<subseteq> set ds \<Longrightarrow> accepted srv ds r"
  by (auto simp: accepted_def)

lemma relay_trace_Nil [simp]: "relay_trace srv []"
  by (simp add: relay_trace_def)

lemma relay_trace_allow [simp]: "relay_trace srv (cs @ [CallAllow w r b]) = relay_trace srv cs"
  by (fastforce simp: relay_trace_def append_eq_append_conv2 Cons_eq_append_conv append_eq_Cons_conv)

lemma relay_trace_mail:
  assumes "relay_trace srv cs" "accepted srv cs (RcptTo m)" "mail_wf srv m"
  shows "relay_trace srv (cs @ [CallMail w m])"
  unfolding relay_trace_def
proof (intro allI impI)
  fix pre w' m' post
  assume "cs @ [CallMail w m] = pre @ CallMail w' m' # post"
  then consider "post = []" "cs = pre" "m' = m" | q where "cs = pre @ CallMail w' m' # q"
    by (cases post rule: rev_cases) auto
  then show "accepted srv pre (RcptTo m') \<and> mail_wf srv m'"
    using assms by cases (auto simp: relay_trace_def)
qed

lemma relay_inv_writeLine [simp]: "relay_inv srv (writeLine s l) = relay_inv srv s"
  by (simp add: relay_inv_def)

lemma relay_inv_frame:
  assumes "relay_inv srv s" "calls t = calls s" "set (rcptTo t) \<subseteq> set (rcptTo s)"
  shows "relay_inv srv t"
  using assms by (auto simp: relay_inv_def)

lemma allow_recipient_inv:
  assumes inv: "relay_inv srv s" and ar: "AllowRecipient srv \<noteq> None"
    and a: "allow_recipient srv rcpt s = (ok, s')"
  shows "relay_inv srv s' \<and> (ok \<longrightarrow> accepted srv (calls s') (to_lower rcpt))"
proof -
  from ar a obtain f where f: "AllowRecipient srv = Some f" "ok = fst (f (world s) rcpt)"
    and c: "calls s' = calls s @ [CallAllow (world s) rcpt ok]" "rcptTo s' = rcptTo s"
    by (auto simp: allow_recipient_def split: prod.splits)
  have "relay_inv srv s'"
    using inv accepted_mono [of srv "calls s" _ "calls s'"] by (auto simp: relay_inv_def c)
  moreover have "ok \<longrightarrow> accepted srv (calls s') (to_lower rcpt)"
    using f by (fastforce simp: c accepted_def)
  ultimately show ?thesis by simp
qed

lemma deliver_inv:
  assumes "relay_inv srv s" "\<And>r. r \<in> set rs \<Longrightarrow> accepted srv (calls s) r"
    and "mailFrom s \<noteq> []" "int (length d) \<le> max 0 (MaxMessageBytes srv)"
  shows "relay_inv srv (deliver srv d rs s)"
  using assms
proof (induction rs arbitrary: s)
  case Nil
  then show ?case by simp
next
  case (Cons r rs)
  show ?case
  proof (cases "HandleMail srv")
    case None
    with Cons show ?thesis by simp
  next
    case (Some f)
    let ?m = "received_mail s d r"
    let ?s = "s\<lparr>world := snd (f (world s) ?m), calls := calls s @ [CallMail (world s) ?m]\<rparr>"
    have "relay_trace srv (calls s @ [CallMail (world s) ?m])"
      using Cons.prems by (intro relay_trace_mail) (auto simp: relay_inv_def received_mail_def mail_wf_def)
    moreover have later: "accepted srv (calls s @ [CallMail (world s) ?m]) q" if "accepted srv (calls s) q" for q
      using that by (rule accepted_mono) auto
    ultimately have "relay_inv srv ?s" using Cons.prems(1) by (auto simp: relay_inv_def)
    then have "relay_inv srv (deliver srv d rs ?s)"
      using Cons.prems later by (intro Cons.IH) auto
    then show ?thesis using Some by (simp add: Let_def)
  qed
qed

lemma cmd_rcpt_inv:
  assumes "relay_inv srv s" "AllowRecipient srv \<noteq> None"
  shows "relay_inv srv (cmd_rcpt srv l s)"
proof -
  obtain ok t where a: "allow_recipient srv (extractSMTPPath (drop 8 l)) s = (ok, t)" by fastforce
  from allow_recipient_inv [OF assms a] have "relay_inv srv (t\<lparr>rcptTo := rcptTo t @ [to_lower (extractSMTPPath (drop 8 l))]\<rparr>)" if ok
    using that by (auto simp: relay_inv_def)
  with allow_recipient_inv [OF assms a] a assms(1) show ?thesis
    by (auto simp: cmd_rcpt_def Let_def)
qed

lemma cmd_data_inv: "relay_inv srv s \<Longrightarrow> relay_inv srv (cmd_data srv s)"
proof -
  assume inv: "relay_inv srv s"
  let ?s = "writeLine s ''354 Daten senden, Ende mit <CR><LF>.<CR><LF>''"
  show ?thesis
  proof (cases "mailFrom s = [] \<or> rcptTo s = []")
    case True
    with inv show ?thesis by (simp add: cmd_data_def)
  next
    case False
    obtain x rest where r: "readData (MaxMessageBytes srv) (input s) = (x, rest)" by fastforce
    have fr: "relay_inv srv (?s\<lparr>input := rest\<rparr>)"
      using inv by (rule relay_inv_frame) auto
    show ?thesis
    proof (cases x)
      case (Inl e)
      with False r fr show ?thesis by (auto simp: cmd_data_def Let_def)
    next
      case (Inr d)
      have "relay_inv srv (deliver srv d (rcptTo s) (?s\<lparr>input := rest\<rparr>))"
        using fr inv False readData_bound r Inr by (intro deliver_inv) (auto simp: relay_inv_def)
      with False r Inr show ?thesis by (auto simp: cmd_data_def Let_def)
    qed
  qed
qed

lemma smtp_command_inv:
  assumes inv: "relay_inv srv s" and ar: "AllowRecipient srv \<noteq> None"
    and c: "smtp_command srv l s = Next t \<or> smtp_command srv l s = Closed t"
  shows "relay_inv srv t"
proof -
  have helo: "relay_inv srv (cmd_helo srv l s)" for l
    using inv by (rule relay_inv_frame) (auto simp: cmd_helo_def Let_def)
  have mail: "relay_inv srv (cmd_mail l s)" for l
    using inv by (rule relay_inv_frame) (auto simp: cmd_mail_def)
  have rset: "relay_inv srv (s\<lparr>mailFrom := [], rcptTo := []\<rparr>)"
    using inv by (rule relay_inv_frame) auto
  have tls: "relay_inv srv t" if "cmd_starttls srv s = Next t \<or> cmd_starttls srv s = Closed t"
    using inv by (rule relay_inv_frame)
      (use that in \<open>auto simp: cmd_starttls_def Let_def split: if_splits option.splits\<close>)
  show ?thesis
    using c helo mail rset tls cmd_rcpt_inv [OF inv ar] cmd_data_inv [OF inv] inv
    by (auto simp: smtp_command_def Let_def split: if_splits)
qed

lemma session_step_inv:
  assumes "AllowRecipient srv \<noteq> None" "relay_inv srv s" "session_step srv s t"
  shows "relay_inv srv t"
proof (cases "read_line (input s)")
  case None
  with assms show ?thesis by (auto simp: session_step_def smtp_step_def)
next
  case (Some p)
  have "relay_inv srv (s\<lparr>input := snd p\<rparr>)"
    using assms(2) by (rule relay_inv_frame) auto
  from smtp_command_inv [OF this assms(1)] Some assms(3) show ?thesis
    by (auto simp: session_step_def smtp_step_def split: prod.splits)
qed

interpretation relay: state_machine "\<lambda>s :: 'w session. calls s = [] \<and> rcptTo s = []"
  "\<lambda>s t. AllowRecipient srv \<noteq> None \<and> session_step srv s t" "relay_inv srv" for srv :: "'w server"
proof (unfold_locales, goal_cases)
  case (1 s)
  then show ?case by (simp add: relay_inv_def)
next
  case (2 s t)
  then show ?case using session_step_inv by blast
qed

lemma serve_steps: "(session_step srv)\<^sup>*\<^sup>* s (serve srv s)"
proof (induction srv s rule: serve.induct)
  case (1 srv s)
  show ?case
  proof (cases "smtp_step srv s")
    case (Next t)
    then have "session_step srv s t" by (simp add: session_step_def)
    with 1 [OF Next] show ?thesis
      by (simp add: serve.simps [of srv s] Next converse_rtranclp_into_rtranclp)
  next
    case (Closed t)
    then have "session_step srv s t" by (simp add: session_step_def)
    then show ?thesis by (simp add: serve.simps [of srv s] Closed)
  qed
qed

lemma serve_inv:
  assumes "AllowRecipient srv \<noteq> None" "relay_inv srv s"
  shows "relay_inv srv (serve srv s)"
proof -
  have "(\<lambda>s t. AllowRecipient srv \<noteq> None \<and> session_step srv s t)\<^sup>*\<^sup>* s (serve srv s)"
    using serve_steps [of srv s] assms(1) by simp
  then show ?thesis using assms(2) by (rule relay.steps_inv)
qed


subsection \<open>Both limiters bound the sessions of a client\<close>

definition hour_cap :: "gate \<Rightarrow> int" where
  "hour_cap g = (case RateLimiter g of None \<Rightarrow> 0 | Some l \<Rightarrow> maxHits l)"

definition hour_span :: "gate \<Rightarrow> duration" where
  "hour_span g = (case RateLimiter g of None \<Rightarrow> 0 | Some l \<Rightarrow> window l)"

definition burst_cap :: "gate \<Rightarrow> int" where
  "burst_cap g = (case BurstLimiter g of None \<Rightarrow> 0 | Some l \<Rightarrow> maxHits l)"

definition burst_span :: "gate \<Rightarrow> duration" where
  "burst_span g = (case BurstLimiter g of None \<Rightarrow> 0 | Some l \<Rightarrow> window l)"

text \<open>
  The sessions the gate lets through are among the hits of each limiter: the hour limiter may have
  admitted a connection that the burst limiter then refused.
\<close>

definition hour_tracks :: "gate \<Rightarrow> (gostring \<times> time) list \<Rightarrow> time \<Rightarrow> bool" where
  "hour_tracks g log now \<longleftrightarrow>
     (\<exists>l hl. RateLimiter g = Some l \<and> tracks_log l hl now \<and>
        (\<forall>ip. subseq (times_of ip log) (times_of (''smtp:hour:'' @ ip) hl)))"

definition burst_tracks :: "gate \<Rightarrow> (gostring \<times> time) list \<Rightarrow> time \<Rightarrow> bool" where
  "burst_tracks g log now \<longleftrightarrow>
     (\<exists>l bl. BurstLimiter g = Some l \<and> tracks_log l bl now \<and>
        (\<forall>ip. subseq (times_of ip log) (times_of (''smtp:burst:'' @ ip) bl)))"

lemma in_window_subseq: "subseq xs ys \<Longrightarrow> in_window w x xs \<le> in_window w x ys"
  unfolding in_window_def by (meson list_emb_length subseq_filter)

lemma tracks_later: "tracks_log l log now \<Longrightarrow> now \<le> t \<Longrightarrow> tracks_log l log t"
  by (auto simp: tracks_log_def intro: filter_later [of now "window l"])

lemma opt_allow_Some [simp]: "opt_allow (Some l) k t = (fst (Allow l k t), Some (snd (Allow l k t)))"
  by (simp add: opt_allow_def)

lemma gate_allow_frame:
  "hour_cap (snd (gate_allow g k t)) = hour_cap g" "hour_span (snd (gate_allow g k t)) = hour_span g"
  "burst_cap (snd (gate_allow g k t)) = burst_cap g" "burst_span (snd (gate_allow g k t)) = burst_span g"
  by (auto simp: gate_allow_def opt_allow_def hour_cap_def hour_span_def burst_cap_def burst_span_def
      Let_def split: option.splits)

lemma subseq_times_snoc:
  assumes "\<And>ip. subseq (times_of ip log) (times_of (pre @ ip) hl)"
  shows "subseq (times_of ip (if ok then log @ [(k, t)] else log))
           (times_of (pre @ ip) (if ok \<or> ok' then hl @ [(pre @ k, t)] else hl))"
proof -
  have "subseq (times_of ip log) (times_of (pre @ ip) hl @ zs)" for zs
    using assms [of ip] by (rule list_emb_prefix)
  then show ?thesis using assms [of ip] by (auto intro: list_emb_append_mono)
qed

lemma hour_gate_tracks:
  assumes "hour_tracks g log now" and le: "now \<le> t"
  shows "hour_tracks (snd (gate_allow g k t)) (if fst (gate_allow g k t) then log @ [(k, t)] else log) t"
proof -
  from assms(1) obtain l hl where l: "RateLimiter g = Some l" "tracks_log l hl now"
    and sub: "\<And>ip. subseq (times_of ip log) (times_of (''smtp:hour:'' @ ip) hl)"
    by (auto simp: hour_tracks_def)
  let ?a = "Allow l (''smtp:hour:'' @ k) t"
  have rl: "RateLimiter (snd (gate_allow g k t)) = Some (snd ?a)"
    using l by (auto simp: gate_allow_def Let_def split: prod.splits)
  have imp: "fst (gate_allow g k t) \<Longrightarrow> fst ?a"
    using l by (auto simp: gate_allow_def Let_def split: prod.splits if_splits)
  let ?hl = "if fst (gate_allow g k t) \<or> fst ?a then hl @ [(''smtp:hour:'' @ k, t)] else hl"
  have "?hl = (if fst ?a then hl @ [(''smtp:hour:'' @ k, t)] else hl)" using imp by auto
  then have "tracks_log (snd ?a) ?hl t"
    using Allow_tracks [OF l(2) le, of "''smtp:hour:'' @ k"] by simp
  with rl subseq_times_snoc [where pre = "''smtp:hour:''", OF sub] show ?thesis
    unfolding hour_tracks_def by blast
qed

lemma burst_gate_tracks:
  assumes "burst_tracks g log now" and le: "now \<le> t"
  shows "burst_tracks (snd (gate_allow g k t)) (if fst (gate_allow g k t) then log @ [(k, t)] else log) t"
proof -
  from assms(1) obtain l bl where l: "BurstLimiter g = Some l" "tracks_log l bl now"
    and sub: "\<And>ip. subseq (times_of ip log) (times_of (''smtp:burst:'' @ ip) bl)"
    by (auto simp: burst_tracks_def)
  let ?ok1 = "fst (opt_allow (RateLimiter g) (''smtp:hour:'' @ k) t)"
  let ?a = "Allow l (''smtp:burst:'' @ k) t"
  show ?thesis
  proof (cases ?ok1)
    case False
    then have "\<not> fst (gate_allow g k t)" "BurstLimiter (snd (gate_allow g k t)) = Some l"
      using l by (auto simp: gate_allow_def Let_def split: prod.splits)
    with l sub tracks_later [OF l(2) le] show ?thesis by (auto simp: burst_tracks_def)
  next
    case True
    then have g: "fst (gate_allow g k t) = fst ?a" "BurstLimiter (snd (gate_allow g k t)) = Some (snd ?a)"
      using l by (auto simp: gate_allow_def Let_def split: prod.splits)
    have "tracks_log (snd ?a) (if fst ?a \<or> fst ?a then bl @ [(''smtp:burst:'' @ k, t)] else bl) t"
      using Allow_tracks [OF l(2) le, of "''smtp:burst:'' @ k"] by simp
    with g(2) subseq_times_snoc [where pre = "''smtp:burst:''", OF sub] show ?thesis
      unfolding burst_tracks_def g(1) by blast
  qed
qed

interpretation hour_gate: admission gate_allow hour_cap hour_span hour_tracks
proof unfold_locales
  fix g log now x and ip :: gostring
  assume "hour_tracks g log now"
  then obtain l hl where l: "RateLimiter g = Some l" "tracks_log l hl now"
    and sub: "subseq (times_of ip log) (times_of (''smtp:hour:'' @ ip) hl)" by (auto simp: hour_tracks_def)
  have "int (in_window (window l) x (times_of (''smtp:hour:'' @ ip) hl)) \<le> max 0 (maxHits l)"
    using l(2) by (rule limiter.tracks_bound)
  with in_window_subseq [OF sub, of "window l" x] l(1)
  show "int (in_window (hour_span g) x (times_of ip log)) \<le> max 0 (hour_cap g)"
    by (simp add: hour_span_def hour_cap_def)
qed (simp_all add: gate_allow_frame hour_gate_tracks)

interpretation burst_gate: admission gate_allow burst_cap burst_span burst_tracks
proof unfold_locales
  fix g log now x and ip :: gostring
  assume "burst_tracks g log now"
  then obtain l bl where l: "BurstLimiter g = Some l" "tracks_log l bl now"
    and sub: "subseq (times_of ip log) (times_of (''smtp:burst:'' @ ip) bl)" by (auto simp: burst_tracks_def)
  have "int (in_window (window l) x (times_of (''smtp:burst:'' @ ip) bl)) \<le> max 0 (maxHits l)"
    using l(2) by (rule limiter.tracks_bound)
  with in_window_subseq [OF sub, of "window l" x] l(1)
  show "int (in_window (burst_span g) x (times_of ip log)) \<le> max 0 (burst_cap g)"
    by (simp add: burst_span_def burst_cap_def)
qed (simp_all add: gate_allow_frame burst_gate_tracks)


subsection \<open>Properties\<close>

definition demo_server :: "unit server" where
  "demo_server = \<lparr>Domain = ''mx'', MaxMessageBytes = 20, TLSConfig = True, OnRateLimited = None,
     HandleMail = Some (\<lambda>w m. (False, w)), AllowRecipient = Some (\<lambda>w r. (r = ''x@y'', w))\<rparr>"

definition demo_gate :: gate where
  "demo_gate = \<lparr>RateLimiter = Some (new_limiter hour 2), BurstLimiter = Some (new_limiter minute 1)\<rparr>"

definition demo_input :: gostring where
  "demo_input = ''MAIL FROM:<A@b>'' @ crlf @ ''rcpt to:<X@y>'' @ crlf @ ''DATA'' @ crlf @
     ''..hi'' @ crlf @ ''.'' @ crlf @ ''QUIT'' @ crlf"

lemma demo_run:
  "calls (fst (handleConn demo_server demo_gate ''1.2.3.4'' 0 demo_input None ())) =
     [CallAllow () ''x@y'' True,
      CallMail () \<lparr>RemoteIP = ''1.2.3.4'', HELO = [], MailFrom = ''a@b'', RcptTo = ''x@y'',
        Data = ''.hi'' @ crlf, TLS = False\<rparr>]"
  by code_simp


text \<open>
  C10: No open relay. Whatever bytes a client sends, in plain text or after STARTTLS, every message
  handed to \<open>HandleMail\<close> is for a recipient that \<open>AllowRecipient\<close> accepted earlier in the same
  connection, has a sender, and is not larger than \<open>MaxMessageBytes\<close>.
\<close>

theorem smtp_no_relay:
  assumes "AllowRecipient srv = Some f"
    and "handleConn srv g ip now inp hs w = (s, g')"
    and "calls s = pre @ CallMail w' m # post"
  shows "(\<exists>w'' rcpt. CallAllow w'' rcpt True \<in> set pre \<and> fst (f w'' rcpt) \<and> to_lower rcpt = RcptTo m) \<and>
         MailFrom m \<noteq> [] \<and> int (length (Data m)) \<le> max 0 (MaxMessageBytes srv)"
proof -
  have ne: "AllowRecipient srv \<noteq> None" using assms(1) by simp
  have "relay_inv srv (writeLine (new_session ip inp hs w) l)" for l
    by (simp add: relay_inv_def new_session_def)
  from serve_inv [OF ne this] this have "relay_inv srv s"
    using assms(2)
    by (auto simp: handleConn_def Let_def relay_inv_def new_session_def split: prod.splits if_splits option.splits)
  then have "accepted srv pre (RcptTo m) \<and> mail_wf srv m"
    using assms(3) by (auto simp: relay_inv_def relay_trace_def)
  with assms(1) show ?thesis by (auto simp: accepted_def mail_wf_def)
qed

theorem smtp_no_relay_witness:
  "(\<exists>w'' rcpt. CallAllow w'' rcpt True \<in> set [CallAllow () ''x@y'' True] \<and>
      fst (the (AllowRecipient demo_server) w'' rcpt) \<and> to_lower rcpt = ''x@y'') \<and>
    ''a@b'' \<noteq> [] \<and> int (length (''.hi'' @ crlf)) \<le> max 0 (MaxMessageBytes demo_server)"
proof -
  let ?r = "handleConn demo_server demo_gate ''1.2.3.4'' 0 demo_input None ()"
  let ?m = "\<lparr>RemoteIP = ''1.2.3.4'', HELO = [], MailFrom = ''a@b'', RcptTo = ''x@y'',
        Data = ''.hi'' @ crlf, TLS = False\<rparr>"
  have ar: "AllowRecipient demo_server = Some (\<lambda>w r. (r = ''x@y'', w))" by (simp add: demo_server_def)
  have tr: "calls (fst ?r) = [CallAllow () ''x@y'' True] @ CallMail () ?m # []"
    using demo_run by simp
  from smtp_no_relay [OF ar surjective_pairing [of ?r] tr] ar show ?thesis by simp
qed

text \<open>
  C18: The DATA phase returns exactly the message the client sent. For lines that each end in one
  line feed, sent dot-stuffed and closed by the lone dot, \<open>readData\<close> gives back their
  concatenation and leaves the reader right behind the closing dot, for every message within the
  limit.
\<close>

theorem readData_roundtrip:
  assumes "list_all wire_line ls" and "int (length (concat ls)) \<le> maxBytes"
  shows "readData maxBytes (data_wire ls @ rest) = (Inr (concat ls), rest)"
  unfolding readData_def using assms by (subst read_data_wire) (auto simp: list_all_iff)

theorem readData_roundtrip_witness:
  "readData 20 (data_wire [''.hi'' @ crlf, ''there'' @ [LF]] @ ''QUIT'') = (Inr (''.hi'' @ crlf @ ''there'' @ [LF]), ''QUIT'')"
  using readData_roundtrip [of "[''.hi'' @ crlf, ''there'' @ [LF]]" 20 "''QUIT''"]
  by (simp add: wire_line_def)

text \<open>
  A message over the limit is refused as soon as it passes the limit, and the reader stays in
  the middle of it: the lines behind the one that was too many are still unread, so the command
  loop reads them next, as commands.
\<close>

theorem oversize_rest_is_read_as_commands:
  assumes "list_all wire_line (before @ l # after)"
    and "mailFrom s \<noteq> []" and "rcptTo s \<noteq> []" and "input s = data_wire (before @ l # after) @ rest"
    and "int (length (concat before)) \<le> MaxMessageBytes srv"
    and "MaxMessageBytes srv < int (length (concat before) + length l)"
  shows "input (cmd_data srv s) = data_wire after @ rest \<and> calls (cmd_data srv s) = calls s \<and>
    last (out (cmd_data srv s)) = ''552 5.3.4 Nachricht zu gro'' @ sz @ '' oder fehlerhaft'' @ crlf"
proof -
  have "readData (MaxMessageBytes srv) (input s) = (Inl TooLarge, data_wire after @ rest)"
    unfolding readData_def assms(4) using assms by (intro read_data_too_large) (auto simp: list_all_iff)
  then show ?thesis using assms(2,3) by (simp add: cmd_data_def Let_def)
qed

theorem oversize_rest_is_read_as_commands_witness:
  "input (cmd_data demo_server (new_session ''ip'' (data_wire ([''0123456789'' @ crlf] @
      (''0123456789'' @ crlf) # [''QUIT'' @ crlf]) @ []) None ()\<lparr>mailFrom := ''a'', rcptTo := [''x@y'']\<rparr>)) =
    ''QUIT'' @ crlf @ ''.'' @ crlf"
proof -
  let ?s = "new_session ''ip'' (data_wire ([''0123456789'' @ crlf] @ (''0123456789'' @ crlf) # [''QUIT'' @ crlf]) @ [])
    None ()\<lparr>mailFrom := ''a'', rcptTo := [''x@y'']\<rparr>"
  have "input (cmd_data demo_server ?s) = data_wire [''QUIT'' @ crlf] @ []"
    by (rule oversize_rest_is_read_as_commands
        [where before = "[''0123456789'' @ crlf]" and l = "''0123456789'' @ crlf", THEN conjunct1])
      (simp_all add: wire_line_def new_session_def demo_server_def)
  then show ?thesis by (simp add: data_wire_def dot_stuff_def)
qed

text \<open>
  C22: STARTTLS starts afresh (RFC 3207). After a successful handshake nothing the client said
  before remains: not its HELO, not a sender, not a recipient, and not the bytes it sent in plain
  text behind the command.
\<close>

theorem starttls_discards_plaintext:
  assumes "TLSConfig srv" and "\<not> isTLS s" and "handshake s \<noteq> None"
  shows "serve srv (s\<lparr>input := ''STARTTLS'' @ crlf @ junk, helo := h, mailFrom := mf, rcptTo := rs\<rparr>) =
         serve srv (s\<lparr>input := ''STARTTLS'' @ crlf, helo := [], mailFrom := [], rcptTo := []\<rparr>)"
proof -
  let ?s = "\<lambda>j h mf rs. s\<lparr>input := ''STARTTLS'' @ crlf @ j, helo := h, mailFrom := mf, rcptTo := rs\<rparr>"
  have rl: "read_line (''STARTTLS'' @ crlf @ j) = Some (''STARTTLS'' @ crlf, j)" for j
    using read_line_cons [of "''STARTTLS'' @ [CR]" j] by simp
  have cmd: "trim_space (''STARTTLS'' @ crlf) = ''STARTTLS''" "to_upper ''STARTTLS'' = ''STARTTLS''"
    by code_simp+
  have inp: "input (?s j h mf rs) = ''STARTTLS'' @ crlf @ j" for j h mf rs by simp
  have "smtp_step srv (?s j h mf rs) = cmd_starttls srv (?s j h mf rs\<lparr>input := j\<rparr>)" for j h mf rs
    unfolding smtp_step_def inp rl option.case prod.case smtp_command_def cmd Let_def by simp
  moreover have "cmd_starttls srv (?s j h mf rs\<lparr>input := j\<rparr>) = cmd_starttls srv (?s [] [] [] []\<lparr>input := []\<rparr>)"
    for j h mf rs
    using assms by (auto simp: cmd_starttls_def writeLine_def Let_def)
  ultimately have "smtp_step srv (?s junk h mf rs) = smtp_step srv (?s [] [] [] [])" by metis
  then show ?thesis by (subst (1 2) serve.simps) simp
qed

theorem starttls_discards_plaintext_witness:
  "serve demo_server (new_session ''ip'' [] (Some demo_input) ()
      \<lparr>input := ''STARTTLS'' @ crlf @ ''RCPT TO:<x@y>'' @ crlf, helo := ''h'', mailFrom := ''a'', rcptTo := []\<rparr>) =
   serve demo_server (new_session ''ip'' [] (Some demo_input) ()
      \<lparr>input := ''STARTTLS'' @ crlf, helo := [], mailFrom := [], rcptTo := []\<rparr>)"
  by (rule starttls_discards_plaintext) (simp_all add: demo_server_def new_session_def)

text \<open>
  However connections of a client arrive over time, the server greets at most
  \<open>SMTP_RATE_LIMIT_PER_HOUR\<close> of them in any hour and at most \<open>SMTP_BURST_PER_MIN\<close> in any minute.
\<close>

theorem smtp_sessions_bounded:
  assumes "sorted (map snd conns)"
    and "run_gate gate_allow \<lparr>RateLimiter = Some (new_limiter hour n), BurstLimiter = Some (new_limiter minute b)\<rparr> conns
           = (g', greeted)"
  shows "int (in_window hour x (times_of ip greeted)) \<le> max 0 n \<and>
         int (in_window minute x (times_of ip greeted)) \<le> max 0 b"
proof (cases conns)
  case Nil
  with assms show ?thesis by (simp add: in_window_def)
next
  case (Cons c cs)
  let ?g = "\<lparr>RateLimiter = Some (new_limiter hour n), BurstLimiter = Some (new_limiter minute b)\<rparr>"
  have srt: "sorted (snd c # map snd conns)" using assms(1) Cons by auto
  have "hour_tracks ?g [] (snd c)" "burst_tracks ?g [] (snd c)"
    by (auto simp: hour_tracks_def burst_tracks_def intro!: exI [of _ "[]"] tracks_new)
  from hour_gate.run_bound [OF this(1) srt assms(2)] burst_gate.run_bound [OF this(2) srt assms(2)]
  show ?thesis
    by (simp add: hour_span_def hour_cap_def burst_span_def burst_cap_def new_limiter_def)
qed

theorem smtp_sessions_bounded_witness:
  "let adm = snd (run_gate gate_allow \<lparr>RateLimiter = Some (new_limiter hour 2), BurstLimiter = Some (new_limiter minute 1)\<rparr>
      [(''a'', 0), (''a'', 1), (''a'', minute + 1), (''a'', 2 * minute + 2)])
   in int (in_window hour (-1) (times_of ''a'' adm)) \<le> max 0 2 \<and> int (in_window minute (-1) (times_of ''a'' adm)) \<le> max 0 1"
  unfolding Let_def
  by (rule smtp_sessions_bounded [where conns = "[(''a'', 0), (''a'', 1), (''a'', minute + 1), (''a'', 2 * minute + 2)]"])
    (simp add: duration_defs, rule surjective_pairing)

subsection \<open>The handlers a server is built from\<close>

text \<open>
  The contract between the server and its callbacks: a property of the world that every callback keeps, the mail handler on well-formed
  mails only, holds after every connection.
\<close>

locale smtp_handlers =
  fixes srv :: "'w server"
    and P :: "'w \<Rightarrow> bool"
  assumes mail_keeps: "HandleMail srv = Some f \<Longrightarrow> P w \<Longrightarrow> mail_wf srv m \<Longrightarrow> P (snd (f w m))"
    and allow_keeps: "AllowRecipient srv = Some g \<Longrightarrow> P w \<Longrightarrow> P (snd (g w r))"
    and limited_keeps: "OnRateLimited srv = Some h \<Longrightarrow> P w \<Longrightarrow> P (h w ip)"
begin

lemma deliver_keeps:
  assumes "P (world s)" "mailFrom s \<noteq> []" "int (length d) \<le> max 0 (MaxMessageBytes srv)"
  shows "P (world (deliver srv d rs s))"
  using assms
proof (induction rs arbitrary: s)
  case (Cons r rs)
  show ?case
  proof (cases "HandleMail srv")
    case (Some f)
    have "P (snd (f (world s) (received_mail s d r)))"
      using mail_keeps [OF Some] Cons.prems by (simp add: mail_wf_def received_mail_def)
    with Some Cons show ?thesis by (simp add: Let_def)
  qed (use Cons in simp)
qed simp

lemma cmd_rcpt_keeps: "P (world s) \<Longrightarrow> P (world (cmd_rcpt srv l s))"
  using allow_keeps [of _ "world s" "extractSMTPPath (drop 8 l)"]
  by (cases "AllowRecipient srv") (auto simp: cmd_rcpt_def allow_recipient_def case_prod_beta Let_def)

lemma cmd_data_keeps:
  assumes "P (world s)"
  shows "P (world (cmd_data srv s))"
proof (cases "mailFrom s = [] \<or> rcptTo s = []")
  case False
  obtain x rest where r: "readData (MaxMessageBytes srv) (input s) = (x, rest)" by fastforce
  show ?thesis
  proof (cases x)
    case (Inr d)
    have "P (world (deliver srv d (rcptTo s) ((writeLine s ''354 Daten senden, Ende mit <CR><LF>.<CR><LF>'')\<lparr>input := rest\<rparr>)))"
      using assms False readData_bound r Inr by (intro deliver_keeps) auto
    with False r Inr show ?thesis by (simp add: cmd_data_def Let_def)
  qed (use False r assms in \<open>simp add: cmd_data_def Let_def\<close>)
qed (use assms in \<open>simp add: cmd_data_def\<close>)

lemma command_keeps:
  assumes "P (world s)" "smtp_command srv l s = Next t \<or> smtp_command srv l s = Closed t"
  shows "P (world t)"
proof -
  have "P (world t)" if "cmd_starttls srv s = Next t \<or> cmd_starttls srv s = Closed t"
    using assms(1) that by (auto simp: cmd_starttls_def Let_def split: if_splits option.splits)
  then show ?thesis
    using assms cmd_rcpt_keeps [OF assms(1)] cmd_data_keeps [OF assms(1)]
    by (auto simp: smtp_command_def cmd_helo_def cmd_mail_def Let_def split: if_splits)
qed

lemma step_keeps: "P (world s) \<Longrightarrow> session_step srv s t \<Longrightarrow> P (world t)"
  using command_keeps [of "s\<lparr>input := snd (the (read_line (input s)))\<rparr>" "fst (the (read_line (input s)))" t]
  by (auto simp: session_step_def smtp_step_def split: option.splits prod.splits)

lemma conn_keeps:
  assumes "P w"
  shows "P (world (fst (handleConn srv g ip now inp hs w)))"
proof -
  have steps: "P (world t)" if "(session_step srv)\<^sup>*\<^sup>* s t" "P (world s)" for s t
    using that by (induction rule: rtranclp_induct) (auto intro: step_keeps)
  have "P (world (serve srv (writeLine (new_session ip inp hs w) l)))" for l
    by (rule steps [OF serve_steps]) (simp add: assms new_session_def)
  then show ?thesis
    using assms limited_keeps by (auto simp: handleConn_def Let_def new_session_def split: prod.splits option.splits)
qed

end

end
