(* ===== verification/Auth.thy ===== *)
theory Auth
  imports SPF SMTP_Server
begin

text \<open>
  The authentication results the server writes into a received message
  (\<open>cmd/sender-report/auth.go\<close>) and reads back (\<open>parseAuthResult\<close> in
  \<open>internal/analyzer/analyzer.go\<close>).

  The packages \<open>dkim\<close> and \<open>dmarc\<close> of go-msgauth are third-party code: \<open>dkim_verify\<close> and
  \<open>dmarc_lookup\<close> give their results. \<open>message_header\<close> is \<open>mail.ReadMessage\<close> followed by \<open>Header.Get\<close>
  (\<open>None\<close> when the message cannot be parsed, an empty string when the header is missing),
  \<open>parse_address\<close> is \<open>mail.ParseAddress\<close>, and \<open>now_text\<close> the formatted time of reception.
\<close>

subsection \<open>What other packages provide\<close>

datatype dkim_error = TempFail gostring | PermFail gostring | OtherFail gostring

fun dkim_error_text :: "dkim_error \<Rightarrow> gostring" where
  "dkim_error_text (TempFail t) = t"
| "dkim_error_text (PermFail t) = t"
| "dkim_error_text (OtherFail t) = t"

record verification =
  VDomain :: gostring
  VErr :: "dkim_error option"

datatype dmarc_error = ErrNoPolicy | DMARCTempFail gostring | DMARCOtherFail gostring

record dmarc_record =
  RPolicy :: gostring
  SPFAlignment :: gostring
  DKIMAlignment :: gostring

definition AlignmentStrict :: gostring where "AlignmentStrict = ''s''"

record auth_env =
  dns :: dns_env
  dkim_verify :: "gostring \<Rightarrow> verification option list \<times> dkim_error option"
  dmarc_lookup :: "gostring \<Rightarrow> dmarc_error + dmarc_record"
  message_header :: "gostring \<Rightarrow> gostring \<Rightarrow> gostring option"
  parse_address :: "gostring \<Rightarrow> gostring option"
  now_text :: gostring

record authResults = spf_verdict +
  DKIMResult :: gostring
  DKIMDomain :: gostring
  DKIMDetail :: gostring
  DMARCResult :: gostring
  FromDomain :: gostring
  DMARCDetail :: gostring

subsection \<open>DKIM\<close>

definition vdomain :: "verification \<Rightarrow> gostring" where
  "vdomain v = to_lower (trim_space (VDomain v))"

text \<open>The first loop: the chunks up to and including the first signature that verifies, and that signature.\<close>

fun dkim_chunks :: "verification option list \<Rightarrow> gostring list \<times> verification option" where
  "dkim_chunks [] = ([], None)"
| "dkim_chunks (None # vs) = dkim_chunks vs"
| "dkim_chunks (Some v # vs) =
     (case VErr v of
        None \<Rightarrow> ([emptyFallback (VDomain v) ''unknown'' @ ''=pass''], Some v)
      | Some e \<Rightarrow> (case dkim_chunks vs of (cs, p) \<Rightarrow>
          ((emptyFallback (VDomain v) ''unknown'' @ ''='' @ dkim_error_text e) # cs, p)))"

definition failed_with :: "(dkim_error \<Rightarrow> bool) \<Rightarrow> verification option \<Rightarrow> bool" where
  "failed_with P v = (case v of Some w \<Rightarrow> (case VErr w of Some e \<Rightarrow> P e | None \<Rightarrow> False) | None \<Rightarrow> False)"

definition is_temp :: "dkim_error \<Rightarrow> bool" where
  "is_temp e = (case e of TempFail _ \<Rightarrow> True | _ \<Rightarrow> False)"

definition is_perm :: "dkim_error \<Rightarrow> bool" where
  "is_perm e = (case e of PermFail _ \<Rightarrow> True | _ \<Rightarrow> False)"

definition evaluateDKIM :: "auth_env \<Rightarrow> gostring \<Rightarrow> gostring \<times> gostring \<times> gostring" where
  "evaluateDKIM env raw =
     (case dkim_verify env raw of
        ([], Some e) \<Rightarrow>
          (if is_temp e then ''temperror'' else if is_perm e then ''permerror'' else ''fail'', [], dkim_error_text e)
      | ([], None) \<Rightarrow> (''none'', [], ''no signature'')
      | (verifs, _) \<Rightarrow>
          (case dkim_chunks verifs of
             (chunks, Some v) \<Rightarrow> (''pass'', vdomain v, join '', '' chunks)
           | (chunks, None) \<Rightarrow>
               (case find (failed_with is_temp) verifs of
                  Some (Some v) \<Rightarrow> (''temperror'', vdomain v, join '', '' chunks)
                | _ \<Rightarrow>
                    (case find (failed_with is_perm) verifs of
                       Some (Some v) \<Rightarrow> (''permerror'', vdomain v, join '', '' chunks)
                     | _ \<Rightarrow>
                         (case find (\<lambda>v. v \<noteq> None) verifs of
                            Some (Some v) \<Rightarrow> (''fail'', vdomain v, join '', '' chunks)
                          | _ \<Rightarrow> (''fail'', [], join '', '' chunks))))))"

subsection \<open>DMARC\<close>

definition domainAligned :: "gostring \<Rightarrow> gostring \<Rightarrow> bool \<Rightarrow> bool" where
  "domainAligned authDomain fromDomain strict =
     (let a = to_lower (trim_space authDomain); f = to_lower (trim_space fromDomain)
      in if a = [] \<or> f = [] then False
         else if strict then a = f
         else a = f \<or> has_suffix a (''.'' @ f) \<or> has_suffix f (''.'' @ a))"

definition show_bool :: "bool \<Rightarrow> gostring" where
  "show_bool b = (if b then ''true'' else ''false'')"

definition evaluateDMARC :: "auth_env \<Rightarrow> gostring \<Rightarrow> gostring \<Rightarrow> gostring \<Rightarrow> gostring \<Rightarrow> gostring \<Rightarrow> gostring \<times> gostring" where
  "evaluateDMARC env fromDomain spfResult spfDomain dkimResult dkimDomain =
     (if trim_space fromDomain = [] then (''none'', ''missing from domain'')
      else (case dmarc_lookup env fromDomain of
          Inl ErrNoPolicy \<Rightarrow> (''none'', ''no policy'')
        | Inl (DMARCTempFail t) \<Rightarrow> (''temperror'', t)
        | Inl (DMARCOtherFail t) \<Rightarrow> (''permerror'', t)
        | Inr rec \<Rightarrow>
            (let spfAligned = (spfResult = ''pass'' \<and> domainAligned spfDomain fromDomain (SPFAlignment rec = AlignmentStrict));
                 dkimAligned = (dkimResult = ''pass'' \<and> domainAligned dkimDomain fromDomain (DKIMAlignment rec = AlignmentStrict));
                 detail = ''policy='' @ RPolicy rec @ '' spf_aligned='' @ show_bool spfAligned
                   @ '' dkim_aligned='' @ show_bool dkimAligned @ '' adkim='' @ DKIMAlignment rec @ '' aspf='' @ SPFAlignment rec
             in (if spfAligned \<or> dkimAligned then ''pass'' else ''fail'', detail))))"

definition fromDomain :: "auth_env \<Rightarrow> gostring \<Rightarrow> gostring" where
  "fromDomain env raw =
     (case message_header env raw ''From'' of
        None \<Rightarrow> []
      | Some h \<Rightarrow>
          (let from = trim_space h
           in if from = [] then []
              else (case parse_address env from of
                  None \<Rightarrow> extractDomain from
                | Some a \<Rightarrow> extractDomain a)))"

definition evaluateAuthResults :: "auth_env \<Rightarrow> ReceivedMail \<Rightarrow> gostring \<Rightarrow> dnsFailures \<Rightarrow> authResults \<times> dnsFailures" where
  "evaluateAuthResults env rm raw n =
     (case evaluateSPF (dns env) (ParseIP (trim_space (RemoteIP rm))) (HELO rm) (MailFrom rm) n of (spf, m) \<Rightarrow>
      (case evaluateDKIM env raw of (dkimRes, dkimDomain, dkimDetail) \<Rightarrow>
       (let from = fromDomain env raw;
            (dmarcRes, dmarcDetail) = evaluateDMARC env from (SPFResult spf) (SPFDomain spf) dkimRes dkimDomain
        in (\<lparr>SPFResult = SPFResult spf, SPFDomain = SPFDomain spf, SPFDetail = SPFDetail spf,
             DKIMResult = dkimRes, DKIMDomain = dkimDomain, DKIMDetail = dkimDetail,
             DMARCResult = dmarcRes, FromDomain = from, DMARCDetail = dmarcDetail\<rparr>, m))))"

subsection \<open>The header fields\<close>

definition safeAuthValue :: "gostring \<Rightarrow> gostring" where
  "safeAuthValue v =
     (let v = trim_space v
      in if v = [] then ''unknown''
         else replace_all [LF] [] (replace_all [CR] [] (replace_all '';'' [] v)))"

definition local_id :: gostring where "local_id = ''sender-report.local''"

definition auth_results_value :: "gostring \<Rightarrow> 'a authResults_scheme \<Rightarrow> gostring" where
  "auth_results_value authServID res =
     authServID @ ''; spf='' @ safeAuthValue (SPFResult res)
     @ '' smtp.mailfrom='' @ safeAuthValue (emptyFallback (SPFDomain res) ''unknown'')
     @ ''; dkim='' @ safeAuthValue (DKIMResult res)
     @ '' header.d='' @ safeAuthValue (emptyFallback (DKIMDomain res) ''unknown'')
     @ ''; dmarc='' @ safeAuthValue (DMARCResult res)
     @ '' header.from='' @ safeAuthValue (emptyFallback (FromDomain res) ''unknown'')"

definition buildAuthenticationResultsHeader :: "gostring \<Rightarrow> 'a authResults_scheme \<Rightarrow> gostring" where
  "buildAuthenticationResultsHeader authServID res =
     ''Authentication-Results: '' @ auth_results_value (if trim_space authServID = [] then local_id else authServID) res"

definition buildReceivedHeader :: "gostring \<Rightarrow> gostring \<Rightarrow> ReceivedMail \<Rightarrow> gostring" where
  "buildReceivedHeader now receiver rm =
     (let receiver = (if trim_space receiver = [] then local_id else receiver);
          proto = (if TLS rm then ''ESMTPS'' else ''ESMTP'');
          r = trim_space (RcptTo rm);
          for = (if r \<noteq> [] then crlf @ [TAB] @ ''for <'' @ safeAuthValue r @ ''>'' else [])
      in ''Received: from '' @ safeAuthValue (emptyFallback (HELO rm) ''unknown'')
         @ '' (['' @ safeAuthValue (emptyFallback (RemoteIP rm) ''unknown'') @ ''])'' @ crlf @ [TAB]
         @ ''by '' @ safeAuthValue receiver @ '' with '' @ proto @ '';'' @ for @ crlf @ [TAB] @ now)"

definition buildReceivedSPFHeader :: "gostring \<Rightarrow> ReceivedMail \<Rightarrow> gostring \<Rightarrow> gostring" where
  "buildReceivedSPFHeader receiver rm spfResult =
     ''Received-SPF: '' @ safeAuthValue spfResult @ '' client-ip='' @ safeAuthValue (RemoteIP rm)
     @ ''; envelope-from='' @ safeAuthValue (emptyFallback (MailFrom rm) ''<>'')
     @ ''; helo='' @ safeAuthValue (emptyFallback (HELO rm) ''unknown'')
     @ ''; receiver='' @ safeAuthValue (emptyFallback receiver local_id)"

definition prependHeaders :: "gostring \<Rightarrow> gostring list \<Rightarrow> gostring" where
  "prependHeaders raw extra =
     (case cut (to_lf raw) [LF, LF] of (headerPart, bodyPart, _) \<Rightarrow>
        (let extra1 = filter (\<lambda>h. h \<noteq> []) (map (\<lambda>h. trim_space (to_lf h)) extra);
             all = (if trim_space headerPart \<noteq> [] then extra1 @ [headerPart] else extra1);
             joined = join [LF] all @ (if bodyPart \<noteq> [] then [LF, LF] @ bodyPart else [LF, LF])
         in to_crlf joined))"

definition detail_headers :: "auth_env \<Rightarrow> gostring \<Rightarrow> ReceivedMail \<Rightarrow> 'a authResults_scheme \<Rightarrow> gostring list" where
  "detail_headers env smtpDomain rm res =
     [buildReceivedHeader (now_text env) smtpDomain rm,
      buildAuthenticationResultsHeader smtpDomain res,
      buildReceivedSPFHeader smtpDomain rm (SPFResult res),
      ''X-Sender-Report-SPF-Detail: '' @ safeAuthValue (emptyFallback (SPFDetail res) ''none''),
      ''X-Sender-Report-DKIM-Detail: '' @ safeAuthValue (emptyFallback (DKIMDetail res) ''none''),
      ''X-Sender-Report-DMARC-Detail: '' @ safeAuthValue (emptyFallback (DMARCDetail res) ''none'')]"

definition enrichWithReceiverAuthHeaders :: "auth_env \<Rightarrow> gostring \<Rightarrow> ReceivedMail \<Rightarrow> gostring \<Rightarrow> dnsFailures \<Rightarrow> gostring \<times> dnsFailures" where
  "enrichWithReceiverAuthHeaders env smtpDomain rm raw n =
     (case evaluateAuthResults env rm raw n of (res, m) \<Rightarrow>
        (prependHeaders raw (detail_headers env smtpDomain rm res), m))"

subsection \<open>Taking the header fields off again\<close>

definition folded :: "gostring \<Rightarrow> bool" where
  "folded line = (has_prefix line '' '' \<or> has_prefix line [TAB])"

fun header_blocks :: "gostring list \<Rightarrow> gostring list \<Rightarrow> gostring list" where
  "header_blocks acc [] = acc"
| "header_blocks acc (line # ls) =
     (if folded line \<and> acc \<noteq> []
      then header_blocks (butlast acc @ [last acc @ [LF] @ line]) ls
      else header_blocks (acc @ [line]) ls)"

text \<open>The blocks that stay, and the TLS flag found in the dropped \<open>Received\<close> field.\<close>

fun strip_blocks :: "gostring \<Rightarrow> gostring list \<Rightarrow> bool \<Rightarrow> bool \<Rightarrow> gostring list \<times> bool" where
  "strip_blocks host [] droppedReceived tls = ([], tls)"
| "strip_blocks host (b # bs) droppedReceived tls =
     (case cut b '':'' of (name, value, _) \<Rightarrow>
        (let lname = to_lower (trim_space name);
             flat = join '' '' (Go_Strings.fields value);
             own = (lname = ''received'' \<and> \<not> droppedReceived \<and> contains flat ('' by '' @ host @ '' with ''));
             gone = (if has_prefix lname ''x-sender-report-'' then True
                     else if lname = ''authentication-results'' then has_prefix flat (host @ '';'')
                     else if lname = ''received-spf'' then contains flat (''receiver='' @ host)
                     else own);
             tls = (if own then contains (to_lower flat) '' with esmtps'' else tls);
             (ks, t) = strip_blocks host bs (droppedReceived \<or> own) tls
         in (if gone then ks else b # ks, t)))"

definition stripReceiverHeaders :: "gostring \<Rightarrow> gostring \<Rightarrow> gostring \<times> bool" where
  "stripReceiverHeaders raw host =
     (case cut (to_lf raw) [LF, LF] of (head, body, hasBody) \<Rightarrow>
      (case strip_blocks host (header_blocks [] (split LF head)) False False of (ks, tls) \<Rightarrow>
        (to_crlf (join [LF] ks @ (if hasBody then [LF, LF] @ body else [])), tls)))"

definition reverifyReceiverAuth :: "auth_env \<Rightarrow> gostring \<Rightarrow> ReceivedMail \<Rightarrow> gostring \<Rightarrow> dnsFailures \<Rightarrow> gostring \<times> dnsFailures" where
  "reverifyReceiverAuth env smtpDomain rm raw n =
     (let host = emptyFallback (trim_space smtpDomain) local_id
      in case stripReceiverHeaders raw host of (clean, tls) \<Rightarrow>
           enrichWithReceiverAuthHeaders env smtpDomain (rm\<lparr>TLS := TLS rm \<or> tls, Data := clean\<rparr>) clean n)"

subsection \<open>Reading a result\<close>

text \<open>
  The regular expression of \<open>parseAuthResult\<close>: start of text, a semicolon or a white-space character,
  the key, an equals sign and letters; the leftmost match counts.
\<close>

definition auth_sep :: "char \<Rightarrow> bool" where
  "auth_sep c = (c \<in> {CHR '';'', TAB, LF, CHR 0x0C, CR, SP})"

definition is_letter :: "char \<Rightarrow> bool" where
  "is_letter c = (let n = (of_char c :: int) in (65 \<le> n \<and> n \<le> 90) \<or> (97 \<le> n \<and> n \<le> 122))"

definition key_here :: "gostring \<Rightarrow> gostring \<Rightarrow> gostring" where
  "key_here key s = (if has_prefix s (key @ ''='') then takeWhile is_letter (drop (length key + 1) s) else [])"

fun auth_scan :: "gostring \<Rightarrow> gostring \<Rightarrow> gostring" where
  "auth_scan key [] = []"
| "auth_scan key (c # cs) =
     (if auth_sep c \<and> key_here key cs \<noteq> [] then key_here key cs else auth_scan key cs)"

definition parseAuthResult :: "gostring \<Rightarrow> gostring \<Rightarrow> gostring" where
  "parseAuthResult s key = to_lower (if key_here key s \<noteq> [] then key_here key s else auth_scan key s)"

subsection \<open>Values written into header fields\<close>

lemma safeAuthValue_set: "set (safeAuthValue v) \<inter> {CHR '';'', CR, LF} = {}"
  by (auto simp: safeAuthValue_def Let_def)

lemma safeAuthValue_sub: "set (safeAuthValue v) \<subseteq> set v \<union> set ''unknown''"
  using set_trim_space [of v] by (auto simp: safeAuthValue_def Let_def)

lemma safe_no_lf [simp]: "LF \<notin> set (safeAuthValue v)" "CR \<notin> set (safeAuthValue v)"
  using safeAuthValue_set [of v] by auto

lemma split_lines_field:
  "LF \<notin> set l \<Longrightarrow> split LF (l @ LF # t) = l # split LF t"
  by simp

text \<open>A header field: a first line that is not folded, then folded lines.\<close>

definition is_field :: "gostring \<Rightarrow> bool" where
  "is_field h = (\<not> folded (hd (split LF h)) \<and> list_all folded (tl (split LF h)))"

lemma header_blocks_folded:
  "acc \<noteq> [] \<Longrightarrow> list_all folded ls \<Longrightarrow>
   header_blocks acc (ls @ rest) = header_blocks (butlast acc @ [join [LF] (last acc # ls)]) rest"
proof (induction ls arbitrary: acc)
  case Nil
  then show ?case by simp
next
  case (Cons l ls)
  have "header_blocks acc ((l # ls) @ rest) = header_blocks (butlast acc @ [last acc @ [LF] @ l]) (ls @ rest)"
    using Cons.prems by simp
  also have "\<dots> = header_blocks (butlast acc @ [join [LF] ((last acc @ [LF] @ l) # ls)]) rest"
    using Cons.IH [of "butlast acc @ [last acc @ [LF] @ l]"] Cons.prems by simp
  also have "join [LF] ((last acc @ [LF] @ l) # ls) = join [LF] (last acc # l # ls)"
    by (cases ls) simp_all
  finally show ?case .
qed

lemma header_blocks_field:
  assumes "is_field h"
  shows "header_blocks acc (split LF h @ rest) = header_blocks (acc @ [h]) rest"
proof -
  obtain l ls where s: "split LF h = l # ls" by (cases "split LF h") auto
  have h: "join [LF] (l # ls) = h" using s by (metis join_split)
  from assms s have "header_blocks acc (split LF h @ rest) = header_blocks (acc @ [l]) (ls @ rest)"
    by (simp add: is_field_def)
  also have "\<dots> = header_blocks (acc @ [join [LF] (l # ls)]) rest"
    using assms s header_blocks_folded [of "acc @ [l]" ls rest] by (simp add: is_field_def)
  finally show ?thesis using h by simp
qed

lemma split_join_concat: "hs \<noteq> [] \<Longrightarrow> split c (join [c] hs) = concat (map (split c) hs)"
proof (induction "[c]" hs rule: join.induct)
  case (3 w v ws)
  then show ?case using split_append [of c w "join [c] (v # ws)"] by simp
qed auto

lemma header_blocks_fields:
  assumes "list_all is_field hs"
  shows "header_blocks acc (concat (map (split LF) hs) @ rest) = header_blocks (acc @ hs) rest"
  using assms by (induction hs arbitrary: acc) (auto simp: header_blocks_field)

lemma is_field_line: "LF \<notin> set h \<Longrightarrow> \<not> folded h \<Longrightarrow> is_field h"
  by (simp add: is_field_def)

lemma to_lf_append: "CR \<notin> set w \<Longrightarrow> to_lf (w @ s) = w @ to_lf s"
  by (induction w) auto

lemma to_lf_no_cr: "CR \<notin> set s \<Longrightarrow> to_lf s = s"
  using to_lf_append [of s "[]"] by simp

lemma to_lf_line: "CR \<notin> set a \<Longrightarrow> to_lf (a @ CR # LF # s) = a @ LF # to_lf s"
  by (simp add: to_lf_append)

lemma received_header_lf:
  assumes "CR \<notin> set now" "LF \<notin> set now"
  shows "is_field (to_lf (buildReceivedHeader now receiver rm))"
proof -
  define rc where "rc = (if trim_space receiver = [] then local_id else receiver)"
  define a where "a = ''Received: from '' @ safeAuthValue (emptyFallback (HELO rm) ''unknown'')
         @ '' (['' @ safeAuthValue (emptyFallback (RemoteIP rm) ''unknown'') @ ''])''"
  define b where "b = TAB # ''by '' @ safeAuthValue rc @ '' with '' @ (if TLS rm then ''ESMTPS'' else ''ESMTP'') @ '';''"
  define f where "f = TAB # ''for <'' @ safeAuthValue (trim_space (RcptTo rm)) @ ''>''"
  define t where "t = TAB # now"
  have lines: "buildReceivedHeader now receiver rm =
     a @ CR # LF # b @ (if trim_space (RcptTo rm) \<noteq> [] then CR # LF # f else []) @ CR # LF # t"
    by (simp add: buildReceivedHeader_def Let_def a_def b_def f_def t_def rc_def)
  have cr: "CR \<notin> set a" "CR \<notin> set b" "CR \<notin> set f" "CR \<notin> set t"
    using assms by (simp_all add: a_def b_def f_def t_def)
  have lf: "LF \<notin> set a" "LF \<notin> set b" "LF \<notin> set f" "LF \<notin> set t"
    using assms by (simp_all add: a_def b_def f_def t_def)
  have fold: "\<not> folded a" "folded b" "folded f" "folded t"
    by (simp_all add: folded_def a_def b_def f_def t_def)
  have "to_lf (buildReceivedHeader now receiver rm) =
     a @ LF # b @ (if trim_space (RcptTo rm) \<noteq> [] then LF # f else []) @ LF # t"
    unfolding lines using cr by (simp add: to_lf_line to_lf_no_cr)
  also have "is_field \<dots>"
    unfolding is_field_def using lf fold by (simp add: split_append)
  finally show ?thesis .
qed

lemma detail_header_field:
  assumes "CR \<notin> set sd" "LF \<notin> set sd" "CR \<notin> set (now_text env)" "LF \<notin> set (now_text env)"
    and "h \<in> set (detail_headers env sd rm res)"
  shows "is_field (to_lf h)"
proof -
  have lc: "CR \<notin> set local_id" "LF \<notin> set local_id" by (simp_all add: local_id_def)
  from assms(5) consider "h = buildReceivedHeader (now_text env) sd rm"
    | "CR \<notin> set h" "LF \<notin> set h" "\<not> folded h"
    using assms(1,2) lc
    by (auto simp: detail_headers_def buildAuthenticationResultsHeader_def auth_results_value_def
        buildReceivedSPFHeader_def folded_def split: if_splits)
  then show ?thesis
    by cases (use assms in \<open>auto simp: received_header_lf to_lf_no_cr is_field_line\<close>)
qed

text \<open>
  C17: The six header fields the server writes are read back as exactly these six fields, whatever the
  client sent as HELO, envelope addresses, signatures or From header and whatever the DNS records
  contain: no such value can end a field and begin another one, provided the configured server
  name and the formatted time are single lines.
\<close>

theorem detail_headers_no_injection:
  assumes "CR \<notin> set smtpDomain" "LF \<notin> set smtpDomain" "CR \<notin> set (now_text env)" "LF \<notin> set (now_text env)"
  shows "header_blocks [] (split LF (join [LF] (map to_lf (detail_headers env smtpDomain rm res))))
    = map to_lf (detail_headers env smtpDomain rm res)"
proof -
  have ne: "map to_lf (detail_headers env smtpDomain rm res) \<noteq> []" by (simp add: detail_headers_def)
  have "list_all is_field (map to_lf (detail_headers env smtpDomain rm res))"
    using detail_header_field [OF assms] by (auto simp: list_all_iff)
  from header_blocks_fields [OF this, of "[]" "[]"] show ?thesis
    by (simp add: split_join_concat [OF ne])
qed

definition demo_auth :: auth_env where
  "demo_auth = \<lparr>dns = demo_env, dkim_verify = (\<lambda>raw. ([], None)), dmarc_lookup = (\<lambda>d. Inl ErrNoPolicy),
     message_header = (\<lambda>raw name. if name = ''From'' then Some ''a@example.org'' else None),
     parse_address = (\<lambda>a. Some a), now_text = ''Mon, 02 Jan 2006 15:04:05 +0000''\<rparr>"

definition demo_mail :: ReceivedMail where
  "demo_mail = \<lparr>RemoteIP = ''192.0.2.7'', HELO = ''mx.example.org'' @ crlf @ ''X-Evil: 1'', MailFrom = ''x@example.org'',
     RcptTo = ''t@report.example'', Data = [], TLS = False\<rparr>"

theorem detail_headers_no_injection_witness:
  "CR \<notin> set ''report.example'' \<and> CR \<notin> set (now_text demo_auth)
   \<and> header_blocks [] (split LF (join [LF] (map to_lf
        (detail_headers demo_auth ''report.example'' demo_mail (fst (evaluateAuthResults demo_auth demo_mail [] 0))))))
     = map to_lf (detail_headers demo_auth ''report.example'' demo_mail (fst (evaluateAuthResults demo_auth demo_mail [] 0)))"
proof -
  have "CR \<notin> set ''report.example''" "LF \<notin> set ''report.example''"
    "CR \<notin> set (now_text demo_auth)" "LF \<notin> set (now_text demo_auth)"
    by (simp_all add: demo_auth_def)
  from detail_headers_no_injection [OF this] this show ?thesis by blast
qed

subsection \<open>Results are read back\<close>

lemma lower_char_eq_other:
  assumes "\<not> is_letter d"
  shows "lower_char c = d \<longleftrightarrow> c = d"
proof
  assume l: "lower_char c = d"
  show "c = d"
  proof (rule ccontr)
    assume "c \<noteq> d"
    with l have n: "65 \<le> (of_char c :: int)" "(of_char c :: int) \<le> 90" "d = char_of ((of_char c :: int) + 32)"
      by (auto simp: lower_char_def Let_def split: if_splits)
    then have "(of_char d :: int) = of_char c + 32" by simp
    with n assms show False by (simp add: is_letter_def)
  qed
qed (use assms in \<open>auto simp: lower_char_def is_letter_def Let_def\<close>)

lemma in_to_lower_other: "\<not> is_letter d \<Longrightarrow> d \<in> set (to_lower s) \<longleftrightarrow> d \<in> set s"
  unfolding to_lower_def set_map image_iff by (metis lower_char_eq_other)

lemma auth_sep_lower [simp]: "auth_sep (lower_char c) = auth_sep c"
  by (simp add: auth_sep_def lower_char_eq_other is_letter_def)

lemma letter_not_sep:
  assumes "is_letter c"
  shows "\<not> auth_sep c" "plain_char c" "c \<noteq> CHR '';''" "c \<noteq> CR" "c \<noteq> LF"
proof -
  have o: "\<not> is_letter d" if "(of_char d :: int) < 65" for d using that by (simp add: is_letter_def)
  show "\<not> auth_sep c" using assms o by (force simp: auth_sep_def)
  show "plain_char c"
    using assms by (auto simp: is_letter_def plain_char_def is_ascii_char_def ascii_space_def Let_def)
  show "c \<noteq> CHR '';''" "c \<noteq> CR" "c \<noteq> LF" using assms o by auto
qed

text \<open>What the evaluators return as results: lower-case words.\<close>

definition auth_word :: "gostring \<Rightarrow> bool" where
  "auth_word r = (r \<noteq> [] \<and> list_all is_letter r \<and> to_lower r = r)"

lemma safe_word: "auth_word r \<Longrightarrow> safeAuthValue r = r"
proof -
  assume r: "auth_word r"
  then have L: "is_letter c" if "c \<in> set r" for c using that by (auto simp: auth_word_def list_all_iff)
  from r have "trim_space r = r"
    by (intro trim_space_plain) (auto simp: auth_word_def intro!: letter_not_sep(2) L)
  moreover have "filter (\<lambda>c. c \<noteq> CHR '';'') r = r" by (rule filter_True) (metis L letter_not_sep(3))
  moreover have "filter (\<lambda>c. c \<noteq> CR) r = r" by (rule filter_True) (metis L letter_not_sep(4))
  moreover have "filter (\<lambda>c. c \<noteq> LF) r = r" by (rule filter_True) (metis L letter_not_sep(5))
  ultimately show ?thesis using r by (simp add: safeAuthValue_def Let_def auth_word_def)
qed

definition no_sep :: "gostring \<Rightarrow> bool" where
  "no_sep s = list_all (\<lambda>c. \<not> auth_sep c) s"

lemma no_sep_simps [simp]:
  "no_sep []" "no_sep (c # s) = (\<not> auth_sep c \<and> no_sep s)" "no_sep (s @ t) = (no_sep s \<and> no_sep t)"
  by (auto simp: no_sep_def)

lemma no_sep_lower [simp]: "no_sep (to_lower s) = no_sep s"
  by (auto simp: no_sep_def to_lower_def list_all_iff)

lemma no_sep_unknown [simp]: "no_sep ''unknown''"
  by (simp add: auth_sep_def)

lemma no_sep_word: "auth_word r \<Longrightarrow> no_sep r"
  by (auto simp: auth_word_def no_sep_def list_all_iff letter_not_sep)

lemma no_sep_safe: "no_sep s \<Longrightarrow> no_sep (safeAuthValue (emptyFallback s ''unknown''))"
proof -
  assume "no_sep s"
  then have "no_sep (emptyFallback s ''unknown'')" by (simp add: emptyFallback_def auth_sep_def)
  with safeAuthValue_sub [of "emptyFallback s ''unknown''"] no_sep_unknown show ?thesis
    unfolding no_sep_def list_all_iff by blast
qed

lemma scan_skip: "no_sep w \<Longrightarrow> auth_scan key (w @ s) = auth_scan key s"
  by (induction w) auto

lemma key_hit: "list_all is_letter r \<Longrightarrow> \<not> is_letter c \<Longrightarrow> key_here key (key @ CHR ''='' # r @ c # s) = r"
  by (simp add: key_here_def has_prefix_iff list_all_iff takeWhile_append2)

lemma key_start:
  "e \<notin> set a \<Longrightarrow> c \<noteq> e \<Longrightarrow> c \<notin> set k \<Longrightarrow> \<not> has_prefix (a @ c # s) (k @ [e])"
proof (induction a arbitrary: k)
  case Nil
  then show ?case by (cases k) auto
next
  case (Cons x a)
  then show ?case by (cases k) auto
qed


definition demo_results :: authResults where
  "demo_results = \<lparr>SPFResult = ''pass'', SPFDomain = ''bounce.example.org'', SPFDetail = [],
     DKIMResult = ''permerror'', DKIMDomain = [], DKIMDetail = [], DMARCResult = ''fail'',
     FromDomain = ''example.org'', DMARCDetail = []\<rparr>"


text \<open>
  The provision of the previous property is needed (finding): the HELO name is used as the SPF domain when the
  envelope sender is empty, is not checked for spaces, and a word of it such as \<open>dkim=pass\<close> is
  then read as the DKIM result of a message without any signature.
\<close>

theorem helo_forges_dkim_result:
  "let rm = demo_mail\<lparr>HELO := ''mx.example.org dkim=pass'', MailFrom := ''postmaster''\<rparr>;
       res = fst (evaluateAuthResults demo_auth rm ''From: a@example.org'' 0)
   in DKIMResult res = ''none''
      \<and> parseAuthResult (to_lower (auth_results_value ''report.example'' res)) ''dkim'' = ''pass''"
  by code_simp

text \<open>
  The relaxed alignment test at reception (finding) compares suffixes where the report compares organisational
  domains: for a bounce domain and a From domain that are siblings under one organisation the
  report says aligned and the DMARC evaluation does not; a public suffix counts as aligned with
  every domain under it.
\<close>

lemma domainAligned_not_organisational:
  "relaxedAligned (demo_env\<lparr>EffectiveTLDPlusOne := (\<lambda>d. Some ''example.org'')\<rparr>) ''bounce.example.org'' ''mail.example.org''
   \<and> \<not> domainAligned ''bounce.example.org'' ''mail.example.org'' False
   \<and> domainAligned ''org'' ''example.org'' False"
proof (intro conjI)
  show "relaxedAligned (demo_env\<lparr>EffectiveTLDPlusOne := (\<lambda>d. Some ''example.org'')\<rparr>) ''bounce.example.org'' ''mail.example.org''"
    by code_simp
  show "\<not> domainAligned ''bounce.example.org'' ''mail.example.org'' False" by code_simp
  show "domainAligned ''org'' ''example.org'' False" by code_simp
qed

subsection \<open>DMARC\<close>

text \<open>
  DMARC passes exactly when a record was found and SPF or DKIM passed for a domain aligned with the From
  domain in the mode the record asks for; without From domain or policy the result is none, and a failed lookup is an error.
\<close>

theorem evaluateDMARC_pass_iff:
  "(fst (evaluateDMARC env from spfRes spfDom dkimRes dkimDom) = ''pass'' \<longleftrightarrow>
      trim_space from \<noteq> [] \<and> (\<exists>rec. dmarc_lookup env from = Inr rec
        \<and> (spfRes = ''pass'' \<and> domainAligned spfDom from (SPFAlignment rec = ''s'')
           \<or> dkimRes = ''pass'' \<and> domainAligned dkimDom from (DKIMAlignment rec = ''s''))))
   \<and> (fst (evaluateDMARC env from spfRes spfDom dkimRes dkimDom) = ''none'' \<longleftrightarrow>
      trim_space from = [] \<or> dmarc_lookup env from = Inl ErrNoPolicy)
   \<and> (fst (evaluateDMARC env from spfRes spfDom dkimRes dkimDom) \<in> {''temperror'', ''permerror''} \<longleftrightarrow>
      trim_space from \<noteq> [] \<and> (\<exists>e. e \<noteq> ErrNoPolicy \<and> dmarc_lookup env from = Inl e))"
  by (cases "dmarc_lookup env from")
    (auto simp: evaluateDMARC_def AlignmentStrict_def Let_def split: dmarc_error.splits)

end
