(* ===== verification/Checks.thy ===== *)
theory Checks
  imports Findings Auth
begin

text \<open>
  The checks of \<open>internal/analyzer/analyzer.go\<close> and \<open>dkim_diag.go\<close> that judge authentication, DNS
  and transport, up to their wording. A check takes the environment and the counter of failed lookups and
  returns its finding and the counter.

  A message header is the map of \<open>net/mail\<close> (canonical key to values). What comes from other
  packages is a field of \<open>analyzer_env\<close>: \<open>decode_key\<close> is base64 decoding of a DKIM key followed by \<open>x509\<close>
  parsing, \<open>exchange\<close> the answer of \<open>miekg/dns\<close> to a typed question over UDP or TCP, \<open>rdap_date\<close> the
  registration date of the RDAP service, \<open>url_host\<close> the host name \<open>url.Parse\<close> finds, and \<open>dynamic_ptr\<close> the
  verdict of the regular expression \<open>dynamicPTRPattern\<close>.
\<close>

subsection \<open>Headers and helpers\<close>

type_synonym header = "gostring \<rightharpoonup> gostring list"

text \<open>\<open>textproto.CanonicalMIMEHeaderKey\<close> for the names the program asks for (letters and hyphens).\<close>

fun canonical_from :: "bool \<Rightarrow> gostring \<Rightarrow> gostring" where
  "canonical_from up [] = []"
| "canonical_from up (c # cs) = (if up then upper_char c else lower_char c) # canonical_from (c = CHR ''-'') cs"

definition canonical_key :: "gostring \<Rightarrow> gostring" where
  "canonical_key k = canonical_from True k"

definition headerValues :: "header \<Rightarrow> gostring \<Rightarrow> gostring list" where
  "headerValues h key = (case h (canonical_key key) of Some vs \<Rightarrow> vs | None \<Rightarrow> [])"

definition Get :: "header \<Rightarrow> gostring \<Rightarrow> gostring" where
  "Get h key = (case headerValues h key of v # _ \<Rightarrow> v | [] \<Rightarrow> [])"

definition orElse :: "gostring \<Rightarrow> gostring \<Rightarrow> gostring" where
  "orElse v fallback = (if v = [] then fallback else v)"

fun firstNonEmpty :: "gostring list \<Rightarrow> gostring" where
  "firstNonEmpty [] = []"
| "firstNonEmpty (v # vs) = (if trim_space v \<noteq> [] then trim_space v else firstNonEmpty vs)"

definition joinOrNone :: "gostring list \<Rightarrow> gostring" where
  "joinOrNone vs = (if vs = [] then ''none'' else join [LF] vs)"

definition domainPart :: "gostring \<Rightarrow> gostring" where
  "domainPart v0 =
     (let v = trim_space (trim_set v0 ''<>'')
      in if v = [] then []
         else (case last_index_char v (CHR ''@'') of
             None \<Rightarrow> []
           | Some k \<Rightarrow> if length v \<le> k + 1 then [] else to_lower (drop (k + 1) v)))"

datatype key_material = BadBase64 | Unparsable | NotRSA | RSA nat

datatype rr = DNSKEY | TLSA | OtherRR

datatype rcode = RcodeSuccess | RcodeNameError | RcodeOther

record dns_msg =
  Truncated :: bool
  Rcode :: rcode
  Answer :: "rr list"

record analyzer_env =
  adns :: dns_env
  decode_key :: "gostring \<Rightarrow> key_material"
  resolver_server :: gostring
  exchange :: "bool \<Rightarrow> gostring \<Rightarrow> gostring \<Rightarrow> rr \<Rightarrow> dns_msg option"
  rdap_date :: "gostring \<Rightarrow> time option"
  now :: time
  url_host :: "gostring \<Rightarrow> gostring option"
  dynamic_ptr :: "gostring \<Rightarrow> bool"

type_synonym check = "dnsFailures \<Rightarrow> finding \<times> dnsFailures"

subsection \<open>MX, A/AAAA and bounce domains\<close>

definition mxRecordCheck :: "analyzer_env \<Rightarrow> gostring \<Rightarrow> check" where
  "mxRecordCheck env domain n =
     (let d = trim_space (trim_suffix domain ''.'')
      in if d = [] then (info ''mx_records'' 0, n)
         else (case lookupMX (adns env) d n of ((mxs, st), m) \<Rightarrow>
           (if st = dnsUnavailable then unresolved ''mx_records''
            else if st = dnsAbsent then warn ''mx_records'' (fl (- 3/10))
            else withDetails (pass ''mx_records'' (fl (1/10)))
              [''domain'' \<mapsto> d,
               ''mx_records'' \<mapsto> join [LF] (map (\<lambda>mx. d @ '' MX '' @ show_nat (Pref mx) @ '' '' @ trim_suffix (Host mx) ''.'') mxs)], m)))"

definition addressRecordCheck :: "analyzer_env \<Rightarrow> gostring \<Rightarrow> check" where
  "addressRecordCheck env domain n =
     (let d = trim_space (trim_suffix domain ''.''); i = ''address_records''
      in if d = [] then (info i 0, n)
         else (case lookupIPAddr (adns env) d n of ((ips, st), m) \<Rightarrow>
           if st = dnsUnavailable then (unresolved i, m)
           else if st = dnsAbsent then
             (case lookupMX (adns env) d m of ((mxs, mxSt), k) \<Rightarrow>
               (if mxSt = dnsOK \<and> mxs \<noteq> []
                then withDetails (info i 0)
                  [''domain'' \<mapsto> d, ''mx_hosts'' \<mapsto> join [LF] (map (\<lambda>mx. trim_suffix (Host mx) ''.'') mxs)]
                else if mxSt = dnsUnavailable then unresolved i
                else withDetails (warn i (fl (- 3/10))) [''domain'' \<mapsto> d], k))
           else (withDetails (pass i (fl (1/10)))
                   [''domain'' \<mapsto> d, ''a_aaaa_records'' \<mapsto> join [LF] (map ip_string ips)], m)))"

definition envelopeBounceMXCheck :: "analyzer_env \<Rightarrow> gostring \<Rightarrow> check" where
  "envelopeBounceMXCheck env domain n =
     (let d = trim_space (trim_suffix (to_lower domain) ''.''); i = ''envelope_mx'';
          det = [''bounce_domain'' \<mapsto> d]
      in if d = [] then (info i 0, n)
         else (case lookupMX (adns env) d n of ((mxs, st), m) \<Rightarrow>
           if st = dnsUnavailable then (withDetails (unresolved i) det, m)
           else if st = dnsAbsent then
             (case lookupIPAddr (adns env) d m of ((_, ipSt), k) \<Rightarrow>
               (withDetails
                 (if ipSt = dnsUnavailable then unresolved i
                  else if ipSt = dnsOK then info i 0
                  else warn i (fl (- 5/10))) det, k))
           else (withDetails (pass i (fl (1/10))) det, m)))"

definition fromDomainReceiveCheck :: "analyzer_env \<Rightarrow> gostring \<Rightarrow> gostring \<Rightarrow> check" where
  "fromDomainReceiveCheck env from bounceDomain n =
     (let i = ''from_domain_rcv''
      in if from = [] \<or> from = bounceDomain then (info i 0, n)
         else (case lookupMX (adns env) from n of ((_, mxSt), m) \<Rightarrow>
           if mxSt = dnsOK then (pass i 0, m)
           else if mxSt = dnsUnavailable then (unresolved i, m)
           else (case lookupIPAddr (adns env) from m of ((_, ipSt), k) \<Rightarrow>
             (if ipSt = dnsUnavailable then unresolved i
              else if ipSt = dnsOK then info i 0
              else warn i (fl (- 4/10)), k))))"

subsection \<open>TXT policies\<close>

definition txtHasPrefix :: "analyzer_env \<Rightarrow> gostring \<Rightarrow> gostring \<Rightarrow> dnsFailures \<Rightarrow> (bool \<times> gostring list \<times> dnsStatus) \<times> dnsFailures" where
  "txtHasPrefix env name pre n =
     (case lookupTXT (adns env) name n of ((rs, st), m) \<Rightarrow>
        if st \<noteq> dnsOK then ((False, [], st), m)
        else ((list_ex (\<lambda>r. has_prefix (to_lower (trim_space r)) (to_lower pre)) rs, rs, dnsOK), m))"

definition policy_check :: "gostring \<Rightarrow> gostring \<Rightarrow> gostring \<Rightarrow> rat \<Rightarrow> analyzer_env \<Rightarrow> gostring \<Rightarrow> check" where
  "policy_check i label pre bonus env domain n =
     (let d = normDomain domain; name = label @ d
      in if d = [] then (info i 0, n)
         else (case txtHasPrefix env name pre n of ((ok, rs, st), m) \<Rightarrow>
           (withDetails
             (if st = dnsUnavailable then unresolved i else if ok then pass i (fl bonus) else info i 0)
             [''dns_name'' \<mapsto> name, ''txt'' \<mapsto> joinOrNone rs], m)))"

definition mtaStsCheck :: "analyzer_env \<Rightarrow> gostring \<Rightarrow> check" where
  "mtaStsCheck = policy_check ''mta_sts'' ''_mta-sts.'' ''v=STSv1'' (15/100)"

definition tlsRptCheck :: "analyzer_env \<Rightarrow> gostring \<Rightarrow> check" where
  "tlsRptCheck = policy_check ''tls_rpt'' ''_smtp._tls.'' ''v=TLSRPTv1'' (1/10)"

definition bimiCheck :: "analyzer_env \<Rightarrow> gostring \<Rightarrow> check" where
  "bimiCheck = policy_check ''bimi'' ''default._bimi.'' ''v=BIMI1'' (1/10)"

subsection \<open>DNSSEC and DANE\<close>

definition dnsRecords :: "analyzer_env \<Rightarrow> gostring \<Rightarrow> gostring \<Rightarrow> rr \<Rightarrow> rr list \<times> dnsStatus" where
  "dnsRecords env server name qtype =
     (case asciiDomain (adns env) name of
        None \<Rightarrow> ([], dnsAbsent)
      | Some ascii \<Rightarrow>
          (case exchange env False server ascii qtype of
             None \<Rightarrow> ([], dnsUnavailable)
           | Some resp \<Rightarrow>
               (case (if Truncated resp then exchange env True server ascii qtype else Some resp) of
                  None \<Rightarrow> ([], dnsUnavailable)
                | Some r \<Rightarrow>
                    (case Rcode r of
                       RcodeSuccess \<Rightarrow> if Answer r = [] then ([], dnsAbsent) else (Answer r, dnsOK)
                     | RcodeNameError \<Rightarrow> ([], dnsAbsent)
                     | RcodeOther \<Rightarrow> ([], dnsUnavailable)))))"

definition dnssecCheck :: "analyzer_env \<Rightarrow> gostring \<Rightarrow> check" where
  "dnssecCheck env domain n =
     (let d = normDomain domain; i = ''dnssec''; server = resolver_server env
      in if d = [] \<or> server = [] then (info i 0, n)
         else (case dnsRecords env server d DNSKEY of (ans, st) \<Rightarrow>
           (if st = dnsUnavailable then unresolved i
            else withDetails (if DNSKEY \<in> set ans then pass i (fl (1/10)) else info i 0)
              [''domain'' \<mapsto> d, ''dnskey_records'' \<mapsto> show_nat (length ans)], n)))"

definition daneCheck :: "analyzer_env \<Rightarrow> gostring \<Rightarrow> check" where
  "daneCheck env domain n =
     (let d = normDomain domain; i = ''dane_tlsa''; server = resolver_server env
      in if d = [] \<or> server = [] then (info i 0, n)
         else (case lookupMX (adns env) d n of ((mxs, mxSt), m) \<Rightarrow>
           if mxSt = dnsUnavailable then (unresolved i, m)
           else if mxSt = dnsAbsent then (withDetails (info i 0) [''domain'' \<mapsto> d], m)
           else (let host = trim_suffix (Host (hd mxs)) ''.''; name = ''_25._tcp.'' @ host
                 in case dnsRecords env server name TLSA of (ans, st) \<Rightarrow>
                   (if st = dnsUnavailable then unresolved i
                    else withDetails (if TLSA \<in> set ans then pass i (fl (1/10)) else info i 0)
                      [''mx_host'' \<mapsto> host, ''tlsa_name'' \<mapsto> name, ''tlsa_records'' \<mapsto> show_nat (length ans)], m))))"

subsection \<open>Reverse DNS and blocklists\<close>

definition ptrPatternCheck :: "analyzer_env \<Rightarrow> gostring \<Rightarrow> check" where
  "ptrPatternCheck env ip0 n =
     (let ip = trim_space ip0; i = ''ptr_pattern''
      in if ip = [] \<or> ParseIP ip = None then (info i 0, n)
         else (case lookupAddr (adns env) ip n of ((names, st), m) \<Rightarrow>
           (if st = dnsUnavailable then unresolved i
            else if st = dnsAbsent then info i 0
            else (let host = trim_suffix (to_lower (hd names)) ''.''
                  in withDetails (if dynamic_ptr env host then warn i (fl (- 6/10)) else pass i (fl (1/10)))
                       [''remote_ip'' \<mapsto> ip, ''ptr_hostname'' \<mapsto> host]), m)))"

definition ptrPlausibility :: "analyzer_env \<Rightarrow> gostring \<Rightarrow> gostring \<Rightarrow> check" where
  "ptrPlausibility env ip ehlo n =
     (let i = ''ptr''
      in case ParseIP (trim_space ip) of
           None \<Rightarrow> (warn i (fl (- 4/10)), n)
         | Some parsed \<Rightarrow>
             (case lookupAddr (adns env) (ip_string parsed) n of ((ptr, ptrSt), m) \<Rightarrow>
               if ptrSt = dnsUnavailable then (unresolved i, m)
               else if ptrSt = dnsAbsent then (fail i (- 1), m)
               else (let host = trim_suffix (to_lower (hd ptr)) ''.''
                     in case lookupHost (adns env) host m of ((fwd, fwdSt), k) \<Rightarrow>
                       (if fwdSt = dnsUnavailable then unresolved i
                        else if fwdSt = dnsAbsent then warn i (fl (- 5/10))
                        else if ip_string parsed \<in> set fwd then
                          (if ehlo \<noteq> [] \<and> \<not> equal_fold host (trim_suffix (to_lower (trim_space ehlo)) ''.'')
                           then warn i (fl (- 4/10)) else pass i (fl (2/10)))
                        else warn i (fl (- 4/10)), k))))"

definition rblQueryRefusal :: "gostring list \<Rightarrow> bool" where
  "rblQueryRefusal ips = list_ex (\<lambda>ip. has_prefix ip ''127.255.255.'' \<or> ip = ''127.0.0.1'') ips"

definition dnsblListed :: "analyzer_env \<Rightarrow> gostring \<Rightarrow> gostring \<Rightarrow> dnsFailures \<Rightarrow> (bool \<times> dnsStatus) \<times> dnsFailures" where
  "dnsblListed env name provider n =
     (case lookupHost (adns env) (name @ ''.'' @ provider) n of ((ips, st), m) \<Rightarrow>
        (if st = dnsAbsent then (False, dnsOK)
         else if st = dnsUnavailable then (False, dnsUnavailable)
         else if rblQueryRefusal ips then (False, dnsUnavailable)
         else (list_ex (\<lambda>ip. has_prefix ip ''127.0.'') ips, dnsOK), m))"

text \<open>The loop over the providers: how many answered, and the entries for those that list the name.\<close>

fun dnsbl_loop :: "analyzer_env \<Rightarrow> gostring \<Rightarrow> gostring list \<Rightarrow> dnsFailures \<Rightarrow> (nat \<times> gostring list) \<times> dnsFailures" where
  "dnsbl_loop env name [] n = ((0, []), n)"
| "dnsbl_loop env name (p # ps) n =
     (if trim_space p = [] then dnsbl_loop env name ps n
      else (case dnsblListed env name (trim_space p) n of ((hit, st), m) \<Rightarrow>
        (case dnsbl_loop env name ps m of ((nans, listed), k) \<Rightarrow>
          if st \<noteq> dnsOK then ((nans, listed), k)
          else ((nans + 1, if hit then trim_space p # listed else listed), k))))"

definition domainBlocklistCheck :: "analyzer_env \<Rightarrow> gostring \<Rightarrow> gostring list \<Rightarrow> check" where
  "domainBlocklistCheck env domain providers n =
     (let reg = registrableDomain (adns env) domain; i = ''domain_blocklist''
      in if reg = [] \<or> providers = [] then (info i 0, n)
         else (case dnsbl_loop env reg providers n of ((nans, listed), m) \<Rightarrow>
           (let checked = filter (\<lambda>p. p \<noteq> []) (map trim_space providers)
            in withDetails
                 (if listed \<noteq> [] then fail i (fl (- 15/10)) else if nans = 0 then info i 0 else pass i (fl (2/10)))
                 [''domain'' \<mapsto> reg, ''checked_providers'' \<mapsto> join [LF] checked, ''listed_on'' \<mapsto> joinOrNone listed,
                  ''beantwortet'' \<mapsto> show_nat nans @ '' von '' @ show_nat (length checked)], m)))"

text \<open>
  The link domains are a Go map: \<open>order\<close> is the order in which its iteration visits them. At most
  twenty are asked about.
\<close>

definition link_domains :: "analyzer_env \<Rightarrow> gostring list \<Rightarrow> gostring list" where
  "link_domains env links =
     dedupe_from [] (map (\<lambda>l. case url_host env l of Some h \<Rightarrow> registrableDomain (adns env) h | None \<Rightarrow> []) links)"

fun links_loop :: "analyzer_env \<Rightarrow> gostring list \<Rightarrow> gostring list \<Rightarrow> dnsFailures \<Rightarrow> (nat \<times> gostring list) \<times> dnsFailures" where
  "links_loop env providers [] n = ((0, []), n)"
| "links_loop env providers (d # ds) n =
     (case dnsbl_loop env d providers n of ((a, ls), m) \<Rightarrow>
      (case links_loop env providers ds m of ((b, ms), k) \<Rightarrow>
        ((a + b, map (\<lambda>p. d @ '' ('' @ p @ '')'') ls @ ms), k)))"

definition linkBlocklistCheck :: "analyzer_env \<Rightarrow> (gostring list \<Rightarrow> gostring list) \<Rightarrow> gostring list \<Rightarrow> gostring list \<Rightarrow> check" where
  "linkBlocklistCheck env order links providers n =
     (let i = ''link_blocklist''; doms = order (link_domains env links)
      in if providers = [] \<or> doms = [] then (info i 0, n)
         else (case links_loop env providers (take 20 doms) n of ((nans, listed), m) \<Rightarrow>
           (withDetails
             (if listed \<noteq> [] then fail i (fl (- 12/10)) else if nans = 0 then info i 0 else pass i (fl (1/10)))
             [''link_domains_checked'' \<mapsto> show_nat (length doms), ''listed'' \<mapsto> joinOrNone listed,
              ''beantwortete_abfragen'' \<mapsto> show_nat nans], m)))"

text \<open>The outcome of the blocklist check of the sending address, without the details.\<close>

fun rbl_loop :: "analyzer_env \<Rightarrow> gostring \<Rightarrow> gostring list \<Rightarrow> nat \<times> nat" where
  "rbl_loop env queryIP [] = (0, 0)"
| "rbl_loop env queryIP (p # ps) =
     (case rbl_loop env queryIP ps of (nans, listed) \<Rightarrow>
        if trim_space p = [] then (nans, listed)
        else (case LookupHost (adns env) (queryIP @ ''.'' @ trim_space p) of
            (ips, Some e) \<Rightarrow> if e = DNSError True then (nans + 1, listed) else (nans, listed)
          | (ips, None) \<Rightarrow>
              if ips = [] then (nans + 1, listed)
              else if rblQueryRefusal ips then (nans, listed)
              else (nans + 1, listed + 1)))"

definition rblHeuristics :: "analyzer_env \<Rightarrow> gostring \<Rightarrow> gostring list \<Rightarrow> finding" where
  "rblHeuristics env ipText providers =
     (let i = ''rbl''
      in if providers = [] then info i 0
         else (case (case ParseIP ipText of Some ip \<Rightarrow> to4 ip | None \<Rightarrow> None) of
             None \<Rightarrow> info i 0
           | Some a \<Rightarrow>
               (case rbl_loop env (join ''.'' (rev (map show_int (octets a)))) providers of (nans, listed) \<Rightarrow>
                  if 0 < listed
                  then (if 3 \<le> listed then fail i (- 3) else if 2 \<le> listed then fail i (fl (- 22/10)) else warn i (fl (- 13/10)))
                  else if nans = 0 then info i 0
                  else pass i (fl (1/10)))))"

subsection \<open>Domain age\<close>

text \<open>\<open>time.Duration.Hours\<close>.\<close>

definition Hours :: "duration \<Rightarrow> float64" where
  "Hours d = (let t = (if 0 \<le> d then d else - d); sg = (if 0 \<le> d then 1 else - 1)
     in fadd (of_int (sg * (t div hour))) (fdiv (fl (of_int (sg * (t mod hour)))) (of_int hour)))"

definition age_delta :: "int \<Rightarrow> float64" where
  "age_delta ageDays =
     (if ageDays < 365
      then (let f = fl (1 - fdiv (of_int ageDays) 365); d = fmul (fmul (- 2) f) f
            in fdiv (of_int (to_int (fmul d 100))) 100)
      else 0)"

definition domainAgeCheck :: "analyzer_env \<Rightarrow> gostring \<Rightarrow> finding" where
  "domainAgeCheck env domain =
     (let reg = registrableDomain (adns env) domain; i = ''domain_age''
      in if reg = [] then info i 0
         else (case rdap_date env reg of
             None \<Rightarrow> info i 0
           | Some created \<Rightarrow>
               (let delta = age_delta (to_int (fdiv (Hours (now env - created)) 24))
                in finding_of i (if delta \<le> - 1 then ''fail'' else if delta < 0 then ''warn'' else ''pass'') delta)))"

subsection \<open>The contract of a DNS check\<close>

lemma classified_lookup:
  "lookupMX env name n = ((mxs, st), m) \<Longrightarrow> m = (if st = dnsUnavailable then n + 1 else n)"
  "lookupIPAddr env name n = ((ips, st), m) \<Longrightarrow> m = (if st = dnsUnavailable then n + 1 else n)"
  "lookupHost env name n = ((hosts, st), m) \<Longrightarrow> m = (if st = dnsUnavailable then n + 1 else n)"
  "lookupAddr env name n = ((names, st), m) \<Longrightarrow> m = (if st = dnsUnavailable then n + 1 else n)"
  by (auto simp: lookupMX_def lookupIPAddr_def lookupHost_def lookupAddr_def split: option.splits if_splits
      dest: classified_failures)

lemmas lookup_failures = lookupTXT_failures classified_lookup

text \<open>
  What a check promises about an outage: when a question it asked was not answered (the failure counter
  moved), it claims nothing, neither present nor missing.
\<close>

locale dns_check =
  fixes check :: check
  assumes outage: "check n = (c, m) \<Longrightarrow> m \<noteq> n \<Longrightarrow>
    finding.Status c = ''info'' \<and> ScoreDelta c = 0 \<and> detail c recheckPendingDetailKey = []"
begin

lemma outage_neutral: "check n = (c, m) \<Longrightarrow> m \<noteq> n \<Longrightarrow> ScoreDelta (enrichCheckResult c) = 0"
  using outage by (auto simp: enrichCheckResult_def scoreFor_def Let_def)

lemma outage_claims_nothing:
  "\<forall>n c m. check n = (c, m) \<and> m \<noteq> n \<longrightarrow> finding.Status c = ''info'' \<and> ScoreDelta (enrichCheckResult c) = 0"
  using outage outage_neutral by auto

end

lemmas check_simps = finding_defs withDetails_def unresolved_def unresolvedDetailKey_def detail_def
  recheckPendingDetailKey_def Let_def

interpretation mx: dns_check "mxRecordCheck env d"
  by unfold_locales
    (auto simp: mxRecordCheck_def check_simps split: prod.splits if_splits dest!: lookup_failures)

interpretation address: dns_check "addressRecordCheck env d"
  by unfold_locales
    (auto simp: addressRecordCheck_def check_simps split: prod.splits if_splits dest!: lookup_failures)

interpretation bounce: dns_check "envelopeBounceMXCheck env d"
  by unfold_locales
    (auto simp: envelopeBounceMXCheck_def check_simps split: prod.splits if_splits dest!: lookup_failures)

interpretation from_rcv: dns_check "fromDomainReceiveCheck env d b"
  by unfold_locales
    (auto simp: fromDomainReceiveCheck_def check_simps split: prod.splits if_splits dest!: lookup_failures)

lemma policy_check_outage:
  assumes "policy_check i label pre bonus env d n = (c, m)" "m \<noteq> n"
  shows "finding.Status c = ''info'' \<and> ScoreDelta c = 0 \<and> detail c recheckPendingDetailKey = []"
  using assms
  by (auto simp: policy_check_def txtHasPrefix_def check_simps split: prod.splits if_splits dest!: lookup_failures)

interpretation mta_sts: dns_check "mtaStsCheck env d"
  by unfold_locales (auto simp: mtaStsCheck_def dest: policy_check_outage)

interpretation tls_rpt: dns_check "tlsRptCheck env d"
  by unfold_locales (auto simp: tlsRptCheck_def dest: policy_check_outage)

interpretation bimi: dns_check "bimiCheck env d"
  by unfold_locales (auto simp: bimiCheck_def dest: policy_check_outage)

interpretation dnssec: dns_check "dnssecCheck env d"
  by unfold_locales (auto simp: dnssecCheck_def check_simps split: prod.splits if_splits)

interpretation dane: dns_check "daneCheck env d"
  by unfold_locales
    (auto simp: daneCheck_def check_simps split: prod.splits if_splits dest!: lookup_failures)

interpretation ptr_pattern: dns_check "ptrPatternCheck env ip"
  by unfold_locales
    (auto simp: ptrPatternCheck_def check_simps split: prod.splits if_splits dest!: lookup_failures)

interpretation ptr: dns_check "ptrPlausibility env ip ehlo"
  by unfold_locales
    (auto simp: ptrPlausibility_def check_simps split: prod.splits if_splits option.splits dest!: lookup_failures)

end
