(* ===== verification/SealedBox.thy ===== *)
theory SealedBox
  imports Go_Strings Net_IP
begin

text \<open>
  The sealed box of \<open>internal/sealedbox/sealedbox.go\<close> that encrypts a mailbox's contents, with the text encodings around it
  (hexadecimal keys, base32 identifiers, base64url payloads).

  Byte slices are \<open>gostring\<close>s. X25519, HKDF, AES-GCM and SHA-256 are library code: the record \<open>crypto\<close> holds them, and
  \<open>crypto_ok\<close> says what Seal and Open rely on. Random bytes are arguments; \<open>None\<close> is a failing random source.
\<close>

subsection \<open>Encodings\<close>

definition bits8 :: "char \<Rightarrow> bool list" where
  "bits8 c = map (\<lambda>i. odd ((of_char c :: int) div 2 ^ i)) [7, 6, 5, 4, 3, 2, 1, 0]"

definition bits_val :: "bool list \<Rightarrow> nat" where
  "bits_val bs = fold (\<lambda>b n. 2 * n + (if b then 1 else 0)) bs 0"

text \<open>Groups of \<open>k\<close> bits, the last one filled up with zeros; no padding characters.\<close>

fun encode_groups :: "nat \<Rightarrow> gostring \<Rightarrow> bool list \<Rightarrow> gostring" where
  "encode_groups k alphabet [] = []"
| "encode_groups k alphabet (b # bs) =
     alphabet ! bits_val (take k (b # bs) @ replicate (k - length (b # bs)) False)
     # encode_groups k alphabet (drop (k - 1) bs)"

definition base32_std :: gostring where "base32_std = ''ABCDEFGHIJKLMNOPQRSTUVWXYZ234567''"

definition base64_url :: gostring where
  "base64_url = ''ABCDEFGHIJKLMNOPQRSTUVWXYZabcdefghijklmnopqrstuvwxyz0123456789-_''"

definition base32_encode :: "gostring \<Rightarrow> gostring" where
  "base32_encode s = encode_groups 5 base32_std (concat (map bits8 s))"

definition base64url_encode :: "gostring \<Rightarrow> gostring" where
  "base64url_encode s = encode_groups 6 base64_url (concat (map bits8 s))"

text \<open>The bits of a digit, and the bytes that a list of bits consists of.\<close>

definition bits_of :: "nat \<Rightarrow> nat \<Rightarrow> bool list" where
  "bits_of k v = map (\<lambda>i. odd (v div 2 ^ (k - 1 - i))) [0..<k]"

fun bytes_of :: "nat \<Rightarrow> bool list \<Rightarrow> gostring" where
  "bytes_of 0 bs = []"
| "bytes_of (Suc n) bs = char_of (bits_val (take 8 bs)) # bytes_of n (drop 8 bs)"

text \<open>\<open>hex.DecodeString\<close>: \<open>None\<close> for a character that is no hexadecimal digit and for an odd length.\<close>

fun hex_decode :: "gostring \<Rightarrow> gostring option" where
  "hex_decode [] = Some []"
| "hex_decode [c] = None"
| "hex_decode (c # e # cs) =
     (case (hex_val c, hex_val e, hex_decode cs) of
        (Some x, Some y, Some r) \<Rightarrow> Some (char_of (16 * x + y) # r)
      | _ \<Rightarrow> None)"

subsection \<open>The scheme\<close>

record crypto =
  X25519 :: "gostring \<Rightarrow> gostring \<Rightarrow> gostring option"
  HKDF :: "gostring \<Rightarrow> gostring \<Rightarrow> gostring \<Rightarrow> gostring"
  gcm_seal :: "gostring \<Rightarrow> gostring \<Rightarrow> gostring \<Rightarrow> gostring \<Rightarrow> gostring"
  gcm_open :: "gostring \<Rightarrow> gostring \<Rightarrow> gostring \<Rightarrow> gostring \<Rightarrow> gostring option"
  Sum256 :: "gostring \<Rightarrow> gostring"

datatype box_error = ErrBadKeySize | ErrBadBlob | ErrOpenFailed | ErrRandom | ErrCurve

definition magic :: gostring where "magic = ''MPE1''"
definition hkdfInfo :: gostring where "hkdfInfo = ''senderreport-content-v1''"
definition identDomain :: gostring where "identDomain = ''senderreport-id-v1''"
definition keySize :: nat where "keySize = 32"
definition nonceSize :: nat where "nonceSize = 12"
definition tagSize :: nat where "tagSize = 16"
definition identLen :: nat where "identLen = 10"

lemmas box_sizes = keySize_def nonceSize_def tagSize_def identLen_def magic_def

text \<open>\<open>curve25519.Basepoint\<close>: the point 9, little endian.\<close>

definition Basepoint :: gostring where "Basepoint = CHR 0x09 # replicate 31 (CHR 0x00)"

definition GenerateKeyPair :: "crypto \<Rightarrow> gostring option \<Rightarrow> box_error + gostring \<times> gostring" where
  "GenerateKeyPair cr rnd =
     (case rnd of None \<Rightarrow> Inl ErrRandom
      | Some secret \<Rightarrow> (case X25519 cr secret Basepoint of None \<Rightarrow> Inl ErrCurve | Some pub \<Rightarrow> Inr (secret, pub)))"

definition PublicFromSecret :: "crypto \<Rightarrow> gostring \<Rightarrow> box_error + gostring" where
  "PublicFromSecret cr secret =
     (if length secret \<noteq> keySize then Inl ErrBadKeySize
      else (case X25519 cr secret Basepoint of None \<Rightarrow> Inl ErrCurve | Some pub \<Rightarrow> Inr pub))"

definition box_toLower :: "gostring \<Rightarrow> gostring" where
  "box_toLower s = map (\<lambda>c. if 65 \<le> (of_char c :: int) \<and> (of_char c :: int) \<le> 90 then char_of ((of_char c :: int) + 32) else c) s"

definition Identifier :: "crypto \<Rightarrow> gostring \<Rightarrow> gostring" where
  "Identifier cr pub = box_toLower (base32_encode (take identLen (Sum256 cr (identDomain @ pub))))"

definition deriveKey :: "crypto \<Rightarrow> gostring \<Rightarrow> gostring \<Rightarrow> gostring \<Rightarrow> gostring" where
  "deriveKey cr shared ephPublic recipientPublic = HKDF cr shared (ephPublic @ recipientPublic) hkdfInfo"

definition sealWithEphemeral :: "crypto \<Rightarrow> gostring \<Rightarrow> gostring \<Rightarrow> gostring \<Rightarrow> gostring option \<Rightarrow> box_error + gostring" where
  "sealWithEphemeral cr plaintext recipientPublic ephSecret rndNonce =
     (if length recipientPublic \<noteq> keySize \<or> length ephSecret \<noteq> keySize then Inl ErrBadKeySize
      else case X25519 cr ephSecret Basepoint of None \<Rightarrow> Inl ErrCurve | Some ephPublic \<Rightarrow>
      (case X25519 cr ephSecret recipientPublic of None \<Rightarrow> Inl ErrCurve | Some shared \<Rightarrow>
       (case rndNonce of None \<Rightarrow> Inl ErrRandom | Some nonce \<Rightarrow>
          Inr (magic @ ephPublic @ nonce
               @ gcm_seal cr (deriveKey cr shared ephPublic recipientPublic) nonce plaintext ephPublic))))"

definition Seal :: "crypto \<Rightarrow> gostring \<Rightarrow> gostring \<Rightarrow> gostring option \<Rightarrow> gostring option \<Rightarrow> box_error + gostring" where
  "Seal cr plaintext recipientPublic rndSecret rndNonce =
     (if length recipientPublic \<noteq> keySize then Inl ErrBadKeySize
      else case rndSecret of None \<Rightarrow> Inl ErrRandom
        | Some ephSecret \<Rightarrow> sealWithEphemeral cr plaintext recipientPublic ephSecret rndNonce)"

definition Open :: "crypto \<Rightarrow> gostring \<Rightarrow> gostring \<Rightarrow> box_error + gostring" where
  "Open cr blob recipientSecret =
     (if length recipientSecret \<noteq> keySize then Inl ErrBadKeySize
      else if length blob < length magic + keySize + nonceSize + tagSize then Inl ErrBadBlob
      else if take (length magic) blob \<noteq> magic then Inl ErrBadBlob
      else let ephPublic = take keySize (drop (length magic) blob);
               nonce = take nonceSize (drop (length magic + keySize) blob);
               ct = drop (length magic + keySize + nonceSize) blob
           in case X25519 cr recipientSecret Basepoint of None \<Rightarrow> Inl ErrCurve | Some recipientPublic \<Rightarrow>
              (case X25519 cr recipientSecret ephPublic of None \<Rightarrow> Inl ErrCurve | Some shared \<Rightarrow>
               (case gcm_open cr (deriveKey cr shared ephPublic recipientPublic) nonce ct ephPublic of
                  None \<Rightarrow> Inl ErrOpenFailed | Some pt \<Rightarrow> Inr pt)))"

subsection \<open>What the primitives promise\<close>

text \<open>
  The contract of the primitives: a successful X25519 has 32 bytes, Diffie--Hellman commutes, AES-GCM opens what it
  sealed under the same key, nonce and additional data, and its output carries a tag of 16 bytes.
\<close>

definition crypto_ok :: "crypto \<Rightarrow> bool" where
  "crypto_ok cr \<longleftrightarrow>
     (\<forall>s p q. X25519 cr s p = Some q \<longrightarrow> length q = 32)
     \<and> (\<forall>r e pub eph shared. X25519 cr r Basepoint = Some pub \<longrightarrow> X25519 cr e Basepoint = Some eph
          \<longrightarrow> X25519 cr e pub = Some shared \<longrightarrow> X25519 cr r eph = Some shared)
     \<and> (\<forall>k n pt aad. gcm_open cr k n (gcm_seal cr k n pt aad) aad = Some pt)
     \<and> (\<forall>k n pt aad. length (gcm_seal cr k n pt aad) = length pt + 16)"

lemma crypto_okD:
  assumes "crypto_ok cr"
  shows "X25519 cr s p = Some q \<Longrightarrow> length q = 32"
    "X25519 cr r Basepoint = Some pub \<Longrightarrow> X25519 cr e Basepoint = Some eph \<Longrightarrow> X25519 cr e pub = Some shared
      \<Longrightarrow> X25519 cr r eph = Some shared"
    "gcm_open cr k n (gcm_seal cr k n pt aad) aad = Some pt"
    "length (gcm_seal cr k n pt aad) = length pt + 16"
  using assms unfolding crypto_ok_def by blast+

lemma Seal_blob:
  assumes "Seal cr pt pub (Some e) (Some nonce) = Inr blob"
  obtains eph shared where "X25519 cr e Basepoint = Some eph" "X25519 cr e pub = Some shared"
    "blob = magic @ eph @ nonce @ gcm_seal cr (deriveKey cr shared eph pub) nonce pt eph"
  using assms by (auto simp: Seal_def sealWithEphemeral_def split: if_splits option.splits)

subsection \<open>A concrete instance\<close>

text \<open>
  Byte strings of length 32 under bytewise addition are a commutative group, which is all the scheme asks of the curve;
  the instance shows that the contract can be met, not that it is secure.
\<close>

definition add_bytes :: "gostring \<Rightarrow> gostring \<Rightarrow> gostring" where
  "add_bytes s p = map2 (\<lambda>a b. char_of ((of_char a + of_char b) :: nat)) s p"

definition demo_crypto :: crypto where
  "demo_crypto = \<lparr>X25519 = (\<lambda>s p. if length s = 32 \<and> length p = 32 then Some (add_bytes s p) else None),
     HKDF = (\<lambda>ikm salt purpose. take 32 ikm), gcm_seal = (\<lambda>k n pt aad. pt @ replicate 16 (CHR 0x00)),
     gcm_open = (\<lambda>k n ct aad. if length ct < 16 then None else Some (take (length ct - 16) ct)),
     Sum256 = (\<lambda>s. take 32 (s @ replicate 32 (CHR 0x00)))\<rparr>"

lemma add_bytes_left_commute: "add_bytes r (add_bytes e p) = add_bytes e (add_bytes r p)"
  unfolding add_bytes_def
proof (induction r arbitrary: e p)
  case (Cons a r)
  show ?case
  proof (cases e)
    case (Cons b e')
    show ?thesis
    proof (cases p)
      case (Cons c p')
      have "(of_char a + (of_char b + of_char c) mod 256) mod 256 = (of_char b + (of_char a + of_char c) mod 256) mod (256 :: nat)"
        by (simp add: mod_simps ac_simps)
      with Cons.IH Cons \<open>e = b # e'\<close> show ?thesis by (simp add: char_of_eq_iff take_bit_eq_mod)
    qed simp
  qed simp
qed simp

lemma demo_crypto_ok: "crypto_ok demo_crypto"
  by (auto simp: crypto_ok_def demo_crypto_def add_bytes_left_commute split: if_splits) (simp_all add: add_bytes_def)

subsection \<open>What is sealed can be opened\<close>

lemma open_seal:
  assumes "crypto_ok cr" "PublicFromSecret cr r = Inr pub" "Seal cr pt pub (Some e) (Some nonce) = Inr blob" "length nonce = nonceSize"
  shows "Open cr blob r = Inr pt"
proof -
  from assms(2) have r: "length r = 32" "X25519 cr r Basepoint = Some pub"
    by (auto simp: PublicFromSecret_def keySize_def split: if_splits option.splits)
  obtain eph shared where *: "X25519 cr e Basepoint = Some eph" "X25519 cr e pub = Some shared"
    and blob: "blob = magic @ eph @ nonce @ gcm_seal cr (deriveKey cr shared eph pub) nonce pt eph"
    using assms(3) by (rule Seal_blob)
  have "length eph = 32" using crypto_okD(1) [OF assms(1) *(1)] .
  with assms(4) blob have parts:
    "\<not> length blob < length magic + keySize + nonceSize + tagSize" "take (length magic) blob = magic"
    "take keySize (drop (length magic) blob) = eph" "take nonceSize (drop (length magic + keySize) blob) = nonce"
    "drop (length magic + keySize + nonceSize) blob = gcm_seal cr (deriveKey cr shared eph pub) nonce pt eph"
    by (simp_all add: box_sizes crypto_okD(4) [OF assms(1)])
  show ?thesis
    using r parts crypto_okD(2) [OF assms(1) r(2) *] crypto_okD(3) [OF assms(1)] by (simp add: Open_def Let_def keySize_def)
qed

text \<open>
  C19: The holder of a mailbox's secret key can read what the server sealed for it: for every plaintext, key pair and ephemeral
  key, whenever \<open>Seal\<close> under the public key succeeds, \<open>Open\<close> under the secret key gives the plaintext back.
\<close>

theorem Open_Seal:
  assumes "crypto_ok cr" "PublicFromSecret cr r = Inr pub" "Seal cr pt pub (Some e) (Some nonce) = Inr blob" "length nonce = nonceSize"
  shows "Open cr blob r = Inr pt"
  using assms by (rule open_seal)

theorem Open_Seal_witness:
  "\<exists>pub blob. PublicFromSecret demo_crypto (replicate 32 (CHR ''s'')) = Inr pub
     \<and> Seal demo_crypto ''report'' pub (Some (replicate 32 (CHR ''e''))) (Some (replicate 12 (CHR ''n''))) = Inr blob
     \<and> Open demo_crypto blob (replicate 32 (CHR ''s'')) = Inr ''report''"
proof -
  obtain pub where p: "PublicFromSecret demo_crypto (replicate 32 (CHR ''s'')) = Inr pub"
    by (simp add: PublicFromSecret_def demo_crypto_def keySize_def Basepoint_def)
  then have "length pub = 32" by (auto simp: PublicFromSecret_def demo_crypto_def keySize_def Basepoint_def add_bytes_def)
  then obtain blob where b: "Seal demo_crypto ''report'' pub (Some (replicate 32 (CHR ''e''))) (Some (replicate 12 (CHR ''n''))) = Inr blob"
    by (simp add: Seal_def sealWithEphemeral_def demo_crypto_def keySize_def Basepoint_def)
  from Open_Seal [OF demo_crypto_ok p b] p b show ?thesis by (auto simp: nonceSize_def)
qed

subsection \<open>Identifiers\<close>

lemma bits_val_less: "bits_val bs < 2 ^ length bs"
proof -
  have "fold (\<lambda>b n. 2 * n + (if b then 1 else 0)) bs m < (m + 1) * 2 ^ length bs" for m :: nat
  proof (induction bs arbitrary: m)
    case (Cons b bs)
    have "(2 * m + (if b then 1 else 0) + 1) * 2 ^ length bs \<le> (m + 1) * 2 ^ length (b # bs)" by (simp add: algebra_simps)
    with Cons.IH [of "2 * m + (if b then 1 else 0)"] show ?case by (simp add: order_less_le_trans)
  qed simp
  from this [of 0] show ?thesis by (simp add: bits_val_def)
qed

lemma encode_groups_alphabet:
  assumes "0 < k" "length alphabet = 2 ^ k"
  shows "set (encode_groups k alphabet bs) \<subseteq> set alphabet"
  using assms
proof (induction k alphabet bs rule: encode_groups.induct)
  case (2 k alphabet b bs)
  let ?g = "take k (b # bs) @ replicate (k - length (b # bs)) False"
  have "length ?g = k" by (simp add: min_def)
  with bits_val_less [of ?g] 2 have "bits_val ?g < length alphabet" by simp
  then have "alphabet ! bits_val ?g \<in> set alphabet" by (rule nth_mem)
  with 2 show ?case by simp
qed simp

lemma encode_groups_length: "0 < k \<Longrightarrow> length (encode_groups k alphabet bs) = (length bs + k - 1) div k"
proof (induction k alphabet bs rule: encode_groups.induct)
  case (2 k alphabet b bs)
  show ?case
  proof (cases "length bs < k")
    case True
    have "length (b # bs) + k - 1 = k + length bs" using 2(2) by simp
    with True have "(length (b # bs) + k - 1) div k = 1" using div_add_self2 [of k "length bs"] 2(2) by simp
    moreover have "drop (k - 1) bs = []" using True 2(2) by auto
    ultimately show ?thesis by simp
  next
    case False
    have "length (b # bs) + k - 1 = (length (drop (k - 1) bs) + k - 1) + k" using False 2(2) by simp
    then have "(length (b # bs) + k - 1) div k = (length (drop (k - 1) bs) + k - 1) div k + 1"
      using div_add_self2 [of k "length (drop (k - 1) bs) + k - 1"] 2(2) by (simp only:)
    then show ?thesis using 2(1) [OF 2(2)] by (simp only: encode_groups.simps list.size)
  qed
qed simp

lemma concat_bits_length: "length (concat (map bits8 s)) = 8 * length s"
  by (induction s) (simp_all add: bits8_def)

text \<open>
  A mailbox identifier is always sixteen characters from a to z and 2 to 7, whatever the public key: it can stand
  as the local part of an address and as a path segment without quoting, and lower-casing an address does not change it.
\<close>

theorem Identifier_shape:
  assumes "\<And>s. length (Sum256 cr s) = 32"
  shows "length (Identifier cr pub) = 16
    \<and> set (Identifier cr pub) \<subseteq> set ''abcdefghijklmnopqrstuvwxyz234567''
    \<and> to_lower (Identifier cr pub) = Identifier cr pub"
proof -
  let ?e = "base32_encode (take identLen (Sum256 cr (identDomain @ pub)))"
  have len: "length ?e = 16" by (simp add: base32_encode_def encode_groups_length concat_bits_length identLen_def assms)
  have alpha: "set ?e \<subseteq> set base32_std" unfolding base32_encode_def by (intro encode_groups_alphabet) (simp_all add: base32_std_def)
  have low: "list_all (\<lambda>c. set (box_toLower [c]) \<subseteq> set ''abcdefghijklmnopqrstuvwxyz234567'') base32_std"
    "list_all (\<lambda>c. lower_char c = c) ''abcdefghijklmnopqrstuvwxyz234567''" by code_simp+
  have sub: "set (Identifier cr pub) \<subseteq> set ''abcdefghijklmnopqrstuvwxyz234567''"
  proof
    fix c assume "c \<in> set (Identifier cr pub)"
    then obtain c' where c': "c' \<in> set ?e" "c \<in> set (box_toLower [c'])" by (auto simp: Identifier_def box_toLower_def)
    then have "c' \<in> set base32_std" using alpha by blast
    with low(1) c'(2) show "c \<in> set ''abcdefghijklmnopqrstuvwxyz234567''" unfolding list_all_iff by blast
  qed
  have "map lower_char (Identifier cr pub) = Identifier cr pub"
    using sub low(2) unfolding list_all_iff by (intro map_idI) blast
  with len sub show ?thesis by (simp add: Identifier_def box_toLower_def to_lower_def)
qed

theorem Identifier_shape_witness:
  "length (Identifier demo_crypto ''key'') = 16 \<and> to_lower (Identifier demo_crypto ''key'') = Identifier demo_crypto ''key''"
  using Identifier_shape [of demo_crypto "''key''"] by (simp add: demo_crypto_def)

end
