(* ===== verification/Content.thy ===== *)
theory Content
  imports Checks Regex SealedBox "HOL-Library.List_Lexorder" "HOL-Library.Char_ord"
begin

text \<open>
  The checks of \<open>internal/analyzer/analyzer.go\<close> that look at the content of a message: MIME structure, HTML, links, subject, header fields and
  the marks of a newsletter, up to their wording.

  What comes from other packages is a field of \<open>content_env\<close>: the HTML parser and the public suffix list (\<open>golang.org/x/net\<close>), the parsers of
  \<open>net/url\<close>, \<open>net/mail\<close>, \<open>mime\<close> and \<open>mime/multipart\<close>, the Unicode tables beyond ASCII, \<open>strconv.Quote\<close>, and the HTTP client. \<open>ParseMediaType\<close> gives the
  media type, the parameters and whether there was an error. A part of a multipart body is its header, its content, whether reading it
  ends in an error, and its file name. \<open>probe\<close> is one request with the redirects that the client follows; \<open>None\<close> is a transport error.
\<close>

subsection \<open>Environment\<close>

datatype html_node =
    TextNode gostring
  | ElementNode gostring "(gostring \<times> gostring) list" "html_node list"
  | OtherNode "html_node list"

record url =
  UHost :: gostring
  UHostname :: gostring
  UQueryKeys :: "gostring list"

record mime_part =
  PartHeader :: header
  PartData :: gostring
  PartBroken :: bool
  PartFileName :: gostring

datatype http_method = MethodHead | MethodGet

record content_env =
  net :: analyzer_env
  html_parse :: "gostring \<Rightarrow> html_node option"
  PublicSuffix :: "gostring \<Rightarrow> gostring \<times> bool"
  url_parse :: "gostring \<Rightarrow> url option"
  ParseAddress :: "gostring \<Rightarrow> (gostring \<times> gostring) option"
  ParseDate :: "gostring \<Rightarrow> time option"
  ParseMediaType :: "gostring \<Rightarrow> gostring \<times> (gostring \<rightharpoonup> gostring) \<times> bool"
  multipart_parts :: "gostring \<Rightarrow> gostring \<Rightarrow> mime_part list"
  uni_letter :: "rune \<Rightarrow> bool"
  uni_upper :: "rune \<Rightarrow> bool"
  Quote :: "gostring \<Rightarrow> gostring"
  probe :: "http_method \<Rightarrow> gostring \<Rightarrow> int option"

definition param :: "(gostring \<rightharpoonup> gostring) \<Rightarrow> gostring \<Rightarrow> gostring" where
  "param ps k = (case ps k of Some v \<Rightarrow> v | None \<Rightarrow> [])"

text \<open>\<open>strings.Count\<close>: occurrences that do not overlap.\<close>

function count_sub :: "gostring \<Rightarrow> gostring \<Rightarrow> nat" where
  "count_sub s p = (case index s p of None \<Rightarrow> 0 | Some i \<Rightarrow> if p = [] \<or> s = [] then 0 else Suc (count_sub (drop (i + length p) s) p))"
  by pat_completeness auto
termination
  by (relation "measure (\<lambda>(s, p). length s)") (auto simp: diff_less)

declare count_sub.simps [simp del]

subsection \<open>Reading a body\<close>

text \<open>
  \<open>readLimited\<close>: the lines that \<open>bufio.Scanner\<close> yields with a token limit of \<open>limit\<close> bytes, each without its line end, joined with line
  feeds while they fit. \<open>None\<close> is the error: a line that does not fit into the buffer, or an error of the reader at its end (\<open>broken\<close>).
\<close>

definition raw_lines :: "gostring \<Rightarrow> gostring list" where
  "raw_lines s = (let ls = split LF s in if last ls = [] then butlast ls else ls)"

fun scan_lines :: "nat \<Rightarrow> bool \<Rightarrow> gostring \<Rightarrow> gostring list \<Rightarrow> gostring option" where
  "scan_lines limit broken b [] = (if broken then None else Some b)"
| "scan_lines limit broken b (l # ls) =
     (if limit \<le> length l then None
      else (let line = trim_suffix l [CR]
            in if limit < length b + length line + 1 then Some b else scan_lines limit broken (b @ line @ [LF]) ls))"

definition readLimited :: "nat \<Rightarrow> bool \<Rightarrow> gostring \<Rightarrow> gostring option" where
  "readLimited limit broken s = scan_lines limit broken [] (raw_lines s)"

text \<open>\<open>base64.StdEncoding.DecodeString\<close> of a string without line breaks: groups of four, the last one filled up with at most two \<open>=\<close>.\<close>

definition base64_std :: gostring where
  "base64_std = ''ABCDEFGHIJKLMNOPQRSTUVWXYZabcdefghijklmnopqrstuvwxyz0123456789+/''"

definition base64_std_digit :: "char \<Rightarrow> nat option" where
  "base64_std_digit c = map_of (zip base64_std [0..<64]) c"

definition base64_std_decode :: "gostring \<Rightarrow> gostring option" where
  "base64_std_decode s =
     (let cs = trim_right s ''=''; bs = concat (map (\<lambda>c. bits_of 6 (the (base64_std_digit c))) cs)
      in if length s mod 4 \<noteq> 0 \<or> 2 < length s - length cs \<or> list_ex (\<lambda>c. base64_std_digit c = None) cs then None
         else Some (bytes_of (length bs div 8) bs))"

definition removeCRLF :: "gostring \<Rightarrow> gostring" where
  "removeCRLF s = replace_all [LF] [] (replace_all [CR] [] s)"

definition decodeBody :: "header \<Rightarrow> gostring \<Rightarrow> gostring" where
  "decodeBody h body =
     (if to_lower (trim_space (Get h ''Content-Transfer-Encoding'')) = ''base64''
      then (case base64_std_decode (removeCRLF body) of Some d \<Rightarrow> d | None \<Rightarrow> body)
      else body)"

subsection \<open>HTML\<close>

text \<open>The texts and the elements of a document in the order of the recursive walks.\<close>

fun text_nodes :: "html_node \<Rightarrow> gostring list" where
  "text_nodes (TextNode t) = [t]"
| "text_nodes (ElementNode n as cs) = concat (map text_nodes cs)"
| "text_nodes (OtherNode cs) = concat (map text_nodes cs)"

fun elements :: "html_node \<Rightarrow> (gostring \<times> (gostring \<times> gostring) list \<times> html_node) list" where
  "elements (TextNode t) = []"
| "elements (ElementNode n as cs) = (n, as, ElementNode n as cs) # concat (map elements cs)"
| "elements (OtherNode cs) = concat (map elements cs)"

definition stripHTML :: "content_env \<Rightarrow> gostring \<Rightarrow> gostring" where
  "stripHTML env s =
     (if trim_space s = [] then []
      else (case html_parse env s of
          None \<Rightarrow> s
        | Some n \<Rightarrow> trim_space (concat (map (\<lambda>t. t @ '' '') (text_nodes n)))))"

definition countImgsWithoutAlt :: "content_env \<Rightarrow> gostring \<Rightarrow> nat \<times> nat" where
  "countImgsWithoutAlt env s =
     (case html_parse env s of
        None \<Rightarrow> (0, 0)
      | Some n \<Rightarrow>
          (let imgs = filter (\<lambda>(tag, as, _). tag = ''img'') (elements n)
           in (length imgs, length (filter (\<lambda>(_, as, _). \<not> list_ex (\<lambda>(k, v). k = ''alt'') as) imgs))))"

subsection \<open>MIME structure\<close>

record parsedBody =
  BText :: gostring
  BHTML :: gostring
  AllText :: gostring
  PartCount :: nat
  HasTextPart :: bool
  HasHTMLPart :: bool
  Attachments :: nat
  Images :: nat
  Charset :: gostring

definition maxMIMEDepth :: nat where "maxMIMEDepth = 10"

definition count_images :: "gostring \<Rightarrow> nat" where
  "count_images s = count_sub (to_lower s) ''<img''"

text \<open>A part that is no container.\<close>

definition leaf_part :: "content_env \<Rightarrow> mime_part \<Rightarrow> gostring \<Rightarrow> parsedBody \<Rightarrow> parsedBody" where
  "leaf_part env part pbytes pb =
     (case ParseMediaType env (Get (PartHeader part) ''Content-Type'') of (ptype, pparams, bad) \<Rightarrow>
        let charset = (if Charset pb = [] then to_lower (param pparams ''charset'') else Charset pb)
        in if ptype = ''text/plain''
           then pb\<lparr>PartCount := PartCount pb + 1, HasTextPart := True, BText := BText pb @ decodeBody (PartHeader part) pbytes, Charset := charset\<rparr>
           else if ptype = ''text/html''
           then (let h = decodeBody (PartHeader part) pbytes
                 in pb\<lparr>PartCount := PartCount pb + 1, HasHTMLPart := True, BHTML := BHTML pb @ h, Images := Images pb + count_images h, Charset := charset\<rparr>)
           else pb\<lparr>PartCount := PartCount pb + 1,
                   Attachments := Attachments pb + (if param pparams ''name'' \<noteq> [] \<or> PartFileName part \<noteq> [] then 1 else 0)\<rparr>)"

definition part_bytes :: "mime_part \<Rightarrow> gostring" where
  "part_bytes part = (case readLimited (2 * 1024 * 1024) (PartBroken part) (PartData part) of Some b \<Rightarrow> b | None \<Rightarrow> [])"

function walkMIMEParts :: "content_env \<Rightarrow> parsedBody \<Rightarrow> gostring \<Rightarrow> gostring \<Rightarrow> nat \<Rightarrow> parsedBody" where
  "walkMIMEParts env pb body boundary depth =
     (if boundary = [] \<or> maxMIMEDepth < depth then pb
      else fold (\<lambda>part pb.
          case ParseMediaType env (Get (PartHeader part) ''Content-Type'') of (ptype, pparams, bad) \<Rightarrow>
            if has_prefix ptype ''multipart/'' then walkMIMEParts env pb (part_bytes part) (param pparams ''boundary'') (depth + 1)
            else leaf_part env part (part_bytes part) pb)
        (multipart_parts env body boundary) pb)"
  by pat_completeness auto
termination
  by (relation "measure (\<lambda>(env, pb, body, boundary, depth). Suc maxMIMEDepth - depth)") auto

declare walkMIMEParts.simps [simp del]

definition image_ratio_check :: "nat \<Rightarrow> nat \<Rightarrow> finding" where
  "image_ratio_check images textLen =
     (if 0 < images \<and> textLen < 80 then fail ''image_text_ratio'' (fl (- 7/10))
      else if 3 \<le> images \<and> textLen < 250 then warn ''image_text_ratio'' (fl (- 4/10))
      else if 0 < images \<and> 0 < textLen \<and> fl (6/10) < fdiv (of_nat images) (fadd (fdiv (of_nat textLen) 100) (of_nat images))
      then warn ''image_text_ratio'' (fl (- 3/10))
      else info ''image_text_ratio'' 0)"

definition image_alt_check :: "nat \<times> nat \<Rightarrow> finding" where
  "image_alt_check counts =
     (case counts of (all, noAlt) \<Rightarrow>
        if all = 0 then info ''image_alt'' 0 else if noAlt = 0 then pass ''image_alt'' 0
        else if noAlt = all then warn ''image_alt'' (fl (- 4/10)) else warn ''image_alt'' (fl (- 2/10)))"

definition body_findings :: "content_env \<Rightarrow> parsedBody \<Rightarrow> finding list" where
  "body_findings env pb =
     (if BText pb = [] \<and> BHTML pb \<noteq> [] then [warn ''plain_text'' (fl (- 5/10))]
      else if BText pb \<noteq> [] then [pass ''plain_text'' (fl (1/10))] else [])
     @ (if HasTextPart pb \<and> HasHTMLPart pb then [pass ''multipart_alt'' (fl (2/10))]
        else if HasHTMLPart pb \<or> HasTextPart pb then [info ''multipart_alt'' 0] else [])
     @ (if 0 < Attachments pb then [info ''attachments'' 0] else [])
     @ [image_ratio_check (Images pb) (length (runes (stripHTML env (BHTML pb))))]
     @ (if HasHTMLPart pb then [image_alt_check (countImgsWithoutAlt env (BHTML pb))] else [])
     @ [if Charset pb \<noteq> [] \<and> Charset pb \<noteq> ''utf-8'' \<and> Charset pb \<noteq> ''us-ascii'' then warn ''charset'' (fl (- 3/10)) else pass ''charset'' (fl (1/10))]"

definition empty_body :: "gostring \<Rightarrow> parsedBody" where
  "empty_body body = \<lparr>BText = [], BHTML = [], AllText = body, PartCount = 0, HasTextPart = False, HasHTMLPart = False, Attachments = 0, Images = 0, Charset = []\<rparr>"

definition inspectBody :: "content_env \<Rightarrow> header \<Rightarrow> gostring \<Rightarrow> finding list \<times> parsedBody" where
  "inspectBody env headers body =
     (case ParseMediaType env (Get headers ''Content-Type'') of (mediatype, params, bad) \<Rightarrow>
        if bad then ([warn ''mime_ct'' (fl (- 4/10))], empty_body body)
        else (let pb = (empty_body body)\<lparr>Charset := to_lower (param params ''charset'')\<rparr>; boundary = param params ''boundary''
              in if has_prefix mediatype ''multipart/'' \<and> boundary = [] then ([fail ''mime_boundary'' (- 1)], pb)
                 else (let pb = (if has_prefix mediatype ''multipart/'' then walkMIMEParts env pb body boundary 0
                                 else if mediatype = ''text/plain'' then pb\<lparr>HasTextPart := True, BText := decodeBody headers body, PartCount := 1\<rparr>
                                 else if mediatype = ''text/html''
                                 then pb\<lparr>HasHTMLPart := True, BHTML := decodeBody headers body, Images := count_images (decodeBody headers body), PartCount := 1\<rparr>
                                 else pb\<lparr>PartCount := 1\<rparr>);
                           all = trim_space (BText pb @ [LF] @ stripHTML env (BHTML pb))
                       in (body_findings env pb, if all \<noteq> [] then pb\<lparr>AllText := all\<rparr> else pb))))"

subsection \<open>Links\<close>

definition link_pattern :: rx where
  "link_pattern = seq [lit ''http'', opt (lit ''s''), lit ''://'', plus1 (ncls (\<lambda>c. rx_space c \<or> c \<in> {CHR 0x22, CHR 0x27, CHR ''>'', CHR '')''}))]"

definition extractLinks :: "gostring \<Rightarrow> gostring list" where
  "extractLinks s = find_all_string link_pattern s"

definition dedupeSorted :: "gostring list \<Rightarrow> gostring list" where
  "dedupeSorted xs = sort (dedupe_from [] (map trim_space xs))"

definition shorteners :: "gostring list" where
  "shorteners = [''bit.ly'', ''tinyurl.com'', ''t.co'', ''goo.gl'', ''is.gd'', ''ow.ly'']"

definition is_shortened :: "content_env \<Rightarrow> gostring \<Rightarrow> bool" where
  "is_shortened env raw = (case url_parse env raw of None \<Rightarrow> False | Some u \<Rightarrow> to_lower (trim_prefix (UHostname u) ''www.'') \<in> set shorteners)"

definition is_tracking :: "content_env \<Rightarrow> gostring \<Rightarrow> bool" where
  "is_tracking env raw =
     (case url_parse env raw of
        None \<Rightarrow> False
      | Some u \<Rightarrow> list_ex (\<lambda>q. has_prefix (to_lower q) ''utm_'' \<or> contains (to_lower q) ''track'' \<or> contains (to_lower q) ''mc_eid'') (UQueryKeys u))"

definition evaluateURLs :: "content_env \<Rightarrow> gostring list \<Rightarrow> finding list \<times> gostring list" where
  "evaluateURLs env links =
     (if links = [] then ([info ''links'' 0], [])
      else (let short = list_ex (is_shortened env) links
            in ([info ''links'' 0]
                @ (if short then [warn ''shortener'' (fl (- 6/10))] else [])
                @ (if list_ex (is_tracking env) links then [info ''tracking_links'' 0] else [])
                @ (if 30 < length links then [warn ''too_many_links'' (fl (- 3/10))]
                   else if 5 \<le> length links then [info ''too_many_links'' 0] else []),
                if short then [''URL-Shortener erkannt''] else [])))"

definition no_brace_space :: rx where "no_brace_space = ncls (\<lambda>c. c = CHR ''}'' \<or> rx_space c)"

definition templatePlaceholderRE :: rx where
  "templatePlaceholderRE = RCap 1 (any_of
     [seq [lit ''{'', times1 50 no_brace_space, lit ''}''],
      seq [lit ''*|'', times1 30 (ncls (\<lambda>c. c = CHR ''|'')), lit ''|*''],
      seq [lit ''%7B'', times1 40 (ncls (\<lambda>c. c = CHR ''%'')), lit ''%7D''],
      seq [lit ''${'', times1 30 no_brace_space, lit ''}'']])"

text \<open>The placeholders that the finding names: the first five different ones.\<close>

definition template_found :: "gostring list \<Rightarrow> gostring list" where
  "template_found links =
     fold (\<lambda>m found. if m \<notin> set found \<and> length found < 5 then found @ [m] else found)
       (concat (map (find_all_string templatePlaceholderRE) links)) []"

definition templateURLCheck :: "gostring list \<Rightarrow> gostring \<Rightarrow> finding" where
  "templateURLCheck links mailType =
     (if mailType = ''personal'' \<or> mailType = ''transactional'' then na ''template_urls''
      else if links = [] then info ''template_urls'' 0
      else if template_found links \<noteq> [] then fail ''template_urls'' (fl (- 6/10))
      else pass ''template_urls'' 0)"

definition getOrgDomain :: "content_env \<Rightarrow> gostring \<Rightarrow> gostring" where
  "getOrgDomain env host =
     (let h = hd (split (CHR '':'') (to_lower (trim_space host)))
      in case EffectiveTLDPlusOne (adns (net env)) h of Some e \<Rightarrow> e | None \<Rightarrow> h)"

definition fileishTLDs :: "gostring list" where "fileishTLDs = [''zip'', ''mov'']"

definition looksLikeDomain :: "content_env \<Rightarrow> gostring \<Rightarrow> bool" where
  "looksLikeDomain env str =
     (let s = to_lower (trim_space str)
      in if s = [] \<or> contains s '' '' \<or> has_suffix s ''.'' \<or> \<not> contains s ''.'' then False
         else (case PublicSuffix env s of (suf, icann) \<Rightarrow>
           icann \<and> suf \<noteq> [] \<and> suf \<notin> set fileishTLDs \<and> length suf + 1 < length s))"

datatype link_kind = LinkHonest | LinkTracking gostring | LinkForeign gostring

text \<open>The judgement of one anchor: whether its text names another domain than its target, with the example for the report.\<close>

definition anchor_kind :: "content_env \<Rightarrow> gostring \<Rightarrow> (gostring \<times> gostring) list \<Rightarrow> html_node \<Rightarrow> link_kind" where
  "anchor_kind env senderOrg as node =
     (let href = (case map_of as ''href'' of Some v \<Rightarrow> v | None \<Rightarrow> [])
      in if \<not> (has_prefix href ''http://'' \<or> has_prefix href ''https://'') then LinkHonest
         else (case url_parse env href of
             None \<Rightarrow> LinkHonest
           | Some hrefURL \<Rightarrow>
               (let linkText = trim_space (concat (text_nodes node));
                    bare = trim_suffix (trim_prefix (trim_prefix linkText ''https://'') ''http://'') ''/''
                in if UHost hrefURL = [] \<or> \<not> looksLikeDomain env bare then LinkHonest
                   else (case url_parse env (''https://'' @ bare) of
                       None \<Rightarrow> LinkHonest
                     | Some textURL \<Rightarrow>
                         (let hrefOrg = getOrgDomain env (UHost hrefURL); textOrg = getOrgDomain env (UHost textURL);
                              example = Quote env linkText @ ('' '' @ [CHR 0xE2, CHR 0x86, CHR 0x92] @ '' '') @ UHost hrefURL
                          in if UHost textURL = [] \<or> hrefOrg = [] \<or> textOrg = [] \<or> hrefOrg = textOrg then LinkHonest
                             else if senderOrg \<noteq> [] \<and> textOrg = senderOrg then LinkTracking example
                             else LinkForeign example)))))"

definition linkDomainMismatchCheck :: "content_env \<Rightarrow> gostring \<Rightarrow> gostring \<Rightarrow> finding" where
  "linkDomainMismatchCheck env htmlBody sender =
     (let i = ''link_domain_mismatch''
      in if trim_space htmlBody = [] then info i 0
         else (case html_parse env htmlBody of
             None \<Rightarrow> info i 0
           | Some doc \<Rightarrow>
               (let kinds = map (\<lambda>(_, as, node). anchor_kind env (getOrgDomain env (normDomain sender)) as node)
                                (filter (\<lambda>(tag, _, _). tag = ''a'') (elements doc));
                    foreign = concat (map (\<lambda>k. case k of LinkForeign e \<Rightarrow> [e] | _ \<Rightarrow> []) kinds);
                    tracking = concat (map (\<lambda>k. case k of LinkTracking e \<Rightarrow> [e] | _ \<Rightarrow> []) kinds)
                in if foreign \<noteq> [] then withDetails (fail i 0) [''betroffene_links'' \<mapsto> join [LF] (take 3 foreign)]
                   else if tracking \<noteq> [] then withDetails (info i 0) [''betroffene_links'' \<mapsto> join [LF] (take 3 tracking)]
                   else pass i 0)))"

subsection \<open>Broken links\<close>

definition actionLinkPattern :: rx where
  "actionLinkPattern = RCap 1 (any_of
     [ilit ''unsub'', ilit ''un-sub'', ilit ''abmeld'', ilit ''abbestell'', ilit ''optout'', ilit ''opt-out'', ilit ''austrag'', ilit ''confirm'',
      ilit ''bestaetig'', ilit (''best'' @ [CHR 0xC3, CHR 0xA4] @ ''tig''), seq [ilit ''double'', opt (ilit ''-''), ilit ''opt''], ilit ''verify'', ilit ''activate'', ilit ''aktivier''])"

definition isActionLink :: "gostring \<Rightarrow> bool" where
  "isActionLink u = match_string actionLinkPattern u"

text \<open>The links that are opened (\<open>unique\<close>) and those that are left alone (\<open>skipped\<close>), both in the order of their first occurrence.\<close>

definition web_links :: "gostring list \<Rightarrow> gostring list" where
  "web_links links = filter (\<lambda>l. has_prefix l ''http://'' \<or> has_prefix l ''https://'') (dedupe_from [] links)"

definition unique_links :: "gostring list \<Rightarrow> gostring list" where
  "unique_links links = filter (\<lambda>l. \<not> isActionLink l) (web_links links)"

definition skipped_links :: "gostring list \<Rightarrow> gostring list" where
  "skipped_links links = filter isActionLink (web_links links)"

text \<open>What one goroutine does for a link: the requests it sends and the result it appends.\<close>

record link_result =
  LUrl :: gostring
  LOk :: bool
  LStatus :: int
  LUnreachable :: bool

definition probe_link :: "content_env \<Rightarrow> gostring \<Rightarrow> http_method list \<times> int option" where
  "probe_link env u =
     (case probe env MethodHead u of
        Some st \<Rightarrow> if st = 405 then ([MethodHead, MethodGet], probe env MethodGet u) else ([MethodHead], Some st)
      | None \<Rightarrow> ([MethodHead], None))"

definition link_outcome :: "content_env \<Rightarrow> gostring \<Rightarrow> link_result" where
  "link_outcome env u =
     (case snd (probe_link env u) of
        None \<Rightarrow> \<lparr>LUrl = u, LOk = False, LStatus = 0, LUnreachable = True\<rparr>
      | Some st \<Rightarrow> \<lparr>LUrl = u, LOk = st < 400, LStatus = st, LUnreachable = st \<in> {401, 403, 429}\<rparr>)"

definition link_requests :: "content_env \<Rightarrow> gostring list \<Rightarrow> (http_method \<times> gostring) list" where
  "link_requests env links = concat (map (\<lambda>u. map (\<lambda>m. (m, u)) (fst (probe_link env u))) (take 50 (unique_links links)))"

definition statusNote :: "int \<Rightarrow> gostring" where
  "statusNote st =
     (if st = 0 then (''keine Antwort oder Zeit'' @ [CHR 0xC3, CHR 0xBC] @ ''berschreitung'')
      else if st = 401 \<or> st = 403 then ''HTTP '' @ show_int st @ ('' '' @ [CHR 0xE2, CHR 0x80, CHR 0x93] @ '' vom Schutzdienst der Zielseite abgewiesen, nicht defekt'')
      else if st = 429 then (''HTTP 429 '' @ [CHR 0xE2, CHR 0x80, CHR 0x93] @ '' Zugriffsgrenze der Zielseite erreicht'')
      else ''HTTP '' @ show_int st)"

text \<open>\<open>arrive\<close> gives the results in the order in which the goroutines append them.\<close>

definition brokenLinksCheck :: "content_env \<Rightarrow> (link_result list \<Rightarrow> link_result list) \<Rightarrow> gostring list \<Rightarrow> finding" where
  "brokenLinksCheck env arrive links =
     (if links = [] then info ''broken_links'' 0
      else (let results = arrive (map (link_outcome env) (take 50 (unique_links links)));
                unreachable = filter LUnreachable results;
                broken = filter (\<lambda>r. \<not> LUnreachable r \<and> \<not> LOk r) results;
                brokenList = map (\<lambda>r. LUrl r @ '' (HTTP '' @ show_int (LStatus r) @ '')'') (take 5 broken);
                unreachableList = map (\<lambda>r. LUrl r @ '' ('' @ statusNote (LStatus r) @ '')'') (take 5 unreachable);
                det = [''geprueft'' \<mapsto> show_nat (length results), ''defekt'' \<mapsto> joinOrNone brokenList, ''nicht_pruefbar'' \<mapsto> joinOrNone unreachableList,
                       ''nicht_abgerufen'' \<mapsto> joinOrNone (skipped_links links),
                       ''nicht_abgerufen_grund'' \<mapsto> (''Abmelde- und Best'' @ [CHR 0xC3, CHR 0xA4] @ ''tigungslinks werden bewusst nicht ge'' @ [CHR 0xC3, CHR 0xB6] @ ''ffnet, weil ein Aufruf sie ausl'' @ [CHR 0xC3, CHR 0xB6] @ ''sen w'' @ [CHR 0xC3, CHR 0xBC] @ ''rde.'')]
            in if broken = [] \<and> unreachable = [] then withDetails (pass ''broken_links'' 0) det
               else if broken = [] then withDetails (info ''broken_links'' 0) det
               else withDetails (warn ''broken_links'' (fdiv (fmul (fl (- 4/10)) (of_nat (length broken))) (of_nat (length results + 1)))) det))"

subsection \<open>HTML, subject and header fields\<close>

definition metaRefreshRE :: rx where
  "metaRefreshRE = seq [ilit ''<meta'', plus1 (ncls (\<lambda>c. c = CHR ''>'')), ilit ''http-equiv'', RStar (cls rx_space), lit ''='', RStar (cls rx_space),
     opt (cls (\<lambda>c. c = CHR 0x22 \<or> c = CHR 0x27)), ilit ''refresh'']"

definition htmlHeuristics :: "content_env \<Rightarrow> gostring \<Rightarrow> finding list" where
  "htmlHeuristics env htmlBody =
     (if trim_space htmlBody = [] then [info ''html'' 0]
      else (let lower = to_lower htmlBody;
                hidden = count_sub lower ''display:none'' + count_sub lower ''font-size:0'' + count_sub lower ''visibility:hidden''
            in [if 3 < hidden then warn ''hidden_html'' (fl (- 4/10)) else pass ''hidden_html'' (fl (1/10)),
                if html_parse env htmlBody = None then warn ''html_validity'' (fl (- 4/10)) else pass ''html_validity'' (fl (1/10)),
                if contains lower ''<script'' then fail ''harmful_html'' (fl (- 7/10))
                else if match_string metaRefreshRE htmlBody then warn ''harmful_html'' (fl (- 4/10))
                else pass ''harmful_html'' (fl (1/10))]))"

text \<open>\<open>unicode.IsLetter\<close> and \<open>IsUpper\<close>: ASCII here, the tables beyond it from the environment.\<close>

definition is_upper_ascii :: "char \<Rightarrow> bool" where
  "is_upper_ascii c = (let n = (of_char c :: nat) in 65 \<le> n \<and> n \<le> 90)"

definition rune_letter :: "content_env \<Rightarrow> rune \<Rightarrow> bool" where
  "rune_letter env r = (case r of [c] \<Rightarrow> is_ascii_char c \<and> is_upper_ascii (upper_char c) | _ \<Rightarrow> uni_letter env r)"

definition rune_upper :: "content_env \<Rightarrow> rune \<Rightarrow> bool" where
  "rune_upper env r = (case r of [c] \<Rightarrow> is_ascii_char c \<and> is_upper_ascii c | _ \<Rightarrow> uni_upper env r)"

definition subjectHeuristics :: "content_env \<Rightarrow> gostring \<Rightarrow> finding list \<times> gostring list" where
  "subjectHeuristics env subj =
     (let s = trim_space subj
      in if s = [] then ([warn ''subject'' (fl (- 7/10))], [])
         else (let letters = filter (rune_letter env) (runes s); upper = filter (rune_upper env) letters;
                   loud = 3 \<le> count_sub s ''!'';
                   caps = 8 < length letters \<and> fl (7/10) < fdiv (of_nat (length upper)) (of_nat (length letters))
               in ([pass ''subject'' (fl (1/10))]
                   @ (if loud then [warn ''subject_exclaim'' (fl (- 4/10))] else [])
                   @ (if caps then [warn ''subject_caps'' (fl (- 5/10))] else []),
                   (if loud then [''Betreff mit vielen Ausrufezeichen''] else []) @ (if caps then [''All-caps Betreff''] else []))))"

definition replyPrefixes :: "gostring list" where
  "replyPrefixes = [''re:'', ''fwd:'', ''fw:'', ''aw:'', ''wg:'', ''sv:'', ''vs:'', ''ynt:'', ''odp:'', ''res:'', ''tr:'', ''ref:'', ''enc:'']"

definition date_check :: "content_env \<Rightarrow> gostring \<Rightarrow> finding \<times> gostring list" where
  "date_check env dateRaw =
     (if dateRaw = [] then (warn ''date'' (fl (- 6/10)), [])
      else (case ParseDate env dateRaw of
          None \<Rightarrow> (warn ''date'' (fl (- 5/10)), [])
        | Some t \<Rightarrow>
            (let delta = now (net env) - t
             in if delta < - 2 * hour \<or> 14 * 24 * hour < delta then (warn ''date_skew'' (fl (- 4/10)), [(''Date-Header zeitlich auff'' @ [CHR 0xC3, CHR 0xA4] @ ''llig'')])
                else (pass ''date'' (fl (1/10)), []))))"

definition message_id_checks :: "gostring \<Rightarrow> finding list \<times> gostring list" where
  "message_id_checks msgID =
     (if msgID = [] then ([fail ''message_id'' (fl (- 8/10))], [])
      else (let valid = has_prefix msgID ''<'' \<and> has_suffix msgID ''>''
                  \<and> (case index msgID ''@'' of Some k \<Rightarrow> 1 < k \<and> k < length msgID - 1 | None \<Rightarrow> False)
            in if valid then ([pass ''message_id'' (fl (1/10)), pass ''message_id_format'' 0], [])
               else ([pass ''message_id'' (fl (1/10)), warn ''message_id_format'' (fl (- 3/10))], [(''Ung'' @ [CHR 0xC3, CHR 0xBC] @ ''ltiges Message-ID Format'')])))"

definition fake_reply_check :: "header \<Rightarrow> finding list \<times> gostring list" where
  "fake_reply_check h =
     (let subj = to_lower (trim_space (Get h ''Subject''))
      in if list_ex (has_prefix subj) replyPrefixes \<and> Get h ''In-Reply-To'' = [] \<and> Get h ''References'' = []
         then ([warn ''fake_reply'' (fl (- 4/10))], [(''Fake-Antwort-Pr'' @ [CHR 0xC3, CHR 0xA4] @ ''fix im Betreff'')])
         else ([], []))"

definition no_reply_check :: "header \<Rightarrow> finding list" where
  "no_reply_check h =
     (let from = to_lower (Get h ''From'')
      in if list_ex (contains from) [''noreply'', ''no-reply'', ''donotreply'', ''do-not-reply''] \<and> trim_space (Get h ''Reply-To'') = []
         then [warn ''no_reply_reply_to'' (fl (- 2/10))] else [])"

definition headerHeuristics :: "content_env \<Rightarrow> header \<Rightarrow> finding list \<times> gostring list" where
  "headerHeuristics env h =
     (case date_check env (Get h ''Date'') of (c1, w1) \<Rightarrow>
      (case message_id_checks (trim_space (firstNonEmpty [Get h ''Message-Id'', Get h ''Message-ID''])) of (c2, w2) \<Rightarrow>
      (case fake_reply_check h of (c3, w3) \<Rightarrow> ([c1] @ c2 @ c3 @ no_reply_check h, w1 @ w2 @ w3))))"

definition zero_width :: "gostring list" where
  "zero_width = [[CHR 0xE2, CHR 0x80, CHR 0x8B], [CHR 0xE2, CHR 0x80, CHR 0x8C], [CHR 0xE2, CHR 0x81, CHR 0xA0]]"

definition unicodeObfuscationCheck :: "gostring \<Rightarrow> finding \<times> gostring" where
  "unicodeObfuscationCheck txt =
     (if txt = [] then (info ''unicode'' 0, [])
      else (let zw = sum_list (map (count_sub txt) zero_width);
                nonASCII = length (filter (\<lambda>r. \<not> in_class (\<lambda>_. True) r) (runes txt))
            in if 2 < zw then (warn ''unicode'' (fl (- 6/10)), ''Zero-width obfuscation erkannt'')
               else if 0 < nonASCII \<and> fl (6/10) < fdiv (of_nat nonASCII) (of_nat (length (runes txt))) then (info ''unicode'' 0, [])
               else (pass ''unicode'' (fl (1/10)), [])))"

subsection \<open>Newsletters\<close>

definition bulkContentPattern :: rx where
  "bulkContentPattern = RCap 1 (any_of
     [ilit ''abmelden'', ilit ''abbestellen'', ilit ''austragen'', ilit ''unsubscribe'', ilit ''newsletter abbestellen'', ilit ''aus dem verteiler'',
      ilit ''vom newsletter'', seq [ilit ''opt'', opt rx_dot, ilit ''out''], ilit ''abmeldelink''])"

definition looksLikeBulkContent :: "header \<Rightarrow> parsedBody \<Rightarrow> bool" where
  "looksLikeBulkContent h pb =
     (match_string bulkContentPattern (AllText pb) \<and> HasHTMLPart pb \<and> 5 \<le> count_sub (to_lower (BHTML pb)) ''<a ''
      \<and> trim_space (Get h ''In-Reply-To'') = [] \<and> trim_space (Get h ''References'') = [])"

definition one_click :: gostring where "one_click = ''list-unsubscribe=one-click''"

definition bulk_checks :: "header \<Rightarrow> finding list" where
  "bulk_checks h =
     (let listUnsub = Get h ''List-Unsubscribe'';
          hasPost = contains (to_lower (Get h ''List-Unsubscribe-Post'')) one_click; hasHTTPS = contains (to_lower listUnsub) ''https://''
      in if listUnsub = [] then [warn ''list_unsub'' (fl (- 7/10)), na ''one_click_unsub'']
         else [pass ''list_unsub'' (fl (2/10)),
               if hasPost \<and> hasHTTPS then pass ''one_click_unsub'' (fl (1/10)) else warn ''one_click_unsub'' (fl (- 3/10))])"

definition hinted_checks :: "header \<Rightarrow> parsedBody \<Rightarrow> finding list" where
  "hinted_checks h pb =
     (if contains (to_lower (AllText pb)) ''unsubscribe'' \<or> contains (to_lower (Get h ''Precedence'')) ''bulk'' \<or> trim_space (Get h ''List-Id'') \<noteq> []
      then (if Get h ''List-Unsubscribe'' = [] then [warn ''list_unsub'' (fl (- 7/10)), na ''one_click_unsub'']
            else [pass ''list_unsub'' (fl (2/10)),
                  if contains (to_lower (Get h ''List-Unsubscribe-Post'')) one_click then pass ''one_click_unsub'' (fl (1/10))
                  else warn ''one_click_unsub'' (fl (- 3/10))])
      else [])"

definition newsletterHeuristics :: "header \<Rightarrow> parsedBody \<Rightarrow> gostring \<Rightarrow> finding list" where
  "newsletterHeuristics h pb mailType =
     (if mailType = ''personal'' \<or> mailType = ''transactional'' then [na ''list_unsub'', na ''one_click_unsub'']
      else (if mailType = ''bulk'' then bulk_checks h else hinted_checks h pb)
        @ (let lower = to_lower (BHTML pb)
           in if contains lower ''preheader'' \<or> contains lower ''display:none'' then [info ''preheader'' 0]
              else if HasHTMLPart pb then [warn ''preheader'' (fl (- 2/10))] else []))"

subsection \<open>The sender's name\<close>

definition word_char :: "char \<Rightarrow> bool" where
  "word_char c = (is_upper_ascii (upper_char c) \<or> is_digit c)"

definition embeddedEmailPattern :: rx where
  "embeddedEmailPattern = seq [plus1 (cls (\<lambda>c. word_char c \<or> c \<in> set ''._%+-'')), lit ''@'',
     RCap 1 (seq [plus1 (cls (\<lambda>c. word_char c \<or> c \<in> set ''.-'')), lit ''.'',
       cls (\<lambda>c. is_upper_ascii (upper_char c)), plus1 (cls (\<lambda>c. is_upper_ascii (upper_char c)))])]"

definition impersonationBrands :: "gostring list" where
  "impersonationBrands = [''paypal'', ''amazon'', ''microsoft'', ''office365'', ''apple'', ''icloud'', ''google'', ''gmail'', ''netflix'', ''paypal'', ''dhl'', ''fedex'',
     ''ups'', ''deutsche post'', ''telekom'', ''vodafone'', ''sparkasse'', ''volksbank'', ''postbank'', ''commerzbank'', ''deutsche bank'', ''ing-diba'', ''ing diba'',
     ''dkb'', ''n26'', ''klarna'', ''shopify'', ''facebook'', ''instagram'', ''whatsapp'', ''linkedin'']"

definition foreign_mail_domain :: "gostring \<Rightarrow> gostring \<Rightarrow> gostring option" where
  "foreign_mail_domain display rdom =
     (case find_submatch embeddedEmailPattern display of
        None \<Rightarrow> None
      | Some (m, cs) \<Rightarrow>
          (let embDom = to_lower (group_text cs 1)
           in if rdom \<noteq> [] \<and> embDom \<noteq> rdom \<and> \<not> has_suffix embDom (CHR ''.'' # rdom) \<and> \<not> has_suffix rdom (CHR ''.'' # embDom) then Some embDom else None))"

definition impersonated_brand :: "gostring \<Rightarrow> gostring \<Rightarrow> gostring option" where
  "impersonated_brand dlow rdom =
     find (\<lambda>brand. contains dlow brand \<and> (rdom = [] \<or> \<not> contains rdom (replace_all '' '' [] brand))) impersonationBrands"

definition displayNameCheck :: "content_env \<Rightarrow> gostring \<Rightarrow> gostring \<Rightarrow> finding" where
  "displayNameCheck env fromHeader domain =
     (let i = ''display_name''; from = trim_space fromHeader; display = (case ParseAddress env from of Some (name, a) \<Rightarrow> name | None \<Rightarrow> []);
          rdom = to_lower (trim_space domain); det = [''display_name'' \<mapsto> display, ''from_domain'' \<mapsto> orElse rdom ''none'']
      in if from = [] \<or> display = [] then info i 0
         else (case foreign_mail_domain display rdom of
             Some emb \<Rightarrow> withDetails (warn i (fl (- 7/10))) (det(''embedded_domain'' \<mapsto> emb))
           | None \<Rightarrow>
               (case impersonated_brand (to_lower display) rdom of
                  Some brand \<Rightarrow> withDetails (warn i (fl (- 6/10))) (det(''impersonated_brand'' \<mapsto> brand))
                | None \<Rightarrow> withDetails (pass i 0) det)))"

definition headerFromDomain :: "content_env \<Rightarrow> gostring \<Rightarrow> gostring \<times> gostring" where
  "headerFromDomain env raw =
     (if raw = [] then ([], [])
      else (case ParseAddress env raw of None \<Rightarrow> (domainPart raw, []) | Some (name, a) \<Rightarrow> (domainPart a, a)))"

subsection \<open>Links that act are left alone\<close>

definition action_words :: "gostring list" where
  "action_words = [''unsub'', ''un-sub'', ''abmeld'', ''abbestell'', ''optout'', ''opt-out'', ''austrag'', ''confirm'', ''bestaetig'', ''verify'', ''activate'', ''aktivier'']"

lemma action_word_is_action_link:
  assumes "w \<in> set action_words" "contains (to_lower u) w"
  shows "isActionLink u"
proof -
  from assms(2) obtain s x t where u: "u = s @ x @ t" "map lower_char x = w" by (rule lower_sublist)
  have w: "list_all is_ascii_char w" "map lower_char w = w" "w \<noteq> []" and r: "ilit w \<in> set [ilit v. v \<leftarrow> action_words]"
    using assms(1) by (auto simp: action_words_def is_ascii_char_def lower_char_def)
  have "list_all is_ascii_char x" using w(1) u(2) by (auto simp: list_all_iff lower_char_ascii)
  then have "runes u = runes s @ map (\<lambda>c. [c]) x @ runes t" unfolding u(1) using w(3) u(2) by (intro runes_around_ascii) auto
  moreover have "map (\<lambda>c. [c]) x \<in> lang actionLinkPattern"
  proof -
    have "map (\<lambda>c. [c]) x \<in> lang (ilit w)" using w u(2) by (intro ilit_word) simp_all
    moreover have "ilit w \<in> set
      [ilit ''unsub'', ilit ''un-sub'', ilit ''abmeld'', ilit ''abbestell'', ilit ''optout'', ilit ''opt-out'', ilit ''austrag'', ilit ''confirm'',
      ilit ''bestaetig'', ilit (''best'' @ [CHR 0xC3, CHR 0xA4] @ ''tig''), seq [ilit ''double'', opt (ilit ''-''), ilit ''opt''], ilit ''verify'', ilit ''activate'', ilit ''aktivier'']"
      using assms(1) by (auto simp: action_words_def)
    ultimately show ?thesis unfolding actionLinkPattern_def lang.simps by (intro any_of_word)
  qed
  ultimately show ?thesis unfolding isActionLink_def match_string_iff by blast
qed

lemma dedupe_from_set: "set (dedupe_from seen xs) = {x \<in> set xs. x \<noteq> [] \<and> x \<notin> set seen}"
  by (induction xs arbitrary: seen) auto

lemma dedupe_from_distinct: "distinct (dedupe_from seen xs)"
  by (induction xs arbitrary: seen) (auto simp: dedupe_from_set)

lemma unique_links_distinct: "distinct (unique_links links)"
  by (simp add: unique_links_def web_links_def dedupe_from_distinct)

lemma unique_links_mem:
  "u \<in> set (unique_links links) \<Longrightarrow> u \<in> set links \<and> (has_prefix u ''http://'' \<or> has_prefix u ''https://'') \<and> \<not> isActionLink u"
  by (auto simp: unique_links_def web_links_def dedupe_from_set)

lemma probe_link_methods:
  "set (fst (probe_link env u)) \<subseteq> {MethodHead, MethodGet}" "distinct (fst (probe_link env u))"
  "MethodGet \<in> set (fst (probe_link env u)) \<Longrightarrow> probe env MethodHead u = Some 405"
  by (auto simp: probe_link_def split: option.splits if_splits)

lemma link_requests_mem:
  "(m, u) \<in> set (link_requests env links) \<Longrightarrow> u \<in> set (unique_links links) \<and> m \<in> set (fst (probe_link env u))"
  by (auto simp: link_requests_def dest: in_set_takeD)

lemma link_requests_distinct: "distinct (link_requests env links)"
proof -
  have "distinct us \<Longrightarrow> distinct (concat (map (\<lambda>u. map (\<lambda>m. (m, u)) (fst (probe_link env u))) us))" for us
    by (induction us) (auto simp: distinct_map probe_link_methods inj_on_def)
  then show ?thesis unfolding link_requests_def by (simp add: unique_links_distinct)
qed


subsection \<open>The walk through the parts of a message\<close>

text \<open>The number of parts that the walk reads, with the recursion of \<open>walkMIMEParts\<close>.\<close>

function mime_steps :: "content_env \<Rightarrow> gostring \<Rightarrow> gostring \<Rightarrow> nat \<Rightarrow> nat" where
  "mime_steps env body boundary depth =
     (if boundary = [] \<or> maxMIMEDepth < depth then 0
      else sum_list (map (\<lambda>part. Suc (case ParseMediaType env (Get (PartHeader part) ''Content-Type'') of (ptype, pparams, bad) \<Rightarrow>
            if has_prefix ptype ''multipart/'' then mime_steps env (part_bytes part) (param pparams ''boundary'') (depth + 1) else 0))
        (multipart_parts env body boundary)))"
  by pat_completeness auto
termination
  by (relation "measure (\<lambda>(env, body, boundary, depth). Suc maxMIMEDepth - depth)") auto

declare mime_steps.simps [simp del]

text \<open>What is documented of the reader: the parts are disjoint pieces of the body, each after a line with the boundary, which is never empty.\<close>

definition parts_fit :: "content_env \<Rightarrow> bool" where
  "parts_fit env = (\<forall>body boundary. sum_list (map (\<lambda>p. length (PartData p) + 2) (multipart_parts env body boundary)) \<le> length body)"

lemma split_lengths: "sum_list (map (\<lambda>l. length l + 1) (split c s)) = length s + 1"
  by (induction c s rule: split.induct) (auto split: list.splits)

lemma raw_lines_length: "sum_list (map (\<lambda>l. length l + 1) (raw_lines s)) \<le> length s + 1"
proof -
  have "sum_list (map (\<lambda>l. length l + 1) (butlast ls)) \<le> sum_list (map (\<lambda>l. length l + 1) ls)" for ls :: "gostring list"
    by (cases ls rule: rev_cases) auto
  from this [of "split LF s"] show ?thesis unfolding split_lengths by (simp only: raw_lines_def Let_def split_lengths split: if_split) simp
qed

lemma scan_lines_length: "scan_lines limit broken b ls = Some r \<Longrightarrow> length r \<le> length b + sum_list (map (\<lambda>l. length l + 1) ls)"
proof (induction ls arbitrary: b)
  case (Cons l ls)
  have "length (trim_suffix l [CR]) \<le> length l" by (simp add: trim_suffix_def)
  with Cons show ?case by (fastforce simp: Let_def split: if_splits)
qed (auto split: if_splits)

lemma part_bytes_length: "length (part_bytes p) \<le> length (PartData p) + 1"
proof (cases "readLimited (2 * 1024 * 1024) (PartBroken p) (PartData p)")
  case (Some b)
  then have "length b \<le> sum_list (map (\<lambda>l. length l + 1) (raw_lines (PartData p)))"
    unfolding readLimited_def using scan_lines_length by fastforce
  also have "\<dots> \<le> length (PartData p) + 1" by (rule raw_lines_length)
  finally show ?thesis using Some by (simp add: part_bytes_def)
qed (simp add: part_bytes_def)

lemma mime_steps_bound:
  "parts_fit env \<Longrightarrow> mime_steps env body boundary depth \<le> (Suc maxMIMEDepth - depth) * length body"
proof (induction env body boundary depth rule: mime_steps.induct)
  case (1 env body boundary depth)
  show ?case
  proof (cases "boundary = [] \<or> maxMIMEDepth < depth")
    case True
    then show ?thesis by (simp add: mime_steps.simps)
  next
    case False
    let ?k = "maxMIMEDepth - depth" and ?parts = "multipart_parts env body boundary"
    let ?inner = "\<lambda>part. case ParseMediaType env (Get (PartHeader part) ''Content-Type'') of (ptype, pparams, bad) \<Rightarrow>
        if has_prefix ptype ''multipart/'' then mime_steps env (part_bytes part) (param pparams ''boundary'') (depth + 1) else 0"
    have k: "Suc maxMIMEDepth - depth = Suc ?k" "Suc maxMIMEDepth - (depth + 1) = ?k" using False by (simp_all add: Suc_diff_le not_less)
    have "Suc (?inner part) \<le> Suc ?k * (length (PartData part) + 2)" if "part \<in> set ?parts" for part
    proof -
      obtain ptype pparams bad where t: "ParseMediaType env (Get (PartHeader part) ''Content-Type'') = (ptype, pparams, bad)" by (metis prod.exhaust)
      have "?inner part \<le> ?k * length (part_bytes part)"
        using "1.IH" [OF False that t [symmetric] refl _ "1.prems"] k(2) by (simp add: t)
      also have "\<dots> \<le> ?k * (length (PartData part) + 1)" by (intro mult_le_mono2 part_bytes_length)
      finally show ?thesis by simp
    qed
    then have "sum_list (map (\<lambda>part. Suc (?inner part)) ?parts) \<le> sum_list (map (\<lambda>part. Suc ?k * (length (PartData part) + 2)) ?parts)"
      by (intro sum_list_mono)
    also have "\<dots> = Suc ?k * sum_list (map (\<lambda>part. length (PartData part) + 2) ?parts)" by (rule sum_list_const_mult)
    also have "\<dots> \<le> Suc ?k * length body" using "1.prems" by (intro mult_le_mono2) (auto simp: parts_fit_def)
    finally show ?thesis using False k(1) by (simp add: mime_steps.simps [of env body])
  qed
qed

lemma fold_count:
  "(\<And>x pb. x \<in> set xs \<Longrightarrow> PartCount (f x pb) \<le> PartCount pb + g x) \<Longrightarrow> PartCount (fold f xs pb) \<le> PartCount pb + sum_list (map g xs)"
proof (induction xs arbitrary: pb)
  case (Cons x xs)
  have "PartCount (fold f xs (f x pb)) \<le> PartCount (f x pb) + sum_list (map g xs)" using Cons.prems by (intro Cons.IH) simp
  also have "PartCount (f x pb) \<le> PartCount pb + g x" using Cons.prems by simp
  finally show ?case by simp
qed simp

lemma leaf_part_count: "PartCount (leaf_part env part b pb) = Suc (PartCount pb)"
  by (simp add: leaf_part_def Let_def split: prod.split)

lemma walk_count: "PartCount (walkMIMEParts env pb body boundary depth) \<le> PartCount pb + mime_steps env body boundary depth"
proof (induction env body boundary depth arbitrary: pb rule: mime_steps.induct)
  case (1 env body boundary depth)
  show ?case
  proof (cases "boundary = [] \<or> maxMIMEDepth < depth")
    case True
    then show ?thesis by (simp add: walkMIMEParts.simps)
  next
    case False
    have "PartCount (case ParseMediaType env (Get (PartHeader part) ''Content-Type'') of (ptype, pparams, bad) \<Rightarrow>
            if has_prefix ptype ''multipart/'' then walkMIMEParts env q (part_bytes part) (param pparams ''boundary'') (depth + 1)
            else leaf_part env part (part_bytes part) q)
        \<le> PartCount q + Suc (case ParseMediaType env (Get (PartHeader part) ''Content-Type'') of (ptype, pparams, bad) \<Rightarrow>
            if has_prefix ptype ''multipart/'' then mime_steps env (part_bytes part) (param pparams ''boundary'') (depth + 1) else 0)"
      if "part \<in> set (multipart_parts env body boundary)" for part q
    proof -
      obtain ptype pparams bad where t: "ParseMediaType env (Get (PartHeader part) ''Content-Type'') = (ptype, pparams, bad)" by (metis prod.exhaust)
      show ?thesis using "1.IH" [OF False that t [symmetric] refl, of q] by (cases "has_prefix ptype ''multipart/''") (simp_all add: t leaf_part_count)
    qed
    from fold_count [OF this] False show ?thesis by (simp add: walkMIMEParts.simps [of env pb body] mime_steps.simps [of env body])
  qed
qed

text \<open>
  C29: The walk through the parts of a message ends after a number of parts that is linear in the size of the message, however deep and in whatever
  way the parts are nested: at most eleven parts per byte are read, on all levels together, and no more parts are counted than that. It relies on the documented behaviour of the
  multipart reader that the parts of a body are disjoint pieces of it, each after a boundary line.
\<close>

theorem mime_walk_terminates_linearly:
  assumes "parts_fit env"
  shows "mime_steps env body boundary 0 \<le> 11 * length body
     \<and> PartCount (walkMIMEParts env pb body boundary 0) \<le> PartCount pb + 11 * length body"
  using mime_steps_bound [OF assms, of body boundary 0] walk_count [of env pb body boundary 0] by (simp add: maxMIMEDepth_def)

text \<open>A reader for which every part contains another one.\<close>

definition demo_content :: content_env where
  "demo_content = \<lparr>net = \<lparr>adns = demo_env, decode_key = (\<lambda>p. RSA 2048), resolver_server = [], exchange = (\<lambda>tcp server name qtype. None),
       rdap_date = (\<lambda>d. None), now = 0, url_host = (\<lambda>u. None), dynamic_ptr = (\<lambda>h. False)\<rparr>,
      html_parse = (\<lambda>s. Some (TextNode s)), PublicSuffix = (\<lambda>s. (''example'', True)), url_parse = (\<lambda>s. None),
     ParseAddress = (\<lambda>s. None), ParseDate = (\<lambda>s. None), ParseMediaType = (\<lambda>s. (''multipart/mixed'', [''boundary'' \<mapsto> ''b''], False)),
     multipart_parts = (\<lambda>body boundary. if length body < 5 then [] else [\<lparr>PartHeader = Map.empty, PartData = drop 4 body, PartBroken = False, PartFileName = []\<rparr>]),
     uni_letter = (\<lambda>r. False), uni_upper = (\<lambda>r. False), Quote = (\<lambda>s. s), probe = (\<lambda>m u. Some 405)\<rparr>"

lemma demo_content_fit: "parts_fit demo_content"
  by (auto simp: parts_fit_def demo_content_def)

theorem mime_walk_terminates_linearly_witness:
  "multipart_parts demo_content (replicate 60 (CHR ''x'')) ''b'' \<noteq> []
   \<and> mime_steps demo_content (replicate 60 (CHR ''x'')) ''b'' 0 \<le> 660
   \<and> PartCount (walkMIMEParts demo_content (empty_body []) (replicate 60 (CHR ''x'')) ''b'' 0) \<le> 660"
  using mime_walk_terminates_linearly [OF demo_content_fit, of "replicate 60 (CHR ''x'')" "''b''" "empty_body []"]
  by (simp add: empty_body_def) (simp add: demo_content_def)

subsection \<open>Transfer encoding\<close>

text \<open>The encoder of a sender (RFC 4648), as a reference.\<close>

definition base64_std_encode :: "gostring \<Rightarrow> gostring" where
  "base64_std_encode s = encode_groups 6 base64_std (concat (map bits8 s)) @ replicate ((3 - length s mod 3) mod 3) (CHR ''='')"

lemma bits_of_val6:
  assumes "length bs = 6"
  shows "bits_of 6 (bits_val bs) = bs" "bits_val bs < 64"
proof -
  obtain a b c d e f where bs: "bs = [a, b, c, d, e, f]"
    using assms by (auto simp: length_Suc_conv numeral_eq_Suc)
  have "[0..<6] = [0, 1, 2, 3, 4, 5 :: nat]" by (simp add: upt_rec)
  then show "bits_of 6 (bits_val bs) = bs" unfolding bs by (simp add: bits_of_def bits_val_def)
  show "bits_val bs < 64" unfolding bs by (simp add: bits_val_def)
qed

lemma base64_digits: "i < 64 \<Longrightarrow> base64_std_digit (base64_std ! i) = Some i \<and> base64_std ! i \<noteq> CHR ''=''"
proof -
  have "list_all (\<lambda>i. base64_std_digit (base64_std ! i) = Some i \<and> base64_std ! i \<noteq> CHR ''='') [0..<64]" by code_simp
  then show "i < 64 \<Longrightarrow> base64_std_digit (base64_std ! i) = Some i \<and> base64_std ! i \<noteq> CHR ''=''" by (simp add: list_all_iff)
qed

lemma bits_val_acc:
  "fold (\<lambda>b n. 2 * n + (if b then 1 else 0)) bs a = a * 2 ^ length bs + fold (\<lambda>b n. 2 * n + (if b then 1 else 0)) bs (0 :: nat)"
proof (induction bs arbitrary: a)
  case (Cons b bs)
  show ?case using Cons [of "2 * a + (if b then 1 else 0)"] Cons [of "if b then 1 else 0"] by (simp add: algebra_simps)
qed simp

lemma bits_val_Cons: "bits_val (b # bs) = of_bool b * 2 ^ length bs + bits_val bs"
  using bits_val_acc [of bs "of_bool b"] by (cases b) (simp_all add: bits_val_def)

lemma bits_val_low: "bits_val (map (\<lambda>i. odd (n div 2 ^ i)) (rev [0..<k])) = n mod 2 ^ k"
proof (induction k)
  case (Suc k)
  have "n mod 2 ^ Suc k = of_bool (odd (n div 2 ^ k)) * 2 ^ k + n mod 2 ^ k"
    using mod_mult2_eq [of n "2 ^ k" 2] by (simp add: odd_iff_mod_2_eq_one mult.commute)
  with Suc show ?case by (simp add: bits_val_Cons)
qed (simp add: bits_val_def)

lemma char_of_bits8: "char_of (bits_val (bits8 c)) = c"
proof -
  let ?n = "of_char c :: nat"
  have "rev [0..<8] = [7, 6, 5, 4, 3, 2, 1, 0 :: nat]" by (simp add: upt_rec)
  moreover have "odd ((of_char c :: int) div 2 ^ i) = odd (?n div 2 ^ i)" for i
  proof -
    have "(of_char c :: int) div 2 ^ i = int (?n div 2 ^ i)" by (simp add: of_nat_div of_nat_of_char)
    then show ?thesis by (simp only: even_of_nat)
  qed
  ultimately have "bits8 c = map (\<lambda>i. odd (?n div 2 ^ i)) (rev [0..<8])" by (simp only: bits8_def)
  then have "bits_val (bits8 c) = ?n mod 2 ^ 8" by (simp only: bits_val_low)
  then show ?thesis by simp
qed

lemma encode_step:
  assumes "bs \<noteq> []"
  shows "encode_groups 6 al bs = al ! bits_val (take 6 bs @ replicate (6 - length bs) False) # encode_groups 6 al (drop 6 bs)"
  using assms by (cases bs) simp_all

lemma encoded_groups:
  "length (encode_groups 6 base64_std bs) = (length bs + 5) div 6
   \<and> list_all (\<lambda>c. base64_std_digit c \<noteq> None \<and> c \<noteq> CHR ''='') (encode_groups 6 base64_std bs)
   \<and> (\<exists>z. concat (map (\<lambda>c. bits_of 6 (the (base64_std_digit c))) (encode_groups 6 base64_std bs)) = bs @ replicate z False)"
proof (induction "length bs" arbitrary: bs rule: less_induct)
  case less
  show ?case
  proof (cases "bs = []")
    case True
    then show ?thesis by simp
  next
    case False
    let ?g = "take 6 bs @ replicate (6 - length bs) False"
    have g: "length ?g = 6" by simp
    have IH: "length (encode_groups 6 base64_std (drop 6 bs)) = (length (drop 6 bs) + 5) div 6
      \<and> list_all (\<lambda>c. base64_std_digit c \<noteq> None \<and> c \<noteq> CHR ''='') (encode_groups 6 base64_std (drop 6 bs))
      \<and> (\<exists>z. concat (map (\<lambda>c. bits_of 6 (the (base64_std_digit c))) (encode_groups 6 base64_std (drop 6 bs))) = drop 6 bs @ replicate z False)"
      using False by (intro less) simp
    note d = base64_digits [OF bits_of_val6(2) [OF g]]
    have len: "Suc ((length (drop 6 bs) + 5) div 6) = (length bs + 5) div 6"
    proof -
      have "Suc ((k - 6 + 5) div 6) = (k + 5) div 6" if "0 < k" for k :: nat
      proof (cases "k \<le> 6")
        case True
        then have "(k + 5) div 6 = 1" using that by (intro div_nat_eqI) simp_all
        with True show ?thesis by simp
      next
        case False
        then obtain j where "k = j + 6" by (metis add.commute le_Suc_ex nat_le_linear)
        then show ?thesis by simp
      qed
      from this [of "length bs"] show ?thesis using False by simp
    qed
    from IH obtain z where z: "concat (map (\<lambda>c. bits_of 6 (the (base64_std_digit c))) (encode_groups 6 base64_std (drop 6 bs))) = drop 6 bs @ replicate z False" by blast
    have "?g @ drop 6 bs @ replicate z False = bs @ replicate (6 - length bs + z) False"
      by (cases "length bs \<le> 6") (simp_all add: replicate_add [symmetric])
    then show ?thesis using IH d len z bits_of_val6(1) [OF g] by (auto simp: encode_step [OF False])
  qed
qed

lemma bytes_of_bits: "bytes_of (length s) (concat (map bits8 s) @ zs) = s"
proof (induction s)
  case (Cons c s)
  have "length (bits8 c) = 8" by (simp add: bits8_def)
  then show ?case using Cons by (simp add: char_of_bits8)
qed simp

theorem base64_std_round_trip: "base64_std_decode (base64_std_encode s) = Some s"
proof -
  let ?bs = "concat (map bits8 s)" let ?e = "encode_groups 6 base64_std ?bs" and ?p = "(3 - length s mod 3) mod 3"
  have len: "length ?bs = 8 * length s" by (induction s) (simp_all add: bits8_def)
  from encoded_groups [of ?bs] obtain z where
    n: "length ?e = (8 * length s + 5) div 6" and dig: "list_all (\<lambda>c. base64_std_digit c \<noteq> None \<and> c \<noteq> CHR ''='') ?e"
    and cat: "concat (map (\<lambda>c. bits_of 6 (the (base64_std_digit c))) ?e) = ?bs @ replicate z False"
    unfolding len by blast
  have trim: "trim_right (?e @ replicate ?p (CHR ''='')) ''='' = ?e"
  proof -
    have "dropWhile (\<lambda>c. c \<in> set ''='') (rev ?e) = rev ?e"
      using dig by (cases ?e rule: rev_cases) auto
    moreover have "dropWhile (\<lambda>c. c \<in> set ''='') (replicate k (CHR ''='') @ xs) = dropWhile (\<lambda>c. c \<in> set ''='') xs" for k xs
      by (induction k) simp_all
    ultimately show ?thesis by (simp add: trim_right_def)
  qed
  define q r where "q = length s div 3" and "r = length s mod 3"
  then have s: "length s = 3 * q + r" "r = 0 \<or> r = 1 \<or> r = 2" by auto
  have groups: "length ?e = 4 * q + (if r = 0 then 0 else r + 1)" using s n by (elim disjE) simp_all
  have whole: "length (concat (map (\<lambda>c. bits_of 6 (the (base64_std_digit c))) ?e)) div 8 = length s"
  proof -
    have "length (concat (map (\<lambda>c. bits_of 6 (the (base64_std_digit c))) xs)) = 6 * length xs" for xs
      by (induction xs) (simp_all add: bits_of_def)
    then show ?thesis using groups s by (elim disjE) simp_all
  qed
  have "base64_std_encode s = ?e @ replicate ?p (CHR ''='')" by (simp add: base64_std_encode_def)
  moreover have "(length ?e + ?p) mod 4 = 0" "?p \<le> 2"
  proof -
    have p: "?p = (3 - r) mod 3" by (simp add: r_def)
    show "(length ?e + ?p) mod 4 = 0" unfolding groups p using s(2) by (elim disjE) simp_all
    show "?p \<le> 2" by simp
  qed
  ultimately show ?thesis
    using dig by (simp add: base64_std_decode_def Let_def trim whole list_ex_iff list_all_iff) (simp add: cat bytes_of_bits)
qed

text \<open>
  A body part that a sender encoded in base64, folded into lines of any length, is decoded to exactly the bytes that were encoded.
\<close>

theorem decodeBody_base64:
  assumes "to_lower (trim_space (Get h ''Content-Transfer-Encoding'')) = ''base64''" and "removeCRLF body = base64_std_encode s"
  shows "decodeBody h body = s"
  using assms by (simp add: decodeBody_def base64_std_round_trip)

theorem decodeBody_base64_witness:
  "decodeBody [''Content-Transfer-Encoding'' \<mapsto> ['' Base64'']] (''aGVs'' @ crlf @ ''bG8='' @ crlf) = ''hello''"
proof (rule decodeBody_base64)
  show "to_lower (trim_space (Get [''Content-Transfer-Encoding'' \<mapsto> ['' Base64'']] ''Content-Transfer-Encoding'')) = ''base64''" by code_simp
  show "removeCRLF (''aGVs'' @ crlf @ ''bG8='' @ crlf) = base64_std_encode ''hello''" by code_simp
qed

end
