(* ===== verification/Config.thy ===== *)
theory Config
  imports Dns Float64
begin

text \<open>
  \<open>internal/config/config.go\<close>: the settings, read from the environment and checked.

  \<open>env k\<close> is \<open>os.Getenv(k)\<close>, the empty string for a variable that is not set. The functions of
  \<open>strconv\<close> and \<open>time\<close> that turn text into numbers and durations are written out from the standard library. An error is a
  constructor with the values its message names.
\<close>

subsection \<open>Numbers\<close>

text \<open>\<open>strconv.ParseBool\<close>.\<close>

definition ParseBool :: "gostring \<Rightarrow> bool option" where
  "ParseBool s =
     (if s \<in> {''1'', ''t'', ''T'', ''TRUE'', ''true'', ''True''} then Some True
      else if s \<in> {''0'', ''f'', ''F'', ''FALSE'', ''false'', ''False''} then Some False else None)"

text \<open>A \<open>float64\<close> that may be an infinity or not a number; comparisons with NaN are false.\<close>

datatype go_float = Fin float64 | Inf bool | NaN

fun float_less :: "go_float \<Rightarrow> go_float \<Rightarrow> bool" where
  "float_less (Fin x) (Fin y) = (x < y)"
| "float_less (Inf neg) (Fin y) = neg"
| "float_less (Fin x) (Inf neg) = (\<not> neg)"
| "float_less (Inf a) (Inf b) = (a \<and> \<not> b)"
| "float_less NaN y = False"
| "float_less x NaN = False"

text \<open>\<open>underscoreOK\<close>: an underscore stands between two digits, or after a base prefix. \<open>saw\<close> is the kind of the last character.\<close>

fun underscore_run :: "bool \<Rightarrow> char \<Rightarrow> gostring \<Rightarrow> bool" where
  "underscore_run hex saw [] = (saw \<noteq> CHR ''_'')"
| "underscore_run hex saw (c # cs) =
     (if is_digit c \<or> (hex \<and> hex_val c \<noteq> None) then underscore_run hex (CHR ''0'') cs
      else if c = CHR ''_'' then saw = CHR ''0'' \<and> underscore_run hex (CHR ''_'') cs
      else saw \<noteq> CHR ''_'' \<and> underscore_run hex (CHR ''!'') cs)"

definition strip_sign :: "gostring \<Rightarrow> bool \<times> gostring" where
  "strip_sign s = (has_prefix s ''-'', if has_prefix s ''-'' \<or> has_prefix s ''+'' then drop 1 s else s)"

definition underscore_ok :: "gostring \<Rightarrow> bool" where
  "underscore_ok s =
     (let t = snd (strip_sign s)
      in if has_prefix (to_lower t) ''0x'' then underscore_run True (CHR ''0'') (drop 2 t)
         else if has_prefix (to_lower t) ''0b'' \<or> has_prefix (to_lower t) ''0o'' then underscore_run False (CHR ''0'') (drop 2 t)
         else underscore_run False (CHR ''^'') t)"

text \<open>The exponent after the mantissa: \<open>mark\<close>, an optional sign and digits; absent only where \<open>optional\<close>.\<close>

definition float_exponent :: "char \<Rightarrow> bool \<Rightarrow> gostring \<Rightarrow> int option" where
  "float_exponent mark optional s =
     (case s of
        [] \<Rightarrow> if optional then Some 0 else None
      | c # t \<Rightarrow> (case strip_sign t of (neg, ds) \<Rightarrow>
          if lower_char c \<noteq> mark \<or> ds = [] \<or> \<not> list_all is_digit ds then None
          else Some (if neg then - digits_val 0 ds else digits_val 0 ds)))"

definition mantissa :: "(char \<Rightarrow> bool) \<Rightarrow> gostring \<Rightarrow> gostring \<times> gostring \<times> gostring" where
  "mantissa digit s =
     (let r = dropWhile digit s
      in if has_prefix r ''.'' then (takeWhile digit s, takeWhile digit (drop 1 r), dropWhile digit (drop 1 r))
         else (takeWhile digit s, [], r))"

definition hex_digits_val :: "gostring \<Rightarrow> int" where
  "hex_digits_val s = fold (\<lambda>c acc. 16 * acc + the (hex_val c)) s 0"

definition read_float :: "gostring \<Rightarrow> rat option" where
  "read_float s =
     (if has_prefix (to_lower s) ''0x'' then
        (case mantissa (\<lambda>c. hex_val c \<noteq> None) (drop 2 s) of (ip, fp, r) \<Rightarrow>
           if ip @ fp = [] then None
           else map_option (\<lambda>e. of_int (hex_digits_val (ip @ fp)) * 2 powi (e - 4 * int (length fp)))
                  (float_exponent (CHR ''p'') False r))
      else
        (case mantissa is_digit s of (ip, fp, r) \<Rightarrow>
           if ip @ fp = [] then None
           else map_option (\<lambda>e. of_int (digits_val 0 (ip @ fp)) * 10 powi (e - int (length fp)))
                  (float_exponent (CHR ''e'') True r)))"

text \<open>\<open>strconv.ParseFloat(s, 64)\<close>; \<open>None\<close> is an error, also that of a number out of range.\<close>

definition ParseFloat :: "gostring \<Rightarrow> go_float option" where
  "ParseFloat s =
     (case strip_sign s of (neg, t) \<Rightarrow>
        if to_lower t \<in> {''inf'', ''infinity''} then Some (Inf neg)
        else if to_lower s = ''nan'' then Some NaN
        else if CHR ''_'' \<in> set s \<and> \<not> underscore_ok s then None
        else (case read_float (replace_all ''_'' [] t) of
            None \<Rightarrow> None
          | Some x \<Rightarrow> if 2 ^ 1024 \<le> fl x then None else Some (Fin (if neg then - fl x else fl x))))"

subsection \<open>Durations\<close>

definition duration_unit :: "gostring \<Rightarrow> duration option" where
  "duration_unit = map_of
     [(''ns'', nanosecond), (''us'', 1000 * nanosecond), ([CHR 0xC2, CHR 0xB5, CHR ''s''], 1000 * nanosecond),
      ([CHR 0xCE, CHR 0xBC, CHR ''s''], 1000 * nanosecond), (''ms'', millisecond), (''s'', second), (''m'', minute), (''h'', hour)]"

fun leading_int :: "int \<Rightarrow> gostring \<Rightarrow> int option" where
  "leading_int x [] = Some x"
| "leading_int x (c # cs) =
     (if 2 ^ 63 div 10 < x then None
      else let y = 10 * x + digit_val c in if 2 ^ 63 < y then None else leading_int y cs)"

fun leading_fraction :: "int \<Rightarrow> rat \<Rightarrow> gostring \<Rightarrow> int \<times> rat" where
  "leading_fraction x scale [] = (x, scale)"
| "leading_fraction x scale (c # cs) =
     (if (2 ^ 63 - 1) div 10 < x \<or> 2 ^ 63 < 10 * x + digit_val c then (x, scale)
      else leading_fraction (10 * x + digit_val c) (fmul scale 10) cs)"

definition number_char :: "char \<Rightarrow> bool" where
  "number_char c = (c = CHR ''.'' \<or> is_digit c)"

text \<open>One number with its unit at the front of \<open>s\<close>: its value and the rest.\<close>

definition duration_term :: "gostring \<Rightarrow> (int \<times> gostring) option" where
  "duration_term s =
     (case mantissa is_digit s of (ip, fp, r) \<Rightarrow>
        if ip @ fp = [] then None
        else (case (leading_int 0 ip, duration_unit (takeWhile (\<lambda>c. \<not> number_char c) r)) of
            (Some v, Some unit) \<Rightarrow>
              if 2 ^ 63 div unit < v then None
              else (case leading_fraction 0 1 fp of (f, scale) \<Rightarrow>
                let v = v * unit + (if 0 < f then to_int (fmul (fl (of_int f)) (fdiv (of_int unit) scale)) else 0)
                in if 2 ^ 63 < v then None else Some (v, dropWhile (\<lambda>c. \<not> number_char c) r))
          | _ \<Rightarrow> None))"

lemma duration_term_shorter: "duration_term s = Some (v, r) \<Longrightarrow> length r < length s"
proof -
  assume a: "duration_term s = Some (v, r)"
  obtain ip fp q where m: "mantissa is_digit s = (ip, fp, q)" by (cases "mantissa is_digit s") auto
  have "ip @ fp \<noteq> []" and r: "r = dropWhile (\<lambda>c. \<not> number_char c) q"
    using a m by (auto simp: duration_term_def Let_def split: if_splits option.splits prod.splits)
  moreover have "length ip + length fp + length q \<le> length s"
  proof (cases "has_prefix (dropWhile is_digit s) ''.''")
    case True
    then obtain t where t: "dropWhile is_digit s = CHR ''.'' # t" by (cases "dropWhile is_digit s") auto
    have "length s = length (takeWhile is_digit s) + length (dropWhile is_digit s)"
      by (metis length_append takeWhile_dropWhile_id)
    moreover have "length t = length (takeWhile is_digit t) + length (dropWhile is_digit t)"
      by (metis length_append takeWhile_dropWhile_id)
    ultimately show ?thesis using m t by (auto simp: mantissa_def Let_def)
  next
    case False
    have "length s = length (takeWhile is_digit s) + length (dropWhile is_digit s)"
      by (metis length_append takeWhile_dropWhile_id)
    with False m show ?thesis by (auto simp: mantissa_def Let_def)
  qed
  moreover have "length r \<le> length q" unfolding r by (rule length_dropWhile_le)
  ultimately show ?thesis by (cases ip; cases fp) auto
qed

function duration_terms :: "int \<Rightarrow> gostring \<Rightarrow> int option" where
  "duration_terms d s =
     (if s = [] then Some d
      else (case duration_term s of
          None \<Rightarrow> None
        | Some (v, r) \<Rightarrow> if 2 ^ 63 < d + v then None else duration_terms (d + v) r))"
  by pat_completeness auto
termination
  by (relation "measure (\<lambda>(d, s). length s)") (auto dest: duration_term_shorter)

declare duration_terms.simps [simp del]

text \<open>\<open>time.ParseDuration\<close>.\<close>

definition ParseDuration :: "gostring \<Rightarrow> duration option" where
  "ParseDuration s =
     (case strip_sign s of (neg, t) \<Rightarrow>
        if t = ''0'' then Some 0
        else if t = [] then None
        else (case duration_terms 0 t of
            None \<Rightarrow> None
          | Some d \<Rightarrow> if neg then Some (- d) else if 2 ^ 63 \<le> d then None else Some d))"

text \<open>\<open>fmtFrac\<close>: the last \<open>prec\<close> digits of \<open>v\<close> as a fraction without trailing zeros.\<close>

definition fmt_frac :: "int \<Rightarrow> nat \<Rightarrow> gostring" where
  "fmt_frac v prec =
     (let ds = map (\<lambda>i. char_of (48 + v div 10 ^ i mod 10)) (rev [0..<prec]);
          ds = trim_right ds ''0''
      in if ds = [] then [] else CHR ''.'' # ds)"

text \<open>\<open>time.Duration.String\<close>.\<close>

definition duration_string :: "duration \<Rightarrow> gostring" where
  "duration_string d =
     (let u = \<bar>d\<bar>;
          text = (if u = 0 then ''0s''
            else if u < 1000 then show_int u @ ''ns''
            else if u < millisecond then show_int (u div 1000) @ fmt_frac u 3 @ [CHR 0xC2, CHR 0xB5, CHR ''s'']
            else if u < second then show_int (u div millisecond) @ fmt_frac u 6 @ ''ms''
            else let s = u div second; m = s div 60; h = m div 60
                 in (if 0 < h then show_int h @ ''h'' else []) @ (if 0 < m then show_int (m mod 60) @ ''m'' else [])
                    @ show_int (s mod 60) @ fmt_frac u 9 @ ''s'')
      in if d < 0 then CHR ''-'' # text else text)"

definition FormatDuration :: "duration \<Rightarrow> gostring" where
  "FormatDuration d =
     (let s = duration_string d;
          s = (if has_suffix s ''m0s'' then trim_suffix s ''0s'' else s)
      in if has_suffix s ''h0m'' then trim_suffix s ''0m'' else s)"

subsection \<open>The settings\<close>

record Config =
  AppName :: gostring
  HTTPListenAddr :: gostring
  EnableTLS :: bool
  TLSCertFile :: gostring
  TLSKeyFile :: gostring
  ForceHTTPS :: bool
  SMTPListenAddr :: gostring
  PublicBaseURL :: gostring
  SMTPDomain :: gostring
  DBPath :: gostring
  DataDir :: gostring
  MailboxTTL :: duration
  RetentionTTL :: duration
  CleanupInterval :: duration
  MaxMessageBytes :: int
  MaxActivePerIP :: int
  MaxActiveGlobal :: int
  WebRateLimitPerMin :: int
  WebBurstPer10Sec :: int
  SMTPRateLimitPerHour :: int
  SMTPBurstPerMin :: int
  PayloadRateLimitPerMin :: int
  EnableRBLChecks :: bool
  RBLProviders :: "gostring list"
  DNSFallbackResolvers :: "gostring list"
  DNSFallbackTimeout :: duration
  CfgEnableDomainAge :: bool
  CfgEnableDomainBlocklist :: bool
  DomainBlocklistProviders :: "gostring list"
  CfgEnableBrokenLinks :: bool
  EnableSpamAssassin :: bool
  SpamAssassinHostPort :: gostring
  SpamAssassinWarnRatio :: go_float
  EnableRspamd :: bool
  RspamdURL :: gostring
  RspamdPassword :: gostring
  AlertWebhookURL :: gostring
  TrustedProxyCIDRs :: "gostring list"
  PrivacyOperatorName :: gostring
  PrivacyOperatorAddress :: gostring
  PrivacyOperatorEmail :: gostring
  PrivacyHideTemplateNote :: bool
  EnableInboxPlacement :: bool
  SeedAccountsFile :: gostring
  IPTCheckInterval :: duration
  IPTAlertEmail :: gostring
  IPTAlertSMTPAddr :: gostring
  IPTAlertSMTPFrom :: gostring
  IPTAlertSMTPUser :: gostring
  IPTAlertSMTPPass :: gostring
  IPTAlertIncludeRaw :: bool
  IPTRateLimitPerHour :: int
  IPTTokenLength :: int
  IPTTestDuration :: duration
  IPTPollInterval :: duration
  IPTEventsInterval :: duration
  IPTSearchMargin :: duration
  IPTSpamFolders :: "gostring list"
  UIDefaultTheme :: gostring
  CookieSecure :: gostring
  LangCookieName :: gostring
  LangCookieDays :: int
  MailboxCookieName :: gostring
  ForceHTTPSExemptPaths :: "gostring list"

definition UIThemes :: "gostring list" where "UIThemes = [''auto'', ''light'', ''dark'', ''werkbank'']"
definition CookieSecureModes :: "gostring list" where "CookieSecureModes = [''auto'', ''always'', ''never'']"
definition MaxCookieDays :: int where "MaxCookieDays = 400"
definition DefaultPayloadRateLimitPerMin :: int where "DefaultPayloadRateLimitPerMin = 30"
definition MaxPayloadRateLimitPerMin :: int where "MaxPayloadRateLimitPerMin = 600"
definition DefaultIPTRateLimitPerHour :: int where "DefaultIPTRateLimitPerHour = 3"
definition MaxIPTRateLimitPerHour :: int where "MaxIPTRateLimitPerHour = 60"
definition DefaultIPTTokenLength :: int where "DefaultIPTTokenLength = 32"
definition MinIPTTokenLength :: int where "MinIPTTokenLength = 16"
definition MaxIPTTokenLength :: int where "MaxIPTTokenLength = 64"
definition DefaultIPTTestDuration :: duration where "DefaultIPTTestDuration = 10 * minute"
definition MinIPTTestDuration :: duration where "MinIPTTestDuration = minute"
definition MaxIPTTestDuration :: duration where "MaxIPTTestDuration = hour"
definition DefaultIPTPollInterval :: duration where "DefaultIPTPollInterval = 30 * second"
definition MinIPTPollInterval :: duration where "MinIPTPollInterval = 5 * second"
definition MaxIPTPollInterval :: duration where "MaxIPTPollInterval = 5 * minute"
definition DefaultIPTEventsInterval :: duration where "DefaultIPTEventsInterval = 5 * second"
definition MinIPTEventsInterval :: duration where "MinIPTEventsInterval = second"
definition MaxIPTEventsInterval :: duration where "MaxIPTEventsInterval = minute"
definition DefaultIPTSearchMargin :: duration where "DefaultIPTSearchMargin = 2 * minute"
definition MaxIPTSearchMargin :: duration where "MaxIPTSearchMargin = hour"
definition DefaultIPTSpamFolders :: gostring where
  "DefaultIPTSpamFolders = ''Spam,Junk,[Gmail]/Spam,Bulk Mail,Bulk,Junk E-Mail''"
definition NoSpamFolders :: gostring where "NoSpamFolders = ''none''"
definition MaxIPTSpamFolders :: nat where "MaxIPTSpamFolders = 20"
definition MaxIPTSpamFolderChars :: nat where "MaxIPTSpamFolderChars = 100"
definition DefaultForceHTTPSExemptPaths :: gostring where "DefaultForceHTTPSExemptPaths = ''/healthz,/readyz''"
definition NoExemptPaths :: gostring where "NoExemptPaths = ''none''"
definition MinTimeout :: duration where "MinTimeout = 500 * millisecond"
definition MaxTimeout :: duration where "MaxTimeout = 10 * second"
definition DefaultSpamAssassinWarnRatio :: float64 where "DefaultSpamAssassinWarnRatio = fl (9 / 10)"
definition MinSpamAssassinWarnRatio :: float64 where "MinSpamAssassinWarnRatio = fl (1 / 10)"
definition MaxSpamAssassinWarnRatio :: float64 where "MaxSpamAssassinWarnRatio = 1"

datatype config_error =
    NotWholeNumber gostring gostring
  | NotDuration gostring gostring
  | NotNumber gostring gostring
  | OutsideInt gostring int int int
  | OutsideDuration gostring duration duration duration
  | OutsideRatio go_float
  | BelowOne gostring int
  | NotPositive gostring duration
  | MissingTLSFiles
  | CoversEveryPage
  | UnusablePath gostring
  | MessageTooSmall int
  | NotWholeMinutes duration
  | PollNotShorter duration duration
  | TooManyFolders nat
  | UnusableFolder gostring
  | BadResolvers resolver_error
  | NotATheme gostring
  | NotACookieMode gostring
  | NotACookieName gostring gostring
  | SameCookieNames gostring

text \<open>Checks that run one after the other: the error of the first that fails.\<close>

fun first_error :: "'e option list \<Rightarrow> 'e option" where
  "first_error [] = None"
| "first_error (e # es) = (case e of Some x \<Rightarrow> Some x | None \<Rightarrow> first_error es)"

definition fails :: "bool \<Rightarrow> 'e \<Rightarrow> 'e option" where
  "fails b e = (if b then Some e else None)"

subsection \<open>Reading the environment\<close>

definition getEnv :: "(gostring \<Rightarrow> gostring) \<Rightarrow> gostring \<Rightarrow> gostring \<Rightarrow> gostring" where
  "getEnv env key fallback = (let v = trim_space (env key) in if v = [] then fallback else v)"

definition getEnvInt :: "(gostring \<Rightarrow> gostring) \<Rightarrow> gostring \<Rightarrow> int \<Rightarrow> int" where
  "getEnvInt env key fallback =
     (let v = trim_space (env key)
      in if v = [] then fallback else (case atoi v of None \<Rightarrow> fallback | Some n \<Rightarrow> n))"

definition getEnvIntChecked :: "(gostring \<Rightarrow> gostring) \<Rightarrow> gostring \<Rightarrow> int \<Rightarrow> config_error + int" where
  "getEnvIntChecked env key fallback =
     (let v = trim_space (env key)
      in if v = [] then Inr fallback else (case atoi v of None \<Rightarrow> Inl (NotWholeNumber key v) | Some n \<Rightarrow> Inr n))"

definition getEnvInt64 :: "(gostring \<Rightarrow> gostring) \<Rightarrow> gostring \<Rightarrow> int \<Rightarrow> int" where
  "getEnvInt64 env key fallback =
     (let v = trim_space (env key)
      in if v = [] then fallback else (case atoi v of None \<Rightarrow> fallback | Some n \<Rightarrow> n))"

definition getEnvBool :: "(gostring \<Rightarrow> gostring) \<Rightarrow> gostring \<Rightarrow> bool \<Rightarrow> bool" where
  "getEnvBool env key fallback =
     (let v = trim_space (env key)
      in if v = [] then fallback else (case ParseBool v of None \<Rightarrow> fallback | Some b \<Rightarrow> b))"

definition getEnvDuration :: "(gostring \<Rightarrow> gostring) \<Rightarrow> gostring \<Rightarrow> duration \<Rightarrow> duration" where
  "getEnvDuration env key fallback =
     (let v = trim_space (env key)
      in if v = [] then fallback else (case ParseDuration v of None \<Rightarrow> fallback | Some d \<Rightarrow> d))"

definition getEnvDurationChecked :: "(gostring \<Rightarrow> gostring) \<Rightarrow> gostring \<Rightarrow> duration \<Rightarrow> config_error + duration" where
  "getEnvDurationChecked env key fallback =
     (let v = trim_space (env key)
      in if v = [] then Inr fallback else (case ParseDuration v of None \<Rightarrow> Inl (NotDuration key v) | Some d \<Rightarrow> Inr d))"

definition splitCSV :: "gostring \<Rightarrow> gostring list" where
  "splitCSV s =
     (if trim_space s = [] then []
      else filter (\<lambda>p. p \<noteq> []) (map trim_space (split (CHR '','') s)))"

definition splitFolderList :: "gostring \<Rightarrow> gostring list" where
  "splitFolderList s = (if equal_fold (trim_space s) NoSpamFolders then [] else splitCSV s)"

definition splitPathList :: "gostring \<Rightarrow> gostring list" where
  "splitPathList s = (if equal_fold (trim_space s) NoExemptPaths then [] else splitCSV s)"

subsection \<open>Checks\<close>

definition hasDotSegment :: "gostring \<Rightarrow> bool" where
  "hasDotSegment p = list_ex (\<lambda>seg. seg = ''.'' \<or> seg = ''..'') (split (CHR ''/'') p)"

definition is_alnum :: "char \<Rightarrow> bool" where
  "is_alnum c = (let n = (of_char c :: nat) in is_digit c \<or> (65 \<le> n \<and> n \<le> 90) \<or> (97 \<le> n \<and> n \<le> 122))"

text \<open>\<open>exemptPathPattern\<close>: segments of path characters, each after a slash, and an optional slash at the end.\<close>

definition path_char :: "char \<Rightarrow> bool" where
  "path_char c = (is_alnum c \<or> c \<in> set ''._~!$&()*+,;=:@-'' \<or> c = CHR 0x27)"

definition exemptPathPattern :: "gostring \<Rightarrow> bool" where
  "exemptPathPattern p =
     (case split (CHR ''/'') p of
        [] # segs \<Rightarrow>
          (let segs = (if 1 < length segs \<and> last segs = [] then butlast segs else segs)
           in segs \<noteq> [] \<and> list_all (\<lambda>seg. seg \<noteq> [] \<and> list_all path_char seg) segs)
      | _ \<Rightarrow> False)"

definition cookieNamePattern :: "gostring \<Rightarrow> bool" where
  "cookieNamePattern s = (1 \<le> length s \<and> length s \<le> 64 \<and> list_all (\<lambda>c. is_alnum c \<or> c \<in> set ''_.-'') s)"

definition check_path :: "gostring \<Rightarrow> config_error option" where
  "check_path p =
     (if p = ''/'' then Some CoversEveryPage
      else if \<not> exemptPathPattern p \<or> hasDotSegment p then Some (UnusablePath p) else None)"

definition checkHTTPSExemptPaths :: "gostring list \<Rightarrow> config_error option" where
  "checkHTTPSExemptPaths paths = first_error (map check_path paths)"

definition checkRequestLimits :: "Config \<Rightarrow> config_error option" where
  "checkRequestLimits cfg = first_error
     [fails (PayloadRateLimitPerMin cfg < 1 \<or> MaxPayloadRateLimitPerMin < PayloadRateLimitPerMin cfg)
        (OutsideInt ''PAYLOAD_RATE_LIMIT_PER_MIN'' (PayloadRateLimitPerMin cfg) 1 MaxPayloadRateLimitPerMin),
      fails (IPTRateLimitPerHour cfg < 1 \<or> MaxIPTRateLimitPerHour < IPTRateLimitPerHour cfg)
        (OutsideInt ''IPT_RATE_LIMIT_PER_HOUR'' (IPTRateLimitPerHour cfg) 1 MaxIPTRateLimitPerHour)]"

definition check_duration :: "gostring \<Rightarrow> duration \<Rightarrow> duration \<Rightarrow> duration \<Rightarrow> config_error option" where
  "check_duration key v least most = fails (v < least \<or> most < v) (OutsideDuration key v least most)"

definition checkIPTTiming :: "Config \<Rightarrow> config_error option" where
  "checkIPTTiming cfg = first_error
     [check_duration ''IPT_TEST_DURATION'' (IPTTestDuration cfg) MinIPTTestDuration MaxIPTTestDuration,
      check_duration ''IPT_POLL_INTERVAL'' (IPTPollInterval cfg) MinIPTPollInterval MaxIPTPollInterval,
      check_duration ''IPT_EVENTS_INTERVAL'' (IPTEventsInterval cfg) MinIPTEventsInterval MaxIPTEventsInterval,
      check_duration ''IPT_SEARCH_MARGIN'' (IPTSearchMargin cfg) 0 MaxIPTSearchMargin,
      fails (IPTTestDuration cfg mod minute \<noteq> 0) (NotWholeMinutes (IPTTestDuration cfg)),
      fails (IPTTestDuration cfg \<le> IPTPollInterval cfg) (PollNotShorter (IPTPollInterval cfg) (IPTTestDuration cfg))]"

text \<open>\<open>unicode.IsControl\<close>: U+0000 to U+001F and U+007F to U+009F.\<close>

definition is_control :: "gostring \<Rightarrow> bool" where
  "is_control r =
     (case r of
        [c] \<Rightarrow> (of_char c :: nat) < 0x20 \<or> (of_char c :: nat) = 0x7F
      | [a, b] \<Rightarrow> a = CHR 0xC2 \<and> (of_char b :: nat) \<le> 0x9F
      | _ \<Rightarrow> False)"

definition check_folder :: "gostring \<Rightarrow> config_error option" where
  "check_folder f = fails (MaxIPTSpamFolderChars < length (runes f) \<or> list_ex is_control (runes f)) (UnusableFolder f)"

definition checkIPTSpamFolders :: "gostring list \<Rightarrow> config_error option" where
  "checkIPTSpamFolders folders =
     (if MaxIPTSpamFolders < length folders then Some (TooManyFolders (length folders))
      else first_error (map check_folder folders))"

definition checkCookieSettings :: "Config \<Rightarrow> config_error option" where
  "checkCookieSettings cfg = first_error
     [fails (CookieSecure cfg \<notin> set CookieSecureModes) (NotACookieMode (CookieSecure cfg)),
      fails (\<not> cookieNamePattern (LangCookieName cfg)) (NotACookieName ''LANG_COOKIE_NAME'' (LangCookieName cfg)),
      fails (\<not> cookieNamePattern (MailboxCookieName cfg)) (NotACookieName ''MAILBOX_COOKIE_NAME'' (MailboxCookieName cfg)),
      fails (LangCookieName cfg = MailboxCookieName cfg) (SameCookieNames (LangCookieName cfg)),
      fails (LangCookieDays cfg < 1 \<or> MaxCookieDays < LangCookieDays cfg) (OutsideInt ''LANG_COOKIE_DAYS'' (LangCookieDays cfg) 1 MaxCookieDays)]"

definition loadSpamAssassinWarnRatio :: "(gostring \<Rightarrow> gostring) \<Rightarrow> Config \<Rightarrow> config_error + Config" where
  "loadSpamAssassinWarnRatio env cfg =
     (let v = trim_space (env ''SPAMASSASSIN_WARN_RATIO'')
      in case (if v = [] then Some (Fin DefaultSpamAssassinWarnRatio) else ParseFloat (replace_all '','' ''.'' v)) of
           None \<Rightarrow> Inl (NotNumber ''SPAMASSASSIN_WARN_RATIO'' v)
         | Some ratio \<Rightarrow>
             if float_less ratio (Fin MinSpamAssassinWarnRatio) \<or> float_less (Fin MaxSpamAssassinWarnRatio) ratio
             then Inl (OutsideRatio ratio)
             else Inr (cfg\<lparr>SpamAssassinWarnRatio := ratio\<rparr>))"

definition loadDNSFallback :: "(gostring \<Rightarrow> gostring) \<Rightarrow> Config \<Rightarrow> config_error + Config" where
  "loadDNSFallback env cfg =
     (case ParseResolvers (getEnv env ''DNS_FALLBACK_RESOLVERS'' DefaultResolvers) of
        Inl e \<Rightarrow> Inl (BadResolvers e)
      | Inr rs \<Rightarrow>
          (case getEnvDurationChecked env ''DNS_FALLBACK_TIMEOUT'' DefaultTimeout of
             Inl e \<Rightarrow> Inl e
           | Inr timeout \<Rightarrow>
               if timeout < MinTimeout \<or> MaxTimeout < timeout
               then Inl (OutsideDuration ''DNS_FALLBACK_TIMEOUT'' timeout MinTimeout MaxTimeout)
               else Inr (cfg\<lparr>DNSFallbackResolvers := rs, DNSFallbackTimeout := timeout\<rparr>)))"

subsection \<open>Load\<close>

definition bind_ok :: "'e + 'a \<Rightarrow> ('a \<Rightarrow> 'e + 'b) \<Rightarrow> 'e + 'b" where
  "bind_ok x f = (case x of Inl e \<Rightarrow> Inl e | Inr a \<Rightarrow> f a)"

text \<open>The settings as read, with the values that were checked while reading.\<close>

definition environment_config :: "(gostring \<Rightarrow> gostring) \<Rightarrow> int \<Rightarrow> int \<Rightarrow> int \<Rightarrow> int \<Rightarrow> duration \<Rightarrow> duration \<Rightarrow> duration \<Rightarrow> duration \<Rightarrow> Config" where
  "environment_config env langCookieDays payloadRateLimit iptRateLimit iptTokenLength testDuration pollInterval eventsInterval searchMargin =
     \<lparr>
      AppName = getEnv env ''APP_NAME'' ''sender.report'',
      HTTPListenAddr = getEnv env ''HTTP_LISTEN_ADDR'' '':8080'',
      EnableTLS = getEnvBool env ''ENABLE_TLS'' False,
      TLSCertFile = getEnv env ''TLS_CERT_FILE'' [],
      TLSKeyFile = getEnv env ''TLS_KEY_FILE'' [],
      ForceHTTPS = getEnvBool env ''FORCE_HTTPS'' False,
      SMTPListenAddr = getEnv env ''SMTP_LISTEN_ADDR'' '':2525'',
      PublicBaseURL = trim_right (getEnv env ''PUBLIC_BASE_URL'' []) ''/'',
      SMTPDomain = to_lower (getEnv env ''SMTP_DOMAIN'' []),
      DBPath = getEnv env ''DB_PATH'' ''/data/sender-report.db'',
      DataDir = getEnv env ''DATA_DIR'' ''/data'',
      MailboxTTL = getEnvDuration env ''MAILBOX_TTL'' (24 * hour),
      RetentionTTL = getEnvDuration env ''DATA_RETENTION_TTL'' (7 * 24 * hour),
      CleanupInterval = getEnvDuration env ''CLEANUP_INTERVAL'' (30 * minute),
      MaxMessageBytes = getEnvInt64 env ''MAX_MESSAGE_BYTES'' (2 * 1024 * 1024),
      MaxActivePerIP = getEnvInt env ''MAX_ACTIVE_MAILBOXES_PER_IP'' 20,
      MaxActiveGlobal = getEnvInt env ''MAX_ACTIVE_MAILBOXES_GLOBAL'' 2000,
      WebRateLimitPerMin = getEnvInt env ''WEB_RATE_LIMIT_PER_MIN'' 60,
      WebBurstPer10Sec = getEnvInt env ''WEB_BURST_PER_10_SEC'' 20,
      SMTPRateLimitPerHour = getEnvInt env ''SMTP_RATE_LIMIT_PER_HOUR'' 200,
      SMTPBurstPerMin = getEnvInt env ''SMTP_BURST_PER_MIN'' 40,
      PayloadRateLimitPerMin = payloadRateLimit,
      EnableRBLChecks = getEnvBool env ''ENABLE_RBL_CHECKS'' False,
      RBLProviders = splitCSV (getEnv env ''RBL_PROVIDERS'' ''zen.spamhaus.org,bl.spamcop.net,b.barracudacentral.org,psbl.surriel.com,dnsbl.dronebl.org,bl.blocklist.de''),
      DNSFallbackResolvers = [],
      DNSFallbackTimeout = 0,
      CfgEnableDomainAge = getEnvBool env ''ENABLE_DOMAIN_AGE'' False,
      CfgEnableDomainBlocklist = getEnvBool env ''ENABLE_DOMAIN_BLOCKLIST'' False,
      DomainBlocklistProviders = splitCSV (getEnv env ''DOMAIN_BLOCKLIST_PROVIDERS'' ''dbl.spamhaus.org,multi.uribl.com''),
      CfgEnableBrokenLinks = getEnvBool env ''ENABLE_BROKEN_LINKS'' False,
      EnableSpamAssassin = getEnvBool env ''ENABLE_SPAMASSASSIN'' False,
      SpamAssassinHostPort = getEnv env ''SPAMASSASSIN_HOSTPORT'' ''spamd:783'',
      SpamAssassinWarnRatio = Fin 0,
      EnableRspamd = getEnvBool env ''ENABLE_RSPAMD'' False,
      RspamdURL = getEnv env ''RSPAMD_URL'' ''http://rspamd:11334/checkv2'',
      RspamdPassword = getEnv env ''RSPAMD_PASSWORD'' [],
      AlertWebhookURL = getEnv env ''ALERT_WEBHOOK_URL'' [],
      TrustedProxyCIDRs = splitCSV (getEnv env ''TRUSTED_PROXY_CIDRS'' []),
      PrivacyOperatorName = getEnv env ''PRIVACY_OPERATOR_NAME'' [],
      PrivacyOperatorAddress = getEnv env ''PRIVACY_OPERATOR_ADDRESS'' [],
      PrivacyOperatorEmail = getEnv env ''PRIVACY_OPERATOR_EMAIL'' [],
      PrivacyHideTemplateNote = getEnvBool env ''PRIVACY_HIDE_TEMPLATE_NOTE'' False,
      EnableInboxPlacement = getEnvBool env ''ENABLE_INBOX_PLACEMENT'' False,
      SeedAccountsFile = getEnv env ''SEED_ACCOUNTS_FILE'' [],
      IPTCheckInterval = getEnvDuration env ''IPT_CHECK_INTERVAL'' (6 * hour),
      IPTAlertEmail = getEnv env ''IPT_ALERT_EMAIL'' [],
      IPTAlertSMTPAddr = getEnv env ''IPT_ALERT_SMTP_ADDR'' [],
      IPTAlertSMTPFrom = getEnv env ''IPT_ALERT_SMTP_FROM'' [],
      IPTAlertSMTPUser = getEnv env ''IPT_ALERT_SMTP_USER'' [],
      IPTAlertSMTPPass = getEnv env ''IPT_ALERT_SMTP_PASS'' [],
      IPTAlertIncludeRaw = getEnvBool env ''IPT_ALERT_INCLUDE_RAW_ERRORS'' True,
      IPTRateLimitPerHour = iptRateLimit,
      IPTTokenLength = iptTokenLength,
      IPTTestDuration = testDuration,
      IPTPollInterval = pollInterval,
      IPTEventsInterval = eventsInterval,
      IPTSearchMargin = searchMargin,
      IPTSpamFolders = splitFolderList (getEnv env ''IPT_SPAM_FOLDERS'' DefaultIPTSpamFolders),
      UIDefaultTheme = to_lower (getEnv env ''UI_DEFAULT_THEME'' ''auto''),
      CookieSecure = to_lower (getEnv env ''COOKIE_SECURE'' ''auto''),
      LangCookieName = getEnv env ''LANG_COOKIE_NAME'' ''sr_lang'',
      LangCookieDays = langCookieDays,
      MailboxCookieName = getEnv env ''MAILBOX_COOKIE_NAME'' ''sr_mailbox'',
      ForceHTTPSExemptPaths = splitPathList (getEnv env ''FORCE_HTTPS_EXEMPT_PATHS'' DefaultForceHTTPSExemptPaths)\<rparr>"

definition check_settings :: "Config \<Rightarrow> config_error option" where
  "check_settings cfg = first_error
     ([fails (EnableTLS cfg \<and> (TLSCertFile cfg = [] \<or> TLSKeyFile cfg = [])) MissingTLSFiles,
       checkHTTPSExemptPaths (ForceHTTPSExemptPaths cfg),
       fails (MaxMessageBytes cfg < 512 * 1024) (MessageTooSmall (MaxMessageBytes cfg))]
      @ map (\<lambda>(key, v). fails (v \<le> 0) (BelowOne key v))
          [(''MAX_ACTIVE_MAILBOXES_PER_IP'', MaxActivePerIP cfg), (''MAX_ACTIVE_MAILBOXES_GLOBAL'', MaxActiveGlobal cfg),
           (''WEB_RATE_LIMIT_PER_MIN'', WebRateLimitPerMin cfg), (''WEB_BURST_PER_10_SEC'', WebBurstPer10Sec cfg),
           (''SMTP_RATE_LIMIT_PER_HOUR'', SMTPRateLimitPerHour cfg), (''SMTP_BURST_PER_MIN'', SMTPBurstPerMin cfg)]
      @ [checkRequestLimits cfg,
         fails (IPTTokenLength cfg < MinIPTTokenLength \<or> MaxIPTTokenLength < IPTTokenLength cfg)
           (OutsideInt ''IPT_TOKEN_LENGTH'' (IPTTokenLength cfg) MinIPTTokenLength MaxIPTTokenLength),
         checkIPTTiming cfg, checkIPTSpamFolders (IPTSpamFolders cfg)]
      @ map (\<lambda>(key, v). fails (v \<le> 0) (NotPositive key v))
          [(''MAILBOX_TTL'', MailboxTTL cfg), (''DATA_RETENTION_TTL'', RetentionTTL cfg), (''CLEANUP_INTERVAL'', CleanupInterval cfg)])"

definition check_interface :: "Config \<Rightarrow> config_error option" where
  "check_interface cfg = first_error
     [fails (UIDefaultTheme cfg \<notin> set UIThemes) (NotATheme (UIDefaultTheme cfg)), checkCookieSettings cfg]"

definition error_or :: "'a \<Rightarrow> 'e option \<Rightarrow> 'e + 'a" where
  "error_or x e = (case e of Some y \<Rightarrow> Inl y | None \<Rightarrow> Inr x)"

definition Load :: "(gostring \<Rightarrow> gostring) \<Rightarrow> config_error + Config" where
  "Load env =
     bind_ok (getEnvIntChecked env ''LANG_COOKIE_DAYS'' 365) (\<lambda>langCookieDays.
     bind_ok (getEnvIntChecked env ''PAYLOAD_RATE_LIMIT_PER_MIN'' DefaultPayloadRateLimitPerMin) (\<lambda>payloadRateLimit.
     bind_ok (getEnvIntChecked env ''IPT_RATE_LIMIT_PER_HOUR'' DefaultIPTRateLimitPerHour) (\<lambda>iptRateLimit.
     bind_ok (getEnvIntChecked env ''IPT_TOKEN_LENGTH'' DefaultIPTTokenLength) (\<lambda>iptTokenLength.
     bind_ok (getEnvDurationChecked env ''IPT_TEST_DURATION'' DefaultIPTTestDuration) (\<lambda>testDuration.
     bind_ok (getEnvDurationChecked env ''IPT_POLL_INTERVAL'' DefaultIPTPollInterval) (\<lambda>pollInterval.
     bind_ok (getEnvDurationChecked env ''IPT_EVENTS_INTERVAL'' DefaultIPTEventsInterval) (\<lambda>eventsInterval.
     bind_ok (getEnvDurationChecked env ''IPT_SEARCH_MARGIN'' DefaultIPTSearchMargin) (\<lambda>searchMargin.
     (let cfg = environment_config env langCookieDays payloadRateLimit iptRateLimit iptTokenLength
                  testDuration pollInterval eventsInterval searchMargin
      in bind_ok (error_or cfg (check_settings cfg)) (\<lambda>cfg.
         bind_ok (loadSpamAssassinWarnRatio env cfg) (\<lambda>cfg.
         bind_ok (loadDNSFallback env cfg) (\<lambda>cfg. error_or cfg (check_interface cfg)))))))))))))"

subsection \<open>What a loaded configuration guarantees\<close>

lemma first_error_None [simp]: "first_error es = None \<longleftrightarrow> list_all (\<lambda>e. e = None) es"
  by (induction es) (auto split: option.splits)

declare first_error.simps [simp del]

lemma fails_None [simp]: "fails b e = None \<longleftrightarrow> \<not> b"
  by (simp add: fails_def)

lemma bind_ok_Inr [simp]: "bind_ok x f = Inr b \<longleftrightarrow> (\<exists>a. x = Inr a \<and> f a = Inr b)"
  by (auto simp: bind_ok_def split: sum.splits)

lemma error_or_Inr [simp]: "error_or x e = Inr y \<longleftrightarrow> e = None \<and> y = x"
  by (auto simp: error_or_def split: option.splits)

lemma loadSpamAssassinWarnRatio_Inr:
  "loadSpamAssassinWarnRatio env c = Inr c' \<Longrightarrow> \<exists>ratio. c' = c\<lparr>SpamAssassinWarnRatio := ratio\<rparr>"
  by (auto simp: loadSpamAssassinWarnRatio_def Let_def split: option.splits if_splits)

lemma loadDNSFallback_Inr:
  "loadDNSFallback env c = Inr c' \<Longrightarrow> \<exists>rs t. ParseResolvers (getEnv env ''DNS_FALLBACK_RESOLVERS'' DefaultResolvers) = Inr rs
     \<and> MinTimeout \<le> t \<and> t \<le> MaxTimeout \<and> c' = c\<lparr>DNSFallbackResolvers := rs, DNSFallbackTimeout := t\<rparr>"
  by (auto simp: loadDNSFallback_def Let_def not_less split: sum.splits if_splits)

lemma Load_checked:
  assumes "Load env = Inr cfg"
  shows "check_settings cfg = None \<and> check_interface cfg = None
    \<and> MinTimeout \<le> DNSFallbackTimeout cfg \<and> DNSFallbackTimeout cfg \<le> MaxTimeout
    \<and> ParseResolvers (getEnv env ''DNS_FALLBACK_RESOLVERS'' DefaultResolvers) = Inr (DNSFallbackResolvers cfg)"
proof -
  from assms obtain a b where "check_settings a = None" "loadSpamAssassinWarnRatio env a = Inr b"
      "loadDNSFallback env b = Inr cfg" "check_interface cfg = None"
    unfolding Load_def Let_def bind_ok_Inr error_or_Inr by blast
  moreover have "check_settings (a\<lparr>SpamAssassinWarnRatio := r, DNSFallbackResolvers := rs, DNSFallbackTimeout := t\<rparr>) = check_settings a" for r rs t
    by (simp add: check_settings_def checkRequestLimits_def checkIPTTiming_def)
  ultimately show ?thesis by (auto dest!: loadSpamAssassinWarnRatio_Inr loadDNSFallback_Inr)
qed

lemma check_path_None: "check_path p = None \<longleftrightarrow> p \<noteq> ''/'' \<and> exemptPathPattern p \<and> \<not> hasDotSegment p"
  by (auto simp: check_path_def)


text \<open>An environment with three settings, and the one without any.\<close>

definition demo_environment :: "gostring \<Rightarrow> gostring" where
  "demo_environment k = (if k = ''IPT_TEST_DURATION'' then ''1h'' else if k = ''IPT_TOKEN_LENGTH'' then ''16''
     else if k = ''FORCE_HTTPS_EXEMPT_PATHS'' then ''/healthz, /.well-known/'' else [])"

lemma demo_environment_loads: "\<not> isl (Load demo_environment)"
  by code_simp


subsection \<open>Durations in messages\<close>

lemma digit_val_nonneg: "is_digit c \<Longrightarrow> 0 \<le> digit_val c"
  by (simp add: is_digit_def digit_val_def Let_def)

lemma leading_int_val:
  "0 \<le> x \<Longrightarrow> list_all is_digit s \<Longrightarrow> digits_val x s \<le> 2 ^ 63 \<Longrightarrow> leading_int x s = Some (digits_val x s)"
proof (induction x s rule: leading_int.induct)
  case (2 x c cs)
  have mono: "0 \<le> y \<Longrightarrow> list_all is_digit t \<Longrightarrow> y \<le> digits_val y t" for y t
  proof (induction t arbitrary: y)
    case (Cons a t)
    have "0 \<le> digit_val a" using Cons.prems by (simp add: digit_val_nonneg)
    with Cons.IH [of "10 * y + digit_val a"] Cons.prems show ?case by simp
  qed simp
  have c: "0 \<le> digit_val c" using 2(3) by (simp add: digit_val_nonneg)
  with mono [of "10 * x + digit_val c" cs] 2 have "10 * x + digit_val c \<le> 2 ^ 63" by simp
  moreover from this c have "x \<le> 2 ^ 63 div 10" by simp
  ultimately show ?case using 2 c by (simp add: Let_def)
qed simp

lemma show_int_digits: "0 \<le> n \<Longrightarrow> list_all is_digit (show_int n)"
  by (simp add: show_int_def show_digits_digits)

lemma show_int_val: "0 \<le> n \<Longrightarrow> digits_val 0 (show_int n) = n"
  by (simp add: show_int_def)

lemma show_int_not_Nil [simp]: "show_int n \<noteq> []"
  by (simp add: show_int_def)

text \<open>A number with the unit h, m or s is read as its value.\<close>

lemma duration_term_show:
  assumes "0 \<le> n" "n * unit \<le> 2 ^ 63" "(u, unit) \<in> {(''h'', hour), (''m'', minute), (''s'', second)}"
    "rest = [] \<or> is_digit (hd rest)"
  shows "duration_term (show_int n @ u @ rest) = Some (n * unit, rest)"
proof -
  have u: "duration_unit u = Some unit" "0 < unit" "list_all (\<lambda>c. \<not> number_char c) u" "u \<noteq> []" "\<not> is_digit (hd u)" "hd u \<noteq> CHR ''.''"
    using assms(3) by (auto simp: duration_unit_def duration_defs number_char_def is_digit_def)
  have all: "\<And>c. c \<in> set (show_int n) \<Longrightarrow> is_digit c" using show_int_digits [OF assms(1)] by (simp add: list_all_iff)
  have tk: "takeWhile is_digit (show_int n @ u @ rest) = show_int n" "dropWhile is_digit (show_int n @ u @ rest) = u @ rest"
    using all u(4,5) by (cases u; auto simp: takeWhile_append dropWhile_append)+
  have m: "mantissa is_digit (show_int n @ u @ rest) = (show_int n, [], u @ rest)"
    unfolding mantissa_def Let_def tk using u(4,6) by (cases u) auto
  have r: "takeWhile (\<lambda>c. \<not> number_char c) (u @ rest) = u" "dropWhile (\<lambda>c. \<not> number_char c) (u @ rest) = rest"
    using u(3) assms(4) by (cases rest; auto simp: takeWhile_append dropWhile_append list_all_iff number_char_def)+
  have "n \<le> 2 ^ 63 div unit"
    using assms(2) u(2) by (metis div_mult_self_is_m less_irrefl zdiv_mono1 nonzero_mult_div_cancel_right)
  moreover from this assms(1) u(2) have "n \<le> 2 ^ 63"
    by (smt (verit) assms(2) mult_le_cancel_left1)
  ultimately have "leading_int 0 (show_int n) = Some n" "\<not> 2 ^ 63 div unit < n"
    using leading_int_val [of 0 "show_int n"] assms(1) by (auto simp: show_int_val show_int_digits)
  then show ?thesis using u(1) r assms(2) unfolding duration_term_def m by (simp add: Let_def)
qed


lemma duration_terms_step:
  assumes "0 \<le> d" "0 \<le> n" "d + n * unit \<le> 2 ^ 63" "(u, unit) \<in> {(''h'', hour), (''m'', minute), (''s'', second)}"
    "rest = [] \<or> is_digit (hd rest)"
  shows "duration_terms d (show_int n @ u @ rest) = duration_terms (d + n * unit) rest"
proof -
  have "n * unit \<le> 2 ^ 63" using assms(1,3) by simp
  from duration_term_show [OF assms(2) this assms(4,5)] assms(3) show ?thesis
    by (subst duration_terms.simps) simp
qed

lemma duration_terms_Nil [simp]: "duration_terms d [] = Some d"
  by (subst duration_terms.simps) simp

lemma digit_hd_show: "0 \<le> n \<Longrightarrow> is_digit (hd (show_int n))"
  using show_int_digits [of n] by (cases "show_int n") auto

lemma show_int_0: "show_int 0 = ''0''"
  by code_simp

lemma zero_suffix:
  assumes "0 \<le> n" "\<not> is_digit c"
  shows "has_suffix (x @ c # show_int n @ [u]) (c # CHR ''0'' # [u]) \<longleftrightarrow> n = 0"
proof -
  have "has_suffix (x @ c # show_int n @ [u]) (c # CHR ''0'' # [u]) \<longleftrightarrow> has_suffix (x @ c # show_int n) [c, CHR ''0'']"
    using has_suffix_cancel [of "x @ c # show_int n" "[u]" "[c, CHR ''0'']"] by simp
  also have "\<dots> \<longleftrightarrow> show_int n = ''0''"
  proof
    assume "has_suffix (x @ c # show_int n) [c, CHR ''0'']"
    then have *: "take 2 (rev (show_int n) @ [c] @ rev x) = [CHR ''0'', c]" by (simp add: has_suffix_def has_prefix_take numeral_2_eq_2)
    obtain a t where r: "rev (show_int n) = a # t" by (cases "rev (show_int n)") auto
    show "show_int n = ''0''"
    proof (cases t)
      case Nil
      with * r have "rev (show_int n) = ''0''" by simp
      then show ?thesis by (metis rev_rev_ident rev_singleton_conv)
    next
      case (Cons b t')
      with * r have "c \<in> set (rev (show_int n))" by simp
      then show ?thesis using show_int_digits [OF assms(1)] assms(2) by (simp add: list_all_iff)
    qed
  next
    assume "show_int n = ''0''"
    then show "has_suffix (x @ c # show_int n) [c, CHR ''0'']"
      using has_suffix_append [of x "[c, CHR ''0'']"] by simp
  qed
  also have "\<dots> \<longleftrightarrow> n = 0"
  proof
    assume a: "show_int n = ''0''"
    have "n = digits_val 0 (show_int n)" using assms(1) by (simp add: show_int_val)
    also have "\<dots> = 0" unfolding a by (simp add: digit_val_def)
    finally show "n = 0" .
  qed (simp add: show_int_0)
  finally show ?thesis .
qed

lemma fmt_frac_whole: "fmt_frac (s * second) 9 = []"
proof -
  have zero: "char_of (48 :: int) = CHR ''0''" by code_simp
  have "s * second div 10 ^ i mod 10 = 0" if "i < 9" for i
  proof -
    have "s * second = (s * 10 ^ (8 - i) * 10) * 10 ^ i"
      using that by (simp add: second_def flip: power_Suc power_add)
    then have "s * second div 10 ^ i = s * 10 ^ (8 - i) * 10" by (metis nonzero_mult_div_cancel_right power_not_zero zero_neq_numeral)
    then show ?thesis by simp
  qed
  then have "map (\<lambda>i. char_of (48 + s * second div 10 ^ i mod 10)) (rev [0..<9]) = map (\<lambda>i. CHR ''0'') (rev [0..<9])"
    by (intro map_cong) (auto simp: zero)
  then show ?thesis by (simp add: fmt_frac_def Let_def trim_right_def dropWhile_eq_Nil_conv rev_map)
qed

lemma duration_string_whole:
  assumes "0 < s"
  shows "duration_string (s * second) =
    (let m = s div 60; h = m div 60
     in (if 0 < h then show_int h @ ''h'' else []) @ (if 0 < m then show_int (m mod 60) @ ''m'' else []) @ show_int (s mod 60) @ ''s'')"
proof -
  have "second \<le> s * second" "0 < second" using assms by (simp_all add: second_def)
  then show ?thesis
    by (simp add: duration_string_def Let_def fmt_frac_whole millisecond_def second_def [symmetric] not_less) (simp add: second_def)
qed

lemma no_suffix: "c \<in> set p \<Longrightarrow> c \<notin> set s \<Longrightarrow> \<not> has_suffix s p"
  by (auto elim!: has_suffixE)

lemma show_int_no: "0 \<le> n \<Longrightarrow> \<not> is_digit c \<Longrightarrow> c \<notin> set (show_int n)"
  using show_int_digits [of n] by (auto simp: list_all_iff)

text \<open>The forms \<open>FormatDuration\<close> writes for whole seconds.\<close>

lemma FormatDuration_whole:
  assumes "0 < s"
  defines "h \<equiv> s div 60 div 60" and "m \<equiv> s div 60 mod 60" and "r \<equiv> s mod 60"
  shows "FormatDuration (s * second) =
    (if s div 60 = 0 then show_int r @ ''s''
     else (if 0 < h then show_int h @ ''h'' else [])
       @ (if r \<noteq> 0 then show_int m @ ''m'' @ show_int r @ ''s''
          else if m = 0 \<and> 0 < h then [] else show_int m @ ''m''))"
proof -
  have nn: "0 \<le> h" "0 \<le> m" "0 \<le> r" "0 \<le> s div 60" using assms by simp_all
  have nd: "\<not> is_digit (CHR ''m'')" "\<not> is_digit (CHR ''h'')" "\<not> is_digit (CHR ''s'')" by (simp_all add: is_digit_def)
  let ?H = "if 0 < h then show_int h @ ''h'' else []"
  show ?thesis
  proof (cases "s div 60 = 0")
    case True
    then have str: "duration_string (s * second) = show_int r @ ''s''"
      using duration_string_whole [OF assms(1)] by (simp add: Let_def r_def)
    have "\<not> has_suffix (show_int r @ ''s'') ''m0s''" "\<not> has_suffix (show_int r @ ''s'') ''h0m''"
      using show_int_no [OF nn(3) nd(1)] by (intro no_suffix [of "CHR ''m''"]; simp)+
    with str True show ?thesis by (simp add: FormatDuration_def Let_def)
  next
    case False
    then have str: "duration_string (s * second) = (?H @ show_int m) @ CHR ''m'' # show_int r @ ''s''"
      using duration_string_whole [OF assms(1)] nn(4) by (simp add: Let_def r_def m_def h_def)
    have a: "has_suffix ((?H @ show_int m) @ CHR ''m'' # show_int r @ ''s'') ''m0s'' \<longleftrightarrow> r = 0"
      by (rule zero_suffix [OF nn(3) nd(1)])
    have b: "\<not> has_suffix ((?H @ show_int m) @ CHR ''m'' # show_int r @ ''s'') ''h0m''"
      by (auto simp: has_suffix_def)
    have c: "has_suffix (?H @ show_int m @ ''m'') ''h0m'' \<longleftrightarrow> m = 0 \<and> 0 < h"
      using zero_suffix [OF nn(2) nd(2), of "show_int h" "CHR ''m''"] no_suffix [of "CHR ''h''" "''h0m''" "show_int m @ ''m''"] show_int_no [OF nn(2) nd(2)]
      by auto
    show ?thesis
    proof (cases "r = 0")
      case True
      have "trim_suffix ((?H @ show_int m @ ''m'') @ ''0s'') ''0s'' = ?H @ show_int m @ ''m''" by (rule trim_suffix_append)
      moreover have "0 < h \<Longrightarrow> trim_suffix ((show_int h @ ''h'') @ ''0m'') ''0m'' = show_int h @ ''h''" by (rule trim_suffix_append)
      ultimately show ?thesis using True False str a c show_int_0 by (auto simp: FormatDuration_def Let_def)
    next
      case r: False
      then show ?thesis using False str a b by (simp add: FormatDuration_def Let_def)
    qed
  qed
qed


text \<open>
  A duration of whole seconds that an error message of the configuration names, as the default, as a bound or as
  the value read, is written in the form the settings take: reading the text back with \<open>time.ParseDuration\<close>
  gives the same duration.
\<close>

theorem duration_round_trip:
  assumes "0 \<le> s" "s * second < 2 ^ 63"
  shows "ParseDuration (FormatDuration (s * second)) = Some (s * second)"
proof (cases "s = 0")
  case True
  moreover have "ParseDuration (FormatDuration 0) = Some 0" by code_simp
  ultimately show ?thesis by simp
next
  case False
  with assms have s: "0 < s" by simp
  define h m r where d: "h = s div 60 div 60" "m = s div 60 mod 60" "r = s mod 60"
  have nn: "0 \<le> h" "0 \<le> m" "0 \<le> r" using s by (simp_all add: d)
  have sum: "h * hour + m * minute + r * second = s * second"
    unfolding d duration_defs by (simp add: algebra_simps) presburger
  have le: "h * hour \<le> s * second" "h * hour + m * minute \<le> s * second" "m * minute + r * second \<le> s * second" "m * minute \<le> s * second"
    using sum nn by (simp_all add: duration_defs)
  have short: "s div 60 = 0 \<Longrightarrow> h = 0 \<and> m = 0" by (simp add: d)
  let ?t = "FormatDuration (s * second)"
  have t: "duration_terms 0 ?t = Some (s * second)"
    using FormatDuration_whole [OF s, folded d] sum le short assms(2) nn digit_hd_show [OF nn(2)] digit_hd_show [OF nn(3)]
      duration_terms_step [of 0 r second "''s''" "[]"] duration_terms_step [of "m * minute" r second "''s''" "[]"]
      duration_terms_step [of "h * hour + m * minute" r second "''s''" "[]"]
      duration_terms_step [of 0 m minute "''m''" "show_int r @ ''s''"] duration_terms_step [of "h * hour" m minute "''m''" "show_int r @ ''s''"]
      duration_terms_step [of 0 m minute "''m''" "[]"] duration_terms_step [of "h * hour" m minute "''m''" "[]"]
      duration_terms_step [of 0 h hour "''h''" "[]"] duration_terms_step [of 0 h hour "''h''" "show_int m @ ''m''"]
      duration_terms_step [of 0 h hour "''h''" "show_int m @ ''m'' @ show_int r @ ''s''"]
    by (auto simp: digit_hd_show duration_defs)
  have hd: "is_digit (hd ?t)" "?t \<noteq> []" "?t \<noteq> ''0''"
    using FormatDuration_whole [OF s, folded d] nn by (auto simp: digit_hd_show)
  then have "strip_sign ?t = (False, ?t)"
    by (cases ?t) (auto simp: strip_sign_def is_digit_def)
  with t hd assms(2) show ?thesis by (simp add: ParseDuration_def)
qed

theorem duration_round_trip_witness:
  "ParseDuration (FormatDuration (90 * minute)) = Some (90 * minute) \<and> FormatDuration (90 * minute) = ''1h30m''"
proof -
  have "ParseDuration (FormatDuration (5400 * second)) = Some (5400 * second)"
    by (rule duration_round_trip) (simp_all add: second_def)
  moreover have "5400 * second = 90 * minute" by (simp add: minute_def)
  moreover have "FormatDuration (90 * minute) = ''1h30m''" by code_simp
  ultimately show ?thesis by simp
qed

subsection \<open>A ratio that is no number\<close>

text \<open>
  \<open>SPAMASSASSIN_WARN_RATIO=NaN\<close> passes the check of the bounds, because both comparisons with NaN are false.
\<close>

lemma warn_ratio_accepts_NaN:
  "\<exists>cfg. Load (\<lambda>k. if k = ''SPAMASSASSIN_WARN_RATIO'' then ''nan'' else []) = Inr cfg \<and> SpamAssassinWarnRatio cfg = NaN"
proof -
  have "case Load (\<lambda>k. if k = ''SPAMASSASSIN_WARN_RATIO'' then ''nan'' else []) of Inl e \<Rightarrow> False | Inr cfg \<Rightarrow> SpamAssassinWarnRatio cfg = NaN"
    by code_simp
  then show ?thesis by (auto split: sum.splits)
qed

end
