(* ===== verification/Spam_Filters.thy ===== *)
theory Spam_Filters
  imports Content Config "HOL-Library.Product_Lexorder" "HOL-Library.Multiset"
begin

text \<open>
  The clients of the two spam filters (\<open>internal/analyzer/analyzer.go\<close>): what they send, how they read the answer and what they conclude from it. The
  connections are fields of \<open>spam_env\<close>: \<open>spamd\<close> is a conversation with SpamAssassin, \<open>rspamd_post\<close> an HTTP request, and \<open>decode_rspamd\<close> and \<open>symbol_payload\<close>
  the JSON decoding of an answer and of one symbol (\<open>parseRspamdSymbolPayload\<close>). The symbols of an answer are a Go map, here the list of its entries in the order
  in which an iteration visits them.
\<close>

subsection \<open>Numbers in texts\<close>

text \<open>\<open>%.2f\<close> and \<open>%+.2f\<close>: the exact value rounded to hundredths, ties to even.\<close>

definition format_fixed2 :: "float64 \<Rightarrow> gostring" where
  "format_fixed2 x =
     (let n = round_half_even (\<bar>x\<bar> * 100); r = show_int (n mod 100)
      in (if x < 0 then ''-'' else []) @ show_int (n div 100) @ ''.'' @ (if n mod 100 < 10 then CHR ''0'' # r else r))"

definition format_signed2 :: "float64 \<Rightarrow> gostring" where
  "format_signed2 x = (if x < 0 then format_fixed2 x else CHR ''+'' # format_fixed2 x)"

definition format_signed1 :: "float64 \<Rightarrow> gostring" where
  "format_signed1 x =
     (let n = round_half_even (\<bar>x\<bar> * 10) in (if x < 0 then ''-'' else ''+'') @ show_int (n div 10) @ ''.'' @ show_int (n mod 10))"

subsection \<open>SpamAssassin\<close>

record rspamdSymbol =
  SymName :: gostring
  SymScore :: float64
  SymDesc :: gostring

datatype spamd_reply = DialError gostring | WriteError gostring | Reply gostring "gostring option"

datatype http_reply = BuildError | Unreachable | Answer int gostring

record rspamdCheckResult =
  RScore :: float64
  RequiredScore :: float64
  RAction :: gostring
  RSymbols :: "(gostring \<times> gostring) list"

record spam_env =
  spamd :: "gostring \<Rightarrow> gostring \<Rightarrow> spamd_reply"
  rspamd_post :: "gostring \<Rightarrow> (gostring \<times> gostring) list \<Rightarrow> gostring \<Rightarrow> http_reply"
  decode_rspamd :: "gostring \<Rightarrow> rspamdCheckResult option"
  symbol_payload :: "gostring \<Rightarrow> float64 \<times> gostring"

definition spamAssassinRuleLimit :: nat where "spamAssassinRuleLimit = 30"

definition defaultSpamAssassinWarnRatio :: float64 where "defaultSpamAssassinWarnRatio = fl (9/10)"

definition decimal_rx :: rx where
  "decimal_rx = seq [opt (lit ''-''), plus1 (cls is_digit), opt (seq [lit ''.'', plus1 (cls is_digit)])]"

text \<open>The pattern is anchored at both ends: a match at the front of the line that leaves nothing over.\<close>

definition spamAssassinRuleLine :: rx where
  "spamAssassinRuleLine = seq [RStar (cls rx_space), opt (lit ''*''), RStar (cls rx_space), RCap 1 decimal_rx, plus1 (cls rx_space),
     RCap 2 (seq [cls is_upper_ascii, plus1 (cls (\<lambda>c. is_upper_ascii c \<or> is_digit c \<or> c = CHR ''_''))]), plus1 (cls rx_space), RCap 3 (RStar rx_dot)]"

definition rule_line :: "gostring \<Rightarrow> captures option" where
  "rule_line line = (case filter (\<lambda>(t, cs). t = []) (alts spamAssassinRuleLine (runes line)) of [] \<Rightarrow> None | (t, cs) # _ \<Rightarrow> Some cs)"

text \<open>The text of a decimal number in the range of a float64.\<close>

definition decimal_value :: "gostring \<Rightarrow> float64" where
  "decimal_value s = (case ParseFloat s of Some (Fin x) \<Rightarrow> x | _ \<Rightarrow> 0)"

fun report_rules :: "bool \<Rightarrow> rspamdSymbol list \<Rightarrow> gostring list \<Rightarrow> rspamdSymbol list" where
  "report_rules inTable rules [] = rules"
| "report_rules inTable rules (line # ls) =
     (let trimmed = trim_space line
      in if \<not> inTable then report_rules (has_prefix trimmed ''pts'' \<and> contains trimmed ''rule name'') rules ls
         else if trimmed = [] \<or> has_prefix trimmed ''---'' then report_rules True rules ls
         else (case rule_line line of
             Some cs \<Rightarrow>
               report_rules True (rules @ [\<lparr>SymName = group_text cs 2, SymScore = decimal_value (group_text cs 1), SymDesc = trim_space (group_text cs 3)\<rparr>]) ls
           | None \<Rightarrow>
               if rules \<noteq> [] \<and> (has_prefix line '' '' \<or> has_prefix line [TAB])
               then report_rules True (butlast rules @ [(last rules)\<lparr>SymDesc := trim_space (SymDesc (last rules) @ '' '' @ trimmed)\<rparr>]) ls
               else report_rules True rules ls))"

text \<open>The order of both filters: by descending absolute weight, then by name.\<close>

definition by_weight :: "rspamdSymbol list \<Rightarrow> rspamdSymbol list" where
  "by_weight rules = sort_key (\<lambda>r. (- \<bar>SymScore r\<bar>, SymName r)) rules"

definition parseSpamAssassinReport :: "gostring \<Rightarrow> rspamdSymbol list" where
  "parseSpamAssassinReport resp = by_weight (report_rules False [] (split LF (replace_all crlf [LF] resp)))"

definition spamAssassinAdvice :: "rspamdSymbol list \<Rightarrow> gostring" where
  "spamAssassinAdvice rules =
     (let top = map (\<lambda>r. SymName r @ '' ('' @ format_signed1 (SymScore r) @ '')'') (take 3 (filter (\<lambda>r. 1/2 \<le> SymScore r) rules))
      in if top = [] then (''Die Regeln stehen in der Tabelle unter diesem Befund. Meist helfen: weniger Bilder im Verh'' @ [CHR 0xC3, CHR 0xA4] @ ''ltnis zum Text, keine W'' @ [CHR 0xC3, CHR 0xB6] @ ''rter in Gro'' @ [CHR 0xC3, CHR 0x9F] @ ''buchstaben, keine verk'' @ [CHR 0xC3, CHR 0xBC] @ ''rzten Links und ein sauberer Plaintext-Teil.'')
         else ''Die meisten Punkte kommen von '' @ join '', '' top @ (''. Die Beschreibung jeder Regel steht in der Tabelle unter diesem Befund; wer sie behebt, senkt den Wert. Jede Regel l'' @ [CHR 0xC3, CHR 0xA4] @ ''sst sich unter https://spamassassin.apache.org/tests_3_4_x.html nachschlagen.''))"

definition spamAssassinScorePattern :: rx where
  "spamAssassinScorePattern = seq [RCap 1 decimal_rx, RStar (cls rx_space), lit ''/'', RStar (cls rx_space), RCap 2 decimal_rx]"

definition parseSpamAssassinScore :: "gostring \<Rightarrow> (go_float \<times> go_float) option" where
  "parseSpamAssassinScore line =
     (case find_submatch spamAssassinScorePattern line of
        None \<Rightarrow> None
      | Some (m, cs) \<Rightarrow> (case (ParseFloat (group_text cs 1), ParseFloat (group_text cs 2)) of (Some s, Some l) \<Rightarrow> Some (s, l) | _ \<Rightarrow> None))"

definition spam_line :: "gostring \<Rightarrow> gostring" where
  "spam_line resp = (case find (\<lambda>l. has_prefix (to_lower (trim_space l)) ''spam:'') (split LF resp) of Some l \<Rightarrow> trim_space l | None \<Rightarrow> [])"

text \<open>The comparison of the score with the share of the limit. A ratio that is not a number compares as false.\<close>

definition near_limit :: "go_float \<Rightarrow> go_float \<Rightarrow> go_float \<Rightarrow> bool" where
  "near_limit ratio score limit =
     (case (score, limit, if \<not> float_less (Fin 0) ratio \<and> ratio \<noteq> NaN then Fin defaultSpamAssassinWarnRatio else ratio) of
        (Fin s, Fin l, Fin r) \<Rightarrow> 0 < l \<and> fmul l r \<le> s
      | _ \<Rightarrow> False)"

definition spamd_request :: "gostring \<Rightarrow> gostring" where
  "spamd_request raw = ''REPORT SPAMC/1.5'' @ crlf @ ''Content-length: '' @ show_nat (length raw) @ crlf @ crlf @ raw"

definition symbol_entry :: "gostring \<Rightarrow> rspamdSymbol \<Rightarrow> gostring \<times> gostring" where
  "symbol_entry explain r = (''sym:'' @ SymName r, format_signed2 (SymScore r) @ ''|'' @ SymDesc r @ ''|'' @ explain)"

definition spam_verdict :: "go_float \<Rightarrow> gostring \<Rightarrow> finding" where
  "spam_verdict warnRatio resp =
     (let line = spam_line resp
      in if contains (to_lower resp) ''spam: true'' then fail ''spamassassin'' (fl (- 16/10))
         else if line \<noteq> []
         then (if (case parseSpamAssassinScore line of Some (s, l) \<Rightarrow> near_limit warnRatio s l | None \<Rightarrow> False) then warn ''spamassassin'' (fl (- 4/10))
               else pass ''spamassassin'' 0)
         else info ''spamassassin'' 0)"

definition spam_details :: "gostring \<Rightarrow> gostring \<Rightarrow> details" where
  "spam_details hostport resp =
     (let rules = parseSpamAssassinReport resp
      in [''spamd_hostport'' \<mapsto> hostport, ''spam_line'' \<mapsto> orElse (spam_line resp) ''none'']
         ++ map_of (rev (map (symbol_entry []) (take spamAssassinRuleLimit rules))) ++ [''rule_count'' \<mapsto> show_nat (length rules)])"

definition spamAssassinHeuristic :: "spam_env \<Rightarrow> gostring \<Rightarrow> gostring \<Rightarrow> go_float \<Rightarrow> finding" where
  "spamAssassinHeuristic env hostport raw warnRatio =
     (let failed = \<lambda>msg. withDetails (info ''spamassassin'' 0) [''spamd_hostport'' \<mapsto> hostport, ''error'' \<mapsto> msg]
      in case spamd env hostport (spamd_request raw) of
           DialError msg \<Rightarrow> failed msg
         | WriteError msg \<Rightarrow> failed msg
         | Reply answer broken \<Rightarrow>
             (case readLimited (64 * 1024) (broken \<noteq> None) answer of
                None \<Rightarrow> failed (case broken of Some msg \<Rightarrow> if readLimited (64 * 1024) False answer = None then ''bufio.Scanner: token too long'' else msg
                                 | None \<Rightarrow> ''bufio.Scanner: token too long'')
              | Some resp \<Rightarrow> withDetails (spam_verdict warnRatio resp) (spam_details hostport resp)))"

subsection \<open>Rspamd\<close>

definition rspamdEnvelopeHeaders :: "gostring \<Rightarrow> gostring \<Rightarrow> gostring \<Rightarrow> gostring \<Rightarrow> (gostring \<times> gostring) list" where
  "rspamdEnvelopeHeaders ipText ehlo mfrom rto =
     (if ParseIP (trim_space ipText) \<noteq> None then [(''IP'', trim_space ipText)] else [])
     @ concat (map (\<lambda>(k, v). if trim_space v \<noteq> [] then [(k, trim_space v)] else []) [(''Helo'', ehlo), (''From'', mfrom), (''Rcpt'', rto)])"

definition symbol_of :: "spam_env \<Rightarrow> gostring \<times> gostring \<Rightarrow> rspamdSymbol" where
  "symbol_of env e = (case e of (name, payload) \<Rightarrow> (case symbol_payload env payload of (score, desc) \<Rightarrow> \<lparr>SymName = name, SymScore = score, SymDesc = desc\<rparr>))"

definition topRspamdSymbols :: "spam_env \<Rightarrow> (gostring \<times> gostring) list \<Rightarrow> nat \<Rightarrow> rspamdSymbol list" where
  "topRspamdSymbols env raw n =
     (let symbols = sort_key (\<lambda>r. (- SymScore r, SymName r)) (filter (\<lambda>r. 0 < SymScore r) (map (symbol_of env) raw))
      in if 0 < n \<and> n < length symbols then take n symbols else symbols)"

definition allRspamdSymbols :: "spam_env \<Rightarrow> (gostring \<times> gostring) list \<Rightarrow> rspamdSymbol list" where
  "allRspamdSymbols env raw = by_weight (map (symbol_of env) raw)"

definition symbol_advice :: "gostring \<Rightarrow> gostring list" where
  "symbol_advice name =
     (let n = to_upper name
      in if contains n ''SPF'' then [''Fix SPF for the envelope sender and align with visible From.'']
         else if contains n ''DKIM'' then [''Ensure DKIM signatures validate for this sending stream.'']
         else if contains n ''DMARC'' then [''Align DMARC with SPF or DKIM pass for the From domain.'']
         else if contains n ''URL'' \<or> contains n ''PHISH'' then [''Review links; remove suspicious redirects/shorteners and limit tracking parameters.'']
         else if contains n ''MIME'' \<or> contains n ''HTML'' then [''Simplify MIME/HTML structure and avoid hidden/deceptive markup.'']
         else if contains n ''RBL'' \<or> contains n ''DNSBL'' then [''Check sender IP reputation and remove DNSBL/RBL listings.'']
         else [])"

fun advice_parts :: "gostring list \<Rightarrow> rspamdSymbol list \<Rightarrow> gostring list" where
  "advice_parts parts [] = parts"
| "advice_parts parts (s # ss) =
     (let parts = parts @ symbol_advice (SymName s) in if 4 \<le> length parts then parts else advice_parts parts ss)"

definition rspamdSuggestionFor :: "rspamdSymbol list \<Rightarrow> gostring \<Rightarrow> gostring" where
  "rspamdSuggestionFor symbols action =
     (let parts = advice_parts (if action = ''reject'' \<or> action = ''soft reject''
                    then [''Message was rejected by Rspamd; fix the highest positive symbols first.''] else []) symbols
      in if parts = [] then ''Inspect Rspamd symbol details and adjust auth, content, and link hygiene.'' else join '' '' (dedupeSorted parts))"

definition rspamd_verdict :: "gostring \<Rightarrow> float64 \<Rightarrow> float64 \<Rightarrow> finding" where
  "rspamd_verdict action score required =
     (if action = ''reject'' then fail ''rspamd'' (fl (- 22/10))
      else if action = ''soft reject'' then fail ''rspamd'' (- 3/2)
      else if action \<in> {''add header'', ''rewrite subject'', ''greylist''} then warn ''rspamd'' (fl (- 8/10))
      else if action = ''no action'' then pass ''rspamd'' 0
      else if 0 < required \<and> required \<le> score then warn ''rspamd'' (fl (- 8/10)) else info ''rspamd'' 0)"

text \<open>\<open>explain\<close> is \<open>rspamdSymbolExplain\<close>.\<close>

definition rspamd_details :: "(gostring \<Rightarrow> gostring) \<Rightarrow> spam_env \<Rightarrow> rspamdCheckResult \<Rightarrow> gostring \<Rightarrow> details" where
  "rspamd_details explain env parsed action =
     [''action'' \<mapsto> orElse action ''unknown'', ''score'' \<mapsto> format_fixed2 (RScore parsed), ''required_score'' \<mapsto> format_fixed2 (RequiredScore parsed),
      ''symbol_count'' \<mapsto> show_nat (length (RSymbols parsed))]
     ++ map_of (rev (map (\<lambda>s. symbol_entry (explain (SymName s)) s) (take 15 (allRspamdSymbols env (RSymbols parsed)))))"

definition rspamd_headers :: "gostring \<Rightarrow> (gostring \<times> gostring) list \<Rightarrow> (gostring \<times> gostring) list" where
  "rspamd_headers password envelope =
     [(''Content-Type'', ''message/rfc822'')] @ envelope @ (if trim_space password \<noteq> [] then [(''Password'', password)] else [])"

definition rspamdHeuristic :: "(gostring \<Rightarrow> gostring) \<Rightarrow> spam_env \<Rightarrow> gostring \<Rightarrow> gostring \<Rightarrow> (gostring \<times> gostring) list \<Rightarrow> gostring \<Rightarrow> finding" where
  "rspamdHeuristic explain env endpoint password envelope raw =
     (case rspamd_post env endpoint (rspamd_headers password envelope) raw of
        Answer st answer \<Rightarrow>
          if st < 200 \<or> 300 \<le> st then info ''rspamd'' 0
          else (case decode_rspamd env (take (128 * 1024) answer) of
              None \<Rightarrow> info ''rspamd'' 0
            | Some parsed \<Rightarrow>
                (let action = to_lower (trim_space (RAction parsed))
                 in withDetails (rspamd_verdict action (RScore parsed) (RequiredScore parsed)) (rspamd_details explain env parsed action)))
      | _ \<Rightarrow> info ''rspamd'' 0)"

subsection \<open>The order of a Go map does not matter\<close>

lemma symbol_names: "map SymName (map (symbol_of env) raw) = map fst raw"
  by (simp add: symbol_of_def case_prod_beta comp_def)

lemma sort_any_order:
  assumes "mset xs = mset ys" "inj_on k (set xs)"
  shows "sort_key k xs = sort_key k ys"
  using assms by (metis mset_sort sort_key_inj_key_eq sorted_sort_key mset_eq_setD)

lemma named_inj: "distinct (map SymName xs) \<Longrightarrow> inj_on (\<lambda>r. (g r, SymName r)) (set xs)"
  by (auto simp: inj_on_def distinct_map)

text \<open>
  Rspamd's symbols are a Go map, whose iteration order is random. The symbols a report lists and those its advice is made from
  are the same for every order: ties of the weight are broken by the name, which is unique.
\<close>

theorem rspamd_symbols_any_order:
  assumes "distinct (map fst raw)" "mset raw' = mset raw"
  shows "allRspamdSymbols env raw' = allRspamdSymbols env raw \<and> topRspamdSymbols env raw' n = topRspamdSymbols env raw n"
proof -
  have m: "mset (map (symbol_of env) raw') = mset (map (symbol_of env) raw)" using assms(2) by simp
  have "distinct (map fst raw')" using assms by (metis mset_eq_imp_distinct_iff mset_map)
  then have d: "distinct (map SymName (map (symbol_of env) raw'))" by (simp only: symbol_names)
  have "by_weight (map (symbol_of env) raw') = by_weight (map (symbol_of env) raw)"
    unfolding by_weight_def by (rule sort_any_order [OF m named_inj [OF d]])
  moreover have "sort_key (\<lambda>r. (- SymScore r, SymName r)) (filter (\<lambda>r. 0 < SymScore r) (map (symbol_of env) raw'))
      = sort_key (\<lambda>r. (- SymScore r, SymName r)) (filter (\<lambda>r. 0 < SymScore r) (map (symbol_of env) raw))"
  proof (rule sort_any_order)
    show "mset (filter (\<lambda>r. 0 < SymScore r) (map (symbol_of env) raw')) = mset (filter (\<lambda>r. 0 < SymScore r) (map (symbol_of env) raw))"
      using m by (simp only: mset_filter)
    show "inj_on (\<lambda>r. (- SymScore r, SymName r)) (set (filter (\<lambda>r. 0 < SymScore r) (map (symbol_of env) raw')))"
      by (rule inj_on_subset [OF named_inj [OF d]]) auto
  qed
  ultimately show ?thesis by (simp add: allRspamdSymbols_def topRspamdSymbols_def Let_def)
qed

definition demo_spam :: spam_env where
  "demo_spam = \<lparr>spamd = (\<lambda>h s. DialError []), rspamd_post = (\<lambda>u hs s. Unreachable), decode_rspamd = (\<lambda>s. None), symbol_payload = (\<lambda>s. (of_nat (length s), s))\<rparr>"

theorem rspamd_symbols_any_order_witness:
  "map SymName (allRspamdSymbols demo_spam [(''B'', ''x''), (''A'', ''x''), (''C'', ''long'')]) = [''C'', ''A'', ''B'']
   \<and> allRspamdSymbols demo_spam [(''A'', ''x''), (''C'', ''long''), (''B'', ''x'')] = allRspamdSymbols demo_spam [(''B'', ''x''), (''A'', ''x''), (''C'', ''long'')]"
proof
  show "map SymName (allRspamdSymbols demo_spam [(''B'', ''x''), (''A'', ''x''), (''C'', ''long'')]) = [''C'', ''A'', ''B'']" by code_simp
  show "allRspamdSymbols demo_spam [(''A'', ''x''), (''C'', ''long''), (''B'', ''x'')] = allRspamdSymbols demo_spam [(''B'', ''x''), (''A'', ''x''), (''C'', ''long'')]"
    using rspamd_symbols_any_order [of "[(''B'', ''x''), (''A'', ''x''), (''C'', ''long'')]" "[(''A'', ''x''), (''C'', ''long''), (''B'', ''x'')]"] by simp
qed

text \<open>A ratio that is no number, which the configuration accepts, switches the warning for messages close to the limit off.\<close>

lemma near_limit_NaN: "\<not> near_limit NaN score limit"
  by (cases score; cases limit) (simp_all add: near_limit_def)

end
