(* ===== verification/Verdicts.thy ===== *)
theory Verdicts
  imports Checks
begin

text \<open>
  The verdicts on authentication and transport that \<open>Analyze\<close> derives from the header of the message, and
  the single checks a user can run again (\<open>Recheck\<close>), of \<open>internal/analyzer/analyzer.go\<close> and
  \<open>internal/analyzer/dkim_diag.go\<close>. Instants are nanoseconds since 1970.
\<close>

subsection \<open>Mail type\<close>

definition consumer_domains :: "gostring list" where
  "consumer_domains =
     [''gmail.com'', ''googlemail.com'', ''outlook.com'', ''hotmail.com'', ''hotmail.de'', ''hotmail.fr'',
      ''live.com'', ''live.de'', ''live.fr'', ''msn.com'', ''yahoo.com'', ''yahoo.de'', ''yahoo.fr'', ''yahoo.co.uk'',
      ''yahoo.es'', ''yahoo.it'', ''ymail.com'', ''icloud.com'', ''me.com'', ''mac.com'',
      ''gmx.de'', ''gmx.net'', ''gmx.com'', ''gmx.at'', ''gmx.ch'', ''web.de'', ''t-online.de'', ''freenet.de'', ''arcor.de'',
      ''protonmail.com'', ''proton.me'', ''tutanota.com'', ''tutanota.de'', ''tuta.io'', ''skiff.com'',
      ''fastmail.com'', ''fastmail.fm'', ''pm.me'', ''aol.com'', ''aol.de'', ''aim.com'', ''zoho.com'', ''mail.com'',
      ''yandex.com'', ''yandex.ru'']"

definition isConsumerWebmail :: "gostring \<Rightarrow> bool" where
  "isConsumerWebmail fromHeader =
     (case last_index_char fromHeader (CHR ''@'') of
        None \<Rightarrow> False
      | Some k \<Rightarrow>
          (let d = trim_right (drop (k + 1) fromHeader) [CHR ''>'', SP, TAB, CR, LF];
               parts = split (CHR ''.'') d;
               d = (if 2 \<le> length parts then parts ! (length parts - 2) @ ''.'' @ parts ! (length parts - 1) else d)
           in d \<in> set consumer_domains))"

definition detectMailType :: "header \<Rightarrow> gostring" where
  "detectMailType h =
     (let low = (\<lambda>k. to_lower (trim_space (Get h k)));
          mua = low ''X-Mailer'' @ '' '' @ low ''User-Agent''
      in if low ''Precedence'' \<in> {''bulk'', ''list'', ''junk''} then ''bulk''
         else if list_ex (\<lambda>k. trim_space (Get h k) \<noteq> [])
              [''List-Unsubscribe'', ''List-ID'', ''List-Id'', ''List-Archive'', ''List-Post'', ''Feedback-ID'', ''X-Feedback-ID'']
         then ''bulk''
         else if low ''Auto-Submitted'' \<noteq> [] \<and> low ''Auto-Submitted'' \<noteq> ''no'' then ''transactional''
         else if list_ex (contains mua)
              [''outlook'', ''thunderbird'', ''apple mail'', ''airmail'', ''evolution'', ''lotus notes'', ''the bat'',
               ''mutt'', ''emclient'', ''yahoo mail'', ''gmail'']
         then ''personal''
         else if isConsumerWebmail (low ''From'') then ''personal''
         else ''personal'')"

subsection \<open>SPF\<close>

definition isForwardedMail :: "header \<Rightarrow> gostring \<Rightarrow> bool" where
  "isForwardedMail h ar =
     (parseAuthResult ar ''arc'' = ''pass'' \<or> parseAuthResult ar ''arc'' = ''fail''
      \<or> Get h ''ARC-Seal'' \<noteq> [] \<or> Get h ''ARC-Message-Signature'' \<noteq> []
      \<or> Get h ''Resent-From'' \<noteq> [] \<or> Get h ''Resent-To'' \<noteq> [] \<or> Get h ''Resent-Sender'' \<noteq> []
      \<or> Get h ''X-Forwarded-To'' \<noteq> [])"

definition spf1_records :: "gostring list \<Rightarrow> gostring list" where
  "spf1_records txts = filter (\<lambda>r. has_prefix (to_lower r) ''v=spf1'') (map trim_space txts)"

text \<open>The section on SPF in \<open>Analyze\<close>: the finding and the SPF records of the envelope domain.\<close>

definition spf_verdict_check :: "analyzer_env \<Rightarrow> gostring \<Rightarrow> bool \<Rightarrow> gostring \<Rightarrow> dnsFailures \<Rightarrow> (finding \<times> gostring list) \<times> dnsFailures" where
  "spf_verdict_check env spfResult isForwarded envelopeDomain n =
     (case (if envelopeDomain \<noteq> [] then lookupTXT (adns env) envelopeDomain n else (([], dnsOK), n)) of ((txts, st), m) \<Rightarrow>
        (let recs = spf1_records txts; i = ''spf''
         in ((if spfResult = ''pass'' then pass i (fl (4/10))
              else if spfResult = ''fail'' \<or> spfResult = ''softfail''
              then (if isForwarded then warn i (fl (- 3/10)) else fail i (fl (- 14/10)))
              else if recs \<noteq> [] then info i 0
              else if st = dnsUnavailable then unresolved i
              else warn i (fl (- 8/10)), recs), m)))"

definition spfAllQualifier :: "gostring \<Rightarrow> gostring" where
  "spfAllQualifier rec =
     (if contains rec ''-all'' then ''-all'' else if contains rec ''~all'' then ''~all''
      else if contains rec ''?all'' then ''?all'' else if contains rec ''+all'' then ''+all'' else [])"

definition spfLookupRedirect :: "analyzer_env \<Rightarrow> gostring \<Rightarrow> gostring" where
  "spfLookupRedirect env domain =
     (if domain = [] then []
      else (case LookupTXT (adns env) domain of
          (_, Some e) \<Rightarrow> []
        | (txts, None) \<Rightarrow> (case spf1_records txts of r # _ \<Rightarrow> r | [] \<Rightarrow> [])))"

fun strictness_scan :: "gostring list \<Rightarrow> nat \<Rightarrow> gostring \<Rightarrow> nat \<times> gostring" where
  "strictness_scan [] lk target = (lk, target)"
| "strictness_scan (tok # toks) lk target =
     (let t = dropWhile is_qualifier tok;
          lk1 = (if has_prefix t ''include:'' \<or> t = ''a'' \<or> has_prefix t ''a:'' \<or> t = ''mx'' \<or> has_prefix t ''mx:''
                   \<or> has_prefix t ''ptr'' \<or> has_prefix t ''exists:'' then lk + 1 else lk)
      in if has_prefix t ''redirect='' then strictness_scan toks (lk1 + 1) (trim_prefix t ''redirect='')
         else strictness_scan toks lk1 target)"

definition spfStrictnessCheck :: "analyzer_env \<Rightarrow> gostring list \<Rightarrow> finding" where
  "spfStrictnessCheck env records =
     (let i = ''spf_strictness''
      in case records of
           [] \<Rightarrow> info i 0
         | r # _ \<Rightarrow>
             (let rec = to_lower (trim_space r);
                  (lk, target) = strictness_scan (Go_Strings.fields rec) 0 [];
                  all0 = spfAllQualifier rec;
                  targetRec = (if all0 = [] \<and> target \<noteq> [] then spfLookupRedirect env target else []);
                  all = (if targetRec \<noteq> [] then spfAllQualifier (to_lower targetRec) else all0)
              in if all = ''+all'' then fail i (fl (- 15/10))
                 else if 10 < lk then warn i (fl (- 6/10))
                 else if all = ''-all'' then pass i 0
                 else if all = ''~all'' then warn i 0
                 else if all = ''?all'' then warn i (fl (- 3/10))
                 else if target \<noteq> [] then warn i (fl (- 2/10))
                 else warn i (fl (- 3/10))))"

subsection \<open>DKIM\<close>

datatype key_problem =
    ManyRecords nat | BadVersion gostring | NoPTag | Revoked | BadService gostring
  | KeyBase64 | KeyUnparsable | KeyMismatch gostring | KeyTooShort nat

datatype key_info = Ed25519Key | RSAKey nat

definition dkimServiceAllowsEmail :: "gostring \<Rightarrow> bool" where
  "dkimServiceAllowsEmail s =
     list_ex (\<lambda>p. trim_space p = ''*'' \<or> equal_fold (trim_space p) ''email'') (split (CHR '':'') s)"

definition inspectDKIMKeyRecords :: "analyzer_env \<Rightarrow> gostring list \<Rightarrow> key_problem + key_info" where
  "inspectDKIMKeyRecords env records =
     (if 1 < length records then Inl (ManyRecords (length records))
      else (let rec = trim_space (concat records);
                v = extractTagValue rec ''v'';
                pub = replace_all '' '' [] (trim_space (extractTagValue rec ''p''));
                s = trim_space (extractTagValue rec ''s'');
                keyType = to_lower (orElse (trim_space (extractTagValue rec ''k'')) ''rsa'')
            in if v \<noteq> [] \<and> \<not> equal_fold v ''DKIM1'' then Inl (BadVersion v)
               else if \<not> contains ('';'' @ replace_all '' '' [] rec) '';p='' then Inl NoPTag
               else if pub = [] then Inl Revoked
               else if s \<noteq> [] \<and> \<not> dkimServiceAllowsEmail s then Inl (BadService s)
               else (case decode_key env pub of
                   BadBase64 \<Rightarrow> Inl KeyBase64
                 | k \<Rightarrow> if keyType = ''ed25519'' then Inr Ed25519Key
                       else (case k of
                           RSA bits \<Rightarrow> if bits < 1024 then Inl (KeyTooShort bits) else Inr (RSAKey bits)
                         | NotRSA \<Rightarrow> Inl (KeyMismatch keyType)
                         | _ \<Rightarrow> Inl KeyUnparsable))))"

datatype key_state = KeyNone | KeyAbsent | KeyUnavailable | KeyUsable key_info | KeyUnusable key_problem

text \<open>The state of the key; \<open>KeyNone\<close> is the empty \<open>dkimKeyDiag\<close> of a signature without selector or domain.\<close>

definition diagnoseDKIMKey :: "analyzer_env \<Rightarrow> gostring \<Rightarrow> dnsFailures \<Rightarrow> key_state \<times> dnsFailures" where
  "diagnoseDKIMKey env dkimSig n =
     (let selector = trim_space (extractTagValue dkimSig ''s''); d = to_lower (trim_space (extractTagValue dkimSig ''d''))
      in if selector = [] \<or> d = [] then (KeyNone, n)
         else (case lookupTXT (adns env) (selector @ ''._domainkey.'' @ d) n of ((txts, st), m) \<Rightarrow>
           (if st = dnsUnavailable then KeyUnavailable
            else if st = dnsAbsent then KeyAbsent
            else (case inspectDKIMKeyRecords env txts of Inl p \<Rightarrow> KeyUnusable p | Inr k \<Rightarrow> KeyUsable k), m)))"

definition dkimDetailIsKeyProblem :: "gostring \<Rightarrow> bool" where
  "dkimDetailIsKeyProblem d = list_ex (contains (to_lower d)) [''no key for signature'', ''no valid key'', ''key syntax'', ''key revoked'']"

record dkimFinding =
  fstatus :: gostring
  fdelta :: float64
  specific :: bool

definition dkimMissingKeyFinding :: "key_state \<Rightarrow> dkimFinding" where
  "dkimMissingKeyFinding diag =
     (case diag of
        KeyUnavailable \<Rightarrow> \<lparr>fstatus = ''warn'', fdelta = fl (- 6/10), specific = True\<rparr>
      | KeyUsable _ \<Rightarrow> \<lparr>fstatus = ''warn'', fdelta = fl (- 6/10), specific = True\<rparr>
      | _ \<Rightarrow> \<lparr>fstatus = ''fail'', fdelta = fl (- 12/10), specific = True\<rparr>)"

definition dkimSHA1HardFailFrom :: time where
  "dkimSHA1HardFailFrom = 1798761600 * second"

definition classifyDKIMFailure :: "gostring \<Rightarrow> time \<Rightarrow> key_state \<Rightarrow> dkimFinding" where
  "classifyDKIMFailure detail0 t diag =
     (let d = to_lower detail0;
          f = (\<lambda>st x sp. \<lparr>fstatus = st, fdelta = fl x, specific = sp\<rparr>)
      in if contains d ''hash algorithm too weak'' \<or> contains d ''sha1''
         then (if t < dkimSHA1HardFailFrom then f ''warn'' (- 6/10) True else f ''fail'' (- 1) True)
         else if contains d ''body length'' then f ''warn'' (- 5/10) True
         else if contains d ''too short'' then f ''fail'' (- 12/10) True
         else if contains d ''expired'' then f ''fail'' (- 1) True
         else if contains d ''body hash did not verify'' then f ''fail'' (- 14/10) True
         else if dkimDetailIsKeyProblem d then dkimMissingKeyFinding diag
         else if contains d ''multiple txt'' then f ''fail'' (- 12/10) True
         else if contains d ''domain mismatch'' \<or> contains d ''from field not signed'' then f ''fail'' (- 12/10) True
         else f ''fail'' (- 14/10) False)"

definition dkim_verdict_check :: "analyzer_env \<Rightarrow> header \<Rightarrow> gostring \<Rightarrow> check" where
  "dkim_verdict_check env h dkimResult n =
     (let hasSig = (Get h ''DKIM-Signature'' \<noteq> []);
          det = trim_space (Get h ''X-Sender-Report-DKIM-Detail'');
          (diag, m) = (if hasSig \<and> dkimDetailIsKeyProblem (to_lower det)
                       then diagnoseDKIMKey env (Get h ''DKIM-Signature'') n else (KeyNone, n));
          i = ''dkim''
      in (if dkimResult = ''pass'' then pass i (fl (4/10))
          else if dkimResult \<in> {''fail'', ''temperror'', ''permerror''} then
            (let f = classifyDKIMFailure det (now env) diag;
                 c = (if fstatus f = ''warn'' then warn i (fdelta f) else fail i (fdelta f))
             in if det \<noteq> [] \<and> det \<noteq> ''none''
                then withDetails c [''verifier_detail'' \<mapsto> det, ''dkim_result'' \<mapsto> dkimResult] else c)
          else if hasSig then warn i (fl (- 5/10)) else fail i (- 1), m))"

definition dkimKeyLengthCheck :: "analyzer_env \<Rightarrow> gostring \<Rightarrow> check" where
  "dkimKeyLengthCheck env dkimSig n =
     (let i = ''dkim_keylength''; selector = extractTagValue dkimSig ''s''; d = extractTagValue dkimSig ''d'';
          name = selector @ ''._domainkey.'' @ d;
          det = [''selector'' \<mapsto> selector, ''domain'' \<mapsto> d, ''dns_name'' \<mapsto> name]
      in if trim_space dkimSig = [] \<or> selector = [] \<or> d = [] then (info i 0, n)
         else (case lookupTXT (adns env) name n of ((txt, st), m) \<Rightarrow>
           (if st = dnsUnavailable then withDetails (unresolved i) det
            else if st = dnsAbsent then withDetails (warn i (fl (- 3/10))) det
            else (let joined = concat txt; keyType = orElse (extractTagValue joined ''k'') ''rsa'';
                      det1 = det(''key_type'' \<mapsto> keyType)
                  in if keyType = ''ed25519'' then withDetails (pass i (fl (1/10))) det1
                     else (case decode_key env (trim_space (extractTagValue joined ''p'')) of
                         BadBase64 \<Rightarrow> withDetails (warn i (fl (- 3/10))) det1
                       | Unparsable \<Rightarrow> withDetails (warn i (fl (- 2/10))) det1
                       | NotRSA \<Rightarrow> withDetails (info i 0) det1
                       | RSA bits \<Rightarrow>
                           withDetails (if bits < 1024 then fail i (- 1) else if bits < 2048 then warn i (fl (- 4/10))
                                        else pass i (fl (1/10)))
                             (det1(''key_bits'' \<mapsto> show_nat bits)))), m)))"

subsection \<open>DMARC and alignment\<close>

record alignment =
  alignedSPF :: bool
  alignedDKIM :: bool
  dkimDomain :: gostring

definition alignments :: "analyzer_env \<Rightarrow> gostring \<Rightarrow> gostring \<Rightarrow> gostring list \<Rightarrow> alignment" where
  "alignments env envelopeDomain from sigs =
     (let ds = dkimSigningDomains sigs
      in case find (\<lambda>d. relaxedAligned (adns env) d from) ds of
           Some d \<Rightarrow> \<lparr>alignedSPF = relaxedAligned (adns env) envelopeDomain from, alignedDKIM = True, dkimDomain = d\<rparr>
         | None \<Rightarrow> \<lparr>alignedSPF = relaxedAligned (adns env) envelopeDomain from, alignedDKIM = False, dkimDomain = firstNonEmpty ds\<rparr>)"

definition dmarc_verdict_check :: "analyzer_env \<Rightarrow> gostring \<Rightarrow> bool \<Rightarrow> gostring \<Rightarrow> alignment \<Rightarrow> dnsFailures \<Rightarrow> (finding \<times> dmarcLookupResult) \<times> dnsFailures" where
  "dmarc_verdict_check env dmarcResult isForwarded from al n =
     (let (dm, m) = (if from \<noteq> [] then lookupDMARCRecord (adns env) from n
            else (\<lparr>Records = [], Policy = [], Domain = [], ViaOrg = False, Status = dnsOK\<rparr>, n));
          i = ''dmarc''
      in ((if dmarcResult = ''pass'' then pass i (fl (4/10))
           else if Records dm \<noteq> [] then
             (if alignedSPF al \<or> alignedDKIM al
              then (if isForwarded \<and> \<not> alignedSPF al \<and> alignedDKIM al then warn i (fl (- 2/10)) else warn i (fl (- 3/10)))
              else if isForwarded then warn i (fl (- 5/10)) else fail i (- 1))
           else if dmarcLookupResult.Status dm = dnsUnavailable then unresolved i
           else fail i (fl (- 12/10)), dm), m))"

definition spfAlignmentCheck :: "gostring \<Rightarrow> gostring \<Rightarrow> gostring \<Rightarrow> bool \<Rightarrow> finding" where
  "spfAlignmentCheck from envelopeDomain spfResult aligned =
     (let i = ''spf_alignment''
      in if from = [] \<or> envelopeDomain = [] then warn i (fl (- 4/10))
         else if spfResult = ''pass'' \<and> aligned then pass i (fl (2/10))
         else if spfResult = ''pass'' then warn i (fl (- 4/10))
         else warn i (fl (- 5/10)))"

definition dkimAlignmentCheck :: "gostring \<Rightarrow> bool \<Rightarrow> finding" where
  "dkimAlignmentCheck dkimResult aligned =
     (let i = ''dkim_alignment''
      in if dkimResult \<noteq> ''pass'' then warn i (fl (- 5/10))
         else if aligned then pass i (fl (2/10)) else warn i (fl (- 4/10)))"

definition dmarcAlignmentCheck :: "gostring \<Rightarrow> gostring \<Rightarrow> gostring \<Rightarrow> bool \<Rightarrow> bool \<Rightarrow> finding" where
  "dmarcAlignmentCheck from spfResult dkimResult alSPF alDKIM =
     (let i = ''dmarc_alignment''
      in if from = [] then warn i (fl (- 5/10))
         else if spfResult = ''pass'' \<and> alSPF \<or> dkimResult = ''pass'' \<and> alDKIM then pass i (fl (2/10))
         else fail i (fl (- 9/10)))"

definition dmarc_pct :: "gostring \<Rightarrow> int" where
  "dmarc_pct joined =
     (let v = extractTagValue joined ''pct''
      in if v = [] then 100
         else (case atoi (trim_space v) of Some k \<Rightarrow> if 0 \<le> k \<and> k \<le> 100 then k else 100 | None \<Rightarrow> 100))"

definition dmarcPolicyCheck :: "gostring list \<Rightarrow> gostring \<Rightarrow> finding" where
  "dmarcPolicyCheck records policy =
     (let i = ''dmarc_policy''
      in if records = [] then info i 0
         else (let p = to_lower (trim_space policy);
                   joined = to_lower (join '' '' records);
                   hasRUA = contains joined ''rua='';
                   pct = dmarc_pct joined;
                   sp = extractTagValue joined ''sp'';
                   det = [''policy'' \<mapsto> orElse p ''none'', ''rua_present'' \<mapsto> show_bool hasRUA,
                          ''dmarc_records'' \<mapsto> join [LF] records, ''pct'' \<mapsto> show_int pct,
                          ''subdomain_policy'' \<mapsto> orElse sp ''wie p='']
               in withDetails
                    (if p = ''reject'' then (if pct < 100 \<or> sp = ''none'' then warn i (fl (- 2/10)) else pass i (fl (3/10)))
                     else if p = ''quarantine'' then (if pct < 100 \<or> sp = ''none'' then warn i (fl (- 2/10)) else pass i (fl (1/10)))
                     else if p = ''none'' then warn i (fl (- 3/10))
                     else warn i (fl (- 2/10))) det))"

subsection \<open>HELO, envelope and transport\<close>

definition isIPLiteralHELO :: "gostring \<Rightarrow> bool" where
  "isIPLiteralHELO ehlo =
     (let h = trim_space ehlo
      in if ParseIP h \<noteq> None then True
         else if \<not> has_prefix h ''['' \<or> \<not> has_suffix h '']'' then False
         else ParseIP (trim_prefix (trim_prefix (trim_suffix (trim_prefix h ''['') '']'') ''IPv6:'') ''ipv6:'') \<noteq> None)"

definition helo_check :: "gostring \<Rightarrow> finding" where
  "helo_check ehlo =
     (let h = trim_space ehlo; i = ''helo''
      in if h = [] then fail i (fl (- 8/10))
         else if isIPLiteralHELO h then warn i (fl (- 4/10))
         else if CHR ''.'' \<notin> set h then warn i (fl (- 3/10))
         else pass i (fl (1/10)))"

definition from_alignment_check :: "gostring \<Rightarrow> gostring \<Rightarrow> finding" where
  "from_alignment_check from envelopeDomain =
     (let i = ''from_alignment''
      in if from = [] \<or> envelopeDomain = [] then warn i (fl (- 4/10))
         else if from = envelopeDomain \<or> has_suffix envelopeDomain (''.'' @ from) then pass i (fl (2/10))
         else warn i (fl (- 7/10)))"

definition return_path_checks :: "header \<Rightarrow> gostring \<Rightarrow> gostring \<Rightarrow> finding list" where
  "return_path_checks h mailType returnPathDomain =
     (let i = ''return_path''
      in if mailType = ''personal'' \<or> mailType = ''transactional'' then [na i]
         else if Get h ''Return-Path'' = [] then [warn i (fl (- 5/10))]
         else if returnPathDomain \<noteq> [] then [pass i (fl (1/10))] else [])"

definition received_chain_check :: "gostring list \<Rightarrow> finding" where
  "received_chain_check received =
     (if received = [] then fail ''received_chain'' (fl (- 12/10)) else info ''received_chain'' 0)"

definition tlsTransportCheck :: "gostring list \<Rightarrow> finding" where
  "tlsTransportCheck received =
     (let i = ''tls_transport'';
          first = (case received of r # _ \<Rightarrow> to_lower r | [] \<Rightarrow> []);
          raw = to_lower (join [LF] received)
      in if received \<noteq> [] \<and> (contains first ''esmtps'' \<or> contains first ''with tls'' \<or> contains first ''cipher'')
         then pass i (fl (1/10))
         else if received \<noteq> [] \<and> (contains first ''esmtp'' \<or> contains first '' smtp'') then warn i (fl (- 2/10))
         else if contains raw ''tls'' \<or> contains raw ''esmtps'' \<or> contains raw ''cipher'' then info i 0
         else warn i (fl (- 2/10)))"

definition arc_check :: "header \<Rightarrow> gostring \<Rightarrow> finding" where
  "arc_check h ar = (if parseAuthResult ar ''arc'' = ''fail'' then warn ''arc'' (fl (- 2/10)) else info ''arc'' 0)"

definition x_google_check :: "gostring \<Rightarrow> finding" where
  "x_google_check ar =
     (if parseAuthResult ar ''x-google-dkim'' = ''fail'' then warn ''x_google_dkim'' (fl (- 2/10)) else info ''x_google_dkim'' 0)"

subsection \<open>Running a check again\<close>

record RecheckInput =
  RFromDomain :: gostring
  EnvelopeDomain :: gostring
  ReturnDomain :: gostring
  RRemoteIP :: gostring
  RHELO :: gostring
  DKIMSignature :: gostring
  RLinks :: "gostring list"
  PrevStatus :: gostring
  PrevDelta :: float64

definition pendingDelta :: "RecheckInput \<Rightarrow> gostring \<Rightarrow> float64" where
  "pendingDelta inp i = (if PrevStatus inp = [] then scoreFor (checkImportance i) ''warn'' else PrevDelta inp)"

definition recheckable_ids :: "gostring list" where
  "recheckable_ids =
     [''spf'', ''spf_strictness'', ''dmarc'', ''dmarc_policy'', ''mx_records'', ''address_records'', ''dkim_keylength'',
      ''envelope_mx'', ''mta_sts'', ''tls_rpt'', ''bimi'', ''dnssec'', ''dane_tlsa'', ''ptr'', ''ptr_pattern'',
      ''domain_age'', ''domain_blocklist'', ''link_blocklist'', ''from_domain_rcv'', ''broken_links'']"

definition Recheckable :: "gostring \<Rightarrow> bool" where
  "Recheckable i = (i \<in> set recheckable_ids)"

definition recheckUnconfirmed :: "gostring \<Rightarrow> RecheckInput \<Rightarrow> finding" where
  "recheckUnconfirmed i inp =
     (let c = info i (pendingDelta inp i);
          c = (if ScoreDelta c < 0 then c\<lparr>finding.Status := ''warn''\<rparr> else c)
      in withDetails c [recheckPendingDetailKey \<mapsto>
           ''Eintrag vorhanden, Ergebnis noch nicht durch eine echte Zustellung best'' @ ae @ ''tigt''])"

definition spfRecordRecheck :: "analyzer_env \<Rightarrow> gostring \<Rightarrow> RecheckInput \<Rightarrow> check" where
  "spfRecordRecheck env domain inp n =
     (let d = normDomain domain
      in if d = [] then (info ''spf'' 0, n)
         else (case lookupTXT (adns env) d n of ((txts, st), m) \<Rightarrow>
           (if st = dnsUnavailable then unresolved ''spf''
            else if spf1_records txts = [] then warn ''spf'' 0
            else recheckUnconfirmed ''spf'' inp, m)))"

definition spfStrictnessRecheck :: "analyzer_env \<Rightarrow> gostring \<Rightarrow> check" where
  "spfStrictnessRecheck env domain n =
     (let d = normDomain domain
      in if d = [] then (info ''spf_strictness'' 0, n)
         else (case lookupTXT (adns env) d n of ((txts, st), m) \<Rightarrow>
           (if st = dnsUnavailable then unresolved ''spf_strictness'' else spfStrictnessCheck env (spf1_records txts), m)))"

definition dmarcRecordRecheck :: "analyzer_env \<Rightarrow> gostring \<Rightarrow> RecheckInput \<Rightarrow> check" where
  "dmarcRecordRecheck env domain inp n =
     (let d = normDomain domain
      in if d = [] then (info ''dmarc'' 0, n)
         else (case lookupDMARCRecord (adns env) d n of (dm, m) \<Rightarrow>
           (if dmarcLookupResult.Status dm = dnsUnavailable then unresolved ''dmarc''
            else if Records dm = [] then fail ''dmarc'' 0
            else recheckUnconfirmed ''dmarc'' inp, m)))"

definition dmarcPolicyRecheck :: "analyzer_env \<Rightarrow> gostring \<Rightarrow> check" where
  "dmarcPolicyRecheck env domain n =
     (let d = normDomain domain
      in if d = [] then (info ''dmarc_policy'' 0, n)
         else (case lookupDMARCRecord (adns env) d n of (dm, m) \<Rightarrow>
           (if dmarcLookupResult.Status dm = dnsUnavailable then unresolved ''dmarc_policy''
            else dmarcPolicyCheck (Records dm) (Policy dm), m)))"

text \<open>
  The dispatch of \<open>Recheck\<close>. \<open>broken\<close> stands for the HTTP probe of the links, \<open>providers\<close> for the configured
  blocklists. \<open>None\<close> is an unsupported ID.
\<close>

definition recheck_one :: "analyzer_env \<Rightarrow> (gostring list \<Rightarrow> gostring list) \<Rightarrow> (gostring list \<Rightarrow> finding) \<Rightarrow> gostring list \<Rightarrow> gostring \<Rightarrow> RecheckInput \<Rightarrow> dnsFailures \<Rightarrow> (finding \<times> dnsFailures) option" where
  "recheck_one env order broken providers i inp n =
     (let primary = firstNonEmpty [RFromDomain inp, EnvelopeDomain inp];
          envfrom = firstNonEmpty [EnvelopeDomain inp, RFromDomain inp];
          bounce = firstNonEmpty [ReturnDomain inp, EnvelopeDomain inp]
      in map_option (\<lambda>c. c n) (map_of
        [(''spf'', spfRecordRecheck env envfrom inp), (''spf_strictness'', spfStrictnessRecheck env envfrom),
         (''dmarc'', dmarcRecordRecheck env (RFromDomain inp) inp), (''dmarc_policy'', dmarcPolicyRecheck env (RFromDomain inp)),
         (''mx_records'', mxRecordCheck env primary), (''address_records'', addressRecordCheck env primary),
         (''dkim_keylength'', dkimKeyLengthCheck env (DKIMSignature inp)), (''envelope_mx'', envelopeBounceMXCheck env bounce),
         (''mta_sts'', mtaStsCheck env primary), (''tls_rpt'', tlsRptCheck env primary), (''bimi'', bimiCheck env primary),
         (''dnssec'', dnssecCheck env primary), (''dane_tlsa'', daneCheck env primary),
         (''ptr'', ptrPlausibility env (RRemoteIP inp) (RHELO inp)), (''ptr_pattern'', ptrPatternCheck env (RRemoteIP inp)),
         (''domain_age'', \<lambda>k. (domainAgeCheck env primary, k)), (''domain_blocklist'', domainBlocklistCheck env primary providers),
         (''link_blocklist'', linkBlocklistCheck env order (RLinks inp) providers),
         (''from_domain_rcv'', fromDomainReceiveCheck env (RFromDomain inp) bounce),
         (''broken_links'', \<lambda>k. (broken (RLinks inp), k))] i))"

definition Recheck :: "analyzer_env \<Rightarrow> (gostring list \<Rightarrow> gostring list) \<Rightarrow> (gostring list \<Rightarrow> finding) \<Rightarrow> gostring list \<Rightarrow> gostring \<Rightarrow> RecheckInput \<Rightarrow> dnsFailures \<Rightarrow> (finding \<times> dnsFailures) option" where
  "Recheck env order broken providers i inp n =
     map_option (\<lambda>(c, m). (enrichCheckResult c, m)) (recheck_one env order broken providers i inp n)"

subsection \<open>Outages\<close>

interpretation key_length: dns_check "dkimKeyLengthCheck env sig"
  by unfold_locales
    (auto simp: dkimKeyLengthCheck_def check_simps split: prod.splits if_splits key_material.splits dest!: lookup_failures)

text \<open>The network checks that every report runs, in the order of \<open>Analyze\<close>.\<close>

definition network_checks :: "analyzer_env \<Rightarrow> gostring \<Rightarrow> gostring \<Rightarrow> gostring \<Rightarrow> gostring \<Rightarrow> gostring \<Rightarrow> gostring \<Rightarrow> check list" where
  "network_checks env primary sig bounce ip ehlo from =
     [mxRecordCheck env primary, addressRecordCheck env primary, dkimKeyLengthCheck env sig, envelopeBounceMXCheck env bounce,
      mtaStsCheck env primary, tlsRptCheck env primary, bimiCheck env primary, dnssecCheck env primary, daneCheck env primary,
      ptrPlausibility env ip ehlo, ptrPatternCheck env ip, fromDomainReceiveCheck env from bounce]"


definition demo_analyzer :: analyzer_env where
  "demo_analyzer = \<lparr>adns = demo_env\<lparr>localLookup := (\<lambda>name. ([], Some OtherError)), LookupMX := (\<lambda>name. ([], Some OtherError))\<rparr>,
     decode_key = (\<lambda>p. RSA 2048), resolver_server = [], exchange = (\<lambda>tcp server name qtype. None),
     rdap_date = (\<lambda>d. None), now = 0, url_host = (\<lambda>u. None), dynamic_ptr = (\<lambda>h. False)\<rparr>"


text \<open>
  Five checks lose the mark of an unanswered lookup (finding): MTA-STS, TLS-RPT, BIMI, the bounce domain and the DKIM
  key length replace the details of \<open>unresolved\<close> by their own, so they are never counted in the note about
  incomplete reports, although their lookup failed.
\<close>

theorem outage_mark_lost:
  "countUnresolved [fst (mtaStsCheck env d n)] = 0 \<and> countUnresolved [fst (tlsRptCheck env d n)] = 0
   \<and> countUnresolved [fst (bimiCheck env d n)] = 0 \<and> countUnresolved [fst (envelopeBounceMXCheck env d n)] = 0
   \<and> countUnresolved [fst (dkimKeyLengthCheck env sig n)] = 0
   \<and> snd (mtaStsCheck demo_analyzer ''example.org'' 0) = 1"
proof -
  have "snd (mtaStsCheck demo_analyzer ''example.org'' 0) = 1" by code_simp
  then show ?thesis
    by (auto simp: mtaStsCheck_def tlsRptCheck_def bimiCheck_def policy_check_def envelopeBounceMXCheck_def
        dkimKeyLengthCheck_def countUnresolved_def check_simps split: prod.splits key_material.splits)
qed

subsection \<open>Running a check again\<close>

lemma recheck_supported: "Recheckable i \<longleftrightarrow> Recheck env order broken providers i inp n \<noteq> None"
  unfolding Recheck_def recheck_one_def Let_def map_of_eq_None_iff option.map_disc_iff
  by (simp add: Recheckable_def recheckable_ids_def)

text \<open>
  The list of checks offered for a second run and the checks that can be run again are the same.
\<close>

theorem Recheckable_iff: "Recheckable i \<longleftrightarrow> Recheck env order broken providers i inp n \<noteq> None"
  by (rule recheck_supported)

lemma recheck_spf_dmarc:
  "recheck_one env order broken providers ''spf'' inp n =
     Some (spfRecordRecheck env (firstNonEmpty [EnvelopeDomain inp, RFromDomain inp]) inp n)"
  "recheck_one env order broken providers ''dmarc'' inp n = Some (dmarcRecordRecheck env (RFromDomain inp) inp n)"
  by (simp_all add: recheck_one_def Let_def)

lemma enrich_unconfirmed:
  "finding.Status (enrichCheckResult (recheckUnconfirmed i inp)) \<noteq> ''pass''
   \<and> ScoreDelta (enrichCheckResult (recheckUnconfirmed i inp)) = pendingDelta inp i"
proof (cases "pendingDelta inp i < 0")
  case True
  then show ?thesis by (simp add: enrichCheckResult_def recheckUnconfirmed_def check_simps)
next
  case False
  then show ?thesis by (simp add: enrichCheckResult_def recheckUnconfirmed_def check_simps)
qed

text \<open>
  Running the SPF or DMARC check again never turns it into a pass, so it cannot lift the cap on the score; when it
  finds a record it keeps the deduction of the finding it replaces, or the deduction of a warning when
  that finding is unknown.
\<close>

theorem recheck_keeps_penalty:
  assumes "i = ''spf'' \<or> i = ''dmarc''" "Recheck env order broken providers i inp n = Some (c, m)"
  shows "finding.Status c \<noteq> ''pass''
    \<and> (detail c recheckPendingDetailKey \<noteq> [] \<longrightarrow>
        ScoreDelta c = (if PrevStatus inp = [] then scoreFor ''Kritisch'' ''warn'' else PrevDelta inp))"
proof -
  have imp: "checkImportance i = ''Kritisch''" using assms(1) by (elim disjE) (simp_all add: checkImportance_def)
  from assms have "(i = ''spf'' \<and> (\<exists>c0. (c0, m) = spfRecordRecheck env (firstNonEmpty [EnvelopeDomain inp, RFromDomain inp]) inp n \<and> c = enrichCheckResult c0))
     \<or> (i = ''dmarc'' \<and> (\<exists>c0. (c0, m) = dmarcRecordRecheck env (RFromDomain inp) inp n \<and> c = enrichCheckResult c0))"
    by (auto simp: Recheck_def recheck_spf_dmarc split: prod.splits)
  then obtain c0 where c: "c = enrichCheckResult c0"
    and k: "c0 \<in> {info i 0, unresolved i, warn i 0, fail i 0, recheckUnconfirmed i inp}"
    by (auto simp: spfRecordRecheck_def dmarcRecordRecheck_def Let_def split: if_splits prod.splits)
  have plain: "finding.Status (enrichCheckResult d) \<noteq> ''pass'' \<and> detail (enrichCheckResult d) recheckPendingDetailKey = []"
    if "d \<in> {info i 0, unresolved i, warn i 0, fail i 0}" for d
    using that by (auto simp: enrichCheckResult_def check_simps)
  show ?thesis
  proof (cases "c0 = recheckUnconfirmed i inp")
    case True
    then show ?thesis unfolding c using imp enrich_unconfirmed [of i inp] by (simp add: pendingDelta_def)
  next
    case False
    with k plain [of c0] show ?thesis unfolding c by blast
  qed
qed

theorem recheck_keeps_penalty_witness:
  "\<exists>c m. Recheck (demo_analyzer\<lparr>adns := demo_env\<rparr>) id (\<lambda>l. info ''broken_links'' 0) [] ''spf''
       \<lparr>RFromDomain = ''example.org'', EnvelopeDomain = ''example.org'', ReturnDomain = [], RRemoteIP = [], RHELO = [],
        DKIMSignature = [], RLinks = [], PrevStatus = ''fail'', PrevDelta = fl (- 26/10)\<rparr> 0 = Some (c, m)
     \<and> finding.Status c \<noteq> ''pass''"
proof -
  let ?inp = "\<lparr>RFromDomain = ''example.org'', EnvelopeDomain = ''example.org'', ReturnDomain = [], RRemoteIP = [], RHELO = [],
        DKIMSignature = [], RLinks = [], PrevStatus = ''fail'', PrevDelta = fl (- 26/10)\<rparr>"
  have "Recheckable ''spf''" by (simp add: Recheckable_def recheckable_ids_def)
  then obtain c m where "Recheck (demo_analyzer\<lparr>adns := demo_env\<rparr>) id (\<lambda>l. info ''broken_links'' 0) [] ''spf'' ?inp 0 = Some (c, m)"
    using recheck_supported by fast
  with recheck_keeps_penalty [OF disjI1 [OF refl] this] show ?thesis by blast
qed

text \<open>
  A second run during an outage clears the deduction (finding): the SPF check that cost 2.6 points is replaced by an
  informational finding with weight 0, and the recomputed score rises although nothing was verified.
\<close>

lemma recheck_outage_clears_penalty:
  "let inp = \<lparr>RFromDomain = ''example.org'', EnvelopeDomain = ''example.org'', ReturnDomain = [], RRemoteIP = [], RHELO = [],
        DKIMSignature = [], RLinks = [], PrevStatus = ''fail'', PrevDelta = fl (- 26/10)\<rparr>
   in map_option (\<lambda>(c, m). (finding.Status c, ScoreDelta c, m))
        (Recheck demo_analyzer id (\<lambda>l. info ''broken_links'' 0) [] ''spf'' inp 0) = Some (''info'', 0, 1)
      \<and> fst (ComputeScore [enrichCheckResult (fail ''spf'' 0)]) < fst (ComputeScore [enrichCheckResult (info ''spf'' 0)])"
  unfolding Let_def by (intro conjI; code_simp)

subsection \<open>Verdicts on records and transport\<close>

text \<open>
  The DMARC policy check passes exactly for a policy of reject or quarantine that applies to all mail and is not
  undone for subdomains: a record is there, \<open>pct\<close> is 100 (also when it is absent or malformed) and
  \<open>sp\<close> is not \<open>none\<close>.
\<close>

theorem dmarcPolicyCheck_pass_iff:
  "finding.Status (dmarcPolicyCheck records policy) = ''pass'' \<longleftrightarrow>
     records \<noteq> [] \<and> to_lower (trim_space policy) \<in> {''reject'', ''quarantine''}
     \<and> dmarc_pct (to_lower (join '' '' records)) = 100
     \<and> extractTagValue (to_lower (join '' '' records)) ''sp'' \<noteq> ''none''"
proof -
  have "dmarc_pct j \<le> 100" for j by (auto simp: dmarc_pct_def Let_def split: option.splits)
  then have "\<not> dmarc_pct j < 100 \<longleftrightarrow> dmarc_pct j = 100" for j by (metis antisym_conv1 less_irrefl)
  then show ?thesis by (auto simp: dmarcPolicyCheck_def check_simps)
qed

text \<open>
  The strictness check looks for \<open>all\<close> as text anywhere in the record (finding): a host name that contains \<open>-all\<close> makes a
  record that ends in \<open>+all\<close> pass as strict, and \<open>all\<close> without a qualifier, which means \<open>+all\<close>, is
  taken for a record without \<open>all\<close>.
\<close>

lemma spf_strictness_reads_text:
  "finding.Status (spfStrictnessCheck demo_analyzer [''v=spf1 include:mail-all.example.net +all'']) = ''pass''
   \<and> finding.Status (spfStrictnessCheck demo_analyzer [''v=spf1 +all'']) = ''fail''
   \<and> finding.Status (spfStrictnessCheck demo_analyzer [''v=spf1 all'']) = ''warn''"
  by (intro conjI; code_simp)

text \<open>
  The transport check takes a word of the HELO name for the protocol (finding): a message delivered without TLS by a
  host that calls itself \<open>esmtps.example.org\<close> is reported as delivered encrypted.
\<close>

lemma helo_forges_tls:
  "let rm = demo_mail\<lparr>HELO := ''esmtps.example.org''\<rparr>
   in \<not> TLS rm \<and> finding.Status (tlsTransportCheck [drop 10 (to_lf (buildReceivedHeader ''now'' ''report.example'' rm))]) = ''pass''"
  by code_simp

text \<open>
  The mail type is always bulk, transactional or personal; the value \<open>unknown\<close> that the documentation of
  \<open>detectMailType\<close> names never occurs. Without a bulk or auto-submitted header it is personal.
\<close>

lemma detectMailType_range:
  "detectMailType h \<in> {''bulk'', ''transactional'', ''personal''}
   \<and> (detectMailType h = ''personal'' \<longleftrightarrow>
        to_lower (trim_space (Get h ''Precedence'')) \<notin> {''bulk'', ''list'', ''junk''}
        \<and> (\<forall>k\<in>set [''List-Unsubscribe'', ''List-Id'', ''List-Archive'', ''List-Post'', ''Feedback-Id'', ''X-Feedback-Id'']. trim_space (Get h k) = [])
        \<and> to_lower (trim_space (Get h ''Auto-Submitted'')) \<in> {[], ''no''})"
proof -
  have k: "canonical_key ''List-ID'' = canonical_key ''List-Id''" "canonical_key ''Feedback-ID'' = canonical_key ''Feedback-Id''"
    "canonical_key ''X-Feedback-ID'' = canonical_key ''X-Feedback-Id''" by code_simp+
  then have "Get h ''List-ID'' = Get h ''List-Id''" "Get h ''Feedback-ID'' = Get h ''Feedback-Id''"
    "Get h ''X-Feedback-ID'' = Get h ''X-Feedback-Id''" by (simp_all add: Get_def headerValues_def)
  then show ?thesis by (auto simp: detectMailType_def Let_def)
qed

subsection \<open>Domain age\<close>

lemma fl_between: "of_int a \<le> x \<Longrightarrow> x \<le> of_int b \<Longrightarrow> \<bar>a\<bar> \<le> 2 ^ 53 \<Longrightarrow> \<bar>b\<bar> \<le> 2 ^ 53 \<Longrightarrow> of_int a \<le> fl x \<and> fl x \<le> of_int b"
  using float.above_int [of a x] float.below_int [of x b] by blast

definition age_factor :: "int \<Rightarrow> float64" where
  "age_factor a = fl (1 - fdiv (of_int a) 365)"

definition age_points :: "int \<Rightarrow> int" where
  "age_points a = to_int (fmul (fmul (fmul (- 2) (age_factor a)) (age_factor a)) 100)"

lemma age_delta_eq: "age_delta a = (if a < 365 then fl (of_int (age_points a) / 100) else 0)"
  by (simp add: age_delta_def age_points_def age_factor_def Let_def fdiv_def)

lemma age_factor_range: "0 \<le> a \<Longrightarrow> a < 365 \<Longrightarrow> 0 \<le> age_factor a \<and> age_factor a \<le> 1"
proof -
  assume a: "0 \<le> a" "a < 365"
  have "of_int 0 \<le> (of_int a :: rat) / 365 \<and> (of_int a :: rat) / 365 \<le> of_int 1" using a by simp
  then have "0 \<le> fdiv (of_int a) 365 \<and> fdiv (of_int a) 365 \<le> 1"
    using fl_between [of 0 "of_int a / 365" 1] by (simp add: fdiv_def)
  then show ?thesis using fl_between [of 0 "1 - fdiv (of_int a) 365" 1] by (simp add: age_factor_def)
qed

lemma age_factor_anti: "a \<le> b \<Longrightarrow> age_factor b \<le> age_factor a"
  unfolding age_factor_def fdiv_def by (intro fl_mono diff_left_mono) (simp add: fl_mono divide_right_mono)

lemma age_points_mono:
  assumes "0 \<le> a" "a \<le> b" "b < 365"
  shows "- 200 \<le> age_points a \<and> age_points a \<le> age_points b \<and> age_points b \<le> 0"
proof -
  let ?x = "\<lambda>c. fmul (- 2) (age_factor c)"
  let ?y = "\<lambda>c. fmul (?x c) (age_factor c)"
  have f: "0 \<le> age_factor c \<and> age_factor c \<le> 1" if "c \<in> {a, b}" for c using that assms age_factor_range by auto
  have x: "- 2 \<le> ?x c \<and> ?x c \<le> 0" if "c \<in> {a, b}" for c
    using f [OF that] fl_between [of "- 2" "- 2 * age_factor c" 0] by (simp add: fmul_def)
  have y: "- 2 \<le> ?y c \<and> ?y c \<le> 0" if "c \<in> {a, b}" for c
  proof -
    have "- 2 \<le> ?x c * age_factor c" "?x c * age_factor c \<le> 0"
      using f [OF that] x [OF that] mult_left_le_one_le [of "- ?x c" "age_factor c"]
        mult_nonpos_nonneg [of "?x c" "age_factor c"]
      by (auto simp: mult.commute)
    then show ?thesis using fl_between [of "- 2" "?x c * age_factor c" 0] by (simp add: fmul_def)
  qed
  have z: "- 200 \<le> fmul (?y c) 100 \<and> fmul (?y c) 100 \<le> 0" if "c \<in> {a, b}" for c
    using y [OF that] fl_between [of "- 200" "?y c * 100" 0] by (simp add: fmul_def)
  have xm: "?x a \<le> ?x b" using age_factor_anti [OF assms(2)] by (simp add: fmul_def fl_mono)
  have "?x a * age_factor a \<le> ?x a * age_factor b"
    using x [of a] age_factor_anti [OF assms(2)] by (simp add: mult_left_mono_neg)
  also have "\<dots> \<le> ?x b * age_factor b" using xm f [of b] by (simp add: mult_right_mono)
  finally have "?y a \<le> ?y b" unfolding fmul_def [of "?x a"] fmul_def [of "?x b"] by (rule fl_mono)
  then have zm: "fmul (?y a) 100 \<le> fmul (?y b) 100" by (simp add: fmul_def [of _ 100] fl_mono)
  have p: "age_points c = \<lceil>fmul (?y c) 100\<rceil>" if "c \<in> {a, b}" for c
    using z [OF that] by (auto simp: age_points_def to_int_def ceiling_eq_iff order_antisym_conv)
  have "- 200 \<le> \<lceil>fmul (?y a) 100\<rceil>" "\<lceil>fmul (?y b) 100\<rceil> \<le> 0"
    using z [of a] z [of b] by (simp_all add: le_ceiling_iff ceiling_le_iff)
  with p ceiling_mono [OF zm] show ?thesis by simp
qed

text \<open>
  The deduction for a young domain is between 0 and 2 points, shrinks as the domain gets older and is gone after a year,
  for every registration date that is not in the future; the roundings of float64 do not disturb the order.
\<close>

theorem age_delta_monotone:
  assumes "0 \<le> a" "a \<le> b"
  shows "- 2 \<le> age_delta a \<and> age_delta a \<le> age_delta b \<and> age_delta b \<le> 0 \<and> (365 \<le> b \<longrightarrow> age_delta b = 0)"
proof -
  have lim: "- 2 \<le> age_delta c \<and> age_delta c \<le> 0" if "0 \<le> c" for c
  proof (cases "c < 365")
    case True
    with that age_points_mono [of c c] have "- 200 \<le> age_points c" "age_points c \<le> 0" by auto
    then have "(of_int (- 200) :: rat) \<le> of_int (age_points c)" "(of_int (age_points c) :: rat) \<le> of_int 0"
      by (simp_all only: of_int_le_iff)
    then have "of_int (- 2) \<le> (of_int (age_points c) / 100 :: rat)" "(of_int (age_points c) / 100 :: rat) \<le> of_int 0"
      by (simp_all add: le_divide_eq)
    from fl_between [OF this] True show ?thesis by (simp add: age_delta_eq)
  qed (simp add: age_delta_eq)
  have "age_delta a \<le> age_delta b"
  proof (cases "b < 365")
    case True
    with assms age_points_mono [of a b] show ?thesis by (auto simp: age_delta_eq intro!: fl_mono divide_right_mono)
  next
    case False
    then show ?thesis using lim [OF assms(1)] by (simp add: age_delta_eq)
  qed
  with lim [of a] lim [of b] assms show ?thesis by (auto simp: age_delta_eq)
qed

theorem age_delta_monotone_witness:
  "- 2 \<le> age_delta 0 \<and> age_delta 0 \<le> age_delta 30 \<and> age_delta 30 \<le> 0"
  using age_delta_monotone [of 0 30] by simp

end
