(* ===== verification/Report_Texts.thy ===== *)
theory Report_Texts
  imports Spam_Filters Verdicts
begin

text \<open>
  The texts of a report (\<open>internal/analyzer/analyzer.go\<close>): names, explanations, recommendations and links for every check in German and English, the texts about
  blocklists, and the step that attaches them to a check together with the technical details. Of \<open>classifyDKIMFailure\<close> the wording is not modelled: the three texts of
  a specific DKIM finding (English summary, German and English advice) are a field of the context.
\<close>

subsection \<open>Context and helpers\<close>

record checkContext =
  CRemoteIP :: gostring
  CHELO :: gostring
  CSMTPFrom :: gostring
  CHeaders :: header
  CFromDomain :: gostring
  CEnvelopeDomain :: gostring
  CReturnPath :: gostring
  CReturnDomain :: gostring
  CSPFResult :: gostring
  CSPFRecords :: "gostring list"
  CDKIMResult :: gostring
  CDKIMDomain :: gostring
  CDKIMTexts :: "(gostring \<times> gostring \<times> gostring) option"
  CDMARCResult :: gostring
  CDMARCRecords :: "gostring list"
  CDMARCPolicy :: gostring
  CAlignedSPF :: bool
  CAlignedDKIM :: bool
  CReceivedLines :: "gostring list"
  CBody :: parsedBody
  CLinks :: "gostring list"

text \<open>\<open>strings.Replace\<close> with count 1.\<close>

definition replace_first :: "gostring \<Rightarrow> gostring \<Rightarrow> gostring \<Rightarrow> gostring" where
  "replace_first old new s = (case index s old of None \<Rightarrow> s | Some k \<Rightarrow> take k s @ new @ drop (k + length old) s)"

definition hex_digit :: "nat \<Rightarrow> char" where
  "hex_digit n = ''0123456789ABCDEF'' ! n"

definition QueryEscape :: "gostring \<Rightarrow> gostring" where
  "QueryEscape s = concat (map (\<lambda>c. if is_ascii_char c \<and> (word_char c \<or> c \<in> set ''-_.~'') then [c]
     else if c = SP then ''+'' else [CHR ''%'', hex_digit ((of_char c :: nat) div 16), hex_digit ((of_char c :: nat) mod 16)]) s)"

text \<open>A \<open>switch\<close> over constant texts.\<close>

fun switch_text :: "(gostring list \<times> gostring) list \<Rightarrow> gostring \<Rightarrow> gostring \<Rightarrow> gostring" where
  "switch_text [] fallback i = fallback"
| "switch_text ((is, t) # cs) fallback i = (if i \<in> set is then t else switch_text cs fallback i)"

subsection \<open>Names\<close>

definition MailTypeLabel :: "gostring \<Rightarrow> gostring" where
  "MailTypeLabel t =
     (if t = ''bulk'' then ''Newsletter/Bulk''
      else if t = ''transactional'' then ''Transactional''
      else if t = ''personal'' then (''Pers'' @ [CHR 0xC3, CHR 0xB6] @ ''nlich'')
      else ''Unbekannt'')"

definition MailTypeIcon :: "gostring \<Rightarrow> gostring" where
  "MailTypeIcon t =
     (if t = ''bulk'' then [CHR 0xF0, CHR 0x9F, CHR 0x93, CHR 0xAC]
      else if t = ''transactional'' then [CHR 0xE2, CHR 0x9A, CHR 0x99, CHR 0xEF, CHR 0xB8, CHR 0x8F]
      else if t = ''personal'' then [CHR 0xF0, CHR 0x9F, CHR 0xA7, CHR 0x91]
      else [CHR 0xE2, CHR 0x9D, CHR 0x93])"

definition checkNameDE_names :: "(gostring \<times> gostring) list" where
  "checkNameDE_names =
     [(''spf'', ''SPF''),
      (''dkim'', ''DKIM''),
      (''dmarc'', ''DMARC''),
      (''spf_strictness'', ''SPF-Strenge''),
      (''dmarc_policy'', ''DMARC-Policy-St'' @ [CHR 0xC3, CHR 0xA4] @ ''rke''),
      (''dkim_keylength'', ''DKIM-Schl'' @ [CHR 0xC3, CHR 0xBC] @ ''ssell'' @ [CHR 0xC3, CHR 0xA4] @ ''nge''),
      (''mx_records'', ''MX-Records''),
      (''address_records'', ''A/AAAA-Records''),
      (''envelope_mx'', ''Bounce-Empfang (Envelope-MX)''),
      (''from_domain_rcv'', ''From-Domain Empfangsf'' @ [CHR 0xC3, CHR 0xA4] @ ''higkeit''),
      (''mta_sts'', ''MTA-STS''),
      (''tls_rpt'', ''TLS-RPT''),
      (''bimi'', ''BIMI''),
      (''dnssec'', ''DNSSEC''),
      (''dane_tlsa'', ''DANE/TLSA''),
      (''ptr'', ''PTR/rDNS''),
      (''ptr_pattern'', ''PTR-Hostname-Muster''),
      (''rbl'', ''DNSBL/RBL''),
      (''domain_blocklist'', ''Domain-Blocklist''),
      (''link_blocklist'', ''Link-Domain-Blocklist''),
      (''domain_age'', ''Domain-Alter''),
      (''broken_links'', ''Erreichbarkeit der Links'')]"

definition checkNameDE :: "gostring \<Rightarrow> gostring" where
  "checkNameDE i = (case map_of checkNameDE_names i of Some n \<Rightarrow> n | None \<Rightarrow> i)"

definition checkNameEN_names :: "(gostring \<times> gostring) list" where
  "checkNameEN_names =
     [(''spf'', ''SPF''),
      (''dkim'', ''DKIM''),
      (''dmarc'', ''DMARC''),
      (''spf_alignment'', ''SPF Alignment''),
      (''dkim_alignment'', ''DKIM Alignment''),
      (''dmarc_alignment'', ''DMARC Alignment''),
      (''dmarc_policy'', ''DMARC Policy Strength''),
      (''spf_strictness'', ''SPF Strictness''),
      (''dkim_keylength'', ''DKIM Key Strength''),
      (''from_alignment'', ''Envelope-From / Header-From''),
      (''return_path'', ''Return-Path''),
      (''reply_to'', ''Reply-To''),
      (''display_name'', ''Display Name''),
      (''ptr'', ''Reverse DNS (PTR)''),
      (''ptr_pattern'', ''PTR Pattern''),
      (''helo'', ''HELO/EHLO''),
      (''mx_records'', ''MX Records''),
      (''address_records'', ''Address Records (A/AAAA)''),
      (''tls_transport'', ''TLS Transport''),
      (''received_chain'', ''Received Header Chain''),
      (''arc'', ''ARC''),
      (''envelope_mx'', ''Bounce MX''),
      (''mta_sts'', ''MTA-STS''),
      (''tls_rpt'', ''TLS-RPT''),
      (''bimi'', ''BIMI''),
      (''dnssec'', ''DNSSEC''),
      (''dane_tlsa'', ''DANE/TLSA''),
      (''domain_age'', ''Domain Age''),
      (''rbl'', ''DNSBL/RBL''),
      (''domain_blocklist'', ''Domain Blocklist''),
      (''link_blocklist'', ''Link Blocklist''),
      (''spamassassin'', ''SpamAssassin''),
      (''rspamd'', ''Rspamd''),
      (''mime_parse'', ''MIME Parsing''),
      (''mime_ct'', ''MIME Content-Type''),
      (''mime_boundary'', ''MIME Boundary''),
      (''plain_text'', ''Plain Text Part''),
      (''multipart_alt'', ''Multipart Alternative''),
      (''attachments'', ''Attachments''),
      (''image_text_ratio'', ''Image/Text Ratio''),
      (''charset'', ''Character Set''),
      (''links'', ''Links''),
      (''shortener'', ''Link Shorteners''),
      (''tracking_links'', ''Tracking Links''),
      (''html'', ''HTML Structure''),
      (''hidden_html'', ''Hidden HTML''),
      (''html_validity'', ''HTML Validity''),
      (''subject'', ''Subject''),
      (''subject_exclaim'', ''Subject Exclamation Marks''),
      (''subject_caps'', ''Subject ALL-CAPS''),
      (''unicode'', ''Unicode/Obfuscation''),
      (''list_unsub'', ''List-Unsubscribe''),
      (''preheader'', ''Preheader''),
      (''date'', ''Date Header''),
      (''date_skew'', ''Date Plausibility''),
      (''message_id'', ''Message-ID''),
      (''body_read'', ''Body Readability''),
      (''from_domain_rcv'', ''From Domain Reachability''),
      (''one_click_unsub'', ''One-Click Unsubscribe (RFC 8058)''),
      (''template_urls'', ''Template Placeholders in Links''),
      (''image_alt'', ''Image Alt Text''),
      (''harmful_html'', ''Harmful HTML Elements''),
      (''fake_reply'', ''Fake Reply Prefix''),
      (''message_id_format'', ''Message-ID Format''),
      (''x_google_dkim'', ''X-Google DKIM''),
      (''too_many_links'', ''Too Many Links''),
      (''no_reply_reply_to'', ''No-Reply Without Reply-To''),
      (''link_domain_mismatch'', ''Link Domain Mismatch''),
      (''broken_links'', ''Broken Link Check (HTTP)'')]"

definition checkNameEN :: "gostring \<Rightarrow> gostring" where
  "checkNameEN i = (case map_of checkNameEN_names i of Some n \<Rightarrow> n | None \<Rightarrow> i)"

subsection \<open>Explanations\<close>

definition defaultExplanation_cases :: "(gostring list \<times> gostring) list" where
  "defaultExplanation_cases =
     [([''dmarc_policy''], (''Die DMARC-Policy (p=) bestimmt, was Empf'' @ [CHR 0xC3, CHR 0xA4] @ ''nger mit Mails tun, die DMARC nicht bestehen. p=none = nur Monitoring (kein Schutz), p=quarantine = ab in den Spam, p=reject = komplett ablehnen. Wichtigkeit: hoch '' @ [CHR 0xE2, CHR 0x80, CHR 0x93] @ '' nur quarantine/reject sch'' @ [CHR 0xC3, CHR 0xBC] @ ''tzen Ihre Domain aktiv vor Spoofing/Phishing. Gmail & Yahoo erwarten von Bulk-Sendern zunehmend mindestens eine durchgesetzte Policy. Vorgehen: mit p=none + rua-Reporting starten, Quellen sauber konfigurieren, dann schrittweise auf quarantine und reject erh'' @ [CHR 0xC3, CHR 0xB6] @ ''hen.'')),
      ([''spf_strictness''], (''Der abschlie'' @ [CHR 0xC3, CHR 0x9F] @ ''ende all-Mechanismus eines SPF-Records legt fest, wie streng nicht-autorisierte Server behandelt werden: -all = hardfail (empfohlen), ~all = softfail, ?all = neutral (wirkungslos), +all = erlaubt alle (gef'' @ [CHR 0xC3, CHR 0xA4] @ ''hrlich). Au'' @ [CHR 0xC3, CHR 0x9F] @ ''erdem begrenzt RFC 7208 SPF auf 10 DNS-Lookups '' @ [CHR 0xE2, CHR 0x80, CHR 0x93] @ '' wird das '' @ [CHR 0xC3, CHR 0xBC] @ ''berschritten, schl'' @ [CHR 0xC3, CHR 0xA4] @ ''gt SPF mit PermError fehl. Wichtigkeit: hoch '' @ [CHR 0xE2, CHR 0x80, CHR 0x93] @ '' ein zu lascher oder kaputter SPF-Record untergr'' @ [CHR 0xC3, CHR 0xA4] @ ''bt SPF und damit DMARC.'')),
      ([''dkim_keylength''], (''Die St'' @ [CHR 0xC3, CHR 0xA4] @ ''rke des DKIM-Schl'' @ [CHR 0xC3, CHR 0xBC] @ ''ssels bestimmt die F'' @ [CHR 0xC3, CHR 0xA4] @ ''lschungssicherheit der Signatur. 512/768-Bit-RSA gilt als gebrochen, 1024 Bit als veraltet; empfohlen sind mindestens 2048-Bit-RSA oder Ed25519. Wichtigkeit: mittel bis hoch '' @ [CHR 0xE2, CHR 0x80, CHR 0x93] @ '' gro'' @ [CHR 0xC3, CHR 0x9F] @ ''e Provider werten schwache Schl'' @ [CHR 0xC3, CHR 0xBC] @ ''ssel ab oder ignorieren sie, wodurch DKIM (und damit DMARC) effektiv ausf'' @ [CHR 0xC3, CHR 0xA4] @ ''llt. Bei Schl'' @ [CHR 0xC3, CHR 0xBC] @ ''sselwechsel den Selector rotieren.'')),
      ([''ptr_pattern''], (''Selbst wenn Forward-confirmed rDNS technisch besteht, achten Spamfilter auf das Muster des PTR-Hostnamens. Namen wie '' @ [CHR 0x27] @ ''203-0-113-5.dynamic.isp.net'' @ [CHR 0x27] @ '', '' @ [CHR 0x27] @ ''dsl-'' @ [CHR 0xE2, CHR 0x80, CHR 0xA6, CHR 0x27] @ '', '' @ [CHR 0x27] @ ''pool-'' @ [CHR 0xE2, CHR 0x80, CHR 0xA6, CHR 0x27] @ '' oder '' @ [CHR 0x27] @ ''customer-'' @ [CHR 0xE2, CHR 0x80, CHR 0xA6, CHR 0x27] @ '' signalisieren Endkunden-/Dynamic-IPs, von denen seri'' @ [CHR 0xC3, CHR 0xB6] @ ''se Mailserver normalerweise nicht direkt senden. Wichtigkeit: hoch '' @ [CHR 0xE2, CHR 0x80, CHR 0x93] @ '' SpamAssassin (RDNS_DYNAMIC) und viele Gateways werten solche Muster stark negativ. L'' @ [CHR 0xC3, CHR 0xB6] @ ''sung: dedizierten, sprechenden Mailserver-PTR beim Hoster setzen.'')),
      ([''display_name''], (''Der Anzeigename im From-Header ('' @ [CHR 0x27] @ ''Friendly From'' @ [CHR 0x27] @ '') ist frei w'' @ [CHR 0xC3, CHR 0xA4] @ ''hlbar und wird von Phishing stark missbraucht: ein vertrauter Marken- oder Personenname als Anzeige, w'' @ [CHR 0xC3, CHR 0xA4] @ ''hrend die echte Absenderdomain eine ganz andere ist. Wichtigkeit: hoch '' @ [CHR 0xE2, CHR 0x80, CHR 0x93] @ '' Provider und Security-Gateways erkennen Display-Name-Spoofing und Marken-Imitation und stufen solche Mails als Phishing ein. Anzeigename und tats'' @ [CHR 0xC3, CHR 0xA4] @ ''chliche Absenderdomain konsistent halten.'')),
      ([''envelope_mx''], (''Der Return-Path/Envelope-From ist die Bounce-Adresse: dorthin gehen Unzustellbarkeits-Meldungen (DSN/NDR). Kann diese Domain keine Mail empfangen (kein MX, kein A/AAAA), gehen Bounces verloren '' @ [CHR 0xE2, CHR 0x80, CHR 0x93] @ '' schlecht f'' @ [CHR 0xC3, CHR 0xBC] @ ''rs Listen-Hygiene-Management und ein Qualit'' @ [CHR 0xC3, CHR 0xA4] @ ''tssignal f'' @ [CHR 0xC3, CHR 0xBC] @ ''r Filter. Wichtigkeit: mittel '' @ [CHR 0xE2, CHR 0x80, CHR 0x93] @ '' eine empfangsf'' @ [CHR 0xC3, CHR 0xA4] @ ''hige Bounce-Domain geh'' @ [CHR 0xC3, CHR 0xB6] @ ''rt zu einem professionellen Versand-Setup.'')),
      ([''mta_sts''], (''MTA-STS (RFC 8461) erlaubt einer Domain, verschl'' @ [CHR 0xC3, CHR 0xBC] @ ''sselten SMTP-Transport (TLS) verbindlich zu verlangen, statt ihn nur opportunistisch zu nutzen. Sendende Server pr'' @ [CHR 0xC3, CHR 0xBC] @ ''fen die per HTTPS ver'' @ [CHR 0xC3, CHR 0xB6] @ ''ffentlichte Policy und brechen ab, wenn kein g'' @ [CHR 0xC3, CHR 0xBC] @ ''ltiges TLS m'' @ [CHR 0xC3, CHR 0xB6] @ ''glich ist '' @ [CHR 0xE2, CHR 0x80, CHR 0x93] @ '' das sch'' @ [CHR 0xC3, CHR 0xBC] @ ''tzt vor Downgrade-/Man-in-the-Middle-Angriffen. Wichtigkeit: mittel '' @ [CHR 0xE2, CHR 0x80, CHR 0x93] @ '' kein direkter Inbox-Platzierungsfaktor, aber ein klares Reifesignal und zunehmend Standard bei seri'' @ [CHR 0xC3, CHR 0xB6] @ ''sen Absendern.'')),
      ([''tls_rpt''], (''TLS-RPT (RFC 8460) l'' @ [CHR 0xC3, CHR 0xA4] @ ''sst empfangende Server aggregierte Berichte '' @ [CHR 0xC3, CHR 0xBC] @ ''ber fehlgeschlagene oder herabgestufte TLS-Verbindungen an eine Reporting-Adresse schicken. So bemerken Sie TLS-/MTA-STS-Probleme, bevor sie zu Zustellausf'' @ [CHR 0xC3, CHR 0xA4] @ ''llen f'' @ [CHR 0xC3, CHR 0xBC] @ ''hren. Wichtigkeit: gering bis mittel '' @ [CHR 0xE2, CHR 0x80, CHR 0x93] @ '' ein Monitoring-/Reifesignal, sinnvoll in Kombination mit MTA-STS.'')),
      ([''bimi''], (''BIMI (Brand Indicators for Message Identification) zeigt bei unterst'' @ [CHR 0xC3, CHR 0xBC] @ ''tzenden Anbietern (Gmail, Apple Mail, Yahoo) Ihr Markenlogo neben der Nachricht an. Voraussetzung ist eine durchgesetzte DMARC-Policy (quarantine/reject) und ein SVG-Logo (bei manchen Providern zus'' @ [CHR 0xC3, CHR 0xA4] @ ''tzlich ein VMC-Zertifikat). Wichtigkeit: gering f'' @ [CHR 0xC3, CHR 0xBC] @ ''r die Zustellung selbst, aber ein starkes Vertrauens-/Reifesignal und Beleg f'' @ [CHR 0xC3, CHR 0xBC] @ ''r ein vollst'' @ [CHR 0xC3, CHR 0xA4] @ ''ndig konfiguriertes Authentifizierungs-Setup.'')),
      ([''dnssec''], (''DNSSEC signiert DNS-Antworten kryptografisch und sch'' @ [CHR 0xC3, CHR 0xBC] @ ''tzt vor DNS-Manipulation (Cache-Poisoning, Spoofing). Eine signierte Absenderzone ist ein Reifesignal und Voraussetzung f'' @ [CHR 0xC3, CHR 0xBC] @ ''r DANE. Wichtigkeit: gering bis mittel f'' @ [CHR 0xC3, CHR 0xBC] @ ''r die reine Inbox-Platzierung, aber relevant f'' @ [CHR 0xC3, CHR 0xBC] @ ''r die Gesamtintegrit'' @ [CHR 0xC3, CHR 0xA4] @ ''t der Mail-Infrastruktur.'')),
      ([''dane_tlsa''], (''DANE (TLSA-Records, RFC 7672) bindet das TLS-Zertifikat des Mailservers per DNSSEC an die Domain und erzwingt so authentifiziertes TLS beim SMTP-Transport '' @ [CHR 0xE2, CHR 0x80, CHR 0x93] @ '' eine Alternative/Erg'' @ [CHR 0xC3, CHR 0xA4] @ ''nzung zu MTA-STS. Voraussetzung ist DNSSEC. Wichtigkeit: gering f'' @ [CHR 0xC3, CHR 0xBC] @ ''r Inbox-Platzierung, aber ein hohes Sicherheits-/Reifesignal, v. a. im europ'' @ [CHR 0xC3, CHR 0xA4] @ ''ischen/Beh'' @ [CHR 0xC3, CHR 0xB6] @ ''rden-Umfeld.'')),
      ([''domain_age''], (''Das Registrierungsalter der Absenderdomain ist ein starkes Reputationssignal. Frisch registrierte Domains werden von Gmail, Outlook und Spamhaus mit gro'' @ [CHR 0xC3, CHR 0x9F] @ ''em Misstrauen behandelt '' @ [CHR 0xE2, CHR 0x80, CHR 0x93] @ '' Domains unter 30 Tagen sind ein klassisches Spam-/Phishing-Muster. Wichtigkeit: hoch f'' @ [CHR 0xC3, CHR 0xBC] @ ''r neue Domains '' @ [CHR 0xE2, CHR 0x80, CHR 0x93] @ '' '' @ [CHR 0xC3, CHR 0xA4] @ ''ltere, etablierte Domains genie'' @ [CHR 0xC3, CHR 0x9F] @ ''en Vertrauensvorschuss. Hinweis: weiches Signal (alte Domains k'' @ [CHR 0xC3, CHR 0xB6] @ ''nnen gekapert, neue legitim sein); wird per RDAP bei einem Dritt-Dienst abgefragt und ist daher opt-in.'')),
      ([''domain_blocklist''], (''Domain-Blocklists (z. B. Spamhaus DBL) listen Domains, die in Spam/Phishing auftauchen '' @ [CHR 0xE2, CHR 0x80, CHR 0x93] @ '' unabh'' @ [CHR 0xC3, CHR 0xA4] @ ''ngig von der sendenden IP. Eine gelistete Absenderdomain f'' @ [CHR 0xC3, CHR 0xBC] @ ''hrt bei vielen Providern direkt zu Ablehnung oder Spam-Einordnung. Wichtigkeit: sehr hoch, falls gelistet. Hinweis: DNS-Abfrage beim Blocklist-Anbieter (Dritt-Dienst), daher opt-in; '' @ [CHR 0xC3, CHR 0xB6] @ ''ffentliche Resolver werden von Spamhaus geblockt '' @ [CHR 0xE2, CHR 0x80, CHR 0x93] @ '' eigenen Resolver verwenden.'')),
      ([''link_blocklist''], (''URI-/Domain-Blocklists (URIBL, SURBL, Spamhaus DBL) pr'' @ [CHR 0xC3, CHR 0xBC] @ ''fen die in der Mail verlinkten Domains gegen bekannte Spam-/Malware-Domains. Da Spam fast immer einen Link enth'' @ [CHR 0xC3, CHR 0xA4] @ ''lt, ist das eines der wirksamsten Filtersignale '' @ [CHR 0xC3, CHR 0xBC] @ ''berhaupt. Wichtigkeit: sehr hoch, falls eine verlinkte Domain gelistet ist. Hinweis: DNS-Abfrage beim Blocklist-Anbieter (Dritt-Dienst), daher opt-in.'')),
      ([''from_alignment''], (''From-Alignment pr'' @ [CHR 0xC3, CHR 0xBC] @ ''ft, ob Envelope-From (SMTP MAIL FROM) und Header-From (sichtbare Absenderadresse) zur gleichen Domain geh'' @ [CHR 0xC3, CHR 0xB6] @ ''ren. Abweichungen sind technisch m'' @ [CHR 0xC3, CHR 0xB6] @ ''glich (z. B. ESP-Bounce-Adressen), k'' @ [CHR 0xC3, CHR 0xB6] @ ''nnen aber DMARC-Alignment gef'' @ [CHR 0xC3, CHR 0xA4] @ ''hrden und Spamfiltern Muster f'' @ [CHR 0xC3, CHR 0xBC] @ ''r Spoofing-Versuche liefern. Wichtigkeit: mittel '' @ [CHR 0xE2, CHR 0x80, CHR 0x93] @ '' viele Nutzer pr'' @ [CHR 0xC3, CHR 0xBC] @ ''fen die sichtbare From-Adresse; Mismatch kann Vertrauen kosten und DMARC-SPF-Alignment brechen. Tipp: Bounce-Domains als Subdomain der From-Domain konfigurieren.'')),
      ([''spf_alignment''], (''SPF-Alignment pr'' @ [CHR 0xC3, CHR 0xBC] @ ''ft, ob die Envelope-From-Domain (MAIL FROM) und die sichtbare Header-From-Domain zusammenpassen. F'' @ [CHR 0xC3, CHR 0xBC] @ ''r DMARC muss SPF-Alignment stimmen '' @ [CHR 0xE2, CHR 0x80, CHR 0x93] @ '' andernfalls kann SPF zwar bestehen, aber DMARC trotzdem scheitern. Wichtigkeit: hoch '' @ [CHR 0xE2, CHR 0x80, CHR 0x93] @ '' ESPs nutzen oft eigene Bounce-Domains; diese m'' @ [CHR 0xC3, CHR 0xBC] @ ''ssen als Subdomain der From-Domain konfiguriert sein oder DKIM muss DMARC alleine tragen. Tipp: entweder Bounce-Domain angleichen oder sicherstellen, dass DKIM-Alignment funktioniert.'')),
      ([''dkim_alignment''], (''DKIM-Alignment pr'' @ [CHR 0xC3, CHR 0xBC] @ ''ft, ob die Domain im d=-Tag der DKIM-Signatur zur sichtbaren Header-From-Domain passt. Nur aligned bestandenes DKIM z'' @ [CHR 0xC3, CHR 0xA4] @ ''hlt f'' @ [CHR 0xC3, CHR 0xBC] @ ''r DMARC. Wichtigkeit: hoch '' @ [CHR 0xE2, CHR 0x80, CHR 0x93] @ '' ohne korrekt aligntes DKIM kann DMARC scheitern, selbst wenn die Signatur technisch g'' @ [CHR 0xC3, CHR 0xBC] @ ''ltig ist. Tipp: Signing-Keys von ESPs (Mailchimp, Sendgrid etc.) m'' @ [CHR 0xC3, CHR 0xBC] @ ''ssen auf der eigenen Domain oder einer autorisierten Subdomain konfiguriert sein, nicht auf der ESP-Domain.'')),
      ([''dmarc_alignment''], (''DMARC-Alignment ist der Gesamtcheck: Besteht SPF oder DKIM, UND ist die jeweilige Domain zur sichtbaren From-Domain aligned? Nur wenn mindestens einer dieser beiden Pfade stimmt, z'' @ [CHR 0xC3, CHR 0xA4] @ ''hlt DMARC als bestanden. Wichtigkeit: kritisch '' @ [CHR 0xE2, CHR 0x80, CHR 0x93] @ '' Gmail, Yahoo, Apple Mail und Outlook setzen f'' @ [CHR 0xC3, CHR 0xBC] @ ''r Bulk-Sender DMARC-Alignment voraus; ohne aligned Pass scheitert DMARC-Enforcement und die Domain ist offen f'' @ [CHR 0xC3, CHR 0xBC] @ ''r Spoofing.'')),
      ([''return_path''], (''Return-Path enth'' @ [CHR 0xC3, CHR 0xA4] @ ''lt die Bounce-Adresse (Envelope-From / SMTP MAIL FROM). Hierhin gehen Delivery Status Notifications (DSN/NDR) bei Zustellfehlern. Wichtigkeit: mittel '' @ [CHR 0xE2, CHR 0x80, CHR 0x93] @ '' Return-Path sollte zur SPF-Domain passen und mit dem SMTP-Envelope-From konsistent sein. Viele Spamfilter pr'' @ [CHR 0xC3, CHR 0xBC] @ ''fen Return-Path auf Domain-Alignment, fehlende MX-Records und Blacklist-Status. Tipp: Bounce-Adressen auf einer eigenen Subdomain (z. B. bounce.example.org) betreiben und SPF daf'' @ [CHR 0xC3, CHR 0xBC] @ ''r pflegen.'')),
      ([''reply_to''], (''Reply-To steuert, wohin Antworten gehen, wenn Nutzer auf '' @ [CHR 0x27] @ ''Antworten'' @ [CHR 0x27] @ '' klicken. Wichtigkeit: gering bis mittel '' @ [CHR 0xE2, CHR 0x80, CHR 0x93] @ '' eine Abweichung zur From-Adresse kann legitim sein (Support-Alias, Teampostfach), ist aber auch ein bekanntes Phishing-Signal. Einige Spamfilter bewerten Reply-To-Domain gegen From-Domain und melden bei starker Abweichung (z. B. andere TLD oder kostenloser Webmailer) einen Verdacht. Tipp: Reply-To nur setzen wenn n'' @ [CHR 0xC3, CHR 0xB6] @ ''tig und dann zur eigenen Domain passend.'')),
      ([''mime_ct''], (''Content-Type beschreibt den Medientyp der Nachricht. Wichtigkeit: hoch '' @ [CHR 0xE2, CHR 0x80, CHR 0x93] @ '' ein fehlerhafter oder fehlender Content-Type verhindert korrektes Rendering in Mailclients und f'' @ [CHR 0xC3, CHR 0xBC] @ ''hrt zu erh'' @ [CHR 0xC3, CHR 0xB6] @ ''hten Spam-Scores bei SpamAssassin und Rspamd. RFC 2045 schreibt vor, dass jede MIME-Nachricht einen g'' @ [CHR 0xC3, CHR 0xBC] @ ''ltigen Content-Type-Header enthalten muss. Tipp: Mailversand-Bibliothek oder MTA erzeugt diesen Header in der Regel automatisch '' @ [CHR 0xE2, CHR 0x80, CHR 0x93] @ '' pr'' @ [CHR 0xC3, CHR 0xBC] @ ''fen ob der MTA korrekt konfiguriert ist.'')),
      ([''mime_boundary''], (''Multipart-Nachrichten ben'' @ [CHR 0xC3, CHR 0xB6] @ ''tigen eine eindeutige Boundary-Zeichenkette, die alle Teile trennt. Wichtigkeit: hoch '' @ [CHR 0xE2, CHR 0x80, CHR 0x93] @ '' eine fehlende oder kollidierende Boundary macht die Nachricht unparsbar. SpamAssassin, Rspamd und viele Gateway-Scanner werten kaputte MIME-Strukturen stark negativ. Tipp: Boundary-String darf in keinem der MIME-Parts vorkommen; eine zuf'' @ [CHR 0xC3, CHR 0xA4] @ ''llige UUID als Boundary ist bew'' @ [CHR 0xC3, CHR 0xA4] @ ''hrt.'')),
      ([''multipart_alt''], (''Multipart/alternative ist das empfohlene Format f'' @ [CHR 0xC3, CHR 0xBC] @ ''r HTML-Mails: ein text/plain-Part und ein text/html-Part. Wichtigkeit: mittel '' @ [CHR 0xE2, CHR 0x80, CHR 0x93] @ '' der Empf'' @ [CHR 0xC3, CHR 0xA4] @ ''nger-Client w'' @ [CHR 0xC3, CHR 0xA4] @ ''hlt den am besten geeigneten Part. Fehlt der text/plain-Part, k'' @ [CHR 0xC3, CHR 0xB6] @ ''nnen Mails in Text-only-Clients unlesbar werden, und Spamfilter sehen reines HTML als Spam-Signal. Tipp: Plaintext-Version immer mitschicken, auch wenn sie nur eine Kurzversion des HTML-Inhalts ist.'')),
      ([''plain_text''], (''Ein text/plain-Part erh'' @ [CHR 0xC3, CHR 0xB6] @ ''ht Kompatibilit'' @ [CHR 0xC3, CHR 0xA4] @ ''t mit Text-Clients, Screen-Readern und Archivierungssystemen erheblich. Wichtigkeit: mittel '' @ [CHR 0xE2, CHR 0x80, CHR 0x93] @ '' reine HTML-Mails ohne Plaintext-'' @ [CHR 0xC3, CHR 0x84] @ ''quivalent erzielen bei SpamAssassin (MIME_HTML_ONLY) und Rspamd negative Scores. Gmail und Outlook rendern Plaintext-Parts separat und nutzen sie f'' @ [CHR 0xC3, CHR 0xBC] @ ''r Suche und Preheader-Erkennung. Tipp: Auch eine einfache Text-Version reicht '' @ [CHR 0xE2, CHR 0x80, CHR 0x93] @ '' einfach den HTML-Inhalt ohne Tags darstellen.'')),
      ([''attachments''], (''Anh'' @ [CHR 0xC3, CHR 0xA4] @ ''nge erh'' @ [CHR 0xC3, CHR 0xB6] @ ''hen Gr'' @ [CHR 0xC3, CHR 0xB6, CHR 0xC3, CHR 0x9F] @ ''e, Risiko und Scanaufwand. Wichtigkeit: situationsabh'' @ [CHR 0xC3, CHR 0xA4] @ ''ngig '' @ [CHR 0xE2, CHR 0x80, CHR 0x93] @ '' ausf'' @ [CHR 0xC3, CHR 0xBC] @ ''hrbare Dateitypen (exe, js, vbs, bat) werden von den meisten Providern blockiert. Archive (zip, rar) werden auf Malware gescannt. Gro'' @ [CHR 0xC3, CHR 0x9F] @ ''e Anh'' @ [CHR 0xC3, CHR 0xA4] @ ''nge reduzieren Zustellwahrscheinlichkeit und erh'' @ [CHR 0xC3, CHR 0xB6] @ ''hen Bounce-Risiko durch Quotas. Tipp: Dateien besser extern verlinken (Cloud-Speicher, eigene Download-URL); Office-Dateien mit Makros sind besonders problematisch.'')),
      ([''image_text_ratio''], (''Mails mit vielen Bildern und wenig Text sind ein klassisches Spam-Signal, weil Spammer fr'' @ [CHR 0xC3, CHR 0xBC] @ ''h lernten, Text in Bilder zu verlagern, um Textfilter zu umgehen. Wichtigkeit: mittel '' @ [CHR 0xE2, CHR 0x80, CHR 0x93] @ '' SpamAssassin (HTML_IMAGE_RATIO_*) und Rspamd bewerten ein ung'' @ [CHR 0xC3, CHR 0xBC] @ ''nstiges Bild/Text-Verh'' @ [CHR 0xC3, CHR 0xA4] @ ''ltnis negativ. Tipp: zentrale Aussage immer auch als Text ausdr'' @ [CHR 0xC3, CHR 0xBC] @ ''cken, Bilder mit Alt-Text versehen, kein Bild-only-Layout verwenden.'')),
      ([''links''], (''Links werden von Mailprovidern und Gateways intensiv gepr'' @ [CHR 0xC3, CHR 0xBC] @ ''ft: Domain-Reputation, Blacklist-Status, Redirect-Ketten, Homoglyph-Domains und Phishing-Muster. Wichtigkeit: hoch '' @ [CHR 0xE2, CHR 0x80, CHR 0x93] @ '' viele Domains in einer Mail, Mismatch zwischen angezeigtem und tats'' @ [CHR 0xC3, CHR 0xA4] @ ''chlichem Linkziel oder Links auf verd'' @ [CHR 0xC3, CHR 0xA4] @ ''chtige TLDs erh'' @ [CHR 0xC3, CHR 0xB6] @ ''hen Spam-Scores erheblich. Tipp: Nur notwendige Links verwenden, eigene saubere Tracking-Domain einsetzen, HTTPS '' @ [CHR 0xC3, CHR 0xBC] @ ''berall sicherstellen.'')),
      ([''shortener''], (''URL-Shortener (bit.ly, t.co, tinyurl etc.) verbergen das tats'' @ [CHR 0xC3, CHR 0xA4] @ ''chliche Ziel und k'' @ [CHR 0xC3, CHR 0xB6] @ ''nnen nicht gepr'' @ [CHR 0xC3, CHR 0xBC] @ ''ft werden. Wichtigkeit: hoch '' @ [CHR 0xE2, CHR 0x80, CHR 0x93] @ '' Spamfilter, Security-Gateways und Virenscanner lehnen Shortener-Links oft pauschal ab oder erh'' @ [CHR 0xC3, CHR 0xB6] @ ''hen den Spam-Score stark. Tipp: Eigene Tracking-Domains (z. B. go.example.org) mit eigenem Redirect-Service sind die professionelle Alternative zu '' @ [CHR 0xC3, CHR 0xB6] @ ''ffentlichen Shortenern.'')),
      ([''tracking_links''], (''Tracking-Links mit fremden Redirect-Domains (ESP-Domains wie click.mailchimp.com, r.sendgrid.net) oder aggressiven UTM-Parametern werden von Spamfiltern und Security-Gateways gepr'' @ [CHR 0xC3, CHR 0xBC] @ ''ft. Wichtigkeit: mittel '' @ [CHR 0xE2, CHR 0x80, CHR 0x93] @ '' die Tracking-Domain sollte sauber (nicht gelistet) und HTTPS-f'' @ [CHR 0xC3, CHR 0xA4] @ ''hig sein. Tipp: Eigene Tracking-Subdomains (z. B. click.example.org) signalisieren professionellen Betrieb und sind unabh'' @ [CHR 0xC3, CHR 0xA4] @ ''ngig von der ESP-Reputation.'')),
      ([''html''], (''HTML-Inhalt wird von Mailclients restriktiv gerendert (kein JavaScript, eingeschr'' @ [CHR 0xC3, CHR 0xA4] @ ''nktes CSS) und von Spamfiltern auf Phishing-Muster, versteckte Texte, kaputte Struktur und verd'' @ [CHR 0xC3, CHR 0xA4] @ ''chtige Tags gepr'' @ [CHR 0xC3, CHR 0xBC] @ ''ft. Wichtigkeit: mittel '' @ [CHR 0xE2, CHR 0x80, CHR 0x93] @ '' komplexes HTML, inline Styles in '' @ [CHR 0xC3, CHR 0xBC] @ ''berm'' @ [CHR 0xC3, CHR 0xA4, CHR 0xC3, CHR 0x9F] @ ''igen Mengen und defekte Tags erh'' @ [CHR 0xC3, CHR 0xB6] @ ''hen Spam-Scores. Tipp: Einfaches, tabellen-basiertes Layout verwenden, CSS nur inline und sparsam, keine externen Ressourcen einbinden.'')),
      ([''hidden_html''], (''Versteckte HTML-Elemente (display:none, font-size:0, color:white auf wei'' @ [CHR 0xC3, CHR 0x9F] @ ''em Hintergrund, overflow:hidden mit height:0) sind eine bekannte Spam-Taktik. Wichtigkeit: hoch '' @ [CHR 0xE2, CHR 0x80, CHR 0x93] @ '' SpamAssassin, Rspamd und Gmail erkennen diese Muster explizit und erh'' @ [CHR 0xC3, CHR 0xB6] @ ''hen den Spam-Score erheblich. Tipp: Preheader-Text darf versteckt sein, aber sparsam und ohne aggressives Hiding; alle anderen Inhalte sichtbar halten.'')),
      ([''html_validity''], (''Valides HTML verbessert Rendering-Konsistenz '' @ [CHR 0xC3, CHR 0xBC] @ ''ber alle Mailclients und wird von Spamfiltern als Qualit'' @ [CHR 0xC3, CHR 0xA4] @ ''tssignal gewertet. Wichtigkeit: mittel '' @ [CHR 0xE2, CHR 0x80, CHR 0x93] @ '' kaputte Tags, unkorrekt geschachtelte Elemente und fehlende Pflicht-Attribute k'' @ [CHR 0xC3, CHR 0xB6] @ ''nnen zu inkonsistenter Darstellung und erh'' @ [CHR 0xC3, CHR 0xB6] @ ''hten Spam-Scores f'' @ [CHR 0xC3, CHR 0xBC] @ ''hren. Tipp: HTML mit dem W3C Validator oder einem Mail-spezifischen Tester pr'' @ [CHR 0xC3, CHR 0xBC] @ ''fen; Litmus und Email on Acid zeigen Rendering in echten Clients.'')),
      ([''subject''], (''Der Betreff ist eines der st'' @ [CHR 0xC3, CHR 0xA4] @ ''rksten Nutzer- und Filterbewertungs-Signale. Wichtigkeit: hoch '' @ [CHR 0xE2, CHR 0x80, CHR 0x93] @ '' ein leerer oder generischer Betreff, fehlender Bezug zum Absender oder betr'' @ [CHR 0xC3, CHR 0xBC] @ ''gerische Muster (Re:, Fwd: ohne Kontext) werden von Spamfiltern und Nutzern negativ bewertet. Tipp: Betreff klar, konkret und zum Inhalt passend formulieren; keine Gro'' @ [CHR 0xC3, CHR 0x9F] @ ''schreibung, keine Ausrufezeichen-H'' @ [CHR 0xC3, CHR 0xA4] @ ''ufungen, keine spamverd'' @ [CHR 0xC3, CHR 0xA4] @ ''chtigen W'' @ [CHR 0xC3, CHR 0xB6] @ ''rter wie '' @ [CHR 0x27] @ ''kostenlos'' @ [CHR 0x27] @ '', '' @ [CHR 0x27] @ ''gratis'' @ [CHR 0x27] @ '', '' @ [CHR 0x27] @ ''Gewinn'' @ [CHR 0x27] @ ''.'')),
      ([''subject_exclaim''], (''Mehrfache Ausrufezeichen und andere Sonderzeichen-H'' @ [CHR 0xC3, CHR 0xA4] @ ''ufungen im Betreff sind klassische Spam-Signale. Wichtigkeit: mittel '' @ [CHR 0xE2, CHR 0x80, CHR 0x93] @ '' SpamAssassin pr'' @ [CHR 0xC3, CHR 0xBC] @ ''ft SUBJECT_ENDS_IN_EXCLAIM, SUBJ_MULT_EXCLAIM und '' @ [CHR 0xC3, CHR 0xA4] @ ''hnliche Muster explizit. Tipp: Professionelle Transaktionsmails nutzen maximal ein Ausrufezeichen, wenn '' @ [CHR 0xC3, CHR 0xBC] @ ''berhaupt. Dringlichkeit besser durch klare Formulierung als durch Sonderzeichen ausdr'' @ [CHR 0xC3, CHR 0xBC] @ ''cken.'')),
      ([''subject_caps''], (''Durchgehende Gro'' @ [CHR 0xC3, CHR 0x9F] @ ''schreibung (ALL CAPS) im Betreff ist ein sehr starkes Spam-Signal. Wichtigkeit: hoch '' @ [CHR 0xE2, CHR 0x80, CHR 0x93] @ '' wird von SpamAssassin (SUBJ_ALL_CAPS), Rspamd und manuellen Nutzern sofort als aufdringlich wahrgenommen. Tipp: Nur dort Gro'' @ [CHR 0xC3, CHR 0x9F] @ ''buchstaben nutzen, wo grammatikalisch korrekt '' @ [CHR 0xE2, CHR 0x80, CHR 0x93] @ '' Produktnamen, Abk'' @ [CHR 0xC3, CHR 0xBC] @ ''rzungen. Niemals komplette W'' @ [CHR 0xC3, CHR 0xB6] @ ''rter oder S'' @ [CHR 0xC3, CHR 0xA4] @ ''tze in Gro'' @ [CHR 0xC3, CHR 0x9F] @ ''buchstaben schreiben.'')),
      ([''message_id''], (''Message-ID ist ein RFC-Pflichtfeld (RFC 5322) und identifiziert jede Nachricht eindeutig. Wichtigkeit: hoch '' @ [CHR 0xE2, CHR 0x80, CHR 0x93] @ '' sie wird f'' @ [CHR 0xC3, CHR 0xBC] @ ''r E-Mail-Threading (In-Reply-To, References), Duplikaterkennung und Reputationsverfolgung genutzt. Fehlende oder generische Message-IDs (z. B. mit lokalem Hostnamen wie localhost) erh'' @ [CHR 0xC3, CHR 0xB6] @ ''hen Spam-Scores und st'' @ [CHR 0xC3, CHR 0xB6] @ ''ren Client-Threading. Tipp: Format wie <unique-uuid@mail.example.org> verwenden; niemals localhost oder interne IP-Adressen in der Message-ID.'')),
      ([''date''], (''Der Date-Header muss ein g'' @ [CHR 0xC3, CHR 0xBC] @ ''ltiges RFC 2822-Datum enthalten, das plausibel zur tats'' @ [CHR 0xC3, CHR 0xA4] @ ''chlichen Versandzeit passt. Wichtigkeit: mittel '' @ [CHR 0xE2, CHR 0x80, CHR 0x93] @ '' falsches Datum signalisiert falsch gestellte Serverzeit, manipulierte Nachrichten oder Software-Fehler. Manche Spamfilter lehnen Mails ab, die weit in der Zukunft oder Vergangenheit datiert sind. Tipp: NTP auf dem Mailserver aktivieren und sicherstellen, dass der MTA keinen manuell manipulierten Date-Header erzeugt.'')),
      ([''date_skew''], (''Starke Zeitabweichung zwischen Date-Header und tats'' @ [CHR 0xC3, CHR 0xA4] @ ''chlichem Empfangszeitpunkt ist ein Spam-Signal. Wichtigkeit: mittel '' @ [CHR 0xE2, CHR 0x80, CHR 0x93] @ '' erlaubt sind typischerweise '' @ [CHR 0xC2, CHR 0xB1] @ ''24 h f'' @ [CHR 0xC3, CHR 0xBC] @ ''r Zeitzonendifferenzen und Netzwerkverz'' @ [CHR 0xC3, CHR 0xB6] @ ''gerungen. Tipp: Serverzeit per NTP synchronisieren (ntpd oder systemd-timesyncd), Zeitzone korrekt konfigurieren und sicherstellen, dass der MTA keine manipulierten Date-Header erzeugt.'')),
      ([''tls_transport''], (''TLS (STARTTLS oder SMTPS) sch'' @ [CHR 0xC3, CHR 0xBC] @ ''tzt den SMTP-Transport vor Abh'' @ [CHR 0xC3, CHR 0xB6] @ ''ren und Manipulation. Wichtigkeit: hoch '' @ [CHR 0xE2, CHR 0x80, CHR 0x93] @ '' viele Provider (Gmail, Outlook, Yahoo) bevorzugen oder erzwingen TLS-verschl'' @ [CHR 0xC3, CHR 0xBC] @ ''sselten Empfang. Opportunistisches STARTTLS ist heute Minimalstandard. Tipp: DANE (DNSSEC + TLSA-Records) ist der n'' @ [CHR 0xC3, CHR 0xA4] @ ''chste H'' @ [CHR 0xC3, CHR 0xA4] @ ''rtungsschritt f'' @ [CHR 0xC3, CHR 0xBC] @ ''r kritische Infrastruktur; MTA-STS bietet eine einfachere Alternative f'' @ [CHR 0xC3, CHR 0xBC] @ ''r erzwungenes TLS.'')),
      ([''received_chain''], (''Received-Header dokumentieren den kompletten Transportweg der Nachricht. Jeder MTA tr'' @ [CHR 0xC3, CHR 0xA4] @ ''gt seinen Received-Header ein. Wichtigkeit: mittel '' @ [CHR 0xE2, CHR 0x80, CHR 0x93] @ '' empfangende Systeme nutzen die Kette f'' @ [CHR 0xC3, CHR 0xBC] @ ''r IP-Reputation, Routing-Analyse und Forensik. Tipp: Fehlende Header k'' @ [CHR 0xC3, CHR 0xB6] @ ''nnen durch falsch konfigurierte Proxies entstehen; zu viele Hops k'' @ [CHR 0xC3, CHR 0xB6] @ ''nnen auf Fehlkonfiguration oder Mailloops hinweisen. Mindestens ein Received-Header sollte vorhanden sein.'')),
      ([''arc''], (''ARC (Authenticated Received Chain) erh'' @ [CHR 0xC3, CHR 0xA4] @ ''lt Authentifizierungs-Ergebnisse (SPF, DKIM, DMARC) '' @ [CHR 0xC3, CHR 0xBC] @ ''ber Weiterleitungs-Hops hinweg. Wichtigkeit: mittel bis hoch f'' @ [CHR 0xC3, CHR 0xBC] @ ''r weitergeleitete Mails '' @ [CHR 0xE2, CHR 0x80, CHR 0x93] @ '' wenn eine Mail weitergeleitet wird, k'' @ [CHR 0xC3, CHR 0xB6] @ ''nnen SPF/DKIM-Signaturen brechen. ARC-Header dokumentieren den Originalzustand. Tipp: Besonders relevant bei Mailing-Listen, Alumni-Weiterleitungen und Catchall-Setups; der weiterleitende Mailserver muss ARC unterst'' @ [CHR 0xC3, CHR 0xBC] @ ''tzen.'')),
      ([''list_unsub''], (''List-Unsubscribe ist seit 2024 von Gmail und Yahoo f'' @ [CHR 0xC3, CHR 0xBC] @ ''r Bulk-Sender (>5.000 Mails/Tag) verpflichtend. Wichtigkeit: kritisch f'' @ [CHR 0xC3, CHR 0xBC] @ ''r Bulk-Sender '' @ [CHR 0xE2, CHR 0x80, CHR 0x93] @ '' der Header erm'' @ [CHR 0xC3, CHR 0xB6] @ ''glicht Providern, einen '' @ [CHR 0x27] @ ''Abmelden'' @ [CHR 0x27] @ ''-Button direkt in der UI anzubieten. List-Unsubscribe-Post (One-Click) muss RFC 8058 entsprechen: POST-Anfrage an eine HTTPS-URL, die sofortige Abmeldung ausf'' @ [CHR 0xC3, CHR 0xBC] @ ''hrt. Tipp: Fehlender Header f'' @ [CHR 0xC3, CHR 0xBC] @ ''hrt bei Gmail zu Spam-Einstufung f'' @ [CHR 0xC3, CHR 0xBC] @ ''r Bulk-Sender; auch f'' @ [CHR 0xC3, CHR 0xBC] @ ''r kleinere Versandmengen ist er Best Practice.'')),
      ([''preheader''], (''Der Preheader-Text ist der erste sichtbare Text im Mail-Body und wird von Mailclients (Gmail, Outlook, Apple Mail, iOS Mail) als Vorschau-Snippet neben dem Betreff angezeigt. Wichtigkeit: mittel '' @ [CHR 0xE2, CHR 0x80, CHR 0x93] @ '' ohne expliziten Preheader ziehen Clients oft unpassenden Text (Links, Abmeldehinweise, HTML-Code). Tipp: Einen kurzen, ansprechenden Satz (40'' @ [CHR 0xE2, CHR 0x80, CHR 0x93] @ ''90 Zeichen) als versteckten Preheader-Text einf'' @ [CHR 0xC3, CHR 0xBC] @ ''gen, der den Betreff erg'' @ [CHR 0xC3, CHR 0xA4] @ ''nzt und zum '' @ [CHR 0xC3, CHR 0x96] @ ''ffnen animiert.'')),
      ([''unicode''], (''Zero-Width-Zeichen (U+200B, U+FEFF etc.), Bidi-Override-Zeichen und Unicode-Homoglyphen-Substitutionen sind bekannte Techniken, um Spamfilter zu umgehen und Nutzer zu t'' @ [CHR 0xC3, CHR 0xA4] @ ''uschen. Wichtigkeit: hoch wenn vorhanden '' @ [CHR 0xE2, CHR 0x80, CHR 0x93] @ '' SpamAssassin, Rspamd und Gmail erkennen g'' @ [CHR 0xC3, CHR 0xA4] @ ''ngige Unicode-Obfuskationsmuster explizit. Tipp: Normale Sonderzeichen f'' @ [CHR 0xC3, CHR 0xBC] @ ''r Sprache (Umlaute, Akzente) sind unproblematisch; nur Zero-Width- und Steuerzeichen vermeiden.'')),
      ([''from_domain_rcv''], (''Pr'' @ [CHR 0xC3, CHR 0xBC] @ ''ft, ob die From-Domain tats'' @ [CHR 0xC3, CHR 0xA4] @ ''chlich E-Mails empfangen kann (MX- oder A/AAAA-Records). Wenn Antworten und Bounces nicht zustellbar sind, wertet das viele Spamfilter als Zeichen einer No-Reply- oder Wegwerf-Absenderkonfiguration. Eine From-Domain ohne E-Mail-Infrastruktur signalisiert auch, dass der Sender keine Zwei-Wege-Kommunikation erwartet.'')),
      ([''one_click_unsub''], (''RFC 8058 definiert One-Click-Abmeldung: der Header List-Unsubscribe-Post mit dem Wert '' @ [CHR 0x27] @ ''List-Unsubscribe=One-Click'' @ [CHR 0x27] @ '' kombiniert mit einer HTTPS-URL in List-Unsubscribe, die HTTP-POST verarbeitet und den Nutzer sofort abmeldet '' @ [CHR 0xE2, CHR 0x80, CHR 0x93] @ '' ohne Best'' @ [CHR 0xC3, CHR 0xA4] @ ''tigungsseite oder Login. Google und Yahoo haben dies ab Februar 2024 f'' @ [CHR 0xC3, CHR 0xBC] @ ''r Bulk-Sender (>5.000 Mails/Tag) verpflichtend gemacht.'')),
      ([''template_urls''], (''Erkennt nicht ersetzte Merge-Tag-Platzhalter in E-Mail-Links '' @ [CHR 0xE2, CHR 0x80, CHR 0x93] @ '' Muster wie {abmelde_url}, {{email}}, *|UNSUB|* oder ${tracking_id}. Dies sind Fehler in der Bulk-Mail-Template-Rendering-Pipeline: ESP oder Versandsystem haben eine Variable nicht ersetzt. Betroffene Links sind f'' @ [CHR 0xC3, CHR 0xBC] @ ''r Empf'' @ [CHR 0xC3, CHR 0xA4] @ ''nger kaputt und k'' @ [CHR 0xC3, CHR 0xB6] @ ''nnen Spamfilter ausl'' @ [CHR 0xC3, CHR 0xB6] @ ''sen sowie Abmelde- und Tracking-Flows unterbrechen.'')),
      ([''image_alt''], (''Das alt-Attribut an <img>-Tags hat zwei Funktionen f'' @ [CHR 0xC3, CHR 0xBC] @ ''r die Zustellbarkeit: Erstens liefert es Fallback-Text, wenn Bilder blockiert sind (die meisten E-Mail-Clients blockieren Bilder beim ersten '' @ [CHR 0xC3, CHR 0x96] @ ''ffnen standardm'' @ [CHR 0xC3, CHR 0xA4, CHR 0xC3, CHR 0x9F] @ ''ig), zweitens verbessert es das Bild/Text-Verh'' @ [CHR 0xC3, CHR 0xA4] @ ''ltnis, das Spamfilter auswerten. Eine Mail aus lauter Bildern ohne Alt-Text wirkt wie ein Spam-Template '' @ [CHR 0xE2, CHR 0x80, CHR 0x93] @ '' der Empf'' @ [CHR 0xC3, CHR 0xA4] @ ''nger sieht nichts, und Filter haben keinen Textinhalt zum Auswerten. Alt-Texte sollten das Bild pr'' @ [CHR 0xC3, CHR 0xA4] @ ''gnant beschreiben.'')),
      ([''harmful_html''], (''E-Mail-HTML wird in stark eingeschr'' @ [CHR 0xC3, CHR 0xA4] @ ''nkten Umgebungen gerendert: kein JavaScript, keine Meta-Redirects, kein externes CSS. <script>-Tags oder <meta http-equiv=refresh>-Redirects im Mail-Body sind ein starkes Spam-Signal '' @ [CHR 0xE2, CHR 0x80, CHR 0x93] @ '' kein seri'' @ [CHR 0xC3, CHR 0xB6] @ ''ser Absender braucht sie, denn sie werden von keinem Mail-Client ausgef'' @ [CHR 0xC3, CHR 0xBC] @ ''hrt. Viele Spamfilter geben bei deren Fund hohe Penalty-Scores oder lehnen die Mail direkt ab.'')),
      ([''fake_reply''], (''Einige Spam-Kampagnen stellen dem Betreff '' @ [CHR 0x27] @ ''Re:'' @ [CHR 0x27] @ '' oder '' @ [CHR 0x27] @ ''Fwd:'' @ [CHR 0x27] @ '' voran, um den Eindruck eines laufenden Gespr'' @ [CHR 0xC3, CHR 0xA4] @ ''chs zu erwecken und Empf'' @ [CHR 0xC3, CHR 0xA4] @ ''nger zum '' @ [CHR 0xC3, CHR 0x96] @ ''ffnen zu verleiten. Eine echte Antwort oder Weiterleitung enth'' @ [CHR 0xC3, CHR 0xA4] @ ''lt immer In-Reply-To- und/oder References-Header mit der Message-ID der Originalnachricht. Fehlen diese Thread-Header, ist das Re:/Fwd:-Pr'' @ [CHR 0xC3, CHR 0xA4] @ ''fix mit hoher Wahrscheinlichkeit gef'' @ [CHR 0xC3, CHR 0xA4] @ ''lscht '' @ [CHR 0xE2, CHR 0x80, CHR 0x93] @ '' eine Technik, die viele Spamfilter explizit erkennen.'')),
      ([''message_id_format''], (''Der Message-ID-Header muss dem RFC-5322-Format entsprechen: ein in spitze Klammern eingeschlossener Identifier mit einem lokalen Teil und einer Domain, getrennt durch '' @ [CHR 0x27] @ ''@'' @ [CHR 0x27] @ '', z. B. <unique-id@sending-domain.com>. Eine fehlerhafte Message-ID ist ein Spam-Signal, da seri'' @ [CHR 0xC3, CHR 0xB6] @ ''se Mailserver immer korrekt formatierte Message-IDs erzeugen. Manche Provider (Outlook, Gmail) nutzen das Format auch zur Erkennung von Bulk-Mail aus schlecht konfigurierten Systemen.'')),
      ([''x_google_dkim''], (''X-Google-DKIM ist ein Google-internes DKIM-Verification-Signal, das in Authentication-Results eingef'' @ [CHR 0xC3, CHR 0xBC] @ ''gt wird, wenn E-Mails '' @ [CHR 0xC3, CHR 0xBC] @ ''ber Google-Infrastruktur (Gmail, Google Workspace) geleitet werden. Ein fail-Wert bedeutet, dass Googles interne Verifikation die DKIM-Signatur abgelehnt hat '' @ [CHR 0xE2, CHR 0x80, CHR 0x93] @ '' das kann die Zustellbarkeit an Gmail-Empf'' @ [CHR 0xC3, CHR 0xA4] @ ''nger negativ beeinflussen, auch wenn der Standard-DKIM-Check bestanden wurde. Nur relevant f'' @ [CHR 0xC3, CHR 0xBC] @ ''r Mails, die '' @ [CHR 0xC3, CHR 0xBC] @ ''ber Google-Infrastruktur geroutet werden.'')),
      ([''too_many_links''], (''Mehr als 30 Links in einer einzelnen E-Mail ist ein anerkanntes Spam-Signal, das von SpamAssassin, Rspamd und Googles Filtern ausgewertet wird. Legitime Mails ben'' @ [CHR 0xC3, CHR 0xB6] @ ''tigen selten Dutzende von Links. Kampagnen mit '' @ [CHR 0xC3, CHR 0xBC] @ ''berm'' @ [CHR 0xC3, CHR 0xA4, CHR 0xC3, CHR 0x9F] @ ''ig vielen Links deuten oft auf Link-Farming, Tracker-Injection oder Template-Fehler hin.'')),
      ([''no_reply_reply_to''], (''Wenn die From-Adresse eine Noreply-Adresse ist (noreply@, no-reply@, donotreply@) und kein Reply-To-Header gesetzt ist, landet jede Antwort ins Leere. Reply-To auf ein '' @ [CHR 0xC3, CHR 0xBC] @ ''berwachtes Postfach zu setzen ist Best Practice und verbessert das Vertrauen der Empf'' @ [CHR 0xC3, CHR 0xA4] @ ''nger. Einige Spamfilter bewerten Noreply-Absender ohne Reply-To negativer.'')),
      ([''link_domain_mismatch''], (''Erkennt Links, bei denen der sichtbare Anzeigetext eine andere Domain zeigt als das tats'' @ [CHR 0xC3, CHR 0xA4] @ ''chliche href-Ziel '' @ [CHR 0xE2, CHR 0x80, CHR 0x93] @ '' ein klassisches Phishing-Muster. Spamfilter und Anti-Phishing-Systeme pr'' @ [CHR 0xC3, CHR 0xBC] @ ''fen dieses Muster explizit. Legitime Mails m'' @ [CHR 0xC3, CHR 0xBC] @ ''ssen Linkziele nie verschleiern.'')),
      ([''broken_links''], (''Stellt HTTP-GET-Anfragen an alle Links in der Mail und pr'' @ [CHR 0xC3, CHR 0xBC] @ ''ft, ob sie mit einem Fehler-Status (4xx/5xx) antworten oder einen Timeout verursachen. Defekte Links schaden dem Vertrauen der Empf'' @ [CHR 0xC3, CHR 0xA4] @ ''nger und k'' @ [CHR 0xC3, CHR 0xB6] @ ''nnen die Zustellbarkeit negativ beeinflussen. Datenschutzhinweis: Dieser Check kontaktiert externe Server. Die Zielserver erhalten eine HTTP-Anfrage von sender.reports Server. Nur aktivieren, wenn Sie damit einverstanden sind.''))]"

definition defaultExplanation :: "gostring \<Rightarrow> gostring" where
  "defaultExplanation i = switch_text (defaultExplanation_cases) (''Dieser Check bewertet ein technisches Signal, das Mailprovider f'' @ [CHR 0xC3, CHR 0xBC] @ ''r Zustellbarkeit, Missbrauchserkennung oder Nutzervertrauen heranziehen.'') i"

definition explanationEN_cases :: "(gostring list \<times> gostring) list" where
  "explanationEN_cases =
     [([''spf''], ''SPF (Sender Policy Framework) defines which servers are authorised to send email on behalf of a domain. Receiving servers check the sending IP against the SPF TXT record of the envelope-from domain. Gmail, Outlook, Yahoo and most gateways weight SPF heavily, especially when DMARC is active. Without an SPF pass, DMARC cannot be satisfied and many providers increase the spam score or reject the message outright.''),
      ([''dkim''], ''DKIM (DomainKeys Identified Mail) cryptographically signs relevant headers and body content. The receiving server fetches the public key via DNS using the selector in the DKIM-Signature header. Gmail, Outlook, Yahoo and Apple Mail use DKIM heavily to detect tampering, forwarding issues and domain spoofing. DKIM is the second pillar of DMARC and strongly influences domain reputation. Without a DKIM signature emails land in spam far more often.''),
      ([''dmarc''], ''DMARC ties SPF and DKIM to the visible From domain. A message passes DMARC if SPF or DKIM succeeds AND the respective domain aligns with the From domain. Modern providers expect at least a DMARC policy for reputable sending domains; for bulk mail it has been practically mandatory since the 2024 Gmail/Yahoo requirements. Without DMARC, other providers can abuse your domain for phishing (domain spoofing), and large providers classify non-DMARC-authenticated bulk mail as spam.''),
      ([''ptr''], ''Reverse DNS (PTR/rDNS) shows which hostname belongs to a sending IP. Receivers typically check: (1) does the IP have a valid PTR record? (2) does that PTR hostname resolve back to the same IP (forward-confirmed rDNS)? (3) does the PTR name plausibly match HELO/EHLO? Outlook/Exchange, Barracuda, Mimecast and enterprise gateways reject directly when PTR is missing. Gmail and Yahoo use it as a quality signal. A missing or inconsistent PTR record is one of the most common reasons for direct rejection by enterprise mail gateways. PTR records are set at your IP/hosting provider, not in your own DNS.''),
      ([''dmarc_policy''], ''The DMARC policy (p=) tells receivers what to do with mail that fails DMARC. p=none = monitoring only (no protection), p=quarantine = send to spam, p=reject = reject entirely. Only quarantine/reject actively protect your domain against spoofing/phishing. Gmail and Yahoo increasingly expect at least an enforced policy from bulk senders. Recommended approach: start with p=none + rua reporting, clean up sources, then gradually raise to quarantine and reject.''),
      ([''spf_strictness''], (''The trailing '' @ [CHR 0x27] @ ''all'' @ [CHR 0x27] @ '' mechanism of an SPF record determines how strictly unauthorised servers are treated: -all = hardfail (recommended), ~all = softfail, ?all = neutral (ineffective), +all = allows everyone (dangerous). RFC 7208 also limits SPF to 10 DNS lookups '' @ [CHR 0xE2, CHR 0x80, CHR 0x94] @ '' exceeding this causes a PermError. A too-permissive or broken SPF record undermines SPF and therefore DMARC.'')),
      ([''dkim_keylength''], ''The DKIM key strength determines how tamper-proof the signature is. 512/768-bit RSA is considered broken, 1024-bit is outdated; at least 2048-bit RSA or Ed25519 is recommended. Large providers downgrade or ignore weak keys, effectively disabling DKIM (and therefore DMARC). Rotate the selector when changing keys.''),
      ([''spf_alignment''], (''SPF alignment checks whether the envelope-from domain (MAIL FROM) matches the visible header-from domain. For DMARC, SPF alignment must hold '' @ [CHR 0xE2, CHR 0x80, CHR 0x94] @ '' otherwise SPF may pass but DMARC still fails. ESPs often use their own bounce domains; these must be configured as a subdomain of the from domain, or DKIM must carry DMARC on its own.'')),
      ([''dkim_alignment''], ''DKIM alignment checks whether the domain in the d= tag of the DKIM signature matches the visible header-from domain. Only aligned DKIM passes count for DMARC. Without correct DKIM alignment, DMARC can fail even if the signature itself is technically valid.''),
      ([''dmarc_alignment''], ''DMARC alignment is the overall check: does SPF or DKIM pass AND is the respective domain aligned with the visible From domain? Only if at least one of these two paths holds does DMARC count as passed. Gmail, Yahoo, Apple Mail and Outlook require DMARC alignment for bulk senders; without an aligned pass, DMARC enforcement fails and the domain is open to spoofing.''),
      ([''rbl''], ''DNS-based blocklists (DNSBL/RBL) list IPs known for spam, malware or botnet activity. A single listing on a major list like Spamhaus ZEN causes direct rejection at Gmail, Outlook, Yahoo and most enterprise gateways. Multiple listings signal a serious infrastructure problem that must be fixed before further sending.''),
      ([''domain_age''], (''The registration age of the sending domain is a strong reputation signal. Freshly registered domains are treated with great suspicion by Gmail, Outlook and Spamhaus '' @ [CHR 0xE2, CHR 0x80, CHR 0x94] @ '' domains under 30 days are a classic spam/phishing pattern. Older, established domains enjoy a trust advantage. Note: soft signal (old domains can be hijacked, new ones can be legitimate); fetched via RDAP from a third-party service, therefore opt-in.'')),
      ([''ptr_pattern''], (''Even when forward-confirmed rDNS technically passes, spam filters examine the pattern of the PTR hostname. Names like '' @ [CHR 0x27] @ ''203-0-113-5.dynamic.isp.net'' @ [CHR 0x27] @ '', '' @ [CHR 0x27] @ ''dsl-'' @ [CHR 0xE2, CHR 0x80, CHR 0xA6, CHR 0x27] @ '', '' @ [CHR 0x27] @ ''pool-'' @ [CHR 0xE2, CHR 0x80, CHR 0xA6, CHR 0x27] @ '' or '' @ [CHR 0x27] @ ''customer-'' @ [CHR 0xE2, CHR 0x80, CHR 0xA6, CHR 0x27] @ '' signal residential/dynamic IPs from which legitimate mail servers do not normally send. SpamAssassin (RDNS_DYNAMIC) and many gateways score such patterns very negatively. Solution: set a dedicated, meaningful mail server PTR at your hosting provider.'')),
      ([''helo''], ''HELO/EHLO is the hostname an MTA presents when opening an SMTP connection. Many filters check that it is a valid FQDN and that it plausibly matches the PTR hostname of the sending IP. An IP literal or single-label name is a strong spam signal.''),
      ([''mx_records''], ''MX records define which servers receive email for a domain. Correct MX records are a sign of a properly configured mail infrastructure and are checked by some filters as a plausibility signal.''),
      ([''tls_transport''], ''TLS transport encrypts the SMTP connection between mail servers. Modern mail delivery requires TLS (STARTTLS or SMTPS). Without TLS, message content can be read or manipulated in transit. Gmail, Outlook and Yahoo require TLS from bulk senders.''),
      ([''from_alignment''], ''From alignment checks whether the envelope-from (SMTP MAIL FROM) and the visible header-from address belong to the same domain. Deviations are technically possible (e.g. ESP bounce addresses) but can endanger DMARC alignment and give spam filters a spoofing signal.''),
      ([''return_path''], ''Return-Path contains the bounce address (envelope-from / SMTP MAIL FROM). Delivery status notifications (DSN/NDR) go here when delivery fails. Return-Path should match the SPF domain and be consistent with the SMTP envelope-from. Many spam filters check Return-Path for domain alignment, missing MX records and blacklist status.''),
      ([''reply_to''], ''The Reply-To header redirects replies to a different address than the From. Absent is normal; present should be intentional. A Reply-To pointing to a completely different domain is a classic phishing signal and is flagged by many filters.''),
      ([''display_name''], (''The display name in the From header ('' @ [CHR 0x27] @ ''Friendly From'' @ [CHR 0x27] @ '') is freely chosen and heavily abused in phishing: a familiar brand or person name as display, while the actual sending domain is entirely different. Providers and security gateways detect display name spoofing and brand impersonation and classify such mail as phishing.'')),
      ([''envelope_mx''], (''The Return-Path/envelope-from is the bounce address: undeliverable mail (DSN/NDR) goes there. If this domain cannot receive mail (no MX, no A/AAAA), bounces are lost '' @ [CHR 0xE2, CHR 0x80, CHR 0x94] @ '' bad for list hygiene management and a quality signal for filters.'')),
      ([''mta_sts''], (''MTA-STS (RFC 8461) allows a domain to mandate encrypted SMTP transport (TLS) rather than just using it opportunistically. Sending servers check the policy published via HTTPS and abort if valid TLS is not possible '' @ [CHR 0xE2, CHR 0x80, CHR 0x94] @ '' protecting against downgrade/man-in-the-middle attacks.'')),
      ([''tls_rpt''], ''TLS-RPT (RFC 8460) lets receiving servers send aggregate reports about failed or downgraded TLS connections to a reporting address. This way you notice TLS/MTA-STS problems before they cause delivery failures.''),
      ([''bimi''], ''BIMI (Brand Indicators for Message Identification) displays your brand logo next to the message at supporting providers (Gmail, Apple Mail, Yahoo). Requires an enforced DMARC policy (quarantine/reject) and an SVG logo (some providers also require a VMC certificate).''),
      ([''dnssec''], ''DNSSEC cryptographically signs DNS responses and protects against DNS manipulation (cache poisoning, spoofing). A signed sender zone is a maturity signal and a prerequisite for DANE.''),
      ([''dane_tlsa''], (''DANE (TLSA records, RFC 7672) binds the mail server'' @ [CHR 0x27] @ ''s TLS certificate to the domain via DNSSEC, enforcing authenticated TLS for SMTP transport '' @ [CHR 0xE2, CHR 0x80, CHR 0x94] @ '' an alternative/complement to MTA-STS. Requires DNSSEC.'')),
      ([''arc''], ''ARC (Authenticated Received Chain) preserves authentication results (SPF, DKIM, DMARC) across forwarding hops. Particularly relevant for mailing lists, alumni forwarding and catch-all setups where SPF/DKIM signatures can break.''),
      ([''from_domain_rcv''], (''Checks whether the From: header domain can actually receive email (has MX or A/AAAA records). If replies or bounces sent to the From address cannot be delivered '' @ [CHR 0xE2, CHR 0x80, CHR 0x94] @ '' because the domain has no mail infrastructure '' @ [CHR 0xE2, CHR 0x80, CHR 0x94] @ '' it signals a no-reply or disposable sender pattern that many spam filters flag. A From domain that cannot receive mail also breaks the expectation that email is a two-way communication channel.'')),
      ([''one_click_unsub''], (''RFC 8058 defines one-click unsubscribe: a List-Unsubscribe-Post header with the value '' @ [CHR 0x27] @ ''List-Unsubscribe=One-Click'' @ [CHR 0x27] @ '', combined with an HTTPS URL in the List-Unsubscribe header that processes an HTTP POST and immediately unsubscribes the user '' @ [CHR 0xE2, CHR 0x80, CHR 0x94] @ '' no confirmation page, no login required. Google and Yahoo made this mandatory for bulk senders (>5,000 emails/day) in February 2024. Without it, Gmail shows a manual unsubscribe link instead of the integrated button, which hurts engagement metrics and can trigger spam classification.'')),
      ([''template_urls''], (''Detects unreplaced merge-tag placeholders in email links '' @ [CHR 0xE2, CHR 0x80, CHR 0x94] @ '' patterns like {unsubscribe_url}, {{email}}, *|UNSUB|*, or ${tracking_id}. These are bugs in the bulk-mail template rendering pipeline: the ESP or sending tool failed to substitute a variable before delivery. Affected links are broken (clicking them opens a 404 or a URL with literal braces), which damages sender reputation, triggers spam filters, and breaks tracking and unsubscribe flows.'')),
      ([''list_unsub''], ''List-Unsubscribe is mandatory for newsletters and bulk mail (required by Gmail and Yahoo since 2024 for senders of more than 5,000 emails/day). For personal and transactional individual messages it is not required.''),
      ([''preheader''], ''The preheader text is the first visible text in the mail body and is shown by mail clients (Gmail, Outlook, Apple Mail, iOS Mail) as a preview snippet next to the subject. Without an explicit preheader, clients often pull unsuitable text (links, unsubscribe notices, HTML code).''),
      ([''unicode''], ''Zero-width characters (U+200B, U+FEFF etc.), bidi override characters and Unicode homoglyph substitutions are known techniques to bypass spam filters and deceive users. SpamAssassin, Rspamd and Gmail explicitly detect common Unicode obfuscation patterns.''),
      ([''subject''], ''The email subject is evaluated for spam signals: excessive exclamation marks, ALL-CAPS, common spam phrases and suspicious patterns that trigger spam filter rules.''),
      ([''domain_blocklist''], (''Domain blocklists (e.g. Spamhaus DBL) list domains that appear in spam/phishing '' @ [CHR 0xE2, CHR 0x80, CHR 0x94] @ '' independent of the sending IP. A listed sending domain leads to direct rejection or spam classification at many providers.'')),
      ([''link_blocklist''], ''URI/domain blocklists (URIBL, SURBL, Spamhaus DBL) check the domains linked in the email against known spam/malware domains. Since spam almost always contains a link, this is one of the most effective filter signals.''),
      ([''spamassassin''], ''SpamAssassin is a widely used open-source spam filter that scores emails using hundreds of rules (header patterns, content analysis, RBL checks, Bayes). A score above the threshold (typically 5.0) causes the mail to be classified as spam.''),
      ([''rspamd''], ''Rspamd is a modern, high-performance spam filter used by many mail servers. It analyses mail using statistical methods, machine learning and rule-based checks. The action (greylist/add_header/rewrite_subject/reject) depends on the total score.''),
      ([''mime_parse''], ''A correctly structured MIME message is a prerequisite for all further authentication, header and content checks. Malformed raw messages are scored lower or rejected directly by providers.''),
      ([''message_id''], ''Every email should have a stable, globally unique Message-ID. Missing or malformed Message-IDs are a classic spam signal and can also cause problems with threading in mail clients.''),
      ([''message_id_format''], (''The Message-ID header must follow the format defined in RFC 5322: an angle-bracket-enclosed identifier with a local part and a domain separated by '' @ [CHR 0x27] @ ''@'' @ [CHR 0x27] @ '', e.g. <unique-id@sending-domain.com>. A malformed Message-ID is a spam signal many filters flag because legitimate mail servers always generate properly formatted Message-IDs. Some providers (Outlook, Gmail) also use Message-ID format to detect bulk mail from badly configured senders.'')),
      ([''received_chain''], ''Received headers document the complete transport path of the message. Each MTA adds its Received header. Receiving systems use the chain for IP reputation analysis, routing analysis and forensics.''),
      ([''image_alt''], (''The alt attribute on <img> tags serves two purposes for email deliverability: it provides fallback text when images are blocked (most email clients block images by default on first open), and it reduces the image-to-text ratio that spam filters use. A message consisting entirely of images with no alt text looks like a spam or phishing template '' @ [CHR 0xE2, CHR 0x80, CHR 0x94] @ '' the recipient sees nothing, and filters see no text content to evaluate. Alt text should describe the image concisely.'')),
      ([''harmful_html''], (''Email HTML is rendered in highly restricted environments: no JavaScript, no meta-redirects, no external CSS. Finding <script> tags or <meta http-equiv=refresh> redirects in an email body is a strong spam signal because no legitimate sender needs them '' @ [CHR 0xE2, CHR 0x80, CHR 0x94] @ '' they are never executed by mail clients but are commonly used by malicious bulk mail to obscure intent. Most spam filters apply heavy penalties or reject such messages outright.'')),
      ([''fake_reply''], (''Some spam campaigns prefix their subject line with '' @ [CHR 0x27] @ ''Re:'' @ [CHR 0x27] @ '' or '' @ [CHR 0x27] @ ''Fwd:'' @ [CHR 0x27] @ '' to make messages appear part of an existing conversation and trick recipients into opening them. A genuine reply or forward always includes In-Reply-To and/or References headers referencing the original message'' @ [CHR 0x27] @ ''s Message-ID. When these thread headers are absent, the Re:/Fwd: prefix is almost certainly fabricated '' @ [CHR 0xE2, CHR 0x80, CHR 0x94] @ '' a technique known as '' @ [CHR 0x27] @ ''fake-reply spam'' @ [CHR 0x27] @ ''. Many spam filters detect this pattern.'')),
      ([''x_google_dkim''], (''Google'' @ [CHR 0x27] @ ''s internal DKIM verification signal added to Authentication-Results when email is routed through Google infrastructure (Gmail, Google Workspace). A '' @ [CHR 0x27] @ ''fail'' @ [CHR 0x27] @ '' value means Google'' @ [CHR 0x27] @ ''s internal verification rejected the DKIM signature, which can negatively impact deliverability to Gmail recipients even if the standard DKIM check passed.'')),
      ([''too_many_links''], (''Having more than 30 links in a single email is a recognised spam signal used by SpamAssassin, Rspamd and Gmail'' @ [CHR 0x27] @ ''s filters. Legitimate emails rarely need dozens of links. Bulk campaigns with excessive link counts often indicate link-farming, tracker injection or templating errors.'')),
      ([''no_reply_reply_to''], (''When the From address is a no-reply address (noreply@, no-reply@, donotreply@) and no Reply-To header is set, any recipient who hits '' @ [CHR 0x27] @ ''Reply'' @ [CHR 0x27] @ '' will compose a message that bounces or is silently discarded. Setting Reply-To to a monitored inbox is a best practice that improves recipient trust and ensures replies reach the right team. Some spam filters also rate no-reply senders without Reply-To more negatively.'')),
      ([''link_domain_mismatch''], (''Detects links where the visible anchor text shows a different domain than the actual href target '' @ [CHR 0xE2, CHR 0x80, CHR 0x94] @ '' a classic phishing technique. For example, showing '' @ [CHR 0x27] @ ''paypal.com'' @ [CHR 0x27] @ '' as the link text while the href points to '' @ [CHR 0x27] @ ''evil-example.com'' @ [CHR 0x27] @ ''. Spam filters and anti-phishing engines check for this pattern explicitly. Legitimate email never needs to disguise link destinations.'')),
      ([''broken_links''], (''Makes HTTP GET requests to all links in the email and checks if they return an error status (4xx/5xx) or time out. Broken links damage recipient trust and can negatively affect deliverability '' @ [CHR 0xE2, CHR 0x80, CHR 0x94] @ '' some spam filters flag emails with non-reachable links. Privacy note: this check contacts external servers. The destination servers will receive an HTTP request from sender.report'' @ [CHR 0x27] @ ''s server. Enable only if you accept this.''))]"

definition explanationEN :: "gostring \<Rightarrow> gostring" where
  "explanationEN i = switch_text (explanationEN_cases) ''This check evaluates a technical signal that mail providers use for deliverability, abuse detection or user trust.'' i"

definition naExplanation_cases :: "(gostring list \<times> gostring) list" where
  "naExplanation_cases =
     [([''return_path''], (''Return-Path (Bounce-Adresse) ist prim'' @ [CHR 0xC3, CHR 0xA4] @ ''r f'' @ [CHR 0xC3, CHR 0xBC] @ ''r Massen- und Newsletter-Mails relevant, damit Unzustellbarkeitsmeldungen (NDR/DSN) automatisch verarbeitet werden k'' @ [CHR 0xC3, CHR 0xB6] @ ''nnen. F'' @ [CHR 0xC3, CHR 0xBC] @ ''r pers'' @ [CHR 0xC3, CHR 0xB6] @ ''nliche und transaktionale Einzelmails wird kein gesonderter Return-Path erwartet '' @ [CHR 0xE2, CHR 0x80, CHR 0x93] @ '' der Absender ist '' @ [CHR 0xC3, CHR 0xBC] @ ''ber den From-Header eindeutig. Dieser Check hat keinen Einfluss auf den Score f'' @ [CHR 0xC3, CHR 0xBC] @ ''r diese Mail.'')),
      ([''list_unsub''], (''List-Unsubscribe ist ein Pflichtfeld f'' @ [CHR 0xC3, CHR 0xBC] @ ''r Newsletter und Bulk-Mails (seit 2024 von Gmail und Yahoo f'' @ [CHR 0xC3, CHR 0xBC] @ ''r Versender '' @ [CHR 0xC3, CHR 0xBC] @ ''ber 5.000 Mails/Tag vorgeschrieben). F'' @ [CHR 0xC3, CHR 0xBC] @ ''r pers'' @ [CHR 0xC3, CHR 0xB6] @ ''nliche und transaktionale Einzelmails ist er nicht erforderlich und w'' @ [CHR 0xC3, CHR 0xBC] @ ''rde im Kontext sogar befremdlich wirken. Kein Einfluss auf den Score f'' @ [CHR 0xC3, CHR 0xBC] @ ''r diese Mail.'')),
      ([''one_click_unsub''], (''One-Click-Abmeldung (RFC 8058) ist nur f'' @ [CHR 0xC3, CHR 0xBC] @ ''r Bulk-/Newsletter-Mails relevant. Gmail und Yahoo verlangen dies erst ab 5.000 E-Mails/Tag. F'' @ [CHR 0xC3, CHR 0xBC] @ ''r pers'' @ [CHR 0xC3, CHR 0xB6] @ ''nliche und transaktionale E-Mails ist es weder erwartet noch sinnvoll.'')),
      ([''template_urls''], (''Template-Platzhalter-Pr'' @ [CHR 0xC3, CHR 0xBC] @ ''fung ist nur f'' @ [CHR 0xC3, CHR 0xBC] @ ''r Bulk-Mail relevant, bei der Templates mit Merge-Tags genutzt werden.''))]"

definition naExplanation :: "gostring \<Rightarrow> gostring" where
  "naExplanation i = switch_text (naExplanation_cases) (''Dieser Check ist f'' @ [CHR 0xC3, CHR 0xBC] @ ''r den erkannten Mail-Typ nicht zutreffend und hat keinen Einfluss auf den Score.'') i"

definition naExplanationEN_cases :: "(gostring list \<times> gostring) list" where
  "naExplanationEN_cases =
     [([''return_path''], (''Return-Path (bounce address) is primarily relevant for bulk/newsletter mail so that undeliverable mail notifications (NDR/DSN) can be processed automatically. For personal and transactional individual messages no Return-Path is expected '' @ [CHR 0xE2, CHR 0x80, CHR 0x93] @ '' the sender is clearly identified via the From header. This check has no impact on the score for this mail.'')),
      ([''list_unsub''], ''List-Unsubscribe is mandatory for newsletters and bulk mail (required by Gmail and Yahoo since 2024 for senders of more than 5,000 emails/day). For personal and transactional individual messages it is not required and would actually be out of place. No impact on the score for this mail.''),
      ([''one_click_unsub''], ''One-Click Unsubscribe (RFC 8058) is only required for bulk/newsletter mail. Google and Yahoo mandate it for senders of more than 5,000 emails per day. For personal and transactional mail it is neither expected nor appropriate.''),
      ([''template_urls''], ''Template placeholder checks only apply to bulk mail where merge-tag templates are used.'')]"

definition naExplanationEN :: "gostring \<Rightarrow> gostring" where
  "naExplanationEN i = switch_text (naExplanationEN_cases) ''This check is not applicable for the detected mail type and has no impact on the score.'' i"

definition simPlaceholderText :: "gostring \<Rightarrow> gostring" where
  "simPlaceholderText i =
     (if i \<in> {''rbl'', ''ptr'', ''ptr_pattern''} then (''Im Simulator nicht pr'' @ [CHR 0xC3, CHR 0xBC] @ ''fbar: Daf'' @ [CHR 0xC3, CHR 0xBC] @ ''r wird die IP-Adresse des sendenden Servers gebraucht, und die entsteht erst, wenn eine Nachricht wirklich zugestellt wird. Schicken Sie eine Testmail, um diesen Punkt zu pr'' @ [CHR 0xC3, CHR 0xBC] @ ''fen.'')
      else (if (Recheckable i) then (''Im Simulator nicht ausgef'' @ [CHR 0xC3, CHR 0xBC] @ ''hrt '' @ [CHR 0xE2, CHR 0x80, CHR 0x93] @ '' mit dem Knopf '' @ [CHR 0xE2, CHR 0x86, CHR 0xBB] @ '' einzeln abrufbar.'') else (''Im Simulator nicht ausgef'' @ [CHR 0xC3, CHR 0xBC] @ ''hrt.'')))"

subsection \<open>Summaries in English\<close>

definition summary_content :: "gostring \<Rightarrow> gostring \<Rightarrow> gostring" where
  "summary_content key deSummary =
     (if key = ''from_domain_rcv:pass'' then ''From domain can receive email (MX records present).''
      else if key = ''from_domain_rcv:warn'' then (''From domain cannot receive email '' @ [CHR 0xE2, CHR 0x80, CHR 0x94] @ '' replies and bounces will be lost.'')
      else if key = ''from_domain_rcv:info'' then deSummary
      else if key = ''one_click_unsub:pass'' then (''One-Click Unsubscribe present (RFC 8058 compliant) '' @ [CHR 0xE2, CHR 0x80, CHR 0x94] @ '' maximum compatibility with Gmail and Yahoo.'')
      else if key = ''one_click_unsub:warn'' then (''List-Unsubscribe present but One-Click Unsubscribe (RFC 8058) missing '' @ [CHR 0xE2, CHR 0x80, CHR 0x94] @ '' Gmail/Yahoo compliance gap.'')
      else if key = ''one_click_unsub:na'' then ''Not applicable for this mail type.''
      else if key = ''template_urls:pass'' then ''No obvious template placeholders found in links.''
      else if key = ''template_urls:fail'' then (replace_all ''Link(s) gefunden:'' ''link(s) found:'' (replace_all ''Nicht ersetzte Template-Variablen'' ''Unreplaced template variables'' deSummary))
      else if key = ''template_urls:info'' then (''No links present '' @ [CHR 0xE2, CHR 0x80, CHR 0x94] @ '' template placeholder check not applicable.'')
      else if key = ''template_urls:na'' then ''Not applicable for this mail type.''
      else if key = ''received_chain:fail'' then ''No Received headers present.''
      else if key = ''received_chain:info'' then deSummary
      else if key = ''reply_to:info'' then ''No Reply-To header set.''
      else if key = ''reply_to:pass'' then ''Reply-To header is present.''
      else if key = ''domain_age:pass'' then (''Domain is established '' @ [CHR 0xE2, CHR 0x80, CHR 0x93] @ '' good reputation signal.'')
      else if key = ''domain_age:fail'' then (''Sending domain is very young '' @ [CHR 0xE2, CHR 0x80, CHR 0x93] @ '' strong spam/phishing signal.'')
      else if key = ''domain_age:warn'' then (''Sending domain is relatively young '' @ [CHR 0xE2, CHR 0x80, CHR 0x93] @ '' some reputation impact.'')
      else if key = ''image_alt:pass'' then ''All images have an alt attribute.''
      else if key = ''image_alt:warn'' then (if (contains deSummary ''Allen'') then ''All images are missing the alt attribute.'' else deSummary)
      else if key = ''image_alt:info'' then (''No images in HTML part '' @ [CHR 0xE2, CHR 0x80, CHR 0x93] @ '' alt text check not applicable.'')
      else if key = ''harmful_html:pass'' then ''No obvious harmful HTML elements detected.''
      else if key = ''harmful_html:fail'' then (''Script tags found in HTML body '' @ [CHR 0xE2, CHR 0x80, CHR 0x93] @ '' strong spam signal, blocked by all email clients.'')
      else if key = ''harmful_html:warn'' then (''Meta-refresh redirect detected in HTML '' @ [CHR 0xE2, CHR 0x80, CHR 0x93] @ '' some spam filters penalise this.'')
      else if key = ''fake_reply:warn'' then deSummary
      else if key = ''message_id_format:pass'' then (''Message-ID has correct RFC format (<id@domain>).'')
      else if key = ''message_id_format:warn'' then deSummary
      else if key \<in> {''x_google_dkim:pass'', ''x_google_dkim:info''} then (if (contains deSummary ''Kein X-Google-DKIM'') then ''No X-Google-DKIM signal (only relevant for Google-routed mail).'' else ''Google internal DKIM signal: pass.'')
      else if key = ''x_google_dkim:warn'' then (''Google internal DKIM signal: fail '' @ [CHR 0xE2, CHR 0x80, CHR 0x93] @ '' mail may be flagged by Google'' @ [CHR 0x27] @ ''s infrastructure.'')
      else if key = ''too_many_links:warn'' then (replace_first (''Links erkannt '' @ [CHR 0xE2, CHR 0x80, CHR 0x93] @ '' mehr als 30 Links in einer Mail ist ein Spam-Signal.'') ('' links detected '' @ [CHR 0xE2, CHR 0x80, CHR 0x93] @ '' more than 30 links is a spam signal.'') deSummary)
      else if key = ''too_many_links:info'' then deSummary
      else if key = ''no_reply_reply_to:warn'' then (''From is a no-reply address but Reply-To is missing '' @ [CHR 0xE2, CHR 0x80, CHR 0x94] @ '' replies will be lost.'')
      else if key = ''link_domain_mismatch:fail'' then (replace_first (''Link(s) mit irref'' @ [CHR 0xC3, CHR 0xBC] @ ''hrendem Anzeigetext erkannt: der sichtbare Domainname weicht vom tats'' @ [CHR 0xC3, CHR 0xA4] @ ''chlichen Ziel ab '' @ [CHR 0xE2, CHR 0x80, CHR 0x93] @ '' klassisches Phishing-Muster.'') ('' link(s) with misleading display text detected '' @ [CHR 0xE2, CHR 0x80, CHR 0x94] @ '' visible domain does not match actual destination (phishing pattern).'') deSummary)
      else if key = ''link_domain_mismatch:pass'' then ''No obvious link domain mismatches detected.''
      else if key = ''link_domain_mismatch:info'' then deSummary
      else if key = ''broken_links:pass'' then (replace_first ''Alle '' ''All '' deSummary)
      else if key = ''broken_links:warn'' then deSummary
      else if key = ''broken_links:info'' then (if (contains deSummary ''deaktiviert'') then (''Broken link check disabled '' @ [CHR 0xE2, CHR 0x80, CHR 0x94] @ '' opt-in required.'') else deSummary)
      else [])"

definition summaryEN :: "gostring \<Rightarrow> gostring \<Rightarrow> gostring \<Rightarrow> checkContext \<Rightarrow> gostring" where
  "summaryEN i st deSummary ctx =
     (let key = i @ '':'' @ st
      in if key = ''spf:pass'' then ''SPF passed according to Authentication-Results.''
      else if key = ''spf:fail'' then ''SPF reports a fail or softfail.''
      else if key = ''spf:warn'' then ''SPF record present but no clear result in the header.''
      else if key = ''spf:info'' then ''SPF record present, no definitive result.''
      else if key = ''dkim:pass'' then ''DKIM passed according to Authentication-Results.''
      else if key \<in> {''dkim:fail'', ''dkim:warn''} then (if (CDKIMTexts ctx \<noteq> None) then (fst (the (CDKIMTexts ctx))) else (if (st = ''warn'') then ''DKIM signature present but no valid result detectable.'' else ''DKIM reports a failure.''))
      else if key = ''dkim:info'' then ''No DKIM signature found.''
      else if key = ''dmarc:pass'' then ''DMARC passed according to Authentication-Results.''
      else if key = ''dmarc:fail'' then (if ((CFromDomain ctx) \<noteq> []) then (''No DMARC record found for '' @ (CFromDomain ctx) @ ''.'') else ''DMARC failed or no record found.'')
      else if key = ''dmarc:warn'' then ''DMARC record present but no clear pass in the header.''
      else if key = ''dmarc_policy:pass'' then (''DMARC p=reject '' @ [CHR 0xE2, CHR 0x80, CHR 0x93] @ '' strongest protection against domain spoofing.'')
      else if key = ''dmarc_policy:warn'' then (''DMARC p=none '' @ [CHR 0xE2, CHR 0x80, CHR 0x93] @ '' monitoring only, no active protection against domain spoofing.'')
      else if key = ''ptr:pass'' then ''Reverse DNS is correctly set up (forward-confirmed rDNS).''
      else if key = ''ptr:fail'' then ''Reverse DNS (PTR) is missing or not forward-confirmed.''
      else if key = ''ptr:warn'' then ''Reverse DNS is present but inconsistent.''
      else if key = ''spf_strictness:pass'' then (''SPF ends with -all (hardfail) '' @ [CHR 0xE2, CHR 0x80, CHR 0x93] @ '' strictest and recommended setting.'')
      else if key = ''spf_strictness:warn'' then (''SPF ends with ~all (softfail) '' @ [CHR 0xE2, CHR 0x80, CHR 0x93] @ '' acceptable, but -all provides stronger protection.'')
      else if key = ''spf_strictness:fail'' then (''SPF ends with +all '' @ [CHR 0xE2, CHR 0x80, CHR 0x93] @ '' allows ANYONE to send on your behalf (dangerous).'')
      else if key = ''spf_strictness:info'' then ''No SPF record evaluable.''
      else if key = ''rbl:pass'' then ''No hits in the configured blocklists.''
      else if key = ''rbl:fail'' then ''Sending IP is listed on one or more blocklists.''
      else if key = ''rbl:info'' then ''RBL check active but no providers configured.''
      else if key = ''tls_transport:pass'' then ''Email was transmitted with TLS encryption.''
      else if key = ''tls_transport:warn'' then ''No clear TLS transport signal found.''
      else if key = ''tls_transport:fail'' then ''Email appears to have been transmitted without TLS.''
      else if key = ''mx_records:pass'' then ''MX records found for the sending domain.''
      else if key = ''mx_records:fail'' then ''No MX records found for the sending domain.''
      else if key = ''display_name:pass'' then ''Display name is consistent with the actual sender domain.''
      else if key = ''display_name:fail'' then (''Display name contains a domain different from the actual sender '' @ [CHR 0xE2, CHR 0x80, CHR 0x93] @ '' phishing signal.'')
      else if key = ''helo:pass'' then ''HELO/EHLO looks plausible.''
      else if key = ''helo:fail'' then ''HELO/EHLO is missing.''
      else if key = ''helo:warn'' then ''HELO/EHLO does not look like a valid FQDN.''
      else if key = ''spf_alignment:pass'' then ''Envelope-from and header-from domains are SPF-aligned.''
      else if key = ''spf_alignment:fail'' then ''Envelope-from and header-from domains are not aligned for SPF.''
      else if key = ''dkim_alignment:pass'' then ''DKIM d= domain matches the header-from domain.''
      else if key = ''dkim_alignment:fail'' then ''DKIM d= domain does not match the header-from domain.''
      else if key = ''dmarc_alignment:pass'' then ''DMARC alignment check passed (SPF or DKIM aligned).''
      else if key = ''dmarc_alignment:fail'' then ''DMARC alignment failed: neither SPF nor DKIM aligns with the From domain.''
      else if key = ''message_id:pass'' then ''Message-ID present.''
      else if key = ''message_id:fail'' then ''Message-ID is missing.''
      else if key = ''list_unsub:pass'' then ''List-Unsubscribe header present.''
      else if key = ''list_unsub:warn'' then ''Bulk mail detected but List-Unsubscribe is missing (Gmail/Yahoo requirement since 2024).''
      else if key = ''list_unsub:na'' then (''Not applicable for this mail type '' @ [CHR 0xE2, CHR 0x80, CHR 0x93] @ '' no impact on score.'')
      else if key = ''return_path:pass'' then ''Return-Path header is present.''
      else if key = ''return_path:warn'' then ''No Return-Path header visible.''
      else if key = ''return_path:na'' then (''Not applicable for this mail type '' @ [CHR 0xE2, CHR 0x80, CHR 0x93] @ '' no impact on score.'')
      else if key = ''bimi:pass'' then (''BIMI record published '' @ [CHR 0xE2, CHR 0x80, CHR 0x93] @ '' logo display at supporting providers (requires enforced DMARC).'')
      else if key = ''bimi:info'' then ''No BIMI record found (optional; requires DMARC p=quarantine/reject and an SVG logo).''
      else if key = ''mta_sts:pass'' then ''MTA-STS policy published.''
      else if key = ''mta_sts:info'' then ''No MTA-STS policy found (optional but recommended).''
      else if key = ''dnssec:pass'' then ''DNSSEC is enabled for the sending domain.''
      else if key = ''dnssec:info'' then ''DNSSEC not detected (optional).''
      else if key = ''arc:info'' then (if (contains deSummary ''vorhanden'') then ''ARC headers present.'' else ''No ARC headers present (only relevant for forwarding scenarios).'')
      else if key = ''arc:warn'' then (''ARC chain broken '' @ [CHR 0xE2, CHR 0x80, CHR 0x93] @ '' forwarding chain may be manipulated or misconfigured.'')
      else summary_content key deSummary)"

subsection \<open>Recommendations\<close>

definition recommendationEN :: "gostring \<Rightarrow> gostring \<Rightarrow> checkContext \<Rightarrow> gostring" where
  "recommendationEN i st ctx =
     (let primary = (firstNonEmpty [(CFromDomain ctx), (CEnvelopeDomain ctx)]) in (let ipText = (orElse (CRemoteIP ctx) ''203.0.113.10'') in (if i = ''spf'' then (if ((st = ''fail'') \<or> (st = ''warn'')) then (''Publish an SPF TXT record for '' @ (orElse (CEnvelopeDomain ctx) ''example.org'') @ '', e.g.: v=spf1 ip4:'' @ ipText @ '' ~all'' @ [CHR 0x0A] @ ''Then tighten to -all once all sending IPs are covered.'') else [])
      else if i = ''dkim'' then (if ((st = ''fail'') \<or> (st = ''warn'')) then (if (CDKIMTexts ctx \<noteq> None) then (snd (snd (the (CDKIMTexts ctx)))) else (''Generate a 2048-bit RSA or Ed25519 DKIM key pair, publish the public key as a TXT record at <selector>._domainkey.'' @ (orElse (CFromDomain ctx) ''example.org'') @ '', and configure your MTA to sign all outgoing mail.'')) else [])
      else if i = ''dmarc'' then (if (st = ''fail'') then (''Publish a DMARC record: _dmarc.'' @ (orElse (CFromDomain ctx) ''example.org'') @ '' TXT '' @ [CHR 0x22] @ ''v=DMARC1; p=none; rua=mailto:dmarc@'' @ (orElse (CFromDomain ctx) ''example.org'') @ [CHR 0x22, CHR 0x0A] @ ''Monitor aggregate reports, then raise to p=quarantine and p=reject.'') else [])
      else if i = ''ptr'' then (if ((st = ''fail'') \<or> (st = ''warn'')) then (''Set a PTR record for '' @ ipText @ '' at your IP/hosting provider (NOT in your own DNS).'' @ [CHR 0x0A] @ ''Target: '' @ ipText @ '' '' @ [CHR 0xE2, CHR 0x86, CHR 0x92] @ '' PTR '' @ [CHR 0xE2, CHR 0x86, CHR 0x92] @ '' '' @ (orElse (CHELO ctx) ''mail.example.org'') @ '' '' @ [CHR 0xE2, CHR 0x86, CHR 0x92] @ '' A '' @ [CHR 0xE2, CHR 0x86, CHR 0x92] @ '' '' @ ipText @ [CHR 0x0A] @ ''Check with: dig -x '' @ ipText @ '' +short'') else [])
      else if i = ''dmarc_policy'' then (if (st = ''warn'') then (''Raise the DMARC policy to at least p=quarantine: _dmarc.'' @ primary @ '' TXT '' @ [CHR 0x22] @ ''v=DMARC1; p=quarantine; rua=mailto:dmarc@'' @ primary @ [CHR 0x22, CHR 0x0A] @ ''Check DMARC aggregate reports for a few weeks first to make sure all legitimate sources are covered.'') else [])
      else if i = ''spf_strictness'' then (if (st = ''warn'') then (''Once all legitimate sending sources are covered in your SPF record, change ~all to -all for maximum protection: v=spf1 ... -all'') else (if (st = ''fail'') then ''Immediately change +all to -all or at minimum ~all. +all authorises every server in the world to send on your behalf.'' else []))
      else if i = ''rbl'' then (if (st = ''fail'') then (''1. Temporarily stop or throttle sending from '' @ ipText @ ''.'' @ [CHR 0x0A] @ ''2. Check mail queue, auth logs, bounce logs and web forms for spam waves.'' @ [CHR 0x0A] @ ''3. Fix compromised accounts, open relays, open proxies, malware and misdirected bounces.'' @ [CHR 0x0A] @ ''4. Make SPF, DKIM, DMARC, PTR/rDNS and HELO consistent.'' @ [CHR 0x0A] @ ''5. Only then request delisting at each provider and document the fix.'') else [])
      else if i = ''helo'' then (if ((st = ''fail'') \<or> (st = ''warn'')) then ''Configure the MTA to use a fully qualified domain name (FQDN) as EHLO, e.g. mail.example.org. The FQDN should ideally match the PTR hostname of the sending IP.'' else [])
      else if i = ''list_unsub'' then (if (st = ''warn'') then (''Add a List-Unsubscribe header, e.g.:'' @ [CHR 0x0A] @ ''List-Unsubscribe: <mailto:unsubscribe@'' @ (orElse (CFromDomain ctx) ''example.org'') @ ''>, <https://'' @ (orElse (CFromDomain ctx) ''example.org'') @ ''/unsubscribe/...>'' @ [CHR 0x0A] @ ''List-Unsubscribe-Post: List-Unsubscribe=One-Click'') else [])
      else if i = ''return_path'' then (if (st = ''warn'') then (''Set a valid envelope-from/bounce address in your MTA or ESP.'' @ [CHR 0x0A] @ ''Example: bounce@'' @ (orElse (CFromDomain ctx) ''example.org'') @ '' with an SPF record authorising the sending IP.'') else [])
      else if i = ''display_name'' then (if ((st = ''fail'') \<or> (st = ''warn'')) then ''Make the display name consistent with the actual sending domain. Do not use third-party brand names or person names that differ from your domain.'' else [])
      else if i = ''tls_transport'' then (if ((st = ''warn'') \<or> (st = ''fail'')) then ''Enable STARTTLS on your outgoing MTA and ensure the certificate and hostname are valid.'' else [])
      else if i = ''from_domain_rcv'' then ''Set an MX record on the From domain, or use a From address on a domain that can receive email. If this is intentionally a no-reply address, consider using a Reply-To header pointing to a reachable address instead.''
      else if i = ''one_click_unsub'' then (''Add a '' @ [CHR 0x27] @ ''List-Unsubscribe-Post: List-Unsubscribe=One-Click'' @ [CHR 0x27] @ '' header alongside your List-Unsubscribe header. The HTTPS URL in List-Unsubscribe must handle a POST request and immediately unsubscribe the recipient without requiring any further interaction.'')
      else if i = ''template_urls'' then ''Check your bulk-mail template for unsubstituted variables before sending. Ensure all ESP merge tags are fully populated. Test with a real recipient address before deploying a campaign.''
      else if i = ''image_alt'' then (if (st = ''warn'') then (''Add a meaningful alt attribute to every <img> tag. Example: <img src='' @ [CHR 0x22] @ ''banner.jpg'' @ [CHR 0x22] @ '' alt='' @ [CHR 0x22] @ ''Summer sale '' @ [CHR 0xE2, CHR 0x80, CHR 0x93] @ '' 20% off all products'' @ [CHR 0x22] @ ''>. For purely decorative images use alt='' @ [CHR 0x22, CHR 0x22] @ '' (empty string) to signal to screen readers and filters that no text description is needed.'') else [])
      else if i = ''harmful_html'' then (if (st = ''fail'') then ''Remove all <script> tags from the email HTML. JavaScript is never executed in email clients and is a strong spam signal. Move any dynamic behaviour to your sending infrastructure or landing pages.'' else (if (st = ''warn'') then (''Remove the <meta http-equiv='' @ [CHR 0x22] @ ''refresh'' @ [CHR 0x22] @ ''> tag from the email HTML. Use a regular hyperlink if you want to direct recipients to a URL.'') else []))
      else if i = ''fake_reply'' then (if (st = ''warn'') then (''Remove the Re:/Fwd: prefix from the subject line. If this is a genuine reply, ensure the In-Reply-To and References headers are set correctly with the original message'' @ [CHR 0x27] @ ''s Message-ID.'') else [])
      else if i = ''message_id_format'' then (if (st = ''warn'') then (''Configure your mail server or sending software to generate a properly formatted Message-ID. Required format: <unique-id@'' @ (orElse (CFromDomain ctx) ''sending-domain.com'') @ ''>. The identifier before @ should be unique per message (e.g. a UUID or timestamp).'') else [])
      else if i = ''no_reply_reply_to'' then (if (st = ''warn'') then (''Set a Reply-To header pointing to a monitored inbox, e.g. Reply-To: support@your-domain.com. This ensures replies from recipients are routed correctly even though the From address is a no-reply address.'') else [])
      else if i = ''link_domain_mismatch'' then (if (st = ''fail'') then ''Ensure the visible link text always reflects the actual destination domain. Never display one domain while linking to another.'' else [])
      else if i = ''broken_links'' then (if (st = ''warn'') then ''Fix or remove the broken links. Test all links before sending a campaign.'' else [])
      else if i = ''too_many_links'' then (if (st = ''warn'') then ''Reduce the number of links in the email. More than 30 links is a recognised spam signal.'' else [])
      else [])))"

definition spfRecommendation :: "checkContext \<Rightarrow> gostring" where
  "spfRecommendation ctx =
     (let domain = (orElse (CEnvelopeDomain ctx) ''example.org'') in (let ipText = (orElse (CRemoteIP ctx) ''203.0.113.10'') in (if ((int (length (CSPFRecords ctx))) = 0) then (''Keinen SPF-Record auf der Envelope-From-Domain gefunden. DNS-TXT-Record anlegen:'' @ [CHR 0x0A, CHR 0x0A] @ ''  Name:  '' @ domain @ ''   (oder @ im DNS-Manager)'' @ [CHR 0x0A] @ ''  Typ:   TXT'' @ [CHR 0x0A] @ ''  Wert:  '' @ [CHR 0x22] @ ''v=spf1 ip4:'' @ ipText @ '' -all'' @ [CHR 0x22, CHR 0x0A, CHR 0x0A] @ ''Wenn ein Versanddienst genutzt wird (Google Workspace, Mailchimp, SendGrid'' @ [CHR 0xE2, CHR 0x80, CHR 0xA6] @ ''):'' @ [CHR 0x0A] @ ''  '' @ [CHR 0x22] @ ''v=spf1 include:_spf.google.com -all'' @ [CHR 0x22, CHR 0x0A] @ ''  '' @ [CHR 0x22] @ ''v=spf1 include:sendgrid.net -all'' @ [CHR 0x22, CHR 0x0A, CHR 0x0A] @ ''Qualifier:'' @ [CHR 0x0A] @ ''  -all  '' @ [CHR 0xE2, CHR 0x86, CHR 0x92] @ '' Hard Fail  (empfohlen f'' @ [CHR 0xC3, CHR 0xBC] @ ''r Produktion)'' @ [CHR 0x0A] @ ''  ~all  '' @ [CHR 0xE2, CHR 0x86, CHR 0x92] @ '' Soft Fail  (toleranter; f'' @ [CHR 0xC3, CHR 0xBC] @ ''r den Einstieg geeignet)'' @ [CHR 0x0A, CHR 0x0A] @ ''Pr'' @ [CHR 0xC3, CHR 0xBC] @ ''fen: dig TXT '' @ domain @ '' +short'') else (''SPF-Record f'' @ [CHR 0xC3, CHR 0xBC] @ ''r '' @ domain @ '' vorhanden, aber die sendende IP '' @ ipText @ '' ist nicht berechtigt.'' @ [CHR 0x0A, CHR 0x0A] @ ''Aktueller Record: '' @ (join '' | '' (CSPFRecords ctx)) @ [CHR 0x0A, CHR 0x0A] @ ''H'' @ [CHR 0xC3, CHR 0xA4] @ ''ufige Ursachen:'' @ [CHR 0x0A] @ ''  '' @ [CHR 0xE2, CHR 0x80, CHR 0xA2] @ '' IP nicht in ip4:/ip6:-Mechanismus gelistet'' @ [CHR 0x0A] @ ''  '' @ [CHR 0xE2, CHR 0x80, CHR 0xA2] @ '' Kein passendes include: f'' @ [CHR 0xC3, CHR 0xBC] @ ''r den Versanddienst'' @ [CHR 0x0A] @ ''  '' @ [CHR 0xE2, CHR 0x80, CHR 0xA2] @ '' SPF-Lookup-Limit '' @ [CHR 0xC3, CHR 0xBC] @ ''berschritten (max. 10 DNS-Lookups pro Pr'' @ [CHR 0xC3, CHR 0xBC] @ ''fung)'' @ [CHR 0x0A, CHR 0x0A] @ ''Fix: IP oder include: erg'' @ [CHR 0xC3, CHR 0xA4] @ ''nzen, bei zu vielen Lookups ein SPF-Flattening-Tool nutzen.'' @ [CHR 0x0A] @ ''Pr'' @ [CHR 0xC3, CHR 0xBC] @ ''fen: dig TXT '' @ domain @ '' +short''))))"

definition dkimRecommendation :: "checkContext \<Rightarrow> gostring" where
  "dkimRecommendation ctx =
     (if (CDKIMTexts ctx \<noteq> None) then (fst (snd (the (CDKIMTexts ctx)))) else (let domain = (orElse (CFromDomain ctx) ''example.org'') in (''DKIM-Schl'' @ [CHR 0xC3, CHR 0xBC] @ ''sselpaar erzeugen und DNS-TXT-Record anlegen.'' @ [CHR 0x0A, CHR 0x0A] @ ''1. Schl'' @ [CHR 0xC3, CHR 0xBC] @ ''ssel erzeugen (2048 Bit empfohlen):'' @ [CHR 0x0A] @ ''   openssl genrsa -out dkim_private.pem 2048'' @ [CHR 0x0A] @ ''   openssl rsa -in dkim_private.pem -pubout -out dkim_public.pem'' @ [CHR 0x0A, CHR 0x0A] @ ''2. DNS-Eintrag:'' @ [CHR 0x0A] @ ''   Name:  mail._domainkey.'' @ domain @ [CHR 0x0A] @ ''   Typ:   TXT'' @ [CHR 0x0A] @ ''   Wert:  '' @ [CHR 0x22] @ ''v=DKIM1; k=rsa; p=<Base64-Inhalt von dkim_public.pem ohne Header>'' @ [CHR 0x22, CHR 0x0A, CHR 0x0A] @ ''3. MTA konfigurieren '' @ [CHR 0xE2, CHR 0x80, CHR 0x93] @ '' Beispiel Postfix + OpenDKIM (/etc/opendkim.conf):'' @ [CHR 0x0A] @ ''   Domain         '' @ domain @ [CHR 0x0A] @ ''   Selector       mail'' @ [CHR 0x0A] @ ''   KeyFile        /etc/dkim/dkim_private.pem'' @ [CHR 0x0A, CHR 0x0A] @ ''4. Pr'' @ [CHR 0xC3, CHR 0xBC] @ ''fen: dig TXT mail._domainkey.'' @ domain @ '' +short'')))"

definition dmarcRecommendation :: "checkContext \<Rightarrow> gostring" where
  "dmarcRecommendation ctx =
     (let domain = (orElse (CFromDomain ctx) ''example.org'') in (if ((int (length (CDMARCRecords ctx))) = 0) then (''Keinen DMARC-Record f'' @ [CHR 0xC3, CHR 0xBC] @ ''r '' @ domain @ '' gefunden. DNS-TXT-Record anlegen:'' @ [CHR 0x0A, CHR 0x0A] @ ''  Name:  _dmarc.'' @ domain @ [CHR 0x0A] @ ''  Typ:   TXT'' @ [CHR 0x0A, CHR 0x0A] @ ''Einstieg (p=none '' @ [CHR 0xE2, CHR 0x80, CHR 0x93] @ '' nur Monitoring, kein Einfluss auf Zustellung):'' @ [CHR 0x0A] @ ''  '' @ [CHR 0x22] @ ''v=DMARC1; p=none; rua=mailto:dmarc@'' @ domain @ [CHR 0x22, CHR 0x0A, CHR 0x0A] @ ''Empfohlen f'' @ [CHR 0xC3, CHR 0xBC] @ ''r Produktion (Quarant'' @ [CHR 0xC3, CHR 0xA4] @ ''ne):'' @ [CHR 0x0A] @ ''  '' @ [CHR 0x22] @ ''v=DMARC1; p=quarantine; pct=100; rua=mailto:dmarc@'' @ domain @ [CHR 0x22, CHR 0x0A, CHR 0x0A] @ ''Streng (Ablehnung '' @ [CHR 0xE2, CHR 0x80, CHR 0x93] @ '' nur wenn SPF + DKIM stabil laufen):'' @ [CHR 0x0A] @ ''  '' @ [CHR 0x22] @ ''v=DMARC1; p=reject; pct=100; rua=mailto:dmarc@'' @ domain @ [CHR 0x22, CHR 0x0A, CHR 0x0A] @ ''Voraussetzungen: SPF und DKIM m'' @ [CHR 0xC3, CHR 0xBC] @ ''ssen aligned bestehen.'' @ [CHR 0x0A] @ ''Vorgehen: p=none '' @ [CHR 0xE2, CHR 0x86, CHR 0x92] @ '' Berichte analysieren '' @ [CHR 0xE2, CHR 0x86, CHR 0x92] @ '' p=quarantine '' @ [CHR 0xE2, CHR 0x86, CHR 0x92] @ '' p=reject'') else (''DMARC f'' @ [CHR 0xC3, CHR 0xBC] @ ''r '' @ domain @ '' ist gesetzt (Policy: '' @ (orElse (CDMARCPolicy ctx) ''none'') @ ''), aber SPF oder DKIM besteht nicht aligned.'' @ [CHR 0x0A, CHR 0x0A] @ ''Checkliste:'' @ [CHR 0x0A] @ ''  '' @ [CHR 0xE2, CHR 0x9C, CHR 0x93] @ '' SPF muss f'' @ [CHR 0xC3, CHR 0xBC] @ ''r die Envelope-From-Domain bestehen und aligned zur From-Domain sein'' @ [CHR 0x0A] @ ''  '' @ [CHR 0xE2, CHR 0x9C, CHR 0x93] @ '' DKIM muss mit d='' @ domain @ '' signieren'' @ [CHR 0x0A] @ ''  '' @ [CHR 0xE2, CHR 0x9C, CHR 0x93] @ '' Beide Mechanismen separat mit dig und Mail-Tests pr'' @ [CHR 0xC3, CHR 0xBC] @ ''fen'' @ [CHR 0x0A, CHR 0x0A] @ ''Aktuelle Records: '' @ (join '' | '' (CDMARCRecords ctx)))))"

definition defaultRecommendation :: "CheckResult \<Rightarrow> checkContext \<Rightarrow> gostring" where
  "defaultRecommendation c ctx =
     (if (ID c) = ''from_alignment'' then (''Envelope-From/Bounce-Domain und sichtbare From-Domain angleichen. Aktuell: Header-From '' @ [CHR 0x60] @ (orElse (Get (CHeaders ctx) ''From'') ''none'') @ [CHR 0x60] @ '', Envelope-From-Domain '' @ [CHR 0x60] @ (orElse (CEnvelopeDomain ctx) ''none'') @ [CHR 0x60] @ ''. Empfehlenswert ist z. B. Bounce-Adresse '' @ [CHR 0x60] @ ''bounce@'' @ (orElse (CFromDomain ctx) ''example.org'') @ [CHR 0x60] @ '' oder eine Subdomain wie '' @ [CHR 0x60] @ ''bounce.'' @ (orElse (CFromDomain ctx) ''example.org'') @ [CHR 0x60] @ '', die per SPF autorisiert ist.'')
      else if (ID c) = ''return_path'' then (''Im Versand-MTA oder ESP eine g'' @ [CHR 0xC3, CHR 0xBC] @ ''ltige Envelope-From/Bounce-Adresse setzen. Beispiel f'' @ [CHR 0xC3, CHR 0xBC] @ ''r die DNS-/MTA-Konfiguration: '' @ [CHR 0x60] @ ''bounce@'' @ (orElse (CFromDomain ctx) ''example.org'') @ [CHR 0x60] @ '' mit SPF-Record f'' @ [CHR 0xC3, CHR 0xBC] @ ''r die sendende IP '' @ (orElse (CRemoteIP ctx) ''203.0.113.10'') @ ''.'')
      else if (ID c) = ''reply_to'' then (''Wenn Antworten an eine andere Adresse gehen sollen, Reply-To bewusst setzen, z. B. '' @ [CHR 0x60] @ ''Reply-To: support@example.org'' @ [CHR 0x60] @ ''. Wenn nicht, Reply-To weglassen oder zur sichtbaren From-Domain passend halten.'')
      else if (ID c) = ''spf_alignment'' then (''SPF f'' @ [CHR 0xC3, CHR 0xBC] @ ''r die Envelope-From-Domain '' @ [CHR 0x60] @ (orElse (CEnvelopeDomain ctx) ''none'') @ [CHR 0x60] @ '' so konfigurieren, dass die sendende IP '' @ (orElse (CRemoteIP ctx) ''<sender-ip>'') @ '' erlaubt ist, und die Bounce-Domain als gleiche Domain oder Subdomain von '' @ [CHR 0x60] @ (orElse (CFromDomain ctx) ''example.org'') @ [CHR 0x60] @ '' verwenden.'')
      else if (ID c) = ''dkim_alignment'' then (''DKIM mit einer Domain signieren, die zur sichtbaren From-Domain passt. Beispiel: '' @ [CHR 0x60] @ ''d='' @ (orElse (CFromDomain ctx) ''example.org'') @ [CHR 0x60] @ '' oder eine erlaubte Subdomain; DNS-Record unter '' @ [CHR 0x60] @ ''selector._domainkey.'' @ (orElse (CFromDomain ctx) ''example.org'') @ [CHR 0x60] @ '' setzen.'')
      else if (ID c) = ''dmarc_alignment'' then (''Mindestens SPF oder DKIM muss aligned bestehen. Praktisch: DKIM-Signatur mit '' @ [CHR 0x60] @ ''d='' @ (orElse (CFromDomain ctx) ''example.org'') @ [CHR 0x60] @ '' aktivieren und SPF f'' @ [CHR 0xC3, CHR 0xBC] @ ''r '' @ [CHR 0x60] @ (orElse (CEnvelopeDomain ctx) ''example.org'') @ [CHR 0x60] @ '' korrigieren; DMARC-Record unter '' @ [CHR 0x60] @ ''_dmarc.'' @ (orElse (CFromDomain ctx) ''example.org'') @ [CHR 0x60] @ '' pflegen.'')
      else if (ID c) = ''received_chain'' then (''Der empfangende SMTP-Server sollte mindestens einen Received-Header schreiben. Wenn vorgeschaltete Relays Header entfernen, deren Konfiguration pr'' @ [CHR 0xC3, CHR 0xBC] @ ''fen und RFC-konforme Received-Zeilen erhalten.'')
      else if (ID c) = ''message_id'' then ((''Mailserver oder Versandsoftware so konfigurieren, dass jede Nachricht eine eindeutige Message-ID erzeugt, z. B. '' @ [CHR 0x60] @ ''<unique-id@'') @ (orElse (CFromDomain ctx) ''example.org'') @ (''>'' @ [CHR 0x60] @ ''.''))
      else if (ID c) \<in> {''mime_ct'', ''mime_boundary'', ''multipart_alt''} then (''Das Template als RFC-konforme MIME-Mail erzeugen. F'' @ [CHR 0xC3, CHR 0xBC] @ ''r HTML-Mails empfohlen: '' @ [CHR 0x60] @ ''multipart/alternative'' @ [CHR 0x60] @ '' mit '' @ [CHR 0x60] @ ''text/plain'' @ [CHR 0x60] @ '' und '' @ [CHR 0x60] @ ''text/html'' @ [CHR 0x60] @ '', sauberer Boundary und '' @ [CHR 0x60] @ ''Content-Type: multipart/alternative; boundary=...'' @ [CHR 0x60] @ ''.'')
      else if (ID c) = ''plain_text'' then (''Im Versandtemplate einen text/plain-Part zus'' @ [CHR 0xC3, CHR 0xA4] @ ''tzlich zum HTML-Part ausliefern.'')
      else if (ID c) = ''attachments'' then (''Anh'' @ [CHR 0xC3, CHR 0xA4] @ ''nge nur verwenden, wenn noetig. Gro'' @ [CHR 0xC3, CHR 0x9F] @ ''e Dateien extern verlinken, Dateinamen klar halten und riskante Dateitypen wie ausf'' @ [CHR 0xC3, CHR 0xBC] @ ''hrbare Dateien vermeiden.'')
      else if (ID c) = ''image_text_ratio'' then ''Mehr echten Text in die Mail aufnehmen und Bild-only-Layouts vermeiden. Richtwert: zentrale Aussage als Text ausgeben, Bilder mit Alt-Text versehen und nicht mehr als wenige Hero-/Produktbilder verwenden.''
      else if (ID c) = ''charset'' then (''UTF-8 als Charset verwenden und Content-Type korrekt setzen, z. B. '' @ [CHR 0x60] @ ''Content-Type: text/html; charset=UTF-8'' @ [CHR 0x60] @ ''.'')
      else if (ID c) = ''links'' then ''Nur notwendige Links verwenden und sichtbare Link-Domain, Ziel-Domain und Absenderdomain plausibel zusammenhalten. Kritische Links mit der eigenen Domain oder einer sauber eingerichteten Tracking-Domain ausliefern.''
      else if (ID c) = ''shortener'' then ''URL-Shortener entfernen. Stattdessen direkte HTTPS-URLs oder eine eigene Tracking-Domain mit passendem CNAME/A-Record und TLS verwenden.''
      else if (ID c) = ''tracking_links'' then ((''Tracking-Parameter reduzieren. Wenn Tracking notwendig ist, eine eigene Subdomain wie '' @ [CHR 0x60] @ ''click.'') @ (orElse (CFromDomain ctx) ''example.org'') @ ([CHR 0x60] @ '' verwenden und diese sauber per DNS/TLS konfigurieren.''))
      else if (ID c) \<in> {''html'', ''hidden_html'', ''html_validity''} then (''HTML-Template validieren, versteckte Elemente minimieren und kritische Inhalte nicht per '' @ [CHR 0x60] @ ''display:none'' @ [CHR 0x60] @ '', '' @ [CHR 0x60] @ ''font-size:0'' @ [CHR 0x60] @ '' oder komplexem CSS verstecken. Lange CSS-Bl'' @ [CHR 0xC3, CHR 0xB6] @ ''cke und kaputte Tags bereinigen.'')
      else if (ID c) = ''subject'' then (''Einen konkreten, normalen Betreff setzen, der Inhalt und Absender widerspiegelt. Beispiel: '' @ [CHR 0x60] @ ''Ihre Buchungsbest'' @ [CHR 0xC3, CHR 0xA4] @ ''tigung f'' @ [CHR 0xC3, CHR 0xBC] @ ''r Veranstaltung XY'' @ [CHR 0x60] @ '' statt leerer oder generischer Betreffzeile.'')
      else if (ID c) \<in> {''subject_exclaim'', ''subject_caps''} then (''Betreff normalisieren: wenige Satzzeichen, keine durchgehende Gro'' @ [CHR 0xC3, CHR 0x9F] @ ''schreibung, keine aggressiven Triggerw'' @ [CHR 0xC3, CHR 0xB6] @ ''rter. Beispiel: '' @ [CHR 0x60] @ ''Aktualisierung zu Ihrer Bestellung'' @ [CHR 0x60] @ ''.'')
      else if (ID c) \<in> {''date'', ''date_skew''} then ''Serverzeit per NTP synchronisieren und Date-Header vom MTA korrekt erzeugen lassen. Bei Postfix/Exim keine manuell manipulierten Date-Header aus der Anwendung erzwingen.''
      else if (ID c) = ''tls_transport'' then (''STARTTLS am ausgehenden MTA aktivieren und Zertifikat/Hostname pr'' @ [CHR 0xC3, CHR 0xBC] @ ''fen.'')
      else if (ID c) = ''list_unsub'' then ((''F'' @ [CHR 0xC3, CHR 0xBC] @ ''r Newsletter einen RFC-konformen Header setzen, z. B. '' @ [CHR 0x60] @ ''List-Unsubscribe: <mailto:unsubscribe@'') @ (orElse (CFromDomain ctx) ''example.org'') @ ''>, <https://'' @ (orElse (CFromDomain ctx) ''example.org'') @ (''/unsubscribe/...>'' @ [CHR 0x60] @ '' und optional '' @ [CHR 0x60] @ ''List-Unsubscribe-Post: List-Unsubscribe=One-Click'' @ [CHR 0x60] @ ''.''))
      else if (ID c) = ''preheader'' then (''Im HTML-Template einen kurzen Preheader direkt am Anfang des Body platzieren. Beispiel: ein 80'' @ [CHR 0xE2, CHR 0x80, CHR 0x93] @ ''120 Zeichen langer Vorschautext, visuell dezent versteckt, aber nicht missbr'' @ [CHR 0xC3, CHR 0xA4] @ ''uchlich obfuskiert.'')
      else if (ID c) = ''unicode'' then (''Zero-Width-Zeichen und unn'' @ [CHR 0xC3, CHR 0xB6] @ ''tige Unicode-Obfuskation aus Betreff und Body entfernen. Normale Sonderzeichen f'' @ [CHR 0xC3, CHR 0xBC] @ ''r Sprache sind ok; versteckte Steuerzeichen sollten vermieden werden.'')
      else (if ((Suggestion c) \<noteq> []) then (Suggestion c) else ''Den genannten Wert im Mailserver, DNS oder Versandtemplate korrigieren und danach erneut testen.''))"

definition spfDocLinks :: "DocLink list" where
  "spfDocLinks  =
     [\<lparr>Title = (''RFC 7208 '' @ [CHR 0xE2, CHR 0x80, CHR 0x93] @ '' Sender Policy Framework''), URL = ''https://www.rfc-editor.org/rfc/rfc7208''\<rparr>, \<lparr>Title = (''SPF-Record pr'' @ [CHR 0xC3, CHR 0xBC] @ ''fen '' @ [CHR 0xE2, CHR 0x80, CHR 0x93] @ '' MXToolbox''), URL = ''https://mxtoolbox.com/spf.aspx''\<rparr>, \<lparr>Title = (''SPF-Wizard '' @ [CHR 0xE2, CHR 0x80, CHR 0x93] @ '' dmarcian''), URL = ''https://dmarcian.com/spf-wizard/''\<rparr>, \<lparr>Title = (''SPF-Lookup-Limit erkl'' @ [CHR 0xC3, CHR 0xA4] @ ''ren '' @ [CHR 0xE2, CHR 0x80, CHR 0x93] @ '' Google''), URL = ''https://support.google.com/a/answer/10684623''\<rparr>]"

definition dkimDocLinks :: "DocLink list" where
  "dkimDocLinks  =
     [\<lparr>Title = (''RFC 6376 '' @ [CHR 0xE2, CHR 0x80, CHR 0x93] @ '' DomainKeys Identified Mail''), URL = ''https://www.rfc-editor.org/rfc/rfc6376''\<rparr>, \<lparr>Title = (''DKIM-Record pr'' @ [CHR 0xC3, CHR 0xBC] @ ''fen '' @ [CHR 0xE2, CHR 0x80, CHR 0x93] @ '' MXToolbox''), URL = ''https://mxtoolbox.com/dkim.aspx''\<rparr>, \<lparr>Title = (''DKIM-Schl'' @ [CHR 0xC3, CHR 0xBC] @ ''ssel generieren '' @ [CHR 0xE2, CHR 0x80, CHR 0x93] @ '' EasyDMARC''), URL = ''https://easydmarc.com/tools/dkim-record-generator''\<rparr>, \<lparr>Title = ''OpenDKIM Installationsanleitung'', URL = ''https://www.opendkim.org/''\<rparr>]"

definition dmarcDocLinks :: "DocLink list" where
  "dmarcDocLinks  =
     [\<lparr>Title = (''RFC 7489 '' @ [CHR 0xE2, CHR 0x80, CHR 0x93] @ '' DMARC''), URL = ''https://www.rfc-editor.org/rfc/rfc7489''\<rparr>, \<lparr>Title = (''DMARC-Einstiegsguide '' @ [CHR 0xE2, CHR 0x80, CHR 0x93] @ '' dmarc.org''), URL = ''https://dmarc.org/overview/''\<rparr>, \<lparr>Title = (''DMARC-Record pr'' @ [CHR 0xC3, CHR 0xBC] @ ''fen '' @ [CHR 0xE2, CHR 0x80, CHR 0x93] @ '' MXToolbox''), URL = ''https://mxtoolbox.com/dmarc.aspx''\<rparr>, \<lparr>Title = (''DMARC-Analyzer '' @ [CHR 0xE2, CHR 0x80, CHR 0x93] @ '' dmarcian''), URL = ''https://dmarcian.com/dmarc-inspector/''\<rparr>]"

definition defaultDocLinks :: "gostring \<Rightarrow> DocLink list" where
  "defaultDocLinks i =
     (if i \<in> {''from_alignment'', ''spf_alignment'', ''dkim_alignment'', ''dmarc_alignment''} then [\<lparr>Title = (''DMARC Alignment erkl'' @ [CHR 0xC3, CHR 0xA4] @ ''rt '' @ [CHR 0xE2, CHR 0x80, CHR 0x93] @ '' dmarcian''), URL = ''https://dmarcian.com/alignment/''\<rparr>, \<lparr>Title = (''RFC 7489 '' @ [CHR 0xE2, CHR 0x80, CHR 0x93] @ '' DMARC Alignment''), URL = ''https://www.rfc-editor.org/rfc/rfc7489#section-3.1''\<rparr>]
      else if i = ''return_path'' then [\<lparr>Title = (''Return-Path vs. From '' @ [CHR 0xE2, CHR 0x80, CHR 0x93] @ '' Postmark''), URL = ''https://postmarkapp.com/blog/what-is-the-return-path''\<rparr>, \<lparr>Title = (''RFC 5321 '' @ [CHR 0xE2, CHR 0x80, CHR 0x93] @ '' SMTP Reverse-Path''), URL = ''https://www.rfc-editor.org/rfc/rfc5321#section-4.1.1.2''\<rparr>]
      else if i = ''reply_to'' then [\<lparr>Title = (''RFC 5322 '' @ [CHR 0xE2, CHR 0x80, CHR 0x93] @ '' Reply-To Header''), URL = ''https://www.rfc-editor.org/rfc/rfc5322#section-3.6.2''\<rparr>]
      else if i = ''tls_transport'' then [\<lparr>Title = (''STARTTLS erkl'' @ [CHR 0xC3, CHR 0xA4] @ ''rt '' @ [CHR 0xE2, CHR 0x80, CHR 0x93] @ '' Fastmail''), URL = ''https://www.fastmail.help/hc/en-us/articles/1500000278321''\<rparr>, \<lparr>Title = (''DANE f'' @ [CHR 0xC3, CHR 0xBC] @ ''r SMTP '' @ [CHR 0xE2, CHR 0x80, CHR 0x93] @ '' IETF RFC 7672''), URL = ''https://www.rfc-editor.org/rfc/rfc7672''\<rparr>, \<lparr>Title = (''TLS-Check '' @ [CHR 0xE2, CHR 0x80, CHR 0x93] @ '' internet.nl''), URL = ''https://internet.nl/mail/''\<rparr>]
      else if i = ''received_chain'' then [\<lparr>Title = (''RFC 5321 '' @ [CHR 0xE2, CHR 0x80, CHR 0x93] @ '' Received Header''), URL = ''https://www.rfc-editor.org/rfc/rfc5321#section-4.4''\<rparr>, \<lparr>Title = (''E-Mail-Header analysieren '' @ [CHR 0xE2, CHR 0x80, CHR 0x93] @ '' MXToolbox''), URL = ''https://mxtoolbox.com/EmailHeaders.aspx''\<rparr>]
      else if i = ''arc'' then [\<lparr>Title = (''ARC erkl'' @ [CHR 0xC3, CHR 0xA4] @ ''rt '' @ [CHR 0xE2, CHR 0x80, CHR 0x93] @ '' arc-spec.org''), URL = ''https://arc-spec.org/''\<rparr>, \<lparr>Title = (''RFC 8617 '' @ [CHR 0xE2, CHR 0x80, CHR 0x93] @ '' ARC''), URL = ''https://www.rfc-editor.org/rfc/rfc8617''\<rparr>]
      else if i \<in> {''mime_ct'', ''mime_boundary'', ''multipart_alt''} then [\<lparr>Title = (''RFC 2045 '' @ [CHR 0xE2, CHR 0x80, CHR 0x93] @ '' MIME Part One''), URL = ''https://www.rfc-editor.org/rfc/rfc2045''\<rparr>, \<lparr>Title = (''MIME-Typen '' @ [CHR 0xE2, CHR 0x80, CHR 0x93] @ '' MDN''), URL = ''https://developer.mozilla.org/en-US/docs/Web/HTTP/Basics_of_HTTP/MIME_types''\<rparr>]
      else if i = ''plain_text'' then [\<lparr>Title = ''Multipart/Alternative Best Practices'', URL = ''https://www.litmus.com/blog/best-practices-multipart-alternative-emails/''\<rparr>]
      else if i \<in> {''html'', ''hidden_html'', ''html_validity''} then [\<lparr>Title = (''HTML E-Mail Guide '' @ [CHR 0xE2, CHR 0x80, CHR 0x93] @ '' Campaign Monitor''), URL = ''https://www.campaignmonitor.com/dev-resources/guides/html-email-best-practices/''\<rparr>, \<lparr>Title = (''E-Mail-Kompatibilit'' @ [CHR 0xC3, CHR 0xA4] @ ''tstests '' @ [CHR 0xE2, CHR 0x80, CHR 0x93] @ '' Can I Email''), URL = ''https://www.caniemail.com/''\<rparr>]
      else if i \<in> {''links'', ''shortener'', ''tracking_links''} then [\<lparr>Title = (''Link-Tracking Best Practices '' @ [CHR 0xE2, CHR 0x80, CHR 0x93] @ '' Postmark''), URL = ''https://postmarkapp.com/blog/link-tracking-in-email''\<rparr>, \<lparr>Title = (''URL-Reputation pr'' @ [CHR 0xC3, CHR 0xBC] @ ''fen '' @ [CHR 0xE2, CHR 0x80, CHR 0x93] @ '' Google''), URL = ''https://transparencyreport.google.com/safe-browsing/search''\<rparr>, \<lparr>Title = (''URL-Reputation '' @ [CHR 0xE2, CHR 0x80, CHR 0x93] @ '' VirusTotal''), URL = ''https://www.virustotal.com/gui/home/url''\<rparr>]
      else if i \<in> {''subject'', ''subject_exclaim'', ''subject_caps''} then [\<lparr>Title = (''Betreff Best Practices '' @ [CHR 0xE2, CHR 0x80, CHR 0x93] @ '' Mailchimp''), URL = ''https://mailchimp.com/resources/email-subject-line-best-practices/''\<rparr>, \<lparr>Title = ''SpamAssassin Subject-Regeln'', URL = ''https://spamassassin.apache.org/tests_3_4_x.html''\<rparr>]
      else if i = ''message_id'' then [\<lparr>Title = (''RFC 5322 '' @ [CHR 0xE2, CHR 0x80, CHR 0x93] @ '' Message-ID''), URL = ''https://www.rfc-editor.org/rfc/rfc5322#section-3.6.4''\<rparr>]
      else if i \<in> {''date'', ''date_skew''} then [\<lparr>Title = (''RFC 5322 '' @ [CHR 0xE2, CHR 0x80, CHR 0x93] @ '' Date Header''), URL = ''https://www.rfc-editor.org/rfc/rfc5322#section-3.6.1''\<rparr>, \<lparr>Title = (''NTP-Synchronisierung '' @ [CHR 0xE2, CHR 0x80, CHR 0x93] @ '' pool.ntp.org''), URL = ''https://www.ntppool.org/en/''\<rparr>]
      else if i \<in> {''attachments'', ''image_text_ratio''} then [\<lparr>Title = (''Attachment Best Practices '' @ [CHR 0xE2, CHR 0x80, CHR 0x93] @ '' Postmark''), URL = ''https://postmarkapp.com/developer/user-guide/send-email-with-attachments''\<rparr>, \<lparr>Title = (''Bild/Text-Verh'' @ [CHR 0xC3, CHR 0xA4] @ ''ltnis '' @ [CHR 0xE2, CHR 0x80, CHR 0x93] @ '' Validity''), URL = ''https://www.validity.com/resource-center/image-to-text-ratio/''\<rparr>]
      else if i = ''list_unsub'' then [\<lparr>Title = ''Gmail Bulk-Sender Anforderungen'', URL = ''https://support.google.com/mail/answer/81126''\<rparr>, \<lparr>Title = ''Yahoo Sender Best Practices'', URL = ''https://senders.yahooinc.com/best-practices/''\<rparr>, \<lparr>Title = (''RFC 8058 '' @ [CHR 0xE2, CHR 0x80, CHR 0x93] @ '' One-Click Unsubscribe''), URL = ''https://www.rfc-editor.org/rfc/rfc8058''\<rparr>, \<lparr>Title = (''RFC 2369 '' @ [CHR 0xE2, CHR 0x80, CHR 0x93] @ '' List-Unsubscribe Header''), URL = ''https://www.rfc-editor.org/rfc/rfc2369''\<rparr>]
      else if i = ''preheader'' then [\<lparr>Title = (''Preheader Best Practices '' @ [CHR 0xE2, CHR 0x80, CHR 0x93] @ '' Litmus''), URL = ''https://www.litmus.com/blog/the-ultimate-guide-to-preview-text-support/''\<rparr>]
      else if i = ''unicode'' then [\<lparr>Title = (''Unicode-Zeichen pr'' @ [CHR 0xC3, CHR 0xBC] @ ''fen '' @ [CHR 0xE2, CHR 0x80, CHR 0x93] @ '' Unicode Inspector''), URL = ''https://apps.timwhitlock.info/unicode/inspect''\<rparr>, \<lparr>Title = (''IDN Homograph Attack erkl'' @ [CHR 0xC3, CHR 0xA4] @ ''rt''), URL = ''https://www.xudongz.com/blog/2017/idn-phishing/''\<rparr>]
      else if i = ''from_domain_rcv'' then [\<lparr>Title = (''RFC 5321 '' @ [CHR 0xE2, CHR 0x80, CHR 0x93] @ '' SMTP''), URL = ''https://www.rfc-editor.org/rfc/rfc5321''\<rparr>]
      else if i = ''one_click_unsub'' then [\<lparr>Title = (''RFC 8058 '' @ [CHR 0xE2, CHR 0x80, CHR 0x93] @ '' One-Click Unsubscribe''), URL = ''https://www.rfc-editor.org/rfc/rfc8058''\<rparr>, \<lparr>Title = ''Google Bulk Sender Guidelines'', URL = ''https://support.google.com/mail/answer/81126''\<rparr>]
      else [])"

subsection \<open>Blocklists\<close>

definition rblImpactText :: "int \<Rightarrow> gostring" where
  "rblImpactText listed =
     (if (listed = 0) then ''Keine Listing-Treffer in den konfigurierten RBLs. Das garantiert keine gute Inbox-Platzierung, reduziert aber ein wichtiges Infrastruktur-Risiko.'' else (if (listed = 1) then (''Ein einzelnes Listing ist ein Warnsignal. Je nach Liste kann es bei kleineren Providern direkt zu Ablehnungen f'' @ [CHR 0xC3, CHR 0xBC] @ ''hren und bei gro'' @ [CHR 0xC3, CHR 0x9F] @ ''en Providern die IP-Reputation indirekt belasten.'') else ''Mehrere Listings sind ein starkes Reputationsproblem. Vor weiterem Versand sollte die Ursache behoben werden, sonst drohen Ablehnungen, Spamfolder-Platzierung und schnelle Wiederlistings.''))"

definition rblPreDelistingChecklist :: "gostring \<Rightarrow> gostring" where
  "rblPreDelistingChecklist ipText =
     (join [CHR 0x0A] [((''1. Versand f'' @ [CHR 0xC3, CHR 0xBC] @ ''r die IP '') @ (orElse ipText ''<sender-ip>'') @ '' kurz stoppen oder stark drosseln.''), (''2. Mailqueue, Auth-Logs, Bounce-Logs und Webform-/Newsletter-Logs auf Spamwellen pr'' @ [CHR 0xC3, CHR 0xBC] @ ''fen.''), ''3. Kompromittierte Accounts, offene Relays, offene Proxies, Malware und fehlgeleitete Bounces beheben.'', ''4. SPF, DKIM, DMARC, PTR/rDNS und HELO konsistent machen.'', ''5. Erst danach Delisting beim jeweiligen Provider beantragen und die konkrete Behebung dokumentieren.''])"

definition rblListedRecommendation :: "gostring \<Rightarrow> gostring list \<Rightarrow> gostring" where
  "rblListedRecommendation ipText listed =
     (''Die IP '' @ (orElse ipText ''<sender-ip>'') @ '' ist gelistet. Beheben Sie zuerst die Ursache, bevor Sie ein Delisting beantragen; sonst wird die IP meist erneut gelistet. Pr'' @ [CHR 0xC3, CHR 0xBC] @ ''fen Sie insbesondere kompromittierte SMTP-Accounts, offene Relay-/Proxy-Konfiguration, infizierte Webanwendungen, Spamtrap-Treffer durch alte Empf'' @ [CHR 0xC3, CHR 0xA4] @ ''ngerlisten und fehlgeleitete Bounces. Danach pro gelisteter RBL den Delisting-Link aus den technischen Details nutzen und in der Begr'' @ [CHR 0xC3, CHR 0xBC] @ ''ndung konkret nennen, was behoben wurde. Betroffene Listen: '' @ (join '', '' listed) @ ''.'')"

definition rblGenericRecommendation :: "gostring \<Rightarrow> gostring" where
  "rblGenericRecommendation ipText =
     (''Wenn ein RBL-Listing auftritt: Ursache f'' @ [CHR 0xC3, CHR 0xBC] @ ''r IP '' @ (orElse ipText ''<sender-ip>'') @ '' zuerst abstellen, Versand tempor'' @ [CHR 0xC3, CHR 0xA4] @ ''r stoppen, Logs und Queue pr'' @ [CHR 0xC3, CHR 0xBC] @ ''fen, dann '' @ [CHR 0xC3, CHR 0xBC] @ ''ber die jeweilige Provider-Seite delisten. Ohne behobene Ursache f'' @ [CHR 0xC3, CHR 0xBC] @ ''hrt Delisting fast immer zu erneutem Listing.'')"

text \<open>One address of an answer.\<close>

definition response_meaning :: "gostring \<Rightarrow> gostring \<Rightarrow> gostring" where
  "response_meaning p ipText =
     (if (ipText = ''127.255.255.254'') then (ipText @ ('' (Query verweigert '' @ [CHR 0xE2, CHR 0x80, CHR 0x94] @ '' Open Resolver; kein echtes Listing)''))
      else if (ipText = ''127.255.255.255'') then (ipText @ '' (Query-Timeout; kein echtes Listing)'')
      else if ((contains p ''spamhaus'') \<or> (has_suffix p ''.spamhaus.org'')) then (if ipText = ''127.0.0.2'' then (ipText @ ('' '' @ [CHR 0xE2, CHR 0x86, CHR 0x92] @ '' SBL: bekannte Spam-Quelle''))
      else if ipText = ''127.0.0.3'' then (ipText @ ('' '' @ [CHR 0xE2, CHR 0x86, CHR 0x92] @ '' SBL CSS: Snowshoe-Spam''))
      else if ipText \<in> {''127.0.0.4'', ''127.0.0.5'', ''127.0.0.6'', ''127.0.0.7''} then (ipText @ ('' '' @ [CHR 0xE2, CHR 0x86, CHR 0x92] @ '' XBL: Exploit/Botnet/kompromittierter Host''))
      else if ipText = ''127.0.0.9'' then (ipText @ ('' '' @ [CHR 0xE2, CHR 0x86, CHR 0x92] @ '' DROP/EDROP: vollst'' @ [CHR 0xC3, CHR 0xA4] @ ''ndig blockierter Adressbereich''))
      else if ipText = ''127.0.0.10'' then (ipText @ ('' '' @ [CHR 0xE2, CHR 0x86, CHR 0x92] @ '' PBL: dynamische/Consumer-IP (ISP-Policy)''))
      else if ipText = ''127.0.0.11'' then (ipText @ ('' '' @ [CHR 0xE2, CHR 0x86, CHR 0x92] @ '' PBL: dynamische IP (Nutzer-gemeldet)''))
      else (ipText @ ('' '' @ [CHR 0xE2, CHR 0x86, CHR 0x92] @ '' Spamhaus-Listing (unbekannter Subtyp)'')))
      else if (contains p ''barracuda'') then (ipText @ ('' '' @ [CHR 0xE2, CHR 0x86, CHR 0x92] @ '' Barracuda BRBL: Spam-Reputationstreffer''))
      else if (contains p ''spamcop'') then (ipText @ ('' '' @ [CHR 0xE2, CHR 0x86, CHR 0x92] @ '' SpamCop: von Nutzern gemeldete Spam-IP''))
      else if (contains p ''dronebl'') then (if ipText = ''127.0.0.3'' then (ipText @ ('' '' @ [CHR 0xE2, CHR 0x86, CHR 0x92] @ '' IRC-Drone''))
      else if ipText = ''127.0.0.5'' then (ipText @ ('' '' @ [CHR 0xE2, CHR 0x86, CHR 0x92] @ '' Bottrap''))
      else if ipText = ''127.0.0.6'' then (ipText @ ('' '' @ [CHR 0xE2, CHR 0x86, CHR 0x92] @ '' IRC-Spam-Bot''))
      else if ipText = ''127.0.0.7'' then (ipText @ ('' '' @ [CHR 0xE2, CHR 0x86, CHR 0x92] @ '' HTTP-Proxy (Open Proxy)''))
      else if ipText = ''127.0.0.8'' then (ipText @ ('' '' @ [CHR 0xE2, CHR 0x86, CHR 0x92] @ '' SOCKS-Proxy (Open Proxy)''))
      else if ipText = ''127.0.0.9'' then (ipText @ ('' '' @ [CHR 0xE2, CHR 0x86, CHR 0x92] @ '' Proxy-Chain''))
      else if ipText = ''127.0.0.13'' then (ipText @ ('' '' @ [CHR 0xE2, CHR 0x86, CHR 0x92] @ '' Brute-Force-Angreifer''))
      else if ipText = ''127.0.0.14'' then (ipText @ ('' '' @ [CHR 0xE2, CHR 0x86, CHR 0x92] @ '' Open Resolver (missbraucht f'' @ [CHR 0xC3, CHR 0xBC] @ ''r DDoS)''))
      else if ipText = ''127.0.0.17'' then (ipText @ ('' '' @ [CHR 0xE2, CHR 0x86, CHR 0x92] @ '' Automatischer E-Mail-Angriff''))
      else if ipText = ''127.0.0.255'' then (ipText @ ('' '' @ [CHR 0xE2, CHR 0x86, CHR 0x92] @ '' Manuell gelistet''))
      else (ipText @ ('' '' @ [CHR 0xE2, CHR 0x86, CHR 0x92] @ '' DroneBL-Listing'')))
      else ipText)"

definition rblResponseMeaning :: "gostring \<Rightarrow> gostring list \<Rightarrow> gostring" where
  "rblResponseMeaning provider ips = join '', '' (map (response_meaning (to_lower provider)) ips)"

record rblProvider =
  RName :: gostring
  RDescription :: gostring
  RDelistURL :: gostring
  RDelisting :: gostring

definition rblProviderMeta :: "gostring \<Rightarrow> gostring \<Rightarrow> rblProvider" where
  "rblProviderMeta provider ipText =
     (let p = (to_lower (trim_space provider)) in (if p \<in> {''zen.spamhaus.org'', ''sbl.spamhaus.org'', ''xbl.spamhaus.org'', ''pbl.spamhaus.org'', ''sbl-xbl.spamhaus.org'', ''dbl.spamhaus.org''} then \<lparr>RName = ''Spamhaus'', RDescription = (''Spamhaus betreibt die weltweit meistgenutzten DNSBLs. ZEN kombiniert SBL (bekannte Spam-Quellen), XBL (Exploits/Botnets) und PBL (Policy-Liste f'' @ [CHR 0xC3, CHR 0xBC] @ ''r dynamische IPs). Ein Spamhaus-Listing f'' @ [CHR 0xC3, CHR 0xBC] @ ''hrt bei Gmail, Outlook, Yahoo und den meisten Enterprise-Gateways direkt zur Ablehnung. Antwort-Codes: 127.0.0.2=SBL, 127.0.0.3=SBL-CSS, 127.0.0.4=XBL, 127.0.0.10/11=PBL. Code 127.255.255.254 bedeutet Query-Verweigerung (kein echtes Listing).''), RDelistURL = ''https://check.spamhaus.org/'', RDelisting = (''Spamhaus Reputation Checker '' @ [CHR 0xC3, CHR 0xB6] @ ''ffnen, IP/Domain pr'' @ [CHR 0xC3, CHR 0xBC] @ ''fen und die angezeigte Liste beachten. Bei SBL muss in der Regel der ISP/Provider das Abuse-Problem best'' @ [CHR 0xC3, CHR 0xA4] @ ''tigt beheben und die Entfernung ansto'' @ [CHR 0xC3, CHR 0x9F] @ ''en; bei XBL/CSS erst Malware, Proxy oder kompromittierte Accounts entfernen; bei PBL nur delisten, wenn die IP wirklich ein legitimer Mailserver ist.'')\<rparr>
      else if p = ''bl.spamcop.net'' then \<lparr>RName = ''SpamCop Blocking List'', RDescription = (''SpamCop listet IPs, von denen Nutzer aktiv Spam gemeldet haben. Das Listing ist zeitbasiert und l'' @ [CHR 0xC3, CHR 0xA4] @ ''uft automatisch aus, wenn keine neuen Meldungen eingehen. Wird von vielen ISPs und selbst betriebenen Mailservern genutzt. Eher ein Warnsignal als ein hartes Blockierungswerkzeug.''), RDelistURL = ''https://www.spamcop.net/bl.shtml'', RDelisting = (''SpamCop ist zeitbasiert. Es gibt normalerweise kein manuelles Express-Delisting; nach Ende neuer Spam-Reports l'' @ [CHR 0xC3, CHR 0xA4] @ ''uft das Listing automatisch aus. Pr'' @ [CHR 0xC3, CHR 0xBC] @ ''fe SpamCop-Reports, kompromittierte Accounts, offene Relays, infizierte Hosts und fehlgeleitete Bounces.'')\<rparr>
      else if p \<in> {''b.barracudacentral.org'', ''bb.barracudacentral.org''} then \<lparr>RName = ''Barracuda Reputation Block List'', RDescription = (''Barracuda BRBL listet IPs mit schlechter Versandreputation basierend auf Spam-Beschwerden und Spam-Trap-Treffern. Wird von Barracuda-Gateways in Unternehmen weit verbreitet eingesetzt. Ein Listing kann direkte Ablehnungen bei Unternehmensempf'' @ [CHR 0xC3, CHR 0xA4] @ ''ngern verursachen. Delisting ist kostenlos '' @ [CHR 0xC3, CHR 0xBC] @ ''ber das Webformular m'' @ [CHR 0xC3, CHR 0xB6] @ ''glich.''), RDelistURL = ''https://www.barracudacentral.org/rbl/removal-request'', RDelisting = (''Barracuda Removal Request mit IP, Kontaktadresse, Telefonnummer und nachvollziehbarer Ursache einreichen. Vorher Spamquelle stoppen, Queue pr'' @ [CHR 0xC3, CHR 0xBC] @ ''fen und erkl'' @ [CHR 0xC3, CHR 0xA4] @ ''ren, was konkret behoben wurde; Mehrfachanfragen ohne neue Informationen vermeiden.'')\<rparr>
      else if p = ''psbl.surriel.com'' then \<lparr>RName = ''Passive Spam Block List'', RDescription = (''PSBL ist eine passive Liste '' @ [CHR 0xE2, CHR 0x80, CHR 0x94] @ '' sie listet IPs, die Spam-Traps getroffen haben, ohne aktive Nutzer-Reports. Wird von kleineren Mailservern und einigen ISPs genutzt. Delisting ist self-service. Ein Listing deutet oft auf alte oder gekaufte Empf'' @ [CHR 0xC3, CHR 0xA4] @ ''ngerlisten hin.''), RDelistURL = ''https://www.psbl.org/remove'', RDelisting = (''PSBL-Remove-Seite mit der IP nutzen. PSBL listet typischerweise Spamtrap-Treffer; vor Delisting Listenherkunft, Empf'' @ [CHR 0xC3, CHR 0xA4] @ ''ngerlisten, kompromittierte Accounts und ungewollte Direktzustellung pr'' @ [CHR 0xC3, CHR 0xBC] @ ''fen. Removal ist self-service, DNS-Propagation kann dauern.'')\<rparr>
      else if p = ''dnsbl.dronebl.org'' then \<lparr>RName = ''DroneBL'', RDescription = (''DroneBL listet IPs die als offene Proxies, Botnets, IRC-Dronen oder Angreifer bekannt sind. Wird vor allem in IRC-Netzwerken und von selbst betriebenen Mailservern genutzt. Ein Listing deutet auf kompromittierte Infrastruktur oder Malware-Aktivit'' @ [CHR 0xC3, CHR 0xA4] @ ''t hin. Antwort-Codes zeigen den genauen Typ (Proxy, Bot, Brute-Force etc.).''), RDelistURL = ''https://www.dronebl.org/lookup'', RDelisting = (''DroneBL-Lookup ausf'' @ [CHR 0xC3, CHR 0xBC] @ ''hren und den dort angezeigten Instruktionen folgen. H'' @ [CHR 0xC3, CHR 0xA4] @ ''ufige Ursachen sind offene Proxies, Botnet-/Malware-Verkehr oder kompromittierte Hosts; diese Ursache muss vor dem Delisting beseitigt sein.'')\<rparr>
      else if p = ''bl.blocklist.de'' then \<lparr>RName = ''blocklist.de'', RDescription = (''blocklist.de ist eine deutschsprachige DNSBL die IPs listet, die durch Brute-Force-Angriffe (SSH, FTP, SMTP, HTTP) oder Spam auff'' @ [CHR 0xC3, CHR 0xA4] @ ''llig geworden sind. Daten kommen aus Fail2Ban-Reports von teilnehmenden Servern. Listings laufen automatisch aus, k'' @ [CHR 0xC3, CHR 0xB6] @ ''nnen aber vorzeitig '' @ [CHR 0xC3, CHR 0xBC] @ ''ber das Delist-Formular entfernt werden.''), RDelistURL = (''https://www.blocklist.de/en/delist.html?ip='' @ ((QueryEscape) ipText)), RDelisting = (''blocklist.de delistet Angreifer-IP-Adressen nach Behebung vorzeitig '' @ [CHR 0xC3, CHR 0xBC] @ ''ber die Delist-Seite; sonst l'' @ [CHR 0xC3, CHR 0xA4] @ ''uft das Listing typischerweise automatisch aus. Vorher Logins, SSH/FTP/Web-/Mail-Bruteforce, kompromittierte Dienste und Fail2Ban-Meldungen pr'' @ [CHR 0xC3, CHR 0xBC] @ ''fen.'')\<rparr>
      else if p = ''cbl.abuseat.org'' then \<lparr>RName = ''Composite Blocking List'', RDescription = (''CBL listet IPs die durch Spam, offene Proxies oder Botnet-Aktivit'' @ [CHR 0xC3, CHR 0xA4] @ ''t auff'' @ [CHR 0xC3, CHR 0xA4] @ ''llig geworden sind. Wird von Spamhaus XBL als Datenquelle genutzt '' @ [CHR 0xE2, CHR 0x80, CHR 0x94] @ '' ein CBL-Listing f'' @ [CHR 0xC3, CHR 0xBC] @ ''hrt daher oft auch zu einem XBL-Listing. Automatisches Delisting nach Behebung der Ursache.''), RDelistURL = (''https://www.abuseat.org/lookup.cgi?ip='' @ ((QueryEscape) ipText)), RDelisting = (''CBL-Lookup mit der IP '' @ [CHR 0xC3, CHR 0xB6] @ ''ffnen, Ursache lesen und erst nach Beseitigung von Malware, Proxy, Botnet-Verkehr oder kompromittierten SMTP-Zugangsdaten delisten.'')\<rparr>
      else \<lparr>RName = ''DNSBL'', RDescription = (''Diese DNSBL-Liste listet IPs basierend auf eigenem Regelwerk. Pr'' @ [CHR 0xC3, CHR 0xBC] @ ''fe die Dokumentation des Providers f'' @ [CHR 0xC3, CHR 0xBC] @ ''r Details zu Listungskriterien und Delisting-Prozess.''), RDelistURL = (''https://'' @ provider), RDelisting = (''Provider-Dokumentation der DNSBL '' @ [CHR 0xC3, CHR 0xB6] @ ''ffnen, Listinggrund pr'' @ [CHR 0xC3, CHR 0xBC] @ ''fen, Ursache technisch beheben und erst danach eine Entfernung beantragen. Falls keine Delisting-Seite existiert, Abuse-Kontakt des Providers oder automatische Expiry-Regeln beachten.'')\<rparr>))"

subsection \<open>Rspamd symbols\<close>

definition symbol_texts :: "(gostring list \<times> gostring) list" where
  "symbol_texts =
     [([''DMARC_POLICY_ALLOW'', ''DMARC_POLICY_ALLOW_WITH_FAILURES''], (''DMARC-Pr'' @ [CHR 0xC3, CHR 0xBC] @ ''fung bestanden. SPF oder DKIM ist aligned mit der sichtbaren From-Domain. '' @ [CHR 0xE2, CHR 0x86, CHR 0x92] @ '' Positiv: Kein Handlungsbedarf.'')),
      ([''DMARC_POLICY_REJECT''], (''DMARC-Policy ist '' @ [CHR 0x27] @ ''reject'' @ [CHR 0x27] @ '' und die Mail scheitert am DMARC-Check. '' @ [CHR 0xE2, CHR 0x86, CHR 0x92] @ '' Kritisch: Empf'' @ [CHR 0xC3, CHR 0xA4] @ ''nger-Server wird die Mail ablehnen. SPF und DKIM pr'' @ [CHR 0xC3, CHR 0xBC] @ ''fen, sicherstellen dass mindestens einer aligned besteht.'')),
      ([''DMARC_POLICY_QUARANTINE''], (''DMARC-Policy ist '' @ [CHR 0x27] @ ''quarantine'' @ [CHR 0x27] @ '' und die Mail schl'' @ [CHR 0xC3, CHR 0xA4] @ ''gt den Check fehl. '' @ [CHR 0xE2, CHR 0x86, CHR 0x92] @ '' Hoch: Mail landet wahrscheinlich im Spam-Ordner. SPF/DKIM-Alignment korrigieren, DMARC-Policy erst auf '' @ [CHR 0x27] @ ''none'' @ [CHR 0x27] @ '' mit Reporting testen.'')),
      ([''DMARC_POLICY_SOFTFAIL''], (''DMARC ergibt Soft Fail: Authentifizierung ist nicht vollst'' @ [CHR 0xC3, CHR 0xA4] @ ''ndig aligned. '' @ [CHR 0xE2, CHR 0x86, CHR 0x92] @ '' Mittel: Bei strengen Providern negative Auswirkung. Alignment von SPF (Envelope-From) oder DKIM (d=-Tag) zur sichtbaren From-Domain pr'' @ [CHR 0xC3, CHR 0xBC] @ ''fen.'')),
      ([''DMARC_NA''], (''Kein DMARC-Record f'' @ [CHR 0xC3, CHR 0xBC] @ ''r die From-Domain. DMARC ist nicht konfiguriert. '' @ [CHR 0xE2, CHR 0x86, CHR 0x92] @ '' Hoch: Die Domain kann von Dritten f'' @ [CHR 0xC3, CHR 0xBC] @ ''r Phishing/Spoofing missbraucht werden. Mindestens _dmarc.<domain> TXT mit p=none einrichten und Reporting aktivieren.'')),
      ([''R_DKIM_ALLOW'', ''DKIM_ALLOW''], (''DKIM-Signatur vorhanden und g'' @ [CHR 0xC3, CHR 0xBC] @ ''ltig. Privater Schl'' @ [CHR 0xC3, CHR 0xBC] @ ''ssel stimmt mit dem DNS-Record '' @ [CHR 0xC3, CHR 0xBC] @ ''berein. '' @ [CHR 0xE2, CHR 0x86, CHR 0x92] @ '' Positiv: Kein Handlungsbedarf; pr'' @ [CHR 0xC3, CHR 0xBC] @ ''fen ob d=-Domain auch zur From-Domain passt (Alignment).'')),
      ([''R_DKIM_REJECT'', ''DKIM_REJECT''], (''DKIM-Signatur ung'' @ [CHR 0xC3, CHR 0xBC] @ ''ltig oder manipuliert. Verifizierung fehlgeschlagen. '' @ [CHR 0xE2, CHR 0x86, CHR 0x92] @ '' Kritisch: Mail verliert Vertrauensbonus, DMARC kann scheitern. M'' @ [CHR 0xC3, CHR 0xB6] @ ''gliche Ursachen: Mail nach dem Signieren ver'' @ [CHR 0xC3, CHR 0xA4] @ ''ndert, falscher Selector, abgelaufener DNS-Key. Selector und DNS-Record pr'' @ [CHR 0xC3, CHR 0xBC] @ ''fen.'')),
      ([''R_DKIM_TEMPFAIL'', ''DKIM_TEMPFAIL''], (''DKIM-Pr'' @ [CHR 0xC3, CHR 0xBC] @ ''fung tempor'' @ [CHR 0xC3, CHR 0xA4] @ ''r fehlgeschlagen (DNS-Timeout bei der Schl'' @ [CHR 0xC3, CHR 0xBC] @ ''sselabfrage). '' @ [CHR 0xE2, CHR 0x86, CHR 0x92] @ '' Gering: Kein dauerhaftes Problem, aber kein Vertrauensbonus f'' @ [CHR 0xC3, CHR 0xBC] @ ''r diese Zustellung. DNS-Erreichbarkeit des Signing-Selectors pr'' @ [CHR 0xC3, CHR 0xBC] @ ''fen.'')),
      ([''R_DKIM_NA'', ''DKIM_NA''], (''Keine DKIM-Signatur in der Mail. DKIM ist am Absender-MTA nicht konfiguriert. '' @ [CHR 0xE2, CHR 0x86, CHR 0x92] @ '' Hoch: Ohne DKIM kann DMARC nur '' @ [CHR 0xC3, CHR 0xBC] @ ''ber SPF bestehen; viele Provider werten fehlende DKIM-Signatur negativ. DKIM-Signing im ausgehenden MTA (Postfix: OpenDKIM/Rspamd, Exim: built-in) aktivieren.'')),
      ([''R_SPF_ALLOW'', ''SPF_ALLOW''], (''SPF-Pr'' @ [CHR 0xC3, CHR 0xBC] @ ''fung bestanden. Die sendende IP ist im SPF-Record der Envelope-From-Domain autorisiert. '' @ [CHR 0xE2, CHR 0x86, CHR 0x92] @ '' Positiv: Kein Handlungsbedarf; sicherstellen dass SPF-Domain auch zur From-Domain passt (Alignment f'' @ [CHR 0xC3, CHR 0xBC] @ ''r DMARC).'')),
      ([''R_SPF_FAIL'', ''SPF_FAIL''], (''SPF Hard Fail. Die sendende IP ist explizit nicht autorisiert (-all im SPF-Record). '' @ [CHR 0xE2, CHR 0x86, CHR 0x92] @ '' Kritisch: Empf'' @ [CHR 0xC3, CHR 0xA4] @ ''nger sollten diese Mail ablehnen. Entweder die IP zum SPF-Record hinzuf'' @ [CHR 0xC3, CHR 0xBC] @ ''gen oder den MTA so konfigurieren, dass er '' @ [CHR 0xC3, CHR 0xBC] @ ''ber eine autorisierte IP sendet.'')),
      ([''R_SPF_SOFTFAIL'', ''SPF_SOFTFAIL''], (''SPF Soft Fail (~all). Die sendende IP ist nicht autorisiert, aber keine harte Ablehnung. '' @ [CHR 0xE2, CHR 0x86, CHR 0x92] @ '' Mittel: Wird oft als Warnung behandelt, erh'' @ [CHR 0xC3, CHR 0xB6] @ ''ht Spam-Score. Sendende IP in den SPF-Record aufnehmen (include:, ip4:, ip6:).'')),
      ([''R_SPF_NEUTRAL'', ''SPF_NEUTRAL''], (''SPF Neutral (? Qualifier). Der Record trifft keine Aussage '' @ [CHR 0xC3, CHR 0xBC] @ ''ber diese IP. '' @ [CHR 0xE2, CHR 0x86, CHR 0x92] @ '' Gering: Kein positiver oder negativer Einfluss auf DMARC. SPF-Record so anpassen, dass autorisierte IPs explizit erlaubt sind.'')),
      ([''R_SPF_NA'', ''SPF_NA''], (''Kein SPF-Record f'' @ [CHR 0xC3, CHR 0xBC] @ ''r die Envelope-From-Domain. SPF ist nicht konfiguriert. '' @ [CHR 0xE2, CHR 0x86, CHR 0x92] @ '' Hoch: Ohne SPF verliert die Domain Vertrauenspunkte und DMARC kann SPF nicht nutzen. TXT-Record v=spf1 auf der Envelope-From-Domain setzen.'')),
      ([''R_SPF_DNSFAIL'', ''SPF_DNSFAIL''], (''SPF-Pr'' @ [CHR 0xC3, CHR 0xBC] @ ''fung wegen DNS-Fehler nicht abgeschlossen. '' @ [CHR 0xE2, CHR 0x86, CHR 0x92] @ '' Gering bis mittel: Tempor'' @ [CHR 0xC3, CHR 0xA4] @ ''res Problem; bei Wiederholung DNS-Erreichbarkeit und SPF-Record-Syntax pr'' @ [CHR 0xC3, CHR 0xBC] @ ''fen (zu viele DNS-Lookups, >10, k'' @ [CHR 0xC3, CHR 0xB6] @ ''nnen SPF brechen).'')),
      ([''ARC_ALLOW''], (''ARC-Chain (Authenticated Received Chain) ist g'' @ [CHR 0xC3, CHR 0xBC] @ ''ltig. '' @ [CHR 0xE2, CHR 0x86, CHR 0x92] @ '' Positiv: Weitergeleitete Mail mit intaktem Auth-Nachweis; hilft Empf'' @ [CHR 0xC3, CHR 0xA4] @ ''ngern korrekte Bewertung trotz Weiterleitung. Kein Handlungsbedarf.'')),
      ([''ARC_INVALID''], (''ARC-Chain vorhanden, aber ung'' @ [CHR 0xC3, CHR 0xBC] @ ''ltig. '' @ [CHR 0xE2, CHR 0x86, CHR 0x92] @ '' Mittel: M'' @ [CHR 0xC3, CHR 0xB6] @ ''gliche Manipulation nach Weiterleitung oder fehlerhafter ARC-Seal. Weiterleitenden Mailserver pr'' @ [CHR 0xC3, CHR 0xBC] @ ''fen.'')),
      ([''ARC_NA''], (''Keine ARC-Header. Mail wurde nicht weitergeleitet oder ARC nicht genutzt. '' @ [CHR 0xE2, CHR 0x86, CHR 0x92] @ '' Neutral f'' @ [CHR 0xC3, CHR 0xBC] @ ''r direkt versendete Mails. Bei Weiterleitungs-Problemen: ARC im weiterleitenden Mailserver aktivieren.'')),
      ([''RCVD_IN_DNSWL_NONE''], (''IP steht auf keiner DNSWL-Whitelist. Kein Vertrauensbonus. '' @ [CHR 0xE2, CHR 0x86, CHR 0x92] @ '' Neutral: Normal f'' @ [CHR 0xC3, CHR 0xBC] @ ''r neue oder kleine Sender. Mit der Zeit durch konsistentes sauberes Versenden Reputation aufbauen.'')),
      ([''RCVD_IN_DNSWL_LOW''], (''IP auf DNSWL als Low-Trust gelistet. Geringe positive Reputation. '' @ [CHR 0xE2, CHR 0x86, CHR 0x92] @ '' Leicht positiv: Zeigt, dass die IP als legitimer Sender bekannt ist.'')),
      ([''RCVD_IN_DNSWL_MED''], (''IP auf DNSWL als Medium-Trust gelistet (z. B. bekannte Mailinglisten-Server). '' @ [CHR 0xE2, CHR 0x86, CHR 0x92] @ '' Positiv: Gute Reputation; kein Handlungsbedarf.'')),
      ([''RCVD_IN_DNSWL_HI''], (''IP auf DNSWL als High-Trust gelistet (gro'' @ [CHR 0xC3, CHR 0x9F] @ ''e Provider wie Gmail, Outlook, Fastmail). '' @ [CHR 0xE2, CHR 0x86, CHR 0x92] @ '' Sehr positiv: Beste erreichbare Whitelist-Kategorie; kein Handlungsbedarf.'')),
      ([''RCVD_IN_MSPIKE_H2''], (''IP hat gute Reputation in der Mimecast/MSPIKE-Datenbank (Level H2). '' @ [CHR 0xE2, CHR 0x86, CHR 0x92] @ '' Positiv: Kein Handlungsbedarf.'')),
      ([''RCVD_IN_MSPIKE_H3'', ''RCVD_IN_MSPIKE_H4'', ''RCVD_IN_MSPIKE_H5''], (''IP hat sehr gute Reputation in der Mimecast/MSPIKE-Datenbank. '' @ [CHR 0xE2, CHR 0x86, CHR 0x92] @ '' Sehr positiv: Kein Handlungsbedarf.'')),
      ([''RCVD_IN_MSPIKE_L4'', ''RCVD_IN_MSPIKE_L5''], (''IP hat schlechte Reputation in der Mimecast/MSPIKE-Datenbank. '' @ [CHR 0xE2, CHR 0x86, CHR 0x92] @ '' Hoch: Spam-Risiko erh'' @ [CHR 0xC3, CHR 0xB6] @ ''ht. Ursache f'' @ [CHR 0xC3, CHR 0xBC] @ ''r schlechte Reputation finden (Spam-Beschwerden, abrupte Volumen'' @ [CHR 0xC3, CHR 0xA4] @ ''nderungen) und beheben; Delisting unter https://www.barracudacentral.org/ beantragen.'')),
      ([''RCVD_IN_SBL'', ''RCVD_IN_SBL_CSS''], (''IP auf Spamhaus SBL (Spam Block List) gelistet '' @ [CHR 0xE2, CHR 0x80, CHR 0x93] @ '' direkt mit Spam-Quellen assoziiert. '' @ [CHR 0xE2, CHR 0x86, CHR 0x92] @ '' Kritisch: F'' @ [CHR 0xC3, CHR 0xBC] @ ''hrt bei den meisten gro'' @ [CHR 0xC3, CHR 0x9F] @ ''en Providern zur direkten Ablehnung. Ursache stoppen (offenes Relay, Malware, Spam-Kampagne), dann Delisting unter https://check.spamhaus.org/ beantragen.'')),
      ([''RCVD_IN_XBL''], (''IP auf Spamhaus XBL (Exploits Block List) gelistet '' @ [CHR 0xE2, CHR 0x80, CHR 0x93] @ '' Botnet, Proxy oder kompromittierter Host. '' @ [CHR 0xE2, CHR 0x86, CHR 0x92] @ '' Kritisch: System auf Malware/Botnet pr'' @ [CHR 0xC3, CHR 0xBC] @ ''fen, Ports scannen, Passw'' @ [CHR 0xC3, CHR 0xB6] @ ''rter '' @ [CHR 0xC3, CHR 0xA4] @ ''ndern. Erst nach Bereinigung Delisting unter https://check.spamhaus.org/ beantragen.'')),
      ([''RCVD_IN_PBL''], (''IP auf Spamhaus PBL (Policy Block List) gelistet '' @ [CHR 0xE2, CHR 0x80, CHR 0x93] @ '' typischerweise dynamische/Consumer-IP ohne Mailserver-Berechtigung. '' @ [CHR 0xE2, CHR 0x86, CHR 0x92] @ '' Hoch: E-Mail sollte '' @ [CHR 0xC3, CHR 0xBC] @ ''ber einen dedizierten Mailserver mit statischer IP gesendet werden; Consumer-IPs sind f'' @ [CHR 0xC3, CHR 0xBC] @ ''r direkten Mailversand nicht geeignet.'')),
      ([''RCVD_IN_ZEN''], (''IP auf Spamhaus ZEN gelistet (kombinierte SBL/XBL/PBL-Datenbank). '' @ [CHR 0xE2, CHR 0x86, CHR 0x92] @ '' Kritisch: Schwerwiegendes Spam-Signal; f'' @ [CHR 0xC3, CHR 0xBC] @ ''hrt bei fast allen Providern zur Ablehnung. Zuerst pr'' @ [CHR 0xC3, CHR 0xBC] @ ''fen welche Subliste zutrifft (SBL/XBL/PBL), dann gezielt beheben und Delisting beantragen.'')),
      ([''RCVD_IN_RP_CERTIFIED''], (''IP ist Return Path Certified '' @ [CHR 0xE2, CHR 0x80, CHR 0x93] @ '' seri'' @ [CHR 0xC3, CHR 0xB6] @ ''se ESPs mit strengen Versandstandards. '' @ [CHR 0xE2, CHR 0x86, CHR 0x92] @ '' Positiv: Kein Handlungsbedarf; Vorteil durch bessere Posteingang-Platzierung bei Unterst'' @ [CHR 0xC3, CHR 0xBC] @ ''tzern.'')),
      ([''MISSING_DATE''], (''Kein Date-Header. RFC 5322 schreibt ihn vor. '' @ [CHR 0xE2, CHR 0x86, CHR 0x92] @ '' Hoch: Deutet auf fehlkonfigurierten MTA hin; erh'' @ [CHR 0xC3, CHR 0xB6] @ ''ht Spam-Score deutlich. MTA so konfigurieren, dass er Date-Header automatisch setzt.'')),
      ([''MISSING_FROM''], (''Kein From-Header. RFC-Pflichtfeld. '' @ [CHR 0xE2, CHR 0x86, CHR 0x92] @ '' Kritisch: Ohne From-Header wird die Mail von praktisch allen Filtern abgelehnt. Versandsoftware pr'' @ [CHR 0xC3, CHR 0xBC] @ ''fen.'')),
      ([''MISSING_MID'', ''MISSING_MESSAGE_ID''], (''Keine Message-ID. RFC-Pflichtfeld. '' @ [CHR 0xE2, CHR 0x86, CHR 0x92] @ '' Hoch: Beeintr'' @ [CHR 0xC3, CHR 0xA4] @ ''chtigt Threading in Mailclients und erh'' @ [CHR 0xC3, CHR 0xB6] @ ''ht Spam-Score. MTA so konfigurieren, dass er eine eindeutige Message-ID erzeugt (Format: <uuid@domain>).'')),
      ([''MISSING_MIME_VERSION''], (''Kein MIME-Version-Header. Bei HTML-Mails Pflicht. '' @ [CHR 0xE2, CHR 0x86, CHR 0x92] @ '' Mittel: Deutet auf schlechte MIME-Konstruktion hin; Header '' @ [CHR 0x27] @ ''MIME-Version: 1.0'' @ [CHR 0x27] @ '' zur Mail hinzuf'' @ [CHR 0xC3, CHR 0xBC] @ ''gen.'')),
      ([''MISSING_SUBJECT''], (''Kein Subject-Header. '' @ [CHR 0xE2, CHR 0x86, CHR 0x92] @ '' Hoch: Erh'' @ [CHR 0xC3, CHR 0xB6] @ ''ht Spam-Score deutlich; kein legitimer MTA l'' @ [CHR 0xC3, CHR 0xA4] @ ''sst den Betreff weg. Betreff im Mailtemplate oder MTA-Konfiguration setzt den Subject-Header.'')),
      ([''MISSING_TO''], (''Kein To-Header. RFC-Pflicht. '' @ [CHR 0xE2, CHR 0x86, CHR 0x92] @ '' Hoch: Das Fehlen weist auf Massenversand ohne korrekten Envelope hin; To-Header in der Mail setzen.'')),
      ([''INVALID_DATE''], (''Date-Header-Datum ist ung'' @ [CHR 0xC3, CHR 0xBC] @ ''ltig oder liegt stark in Vergangenheit/Zukunft. '' @ [CHR 0xE2, CHR 0x86, CHR 0x92] @ '' Mittel: Serverzeit pr'' @ [CHR 0xC3, CHR 0xBC] @ ''fen (NTP), MTA-Konfiguration f'' @ [CHR 0xC3, CHR 0xBC] @ ''r Date-Header kontrollieren.'')),
      ([''DATE_IN_FUTURE''], (''Datum liegt in der Zukunft. '' @ [CHR 0xE2, CHR 0x86, CHR 0x92] @ '' Mittel: Falsch gestellte Serverzeit oder manipulierter Header. NTP-Synchronisation pr'' @ [CHR 0xC3, CHR 0xBC] @ ''fen.'')),
      ([''DATE_IN_PAST''], (''Datum liegt weit in der Vergangenheit. '' @ [CHR 0xE2, CHR 0x86, CHR 0x92] @ '' Mittel: Falsch gestellte Serverzeit oder lange Queue-Verz'' @ [CHR 0xC3, CHR 0xB6] @ ''gerung. NTP und Mail-Queue-Status pr'' @ [CHR 0xC3, CHR 0xBC] @ ''fen.'')),
      ([''MIME_HTML_ONLY''], (''Mail enth'' @ [CHR 0xC3, CHR 0xA4] @ ''lt nur HTML ohne text/plain-Alternative. '' @ [CHR 0xE2, CHR 0x86, CHR 0x92] @ '' Mittel: Erh'' @ [CHR 0xC3, CHR 0xB6] @ ''ht Spam-Score; Plaintext-Part empfohlen. Mailtemplate so anpassen, dass multipart/alternative mit text/plain und text/html gesendet wird.'')),
      ([''MIME_GOOD''], (''MIME-Struktur korrekt (multipart/alternative mit text/plain und text/html). '' @ [CHR 0xE2, CHR 0x86, CHR 0x92] @ '' Positiv: Kein Handlungsbedarf.'')),
      ([''MIME_HTML_NO_TEXT''], (''HTML-Part vorhanden, aber kein lesbarer Textinhalt extrahierbar. '' @ [CHR 0xE2, CHR 0x86, CHR 0x92] @ '' Mittel: M'' @ [CHR 0xC3, CHR 0xB6] @ ''glicherweise bild-lastiger Aufbau; mehr sichtbaren Text in den HTML-Part aufnehmen.'')),
      ([''MIME_BAD_UNICODE''], (''Ung'' @ [CHR 0xC3, CHR 0xBC] @ ''ltige Unicode-Zeichen im Inhalt. '' @ [CHR 0xE2, CHR 0x86, CHR 0x92] @ '' Mittel: Kann auf Encoding-Fehler oder Obfuskation hinweisen. Charset-Deklaration und Encoding-Konvertierung im Mailtemplate pr'' @ [CHR 0xC3, CHR 0xBC] @ ''fen.'')),
      ([''MIME_BASE64_TEXT''], (''Textteil ist base64-kodiert. Ungew'' @ [CHR 0xC3, CHR 0xB6] @ ''hnlich. '' @ [CHR 0xE2, CHR 0x86, CHR 0x92] @ '' Gering bis mittel: Einige Filter bewerten base64-kodierten Plaintext negativ. Textteil als quoted-printable oder plain-text senden.'')),
      ([''MIME_CHARSET_UNICODE''], (''Unicode-Charset (UTF-8/UTF-16) verwendet. '' @ [CHR 0xE2, CHR 0x86, CHR 0x92] @ '' Neutral: UTF-8 ist empfohlen; Charset korrekt im Content-Type angeben.'')),
      ([''HAS_ONLY_HTML_PART''], (''Nur HTML-Part, kein Plaintext. '' @ [CHR 0xE2, CHR 0x86, CHR 0x92] @ '' Mittel: H'' @ [CHR 0xC3, CHR 0xA4] @ ''ufiges Muster bei Marketing-Mails; Filter bewerten es negativ. Immer einen text/plain-Part mitschicken.'')),
      ([''HTTP_REDIRECTOR''], (''Link f'' @ [CHR 0xC3, CHR 0xBC] @ ''hrt '' @ [CHR 0xC3, CHR 0xBC] @ ''ber einen HTTP-Redirector. '' @ [CHR 0xE2, CHR 0x86, CHR 0x92] @ '' Mittel bis hoch: Verschleiert das eigentliche Ziel; Spam-Signal. Direkte HTTPS-URLs oder eigene Tracking-Domain verwenden.'')),
      ([''R_SUSPICIOUS_URL''], (''Verd'' @ [CHR 0xC3, CHR 0xA4] @ ''chtige URL erkannt '' @ [CHR 0xE2, CHR 0x80, CHR 0x93] @ '' Muster '' @ [CHR 0xC3, CHR 0xA4] @ ''hnelt bekannten Phishing- oder Spam-Domains. '' @ [CHR 0xE2, CHR 0x86, CHR 0x92] @ '' Hoch: Alle Links im Mailtemplate auf verd'' @ [CHR 0xC3, CHR 0xA4] @ ''chtige Domains oder Muster pr'' @ [CHR 0xC3, CHR 0xBC] @ ''fen.'')),
      ([''URIBL_BLOCKED''], (''URL-Abfrage durch URIBL geblockt (Abfrage-Limit erreicht). '' @ [CHR 0xE2, CHR 0x86, CHR 0x92] @ '' Neutral: Kein aussagekr'' @ [CHR 0xC3, CHR 0xA4] @ ''ftiger Befund; auf eigenen Rspamd-Servern eigene URIBL-API-Keys konfigurieren.'')),
      ([''URIBL_SBL''], (''URL-Domain auf Spamhaus SBL gelistet. '' @ [CHR 0xE2, CHR 0x86, CHR 0x92] @ '' Kritisch: Direkte Spam-Assoziation der verlinkten Domain. Die betroffene Domain aus dem Mailtemplate entfernen oder eine saubere Domain verwenden.'')),
      ([''URIBL_ZEN_URIBL''], (''URL-Domain auf Spamhaus ZEN URIBL gelistet. '' @ [CHR 0xE2, CHR 0x86, CHR 0x92] @ '' Kritisch: Stark mit Spam assoziierte Domain. Verlinkte Domain pr'' @ [CHR 0xC3, CHR 0xBC] @ ''fen und ersetzen.'')),
      ([''SURBL_ABUSE''], (''URL-Domain auf SURBL Abuse-Liste. '' @ [CHR 0xE2, CHR 0x86, CHR 0x92] @ '' Kritisch: Domain ist f'' @ [CHR 0xC3, CHR 0xBC] @ ''r Phishing oder Spam bekannt. Verlinkte Domain ersetzen; ggf. eigene Domain auf SURBL pr'' @ [CHR 0xC3, CHR 0xBC] @ ''fen und Delisting beantragen.'')),
      ([''SURBL_MULTI''], (''URL-Domain auf SURBL gelistet. '' @ [CHR 0xE2, CHR 0x86, CHR 0x92] @ '' Hoch: Kombinations-Check mehrerer SURBL-Listen; verlinkte Domain pr'' @ [CHR 0xC3, CHR 0xBC] @ ''fen und ggf. ersetzen.'')),
      ([''FROM_HAS_DN''], (''From enth'' @ [CHR 0xC3, CHR 0xA4] @ ''lt einen Anzeigenamen (Display Name). '' @ [CHR 0xE2, CHR 0x86, CHR 0x92] @ '' Neutral bis positiv: Normal f'' @ [CHR 0xC3, CHR 0xBC] @ ''r legitime Mails. Mismatch zwischen Anzeigename und Adresse ist aber ein Phishing-Signal; beides konsistent halten.'')),
      ([''FROM_NEQ_ENVFROM''], (''Header-From und Envelope-From (MAIL FROM) stimmen nicht '' @ [CHR 0xC3, CHR 0xBC] @ ''berein. '' @ [CHR 0xE2, CHR 0x86, CHR 0x92] @ '' Mittel: Kann legitim sein (ESP-Bounce-Domain), erh'' @ [CHR 0xC3, CHR 0xB6] @ ''ht aber Spam-Score. Bounce-Domain als Subdomain der From-Domain konfigurieren um SPF-Alignment zu erhalten.'')),
      ([''TO_MATCH_ENVRCPT_ALL''], (''Alle To-Adressen stimmen mit dem Envelope-Rcpt '' @ [CHR 0xC3, CHR 0xBC] @ ''berein. '' @ [CHR 0xE2, CHR 0x86, CHR 0x92] @ '' Positiv: Saubere Konfiguration; kein Handlungsbedarf.'')),
      ([''TO_MATCH_ENVRCPT_SOME''], (''Nur ein Teil der To-Adressen stimmt mit dem Envelope '' @ [CHR 0xC3, CHR 0xBC] @ ''berein. '' @ [CHR 0xE2, CHR 0x86, CHR 0x92] @ '' Gering: M'' @ [CHR 0xC3, CHR 0xB6] @ ''glicherweise BCC-Versand oder fehlkonfiguriert. Nur wenn Score negativ: Envelope-Empf'' @ [CHR 0xC3, CHR 0xA4] @ ''nger mit To-Header abstimmen.'')),
      ([''TO_DN_EQ_ADDR_FROM''], (''Anzeigename im To-Header stimmt mit der From-Adresse '' @ [CHR 0xC3, CHR 0xBC] @ ''berein. '' @ [CHR 0xE2, CHR 0x86, CHR 0x92] @ '' Gering: Ungew'' @ [CHR 0xC3, CHR 0xB6] @ ''hnlich, aber selten problematisch.'')),
      ([''REPLYTO_DN_EQ_FROM_DN''], (''Reply-To hat denselben Anzeigenamen wie From. '' @ [CHR 0xE2, CHR 0x86, CHR 0x92] @ '' Neutral: Harmlos wenn intentional.'')),
      ([''FORGED_SENDER''], (''Absender-Domain ist wahrscheinlich gef'' @ [CHR 0xC3, CHR 0xA4] @ ''lscht. '' @ [CHR 0xE2, CHR 0x86, CHR 0x92] @ '' Kritisch: Starkes Phishing-Signal; f'' @ [CHR 0xC3, CHR 0xBC] @ ''hrt oft zur direkten Ablehnung. SPF, DKIM und DMARC korrekt konfigurieren; die eigene Domain nicht in From-Adressen verwenden ohne korrekte Authentifizierung.'')),
      ([''FROM_EXCESS_BASE64''], (''From-Header ist unn'' @ [CHR 0xC3, CHR 0xB6] @ ''tig base64-kodiert. '' @ [CHR 0xE2, CHR 0x86, CHR 0x92] @ '' Mittel: Verschleierungs-Taktik oder Encoder-Fehler. From-Header als plain ASCII oder RFC 2047 encoded-word bei Sonderzeichen senden.'')),
      ([''BAYES_HAM''], (''Bayes-Klassifikator stuft die Mail als legitim (Ham) ein. Inhalt '' @ [CHR 0xC3, CHR 0xA4] @ ''hnelt bekannten Non-Spam-Mails. '' @ [CHR 0xE2, CHR 0x86, CHR 0x92] @ '' Positiv: Kein Handlungsbedarf; gut trainierter Bayes-Filter ist ein starkes positives Signal.'')),
      ([''BAYES_SPAM''], (''Bayes-Klassifikator stuft die Mail als Spam ein. Inhalt '' @ [CHR 0xC3, CHR 0xA4] @ ''hnelt bekannten Spam-Mustern. '' @ [CHR 0xE2, CHR 0x86, CHR 0x92] @ '' Hoch: Inhalt, Formulierungen und Struktur der Mail '' @ [CHR 0xC3, CHR 0xBC] @ ''berpr'' @ [CHR 0xC3, CHR 0xBC] @ ''fen. Spam-typische Phrasen ('' @ [CHR 0x27] @ ''Jetzt klicken!'' @ [CHR 0x27] @ '', '' @ [CHR 0x27] @ ''Angebot nur heute'' @ [CHR 0x27] @ '', etc.) vermeiden.'')),
      ([''NEURAL_HAM''], (''KI-Modell (neuronales Netz) klassifiziert die Mail als legitim. '' @ [CHR 0xE2, CHR 0x86, CHR 0x92] @ '' Positiv: Starkes positives Signal von Rspamd'' @ [CHR 0x27] @ ''s ML-Klassifikator; kein Handlungsbedarf.'')),
      ([''NEURAL_SPAM''], (''KI-Modell (neuronales Netz) klassifiziert die Mail als Spam. '' @ [CHR 0xE2, CHR 0x86, CHR 0x92] @ '' Hoch: Der ML-Klassifikator hat strukturelle oder inhaltliche '' @ [CHR 0xC3, CHR 0x84] @ ''hnlichkeit mit Spam erkannt. Inhalt, HTML-Struktur und Formulierungen '' @ [CHR 0xC3, CHR 0xBC] @ ''berarbeiten.'')),
      ([''ONCE_RECEIVED''], (''Nur ein Received-Header. Mail direkt zugestellt ohne Zwischenhop. '' @ [CHR 0xE2, CHR 0x86, CHR 0x92] @ '' Neutral bis positiv f'' @ [CHR 0xC3, CHR 0xBC] @ ''r einfache Infrastruktur; un'' @ [CHR 0xC3, CHR 0xBC] @ ''blich f'' @ [CHR 0xC3, CHR 0xBC] @ ''r komplexe Unternehmensinfrastruktur.'')),
      ([''TWO_RECEIVED''], (''Genau zwei Received-Header. Typisch bei direktem Versand '' @ [CHR 0xC3, CHR 0xBC] @ ''ber einen Relayhost. '' @ [CHR 0xE2, CHR 0x86, CHR 0x92] @ '' Neutral: Kein Handlungsbedarf.'')),
      ([''MULTIPLE_RECEIVED''], (''Viele Received-Header. Lange Routing-Kette. '' @ [CHR 0xE2, CHR 0x86, CHR 0x92] @ '' Neutral bei komplexer Infrastruktur; bei unerwartet vielen Hops Mail-Queue und Relay-Konfiguration pr'' @ [CHR 0xC3, CHR 0xBC] @ ''fen, um Loops auszuschlie'' @ [CHR 0xC3, CHR 0x9F] @ ''en.'')),
      ([''HELO_LOCALHOST''], (''HELO/EHLO ist '' @ [CHR 0x27] @ ''localhost'' @ [CHR 0x27] @ '' oder '' @ [CHR 0xC3, CHR 0xA4] @ ''hnlich. '' @ [CHR 0xE2, CHR 0x86, CHR 0x92] @ '' Kritisch: Fehlkonfigurierter MTA; fast alle Filter werten das stark negativ. myhostname in Postfix oder primary_hostname in Exim auf den echten FQDN des Servers setzen.'')),
      ([''HELO_NUMERIC''], (''HELO/EHLO ist eine IP-Adresse statt eines Hostnamens. '' @ [CHR 0xE2, CHR 0x86, CHR 0x92] @ '' Hoch: RFC-widrig; FQDN des Mailservers als HELO-Name konfigurieren.'')),
      ([''HELO_NORES_IP_1'', ''HELO_NORES_IP_2''], (''HELO-Name l'' @ [CHR 0xC3, CHR 0xB6] @ ''st nicht zur sendenden IP auf (kein Forward-confirmed rDNS). '' @ [CHR 0xE2, CHR 0x86, CHR 0x92] @ '' Hoch: PTR-Record f'' @ [CHR 0xC3, CHR 0xBC] @ ''r die sendende IP beim Hosting-Provider setzen und sicherstellen, dass der A-Record des HELO-Namens auf dieselbe IP zeigt.'')),
      ([''RCPT_COUNT_ONE''], (''Genau ein Empf'' @ [CHR 0xC3, CHR 0xA4] @ ''nger. '' @ [CHR 0xE2, CHR 0x86, CHR 0x92] @ '' Positiv f'' @ [CHR 0xC3, CHR 0xBC] @ ''r transaktionale Mails: Kein Handlungsbedarf.'')),
      ([''MX_INVALID''], (''MX-Record der Absender-Domain ist ung'' @ [CHR 0xC3, CHR 0xBC] @ ''ltig oder nicht aufl'' @ [CHR 0xC3, CHR 0xB6] @ ''sbar. '' @ [CHR 0xE2, CHR 0x86, CHR 0x92] @ '' Mittel: Bounces k'' @ [CHR 0xC3, CHR 0xB6] @ ''nnen nicht zugestellt werden; MX-Record und DNS-Aufl'' @ [CHR 0xC3, CHR 0xB6] @ ''sung pr'' @ [CHR 0xC3, CHR 0xBC] @ ''fen.'')),
      ([''MX_MISSING''], (''Kein MX-Record f'' @ [CHR 0xC3, CHR 0xBC] @ ''r die Absender-Domain. Bounce-Delivery nicht m'' @ [CHR 0xC3, CHR 0xB6] @ ''glich. '' @ [CHR 0xE2, CHR 0x86, CHR 0x92] @ '' Mittel: MX-Record setzen damit Bounces und DMARC-Reports zugestellt werden k'' @ [CHR 0xC3, CHR 0xB6] @ ''nnen.'')),
      ([''MAILLIST''], (''Mail zeigt Merkmale einer Mailinglisten-Nachricht (List-* Header). '' @ [CHR 0xE2, CHR 0x86, CHR 0x92] @ '' Neutral: ARC bei Weiterleitungen wichtig damit Auth-Ergebnisse erhalten bleiben.'')),
      ([''DMARC_DNSFAIL''], (''DMARC-Abfrage wegen DNS-Fehler nicht abgeschlossen. '' @ [CHR 0xE2, CHR 0x86, CHR 0x92] @ '' Gering: Tempor'' @ [CHR 0xC3, CHR 0xA4] @ ''res Problem; bei Wiederholung _dmarc-DNS-Record und Nameserver pr'' @ [CHR 0xC3, CHR 0xBC] @ ''fen.''))]"

definition symbol_family_text :: "gostring \<Rightarrow> gostring" where
  "symbol_family_text name =
     (if (has_prefix name ''DMARC_'') then (''DMARC-bezogenes Signal. Pr'' @ [CHR 0xC3, CHR 0xBC] @ ''ft das Alignment von SPF/DKIM mit der sichtbaren From-Domain. '' @ [CHR 0xE2, CHR 0x86, CHR 0x92] @ '' DMARC-Record unter _dmarc.<domain> pr'' @ [CHR 0xC3, CHR 0xBC] @ ''fen und sicherstellen, dass SPF oder DKIM aligned besteht.'')
      else if ((has_prefix name ''R_DKIM_'') \<or> (has_prefix name ''DKIM_'')) then (''DKIM-Signal. Betrifft die kryptografische Signatur der Mail. '' @ [CHR 0xE2, CHR 0x86, CHR 0x92] @ '' DKIM-Selector, DNS-Key-Record und Signaturkonfiguration im MTA pr'' @ [CHR 0xC3, CHR 0xBC] @ ''fen.'')
      else if ((has_prefix name ''R_SPF_'') \<or> (has_prefix name ''SPF_'')) then (''SPF-Signal. Pr'' @ [CHR 0xC3, CHR 0xBC] @ ''ft ob die sendende IP im DNS-Record der Absender-Domain autorisiert ist. '' @ [CHR 0xE2, CHR 0x86, CHR 0x92] @ '' SPF-Record (v=spf1 ...) auf der Envelope-From-Domain pr'' @ [CHR 0xC3, CHR 0xBC] @ ''fen und die sendende IP aufnehmen.'')
      else if (has_prefix name ''RCVD_IN_'') then (''IP-Reputationscheck (DNSBL/Whitelist). Die sendende IP wird gegen eine externe Liste gepr'' @ [CHR 0xC3, CHR 0xBC] @ ''ft. '' @ [CHR 0xE2, CHR 0x86, CHR 0x92] @ '' IP unter https://multirbl.valli.org/ pr'' @ [CHR 0xC3, CHR 0xBC] @ ''fen; bei negativen Listings Ursache beheben und Delisting beantragen.'')
      else if ((has_prefix name ''URIBL_'') \<or> (has_prefix name ''SURBL_'')) then (''URL-Blacklist-Treffer. Eine verlinkte Domain ist auf einer Spam- oder Phishing-Liste gelistet. '' @ [CHR 0xE2, CHR 0x86, CHR 0x92] @ '' Alle Links im Mailtemplate pr'' @ [CHR 0xC3, CHR 0xBC] @ ''fen; betroffene Domain unter https://mxtoolbox.com/blacklists.aspx pr'' @ [CHR 0xC3, CHR 0xBC] @ ''fen.'')
      else if (has_prefix name ''BAYES_'') then (''Bayes-Klassifikator. Bewertet den Inhalt statistisch anhand erlernter Spam-/Ham-Muster. '' @ [CHR 0xE2, CHR 0x86, CHR 0x92] @ '' Bei BAYES_SPAM: Formulierungen, Struktur und Inhalt der Mail '' @ [CHR 0xC3, CHR 0xBC] @ ''berpr'' @ [CHR 0xC3, CHR 0xBC] @ ''fen; Spam-typische Phrasen vermeiden.'')
      else if (has_prefix name ''NEURAL_'') then (''Neuronales Netz. KI-basierte Klassifikation des Mail-Inhalts. '' @ [CHR 0xE2, CHR 0x86, CHR 0x92] @ '' Bei NEURAL_SPAM: Inhalt und HTML-Struktur '' @ [CHR 0xC3, CHR 0xBC] @ ''berarbeiten; signifikante '' @ [CHR 0xC3, CHR 0x84] @ ''nderungen sind oft n'' @ [CHR 0xC3, CHR 0xB6] @ ''tig.'')
      else if (has_prefix name ''FUZZY_'') then (''Fuzzy-Hash-Treffer. Inhalt '' @ [CHR 0xC3, CHR 0xA4] @ ''hnelt einer bekannten Spam-Mail in der Datenbank. '' @ [CHR 0xE2, CHR 0x86, CHR 0x92] @ '' Mail-Inhalt und Template deutlich '' @ [CHR 0xC3, CHR 0xBC] @ ''berarbeiten; Wiederverwendung von Spam-Mustern vermeiden.'')
      else if (has_prefix name ''MISSING_'') then (''Pflicht-Header fehlt. RFC 5322 schreibt diesen Header vor. '' @ [CHR 0xE2, CHR 0x86, CHR 0x92] @ '' MTA oder Versandsoftware so konfigurieren, dass alle RFC-Pflicht-Header (Date, From, Message-ID, MIME-Version) gesetzt werden.'')
      else if (has_prefix name ''HELO_'') then (''HELO/EHLO-Signal. Betrifft den Hostnamen, mit dem sich der sendende MTA vorstellt. '' @ [CHR 0xE2, CHR 0x86, CHR 0x92] @ '' myhostname (Postfix) / primary_hostname (Exim) auf den echten FQDN des Servers setzen; PTR-Record muss '' @ [CHR 0xC3, CHR 0xBC] @ ''bereinstimmen.'')
      else if (has_prefix name ''MX_'') then (''MX-Record-Check. Pr'' @ [CHR 0xC3, CHR 0xBC] @ ''ft ob die Absender-Domain korrekte Empfangsserver konfiguriert hat. '' @ [CHR 0xE2, CHR 0x86, CHR 0x92] @ '' MX-Record f'' @ [CHR 0xC3, CHR 0xBC] @ ''r die Domain setzen und sicherstellen, dass er korrekt aufl'' @ [CHR 0xC3, CHR 0xB6] @ ''st.'')
      else if (has_prefix name ''ARC_'') then (''ARC (Authenticated Received Chain). Bewahrt Auth-Ergebnisse '' @ [CHR 0xC3, CHR 0xBC] @ ''ber Weiterleitungen hinweg. '' @ [CHR 0xE2, CHR 0x86, CHR 0x92] @ '' Relevant bei Mail-Weiterleitungen; weiterleitenden Mailserver mit ARC-Unterst'' @ [CHR 0xC3, CHR 0xBC] @ ''tzung konfigurieren.'')
      else if (has_prefix name ''MIME_'') then (''MIME-Struktur-Signal. Betrifft den technischen Aufbau der Nachricht (Multipart, Encoding, Charset). '' @ [CHR 0xE2, CHR 0x86, CHR 0x92] @ '' multipart/alternative mit text/plain und text/html verwenden; Charset-Angabe und Boundaries pr'' @ [CHR 0xC3, CHR 0xBC] @ ''fen.'')
      else if (((has_prefix name ''FROM_'') \<or> (has_prefix name ''TO_'')) \<or> (has_prefix name ''REPLYTO_'')) then (''Absender/Empf'' @ [CHR 0xC3, CHR 0xA4] @ ''nger-Signal. Pr'' @ [CHR 0xC3, CHR 0xBC] @ ''ft Konsistenz und Vertrauensw'' @ [CHR 0xC3, CHR 0xBC] @ ''rdigkeit der Adress-Header. '' @ [CHR 0xE2, CHR 0x86, CHR 0x92] @ '' From, Reply-To und Envelope-From konsistent und zur eigenen Domain passend konfigurieren.'')
      else [])"

definition rspamdSymbolExplain :: "gostring \<Rightarrow> gostring" where
  "rspamdSymbolExplain name = switch_text symbol_texts (symbol_family_text name) name"

subsection \<open>Attaching the texts\<close>

definition own_explanation :: "(gostring \<times> gostring) list" where
  "own_explanation =
     [(''spf'', (''SPF (Sender Policy Framework) ist eine '' @ [CHR 0xC3, CHR 0xB6] @ ''ffentliche Liste in Ihrer Domain-Verwaltung, die festh'' @ [CHR 0xC3, CHR 0xA4] @ ''lt, welche Server E-Mails in Ihrem Namen verschicken d'' @ [CHR 0xC3, CHR 0xBC] @ ''rfen. Der empfangende Mailserver sieht dort nach, ob die Adresse, von der die Nachricht kam, in dieser Liste steht. Steht sie nicht darin, wirkt die Mail wie eine F'' @ [CHR 0xC3, CHR 0xA4] @ ''lschung. Gmail, Outlook und Yahoo gewichten das besonders stark, solange Ihre Absenderadresse noch keinen langen guten Ruf hat. Bedeutung: hoch '' @ [CHR 0xE2, CHR 0x80, CHR 0x93] @ '' ohne bestandenes SPF greift auch DMARC nicht, und viele Anbieter verschieben die Nachricht in den Spam-Ordner oder lehnen sie ganz ab.'')),
      (''dkim'', (''DKIM (DomainKeys Identified Mail) versieht jede Ihrer Nachrichten beim Versand mit einer Art unsichtbarem Siegel. Den passenden Pr'' @ [CHR 0xC3, CHR 0xBC] @ ''fschl'' @ [CHR 0xC3, CHR 0xBC] @ ''ssel hinterlegen Sie '' @ [CHR 0xC3, CHR 0xB6] @ ''ffentlich in Ihrer Domain-Verwaltung. Der empfangende Server holt ihn dort ab und stellt damit zweierlei fest: dass die Nachricht wirklich aus Ihrem Haus stammt und dass unterwegs niemand daran etwas ver'' @ [CHR 0xC3, CHR 0xA4] @ ''ndert hat. Bedeutung: sehr hoch '' @ [CHR 0xE2, CHR 0x80, CHR 0x93] @ '' DKIM ist neben SPF die zweite S'' @ [CHR 0xC3, CHR 0xA4] @ ''ule von DMARC. Anders als SPF '' @ [CHR 0xC3, CHR 0xBC] @ ''bersteht es Weiterleitungen, weil das Siegel an der Nachricht h'' @ [CHR 0xC3, CHR 0xA4] @ ''ngt und nicht am versendenden Server. Ohne DKIM landen Nachrichten deutlich h'' @ [CHR 0xC3, CHR 0xA4] @ ''ufiger im Spam-Ordner.'')),
      (''dmarc'', (''DMARC ist die Anweisung, was ein Empf'' @ [CHR 0xC3, CHR 0xA4] @ ''nger mit Nachrichten tun soll, die vorgeben, von Ihnen zu stammen, aber weder die SPF- noch die DKIM-Pr'' @ [CHR 0xC3, CHR 0xBC] @ ''fung bestehen: durchlassen, in den Spam-Ordner legen oder ablehnen. Damit eine Nachricht DMARC besteht, reicht eine der beiden Pr'' @ [CHR 0xC3, CHR 0xBC] @ ''fungen '' @ [CHR 0xE2, CHR 0x80, CHR 0x94] @ '' sie muss aber zu genau der Absenderadresse geh'' @ [CHR 0xC3, CHR 0xB6] @ ''ren, die der Empf'' @ [CHR 0xC3, CHR 0xA4] @ ''nger im Postfach sieht. Diese Zusammengeh'' @ [CHR 0xC3, CHR 0xB6] @ ''rigkeit hei'' @ [CHR 0xC3, CHR 0x9F] @ ''t Alignment. Bedeutung: kritisch '' @ [CHR 0xE2, CHR 0x80, CHR 0x93] @ '' ohne DMARC kann jeder Fremde in Ihrem Namen schreiben, und seit 2024 verlangen Gmail und Yahoo es von allen, die gr'' @ [CHR 0xC3, CHR 0xB6, CHR 0xC3, CHR 0x9F] @ ''ere Mengen versenden.'')),
      (''ptr'', (''Reverse DNS (PTR/rDNS) zeigt, welcher Hostname zu einer sendenden IP geh'' @ [CHR 0xC3, CHR 0xB6] @ ''rt. Empf'' @ [CHR 0xC3, CHR 0xA4] @ ''nger pr'' @ [CHR 0xC3, CHR 0xBC] @ ''fen typischerweise: (1) Hat die IP einen g'' @ [CHR 0xC3, CHR 0xBC] @ ''ltigen PTR-Eintrag? (2) L'' @ [CHR 0xC3, CHR 0xB6] @ ''st dieser PTR-Name per Forward-DNS wieder auf die gleiche IP auf (Forward-Confirmed rDNS)? (3) Stimmt der PTR-Name plausibel mit HELO/EHLO '' @ [CHR 0xC3, CHR 0xBC] @ ''berein? Outlook/Exchange, Barracuda, Mimecast und Unternehmens-Gateways lehnen bei fehlendem PTR direkt ab. Gmail und Yahoo nutzen es als Qualit'' @ [CHR 0xC3, CHR 0xA4] @ ''tssignal. Wichtigkeit: sehr hoch '' @ [CHR 0xE2, CHR 0x80, CHR 0x93] @ '' fehlender oder inkonsistenter PTR-Record ist einer der h'' @ [CHR 0xC3, CHR 0xA4] @ ''ufigsten Gr'' @ [CHR 0xC3, CHR 0xBC] @ ''nde f'' @ [CHR 0xC3, CHR 0xBC] @ ''r direkte Ablehnung durch Unternehmens-Mailgateways. PTR-Records werden beim IP-Hosting-Provider gesetzt, nicht im eigenen DNS.'')),
      (''helo'', (''HELO/EHLO ist der Hostname, mit dem sich der sendende MTA beim Empf'' @ [CHR 0xC3, CHR 0xA4] @ ''nger-SMTP anmeldet. Er sollte ein stabiler, vollqualifizierter Domainname (FQDN) sein '' @ [CHR 0xE2, CHR 0x80, CHR 0x93] @ '' kein '' @ [CHR 0x27] @ ''localhost'' @ [CHR 0x27] @ '', keine rohe IP-Adresse ([203.0.113.1]) und kein zuf'' @ [CHR 0xC3, CHR 0xA4] @ ''lliger Container-Name. Empfangende Systeme pr'' @ [CHR 0xC3, CHR 0xBC] @ ''fen: Ist der HELO-Name ein g'' @ [CHR 0xC3, CHR 0xBC] @ ''ltiger FQDN? Stimmt er mit dem PTR/rDNS der sendenden IP '' @ [CHR 0xC3, CHR 0xBC] @ ''berein? Hat er einen A/AAAA-Record? Wichtigkeit: hoch '' @ [CHR 0xE2, CHR 0x80, CHR 0x93] @ '' SpamAssassin wertet HELO_DYNAMIC, HELO_NO_DOMAIN, HELO_IP_4_5_6 mit negativen Scores; viele kommerzielle Gateways lehnen bei inkonsistentem HELO/PTR ab. Der HELO-Name wird dauerhaft im Server konfiguriert (nicht per Mail '' @ [CHR 0xC3, CHR 0xA4] @ ''nderbar).'')),
      (''mx_records'', (''MX-Records definieren, welcher Mailserver E-Mails f'' @ [CHR 0xC3, CHR 0xBC] @ ''r eine Domain empf'' @ [CHR 0xC3, CHR 0xA4] @ ''ngt. F'' @ [CHR 0xC3, CHR 0xBC] @ ''r reine Versanddomains ist ein MX technisch nicht zwingend, aber Domains ohne MX werden von vielen Spamfiltern misstrauischer eingestuft '' @ [CHR 0xE2, CHR 0x80, CHR 0x93] @ '' weil wegwerf-artige oder kompromittierte Domains oft keinen MX haben. Au'' @ [CHR 0xC3, CHR 0x9F] @ ''erdem setzen Bounce-Handling, DMARC-Forensik-Reports (ruf=) und Reply-To-Routing Empfangbarkeit voraus. Wichtigkeit: mittel '' @ [CHR 0xE2, CHR 0x80, CHR 0x93] @ '' f'' @ [CHR 0xC3, CHR 0xBC] @ ''r transaktionale Mails nicht kritisch, aber f'' @ [CHR 0xC3, CHR 0xBC] @ ''r professionelles Domain-Setup empfohlen.'')),
      (''address_records'', (''A/AAAA-Records zeigen, auf welche IPs ein Hostname zeigt. Mailserver-Hostnamen aus HELO/EHLO und MX-Eintr'' @ [CHR 0xC3, CHR 0xA4] @ ''gen m'' @ [CHR 0xC3, CHR 0xBC] @ ''ssen sauber aufl'' @ [CHR 0xC3, CHR 0xB6] @ ''sen. Ein HELO-Name ohne g'' @ [CHR 0xC3, CHR 0xBC] @ ''ltigen A/AAAA-Record erh'' @ [CHR 0xC3, CHR 0xB6] @ ''ht Spam-Scores und signalisiert schlechte DNS-Hygiene. Tracking-Subdomains und Bounce-Domains sollten ebenfalls konsistent aufl'' @ [CHR 0xC3, CHR 0xB6] @ ''sen. Wichtigkeit: hoch '' @ [CHR 0xE2, CHR 0x80, CHR 0x93] @ '' inkonsistente DNS-Aufl'' @ [CHR 0xC3, CHR 0xB6] @ ''sung ist ein verl'' @ [CHR 0xC3, CHR 0xA4] @ ''ssliches Zeichen f'' @ [CHR 0xC3, CHR 0xBC] @ ''r schlechte Infrastruktur-Qualit'' @ [CHR 0xC3, CHR 0xA4] @ ''t und erh'' @ [CHR 0xC3, CHR 0xB6] @ ''ht den Spam-Score bei fast allen Filtersystemen.'')),
      (''spamassassin'', (''SpamAssassin bewertet Nachrichten mit einem gewichteten Regelsystem aus mehreren hundert Tests: Authentifizierung, IP-Reputation, Header-Konsistenz, Inhaltsmuster, MIME-Struktur, URLs und Bayes-Filter. Ab einem Schwellwert (typisch 5.0) gilt eine Mail als Spam. SpamAssassin ist bei ISPs, Unternehmens-Gateways, Postfix/Dovecot-Setups und cPanel-Hosting weit verbreitet. Wichtigkeit: hoch '' @ [CHR 0xE2, CHR 0x80, CHR 0x93] @ '' hohe SA-Scores sind ein verl'' @ [CHR 0xC3, CHR 0xA4] @ ''sslicher Indikator f'' @ [CHR 0xC3, CHR 0xBC] @ ''r reale Zustellprobleme. Die einzelnen Regeln zeigen genau, wo die Probleme liegen; jede Regel sollte einzeln nachgeschlagen und behoben werden.'')),
      (''rbl'', (''RBLs/DNSBLs listen IPs, die Spam-, Abuse-, Botnet-, Proxy- oder Angriffssignale ausgel'' @ [CHR 0xC3, CHR 0xB6] @ ''st haben. Die bekanntesten Listen (Spamhaus SBL/XBL/PBL, Barracuda, SpamCop) werden von gro'' @ [CHR 0xC3, CHR 0x9F] @ ''en Mailbox-Providern, kommerziellen Gateways und selbst betriebenen Mailservern aktiv genutzt. Wichtigkeit: sehr hoch '' @ [CHR 0xE2, CHR 0x80, CHR 0x93] @ '' ein Spamhaus-Listing f'' @ [CHR 0xC3, CHR 0xBC] @ ''hrt bei Gmail, Outlook und Yahoo nahezu sicher zur Ablehnung oder Spam-Einstufung. Die richtige Reihenfolge: erst Ursache stoppen (offenes Relay, kompromittiertes Konto, Botnet), dann Infrastruktur sichern, dann Delisting beantragen. Delisting ohne Ursachenbehebung f'' @ [CHR 0xC3, CHR 0xBC] @ ''hrt zur Wiederlisting.''))]"

definition own_recommendation :: "CheckResult \<Rightarrow> checkContext \<Rightarrow> gostring" where
  "own_recommendation c ctx =
     (if ID c = ''spf'' then (spfRecommendation ctx)
      else if ID c = ''dkim'' then (dkimRecommendation ctx)
      else if ID c = ''dmarc'' then (dmarcRecommendation ctx)
      else if ID c = ''ptr'' then (''PTR-Record f'' @ [CHR 0xC3, CHR 0xBC] @ ''r IP '' @ (orElse (CRemoteIP ctx) ''<sender-ip>'') @ '' setzen (beim IP-/Hosting-Provider, nicht im eigenen DNS).'' @ [CHR 0x0A, CHR 0x0A] @ ''Zielzustand:'' @ [CHR 0x0A] @ ''  '' @ (orElse (CRemoteIP ctx) ''<sender-ip>'') @ '' -> PTR -> '' @ (orElse (CHELO ctx) ''mail.example.tld'') @ [CHR 0x0A] @ ''  '' @ (orElse (CHELO ctx) ''mail.example.tld'') @ '' -> A   -> '' @ (orElse (CRemoteIP ctx) ''<sender-ip>'') @ [CHR 0x0A, CHR 0x0A] @ ''Postfix: myhostname = '' @ (orElse (CHELO ctx) ''mail.example.tld'') @ [CHR 0x0A] @ ''Exim:    primary_hostname = '' @ (orElse (CHELO ctx) ''mail.example.tld'') @ [CHR 0x0A, CHR 0x0A] @ ''Bei Hetzner: Server > Networking > Reverse DNS'' @ [CHR 0x0A] @ ''Bei DigitalOcean: Networking > Floating IP > Edit PTR'' @ [CHR 0x0A] @ ''Pr'' @ [CHR 0xC3, CHR 0xBC] @ ''fen: dig -x '' @ (orElse (CRemoteIP ctx) ''<sender-ip>'') @ '' +short'')
      else if ID c = ''helo'' then (''HELO/EHLO-Hostname auf stabilen FQDN setzen, der zu IP '' @ (orElse (CRemoteIP ctx) ''<sender-ip>'') @ '' und PTR passt.'' @ [CHR 0x0A, CHR 0x0A] @ ''Postfix (/etc/postfix/main.cf):'' @ [CHR 0x0A] @ ''  myhostname = '' @ (orElse (CHELO ctx) ''mail.example.tld'') @ [CHR 0x0A, CHR 0x0A] @ ''Exim (/etc/exim4/exim4.conf):'' @ [CHR 0x0A] @ ''  primary_hostname = '' @ (orElse (CHELO ctx) ''mail.example.tld'') @ [CHR 0x0A, CHR 0x0A] @ ''Sendmail:'' @ [CHR 0x0A] @ ''  Djmailhost.example.org (in sendmail.mc)'' @ [CHR 0x0A, CHR 0x0A] @ ''Pr'' @ [CHR 0xC3, CHR 0xBC] @ ''fen: telnet '' @ (orElse (CRemoteIP ctx) ''<sender-ip>'') @ '' 25 -> EHLO senden -> Antwort vergleichen'')
      else if ID c = ''mx_records'' then (''MX-Record f'' @ [CHR 0xC3, CHR 0xBC] @ ''r '' @ (orElse (CFromDomain ctx) (CEnvelopeDomain ctx)) @ '' setzen:'' @ [CHR 0x0A, CHR 0x0A] @ ''  Name: '' @ (orElse (CFromDomain ctx) (CEnvelopeDomain ctx)) @ [CHR 0x0A] @ ''  Typ:  MX 10'' @ [CHR 0x0A] @ ''  Wert: mail.'' @ (orElse (CFromDomain ctx) (CEnvelopeDomain ctx)) @ [CHR 0x0A, CHR 0x0A] @ ''Dann A/AAAA f'' @ [CHR 0xC3, CHR 0xBC] @ ''r mail.'' @ (orElse (CFromDomain ctx) (CEnvelopeDomain ctx)) @ '' setzen.'' @ [CHR 0x0A] @ ''Redundanz: zweiten MX mit Priorit'' @ [CHR 0xC3, CHR 0xA4] @ ''t 20 empfohlen.'' @ [CHR 0x0A] @ ''Pr'' @ [CHR 0xC3, CHR 0xBC] @ ''fen: dig MX '' @ (orElse (CFromDomain ctx) (CEnvelopeDomain ctx)) @ '' +short'')
      else if ID c = ''address_records'' then (let d = detail c ''domain'' in if Suggestion c \<noteq> [] \<and> d \<noteq> [] then ((Suggestion c) @ [CHR 0x0A, CHR 0x0A] @ ''Pr'' @ [CHR 0xC3, CHR 0xBC] @ ''fen:'' @ [CHR 0x0A] @ ''  dig MX '' @ d @ '' +short'' @ [CHR 0x0A] @ ''  dig A '' @ d @ '' +short'' @ [CHR 0x0A] @ ''  dig AAAA '' @ d @ '' +short'') else (''A-Record setzen:'' @ [CHR 0x0A, CHR 0x0A] @ ''  Name: '' @ (orElse (CHELO ctx) ''mail.example.org'') @ [CHR 0x0A] @ ''  Typ:  A'' @ [CHR 0x0A] @ ''  Wert: '' @ (orElse (CRemoteIP ctx) ''203.0.113.10'') @ [CHR 0x0A, CHR 0x0A] @ ''Bei IPv6: zus'' @ [CHR 0xC3, CHR 0xA4] @ ''tzlich AAAA und PTR f'' @ [CHR 0xC3, CHR 0xBC] @ ''r IPv6.'' @ [CHR 0x0A] @ ''Pr'' @ [CHR 0xC3, CHR 0xBC] @ ''fen: dig A '' @ (orElse (CHELO ctx) ''mail.example.org'') @ '' +short''))
      else if ID c = ''spamassassin'' then (''SA-Regeln nach Gewicht priorisieren '' @ [CHR 0xE2, CHR 0x80, CHR 0x93] @ '' nicht Text verschleiern:'' @ [CHR 0x0A, CHR 0x0A] @ ''1. Authentifizierung: SPF/DKIM/DMARC ohne pass verschlechtern SA-Score signifikant'' @ [CHR 0x0A] @ ''2. IP-Reputation: RBL-Listings (RCVD_IN_*) sofort beheben'' @ [CHR 0x0A] @ ''3. Header: Date, Message-ID, From, Return-Path korrekt setzen'' @ [CHR 0x0A] @ ''4. Inhalt: Trigger-W'' @ [CHR 0xC3, CHR 0xB6] @ ''rter, ALL CAPS, excessive Ausrufezeichen'' @ [CHR 0x0A] @ ''5. Links: URL-Shortener, fremde Redirect-Ketten'' @ [CHR 0x0A, CHR 0x0A] @ ''Jede Regel nachschlagen: https://spamassassin.apache.org/tests_3_4_x.html'')
      else if ID c = ''rbl'' then (rblGenericRecommendation (CRemoteIP ctx))
      else defaultRecommendation c ctx)"

definition own_docs :: "(gostring \<times> DocLink list) list" where
  "own_docs =
     [(''spf'', spfDocLinks),
      (''dkim'', dkimDocLinks),
      (''dmarc'', dmarcDocLinks),
      (''ptr'', [\<lparr>Title = (''PTR/rDNS Lookup '' @ [CHR 0xE2, CHR 0x80, CHR 0x93] @ '' MXToolbox''), URL = ''https://mxtoolbox.com/ReverseLookup.aspx''\<rparr>, \<lparr>Title = (''Forward-confirmed rDNS '' @ [CHR 0xE2, CHR 0x80, CHR 0x93] @ '' Wikipedia''), URL = ''https://en.wikipedia.org/wiki/Forward-confirmed_reverse_DNS''\<rparr>, \<lparr>Title = ''Outlook Sender Requirements'', URL = ''https://sendersupport.olc.protection.outlook.com/pm/policies.aspx''\<rparr>]),
      (''helo'', [\<lparr>Title = (''RFC 5321 '' @ [CHR 0xE2, CHR 0x80, CHR 0x93] @ '' SMTP EHLO''), URL = ''https://www.rfc-editor.org/rfc/rfc5321#section-4.1.1.1''\<rparr>, \<lparr>Title = ''SpamAssassin HELO-Tests'', URL = ''https://spamassassin.apache.org/tests_3_4_x.html''\<rparr>]),
      (''mx_records'', [\<lparr>Title = (''MX-Record pr'' @ [CHR 0xC3, CHR 0xBC] @ ''fen '' @ [CHR 0xE2, CHR 0x80, CHR 0x93] @ '' MXToolbox''), URL = ''https://mxtoolbox.com/MXLookup.aspx''\<rparr>, \<lparr>Title = (''RFC 5321 '' @ [CHR 0xE2, CHR 0x80, CHR 0x93] @ '' MX-Record Semantik''), URL = ''https://www.rfc-editor.org/rfc/rfc5321#section-5''\<rparr>]),
      (''address_records'', [\<lparr>Title = (''DNS A-Record erkl'' @ [CHR 0xC3, CHR 0xA4] @ ''rt '' @ [CHR 0xE2, CHR 0x80, CHR 0x93] @ '' Cloudflare''), URL = ''https://www.cloudflare.com/learning/dns/dns-records/dns-a-record/''\<rparr>, \<lparr>Title = (''DNS-Diagnose '' @ [CHR 0xE2, CHR 0x80, CHR 0x93] @ '' MXToolbox''), URL = ''https://mxtoolbox.com/DNSLookup.aspx''\<rparr>]),
      (''spamassassin'', [\<lparr>Title = ''SpamAssassin Regelwerk'', URL = ''https://spamassassin.apache.org/tests_3_4_x.html''\<rparr>, \<lparr>Title = ''SA Score-Konfiguration'', URL = ''https://wiki.apache.org/spamassassin/WritingRules''\<rparr>]),
      (''rbl'', [\<lparr>Title = ''Spamhaus Check & Delist'', URL = ''https://check.spamhaus.org/''\<rparr>, \<lparr>Title = ''MXToolbox Blacklist Check'', URL = ''https://mxtoolbox.com/blacklists.aspx''\<rparr>, \<lparr>Title = (''MultiRBL '' @ [CHR 0xE2, CHR 0x80, CHR 0x93] @ '' mehrere Listen pr'' @ [CHR 0xC3, CHR 0xBC] @ ''fen''), URL = ''https://multirbl.valli.org/''\<rparr>, \<lparr>Title = ''Barracuda Reputation Lookup'', URL = ''https://www.barracudacentral.org/lookups''\<rparr>])]"

text \<open>The entries of \<open>addBodyDetails\<close> and \<open>addCheckSpecificDetails\<close>, and those that \<open>enrichCheckResult\<close> sets itself.\<close>

definition none_or :: "gostring \<Rightarrow> gostring" where "none_or v = orElse v ''none''"

definition rune_count :: "gostring \<Rightarrow> gostring" where "rune_count s = show_nat (length (runes s))"

definition addBodyDetails :: "checkContext \<Rightarrow> (gostring \<times> gostring) list" where
  "addBodyDetails ctx =
     (let pb = CBody ctx
      in [(''content_type'', none_or (Get (CHeaders ctx) ''Content-Type'')),
          (''content_transfer_encoding'', none_or (Get (CHeaders ctx) ''Content-Transfer-Encoding'')),
          (''part_count'', show_nat (PartCount pb)), (''has_text_part'', show_bool (HasTextPart pb)), (''has_html_part'', show_bool (HasHTMLPart pb)),
          (''text_chars'', rune_count (BText pb)), (''html_chars'', rune_count (BHTML pb)), (''attachment_count'', show_nat (Attachments pb)),
          (''image_count'', show_nat (Images pb)), (''charset'', none_or (Charset pb))])"

definition addCheckSpecificDetails :: "checkContext \<Rightarrow> gostring \<Rightarrow> (gostring \<times> gostring) list" where
  "addCheckSpecificDetails ctx i =
     (let h = Get (CHeaders ctx);
          from_dom = (''header_from_domain'', none_or (CFromDomain ctx)); env_dom = (''envelope_from_domain'', none_or (CEnvelopeDomain ctx));
          spf_res = (''spf_result'', none_or (CSPFResult ctx)); dkim_res = (''dkim_result'', none_or (CDKIMResult ctx));
          spf_al = (''spf_aligned'', show_bool (CAlignedSPF ctx)); dkim_al = (''dkim_aligned'', show_bool (CAlignedDKIM ctx))
      in if i = ''from_alignment'' then [(''header_from'', none_or (h ''From'')), (''smtp_mail_from'', none_or (CSMTPFrom ctx)), from_dom, env_dom]
         else if i = ''return_path'' then [(''return_path'', none_or (CReturnPath ctx)), (''return_path_domain'', none_or (CReturnDomain ctx)),
           (''smtp_mail_from'', none_or (CSMTPFrom ctx))]
         else if i = ''reply_to'' then [(''header_from'', none_or (h ''From'')), (''reply_to'', none_or (h ''Reply-To''))]
         else if i = ''spf_alignment'' then [from_dom, env_dom, spf_res, spf_al]
         else if i = ''dkim_alignment'' then [from_dom, dkim_res, (''dkim_domain'', none_or (CDKIMDomain ctx)), dkim_al]
         else if i = ''dmarc_alignment'' then [from_dom, spf_res, dkim_res, spf_al, dkim_al]
         else if i \<in> {''received_chain'', ''tls_transport''} then
           [(''remote_ip'', orElse (CRemoteIP ctx) ''unknown''), (''helo_ehlo'', orElse (CHELO ctx) ''unknown''),
            (''received_count'', show_nat (length (CReceivedLines ctx))), (''received_headers'', joinOrNone (CReceivedLines ctx))]
         else if i = ''arc'' then [(''arc_seal'', none_or (h ''ARC-Seal'')), (''arc_message_signature'', none_or (h ''ARC-Message-Signature''))]
         else if i \<in> {''mime_ct'', ''mime_boundary'', ''multipart_alt'', ''plain_text'', ''attachments'', ''image_text_ratio'', ''charset'', ''preheader''}
         then addBodyDetails ctx
         else if i \<in> {''links'', ''shortener'', ''tracking_links''} then [(''link_count'', show_nat (length (CLinks ctx))), (''links'', joinOrNone (CLinks ctx))]
         else if i \<in> {''html'', ''hidden_html'', ''html_validity''} then addBodyDetails ctx @ [(''html_chars'', rune_count (BHTML (CBody ctx)))]
         else if i \<in> {''subject'', ''subject_exclaim'', ''subject_caps''} then
           [(''subject'', none_or (h ''Subject'')), (''subject_chars'', rune_count (h ''Subject'')), (''exclamation_count'', show_nat (count_sub (h ''Subject'') ''!''))]
         else if i \<in> {''date'', ''date_skew''} then [(''date_header'', none_or (h ''Date''))]
         else if i = ''message_id'' then [(''message_id'', firstNonEmpty [h ''Message-ID'', h ''Message-Id'', ''none''])]
         else if i = ''list_unsub'' then [(''list_unsubscribe'', none_or (h ''List-Unsubscribe'')), (''list_id'', none_or (h ''List-ID'')),
           (''precedence'', none_or (h ''Precedence''))]
         else if i = ''unicode'' then [(''text_chars'', rune_count (AllText (CBody ctx)))]
         else [])"

definition own_details :: "checkContext \<Rightarrow> gostring \<Rightarrow> (gostring \<times> gostring) list" where
  "own_details ctx i =
     (let from_dom = (''header_from_domain'', none_or (CFromDomain ctx)); spf_res = (''spf_result'', none_or (CSPFResult ctx));
          dkim_res = (''dkim_result'', none_or (CDKIMResult ctx)); ip_ehlo = [(''remote_ip'', orElse (CRemoteIP ctx) ''unknown''), (''helo_ehlo'', orElse (CHELO ctx) ''unknown'')]
      in if i = ''spf'' then ip_ehlo @ [(''envelope_from_domain'', none_or (CEnvelopeDomain ctx)), from_dom, spf_res, (''spf_records'', joinOrNone (CSPFRecords ctx))]
         else if i = ''dkim'' then [from_dom, dkim_res, (''dkim_domain'', none_or (CDKIMDomain ctx)), (''dkim_signature'', none_or (Get (CHeaders ctx) ''DKIM-Signature''))]
         else if i = ''dmarc'' then [from_dom, spf_res, dkim_res, (''spf_aligned'', show_bool (CAlignedSPF ctx)), (''dkim_aligned'', show_bool (CAlignedDKIM ctx)),
           (''dmarc_result'', none_or (CDMARCResult ctx)), (''dmarc_records'', joinOrNone (CDMARCRecords ctx)), (''policy'', none_or (CDMARCPolicy ctx))]
         else if i = ''ptr'' then ip_ehlo @ [(''expected'', ''IP '' @ orElse (CRemoteIP ctx) ''unknown'' @ '' -> PTR '' @ orElse (CHELO ctx) ''mail.example.tld''
           @ '' -> A/AAAA '' @ orElse (CRemoteIP ctx) ''sender-ip'')]
         else if i = ''helo'' then ip_ehlo
         else [])"

definition add_entries :: "(gostring \<times> gostring) list \<Rightarrow> details \<Rightarrow> details" where
  "add_entries es d = d ++ map_of (rev es)"

text \<open>The last lines of \<open>enrichCheckResult\<close>: a recommendation of its own, else the suggestion of the check.\<close>

definition own_rec_ids :: "gostring list" where "own_rec_ids = [''spf'', ''dkim'', ''dmarc'', ''ptr'', ''helo'']"

definition final_recommendation :: "CheckResult \<Rightarrow> checkContext \<Rightarrow> gostring" where
  "final_recommendation c ctx =
     (let r = (if ID c \<in> set own_rec_ids \<or> Recommendation c = [] then own_recommendation c ctx else Recommendation c)
      in if r = [] then Suggestion c else r)"

definition final_docs :: "CheckResult \<Rightarrow> DocLink list" where
  "final_docs c = (case map_of own_docs (ID c) of Some ds \<Rightarrow> ds | None \<Rightarrow> if DocLinks c = [] then defaultDocLinks (ID c) else DocLinks c)"

definition unresolvedSummaryEN :: gostring where
  "unresolvedSummaryEN = (''This could not be checked: the DNS lookup did not answer. That says nothing about your settings '' @ [CHR 0xE2, CHR 0x80, CHR 0x94] @ '' the record may well be in place. We simply could not read it at this moment.'')"

definition unresolvedRecommendationEN :: gostring where
  "unresolvedRecommendationEN = (''Wait a moment and run the check again. If this notice persists, the cause is either your domain'' @ [CHR 0x27] @ ''s name servers or this test server'' @ [CHR 0x27] @ ''s own connection to DNS '' @ [CHR 0xE2, CHR 0x80, CHR 0x94] @ '' not your mail setup.'')"

definition enrichEnglish :: "CheckResult \<Rightarrow> checkContext \<Rightarrow> CheckResult" where
  "enrichEnglish c ctx =
     (let c = c\<lparr>NameEN := checkNameEN (ID c), ExplanationEN := explanationEN (ID c)\<rparr>
      in if TechnicalDetails c unresolvedDetailKey \<noteq> None
         then c\<lparr>SummaryEN := unresolvedSummaryEN, RecommendationEN := unresolvedRecommendationEN\<rparr>
         else c\<lparr>SummaryEN := summaryEN (ID c) (finding.Status c) (Summary c) ctx, RecommendationEN := recommendationEN (ID c) (finding.Status c) ctx\<rparr>)"

text \<open>\<open>enrichCheckResult\<close> as a whole: the score of \<open>Findings.enrichCheckResult\<close>, then details and texts.\<close>

definition enrich_report_check :: "checkContext \<Rightarrow> CheckResult \<Rightarrow> CheckResult" where
  "enrich_report_check ctx c0 =
     (let c = Findings.enrichCheckResult c0
      in if finding.Status c = ''na''
         then c\<lparr>Explanation := (if Explanation c = [] then naExplanation (ID c) else Explanation c), NameEN := checkNameEN (ID c),
                SummaryEN := (''Not applicable for this mail type '' @ [CHR 0xE2, CHR 0x80, CHR 0x93] @ '' no impact on score.''), ExplanationEN := naExplanationEN (ID c)\<rparr>
         else (let c = c\<lparr>TechnicalDetails := add_entries (addCheckSpecificDetails ctx (ID c) @ own_details ctx (ID c)) (TechnicalDetails c)\<rparr>;
                   c = (if ID c = ''spf'' then c\<lparr>Name := (''SPF f'' @ [CHR 0xC3, CHR 0xBC] @ ''r '') @ orElse (CEnvelopeDomain ctx) ''Envelope-From''\<rparr> else c);
                   r = final_recommendation c ctx; ds = final_docs c
               in enrichEnglish (c\<lparr>Explanation := (case map_of own_explanation (ID c) of Some t \<Rightarrow> t | None \<Rightarrow> defaultExplanation (ID c)),
                     Recommendation := r, DocLinks := ds\<rparr>) ctx))"

end
