(* ===== verification/Placement.thy ===== *)
theory Placement
  imports Net_IP
begin

text \<open>
  Inbox placement tests, package \<open>internal/ipt\<close>: the seed configuration (\<open>seeds.go\<close>), the IMAP poller
  (\<open>poller.go\<close>), the health check of the seed accounts (\<open>check.go\<close>) and the alert mail (\<open>mailer.go\<close>).

  The IMAP client is third-party code. A \<open>session\<close> is what one connection to an account can do: whether the
  connection and the login work, and which folders can be selected and contain the message.
\<close>

subsection \<open>Seeds\<close>

record Account =
  User :: gostring
  Pass :: gostring

record Provider =
  ProviderName :: gostring
  IMAP :: gostring
  Accounts :: "Account list"

record SeedInfo =
  SeedProvider :: gostring
  SeedAddress :: gostring

record ProviderResult =
  RProvider :: gostring
  RAddress :: gostring
  RStatus :: gostring
  Folder :: gostring
  CheckedAt :: time

record PlacementTest =
  TestID :: int
  TestMailboxID :: int
  PlacementToken :: gostring
  TestStatus :: gostring
  TestCreatedAt :: time
  TestExpiresAt :: time
  Seeds :: "SeedInfo list"
  Results :: "ProviderResult list"

datatype seed_error =
    NoProviders | NoName nat | BadIMAP gostring | NoAccounts gostring | MissingCredentials gostring nat

fun check_accounts :: "gostring \<Rightarrow> nat \<Rightarrow> Account list \<Rightarrow> seed_error option" where
  "check_accounts p j [] = None"
| "check_accounts p j (a # as) =
     (if User a = [] \<or> Pass a = [] then Some (MissingCredentials p j) else check_accounts p (j + 1) as)"

fun check_providers :: "nat \<Rightarrow> Provider list \<Rightarrow> seed_error option" where
  "check_providers i [] = None"
| "check_providers i (p # ps) =
     (if trim_space (ProviderName p) = [] then Some (NoName i)
      else if \<not> contains (IMAP p) '':'' then Some (BadIMAP (ProviderName p))
      else if Accounts p = [] then Some (NoAccounts (ProviderName p))
      else (case check_accounts (ProviderName p) 0 (Accounts p) of
          Some e \<Rightarrow> Some e
        | None \<Rightarrow> check_providers (i + 1) ps))"

definition Validate :: "Provider list \<Rightarrow> seed_error option" where
  "Validate ps = (if ps = [] then Some NoProviders else check_providers 0 ps)"

definition ProviderNames :: "Provider list \<Rightarrow> gostring list" where
  "ProviderNames ps = map ProviderName ps"

definition Filter :: "Provider list \<Rightarrow> gostring list \<Rightarrow> Provider list" where
  "Filter ps selected =
     (if selected = [] then ps
      else filter (\<lambda>p. to_lower (ProviderName p) \<in> set (map to_lower selected)) ps)"

text \<open>
  \<open>Pick\<close>: \<open>rnd i k\<close> is the random number below \<open>k\<close> drawn for provider \<open>i\<close>; \<open>rand.IntN\<close> panics for 0
  and so does an index out of range, which is \<open>None\<close>.
\<close>

fun pick_from :: "(nat \<Rightarrow> nat \<Rightarrow> nat) \<Rightarrow> nat \<Rightarrow> Provider list \<Rightarrow> (SeedInfo list \<times> Account list) option" where
  "pick_from rnd i [] = Some ([], [])"
| "pick_from rnd i (p # ps) =
     (let k = length (Accounts p); j = rnd i k
      in if k = 0 \<or> k \<le> j then None
         else (let a = Accounts p ! j
               in map_option (\<lambda>(vs, as). (\<lparr>SeedProvider = ProviderName p, SeedAddress = User a\<rparr> # vs, a # as))
                    (pick_from rnd (i + 1) ps)))"

definition Pick :: "(nat \<Rightarrow> nat \<Rightarrow> nat) \<Rightarrow> Provider list \<Rightarrow> (SeedInfo list \<times> Account list) option" where
  "Pick rnd ps = pick_from rnd 0 ps"

subsection \<open>Polling\<close>

record imap_session =
  dial_ok :: bool
  login_ok :: "Account \<Rightarrow> bool"
  select_ok :: "gostring \<Rightarrow> bool"
  found_in :: "gostring \<Rightarrow> bool"

definition searchFolder :: "imap_session \<Rightarrow> gostring \<Rightarrow> bool" where
  "searchFolder c folder = (select_ok c folder \<and> found_in c folder)"

definition tryFind :: "gostring list \<Rightarrow> Account \<Rightarrow> imap_session \<Rightarrow> gostring" where
  "tryFind spamFolders acc c =
     (if \<not> dial_ok c then []
      else if \<not> login_ok c acc then []
      else if searchFolder c ''INBOX'' then ''INBOX''
      else (case find (searchFolder c) spamFolders of Some f \<Rightarrow> f | None \<Rightarrow> []))"

definition folderStatus :: "gostring \<Rightarrow> gostring" where
  "folderStatus folder = (if folder = ''INBOX'' then ''inbox'' else ''spam'')"

text \<open>
  One poller: the sessions of the first lookup and of the ticks that come before the context ends, with
  the instant of each lookup; \<open>deadline\<close> is the instant at which the end of the context is noticed.
\<close>

fun poll_ticks :: "gostring list \<Rightarrow> SeedInfo \<Rightarrow> Account \<Rightarrow> (time \<times> imap_session) list \<Rightarrow> time \<Rightarrow> ProviderResult" where
  "poll_ticks spam seed acc [] deadline =
     \<lparr>RProvider = SeedProvider seed, RAddress = SeedAddress seed, RStatus = ''timeout'', Folder = [], CheckedAt = deadline\<rparr>"
| "poll_ticks spam seed acc ((t, c) # ticks) deadline =
     (let folder = tryFind spam acc c
      in if folder \<noteq> []
         then \<lparr>RProvider = SeedProvider seed, RAddress = SeedAddress seed, RStatus = folderStatus folder, Folder = folder, CheckedAt = t\<rparr>
         else poll_ticks spam seed acc ticks deadline)"

definition pollOne :: "gostring list \<Rightarrow> SeedInfo \<Rightarrow> Account \<Rightarrow> time \<times> imap_session \<Rightarrow> (time \<times> imap_session) list \<Rightarrow> time \<Rightarrow> ProviderResult" where
  "pollOne spam seed acc start ticks deadline = poll_ticks spam seed acc (start # ticks) deadline"

text \<open>
  The pollers of a test, one for each seed account with the sessions it opens. They run concurrently and the channel delivers their
  results in the order in which they finish, so what the receiver sees is some permutation of this list.
\<close>

definition PollWithHosts :: "gostring list \<Rightarrow> (SeedInfo \<times> Account \<times> (time \<times> imap_session) \<times> (time \<times> imap_session) list) list \<Rightarrow> time \<Rightarrow> ProviderResult list" where
  "PollWithHosts spam polls deadline = map (\<lambda>(seed, acc, start, ticks). pollOne spam seed acc start ticks deadline) polls"

subsection \<open>Account health and alerts\<close>

record AccountStatus =
  SProvider :: gostring
  SUser :: gostring
  SIMAP :: gostring
  OK :: bool
  ErrRaw :: gostring
  SCheckedAt :: time

text \<open>\<open>ping\<close> is the outcome of \<open>PingAccount\<close>: \<open>None\<close>, or the text of the error.\<close>

definition CheckAll :: "(Account \<Rightarrow> gostring \<Rightarrow> gostring option) \<Rightarrow> time \<Rightarrow> Provider list \<Rightarrow> AccountStatus list" where
  "CheckAll ping t ps =
     concat (map (\<lambda>p. map (\<lambda>a.
       \<lparr>SProvider = ProviderName p, SUser = User a, SIMAP = IMAP p, OK = (ping a (IMAP p) = None),
        ErrRaw = (case ping a (IMAP p) of Some e \<Rightarrow> e | None \<Rightarrow> []), SCheckedAt = t\<rparr>) (Accounts p)) ps)"

record MailerConfig =
  Addr :: gostring
  From :: gostring
  SMTPUser :: gostring
  SMTPPass :: gostring
  IncludeRawErrs :: bool

definition Enabled :: "MailerConfig option \<Rightarrow> bool" where
  "Enabled m = (case m of Some cfg \<Rightarrow> Addr cfg \<noteq> [] \<and> From cfg \<noteq> [] | None \<Rightarrow> False)"

definition alert_entry :: "bool \<Rightarrow> (time \<Rightarrow> gostring) \<Rightarrow> AccountStatus \<Rightarrow> gostring" where
  "alert_entry raw fmt s =
     ''  Provider : '' @ SProvider s @ crlf @ ''  Account  : '' @ SUser s @ crlf @ ''  IMAP     : '' @ SIMAP s @ crlf
     @ ''  Checked  : '' @ fmt (SCheckedAt s) @ crlf
     @ (if raw \<and> ErrRaw s \<noteq> [] then ''  Error    : '' @ ErrRaw s @ crlf else []) @ crlf"

text \<open>The text of the alert mail; \<open>None\<close> when no mail is sent.\<close>

definition SendIPTAlert :: "MailerConfig option \<Rightarrow> (time \<Rightarrow> gostring) \<Rightarrow> time \<Rightarrow> gostring \<Rightarrow> AccountStatus list \<Rightarrow> gostring option" where
  "SendIPTAlert m fmt t to failed =
     (case m of
        None \<Rightarrow> None
      | Some cfg \<Rightarrow>
          if \<not> Enabled m \<or> failed = [] \<or> to = [] then None
          else Some
            (''From: sender.report <'' @ From cfg @ ''>'' @ crlf @ ''To: '' @ to @ crlf
             @ ''Subject: [sender.report] IPT seed account failure ('' @ show_nat (length failed) @ '' account(s))'' @ crlf
             @ ''MIME-Version: 1.0'' @ crlf @ ''Content-Type: text/plain; charset=utf-8'' @ crlf @ crlf
             @ ''sender.report '' @ [CHR 0xE2, CHR 0x80, CHR 0x93] @ '' Inbox Placement Testing alert'' @ crlf
             @ ''Checked: '' @ fmt t @ crlf @ replicate 60 (CHR ''-'') @ crlf @ crlf
             @ show_nat (length failed) @ '' seed account(s) failed connectivity/auth check:'' @ crlf @ crlf
             @ concat (map (alert_entry (IncludeRawErrs cfg) fmt) failed)
             @ replicate 60 (CHR ''-'') @ crlf
             @ ''Action: check the account credentials and IMAP host in seeds.json.'' @ crlf
             @ ''Users selecting these providers will see them as unavailable.'' @ crlf))"

subsection \<open>Validated seeds can be picked from\<close>

definition provider_ok :: "Provider \<Rightarrow> bool" where
  "provider_ok p = (trim_space (ProviderName p) \<noteq> [] \<and> contains (IMAP p) '':'' \<and> Accounts p \<noteq> []
     \<and> list_all (\<lambda>a. User a \<noteq> [] \<and> Pass a \<noteq> []) (Accounts p))"

lemma check_accounts_None: "check_accounts p j as = None \<longleftrightarrow> list_all (\<lambda>a. User a \<noteq> [] \<and> Pass a \<noteq> []) as"
  by (induction as arbitrary: j) auto

lemma check_providers_None: "check_providers i ps = None \<longleftrightarrow> list_all provider_ok ps"
proof (induction ps arbitrary: i)
  case (Cons p ps)
  then show ?case
    using check_accounts_None [of "ProviderName p" 0 "Accounts p"]
    by (cases "check_accounts (ProviderName p) 0 (Accounts p)") (auto simp: provider_ok_def)
qed simp

lemma pick_from_ok:
  assumes "\<forall>p\<in>set ps. Accounts p \<noteq> []" "\<And>i k. 0 < k \<Longrightarrow> rnd i k < k"
  shows "\<exists>vs as. pick_from rnd i ps = Some (vs, as) \<and> length vs = length ps
    \<and> list_all2 (\<lambda>p a. a \<in> set (Accounts p)) ps as
    \<and> vs = map2 (\<lambda>p a. \<lparr>SeedProvider = ProviderName p, SeedAddress = User a\<rparr>) ps as"
  using assms(1)
proof (induction ps arbitrary: i)
  case (Cons p ps)
  then obtain vs as where r: "pick_from rnd (i + 1) ps = Some (vs, as)" "length vs = length ps"
      "list_all2 (\<lambda>p a. a \<in> set (Accounts p)) ps as"
      "vs = map2 (\<lambda>p a. \<lparr>SeedProvider = ProviderName p, SeedAddress = User a\<rparr>) ps as"
    by fastforce
  have k: "rnd i (length (Accounts p)) < length (Accounts p)" using Cons.prems assms(2) by simp
  then have "Accounts p ! rnd i (length (Accounts p)) \<in> set (Accounts p)" by simp
  with r k Cons.prems show ?case by (auto simp: Let_def)
qed simp

lemma Filter_subset: "p \<in> set (Filter ps sel) \<Longrightarrow> p \<in> set ps"
  by (auto simp: Filter_def split: if_splits)

text \<open>
  A seed configuration that \<open>Validate\<close> accepts can always be picked from, for every selection of
  providers and every random source: one account of each selected provider is chosen, in order, and
  the view given to the client names that provider and the account's address.
\<close>

theorem validated_seeds_pick:
  assumes "Validate ps = None" "\<And>i k. 0 < k \<Longrightarrow> rnd i k < k"
  shows "\<exists>vs as. Pick rnd (Filter ps selected) = Some (vs, as) \<and> length vs = length (Filter ps selected)
    \<and> list_all2 (\<lambda>p a. a \<in> set (Accounts p)) (Filter ps selected) as
    \<and> vs = map2 (\<lambda>p a. \<lparr>SeedProvider = ProviderName p, SeedAddress = User a\<rparr>) (Filter ps selected) as"
proof -
  from assms(1) have "list_all provider_ok ps"
    by (auto simp: Validate_def check_providers_None split: if_splits)
  then have "\<forall>p\<in>set (Filter ps selected). Accounts p \<noteq> []"
    using Filter_subset by (fastforce simp: list_all_iff provider_ok_def)
  from pick_from_ok [OF this assms(2)] show ?thesis by (simp add: Pick_def)
qed

theorem validated_seeds_pick_witness:
  "\<exists>vs as. Pick (\<lambda>i k. k - 1) (Filter
       [\<lparr>ProviderName = ''Gmail'', IMAP = ''imap.gmail.com:993'', Accounts = [\<lparr>User = ''a@gmail.com'', Pass = ''x''\<rparr>, \<lparr>User = ''b@gmail.com'', Pass = ''y''\<rparr>]\<rparr>,
        \<lparr>ProviderName = ''GMX'', IMAP = ''imap.gmx.net:993'', Accounts = [\<lparr>User = ''c@gmx.net'', Pass = ''z''\<rparr>]\<rparr>] [''gmail'']) = Some (vs, as)
     \<and> length vs = 1"
proof -
  let ?ps = "[\<lparr>ProviderName = ''Gmail'', IMAP = ''imap.gmail.com:993'', Accounts = [\<lparr>User = ''a@gmail.com'', Pass = ''x''\<rparr>, \<lparr>User = ''b@gmail.com'', Pass = ''y''\<rparr>]\<rparr>,
        \<lparr>ProviderName = ''GMX'', IMAP = ''imap.gmx.net:993'', Accounts = [\<lparr>User = ''c@gmx.net'', Pass = ''z''\<rparr>]\<rparr>]"
  have v: "Validate ?ps = None" by code_simp
  have "length (Filter ?ps [''gmail'']) = 1" by code_simp
  with validated_seeds_pick [OF v, of "\<lambda>i k. k - 1" "[''gmail'']"] show ?thesis by auto
qed

subsection \<open>What a poll reports\<close>

lemma tryFind_INBOX_first: "dial_ok c \<Longrightarrow> login_ok c acc \<Longrightarrow> searchFolder c ''INBOX'' \<Longrightarrow> tryFind spam acc c = ''INBOX''"
  by (simp add: tryFind_def)

text \<open>
  A poll reports timeout exactly when no lookup found the message; otherwise it reports the folder of the
  first lookup that found it, with the instant of that lookup, as inbox exactly when that folder is INBOX.
\<close>

theorem pollOne_first_hit:
  "(case find (\<lambda>(t, c). tryFind spam acc c \<noteq> []) (start # ticks) of
      None \<Rightarrow> RStatus (pollOne spam seed acc start ticks deadline) = ''timeout''
        \<and> CheckedAt (pollOne spam seed acc start ticks deadline) = deadline
    | Some (t, c) \<Rightarrow> Folder (pollOne spam seed acc start ticks deadline) = tryFind spam acc c
        \<and> CheckedAt (pollOne spam seed acc start ticks deadline) = t
        \<and> RStatus (pollOne spam seed acc start ticks deadline) = (if tryFind spam acc c = ''INBOX'' then ''inbox'' else ''spam''))
   \<and> RAddress (pollOne spam seed acc start ticks deadline) = SeedAddress seed"
proof -
  have "(case find (\<lambda>(t, c). tryFind spam acc c \<noteq> []) ls of
      None \<Rightarrow> RStatus (poll_ticks spam seed acc ls deadline) = ''timeout''
        \<and> CheckedAt (poll_ticks spam seed acc ls deadline) = deadline
    | Some (t, c) \<Rightarrow> Folder (poll_ticks spam seed acc ls deadline) = tryFind spam acc c
        \<and> CheckedAt (poll_ticks spam seed acc ls deadline) = t
        \<and> RStatus (poll_ticks spam seed acc ls deadline) = (if tryFind spam acc c = ''INBOX'' then ''inbox'' else ''spam''))
   \<and> RAddress (poll_ticks spam seed acc ls deadline) = SeedAddress seed" for ls
    by (induction ls) (auto simp: folderStatus_def Let_def split: option.splits)
  then show ?thesis unfolding pollOne_def by blast
qed

end
