(* ===== verification/Store.thy ===== *)
theory Store
  imports Findings Placement
begin

text \<open>
  The SQLite store: the schema of \<open>internal/db/db.go\<close>, the operations of \<open>internal/store/store.go\<close> and the
  ticker of \<open>internal/cleanup/cleanup.go\<close>.

  A \<open>db\<close> holds the tables as lists of rows in the order of their row ids. The SQL statements are read as SQLite
  documents them: a UNIQUE or FOREIGN KEY violation fails the statement and changes nothing, deleting
  a row deletes the rows that reference it (\<open>ON DELETE CASCADE\<close> with \<open>PRAGMA foreign_keys = ON\<close>), an AUTOINCREMENT
  id is larger than every id handed out before for that table but not necessarily by one (the argument \<open>gap\<close>
  of an insert is how many ids are skipped), the last insert id of the connection changes on an INSERT and
  not on the UPDATE branch of an upsert, and the one connection of the pool runs the statements one after the other.
  DATETIME columns compare as instants. Failures of the disk are not modelled.

  The JSON columns hold values of a type \<open>'j\<close>; \<open>json\<close> gives for each marshalled Go type the writer and the reader of
  \<open>encoding/json\<close>.
\<close>

subsection \<open>Rows\<close>

record Mailbox =
  MailboxRowID :: int
  Token :: gostring
  Address :: gostring
  PublicKey :: gostring
  CreatedIP :: gostring
  MailboxCreatedAt :: time
  ExpiresAt :: time
  LastSeenAt :: time
  CheckDomainAge :: bool
  CheckDomainBlocklist :: bool
  CheckBrokenLinks :: bool

record Message =
  MessageRowID :: int
  MailboxID :: int
  SMTPFrom :: gostring
  RCPTTo :: gostring
  MsgRemoteIP :: gostring
  MsgHELO :: gostring
  ReceivedAt :: time
  RawSource :: gostring
  HeaderBlock :: gostring
  Subject :: gostring
  SizeBytes :: int
  PayloadEnc :: gostring

record 'j report_row =
  rr_id :: int
  rr_message_id :: int
  rr_created_at :: time
  rr_score :: float64
  rr_score_label :: gostring
  checks_json :: 'j
  warnings_json :: 'j
  suggestions_json :: 'j
  headers_json :: 'j
  links_json :: 'j
  spam_signals_json :: 'j

record 'j placement_row =
  pr_id :: int
  pr_mailbox_id :: int
  pr_token :: gostring
  pr_status :: gostring
  pr_created_at :: time
  pr_expires_at :: time
  seeds_json :: 'j
  results_json :: "'j option"

record 'j db =
  mailboxes :: "Mailbox list"
  messages :: "Message list"
  reports :: "'j report_row list"
  placements :: "'j placement_row list"
  counters :: "(gostring \<times> float64) list"
  mailbox_seq :: int
  message_seq :: int
  report_seq :: int
  placement_seq :: int
  last_rowid :: int

record 'j json =
  marshal_checks :: "CheckResult list \<Rightarrow> 'j"
  unmarshal_checks :: "'j \<Rightarrow> CheckResult list"
  marshal_strings :: "gostring list \<Rightarrow> 'j"
  unmarshal_strings :: "'j \<Rightarrow> gostring list"
  marshal_headers :: "(gostring \<rightharpoonup> gostring list) \<Rightarrow> 'j"
  unmarshal_headers :: "'j \<Rightarrow> (gostring \<rightharpoonup> gostring list)"
  marshal_seeds :: "SeedInfo list \<Rightarrow> 'j"
  unmarshal_seeds :: "'j \<Rightarrow> SeedInfo list"
  marshal_results :: "ProviderResult list \<Rightarrow> 'j"
  unmarshal_results :: "'j \<Rightarrow> ProviderResult list"

datatype store_error = ErrNotFound | ErrUnique | ErrForeignKey

text \<open>\<open>time.Time{}\<close>: the first of January of the year 1, as nanoseconds since 1970.\<close>

definition zero_time :: time where "zero_time = - 62135596800 * second"

subsection \<open>The schema\<close>

text \<open>
  The database that \<open>migrate\<close> leaves when it starts on an empty file, and what it does to the
  counters of an existing one: \<open>INSERT OR IGNORE\<close> of the four counters, seeded from the tables. \<open>scores\<close> is
  the value of \<open>COALESCE(SUM(score),0)\<close>, whose rounding is up to SQLite.
\<close>

definition insert_or_ignore :: "gostring \<Rightarrow> float64 \<Rightarrow> 'j db \<Rightarrow> 'j db" where
  "insert_or_ignore k v d =
     (if map_of (counters d) k \<noteq> None then d
      else d\<lparr>counters := counters d @ [(k, v)], last_rowid := int (length (counters d)) + 1\<rparr>)"

definition migrate :: "float64 \<Rightarrow> 'j db \<Rightarrow> 'j db" where
  "migrate scores d =
     (let d = insert_or_ignore ''mailboxes_created'' (fl (of_nat (length (mailboxes d)))) d;
          d = insert_or_ignore ''messages_received'' (fl (of_nat (length (messages d)))) d;
          d = insert_or_ignore ''reports_generated'' (fl (of_nat (length (reports d)))) d
      in insert_or_ignore ''score_sum'' scores d)"

definition empty_db :: "'j db" where
  "empty_db = \<lparr>mailboxes = [], messages = [], reports = [], placements = [], counters = [],
     mailbox_seq = 0, message_seq = 0, report_seq = 0, placement_seq = 0, last_rowid = 0\<rparr>"

subsection \<open>Counters\<close>

definition incrCounter :: "gostring \<Rightarrow> float64 \<Rightarrow> 'j db \<Rightarrow> 'j db" where
  "incrCounter k delta d =
     (if map_of (counters d) k = None
      then d\<lparr>counters := counters d @ [(k, delta)], last_rowid := int (length (counters d)) + 1\<rparr>
      else d\<lparr>counters := map (\<lambda>(k', v). (k', if k' = k then fadd v delta else v)) (counters d)\<rparr>)"

definition counterValue :: "gostring \<Rightarrow> 'j db \<Rightarrow> float64" where
  "counterValue k d = (case map_of (counters d) k of Some v \<Rightarrow> v | None \<Rightarrow> 0)"

subsection \<open>Mailboxes\<close>

definition CreateMailbox :: "gostring \<Rightarrow> gostring \<Rightarrow> gostring \<Rightarrow> gostring \<Rightarrow> duration \<Rightarrow> time \<Rightarrow> nat \<Rightarrow> 'j db \<Rightarrow> (store_error + Mailbox) \<times> 'j db" where
  "CreateMailbox token address publicKey ip ttl now gap d =
     (if token \<in> Token ` set (mailboxes d) \<or> address \<in> Address ` set (mailboxes d) then (Inl ErrUnique, d)
      else (let i = mailbox_seq d + 1 + int gap;
                mb = \<lparr>MailboxRowID = i, Token = token, Address = address, PublicKey = publicKey, CreatedIP = ip,
                      MailboxCreatedAt = now, ExpiresAt = now + ttl, LastSeenAt = now,
                      CheckDomainAge = False, CheckDomainBlocklist = False, CheckBrokenLinks = False\<rparr>
            in (Inr mb, incrCounter ''mailboxes_created'' 1
                  (d\<lparr>mailboxes := mailboxes d @ [mb], mailbox_seq := i, last_rowid := i\<rparr>))))"

definition CountActiveMailboxesByIP :: "gostring \<Rightarrow> time \<Rightarrow> 'j db \<Rightarrow> nat" where
  "CountActiveMailboxesByIP ip now d = length (filter (\<lambda>b. CreatedIP b = ip \<and> now < ExpiresAt b) (mailboxes d))"

definition CountActiveMailboxes :: "time \<Rightarrow> 'j db \<Rightarrow> nat" where
  "CountActiveMailboxes now d = length (filter (\<lambda>b. now < ExpiresAt b) (mailboxes d))"

definition scanRow :: "'r option \<Rightarrow> store_error + 'r" where
  "scanRow r = (case r of Some x \<Rightarrow> Inr x | None \<Rightarrow> Inl ErrNotFound)"

definition GetMailboxByToken :: "gostring \<Rightarrow> 'j db \<Rightarrow> store_error + Mailbox" where
  "GetMailboxByToken token d = scanRow (find (\<lambda>b. Token b = token) (mailboxes d))"

definition GetMailboxByAddress :: "gostring \<Rightarrow> 'j db \<Rightarrow> store_error + Mailbox" where
  "GetMailboxByAddress address d = scanRow (find (\<lambda>b. to_lower (Address b) = to_lower address) (mailboxes d))"

definition GetMailboxByID :: "int \<Rightarrow> 'j db \<Rightarrow> store_error + Mailbox" where
  "GetMailboxByID i d = scanRow (find (\<lambda>b. MailboxRowID b = i) (mailboxes d))"

text \<open>\<open>UPDATE table SET ... WHERE p\<close>: the rows, and whether one was affected.\<close>

definition update_rows :: "('r \<Rightarrow> bool) \<Rightarrow> ('r \<Rightarrow> 'r) \<Rightarrow> 'r list \<Rightarrow> 'r list" where
  "update_rows p f rs = map (\<lambda>r. if p r then f r else r) rs"

definition affected :: "('r \<Rightarrow> bool) \<Rightarrow> 'r list \<Rightarrow> (store_error + unit)" where
  "affected p rs = (if list_ex p rs then Inr () else Inl ErrNotFound)"

definition UpdateMailboxChecks :: "gostring \<Rightarrow> bool \<Rightarrow> bool \<Rightarrow> bool \<Rightarrow> 'j db \<Rightarrow> (store_error + unit) \<times> 'j db" where
  "UpdateMailboxChecks token domainAge domainBlocklist brokenLinks d =
     (affected (\<lambda>b. Token b = token) (mailboxes d),
      d\<lparr>mailboxes := update_rows (\<lambda>b. Token b = token)
          (\<lambda>b. b\<lparr>CheckDomainAge := domainAge, CheckDomainBlocklist := domainBlocklist, CheckBrokenLinks := brokenLinks\<rparr>)
          (mailboxes d)\<rparr>)"

definition TouchMailbox :: "int \<Rightarrow> time \<Rightarrow> 'j db \<Rightarrow> 'j db" where
  "TouchMailbox i now d =
     d\<lparr>mailboxes := update_rows (\<lambda>b. MailboxRowID b = i) (\<lambda>b. b\<lparr>LastSeenAt := now\<rparr>) (mailboxes d)\<rparr>"

subsection \<open>Messages\<close>

definition SaveMessage :: "Message \<Rightarrow> time \<Rightarrow> nat \<Rightarrow> 'j db \<Rightarrow> (store_error + Message) \<times> 'j db" where
  "SaveMessage m now gap d =
     (let m = (if ReceivedAt m = zero_time then m\<lparr>ReceivedAt := now\<rparr> else m)
      in if MailboxID m \<notin> MailboxRowID ` set (mailboxes d) then (Inl ErrForeignKey, d)
         else (let i = message_seq d + 1 + int gap; m = m\<lparr>MessageRowID := i\<rparr>
               in (Inr m, incrCounter ''messages_received'' 1
                     (d\<lparr>messages := messages d @ [m], message_seq := i, last_rowid := i\<rparr>))))"

definition GetMessage :: "int \<Rightarrow> 'j db \<Rightarrow> store_error + Message" where
  "GetMessage i d = scanRow (find (\<lambda>m. MessageRowID m = i) (messages d))"

text \<open>\<open>ORDER BY received_at DESC\<close>; rows with the same instant stay in the order of their ids.\<close>

definition newest_first :: "('r \<Rightarrow> time) \<Rightarrow> 'r list \<Rightarrow> 'r list" where
  "newest_first t rs = sort_key (\<lambda>r. - t r) rs"

definition limit_of :: "int \<Rightarrow> nat" where
  "limit_of n = (if n \<le> 0 then 20 else nat n)"

definition ListMessagesByMailbox :: "int \<Rightarrow> int \<Rightarrow> 'j db \<Rightarrow> Message list" where
  "ListMessagesByMailbox mailboxID n d =
     take (limit_of n) (newest_first ReceivedAt (filter (\<lambda>m. MailboxID m = mailboxID) (messages d)))"

definition UpdateMessagePayloadEnc :: "int \<Rightarrow> gostring \<Rightarrow> 'j db \<Rightarrow> (store_error + unit) \<times> 'j db" where
  "UpdateMessagePayloadEnc messageID payloadEnc d =
     (affected (\<lambda>m. MessageRowID m = messageID) (messages d),
      d\<lparr>messages := update_rows (\<lambda>m. MessageRowID m = messageID) (\<lambda>m. m\<lparr>PayloadEnc := payloadEnc\<rparr>) (messages d)\<rparr>)"

subsection \<open>Reports\<close>

definition report_values :: "'j json \<Rightarrow> AnalysisReport \<Rightarrow> 'j report_row \<Rightarrow> 'j report_row" where
  "report_values js r row =
     row\<lparr>rr_created_at := CreatedAt r, rr_score := Score r, rr_score_label := ScoreLabel r,
         checks_json := marshal_checks js (Checks r), warnings_json := marshal_strings js (Warnings r),
         suggestions_json := marshal_strings js (Suggestions r), headers_json := marshal_headers js (RawHeaders r),
         links_json := marshal_strings js (Links r), spam_signals_json := marshal_strings js (SpamSignals r)\<rparr>"

definition report_row_of :: "'j json \<Rightarrow> int \<Rightarrow> AnalysisReport \<Rightarrow> 'j report_row" where
  "report_row_of js i r =
     \<lparr>rr_id = i, rr_message_id = MessageID r, rr_created_at = CreatedAt r, rr_score = Score r, rr_score_label = ScoreLabel r,
      checks_json = marshal_checks js (Checks r), warnings_json = marshal_strings js (Warnings r),
      suggestions_json = marshal_strings js (Suggestions r), headers_json = marshal_headers js (RawHeaders r),
      links_json = marshal_strings js (Links r), spam_signals_json = marshal_strings js (SpamSignals r)\<rparr>"

text \<open>\<open>scanReport\<close>: the report a row gives; a field that no column holds has its zero value.\<close>

definition scanReport :: "'j json \<Rightarrow> 'j report_row \<Rightarrow> AnalysisReport" where
  "scanReport js row =
     \<lparr>ReportID = rr_id row, MessageID = rr_message_id row, CreatedAt = rr_created_at row, Score = rr_score row,
      ScoreLabel = rr_score_label row, MailType = [], Checks = unmarshal_checks js (checks_json row),
      Warnings = unmarshal_strings js (warnings_json row), Suggestions = unmarshal_strings js (suggestions_json row),
      RawHeaders = unmarshal_headers js (headers_json row), Links = unmarshal_strings js (links_json row),
      SpamSignals = unmarshal_strings js (spam_signals_json row)\<rparr>"

definition GetReport :: "'j json \<Rightarrow> int \<Rightarrow> 'j db \<Rightarrow> store_error + AnalysisReport" where
  "GetReport js reportID d = map_sum id (scanReport js) (scanRow (find (\<lambda>r. rr_id r = reportID) (reports d)))"

definition GetReportByMessageID :: "'j json \<Rightarrow> int \<Rightarrow> 'j db \<Rightarrow> store_error + AnalysisReport" where
  "GetReportByMessageID js messageID d =
     map_sum id (scanReport js) (scanRow (find (\<lambda>r. rr_message_id r = messageID) (reports d)))"

definition has_report :: "int \<Rightarrow> 'j db \<Rightarrow> bool" where
  "has_report messageID d = list_ex (\<lambda>r. rr_message_id r = messageID) (reports d)"

definition SaveReport :: "'j json \<Rightarrow> AnalysisReport \<Rightarrow> time \<Rightarrow> nat \<Rightarrow> 'j db \<Rightarrow> (store_error + AnalysisReport) \<times> 'j db" where
  "SaveReport js report now gap d =
     (let report = (if CreatedAt report = zero_time then report\<lparr>CreatedAt := now\<rparr> else report);
          isNewReport = (\<not> has_report (MessageID report) d)
      in if isNewReport \<and> MessageID report \<notin> MessageRowID ` set (messages d) then (Inl ErrForeignKey, d)
         else (let i = report_seq d + 1 + int gap;
                   d1 = (if isNewReport
                         then d\<lparr>reports := reports d @ [report_row_of js i report], report_seq := i, last_rowid := i\<rparr>
                         else d\<lparr>reports := update_rows (\<lambda>r. rr_message_id r = MessageID report) (report_values js report) (reports d)\<rparr>);
                   newid = last_rowid d1;
                   d2 = (if isNewReport
                         then incrCounter ''score_sum'' (Score report) (incrCounter ''reports_generated'' 1 d1) else d1)
               in (Inr (if 0 < newid then report\<lparr>ReportID := newid\<rparr>
                        else (case GetReportByMessageID js (MessageID report) d2 of
                            Inr r \<Rightarrow> report\<lparr>ReportID := ReportID r\<rparr>
                          | Inl e \<Rightarrow> report)), d2)))"

definition UpdateReportScoreChecks :: "int \<Rightarrow> float64 \<Rightarrow> gostring \<Rightarrow> 'j \<Rightarrow> 'j db \<Rightarrow> (store_error + unit) \<times> 'j db" where
  "UpdateReportScoreChecks messageID score label checksJSON d =
     (affected (\<lambda>r. rr_message_id r = messageID) (reports d),
      d\<lparr>reports := update_rows (\<lambda>r. rr_message_id r = messageID)
          (\<lambda>r. r\<lparr>rr_score := score, rr_score_label := label, checks_json := checksJSON\<rparr>) (reports d)\<rparr>)"

text \<open>The LEFT JOIN: a row per matching report, one row with NULLs when there is none.\<close>

definition left_join :: "'j db \<Rightarrow> Message list \<Rightarrow> (Message \<times> 'j report_row option) list" where
  "left_join d ms = concat (map (\<lambda>m.
     case filter (\<lambda>r. rr_message_id r = MessageRowID m) (reports d) of
       [] \<Rightarrow> [(m, None)] | rs \<Rightarrow> map (\<lambda>r. (m, Some r)) rs) ms)"

definition ListMessagesWithReports :: "'j json \<Rightarrow> int \<Rightarrow> int \<Rightarrow> 'j db \<Rightarrow> (Message \<times> AnalysisReport option) list" where
  "ListMessagesWithReports js mailboxID n d =
     map (\<lambda>(m, row). (m, map_option (\<lambda>r. (scanReport js r)\<lparr>MessageID := MessageRowID m\<rparr>) row))
       (take (limit_of n) (newest_first (\<lambda>(m, row). ReceivedAt m)
         (left_join d (filter (\<lambda>m. MailboxID m = mailboxID) (messages d)))))"

subsection \<open>Deletion and retention\<close>

text \<open>\<open>DELETE\<close> with its cascades.\<close>

definition delete_messages :: "(Message \<Rightarrow> bool) \<Rightarrow> 'j db \<Rightarrow> 'j db" where
  "delete_messages p d =
     (let gone = MessageRowID ` set (filter p (messages d))
      in d\<lparr>messages := filter (\<lambda>m. \<not> p m) (messages d), reports := filter (\<lambda>r. rr_message_id r \<notin> gone) (reports d)\<rparr>)"

definition delete_mailboxes :: "(Mailbox \<Rightarrow> bool) \<Rightarrow> 'j db \<Rightarrow> 'j db" where
  "delete_mailboxes p d =
     (let gone = MailboxRowID ` set (filter p (mailboxes d));
          d1 = delete_messages (\<lambda>m. MailboxID m \<in> gone) d
      in d1\<lparr>mailboxes := filter (\<lambda>b. \<not> p b) (mailboxes d), placements := filter (\<lambda>t. pr_mailbox_id t \<notin> gone) (placements d)\<rparr>)"

definition DeleteMailboxByToken :: "gostring \<Rightarrow> 'j db \<Rightarrow> (store_error + unit) \<times> 'j db" where
  "DeleteMailboxByToken token d =
     (affected (\<lambda>b. Token b = token) (mailboxes d), delete_mailboxes (\<lambda>b. Token b = token) d)"

record GlobalStats =
  TotalMailboxes :: int
  ActiveMailboxes :: int
  TotalMessages :: int
  TotalReports :: int
  AvgScore :: float64

definition GetGlobalStats :: "time \<Rightarrow> 'j db \<Rightarrow> GlobalStats" where
  "GetGlobalStats now d =
     (let n = to_int (counterValue ''reports_generated'' d)
      in \<lparr>TotalMailboxes = to_int (counterValue ''mailboxes_created'' d), ActiveMailboxes = int (CountActiveMailboxes now d),
          TotalMessages = to_int (counterValue ''messages_received'' d), TotalReports = n,
          AvgScore = (if 0 < n then fdiv (counterValue ''score_sum'' d) (fl (of_int n)) else 0)\<rparr>)"

definition Cleanup :: "time \<Rightarrow> duration \<Rightarrow> 'j db \<Rightarrow> (nat \<times> nat) \<times> 'j db" where
  "Cleanup now retention d =
     (let cutoff = now - retention;
          deletedMessages = length (filter (\<lambda>m. ReceivedAt m < cutoff) (messages d));
          d1 = delete_messages (\<lambda>m. ReceivedAt m < cutoff) d;
          deletedMailboxes = length (filter (\<lambda>b. ExpiresAt b < cutoff) (mailboxes d1))
      in ((deletedMailboxes, deletedMessages), delete_mailboxes (\<lambda>b. ExpiresAt b < cutoff) d1))"

text \<open>The ticker of \<open>cleanup.Start\<close>: one \<open>Cleanup\<close> per tick.\<close>

definition cleanup_Start :: "duration \<Rightarrow> time list \<Rightarrow> 'j db \<Rightarrow> 'j db" where
  "cleanup_Start retention ticks d = fold (\<lambda>t d. snd (Cleanup t retention d)) ticks d"

subsection \<open>Inbox placement tests\<close>

definition CreatePlacementTest :: "'j json \<Rightarrow> int \<Rightarrow> gostring \<Rightarrow> SeedInfo list \<Rightarrow> time \<Rightarrow> time \<Rightarrow> nat \<Rightarrow> 'j db \<Rightarrow> (store_error + unit) \<times> 'j db" where
  "CreatePlacementTest js mailboxID token seeds expiresAt now gap d =
     (if token \<in> pr_token ` set (placements d) then (Inl ErrUnique, d)
      else if mailboxID \<notin> MailboxRowID ` set (mailboxes d) then (Inl ErrForeignKey, d)
      else (let i = placement_seq d + 1 + int gap;
                row = \<lparr>pr_id = i, pr_mailbox_id = mailboxID, pr_token = token, pr_status = ''waiting'', pr_created_at = now,
                       pr_expires_at = expiresAt, seeds_json = marshal_seeds js seeds, results_json = None\<rparr>
            in (Inr (), d\<lparr>placements := placements d @ [row], placement_seq := i, last_rowid := i\<rparr>)))"

text \<open>\<open>scanPlacementTest\<close>; a NULL \<open>results_json\<close> is read as the empty JSON array.\<close>

definition scanPlacementTest :: "'j json \<Rightarrow> 'j placement_row \<Rightarrow> PlacementTest" where
  "scanPlacementTest js row =
     \<lparr>TestID = pr_id row, TestMailboxID = pr_mailbox_id row, PlacementToken = pr_token row, TestStatus = pr_status row,
      TestCreatedAt = pr_created_at row, TestExpiresAt = pr_expires_at row, Seeds = unmarshal_seeds js (seeds_json row),
      Results = (case results_json row of Some j \<Rightarrow> unmarshal_results js j | None \<Rightarrow> [])\<rparr>"

definition GetPlacementTest :: "'j json \<Rightarrow> gostring \<Rightarrow> 'j db \<Rightarrow> store_error + PlacementTest" where
  "GetPlacementTest js token d =
     map_sum id (scanPlacementTest js) (scanRow (find (\<lambda>t. pr_token t = token) (placements d)))"

definition UpdatePlacementTestResult :: "'j json \<Rightarrow> gostring \<Rightarrow> ProviderResult list \<Rightarrow> gostring \<Rightarrow> 'j db \<Rightarrow> 'j db" where
  "UpdatePlacementTestResult js token rs st d =
     d\<lparr>placements := update_rows (\<lambda>t. pr_token t = token)
         (\<lambda>t. t\<lparr>results_json := Some (marshal_results js rs), pr_status := st\<rparr>) (placements d)\<rparr>"

definition GetMailboxPlacementTests :: "'j json \<Rightarrow> int \<Rightarrow> 'j db \<Rightarrow> PlacementTest list" where
  "GetMailboxPlacementTests js mailboxID d =
     map (scanPlacementTest js) (newest_first pr_created_at (filter (\<lambda>t. pr_mailbox_id t = mailboxID) (placements d)))"

subsection \<open>Tables\<close>

text \<open>The ids of a table and the largest id handed out for it.\<close>

definition keys_ok :: "int list \<Rightarrow> int \<Rightarrow> bool" where
  "keys_ok ks s \<longleftrightarrow> sorted_wrt (<) ks \<and> list_all (\<lambda>k. 0 < k \<and> k \<le> s) ks \<and> 0 \<le> s"

lemma keys_ok_append [tbl]: "keys_ok ks s \<Longrightarrow> s < i \<Longrightarrow> keys_ok (ks @ [i]) i"
  by (auto simp: keys_ok_def sorted_wrt_append list_all_iff)

lemma keys_ok_map_filter [tbl]: "keys_ok (map f rs) s \<Longrightarrow> keys_ok (map f (filter p rs)) s"
  unfolding keys_ok_def by (auto simp: sorted_wrt_map list_all_iff intro: sorted_wrt_filter)

lemma keys_ok_distinct: "keys_ok ks s \<Longrightarrow> distinct ks"
  unfolding keys_ok_def strict_sorted_iff by blast

lemma keys_ok_fresh: "keys_ok ks s \<Longrightarrow> s < i \<Longrightarrow> i \<notin> set ks"
  by (auto simp: keys_ok_def list_all_iff)

lemma update_rows_map [simp]: "(\<And>r. g (f r) = g r) \<Longrightarrow> map g (update_rows p f rs) = map g rs"
  by (simp add: update_rows_def)

lemma update_rows_image [simp]: "(\<And>r. g (f r) = g r) \<Longrightarrow> g ` set (update_rows p f rs) = g ` set rs"
  by (metis list.set_map update_rows_map)

lemma update_rows_id: "(\<And>r. r \<in> set rs \<Longrightarrow> \<not> p r) \<Longrightarrow> update_rows p f rs = rs"
  by (auto simp: update_rows_def intro: map_idI)

lemma distinct_map_filter_eq:
  "distinct (map f rs) \<Longrightarrow> x \<in> set rs \<Longrightarrow> filter (\<lambda>r. f r = f x) rs = [x]"
proof (induction rs)
  case (Cons r rs)
  show ?case
  proof (cases "r = x")
    case True
    with Cons.prems have "filter (\<lambda>r. f r = f x) rs = []" by (force simp: filter_empty_conv image_iff)
    with True show ?thesis by simp
  next
    case False
    with Cons.prems have "x \<in> set rs" "f r \<noteq> f x" by force+
    with Cons show ?thesis by simp
  qed
qed simp

lemma find_unique: "distinct (map f rs) \<Longrightarrow> x \<in> set rs \<Longrightarrow> find (\<lambda>r. f r = f x) rs = Some x"
  by (induction rs) force+

definition store_inv :: "'j db \<Rightarrow> bool" where
  "store_inv d \<longleftrightarrow>
     keys_ok (map MailboxRowID (mailboxes d)) (mailbox_seq d)
     \<and> distinct (map Token (mailboxes d)) \<and> distinct (map Address (mailboxes d))
     \<and> keys_ok (map MessageRowID (messages d)) (message_seq d)
     \<and> set (map MailboxID (messages d)) \<subseteq> set (map MailboxRowID (mailboxes d))
     \<and> keys_ok (map rr_id (reports d)) (report_seq d) \<and> distinct (map rr_message_id (reports d))
     \<and> set (map rr_message_id (reports d)) \<subseteq> set (map MessageRowID (messages d))
     \<and> keys_ok (map pr_id (placements d)) (placement_seq d) \<and> distinct (map pr_token (placements d))
     \<and> set (map pr_mailbox_id (placements d)) \<subseteq> set (map MailboxRowID (mailboxes d))
     \<and> distinct (map fst (counters d))"

lemma distinct_map_filter [tbl]: "distinct (map f rs) \<Longrightarrow> distinct (map f (filter p rs))"
  by (induction rs) auto

lemma counters_incr [simp]: "map fst (counters (incrCounter k v d)) =
    map fst (counters d) @ (if k \<in> set (map fst (counters d)) then [] else [k])"
  by (auto simp: incrCounter_def map_of_eq_None_iff)

lemma incrCounter_tables [simp]:
  "mailboxes (incrCounter k v d) = mailboxes d" "messages (incrCounter k v d) = messages d"
  "reports (incrCounter k v d) = reports d" "placements (incrCounter k v d) = placements d"
  "mailbox_seq (incrCounter k v d) = mailbox_seq d" "message_seq (incrCounter k v d) = message_seq d"
  "report_seq (incrCounter k v d) = report_seq d" "placement_seq (incrCounter k v d) = placement_seq d"
  by (simp_all add: incrCounter_def)

lemma store_inv_incr [simp]: "store_inv (incrCounter k v d) = store_inv d"
  unfolding store_inv_def counters_incr incrCounter_tables by (auto simp del: counters_incr)

lemma CreateMailbox_inv: "store_inv d \<Longrightarrow> store_inv (snd (CreateMailbox t a pk ip ttl now gap d))"
  by (auto simp: CreateMailbox_def Let_def store_inv_def intro!: tbl)

lemma SaveMessage_inv: "store_inv d \<Longrightarrow> store_inv (snd (SaveMessage m now gap d))"
  by (auto simp: SaveMessage_def Let_def store_inv_def intro!: tbl)

lemma has_report_iff: "has_report i d \<longleftrightarrow> i \<in> set (map rr_message_id (reports d))"
  by (auto simp: has_report_def list_ex_iff)

lemma report_values_keys [simp]:
  "rr_id (report_values js r row) = rr_id row" "rr_message_id (report_values js r row) = rr_message_id row"
  by (simp_all add: report_values_def)

lemma report_row_of_keys [simp]: "rr_id (report_row_of js i r) = i" "rr_message_id (report_row_of js i r) = MessageID r"
  by (simp_all add: report_row_of_def)

lemma SaveReport_inv: "store_inv d \<Longrightarrow> store_inv (snd (SaveReport js r now gap d))"
  by (auto simp: SaveReport_def Let_def has_report_iff store_inv_def simp del: image_subset_iff intro!: tbl)

lemma updates_inv:
  assumes "store_inv d"
  shows "store_inv (snd (UpdateMailboxChecks t x y z d))" "store_inv (TouchMailbox i now d)"
    "store_inv (snd (UpdateMessagePayloadEnc i p d))" "store_inv (snd (UpdateReportScoreChecks i s l cj d))"
    "store_inv (UpdatePlacementTestResult js t rs st d)"
  using assms
  by (simp_all add: store_inv_def UpdateMailboxChecks_def TouchMailbox_def UpdateMessagePayloadEnc_def
      UpdateReportScoreChecks_def UpdatePlacementTestResult_def del: set_map)

lemma delete_messages_inv: "store_inv d \<Longrightarrow> store_inv (delete_messages p d)"
  unfolding store_inv_def delete_messages_def Let_def
  by (auto intro!: tbl) blast

lemma delete_mailboxes_inv:
  assumes "store_inv d"
  shows "store_inv (delete_mailboxes p d)"
proof -
  let ?gone = "MailboxRowID ` set (filter p (mailboxes d))"
  have "store_inv (delete_messages (\<lambda>m. MailboxID m \<in> ?gone) d)" using assms by (rule delete_messages_inv)
  then show ?thesis
    unfolding store_inv_def delete_mailboxes_def Let_def
    by (auto intro!: tbl simp: delete_messages_def Let_def) blast+
qed

lemma CreatePlacementTest_inv: "store_inv d \<Longrightarrow> store_inv (snd (CreatePlacementTest js i t seeds ex now gap d))"
  by (auto simp: CreatePlacementTest_def Let_def store_inv_def intro!: tbl)

lemma Cleanup_inv: "store_inv d \<Longrightarrow> store_inv (snd (Cleanup now ret d))"
  by (simp add: Cleanup_def Let_def delete_mailboxes_inv delete_messages_inv)

subsection \<open>The store as a state machine\<close>

text \<open>The operations that change the database, with their arguments.\<close>

datatype 'j store_op =
    OpCreateMailbox gostring gostring gostring gostring duration time nat
  | OpUpdateMailboxChecks gostring bool bool bool
  | OpTouchMailbox int time
  | OpSaveMessage Message time nat
  | OpUpdateMessagePayloadEnc int gostring
  | OpSaveReport AnalysisReport time nat
  | OpUpdateReportScoreChecks int float64 gostring 'j
  | OpDeleteMailboxByToken gostring
  | OpCleanup time duration
  | OpCreatePlacementTest int gostring "SeedInfo list" time time nat
  | OpUpdatePlacementTestResult gostring "ProviderResult list" gostring

fun apply_op :: "'j json \<Rightarrow> 'j store_op \<Rightarrow> 'j db \<Rightarrow> 'j db" where
  "apply_op js (OpCreateMailbox t a pk ip ttl now gap) d = snd (CreateMailbox t a pk ip ttl now gap d)"
| "apply_op js (OpUpdateMailboxChecks t x y z) d = snd (UpdateMailboxChecks t x y z d)"
| "apply_op js (OpTouchMailbox i now) d = TouchMailbox i now d"
| "apply_op js (OpSaveMessage m now gap) d = snd (SaveMessage m now gap d)"
| "apply_op js (OpUpdateMessagePayloadEnc i p) d = snd (UpdateMessagePayloadEnc i p d)"
| "apply_op js (OpSaveReport r now gap) d = snd (SaveReport js r now gap d)"
| "apply_op js (OpUpdateReportScoreChecks i s l j) d = snd (UpdateReportScoreChecks i s l j d)"
| "apply_op js (OpDeleteMailboxByToken t) d = snd (DeleteMailboxByToken t d)"
| "apply_op js (OpCleanup now ret) d = snd (Cleanup now ret d)"
| "apply_op js (OpCreatePlacementTest i t ss ex now gap) d = snd (CreatePlacementTest js i t ss ex now gap d)"
| "apply_op js (OpUpdatePlacementTestResult t rs st) d = UpdatePlacementTestResult js t rs st d"

inductive store_step :: "'j json \<Rightarrow> 'j db \<Rightarrow> 'j db \<Rightarrow> bool" for js where
  op: "store_step js d (apply_op js c d)"

inductive_cases store_stepE: "store_step js d e"

definition store_init :: "'j db \<Rightarrow> bool" where
  "store_init d \<longleftrightarrow> d = migrate 0 empty_db"

lemma migrate_inv: "store_inv d \<Longrightarrow> store_inv (migrate s d)"
  by (auto simp: store_inv_def migrate_def insert_or_ignore_def Let_def map_of_eq_None_iff)

lemma empty_inv: "store_inv empty_db"
  by (simp add: store_inv_def empty_db_def keys_ok_def)

lemma apply_op_inv: "store_inv d \<Longrightarrow> store_inv (apply_op js c d)"
  by (cases c) (simp_all add: CreateMailbox_inv SaveMessage_inv SaveReport_inv updates_inv delete_mailboxes_inv
      CreatePlacementTest_inv Cleanup_inv DeleteMailboxByToken_def)

interpretation database: state_machine store_init "store_step js" store_inv
  by unfold_locales (auto simp: store_init_def migrate_inv empty_inv elim!: store_stepE intro: apply_op_inv)

lemma store_inv_fold: "store_inv d \<Longrightarrow> store_inv (fold (apply_op js) ops d)"
  by (induction ops arbitrary: d) (auto intro: apply_op_inv)

lemma store_inv_mailbox: "store_inv d \<Longrightarrow> i \<in> set (map MailboxRowID (mailboxes d)) \<Longrightarrow> \<exists>b. GetMailboxByID i d = Inr b \<and> MailboxRowID b = i"
  by (auto simp: GetMailboxByID_def scanRow_def store_inv_def dest!: keys_ok_distinct find_unique [of MailboxRowID])

lemma store_inv_message: "store_inv d \<Longrightarrow> m \<in> set (messages d) \<Longrightarrow> GetMessage (MessageRowID m) d = Inr m"
  by (auto simp: GetMessage_def scanRow_def store_inv_def dest!: keys_ok_distinct find_unique [of MessageRowID])

lemma store_inv_report: "store_inv d \<Longrightarrow> r \<in> set (reports d) \<Longrightarrow> GetReportByMessageID js (rr_message_id r) d = Inr (scanReport js r)"
  by (auto simp: GetReportByMessageID_def scanRow_def store_inv_def dest!: find_unique [of rr_message_id])

text \<open>
  C9: Whatever sequence of store operations has run on a freshly migrated database, with whatever arguments and outcomes,
  no row is orphaned and every row is found under its key: a mailbox by its token and by its id, a message by its id and
  its mailbox by the message's reference, a report under its message, which exists, and a placement
  test by its token, with its mailbox.
\<close>

theorem store_integrity:
  assumes "(store_step js)\<^sup>*\<^sup>* (migrate 0 empty_db) d"
  shows "(\<forall>b\<in>set (mailboxes d). GetMailboxByToken (Token b) d = Inr b \<and> GetMailboxByID (MailboxRowID b) d = Inr b)
    \<and> (\<forall>m\<in>set (messages d). GetMessage (MessageRowID m) d = Inr m
         \<and> (\<exists>b. GetMailboxByID (MailboxID m) d = Inr b \<and> MailboxRowID b = MailboxID m))
    \<and> (\<forall>r\<in>set (reports d). GetReportByMessageID js (rr_message_id r) d = Inr (scanReport js r)
         \<and> (\<exists>m. GetMessage (rr_message_id r) d = Inr m))
    \<and> (\<forall>t\<in>set (placements d). GetPlacementTest js (pr_token t) d = Inr (scanPlacementTest js t)
         \<and> (\<exists>b. GetMailboxByID (pr_mailbox_id t) d = Inr b))"
proof -
  have inv: "store_inv d" using assms by (rule database.steps_inv) (simp add: migrate_inv empty_inv)
  have boxes: "GetMailboxByToken (Token b) d = Inr b \<and> GetMailboxByID (MailboxRowID b) d = Inr b" if "b \<in> set (mailboxes d)" for b
    using inv that by (auto simp: GetMailboxByToken_def GetMailboxByID_def scanRow_def store_inv_def
        dest!: keys_ok_distinct find_unique [of MailboxRowID] find_unique [of Token])
  have tests: "GetPlacementTest js (pr_token t) d = Inr (scanPlacementTest js t)" if "t \<in> set (placements d)" for t
    using inv that by (auto simp: GetPlacementTest_def scanRow_def store_inv_def dest!: find_unique [of pr_token])
  have refs: "set (map MailboxID (messages d)) \<subseteq> set (map MailboxRowID (mailboxes d))"
    "set (map rr_message_id (reports d)) \<subseteq> set (map MessageRowID (messages d))"
    "set (map pr_mailbox_id (placements d)) \<subseteq> set (map MailboxRowID (mailboxes d))"
    using inv by (simp_all add: store_inv_def)
  from inv refs(2) have rep: "\<exists>m. GetMessage (rr_message_id r) d = Inr m" if "r \<in> set (reports d)" for r
    using that store_inv_message [OF inv] by fastforce
  show ?thesis
    using boxes tests rep store_inv_mailbox [OF inv] store_inv_message [OF inv] store_inv_report [OF inv] refs(1,3)
    by (auto simp: image_subset_iff)
qed

text \<open>
  A concrete database for the examples. \<open>demo_json\<close> stands for a JSON text by the value it denotes.
\<close>

datatype json_text =
    JChecks "CheckResult list" | JStrings "gostring list" | JHeaders "gostring \<rightharpoonup> gostring list"
  | JSeeds "SeedInfo list" | JResults "ProviderResult list"

definition demo_json :: "json_text json" where
  "demo_json = \<lparr>marshal_checks = JChecks, unmarshal_checks = (\<lambda>j. case j of JChecks x \<Rightarrow> x | _ \<Rightarrow> []),
     marshal_strings = JStrings, unmarshal_strings = (\<lambda>j. case j of JStrings x \<Rightarrow> x | _ \<Rightarrow> []),
     marshal_headers = JHeaders, unmarshal_headers = (\<lambda>j. case j of JHeaders x \<Rightarrow> x | _ \<Rightarrow> Map.empty),
     marshal_seeds = JSeeds, unmarshal_seeds = (\<lambda>j. case j of JSeeds x \<Rightarrow> x | _ \<Rightarrow> []),
     marshal_results = JResults, unmarshal_results = (\<lambda>j. case j of JResults x \<Rightarrow> x | _ \<Rightarrow> [])\<rparr>"

definition demo_message :: "int \<Rightarrow> time \<Rightarrow> Message" where
  "demo_message mb t = \<lparr>MessageRowID = 0, MailboxID = mb, SMTPFrom = ''a@b.example'', RCPTTo = ''x@t.example'', MsgRemoteIP = ''192.0.2.1'',
     MsgHELO = ''mx.b.example'', ReceivedAt = t, RawSource = ''raw'', HeaderBlock = ''h'', Subject = ''s'', SizeBytes = 3, PayloadEnc = []\<rparr>"

definition demo_report :: AnalysisReport where
  "demo_report = \<lparr>ReportID = 0, MessageID = 1, CreatedAt = 7, Score = 9, ScoreLabel = ''Excellent'', MailType = ''bulk'', Checks = [],
     Warnings = [''w''], Suggestions = [], RawHeaders = Map.empty, Links = [], SpamSignals = []\<rparr>"

definition demo_ops :: "json_text store_op list" where
  "demo_ops = [OpCreateMailbox ''tok'' ''x@t.example'' [] ''192.0.2.9'' 10 0 0, OpCreateMailbox ''tok'' ''y@t.example'' [] ''192.0.2.9'' 10 0 0,
     OpSaveMessage (demo_message 1 5) 5 0, OpSaveReport demo_report 7 0]"

definition demo_db :: "json_text db" where
  "demo_db = fold (apply_op demo_json) demo_ops (migrate 0 empty_db)"

lemma fold_steps: "(store_step js)\<^sup>*\<^sup>* d (fold (apply_op js) ops d)"
proof (induction ops arbitrary: d)
  case (Cons c ops)
  from Cons.IH [of "apply_op js c d"] show ?case
    using store_step.op [of js d c] by (simp add: converse_rtranclp_into_rtranclp)
qed simp

lemma demo_db_inv: "store_inv demo_db"
  unfolding demo_db_def by (intro store_inv_fold migrate_inv empty_inv)

lemma demo_db_tables:
  "map MailboxRowID (mailboxes demo_db) = [1]" "map MessageRowID (messages demo_db) = [1]" "map rr_message_id (reports demo_db) = [1]"
  by code_simp+

theorem store_integrity_witness:
  "(store_step demo_json)\<^sup>*\<^sup>* (migrate 0 empty_db) demo_db \<and> (\<exists>m. GetMessage 1 demo_db = Inr m)"
proof -
  have steps: "(store_step demo_json)\<^sup>*\<^sup>* (migrate 0 empty_db) demo_db" unfolding demo_db_def by (rule fold_steps)
  moreover have "1 \<in> set (map MessageRowID (messages demo_db))" by (simp add: demo_db_tables)
  ultimately show ?thesis using store_integrity [OF steps] by auto
qed

subsection \<open>Lifetime counters\<close>

text \<open>The counters that an operation on \<open>d\<close> advances by one: the rows it adds.\<close>

fun events :: "'j json \<Rightarrow> 'j store_op \<Rightarrow> 'j db \<Rightarrow> gostring list" where
  "events js (OpCreateMailbox t a pk ip ttl now gap) d =
     (case fst (CreateMailbox t a pk ip ttl now gap d) of Inr b \<Rightarrow> [''mailboxes_created''] | Inl e \<Rightarrow> [])"
| "events js (OpSaveMessage m now gap) d =
     (case fst (SaveMessage m now gap d) of Inr m' \<Rightarrow> [''messages_received''] | Inl e \<Rightarrow> [])"
| "events js (OpSaveReport r now gap) d =
     (case fst (SaveReport js r now gap d) of
        Inr r' \<Rightarrow> (case GetReportByMessageID js (MessageID r) d of Inl e \<Rightarrow> [''reports_generated''] | Inr old \<Rightarrow> []) | Inl e \<Rightarrow> [])"
| "events js c d = []"

fun tally :: "'j json \<Rightarrow> gostring \<Rightarrow> 'j store_op list \<Rightarrow> 'j db \<Rightarrow> nat" where
  "tally js k [] d = 0"
| "tally js k (c # cs) d = count_list (events js c d) k + tally js k cs (apply_op js c d)"

text \<open>The counter table alone: \<open>bump\<close> is what \<open>incrCounter\<close> does to it.\<close>

definition bump :: "gostring \<Rightarrow> float64 \<Rightarrow> (gostring \<times> float64) list \<Rightarrow> (gostring \<times> float64) list" where
  "bump k delta cs = (if map_of cs k = None then cs @ [(k, delta)]
     else map (\<lambda>(k', v). (k', if k' = k then fadd v delta else v)) cs)"

lemma counters_incrCounter: "counters (incrCounter k v d) = bump k v (counters d)"
  by (simp add: incrCounter_def bump_def)

lemma map_of_bump: "map_of (bump k v cs) j =
    (if j = k then Some (case map_of cs k of None \<Rightarrow> v | Some x \<Rightarrow> fadd x v) else map_of cs j)"
proof -
  have "map_of (map (\<lambda>(a, b). (a, if a = k then fadd b v else b)) cs) j =
      map_option (\<lambda>b. if j = k then fadd b v else b) (map_of cs j)"
    by (induction cs) auto
  then show ?thesis by (auto simp: bump_def map_add_def split: option.splits)
qed

lemma GetReportByMessageID_new: "isl (GetReportByMessageID js i d) \<longleftrightarrow> \<not> has_report i d"
  by (induction "reports d" rule: rev_induct)
    (auto simp: GetReportByMessageID_def has_report_def scanRow_def list_ex_iff find_None_iff find_Some_iff split: option.splits)

lemma delete_counters [simp]:
  "counters (delete_messages p d) = counters d" "counters (delete_mailboxes q d) = counters d"
  by (simp_all add: delete_messages_def delete_mailboxes_def Let_def)

lemma SaveReport_counters:
  "counters (snd (SaveReport js r now gap d)) =
     (if events js (OpSaveReport r now gap) d = [] then counters d
      else bump ''score_sum'' (Score r) (bump ''reports_generated'' 1 (counters d)))"
proof (cases "has_report (MessageID r) d")
  case True
  with GetReportByMessageID_new [of js "MessageID r" d] show ?thesis
    by (cases "GetReportByMessageID js (MessageID r) d") (simp_all add: SaveReport_def Let_def)
next
  case False
  with GetReportByMessageID_new [of js "MessageID r" d] show ?thesis
    by (cases "GetReportByMessageID js (MessageID r) d") (simp_all add: SaveReport_def Let_def counters_incrCounter)
qed

lemma apply_op_counters:
  "\<exists>s. counters (apply_op js c d) =
     (let cs = fold (\<lambda>k. bump k 1) (events js c d) (counters d)
      in if ''reports_generated'' \<in> set (events js c d) then bump ''score_sum'' s cs else cs)"
proof (cases c)
  case (OpSaveReport r now gap)
  have "events js c d = [] \<or> events js c d = [''reports_generated'']" using OpSaveReport by (auto split: sum.splits)
  then show ?thesis using SaveReport_counters [of js r now gap d] OpSaveReport by (auto simp del: events.simps)
qed (simp_all add: CreateMailbox_def SaveMessage_def UpdateMailboxChecks_def TouchMailbox_def
      UpdateMessagePayloadEnc_def UpdateReportScoreChecks_def DeleteMailboxByToken_def Cleanup_def
      CreatePlacementTest_def UpdatePlacementTestResult_def Let_def counters_incrCounter)

lemma events_one: "events js c d = [] \<or> (\<exists>k. events js c d = [k] \<and> k \<noteq> ''score_sum'')"
  by (cases c) (auto split: sum.splits)

lemma apply_op_count:
  assumes "map_of (counters d) k = Some (of_nat n)" "k \<noteq> ''score_sum''" "n + count_list (events js c d) k \<le> 2 ^ 53"
  shows "map_of (counters (apply_op js c d)) k = Some (of_nat (n + count_list (events js c d) k))"
proof -
  have exact: "fadd (of_nat n) 1 = of_nat (Suc n)" if "Suc n \<le> 2 ^ 53"
    using fl_int [of "int (Suc n)"] that by (simp add: fadd_def add.commute)
  show ?thesis
    using events_one [of js c d] apply_op_counters [of js c d] assms exact
    by (auto simp: Let_def map_of_bump split: if_splits)
qed

lemma tally_exact:
  assumes "map_of (counters d) k = Some (of_nat n)" "k \<noteq> ''score_sum''" "n + tally js k ops d \<le> 2 ^ 53"
  shows "counterValue k (fold (apply_op js) ops d) = of_nat (n + tally js k ops d)"
  using assms
proof (induction ops arbitrary: d n)
  case (Cons c ops)
  then have "map_of (counters (apply_op js c d)) k = Some (of_nat (n + count_list (events js c d) k))"
    by (intro apply_op_count) auto
  from Cons.IH [OF this] Cons.prems show ?case by (simp add: add.assoc)
qed (simp add: counterValue_def)

lemma tally_le_length: "tally js k cs d \<le> length cs"
proof (induction cs arbitrary: d)
  case (Cons c cs)
  have "count_list (events js c d) k \<le> 1" using events_one [of js c d] by auto
  with Cons.IH [of "apply_op js c d"] show ?case by simp
qed simp

text \<open>
  The totals of the home page are exact over the lifetime of the database: after any sequence of operations on a
  fresh database they equal the number of mailboxes, messages and reports that were stored successfully, a report stored
  again counting once, and neither deletion nor cleanup lowers them (up to 2^53, where float64 stops counting by one).
\<close>

theorem stats_are_lifetime:
  assumes "length ops \<le> 2 ^ 53"
  shows "TotalMailboxes (GetGlobalStats now (fold (apply_op js) ops (migrate 0 empty_db))) =
       int (tally js ''mailboxes_created'' ops (migrate 0 empty_db))
    \<and> TotalMessages (GetGlobalStats now (fold (apply_op js) ops (migrate 0 empty_db))) =
       int (tally js ''messages_received'' ops (migrate 0 empty_db))
    \<and> TotalReports (GetGlobalStats now (fold (apply_op js) ops (migrate 0 empty_db))) =
       int (tally js ''reports_generated'' ops (migrate 0 empty_db))"
proof -
  have start: "map_of (counters (migrate 0 empty_db)) k = Some (of_nat 0)"
    if "k \<in> {''mailboxes_created'', ''messages_received'', ''reports_generated''}" for k :: gostring
    using that by (auto simp: migrate_def insert_or_ignore_def empty_db_def Let_def)
  have "to_int (counterValue k (fold (apply_op js) ops (migrate 0 empty_db))) = int (tally js k ops (migrate 0 empty_db))"
    if "k \<in> {''mailboxes_created'', ''messages_received'', ''reports_generated''}" for k :: gostring
  proof -
    have "0 + tally js k ops (migrate 0 empty_db) \<le> 2 ^ 53"
      using tally_le_length [of js k ops "migrate 0 empty_db"] assms by simp
    with that have "counterValue k (fold (apply_op js) ops (migrate 0 empty_db)) = of_nat (0 + tally js k ops (migrate 0 empty_db))"
      by (intro tally_exact start) auto
    then show ?thesis by (simp add: to_int_def)
  qed
  then show ?thesis by (simp add: GetGlobalStats_def Let_def)
qed

theorem stats_are_lifetime_witness:
  "TotalReports (GetGlobalStats 0 (fold (apply_op demo_json) (demo_ops @ [OpDeleteMailboxByToken ''tok'']) (migrate 0 empty_db))) = 1
   \<and> TotalMailboxes (GetGlobalStats 0 (fold (apply_op demo_json) (demo_ops @ [OpDeleteMailboxByToken ''tok'']) (migrate 0 empty_db))) = 1"
proof -
  have "tally demo_json ''reports_generated'' (demo_ops @ [OpDeleteMailboxByToken ''tok'']) (migrate 0 empty_db) = 1"
    "tally demo_json ''mailboxes_created'' (demo_ops @ [OpDeleteMailboxByToken ''tok'']) (migrate 0 empty_db) = 1" by code_simp+
  moreover have "length (demo_ops @ [OpDeleteMailboxByToken ''tok'']) \<le> 2 ^ 53" by (simp add: demo_ops_def)
  ultimately show ?thesis
    using stats_are_lifetime [of "demo_ops @ [OpDeleteMailboxByToken ''tok'']" 0 demo_json] by auto
qed

subsection \<open>Retention\<close>

lemma delete_mailboxes_tables:
  "mailboxes (delete_mailboxes p d) = filter (\<lambda>b. \<not> p b) (mailboxes d)"
  "messages (delete_mailboxes p d) = filter (\<lambda>m. MailboxID m \<notin> MailboxRowID ` set (filter p (mailboxes d))) (messages d)"
  by (simp_all add: delete_mailboxes_def delete_messages_def Let_def)

lemma reports_of_messages:
  assumes "store_inv d" "store_inv e" "messages e = filter q (messages d)"
    and sub: "\<exists>p. reports e = filter p (reports d)"
    and keep: "\<And>r. r \<in> set (reports d) \<Longrightarrow> rr_message_id r \<in> MessageRowID ` set (filter q (messages d)) \<Longrightarrow> r \<in> set (reports e)"
  shows "reports e = filter (\<lambda>r. rr_message_id r \<in> MessageRowID ` set (filter q (messages d))) (reports d)"
proof -
  obtain p where p: "reports e = filter p (reports d)" using sub by blast
  have "p r \<longleftrightarrow> rr_message_id r \<in> MessageRowID ` set (filter q (messages d))" if "r \<in> set (reports d)" for r
  proof
    assume "p r"
    with p that have "r \<in> set (reports e)" by simp
    with assms(2,3) show "rr_message_id r \<in> MessageRowID ` set (filter q (messages d))"
      unfolding store_inv_def by auto
  next
    assume "rr_message_id r \<in> MessageRowID ` set (filter q (messages d))"
    from keep [OF that this] p show "p r" by simp
  qed
  then show ?thesis using p by (auto intro: filter_cong)
qed



text \<open>
  The window of \<open>Cleanup_exact\<close> is not enforced by the code: expiry is tested before the authentication lookups and
  the arrival is stamped after them. A message stamped after the end of its mailbox's window loses the rest of its retention time.
\<close>

lemma cleanup_before_retention:
  "list_ex (\<lambda>m. 100 - 89 \<le> ReceivedAt m) (messages (apply_op demo_json (OpSaveMessage (demo_message 1 12) 12 0) demo_db))
   \<and> messages (snd (Cleanup 100 89 (apply_op demo_json (OpSaveMessage (demo_message 1 12) 12 0) demo_db))) = []"
  by code_simp

subsection \<open>Reports\<close>

text \<open>\<open>json_keeps\<close>: the JSON columns of a report read back as they were written.\<close>

definition json_keeps :: "'j json \<Rightarrow> AnalysisReport \<Rightarrow> bool" where
  "json_keeps js r \<longleftrightarrow> unmarshal_checks js (marshal_checks js (Checks r)) = Checks r
     \<and> unmarshal_strings js (marshal_strings js (Warnings r)) = Warnings r
     \<and> unmarshal_strings js (marshal_strings js (Suggestions r)) = Suggestions r
     \<and> unmarshal_headers js (marshal_headers js (RawHeaders r)) = RawHeaders r
     \<and> unmarshal_strings js (marshal_strings js (Links r)) = Links r
     \<and> unmarshal_strings js (marshal_strings js (SpamSignals r)) = SpamSignals r"

lemma scanReport_row:
  "json_keeps js r \<Longrightarrow> scanReport js (report_row_of js i r) = r\<lparr>ReportID := i, MailType := []\<rparr>"
  "json_keeps js r \<Longrightarrow> scanReport js (report_values js r row) = r\<lparr>ReportID := rr_id row, MessageID := rr_message_id row, MailType := []\<rparr>"
  by (simp_all add: scanReport_def report_row_of_def report_values_def json_keeps_def)

lemma find_append_fresh: "\<not> list_ex p rs \<Longrightarrow> p x \<Longrightarrow> find p (rs @ [x]) = Some x"
  by (induction rs) auto

lemma find_update_rows: "(\<And>r. p (f r) = p r) \<Longrightarrow> find p (update_rows p f rs) = map_option f (find p rs)"
  by (induction rs) (auto simp: update_rows_def)

text \<open>
  C20: A report that is stored for a message is what a later read of that message gives, whether it is the first report of the
  message or replaces one, with the one exception of the mail type, for which there is no column: it is
  always read as empty.
\<close>

theorem SaveReport_read_back:
  assumes "store_inv d" "MessageID r \<in> MessageRowID ` set (messages d)" "CreatedAt r \<noteq> zero_time"
    "unmarshal_checks js (marshal_checks js (Checks r)) = Checks r"
    "unmarshal_strings js (marshal_strings js (Warnings r)) = Warnings r"
    "unmarshal_strings js (marshal_strings js (Suggestions r)) = Suggestions r"
    "unmarshal_headers js (marshal_headers js (RawHeaders r)) = RawHeaders r"
    "unmarshal_strings js (marshal_strings js (Links r)) = Links r"
    "unmarshal_strings js (marshal_strings js (SpamSignals r)) = SpamSignals r"
  shows "\<exists>i. GetReportByMessageID js (MessageID r) (snd (SaveReport js r now gap d)) = Inr (r\<lparr>ReportID := i, MailType := []\<rparr>)
     \<and> GetReport js i (snd (SaveReport js r now gap d)) = Inr (r\<lparr>ReportID := i, MailType := []\<rparr>)"
proof -
  let ?e = "snd (SaveReport js r now gap d)"
  have js: "json_keeps js r" using assms(4-) by (simp add: json_keeps_def)
  have inv: "store_inv ?e" using assms(1) by (rule SaveReport_inv)
  have "\<exists>row. find (\<lambda>x. rr_message_id x = MessageID r) (reports ?e) = Some row
    \<and> scanReport js row = r\<lparr>ReportID := rr_id row, MailType := []\<rparr>"
  proof (cases "has_report (MessageID r) d")
    case True
    then obtain row where row: "find (\<lambda>x. rr_message_id x = MessageID r) (reports d) = Some row"
      by (cases "find (\<lambda>x. rr_message_id x = MessageID r) (reports d)") (auto simp: has_report_def list_ex_iff find_None_iff)
    then have "rr_message_id row = MessageID r" by (auto simp: find_Some_iff)
    with True row assms(3) show ?thesis
      by (auto simp: SaveReport_def Let_def find_update_rows scanReport_row [OF js])
  next
    case False
    with assms(2,3) show ?thesis
      by (auto simp: SaveReport_def Let_def has_report_def find_append_fresh scanReport_row [OF js])
  qed
  then obtain row where row: "find (\<lambda>x. rr_message_id x = MessageID r) (reports ?e) = Some row"
    "scanReport js row = r\<lparr>ReportID := rr_id row, MailType := []\<rparr>" by blast
  from row(1) have "row \<in> set (reports ?e)" by (auto simp: find_Some_iff)
  with inv have "find (\<lambda>x. rr_id x = rr_id row) (reports ?e) = Some row"
    by (auto simp: store_inv_def dest!: keys_ok_distinct find_unique [of rr_id])
  with row show ?thesis by (intro exI [of _ "rr_id row"]) (simp add: GetReportByMessageID_def GetReport_def scanRow_def)
qed

theorem SaveReport_read_back_witness:
  "MailType (demo_report\<lparr>Score := 5\<rparr>) = ''bulk''
   \<and> (\<exists>i. GetReportByMessageID demo_json 1 (snd (SaveReport demo_json (demo_report\<lparr>Score := 5\<rparr>) 8 0 demo_db))
        = Inr (demo_report\<lparr>Score := 5, ReportID := i, MailType := []\<rparr>))"
proof -
  have "MessageID (demo_report\<lparr>Score := 5\<rparr>) \<in> MessageRowID ` set (messages demo_db)"
    "CreatedAt (demo_report\<lparr>Score := 5\<rparr>) \<noteq> zero_time" by code_simp+
  from SaveReport_read_back [OF demo_db_inv this, of demo_json 8 0] show ?thesis
    by (auto simp: demo_json_def demo_report_def)
qed

text \<open>
  When \<open>SaveReport\<close> replaces a report, the ID in the report it returns is the last row id of the connection, which
  an upsert that updates leaves alone: here message 2 was stored since, and the returned ID is 2 while
  the report is stored under 1.
\<close>

lemma SaveReport_stale_id:
  "map_sum id ReportID (fst (SaveReport demo_json demo_report 8 0
      (apply_op demo_json (OpSaveMessage (demo_message 1 6) 6 0) demo_db))) = Inr 2
   \<and> map rr_id (reports (snd (SaveReport demo_json demo_report 8 0
      (apply_op demo_json (OpSaveMessage (demo_message 1 6) 6 0) demo_db)))) = [1]"
  by code_simp

subsection \<open>The joined list\<close>

lemma left_join_unique:
  assumes "distinct (map rr_message_id (reports d))"
  shows "left_join d ms = map (\<lambda>m. (m, find (\<lambda>r. rr_message_id r = MessageRowID m) (reports d))) ms"
proof -
  have "(case filter (\<lambda>r. rr_message_id r = i) (reports d) of [] \<Rightarrow> [(m, None)] | rs \<Rightarrow> map (\<lambda>r. (m, Some r)) rs)
      = [(m, find (\<lambda>r. rr_message_id r = i) (reports d))]" for i and m :: Message
  proof (cases "find (\<lambda>r. rr_message_id r = i) (reports d)")
    case None
    then have "filter (\<lambda>r. rr_message_id r = i) (reports d) = []" by (auto simp: find_None_iff filter_empty_conv)
    with None show ?thesis by simp
  next
    case (Some row)
    then have "row \<in> set (reports d)" "i = rr_message_id row" by (auto simp: find_Some_iff)
    with distinct_map_filter_eq [OF assms, of row] Some show ?thesis by simp
  qed
  then show ?thesis unfolding left_join_def by (induction ms) simp_all
qed

lemma newest_first_map:
  fixes f :: "'a \<Rightarrow> 'b"
  shows "newest_first t (map f xs) = map f (newest_first (t \<circ> f) xs)"
proof -
  have "insort_key k (f x) (map f xs) = map f (insort_key (k \<circ> f) x xs)" for k :: "'b \<Rightarrow> int" and x xs
    by (induction xs) auto
  then have "sort_key k (map f xs) = map f (sort_key (k \<circ> f) xs)" for k :: "'b \<Rightarrow> int" and xs
    by (induction xs) auto
  then show ?thesis by (simp add: newest_first_def comp_def)
qed

text \<open>
  The single joined query gives what one query for the messages and one more query per message gave: the newest messages of
  the mailbox up to the limit, each with the report that \<open>GetReportByMessageID\<close> finds, in the same order.
\<close>

theorem joined_list_is_n_plus_one:
  assumes "store_inv d"
  shows "ListMessagesWithReports js mb n d =
    map (\<lambda>m. (m, case GetReportByMessageID js (MessageRowID m) d of Inr r \<Rightarrow> Some r | Inl e \<Rightarrow> None)) (ListMessagesByMailbox mb n d)"
proof -
  have dist: "distinct (map rr_message_id (reports d))" using assms by (simp add: store_inv_def)
  have "map_option (\<lambda>r. (scanReport js r)\<lparr>MessageID := i\<rparr>) (find (\<lambda>r. rr_message_id r = i) (reports d)) =
      (case GetReportByMessageID js i d of Inr r \<Rightarrow> Some r | Inl e \<Rightarrow> None)" for i
  proof (cases "find (\<lambda>r. rr_message_id r = i) (reports d)")
    case (Some row)
    then have "rr_message_id row = i" by (auto simp: find_Some_iff)
    with Some show ?thesis by (auto simp: GetReportByMessageID_def scanRow_def scanReport_def)
  qed (simp add: GetReportByMessageID_def scanRow_def)
  then show ?thesis
    unfolding ListMessagesWithReports_def ListMessagesByMailbox_def left_join_unique [OF dist] newest_first_map
    by (simp add: take_map comp_def)
qed

theorem joined_list_is_n_plus_one_witness:
  "store_inv demo_db \<and> map (MessageRowID \<circ> fst) (ListMessagesWithReports demo_json 1 0 demo_db) = [1]"
proof -
  have "map MessageRowID (ListMessagesByMailbox 1 0 demo_db) = [1]" by code_simp
  with joined_list_is_n_plus_one [OF demo_db_inv, of demo_json 1 0] demo_db_inv show ?thesis by (simp add: comp_def)
qed

end
