(* ===== verification/Inbound.thy ===== *)
theory Inbound
  imports SMTP_Server Auth Store SealedBox
begin

text \<open>
  The path of a received mail through \<open>cmd/sender-report/main.go\<close>: which recipients are accepted, the header fields added at
  reception, the analysis, the sealing for mailboxes with a key, and the storage.

  The record \<open>inbound_env\<close> holds what the handler calls outside the store: the environment of the authentication checks, the
  JSON writers, the MIME word decoder, the analysis \<open>engine.Analyze\<close> (with the counter of DNS failures passed through) and the
  cryptographic primitives. A call gets the instants of its clock readings, the gaps of the row ids and the random bytes in an \<open>inbound_run\<close>.
  Logging and the alert webhook are left out.
\<close>

subsection \<open>Recipients\<close>

definition matchesConfiguredDomain :: "gostring \<Rightarrow> gostring \<Rightarrow> bool" where
  "matchesConfiguredDomain smtpDomain rcpt =
     (let domain = to_lower (trim_space smtpDomain)
      in domain = [] \<or> has_suffix (to_lower (trim_space rcpt)) (CHR ''@'' # domain))"

definition isAllowedRecipient :: "gostring \<Rightarrow> 'j db \<Rightarrow> time \<Rightarrow> gostring \<Rightarrow> bool" where
  "isAllowedRecipient smtpDomain d now rcpt =
     (let rcpt = to_lower (trim_space rcpt)
      in matchesConfiguredDomain smtpDomain rcpt
         \<and> (case GetMailboxByAddress rcpt d of Inl e \<Rightarrow> False | Inr mb \<Rightarrow> now < ExpiresAt mb))"

definition smtpGreetingDomain :: "gostring \<Rightarrow> gostring" where
  "smtpGreetingDomain smtpDomain = (if trim_space smtpDomain \<noteq> [] then trim_space smtpDomain else ''sender-report.local'')"

subsection \<open>Header fields\<close>

definition headerBlock :: "gostring \<Rightarrow> gostring" where
  "headerBlock raw = trim_space (fst (cut (replace_all crlf [LF] raw) [LF, LF]))"

text \<open>The continuation lines after a field, up to the first line that is not folded.\<close>

definition is_folded :: "gostring \<Rightarrow> bool" where
  "is_folded line = (has_prefix line '' '' \<or> has_prefix line [TAB])"

definition continuations :: "gostring list \<Rightarrow> gostring" where
  "continuations ls = concat (map (\<lambda>l. SP # trim_space l) (takeWhile is_folded (map (\<lambda>l. trim_right l [CR]) ls)))"

fun header_lines :: "(gostring \<Rightarrow> gostring option) \<Rightarrow> gostring \<Rightarrow> gostring list \<Rightarrow> gostring" where
  "header_lines decode p [] = []"
| "header_lines decode p (l # ls) =
     (let line = trim_right l [CR]
      in if has_prefix (to_lower (trim_space line)) p
         then (let value = trim_space (drop (length p) line) @ continuations ls
               in case decode value of Some v \<Rightarrow> trim_space v | None \<Rightarrow> trim_space value)
         else header_lines decode p ls)"

definition headerField :: "(gostring \<Rightarrow> gostring option) \<Rightarrow> gostring \<Rightarrow> gostring \<Rightarrow> gostring" where
  "headerField decode block key = header_lines decode (to_lower key @ '':'') (split LF block)"

subsection \<open>The stored report of a sealed message\<close>

definition stripped_check :: "CheckResult \<Rightarrow> CheckResult" where
  "stripped_check c =
     \<lparr>ID = ID c, Status = Status c, ScoreDelta = 0, TechnicalDetails = Map.empty, Severity = [], Category = [], Importance = [],
      Name = Name c, Summary = [], Suggestion = [], Explanation = [], Recommendation = [], DocLinks = [],
      NameEN = [], SummaryEN = [], ExplanationEN = [], RecommendationEN = []\<rparr>"

definition stripReportForStorage :: "AnalysisReport \<Rightarrow> AnalysisReport" where
  "stripReportForStorage r =
     \<lparr>ReportID = ReportID r, MessageID = MessageID r, CreatedAt = CreatedAt r, Score = Score r, ScoreLabel = ScoreLabel r,
      MailType = [], Checks = map stripped_check (Checks r), Warnings = [], Suggestions = [], RawHeaders = Map.empty,
      Links = [], SpamSignals = []\<rparr>"

record encryptedPayload =
  PRawSource :: gostring
  PHeaderBlock :: gostring
  PSubject :: gostring
  PSMTPFrom :: gostring
  PRemoteIP :: gostring
  PHELO :: gostring
  PReceivedAt :: gostring
  PReport :: AnalysisReport

record analyzer_input =
  InMessage :: Message
  InSMTPDomain :: gostring
  EnableDomainAge :: bool
  EnableDomainBlocklist :: bool
  EnableBrokenLinks :: bool
  SimulationMode :: bool

record 'j inbound_env =
  auth :: auth_env
  jsons :: "'j json"
  payload_json :: "encryptedPayload \<Rightarrow> gostring"
  rfc3339 :: "time \<Rightarrow> gostring"
  decode_words :: "gostring \<Rightarrow> gostring option"
  Analyze :: "analyzer_input \<Rightarrow> dnsFailures \<Rightarrow> AnalysisReport \<times> dnsFailures"
  box :: crypto

record inbound_run =
  at_check :: time
  at_message :: time
  at_save :: time
  at_report :: time
  at_touch :: time
  gap_message :: nat
  gap_report :: nat
  rnd_secret :: "gostring option"
  rnd_nonce :: "gostring option"

definition payload_of :: "'j inbound_env \<Rightarrow> gostring \<Rightarrow> gostring \<Rightarrow> gostring \<Rightarrow> Message \<Rightarrow> AnalysisReport \<Rightarrow> encryptedPayload" where
  "payload_of env raw headers subject msg report =
     \<lparr>PRawSource = raw, PHeaderBlock = headers, PSubject = subject, PSMTPFrom = SMTPFrom msg, PRemoteIP = MsgRemoteIP msg,
      PHELO = MsgHELO msg, PReceivedAt = rfc3339 env (ReceivedAt msg), PReport = report\<rparr>"

definition buildEncryptedPayload :: "'j inbound_env \<Rightarrow> inbound_run \<Rightarrow> gostring \<Rightarrow> gostring \<Rightarrow> gostring \<Rightarrow> Message \<Rightarrow> AnalysisReport \<Rightarrow> gostring \<Rightarrow> box_error + gostring" where
  "buildEncryptedPayload env run raw headers subject msg report pubKey =
     (case Seal (box env) (payload_json env (payload_of env raw headers subject msg report)) pubKey (rnd_secret run) (rnd_nonce run) of
        Inl e \<Rightarrow> Inl e
      | Inr blob \<Rightarrow> Inr (base64url_encode blob))"

definition encrypted_mark :: gostring where "encrypted_mark = ''[encrypted]''"

text \<open>The middle of \<open>processInbound\<close>: the message and the report as they go to the store.\<close>

definition seal_for :: "'j inbound_env \<Rightarrow> inbound_run \<Rightarrow> gostring \<Rightarrow> gostring \<Rightarrow> gostring \<Rightarrow> gostring \<Rightarrow> Message \<Rightarrow> AnalysisReport \<Rightarrow> Message \<times> AnalysisReport" where
  "seal_for env run publicKey raw headers subject msg report =
     (case hex_decode publicKey of
        Some pubBytes \<Rightarrow>
          (if publicKey \<noteq> [] \<and> length pubBytes = 32
           then (case buildEncryptedPayload env run raw headers subject msg report pubBytes of
                   Inr payload \<Rightarrow>
                     (msg\<lparr>PayloadEnc := payload, RawSource := encrypted_mark, HeaderBlock := encrypted_mark, Subject := encrypted_mark,
                          SMTPFrom := encrypted_mark, MsgRemoteIP := encrypted_mark, MsgHELO := encrypted_mark, ReceivedAt := zero_time\<rparr>,
                      stripReportForStorage report)
                 | Inl e \<Rightarrow> (msg, report))
           else (msg, report))
      | None \<Rightarrow> (msg, report))"

subsection \<open>The handler\<close>

record metrics =
  httpRequestsTotal :: "64 word"
  mailboxesCreated :: "64 word"
  mailsReceived :: "64 word"
  reportsGenerated :: "64 word"
  analyzerErrors :: "64 word"
  inboundErrors :: "64 word"
  webRateLimitBlocked :: "64 word"
  smtpRateLimitBlocked :: "64 word"

record 'j world =
  st :: "'j db"
  dns_failures :: dnsFailures
  counts :: metrics

definition received_message :: "inbound_run \<Rightarrow> Mailbox \<Rightarrow> ReceivedMail \<Rightarrow> gostring \<Rightarrow> gostring \<Rightarrow> gostring \<Rightarrow> gostring \<Rightarrow> Message" where
  "received_message run mb rm rcpt raw headers subject =
     \<lparr>MessageRowID = 0, MailboxID = MailboxRowID mb, SMTPFrom = MailFrom rm, RCPTTo = rcpt, MsgRemoteIP = RemoteIP rm, MsgHELO = HELO rm,
      ReceivedAt = at_message run, RawSource = raw, HeaderBlock = headers, Subject = subject, SizeBytes = int (length (Data rm)), PayloadEnc = []\<rparr>"

definition store_inbound :: "'j inbound_env \<Rightarrow> inbound_run \<Rightarrow> Mailbox \<Rightarrow> Message \<Rightarrow> AnalysisReport \<Rightarrow> 'j world \<Rightarrow> store_error option \<times> 'j world" where
  "store_inbound env run mb storeMsg report w =
     (case SaveMessage storeMsg (at_save run) (gap_message run) (st w) of
        (Inl e, d) \<Rightarrow> (Some e, w\<lparr>st := d\<rparr>)
      | (Inr msg, d) \<Rightarrow>
          (case SaveReport (jsons env) (report\<lparr>MessageID := MessageRowID msg\<rparr>) (at_report run) (gap_report run) d of
             (saved, e) \<Rightarrow>
               (None, w\<lparr>st := TouchMailbox (MailboxRowID mb) (at_touch run) e,
                        counts := (counts w)\<lparr>mailsReceived := mailsReceived (counts w) + 1,
                          analyzerErrors := analyzerErrors (counts w) + (if isl saved then 1 else 0),
                          reportsGenerated := reportsGenerated (counts w) + (if isl saved then 0 else 1)\<rparr>\<rparr>)))"

definition processInbound :: "'j inbound_env \<Rightarrow> gostring \<Rightarrow> inbound_run \<Rightarrow> ReceivedMail \<Rightarrow> 'j world \<Rightarrow> store_error option \<times> 'j world" where
  "processInbound env smtpDomain run rm w =
     (let rcpt = to_lower (trim_space (RcptTo rm))
      in if \<not> matchesConfiguredDomain smtpDomain rcpt then (None, w)
         else case GetMailboxByAddress rcpt (st w) of
           Inl e \<Rightarrow> (if e = ErrNotFound then None else Some e, w)
         | Inr mb \<Rightarrow>
             if ExpiresAt mb < at_check run then (None, w)
             else (case enrichWithReceiverAuthHeaders (auth env) smtpDomain rm (Data rm) (dns_failures w) of (raw, n) \<Rightarrow>
               (let headers = headerBlock raw;
                    subject = headerField (decode_words env) headers ''Subject'';
                    tmpMsg = received_message run mb rm rcpt raw headers subject
                in case Analyze env \<lparr>InMessage = tmpMsg, InSMTPDomain = smtpDomain, EnableDomainAge = CheckDomainAge mb,
                       EnableDomainBlocklist = CheckDomainBlocklist mb, EnableBrokenLinks = CheckBrokenLinks mb, SimulationMode = False\<rparr> n of
                   (report, n') \<Rightarrow>
                     (case seal_for env run (PublicKey mb) raw headers subject tmpMsg report of
                        (storeMsg, storeReport) \<Rightarrow> store_inbound env run mb storeMsg storeReport (w\<lparr>dns_failures := n'\<rparr>)))))"

text \<open>\<open>HandleMail\<close> as \<open>main\<close> sets it: a failure is counted and returned.\<close>

definition handle_mail :: "'j inbound_env \<Rightarrow> gostring \<Rightarrow> inbound_run \<Rightarrow> 'j world \<Rightarrow> ReceivedMail \<Rightarrow> bool \<times> 'j world" where
  "handle_mail env smtpDomain run w rm =
     (case processInbound env smtpDomain run rm w of
        (None, w') \<Rightarrow> (True, w')
      | (Some e, w') \<Rightarrow> (False, w'\<lparr>counts := (counts w')\<lparr>inboundErrors := inboundErrors (counts w') + 1\<rparr>\<rparr>))"

subsection \<open>What a received mail leaves in the store\<close>

lemma find_Some_set: "find p xs = Some x \<Longrightarrow> x \<in> set xs \<and> p x"
  by (auto simp: find_Some_iff)

lemma GetMailboxByAddress_row:
  "GetMailboxByAddress a d = Inr mb \<Longrightarrow> mb \<in> set (mailboxes d) \<and> to_lower (Address mb) = to_lower a"
  by (auto simp: GetMailboxByAddress_def scanRow_def split: option.splits dest: find_Some_set)

lemma GetMailboxByAddress_error: "GetMailboxByAddress a d = Inl e \<Longrightarrow> e = ErrNotFound"
  by (auto simp: GetMailboxByAddress_def scanRow_def split: option.splits)

lemma SaveMessage_ok:
  assumes "MailboxID m \<in> MailboxRowID ` set (mailboxes d)"
  shows "\<exists>i. SaveMessage m now gap d =
      (Inr (m\<lparr>ReceivedAt := if ReceivedAt m = zero_time then now else ReceivedAt m, MessageRowID := i\<rparr>),
       incrCounter ''messages_received'' 1 (d\<lparr>messages := messages d @
         [m\<lparr>ReceivedAt := if ReceivedAt m = zero_time then now else ReceivedAt m, MessageRowID := i\<rparr>], message_seq := i, last_rowid := i\<rparr>))
    \<and> i = message_seq d + 1 + int gap"
  using assms by (auto simp: SaveMessage_def Let_def)

lemma SaveReport_new:
  assumes "\<not> has_report (MessageID r) d" "MessageID r \<in> MessageRowID ` set (messages d)"
  shows "\<not> isl (fst (SaveReport js r now gap d)) \<and> messages (snd (SaveReport js r now gap d)) = messages d
    \<and> mailboxes (snd (SaveReport js r now gap d)) = mailboxes d
    \<and> reports (snd (SaveReport js r now gap d)) = reports d @
        [report_row_of js (report_seq d + 1 + int gap) (r\<lparr>CreatedAt := if CreatedAt r = zero_time then now else CreatedAt r\<rparr>)]"
  using assms by (auto simp: SaveReport_def Let_def)

text \<open>The rows that \<open>store_inbound\<close> adds.\<close>

lemma store_inbound_rows:
  assumes inv: "store_inv (st w)" and mb: "mb \<in> set (mailboxes (st w))" "MailboxID m = MailboxRowID mb"
  shows "\<exists>i j. fst (store_inbound env run mb m r w) = None
    \<and> messages (st (snd (store_inbound env run mb m r w))) = messages (st w) @
        [m\<lparr>ReceivedAt := if ReceivedAt m = zero_time then at_save run else ReceivedAt m, MessageRowID := i\<rparr>]
    \<and> reports (st (snd (store_inbound env run mb m r w))) = reports (st w) @
        [report_row_of (jsons env) j (r\<lparr>MessageID := i, CreatedAt := if CreatedAt r = zero_time then at_report run else CreatedAt r\<rparr>)]
    \<and> mailboxes (st (snd (store_inbound env run mb m r w))) =
        update_rows (\<lambda>b. MailboxRowID b = MailboxRowID mb) (\<lambda>b. b\<lparr>LastSeenAt := at_touch run\<rparr>) (mailboxes (st w))"
proof -
  have "MailboxID m \<in> MailboxRowID ` set (mailboxes (st w))" using mb by simp
  from SaveMessage_ok [OF this, of "at_save run" "gap_message run"] obtain i d where
    s: "SaveMessage m (at_save run) (gap_message run) (st w) =
         (Inr (m\<lparr>ReceivedAt := if ReceivedAt m = zero_time then at_save run else ReceivedAt m, MessageRowID := i\<rparr>), d)"
    and d: "messages d = messages (st w) @ [m\<lparr>ReceivedAt := if ReceivedAt m = zero_time then at_save run else ReceivedAt m, MessageRowID := i\<rparr>]"
      "reports d = reports (st w)" "mailboxes d = mailboxes (st w)" and i: "i = message_seq (st w) + 1 + int (gap_message run)"
    by auto
  have "i \<notin> set (map MessageRowID (messages (st w)))"
    using inv i by (intro keys_ok_fresh) (auto simp: store_inv_def)
  then have new: "\<not> has_report i d" using inv d(2) by (auto simp: has_report_iff store_inv_def)
  have "i \<in> MessageRowID ` set (messages d)" by (simp add: d)
  with new SaveReport_new [of "r\<lparr>MessageID := i\<rparr>" d "jsons env" "at_report run" "gap_report run"] d s show ?thesis
    by (intro exI [of _ i] exI [of _ "report_seq d + 1 + int (gap_report run)"])
      (simp add: store_inbound_def TouchMailbox_def case_prod_beta)
qed

lemma store_inbound_inv:
  assumes "store_inv (st w)"
  shows "store_inv (st (snd (store_inbound env run mb m r w)))"
proof -
  obtain x d where s: "SaveMessage m (at_save run) (gap_message run) (st w) = (x, d)" by fastforce
  have "store_inv d" using SaveMessage_inv [OF assms, of m "at_save run" "gap_message run"] s by simp
  with s show ?thesis
    by (cases x) (simp_all add: store_inbound_def case_prod_beta SaveReport_inv updates_inv)
qed

lemma seal_for_frame:
  "MailboxID (fst (seal_for env run pk raw hs sub m r)) = MailboxID m" "RCPTTo (fst (seal_for env run pk raw hs sub m r)) = RCPTTo m"
  "SizeBytes (fst (seal_for env run pk raw hs sub m r)) = SizeBytes m"
  by (auto simp: seal_for_def split: option.splits sum.splits)

lemma processInbound_inv: "store_inv (st w) \<Longrightarrow> store_inv (st (snd (processInbound env dn run rm w)))"
  by (auto simp: processInbound_def Let_def split: prod.splits sum.splits intro!: store_inbound_inv)

lemma matches_to_lower [simp]: "matchesConfiguredDomain dn (to_lower (trim_space r)) = matchesConfiguredDomain dn r"
  by (simp add: matchesConfiguredDomain_def Let_def)

lemma received_message_simps [simp]:
  "MailboxID (received_message run mb rm rcpt raw hs sub) = MailboxRowID mb" "RCPTTo (received_message run mb rm rcpt raw hs sub) = rcpt"
  "SizeBytes (received_message run mb rm rcpt raw hs sub) = int (length (Data rm))"
  by (simp_all add: received_message_def)

text \<open>The accepted branch of \<open>processInbound\<close>: what is handed to the store and the rows that result.\<close>

lemma processInbound_rows:
  assumes "store_inv (st w)" "matchesConfiguredDomain dn (RcptTo rm)"
    "GetMailboxByAddress (to_lower (trim_space (RcptTo rm))) (st w) = Inr mb" "at_check run \<le> ExpiresAt mb"
  obtains raw headers subject report sm sr i j where
    "raw = fst (enrichWithReceiverAuthHeaders (auth env) dn rm (Data rm) (dns_failures w))"
    "headers = headerBlock raw" "subject = headerField (decode_words env) headers ''Subject''"
    "seal_for env run (PublicKey mb) raw headers subject
       (received_message run mb rm (to_lower (trim_space (RcptTo rm))) raw headers subject) report = (sm, sr)"
    "fst (processInbound env dn run rm w) = None"
    "messages (st (snd (processInbound env dn run rm w))) = messages (st w) @
        [sm\<lparr>ReceivedAt := if ReceivedAt sm = zero_time then at_save run else ReceivedAt sm, MessageRowID := i\<rparr>]"
    "reports (st (snd (processInbound env dn run rm w))) = reports (st w) @
        [report_row_of (jsons env) j (sr\<lparr>MessageID := i, CreatedAt := if CreatedAt sr = zero_time then at_report run else CreatedAt sr\<rparr>)]"
    "mailboxes (st (snd (processInbound env dn run rm w))) =
        update_rows (\<lambda>b. MailboxRowID b = MailboxRowID mb) (\<lambda>b. b\<lparr>LastSeenAt := at_touch run\<rparr>) (mailboxes (st w))"
proof -
  obtain raw n where e: "enrichWithReceiverAuthHeaders (auth env) dn rm (Data rm) (dns_failures w) = (raw, n)" by fastforce
  define headers where "headers = headerBlock raw"
  define subject where "subject = headerField (decode_words env) headers ''Subject''"
  define m where "m = received_message run mb rm (to_lower (trim_space (RcptTo rm))) raw headers subject"
  obtain report k where a: "Analyze env \<lparr>InMessage = m, InSMTPDomain = dn, EnableDomainAge = CheckDomainAge mb,
      EnableDomainBlocklist = CheckDomainBlocklist mb, EnableBrokenLinks = CheckBrokenLinks mb, SimulationMode = False\<rparr> n = (report, k)"
    by fastforce
  obtain sm sr where sealed: "seal_for env run (PublicKey mb) raw headers subject m report = (sm, sr)" by fastforce
  have eq: "processInbound env dn run rm w = store_inbound env run mb sm sr (w\<lparr>dns_failures := k\<rparr>)"
    using assms(2-4) e a sealed by (simp add: processInbound_def Let_def headers_def subject_def m_def not_less)
  have sm: "MailboxID sm = MailboxRowID mb"
    using seal_for_frame(1) [of env run "PublicKey mb" raw headers subject m report] sealed by (simp add: m_def)
  have "mb \<in> set (mailboxes (st (w\<lparr>dns_failures := k\<rparr>)))" "store_inv (st (w\<lparr>dns_failures := k\<rparr>))"
    using GetMailboxByAddress_row [OF assms(3)] assms(1) by simp_all
  from store_inbound_rows [OF this(2,1) sm, of env run sr] eq e sealed show thesis
    by (auto intro!: that [of raw headers subject report sm sr] simp: headers_def subject_def m_def)
qed

lemma processInbound_cases:
  assumes "store_inv (st w)"
  shows "case GetMailboxByAddress (to_lower (trim_space (RcptTo rm))) (st w) of
      Inr mb \<Rightarrow>
        if matchesConfiguredDomain dn (RcptTo rm) \<and> at_check run \<le> ExpiresAt mb
        then fst (processInbound env dn run rm w) = None
          \<and> (\<exists>m row. messages (st (snd (processInbound env dn run rm w))) = messages (st w) @ [m]
              \<and> reports (st (snd (processInbound env dn run rm w))) = reports (st w) @ [row] \<and> rr_message_id row = MessageRowID m
              \<and> MailboxID m = MailboxRowID mb \<and> RCPTTo m = to_lower (trim_space (RcptTo rm)) \<and> SizeBytes m = int (length (Data rm)))
          \<and> map Token (mailboxes (st (snd (processInbound env dn run rm w)))) = map Token (mailboxes (st w))
        else processInbound env dn run rm w = (None, w)
    | Inl e \<Rightarrow> processInbound env dn run rm w = (None, w)"
proof (cases "GetMailboxByAddress (to_lower (trim_space (RcptTo rm))) (st w)")
  case (Inl e)
  with GetMailboxByAddress_error [OF Inl] show ?thesis by (simp add: processInbound_def Let_def)
next
  case (Inr mb)
  show ?thesis
  proof (cases "matchesConfiguredDomain dn (RcptTo rm) \<and> at_check run \<le> ExpiresAt mb")
    case True
    then obtain raw headers subject report sm sr i j where
      sealed: "seal_for env run (PublicKey mb) raw headers subject
        (received_message run mb rm (to_lower (trim_space (RcptTo rm))) raw headers subject) report = (sm, sr)"
      and rows: "fst (processInbound env dn run rm w) = None"
        "messages (st (snd (processInbound env dn run rm w))) = messages (st w) @
          [sm\<lparr>ReceivedAt := if ReceivedAt sm = zero_time then at_save run else ReceivedAt sm, MessageRowID := i\<rparr>]"
        "reports (st (snd (processInbound env dn run rm w))) = reports (st w) @
          [report_row_of (jsons env) j (sr\<lparr>MessageID := i, CreatedAt := if CreatedAt sr = zero_time then at_report run else CreatedAt sr\<rparr>)]"
        "mailboxes (st (snd (processInbound env dn run rm w))) =
          update_rows (\<lambda>b. MailboxRowID b = MailboxRowID mb) (\<lambda>b. b\<lparr>LastSeenAt := at_touch run\<rparr>) (mailboxes (st w))"
      using processInbound_rows [OF assms _ Inr, of dn run env] by metis
    have "MailboxID sm = MailboxRowID mb" "RCPTTo sm = to_lower (trim_space (RcptTo rm))" "SizeBytes sm = int (length (Data rm))"
      using seal_for_frame [of env run "PublicKey mb" raw headers subject
        "received_message run mb rm (to_lower (trim_space (RcptTo rm))) raw headers subject" report] by (simp_all add: sealed)
    with True Inr rows show ?thesis by simp
  next
    case False
    with Inr show ?thesis by (auto simp: processInbound_def Let_def)
  qed
qed


definition demo_inbound :: "json_text inbound_env" where
  "demo_inbound = \<lparr>auth = demo_auth, jsons = demo_json, payload_json = PRawSource, rfc3339 = (\<lambda>t. show_int t), decode_words = Some,
     Analyze = (\<lambda>inp n. (demo_report, n)), box = demo_crypto\<rparr>"

definition demo_inbound_run :: inbound_run where
  "demo_inbound_run = \<lparr>at_check = 6, at_message = 7, at_save = 8, at_report = 9, at_touch = 9, gap_message = 0, gap_report = 0,
     rnd_secret = Some (replicate 32 (CHR ''e'')), rnd_nonce = Some (replicate 12 (CHR ''n''))\<rparr>"

definition demo_world :: "json_text world" where
  "demo_world = \<lparr>st = demo_db, dns_failures = 0, counts = \<lparr>httpRequestsTotal = 0, mailboxesCreated = 0, mailsReceived = 0, reportsGenerated = 0, analyzerErrors = 0,
     inboundErrors = 0, webRateLimitBlocked = 0, smtpRateLimitBlocked = 0\<rparr>\<rparr>"

definition demo_received :: ReceivedMail where
  "demo_received = \<lparr>RemoteIP = ''192.0.2.7'', HELO = ''mx.example.org'', MailFrom = ''a@example.org'', RcptTo = ''X@t.example'',
     Data = ''Subject: hi'' @ crlf @ crlf @ ''text'' @ crlf, TLS = True\<rparr>"


subsection \<open>Sealed mailboxes\<close>

text \<open>The row that is stored for a sealed message: what it says in clear text is its mailbox, the recipient, the size and a time.\<close>

definition sealed_row :: "int \<Rightarrow> Mailbox \<Rightarrow> gostring \<Rightarrow> time \<Rightarrow> int \<Rightarrow> gostring \<Rightarrow> Message" where
  "sealed_row i mb rcpt t bytes payload =
     \<lparr>MessageRowID = i, MailboxID = MailboxRowID mb, SMTPFrom = ''[encrypted]'', RCPTTo = rcpt, MsgRemoteIP = ''[encrypted]'',
      MsgHELO = ''[encrypted]'', ReceivedAt = t, RawSource = ''[encrypted]'', HeaderBlock = ''[encrypted]'', Subject = ''[encrypted]'',
      SizeBytes = bytes, PayloadEnc = payload\<rparr>"


definition demo_sealed_world :: "json_text world" where
  "demo_sealed_world = demo_world\<lparr>st := apply_op demo_json
     (OpCreateMailbox ''enc'' ''k@t.example'' (''7c'' @ concat (replicate 31 ''73'')) ''192.0.2.9'' 10 0 0) demo_db\<rparr>"


subsection \<open>Two quirks of the reception\<close>

text \<open>
  \<open>headerField\<close> compares the trimmed line with the field name but cuts the value out of the untrimmed line, and it
  does not skip continuation lines: a folded line of another field is read as the subject.
\<close>

lemma headerField_reads_continuation:
  "headerField Some (''X-Note: a'' @ [LF] @ '' Subject: spoof'' @ [LF] @ ''Subject: real'') ''Subject'' = '': spoof''"
  by code_simp

subsection \<open>The server of \<open>main\<close>\<close>

text \<open>
  The SMTP server as \<open>main\<close> configures it. \<open>runs\<close> gives the clock readings and random bytes of the successive callbacks; \<open>ticks\<close>
  counts them.
\<close>

record 'j app =
  app_world :: "'j world"
  ticks :: nat

definition smtp_server :: "'j inbound_env \<Rightarrow> gostring \<Rightarrow> int \<Rightarrow> bool \<Rightarrow> (nat \<Rightarrow> inbound_run) \<Rightarrow> 'j app server" where
  "smtp_server env smtpDomain maxMessageBytes smtpTLS runs =
     \<lparr>Domain = smtpGreetingDomain smtpDomain, MaxMessageBytes = maxMessageBytes, TLSConfig = smtpTLS,
      OnRateLimited = Some (\<lambda>a ip. a\<lparr>app_world := (app_world a)\<lparr>counts := (counts (app_world a))\<lparr>smtpRateLimitBlocked :=
          smtpRateLimitBlocked (counts (app_world a)) + 1\<rparr>\<rparr>\<rparr>),
      HandleMail = Some (\<lambda>a rm. case handle_mail env smtpDomain (runs (ticks a)) (app_world a) rm of
          (ok, w) \<Rightarrow> (ok, \<lparr>app_world = w, ticks = ticks a + 1\<rparr>)),
      AllowRecipient = Some (\<lambda>a rcpt. (isAllowedRecipient smtpDomain (st (app_world a)) (at_check (runs (ticks a))) rcpt,
          a\<lparr>ticks := ticks a + 1\<rparr>))\<rparr>"

text \<open>One connection after the other.\<close>

fun connections :: "'w server \<Rightarrow> (gostring \<times> time \<times> gostring \<times> gostring option) list \<Rightarrow> gate \<Rightarrow> 'w \<Rightarrow> 'w" where
  "connections srv [] g w = w"
| "connections srv ((ip, now, inp, hs) # cs) g w =
     (case handleConn srv g ip now inp hs w of (s, g') \<Rightarrow> connections srv cs g' (world s))"

text \<open>How a message may lie in the store: within the size limit, for the configured domain, under the mailbox it is addressed to.\<close>

definition filed :: "gostring \<Rightarrow> int \<Rightarrow> 'j db \<Rightarrow> Message \<Rightarrow> bool" where
  "filed dn maxb d m \<longleftrightarrow> SizeBytes m \<le> max 0 maxb \<and> matchesConfiguredDomain dn (RCPTTo m)
     \<and> list_ex (\<lambda>b. MailboxRowID b = MailboxID m \<and> to_lower (Address b) = RCPTTo m) (mailboxes d)"

definition traffic_ok :: "gostring \<Rightarrow> int \<Rightarrow> 'j db \<Rightarrow> 'j db \<Rightarrow> bool" where
  "traffic_ok dn maxb d0 d \<longleftrightarrow> store_inv d \<and> (\<exists>ms. messages d = messages d0 @ ms \<and> list_all (filed dn maxb d) ms)
     \<and> prefix (reports d0) (reports d)"

lemma filed_cong:
  assumes "map (\<lambda>b. (MailboxRowID b, Address b)) (mailboxes d) = map (\<lambda>b. (MailboxRowID b, Address b)) (mailboxes e)"
  shows "filed dn maxb d = filed dn maxb e"
proof -
  have pairs: "list_ex (\<lambda>b. MailboxRowID b = i \<and> to_lower (Address b) = a) bs \<longleftrightarrow>
      (\<exists>a'. (i, a') \<in> set (map (\<lambda>b. (MailboxRowID b, Address b)) bs) \<and> to_lower a' = a)" for i a bs
    by (auto simp: list_ex_iff)
  show ?thesis unfolding filed_def pairs assms ..
qed

lemma processInbound_traffic:
  assumes ok: "traffic_ok dn maxb d0 (st w)" and size: "int (length (Data rm)) \<le> max 0 maxb"
  shows "traffic_ok dn maxb d0 (st (snd (processInbound env dn run rm w)))"
proof -
  have inv: "store_inv (st w)" using ok by (simp add: traffic_ok_def)
  show ?thesis
  proof (cases "\<exists>mb. GetMailboxByAddress (to_lower (trim_space (RcptTo rm))) (st w) = Inr mb
      \<and> matchesConfiguredDomain dn (RcptTo rm) \<and> at_check run \<le> ExpiresAt mb")
    case False
    then have "processInbound env dn run rm w = (None, w)"
      using processInbound_cases [OF inv, where rm = rm and dn = dn and run = run and env = env] by (auto split: sum.splits if_splits)
    with ok show ?thesis by simp
  next
    case True
    then obtain mb where mb: "GetMailboxByAddress (to_lower (trim_space (RcptTo rm))) (st w) = Inr mb"
      "matchesConfiguredDomain dn (RcptTo rm)" "at_check run \<le> ExpiresAt mb" by blast
    let ?d = "st (snd (processInbound env dn run rm w))"
    from processInbound_cases [OF inv, where rm = rm and dn = dn and run = run and env = env] mb
    obtain m row where m: "messages ?d = messages (st w) @ [m]" "reports ?d = reports (st w) @ [row]"
      "MailboxID m = MailboxRowID mb" "RCPTTo m = to_lower (trim_space (RcptTo rm))" "SizeBytes m = int (length (Data rm))"
      by auto
    obtain ur where ur: "mailboxes ?d = update_rows (\<lambda>b. MailboxRowID b = MailboxRowID mb) (\<lambda>b. b\<lparr>LastSeenAt := ur\<rparr>) (mailboxes (st w))"
      using processInbound_rows [OF inv mb(2,1,3), of env] by metis
    then have same: "filed dn maxb ?d = filed dn maxb (st w)" by (intro filed_cong) simp
    have "filed dn maxb (st w) m"
      using GetMailboxByAddress_row [OF mb(1)] mb(2) m(3-5) size by (auto simp: filed_def list_ex_iff)
    moreover obtain ms where "messages (st w) = messages d0 @ ms" "list_all (filed dn maxb (st w)) ms" "prefix (reports d0) (reports (st w))"
      using ok by (auto simp: traffic_ok_def)
    ultimately show ?thesis
      unfolding traffic_ok_def same using m(1,2) processInbound_inv [OF inv] by auto
  qed
qed

interpretation traffic: smtp_handlers "smtp_server env dn maxb smtpTLS runs" "\<lambda>a. traffic_ok dn maxb d0 (st (app_world a))"
  for env :: "'j inbound_env" and dn maxb smtpTLS runs and d0 :: "'j db"
proof (unfold_locales, goal_cases)
  case (1 f a m)
  then have "int (length (Data m)) \<le> max 0 maxb" by (simp add: mail_wf_def smtp_server_def)
  from processInbound_traffic [OF 1(2) this, of env "runs (ticks a)"] 1(1) show ?case
    by (auto simp: smtp_server_def handle_mail_def case_prod_beta split: option.splits prod.splits)
qed (auto simp: smtp_server_def)

lemma connections_traffic:
  "traffic_ok dn maxb d0 (st (app_world a)) \<Longrightarrow>
   traffic_ok dn maxb d0 (st (app_world (connections (smtp_server env dn maxb smtpTLS runs) cs g a)))"
proof (induction cs arbitrary: g a)
  case (Cons c cs)
  obtain ip now inp hs where c: "c = (ip, now, inp, hs)" by (cases c)
  from traffic.conn_keeps [OF Cons.prems, of env smtpTLS runs g ip now inp hs] Cons.IH c show ?case
    by (simp add: case_prod_beta)
qed simp

end
