(* ===== verification/Analysis.thy ===== *)
theory Analysis
  imports Report_Texts Inbound "HOL-Library.Multiset"
begin

text \<open>
  \<open>Engine.Analyze\<close> (\<open>internal/analyzer/analyzer.go\<close>) as a whole, up to the wording of the checks: which checks run on a message, in which order, with which arguments,
  in the simulator and on a real delivery, and what the report says about mail type, warnings, links, spam signals, score and label. The reader of the message
  (\<open>mail.ReadMessage\<close>) and the order in which Go visits a map or goroutines append results are fields of \<open>analysis_env\<close>. The checks of the model cannot panic, so the
  recovery at the end of \<open>Analyze\<close> has no counterpart.
\<close>

subsection \<open>Options and environment\<close>

record Options =
  EnableRBLChecks :: bool
  RBLProviders :: "gostring list"
  EnableSpamAssassin :: bool
  SpamAssassinHostPort :: gostring
  OWarnRatio :: go_float
  EnableRspamd :: bool
  RspamdURL :: gostring
  RspamdPassword :: gostring
  OEnableDomainAge :: bool
  OEnableDomainBlocklist :: bool
  DomainBlocklistProviders :: "gostring list"
  OEnableBrokenLinks :: bool

record analysis_env =
  content :: content_env
  spam :: spam_env
  ReadMessage :: "gostring \<Rightarrow> gostring + header \<times> gostring"
  link_order :: "gostring list \<Rightarrow> gostring list"
  arrivals :: "link_result list \<Rightarrow> link_result list"
  completion :: "nat \<Rightarrow> nat list"

record analysis =
  AChecks :: "finding list"
  AScore :: float64
  ALabel :: gostring
  AMailType :: gostring
  AWarnings :: "gostring list"
  ALinks :: "gostring list"
  ASpamSignals :: "gostring list"

subsection \<open>The message\<close>

text \<open>What \<open>Analyze\<close> reads from the header before the first check.\<close>

record mail_facts =
  MHeader :: header
  MBody :: gostring
  MFrom :: gostring
  MEnvelope :: gostring
  MReturn :: gostring
  MAuth :: gostring
  MType :: gostring

definition mail_facts_of :: "content_env \<Rightarrow> gostring \<Rightarrow> header \<Rightarrow> gostring \<Rightarrow> mail_facts" where
  "mail_facts_of env smtpFrom h body =
     \<lparr>MHeader = h, MBody = body, MFrom = fst (headerFromDomain env (Get h ''From'')), MEnvelope = domainPart smtpFrom,
      MReturn = domainPart (Get h ''Return-Path''), MAuth = to_lower (join '' ; '' (headerValues h ''Authentication-Results'')), MType = detectMailType h\<rparr>"

definition primary_domain :: "mail_facts \<Rightarrow> gostring" where
  "primary_domain f = firstNonEmpty [MFrom f, MEnvelope f]"

definition bounce_domain :: "mail_facts \<Rightarrow> gostring" where
  "bounce_domain f = firstNonEmpty [MReturn f, MEnvelope f]"

subsection \<open>Checks on the header\<close>

definition reply_to_check :: "header \<Rightarrow> finding" where
  "reply_to_check h = (if trim_space (Get h ''Reply-To'') = [] then info ''reply_to'' 0 else pass ''reply_to'' 0)"

record header_stage =
  HChecks :: "finding list"
  HSPFRecords :: "gostring list"
  HDMARC :: dmarcLookupResult
  HAlign :: alignment

definition header_checks :: "content_env \<Rightarrow> mail_facts \<Rightarrow> gostring \<Rightarrow> dnsFailures \<Rightarrow> header_stage \<times> dnsFailures" where
  "header_checks env f ehlo n =
     (let h = MHeader f; ar = MAuth f; nenv = net env;
          spfResult = parseAuthResult ar ''spf''; dkimResult = parseAuthResult ar ''dkim''; fwd = isForwardedMail h ar;
          al = alignments nenv (MEnvelope f) (MFrom f) (headerValues h ''DKIM-Signature'')
      in case spf_verdict_check nenv spfResult fwd (MEnvelope f) n of ((spf, spfRecs), n1) \<Rightarrow>
         (case dkim_verdict_check nenv h dkimResult n1 of (dkim, n2) \<Rightarrow>
         (case dmarc_verdict_check nenv (parseAuthResult ar ''dmarc'') fwd (MFrom f) al n2 of ((dmarc, dm), n3) \<Rightarrow>
           (\<lparr>HChecks =
              [spf, dkim, dmarc,
               spfAlignmentCheck (MFrom f) (MEnvelope f) spfResult (alignedSPF al), dkimAlignmentCheck dkimResult (alignedDKIM al),
               dmarcAlignmentCheck (MFrom f) spfResult dkimResult (alignedSPF al) (alignedDKIM al),
               dmarcPolicyCheck (Records dm) (Policy dm), spfStrictnessCheck nenv spfRecs, displayNameCheck env (Get h ''From'') (MFrom f),
               helo_check ehlo, from_alignment_check (MFrom f) (MEnvelope f)]
              @ return_path_checks h (MType f) (MReturn f)
              @ [reply_to_check h, received_chain_check (headerValues h ''Received''), tlsTransportCheck (headerValues h ''Received''),
                 arc_check h ar, x_google_check ar],
             HSPFRecords = spfRecs, HDMARC = dm, HAlign = al\<rparr>, n3))))"

subsection \<open>Checks on the content\<close>

record content_stage =
  KChecks :: "finding list"
  KBody :: parsedBody
  KLinks :: "gostring list"
  KSignals :: "gostring list"
  KWarnings :: "gostring list"
  KMailType :: gostring

definition newsletter_warning :: gostring where
  "newsletter_warning = (''Diese Nachricht sieht inhaltlich nach einem Newsletter aus, tr'' @ [CHR 0xC3, CHR 0xA4] @ ''gt aber keine der Kopfzeilen, an denen Mailprogramme das erkennen (List-Unsubscribe, List-Id). Sie wird deshalb wie eine Massensendung bewertet.'')"

definition content_checks :: "analysis_env \<Rightarrow> bool \<Rightarrow> mail_facts \<Rightarrow> content_stage" where
  "content_checks env openLinks f =
     (let cenv = content env; h = MHeader f;
          (mimeFindings, pb) = inspectBody cenv h (MBody f);
          links = dedupeSorted (extractLinks (AllText pb @ [LF] @ BHTML pb));
          (urlFindings, spamSignals) = evaluateURLs cenv links;
          (subjectChecks, subjectSignals) = subjectHeuristics cenv (Get h ''Subject'');
          (headChecks, headWarnings) = headerHeuristics cenv h;
          (unicodeCheck, unicodeSignal) = unicodeObfuscationCheck (AllText pb);
          bulk = (MType f = ''personal'' \<and> looksLikeBulkContent h pb);
          mailType = (if bulk then ''bulk'' else MType f)
      in \<lparr>KChecks = mimeFindings @ urlFindings
            @ [templateURLCheck links (MType f), linkDomainMismatchCheck cenv (BHTML pb) (MFrom f),
               if openLinks then brokenLinksCheck cenv (arrivals env) links else info ''broken_links'' 0]
            @ htmlHeuristics cenv (BHTML pb) @ subjectChecks @ headChecks @ [unicodeCheck] @ newsletterHeuristics h pb mailType,
          KBody = pb, KLinks = links, KSignals = spamSignals @ subjectSignals @ (if unicodeSignal \<noteq> [] then [unicodeSignal] else []),
          KWarnings = headWarnings @ (if bulk then [newsletter_warning] else []), KMailType = mailType\<rparr>)"

subsection \<open>Checks on the network\<close>

definition simGroupBIDs :: "gostring list" where
  "simGroupBIDs = [''mx_records'', ''address_records'', ''dkim_keylength'', ''envelope_mx'', ''mta_sts'', ''tls_rpt'', ''bimi'', ''dnssec'', ''dane_tlsa'',
     ''ptr'', ''ptr_pattern'', ''link_blocklist'', ''rbl'', ''from_domain_rcv'']"

definition simGroupCIDs :: "gostring list" where "simGroupCIDs = [''domain_age'', ''domain_blocklist'']"

definition simulatorSkippedMarker :: gostring where "simulatorSkippedMarker = ''simulator_uebersprungen''"

definition netTasks :: "analysis_env \<Rightarrow> Options \<Rightarrow> analyzer_input \<Rightarrow> mail_facts \<Rightarrow> gostring list \<Rightarrow> (gostring \<times> check) list" where
  "netTasks env opts inp f links =
     (let nenv = net (content env); msg = InMessage inp; prim = primary_domain f; quiet = (\<lambda>c n. (c, n))
      in [(''mx_records'', mxRecordCheck nenv prim), (''address_records'', addressRecordCheck nenv prim),
          (''dkim_keylength'', dkimKeyLengthCheck nenv (Get (MHeader f) ''DKIM-Signature'')), (''envelope_mx'', envelopeBounceMXCheck nenv (bounce_domain f)),
          (''mta_sts'', mtaStsCheck nenv prim), (''tls_rpt'', tlsRptCheck nenv prim), (''bimi'', bimiCheck nenv prim), (''dnssec'', dnssecCheck nenv prim),
          (''dane_tlsa'', daneCheck nenv prim), (''ptr'', ptrPlausibility nenv (MsgRemoteIP msg) (MsgHELO msg)),
          (''ptr_pattern'', ptrPatternCheck nenv (MsgRemoteIP msg)), (''from_domain_rcv'', fromDomainReceiveCheck nenv (MFrom f) (bounce_domain f))]
         @ (if EnableRBLChecks opts then [(''rbl'', quiet (rblHeuristics nenv (MsgRemoteIP msg) (RBLProviders opts)))] else [])
         @ (if EnableSpamAssassin opts \<and> trim_space (SpamAssassinHostPort opts) \<noteq> []
            then [(''spamassassin'', quiet (spamAssassinHeuristic (spam env) (SpamAssassinHostPort opts) (RawSource msg) (OWarnRatio opts)))] else [])
         @ (if EnableRspamd opts \<and> trim_space (RspamdURL opts) \<noteq> []
            then [(''rspamd'', quiet (rspamdHeuristic rspamdSymbolExplain (spam env) (RspamdURL opts) (RspamdPassword opts)
                    (rspamdEnvelopeHeaders (MsgRemoteIP msg) (MsgHELO msg) (SMTPFrom msg) (RCPTTo msg)) (RawSource msg)))] else [])
         @ (if OEnableDomainAge opts \<or> EnableDomainAge inp then [(''domain_age'', quiet (domainAgeCheck nenv prim))] else [])
         @ (if OEnableDomainBlocklist opts \<or> EnableDomainBlocklist inp
            then [(''domain_blocklist'', domainBlocklistCheck nenv prim (DomainBlocklistProviders opts)),
                  (''link_blocklist'', linkBlocklistCheck nenv (link_order env) links (DomainBlocklistProviders opts))] else []))"

text \<open>Every task is run once; the counter of unanswered lookups does not depend on their order.\<close>

fun run_tasks :: "(gostring \<times> check) list \<Rightarrow> dnsFailures \<Rightarrow> task list \<times> dnsFailures" where
  "run_tasks [] n = ([], n)"
| "run_tasks ((name, chk) # ts) n = (case chk n of (c, m) \<Rightarrow> (case run_tasks ts m of (rs, k) \<Rightarrow> ((name, Inr [c]) # rs, k)))"

definition network_stage :: "analysis_env \<Rightarrow> (gostring \<times> check) list \<Rightarrow> dnsFailures \<Rightarrow> finding list \<times> dnsFailures" where
  "network_stage env ts n = (case run_tasks ts n of (rs, k) \<Rightarrow> (runChecksConcurrently rs (completion env (length rs)), k))"

subsection \<open>Enrichment of a finding\<close>

text \<open>What \<open>enrichCheckResult\<close> changes of a finding besides the texts.\<close>

definition enrich_finding :: "checkContext \<Rightarrow> finding \<Rightarrow> finding" where
  "enrich_finding ctx c0 =
     (let c = Findings.enrichCheckResult c0
      in if finding.Status c = ''na'' then c
         else c\<lparr>TechnicalDetails := add_entries (addCheckSpecificDetails ctx (ID c) @ own_details ctx (ID c)) (TechnicalDetails c)\<rparr>)"

definition sim_placeholder :: "checkContext \<Rightarrow> gostring \<Rightarrow> finding" where
  "sim_placeholder ctx i = (let c = enrich_finding ctx (info i 0) in c\<lparr>TechnicalDetails := (TechnicalDetails c)(simulatorSkippedMarker \<mapsto> ''ja'')\<rparr>)"

definition simulated_auth_ids :: "gostring list" where
  "simulated_auth_ids = [''spf'', ''dkim'', ''dmarc'', ''spf_alignment'', ''dkim_alignment'', ''dmarc_alignment'']"

definition markSimulatedAuthResults :: "finding list \<Rightarrow> finding list" where
  "markSimulatedAuthResults cs =
     map (\<lambda>c. if ID c \<in> set simulated_auth_ids
          then c\<lparr>TechnicalDetails := (TechnicalDetails c)(''herkunft'' \<mapsto> (''aus der eingef'' @ [CHR 0xC3, CHR 0xBC] @ ''gten Kopfzeile '' @ [CHR 0xC3, CHR 0xBC] @ ''bernommen, nicht verifiziert''))\<rparr> else c) cs"

definition countSimulatorSkipped :: "finding list \<Rightarrow> nat" where
  "countSimulatorSkipped cs = length (filter (\<lambda>c. TechnicalDetails c simulatorSkippedMarker \<noteq> None) cs)"

definition simulator_warning :: "nat \<Rightarrow> gostring" where
  "simulator_warning n = ''Dies ist ein Teilergebnis: '' @ show_nat n @ ('' Pr'' @ [CHR 0xC3, CHR 0xBC] @ ''fungen laufen im Simulator nicht, weil sie eine echte Zustellung voraussetzen. Der Wert l'' @ [CHR 0xC3, CHR 0xA4] @ ''sst sich deshalb nicht mit dem einer versendeten Testmail vergleichen.'')"

definition unresolvedWarning :: "nat \<Rightarrow> gostring" where
  "unresolvedWarning n =
     (if n = 1 then (''Eine Pr'' @ [CHR 0xC3, CHR 0xBC] @ ''fung konnte nicht durchgef'' @ [CHR 0xC3, CHR 0xBC] @ ''hrt werden, weil die DNS-Abfrage nicht beantwortet wurde. Das Ergebnis ist deshalb unvollst'' @ [CHR 0xC3, CHR 0xA4] @ ''ndig '' @ [CHR 0xE2, CHR 0x80, CHR 0x94] @ '' bitte sp'' @ [CHR 0xC3, CHR 0xA4] @ ''ter erneut pr'' @ [CHR 0xC3, CHR 0xBC] @ ''fen.'')
      else show_nat n @ ('' Pr'' @ [CHR 0xC3, CHR 0xBC] @ ''fungen konnten nicht durchgef'' @ [CHR 0xC3, CHR 0xBC] @ ''hrt werden, weil DNS-Abfragen nicht beantwortet wurden. Das Ergebnis ist deshalb unvollst'' @ [CHR 0xC3, CHR 0xA4] @ ''ndig '' @ [CHR 0xE2, CHR 0x80, CHR 0x94] @ '' bitte sp'' @ [CHR 0xC3, CHR 0xA4] @ ''ter erneut pr'' @ [CHR 0xC3, CHR 0xBC] @ ''fen.''))"

subsection \<open>The analysis\<close>

definition check_context :: "analyzer_input \<Rightarrow> mail_facts \<Rightarrow> header_stage \<Rightarrow> content_stage \<Rightarrow> checkContext" where
  "check_context inp f hs ks =
     \<lparr>CRemoteIP = MsgRemoteIP (InMessage inp), CHELO = MsgHELO (InMessage inp), CSMTPFrom = SMTPFrom (InMessage inp), CHeaders = MHeader f,
      CFromDomain = MFrom f, CEnvelopeDomain = MEnvelope f, CReturnPath = Get (MHeader f) ''Return-Path'', CReturnDomain = MReturn f,
      CSPFResult = parseAuthResult (MAuth f) ''spf'', CSPFRecords = HSPFRecords hs, CDKIMResult = parseAuthResult (MAuth f) ''dkim'',
      CDKIMDomain = dkimDomain (HAlign hs), CDKIMTexts = None, CDMARCResult = parseAuthResult (MAuth f) ''dmarc'', CDMARCRecords = Records (HDMARC hs),
      CDMARCPolicy = Policy (HDMARC hs), CAlignedSPF = alignedSPF (HAlign hs), CAlignedDKIM = alignedDKIM (HAlign hs),
      CReceivedLines = headerValues (MHeader f) ''Received'', CBody = KBody ks, CLinks = KLinks ks\<rparr>"

definition gated_score :: "bool \<Rightarrow> finding list \<Rightarrow> float64" where
  "gated_score simulation cs =
     (let s = clampScore (sum_deltas 10 cs) in if \<not> simulation \<and> essentialPerfectCap < s \<and> \<not> essentialsAllPass cs then essentialPerfectCap else s)"

definition finish_report :: "bool \<Rightarrow> finding list \<Rightarrow> content_stage \<Rightarrow> gostring list \<Rightarrow> analysis" where
  "finish_report simulation cs ks warnings =
     (let s = gated_score simulation cs; u = countUnresolved cs
      in \<lparr>AChecks = cs, AScore = s, ALabel = label_of s, AMailType = KMailType ks,
          AWarnings = dedupeSorted (KWarnings ks @ warnings @ (if 0 < u then [unresolvedWarning u] else [])), ALinks = KLinks ks, ASpamSignals = dedupeSorted (KSignals ks)\<rparr>)"

text \<open>The report on a message that cannot be read: its only check is not enriched and the gate is not applied.\<close>

definition unreadable_report :: "gostring \<Rightarrow> gostring \<Rightarrow> gostring \<Rightarrow> gostring \<Rightarrow> analysis" where
  "unreadable_report ipText ehlo raw msg =
     (let c = (withDetails (fail ''mime_parse'' (- 2))
            [''remote_ip'' \<mapsto> orElse ipText ''unknown'', ''helo_ehlo'' \<mapsto> orElse ehlo ''unknown'', ''raw_bytes'' \<mapsto> show_nat (length raw), ''parse_error'' \<mapsto> msg])
            \<lparr>Category := ''Header und Rohdaten'', Severity := ''high''\<rparr>;
          s = clampScore (fadd 10 (ScoreDelta c))
      in \<lparr>AChecks = [c], AScore = s, ALabel = label_of s, AMailType = [], AWarnings = [msg], ALinks = [], ASpamSignals = []\<rparr>)"

definition read_body :: "gostring \<Rightarrow> gostring \<times> finding list" where
  "read_body body =
     (case readLimited (4 * 1024 * 1024) False body of Some b \<Rightarrow> (b, []) | None \<Rightarrow> ([], [warn ''body_read'' (fl (- 5/10))]))"

definition analyze :: "analysis_env \<Rightarrow> Options \<Rightarrow> analyzer_input \<Rightarrow> dnsFailures \<Rightarrow> analysis \<times> dnsFailures" where
  "analyze env opts inp n =
     (let msg = InMessage inp
      in case ReadMessage env (RawSource msg) of
           Inl e \<Rightarrow> (unreadable_report (MsgRemoteIP msg) (MsgHELO msg) (RawSource msg) e, n)
         | Inr (h, body) \<Rightarrow>
             (let (b, readChecks) = read_body body; f = mail_facts_of (content env) (SMTPFrom msg) h b
              in case header_checks (content env) f (MsgHELO msg) n of (hs, n1) \<Rightarrow>
                 (let ks = content_checks env (OEnableBrokenLinks opts \<or> EnableBrokenLinks inp) f; ctx = check_context inp f hs ks;
                      group_a = readChecks @ HChecks hs @ KChecks ks
                  in if SimulationMode inp
                     then (let cs = markSimulatedAuthResults (group_a @ map (sim_placeholder ctx) (simGroupBIDs @ simGroupCIDs)); k = countSimulatorSkipped cs
                           in (finish_report True (map (enrich_finding ctx) cs) ks (if 0 < k then [simulator_warning k] else []), n1))
                     else (case network_stage env (netTasks env opts inp f (KLinks ks)) n1 of (netChecks, n2) \<Rightarrow>
                        (finish_report False (map (enrich_finding ctx) (group_a @ netChecks)) ks [], n2)))))"

subsection \<open>Advice\<close>

text \<open>The advice of a report: of the findings that fail or warn, the costliest first, without repetitions.\<close>

definition advice_of :: "CheckResult \<Rightarrow> gostring" where
  "advice_of c = (if Recommendation c \<noteq> [] then Recommendation c else Suggestion c)"

definition collect_suggestions :: "CheckResult list \<Rightarrow> gostring list" where
  "collect_suggestions cs =
     dedupeKeepOrder (map advice_of (filter (\<lambda>c. finding.Status c \<in> {''fail'', ''warn''}) (sort_key ScoreDelta cs)))"

subsection \<open>Which checks a report has\<close>

lemma finding_ids [simp]:
  "ID (pass i d) = i" "ID (warn i d) = i" "ID (fail i d) = i" "ID (info i d) = i" "ID (na i) = i" "ID (finding_of i stt d) = i"
  "ID (withDetails c det) = ID c" "ID (unresolved i) = i"
  by (simp_all add: finding_defs withDetails_def unresolved_def)

lemma enrich_ids [simp]: "ID (Findings.enrichCheckResult c) = ID c" "ID (enrich_finding ctx c) = ID c" "ID (sim_placeholder ctx i) = i"
  by (simp_all add: Findings.enrichCheckResult_def enrich_finding_def sim_placeholder_def Let_def)

lemma spf_strictness_id [simp]: "ID (spfStrictnessCheck env rs) = ''spf_strictness''"
  by (cases rs) (simp_all add: spfStrictnessCheck_def Let_def split: prod.splits)

lemma header_check_ids [simp]:
  "ID (fst (fst (spf_verdict_check env r fwd d n))) = ''spf''"
  "ID (fst (dkim_verdict_check env h r n)) = ''dkim''"
  "ID (fst (fst (dmarc_verdict_check env r fwd d al n))) = ''dmarc''"
  "ID (spfAlignmentCheck a b c al2) = ''spf_alignment''" "ID (dkimAlignmentCheck c al2) = ''dkim_alignment''"
  "ID (dmarcAlignmentCheck a b c al2 al3) = ''dmarc_alignment''" "ID (dmarcPolicyCheck rs p) = ''dmarc_policy''"
  "ID (displayNameCheck cenv a b) = ''display_name''" "ID (helo_check a) = ''helo''"
  "ID (from_alignment_check a b) = ''from_alignment''" "ID (reply_to_check h) = ''reply_to''" "ID (received_chain_check ls) = ''received_chain''"
  "ID (tlsTransportCheck ls) = ''tls_transport''" "ID (arc_check h a) = ''arc''" "ID (x_google_check a) = ''x_google_dkim''"
  by (auto simp: spf_verdict_check_def dkim_verdict_check_def dmarc_verdict_check_def spfAlignmentCheck_def dkimAlignmentCheck_def dmarcAlignmentCheck_def
      dmarcPolicyCheck_def displayNameCheck_def helo_check_def from_alignment_check_def reply_to_check_def received_chain_check_def
      tlsTransportCheck_def arc_check_def x_google_check_def Let_def split: prod.splits option.splits)

definition header_ids :: "gostring list" where
  "header_ids = [''spf'', ''dkim'', ''dmarc'', ''spf_alignment'', ''dkim_alignment'', ''dmarc_alignment'', ''dmarc_policy'', ''spf_strictness'', ''display_name'',
     ''helo'', ''from_alignment'', ''return_path'', ''reply_to'', ''received_chain'', ''tls_transport'', ''arc'', ''x_google_dkim'']"

definition body_ids :: "gostring list" where
  "body_ids = [''mime_ct'', ''mime_boundary'', ''plain_text'', ''multipart_alt'', ''attachments'', ''image_text_ratio'', ''image_alt'', ''charset'']"

definition url_ids :: "gostring list" where "url_ids = [''links'', ''shortener'', ''tracking_links'', ''too_many_links'']"
definition link_ids :: "gostring list" where "link_ids = [''template_urls'', ''link_domain_mismatch'', ''broken_links'']"
definition html_ids :: "gostring list" where "html_ids = [''html'', ''hidden_html'', ''html_validity'', ''harmful_html'']"
definition subject_ids :: "gostring list" where "subject_ids = [''subject'', ''subject_exclaim'', ''subject_caps'']"
definition head_ids :: "gostring list" where
  "head_ids = [''date'', ''date_skew'', ''message_id'', ''message_id_format'', ''fake_reply'', ''no_reply_reply_to'']"
definition newsletter_ids :: "gostring list" where "newsletter_ids = [''list_unsub'', ''one_click_unsub'', ''preheader'']"

definition content_ids :: "gostring list" where
  "content_ids = body_ids @ url_ids @ link_ids @ html_ids @ subject_ids @ head_ids @ [''unicode''] @ newsletter_ids"

definition network_ids :: "gostring list" where
  "network_ids = [''mx_records'', ''address_records'', ''dkim_keylength'', ''envelope_mx'', ''mta_sts'', ''tls_rpt'', ''bimi'', ''dnssec'', ''dane_tlsa'', ''ptr'', ''ptr_pattern'',
     ''from_domain_rcv'', ''rbl'', ''spamassassin'', ''rspamd'', ''domain_age'', ''domain_blocklist'', ''link_blocklist'']"

text \<open>An optional finding of the next identifier, or none.\<close>

lemma subseq_opt:
  assumes "map ID xs = [] \<or> map ID xs = [i]" "subseq (map ID r) is"
  shows "subseq (map ID (xs @ r)) (i # is)"
  using assms by auto

lemma subseq_skip: "subseq (map ID r) is \<Longrightarrow> subseq (map ID r) (i # is)"
  by auto

lemma subseq_one: "ID c = i \<Longrightarrow> subseq (map ID r) is \<Longrightarrow> subseq (map ID (c # r)) (i # is)"
  by simp

lemmas subseq_parts = list_emb_append_mono [of "(=)"]

lemma header_stage_ids: "subseq (map ID (HChecks (fst (header_checks env f ehlo n)))) header_ids"
proof -
  have "map ID (return_path_checks h mt d) = [] \<or> map ID (return_path_checks h mt d) = [''return_path'']" for h mt d
    by (simp add: return_path_checks_def Let_def)
  then show ?thesis
    unfolding header_checks_def header_ids_def Let_def case_prod_beta fst_conv header_stage.select_convs append_Cons append_Nil
    by (intro subseq_one subseq_opt) simp_all
qed

lemma image_check_ids [simp]: "ID (image_ratio_check k l) = ''image_text_ratio''" "ID (image_alt_check ns) = ''image_alt''"
  by (simp_all add: image_ratio_check_def image_alt_check_def case_prod_beta)

lemma body_findings_ids: "subseq (map ID (body_findings env pb)) (drop 2 body_ids)"
  unfolding body_findings_def body_ids_def
  by (simp only: drop_Suc_Cons drop_0 numeral_2_eq_2 append_assoc, intro subseq_opt) simp_all

lemma body_stage_ids: "subseq (map ID (fst (inspectBody env h body))) body_ids"
proof -
  have "body_ids = [''mime_ct'', ''mime_boundary''] @ drop 2 body_ids" by (simp add: body_ids_def)
  then have "subseq (map ID (body_findings env pb)) body_ids" for pb
    using body_findings_ids by (metis list_emb_append2)
  moreover have "subseq [''mime_ct''] body_ids" "subseq [''mime_boundary''] body_ids" by (simp_all add: body_ids_def)
  ultimately show ?thesis by (simp add: inspectBody_def Let_def case_prod_beta)
qed

lemma url_stage_ids: "subseq (map ID (fst (evaluateURLs env links))) url_ids"
  unfolding evaluateURLs_def url_ids_def Let_def
  by (simp only: if_distrib [of fst] fst_conv append_Cons append_Nil, split if_split, intro conjI impI subseq_one subseq_opt) simp_all

lemma mismatch_id [simp]: "ID (linkDomainMismatchCheck env html d) = ''link_domain_mismatch''"
  by (cases "html_parse env html") (simp_all add: linkDomainMismatchCheck_def Let_def)

lemma link_check_ids [simp]:
  "ID (templateURLCheck links mt) = ''template_urls''"
  "ID (brokenLinksCheck env arr links) = ''broken_links''" "ID (fst (unicodeObfuscationCheck txt)) = ''unicode''"
  by (auto simp: templateURLCheck_def brokenLinksCheck_def unicodeObfuscationCheck_def Let_def split: prod.splits)

lemma html_stage_ids: "subseq (map ID (htmlHeuristics env html)) html_ids"
  by (simp add: htmlHeuristics_def html_ids_def Let_def)

lemma subject_stage_ids: "subseq (map ID (fst (subjectHeuristics env subj))) subject_ids"
  by (simp add: subjectHeuristics_def subject_ids_def Let_def)

lemma date_check_id: "ID (fst (date_check env d)) = ''date'' \<or> ID (fst (date_check env d)) = ''date_skew''"
  by (auto simp: date_check_def Let_def split: option.splits)

lemma message_id_check_ids: "subseq (map ID (fst (message_id_checks m))) [''message_id'', ''message_id_format'']"
  by (simp add: message_id_checks_def Let_def)

lemma head_stage_ids: "subseq (map ID (fst (headerHeuristics env h))) head_ids"
proof -
  have 1: "subseq (map ID [fst (date_check env d)]) [''date'', ''date_skew'']" for d using date_check_id [of env d] by auto
  have 2: "subseq (map ID (fst (fake_reply_check h) @ no_reply_check h)) [''fake_reply'', ''no_reply_reply_to'']"
    by (simp add: fake_reply_check_def no_reply_check_def Let_def)
  have "head_ids = [''date'', ''date_skew''] @ [''message_id'', ''message_id_format''] @ [''fake_reply'', ''no_reply_reply_to'']" by (simp add: head_ids_def)
  then show ?thesis
    using subseq_parts [OF 1 subseq_parts [OF message_id_check_ids 2]]
    by (simp only: headerHeuristics_def case_prod_beta fst_conv map_append)
qed

lemma newsletter_stage_ids: "subseq (map ID (newsletterHeuristics h pb mt)) newsletter_ids"
proof -
  have 1: "subseq (map ID (if mt = ''bulk'' then bulk_checks h else hinted_checks h pb)) [''list_unsub'', ''one_click_unsub'']"
    by (simp add: bulk_checks_def hinted_checks_def Let_def)
  have "subseq (map ID (if a then [info ''preheader'' 0] else if b then [warn ''preheader'' d] else [])) [''preheader'']" for a b d by simp
  from subseq_parts [OF 1 this] show ?thesis
    by (simp add: newsletterHeuristics_def newsletter_ids_def Let_def)
qed

lemma content_stage_ids: "subseq (map ID (KChecks (content_checks env openLinks f))) content_ids"
  unfolding content_checks_def content_ids_def link_ids_def Let_def case_prod_beta content_stage.select_convs map_append
  by (intro subseq_parts body_stage_ids url_stage_ids html_stage_ids subject_stage_ids head_stage_ids newsletter_stage_ids) simp_all

text \<open>A check of the network names its finding after its task.\<close>

definition keeps_name :: "gostring \<times> check \<Rightarrow> bool" where
  "keeps_name t = (\<forall>n. ID (fst (snd t n)) = fst t)"

lemma task_ids:
  assumes "list_all keeps_name ts" "distinct ord" "set ord = {..<length ts}" "completion env (length ts) = ord"
  shows "map ID (fst (network_stage env ts n)) = map fst ts"
proof -
  have len: "length (fst (run_tasks ts n)) = length ts" for n
    by (induction ts arbitrary: n) (auto simp: case_prod_beta)
  have "map ID (concat (map (\<lambda>(name, r). case r of Inl msg \<Rightarrow> [errorCheck name msg] | Inr fs \<Rightarrow> fs) (fst (run_tasks ts n)))) = map fst ts"
    using assms(1) by (induction ts arbitrary: n) (auto simp: keeps_name_def case_prod_beta)
  then show ?thesis
    using assms len by (simp add: network_stage_def case_prod_beta runChecks_slots)
qed

lemma keeps_nameI: "(\<And>n. ID (fst (chk n)) = i) \<Longrightarrow> keeps_name (i, chk)"
  by (simp add: keeps_name_def)

lemma mail_server_check_ids:
  "keeps_name (''mx_records'', mxRecordCheck e d)" "keeps_name (''address_records'', addressRecordCheck e d)"
  "keeps_name (''envelope_mx'', envelopeBounceMXCheck e d)" "keeps_name (''from_domain_rcv'', fromDomainReceiveCheck e a b)"
  by (rule keeps_nameI, simp add: mxRecordCheck_def addressRecordCheck_def envelopeBounceMXCheck_def fromDomainReceiveCheck_def Let_def case_prod_beta)+

lemma policy_check_id: "keeps_name (i, policy_check i l p b e d)"
  by (rule keeps_nameI) (simp add: policy_check_def Let_def case_prod_beta)

lemma key_check_ids:
  "keeps_name (''dkim_keylength'', dkimKeyLengthCheck e d)" "keeps_name (''dnssec'', dnssecCheck e d)" "keeps_name (''dane_tlsa'', daneCheck e d)"
  by (rule keeps_nameI, simp add: dkimKeyLengthCheck_def dnssecCheck_def daneCheck_def Let_def case_prod_beta split: key_material.split)+

lemma reverse_check_ids:
  "keeps_name (''ptr'', ptrPlausibility e a b)" "keeps_name (''ptr_pattern'', ptrPatternCheck e a)"
  "keeps_name (''domain_blocklist'', domainBlocklistCheck e d ps)" "keeps_name (''link_blocklist'', linkBlocklistCheck e ordr ls ps)"
  by (rule keeps_nameI, simp add: ptrPlausibility_def ptrPatternCheck_def domainBlocklistCheck_def linkBlocklistCheck_def Let_def case_prod_beta split: option.split)+

lemma spam_check_ids:
  "ID (spamAssassinHeuristic se hp src ratio) = ''spamassassin''" "ID (rspamdHeuristic ex se url pw hs src) = ''rspamd''"
  by (simp_all add: spamAssassinHeuristic_def spam_verdict_def rspamdHeuristic_def rspamd_verdict_def Let_def split: spamd_reply.split http_reply.split option.split)

lemma quiet_check_ids:
  "keeps_name (''rbl'', Pair (rblHeuristics e ipText ps))" "keeps_name (''domain_age'', Pair (domainAgeCheck e d))"
  "keeps_name (''spamassassin'', Pair (spamAssassinHeuristic se hp src ratio))" "keeps_name (''rspamd'', Pair (rspamdHeuristic ex se url pw hs src))"
  by (rule keeps_nameI, simp add: rblHeuristics_def domainAgeCheck_def spam_check_ids Let_def case_prod_beta split: option.split)+

lemmas network_check_ids = mail_server_check_ids policy_check_id [of "''mta_sts''"] policy_check_id [of "''tls_rpt''"] policy_check_id [of "''bimi''"]
  key_check_ids reverse_check_ids quiet_check_ids

lemma netTasks_keep_names: "list_all keeps_name (netTasks env opts inp f links)"
  unfolding netTasks_def Let_def mtaStsCheck_def tlsRptCheck_def bimiCheck_def list_all_append
  by (simp add: network_check_ids)

lemma netTasks_ids: "subseq (map fst (netTasks env opts inp f links)) network_ids"
proof -
  have opt: "subseq (map fst (if b then ts else [])) (map fst ts)" for b and ts :: "(gostring \<times> check) list" by simp
  have "network_ids = take 12 network_ids @ [''rbl''] @ [''spamassassin''] @ [''rspamd''] @ [''domain_age''] @ [''domain_blocklist'', ''link_blocklist'']"
    by (simp add: network_ids_def)
  then show ?thesis
    unfolding netTasks_def Let_def map_append
    by (elim ssubst, intro subseq_parts) (simp_all add: network_ids_def)
qed

text \<open>The goroutines of the network stage end in some order, each once.\<close>

definition all_complete :: "analysis_env \<Rightarrow> bool" where
  "all_complete env = (\<forall>k. distinct (completion env k) \<and> set (completion env k) = {..<k})"

lemma network_stage_ids:
  "all_complete env \<Longrightarrow> map ID (fst (network_stage env (netTasks env opts inp f links) n)) = map fst (netTasks env opts inp f links)"
  by (rule task_ids [OF netTasks_keep_names]) (simp_all add: all_complete_def)

lemma ptr_task: "''ptr'' \<in> set (map fst (netTasks env opts inp f links))"
  by (simp add: netTasks_def Let_def)

definition report_ids :: "gostring list" where
  "report_ids = [''body_read''] @ header_ids @ content_ids @ network_ids"

lemma report_ids_distinct: "distinct report_ids"
  by (simp add: report_ids_def header_ids_def content_ids_def body_ids_def url_ids_def link_ids_def html_ids_def subject_ids_def head_ids_def newsletter_ids_def network_ids_def)

lemma read_body_ids: "subseq (map ID (snd (read_body body))) [''body_read'']"
  by (simp add: read_body_def split: option.split)

lemma sim_ids: "distinct (simGroupBIDs @ simGroupCIDs)" "set (simGroupBIDs @ simGroupCIDs) \<subseteq> set network_ids" "length (simGroupBIDs @ simGroupCIDs) = 16"
  by (simp_all add: simGroupBIDs_def simGroupCIDs_def network_ids_def)

subsection \<open>The report as a whole\<close>

lemma header_stage_essentials: "{''spf'', ''dkim'', ''dmarc''} \<subseteq> ID ` set (HChecks (fst (header_checks env f ehlo n)))"
  by (simp add: header_checks_def Let_def case_prod_beta)

definition own_checks :: "finding list \<Rightarrow> bool" where
  "own_checks cs = (subseq (map ID cs) ([''body_read''] @ header_ids @ content_ids) \<and> {''spf'', ''dkim'', ''dmarc''} \<subseteq> ID ` set cs)"

lemma own_stage: "own_checks (snd (read_body body) @ HChecks (fst (header_checks cenv f ehlo n)) @ KChecks (content_checks env b f))"
  unfolding own_checks_def map_append
proof
  show "subseq (map ID (snd (read_body body)) @ map ID (HChecks (fst (header_checks cenv f ehlo n))) @ map ID (KChecks (content_checks env b f)))
      ([''body_read''] @ header_ids @ content_ids)"
    by (intro subseq_parts read_body_ids header_stage_ids content_stage_ids)
qed (use header_stage_essentials [of cenv f ehlo n] in auto)

text \<open>The stages of an analysis of a readable message.\<close>

definition own_part :: "analysis_env \<Rightarrow> Options \<Rightarrow> analyzer_input \<Rightarrow> dnsFailures \<Rightarrow> header \<Rightarrow> gostring
    \<Rightarrow> mail_facts \<times> finding list \<times> content_stage \<times> checkContext \<times> dnsFailures" where
  "own_part env opts inp n h body =
     (let (b, readChecks) = read_body body; f = mail_facts_of (content env) (SMTPFrom (InMessage inp)) h b;
          (hs, n1) = header_checks (content env) f (MsgHELO (InMessage inp)) n; ks = content_checks env (OEnableBrokenLinks opts \<or> EnableBrokenLinks inp) f
      in (f, readChecks @ HChecks hs @ KChecks ks, ks, check_context inp f hs ks, n1))"

lemma own_part_checks: "own_part env opts inp n h body = (f, own, ks, ctx, n1) \<Longrightarrow> own_checks own"
  using own_stage by (auto simp: own_part_def Let_def case_prod_beta)

lemma analyze_delivered:
  assumes "ReadMessage env (RawSource (InMessage inp)) = Inr (h, body)" "\<not> SimulationMode inp" "own_part env opts inp n h body = (f, own, ks, ctx, n1)"
  shows "fst (analyze env opts inp n) =
    finish_report False (map (enrich_finding ctx) (own @ fst (network_stage env (netTasks env opts inp f (KLinks ks)) n1))) ks []"
  using assms by (auto simp: analyze_def own_part_def Let_def case_prod_beta)

lemma analyze_simulated:
  assumes "ReadMessage env (RawSource (InMessage inp)) = Inr (h, body)" "SimulationMode inp" "own_part env opts inp n h body = (f, own, ks, ctx, n1)"
    and "cs = markSimulatedAuthResults (own @ map (sim_placeholder ctx) (simGroupBIDs @ simGroupCIDs))"
  shows "fst (analyze env opts inp n) = finish_report True (map (enrich_finding ctx) cs) ks (if 0 < countSimulatorSkipped cs then [simulator_warning (countSimulatorSkipped cs)] else [])"
  using assms by (auto simp: analyze_def own_part_def Let_def case_prod_beta)

lemma finish_checks [simp]: "AChecks (finish_report sim cs ks ws) = cs" "AScore (finish_report sim cs ks ws) = gated_score sim cs"
  by (simp_all add: finish_report_def Let_def)

lemma mark_ids [simp]: "map ID (markSimulatedAuthResults cs) = map ID cs"
  by (simp add: markSimulatedAuthResults_def)

lemma enrich_map_ids [simp]: "map ID (map (enrich_finding ctx) cs) = map ID cs" "map ID (map (sim_placeholder ctx) is) = is"
  by (simp_all add: comp_def)

lemma subseq_distinct: "subseq xs ys \<Longrightarrow> distinct ys \<Longrightarrow> distinct xs"
  by (meson in_set_subseqs subseqs_distinctD)

lemma subseq_set: "subseq xs ys \<Longrightarrow> set xs \<subseteq> set ys"
  by (auto dest: list_emb_set)

lemma distinct_parts:
  assumes "own_checks own" "distinct is" "set is \<subseteq> set network_ids"
  shows "distinct (map ID own @ is)"
proof -
  have "subseq (map ID own) ([''body_read''] @ header_ids @ content_ids)" using assms(1) by (simp add: own_checks_def)
  moreover have "distinct (([''body_read''] @ header_ids @ content_ids) @ network_ids)" using report_ids_distinct by (simp add: report_ids_def)
  ultimately show ?thesis using assms(2,3) by (auto simp only: distinct_append dest: subseq_distinct subseq_set)
qed

lemma task_ids_distinct: "distinct (map fst (netTasks env opts inp f links))" "set (map fst (netTasks env opts inp f links)) \<subseteq> set network_ids"
proof -
  have "distinct network_ids" using report_ids_distinct by (simp add: report_ids_def)
  then show "distinct (map fst (netTasks env opts inp f links))" by (rule subseq_distinct [OF netTasks_ids])
  show "set (map fst (netTasks env opts inp f links)) \<subseteq> set network_ids" by (rule subseq_set [OF netTasks_ids])
qed

text \<open>
  C30: Whatever the message, the options and the answers of the network are, a report lists every check at most once. The lists of rechecks and the
  web interface find a check by its identifier.
\<close>

theorem report_lists_checks_once:
  assumes "all_complete env"
  shows "distinct (map ID (AChecks (fst (analyze env opts inp n))))"
proof (cases "ReadMessage env (RawSource (InMessage inp))")
  case (Inl e)
  then show ?thesis by (simp add: analyze_def unreadable_report_def Let_def)
next
  case (Inr hb)
  obtain f own ks ctx n1 where part: "own_part env opts inp n (fst hb) (snd hb) = (f, own, ks, ctx, n1)" by (metis prod_cases5)
  have read: "ReadMessage env (RawSource (InMessage inp)) = Inr (fst hb, snd hb)" using Inr by simp
  note own = own_part_checks [OF part]
  show ?thesis
  proof (cases "SimulationMode inp")
    case True
    show ?thesis using distinct_parts [OF own sim_ids(1,2)] by (simp only: analyze_simulated [OF read True part refl] finish_checks enrich_map_ids mark_ids map_append)
  next
    case False
    show ?thesis using distinct_parts [OF own task_ids_distinct]
      by (simp only: analyze_delivered [OF read False part] finish_checks enrich_map_ids map_append network_stage_ids [OF assms])
  qed
qed

lemma passing_essential:
  assumes "distinct (map ID cs)" "i \<in> ID ` set cs" "essentialsAllPass cs" "i \<in> {''spf'', ''dkim'', ''dmarc'', ''ptr''}"
  shows "map finding.Status (filter (\<lambda>c. ID c = i) cs) = [''pass'']"
proof -
  obtain c where c: "c \<in> set cs" "ID c = i" using assms(2) by auto
  have "filter (\<lambda>c. ID c = i) cs = [c]" using assms(1) c
    by (induction cs) (auto simp: filter_empty_conv image_iff)
  moreover have "finding.Status c = ''pass''" using assms(3,4) c by (auto simp: essentialsAllPass_def list_all_iff)
  ultimately show ?thesis by simp
qed

text \<open>
  C27: On a real delivery a score above the cap of 9.5 means that SPF, DKIM, DMARC and reverse DNS are in the report exactly once each and have passed: the checks
  before the network stage always contribute the first three, the network stage always contributes the fourth, and the gate looks at all of them.
\<close>

theorem top_score_needs_essentials:
  assumes "all_complete env" "ReadMessage env (RawSource (InMessage inp)) = Inr (h, body)" "\<not> SimulationMode inp"
    and "essentialPerfectCap < AScore (fst (analyze env opts inp n))" "i \<in> {''spf'', ''dkim'', ''dmarc'', ''ptr''}"
  shows "map finding.Status (filter (\<lambda>c. ID c = i) (AChecks (fst (analyze env opts inp n)))) = [''pass'']"
proof -
  obtain f own ks ctx n1 where part: "own_part env opts inp n h body = (f, own, ks, ctx, n1)" by (metis prod_cases5)
  define cs where "cs = map (enrich_finding ctx) (own @ fst (network_stage env (netTasks env opts inp f (KLinks ks)) n1))"
  have r: "AChecks (fst (analyze env opts inp n)) = cs" "AScore (fst (analyze env opts inp n)) = gated_score False cs"
    using analyze_delivered [OF assms(2,3) part] by (simp_all add: cs_def)
  have ids: "map ID cs = map ID own @ map fst (netTasks env opts inp f (KLinks ks))"
    by (simp only: cs_def enrich_map_ids map_append network_stage_ids [OF assms(1)])
  then have "i \<in> set (map ID cs)"
    using own_part_checks [OF part] assms(5) ptr_task [of env opts inp f "KLinks ks"] by (auto simp: own_checks_def)
  moreover have "distinct (map ID cs)" using distinct_parts [OF own_part_checks [OF part] task_ids_distinct] ids by simp
  moreover have "essentialsAllPass cs" using assms(4) by (auto simp: r gated_score_def Let_def split: if_splits)
  ultimately show ?thesis using passing_essential [of cs i] assms(5) by (simp add: r)
qed

subsection \<open>The simulator\<close>

text \<open>No check of its own puts the mark of the simulator on its finding.\<close>

definition unmarked :: "finding \<Rightarrow> bool" where
  "unmarked c = (TechnicalDetails c simulatorSkippedMarker = None)"

lemma finding_unmarked [simp]:
  "unmarked (pass i d)" "unmarked (warn i d)" "unmarked (fail i d)" "unmarked (info i d)" "unmarked (na i)" "unmarked (finding_of i stt d)" "unmarked (unresolved i)"
  "unmarked (withDetails c det) = (det ''simulator_uebersprungen'' = None)"
  by (simp_all add: unmarked_def finding_defs withDetails_def unresolved_def simulatorSkippedMarker_def unresolvedDetailKey_def)

lemma header_check_unmarked [simp]:
  "unmarked (fst (fst (spf_verdict_check env r fwd d n)))"
  "unmarked (fst (dkim_verdict_check env h r n))"
  "unmarked (fst (fst (dmarc_verdict_check env r fwd d al n)))"
  "unmarked (spfAlignmentCheck a b c al2)" "unmarked (dkimAlignmentCheck c al2)"
  "unmarked (dmarcAlignmentCheck a b c al2 al3)" "unmarked (dmarcPolicyCheck rs p)"
  "unmarked (displayNameCheck cenv a b)" "unmarked (helo_check a)"
  "unmarked (from_alignment_check a b)" "unmarked (reply_to_check h)" "unmarked (received_chain_check ls)"
  "unmarked (tlsTransportCheck ls)" "unmarked (arc_check h a)" "unmarked (x_google_check a)"
  by (auto simp: spf_verdict_check_def dkim_verdict_check_def dmarc_verdict_check_def spfAlignmentCheck_def dkimAlignmentCheck_def dmarcAlignmentCheck_def
      dmarcPolicyCheck_def displayNameCheck_def helo_check_def from_alignment_check_def reply_to_check_def received_chain_check_def
      tlsTransportCheck_def arc_check_def x_google_check_def Let_def split: prod.splits option.splits)

lemma spf_strictness_unmarked [simp]: "unmarked (spfStrictnessCheck env rs)"
  by (cases rs) (simp_all add: spfStrictnessCheck_def Let_def split: prod.splits)

lemma header_stage_unmarked: "list_all unmarked (HChecks (fst (header_checks env f ehlo n)))"
  by (simp add: header_checks_def return_path_checks_def Let_def case_prod_beta)

lemma body_stage_unmarked: "list_all unmarked (fst (inspectBody env h body))"
proof -
  have "unmarked (image_ratio_check k l)" "unmarked (image_alt_check ns)" for k l ns
    by (simp_all add: image_ratio_check_def image_alt_check_def case_prod_beta)
  then have "list_all unmarked (body_findings env pb)" for pb
    unfolding body_findings_def list_all_append by simp
  then show ?thesis by (simp add: inspectBody_def Let_def case_prod_beta)
qed

lemma url_stage_unmarked: "list_all unmarked (fst (evaluateURLs env links))"
  by (simp add: evaluateURLs_def Let_def)

lemma mismatch_unmarked [simp]: "unmarked (linkDomainMismatchCheck env html d)"
  by (cases "html_parse env html") (simp_all add: linkDomainMismatchCheck_def Let_def)

lemma link_check_unmarked [simp]:
  "unmarked (templateURLCheck links mt)" "unmarked (brokenLinksCheck env arr links)" "unmarked (fst (unicodeObfuscationCheck txt))"
  by (auto simp: templateURLCheck_def brokenLinksCheck_def unicodeObfuscationCheck_def Let_def split: prod.splits)

lemma small_stages_unmarked:
  "list_all unmarked (htmlHeuristics env html)" "list_all unmarked (fst (subjectHeuristics env subj))"
  "list_all unmarked (fst (headerHeuristics env h))" "list_all unmarked (newsletterHeuristics h pb mt)"
  by (simp_all add: htmlHeuristics_def subjectHeuristics_def headerHeuristics_def date_check_def message_id_checks_def fake_reply_check_def no_reply_check_def
      newsletterHeuristics_def bulk_checks_def hinted_checks_def Let_def case_prod_beta split: option.split)

lemma content_stage_unmarked: "list_all unmarked (KChecks (content_checks env b f))"
  by (simp add: content_checks_def Let_def case_prod_beta body_stage_unmarked url_stage_unmarked small_stages_unmarked)

lemma own_part_unmarked: "own_part env opts inp n h body = (f, own, ks, ctx, n1) \<Longrightarrow> list_all unmarked own"
  using header_stage_unmarked content_stage_unmarked by (auto simp: own_part_def read_body_def Let_def case_prod_beta split: option.splits)

lemma skipped_count:
  assumes "list_all unmarked own"
  shows "countSimulatorSkipped (markSimulatedAuthResults (own @ map (sim_placeholder ctx) is)) = length is"
proof -
  have "countSimulatorSkipped (markSimulatedAuthResults cs) = countSimulatorSkipped cs" for cs
    by (induction cs) (auto simp: countSimulatorSkipped_def markSimulatedAuthResults_def simulatorSkippedMarker_def)
  moreover have "filter (\<lambda>c. TechnicalDetails c simulatorSkippedMarker \<noteq> None) own = []"
    using assms by (simp add: filter_empty_conv unmarked_def list_all_iff)
  moreover have "filter (\<lambda>c. TechnicalDetails c simulatorSkippedMarker \<noteq> None) (map (sim_placeholder ctx) is) = map (sim_placeholder ctx) is"
    by (induction "is") (simp_all add: sim_placeholder_def Let_def)
  ultimately show ?thesis by (simp add: countSimulatorSkipped_def)
qed

lemma enrich_details: "TechnicalDetails c k \<noteq> None \<Longrightarrow> TechnicalDetails (enrich_finding ctx c) k \<noteq> None"
  by (auto simp: enrich_finding_def Findings.enrichCheckResult_def add_entries_def map_add_def Let_def split: option.split)

lemma enrich_info:
  assumes "finding.Status c = ''info''" "ScoreDelta c = 0"
  shows "finding.Status (enrich_finding ctx c) = ''info'' \<and> ScoreDelta (enrich_finding ctx c) = 0"
  using assms by (auto simp: enrich_finding_def Findings.enrichCheckResult_def scoreFor_def Let_def)

lemma placeholder_info: "finding.Status (sim_placeholder ctx i) = ''info'' \<and> ScoreDelta (sim_placeholder ctx i) = 0"
  using enrich_info [of "info i 0" ctx] by (simp add: sim_placeholder_def finding_defs Let_def)

lemma distinct_filter_ID: "distinct (map ID cs) \<Longrightarrow> c \<in> set cs \<Longrightarrow> filter (\<lambda>d. ID d = ID c) cs = [c]"
  by (induction cs) (auto simp: filter_empty_conv image_iff)

lemma warning_trimmed: "trim_space (simulator_warning 16) = simulator_warning 16"
  by code_simp

lemma dedupeSorted_set: "x \<in> set xs \<Longrightarrow> x \<noteq> [] \<Longrightarrow> trim_space x = x \<Longrightarrow> x \<in> set (dedupeSorted xs)"
  unfolding dedupeSorted_def by (simp add: dedupe_from_set) (metis image_eqI)

lemma mark_details: "c \<in> set (markSimulatedAuthResults cs) \<Longrightarrow> ID c \<in> set simulated_auth_ids \<Longrightarrow> TechnicalDetails c ''herkunft'' \<noteq> None"
  by (auto simp: markSimulatedAuthResults_def split: if_splits)

lemma content_checks_other: "content_checks (env\<lparr>spam := sp, completion := co, link_order := lo\<rparr>) b f = content_checks env b f"
proof -
  have c: "content (env\<lparr>spam := sp, completion := co, link_order := lo\<rparr>) = content env"
    and a: "arrivals (env\<lparr>spam := sp, completion := co, link_order := lo\<rparr>) = arrivals env" by simp_all
  show ?thesis unfolding content_checks_def c a by (rule refl)
qed

lemma own_part_other: "own_part (env\<lparr>spam := sp, completion := co, link_order := lo\<rparr>) opts inp n h body = own_part env opts inp n h body"
proof -
  have c: "content (env\<lparr>spam := sp, completion := co, link_order := lo\<rparr>) = content env" by simp
  show ?thesis unfolding own_part_def content_checks_other c by (rule refl)
qed

lemma finish_warnings:
  "AWarnings (finish_report sim cs ks ws) = dedupeSorted (KWarnings ks @ ws @ (if 0 < countUnresolved cs then [unresolvedWarning (countUnresolved cs)] else []))"
  by (simp add: finish_report_def Let_def)


subsection \<open>A message that everything is right with\<close>

definition demo_good_net :: analyzer_env where
  "demo_good_net = demo_analyzer\<lparr>adns := demo_env\<lparr>localLookup := (\<lambda>name. if name = ''a._domainkey.example.org'' then ([''v=DKIM1; k=ed25519; p=x''], None) else localLookup demo_env name),
     LookupMX := (\<lambda>name. ([\<lparr>Host = ''mx.example.org.'', Pref = 10\<rparr>], None)),
     LookupIPAddr := (\<lambda>name. ([IP4 0xC0000201], None)), LookupHost := (\<lambda>name. ([''192.0.2.1''], None)), LookupAddr := (\<lambda>a. ([''mx.example.org.''], None))\<rparr>\<rparr>"

definition demo_header :: header where
  "demo_header = [''From'' \<mapsto> [''a@example.org''], ''Return-Path'' \<mapsto> [''<a@example.org>''], ''Subject'' \<mapsto> [''Hi''], ''Date'' \<mapsto> [''now''],
     ''Message-Id'' \<mapsto> [''<1@example.org>''], ''Content-Type'' \<mapsto> [''text/plain''], ''Received'' \<mapsto> [''from mx with ESMTPS''],
     ''Dkim-Signature'' \<mapsto> [''d=example.org; s=a''],
     ''Authentication-Results'' \<mapsto> [''spf=pass; dkim=pass; dmarc=pass'']]"

definition demo_analysis :: analysis_env where
  "demo_analysis = \<lparr>content = demo_content\<lparr>net := demo_good_net, ParseAddress := (\<lambda>s. Some ([], s)), ParseDate := (\<lambda>s. Some 0), ParseMediaType := (\<lambda>s. (s, Map.empty, False))\<rparr>,
     spam = \<lparr>spamd = (\<lambda>h s. DialError []), rspamd_post = (\<lambda>u hs s. Unreachable), decode_rspamd = (\<lambda>s. None), symbol_payload = (\<lambda>s. (0, []))\<rparr>,
     ReadMessage = (\<lambda>s. Inr (demo_header, s)), link_order = id, arrivals = id, completion = (\<lambda>k. [0..<k])\<rparr>"

definition demo_options :: Options where
  "demo_options = \<lparr>EnableRBLChecks = False, RBLProviders = [], EnableSpamAssassin = False, SpamAssassinHostPort = [], OWarnRatio = Fin 0, EnableRspamd = False,
     RspamdURL = [], RspamdPassword = [], OEnableDomainAge = False, OEnableDomainBlocklist = False, DomainBlocklistProviders = [], OEnableBrokenLinks = False\<rparr>"

definition demo_analyzer_input :: "bool \<Rightarrow> analyzer_input" where
  "demo_analyzer_input sim = \<lparr>InMessage = (demo_message 1 0)\<lparr>SMTPFrom := ''a@example.org'', MsgRemoteIP := ''192.0.2.1'', MsgHELO := ''mx.example.org'', RawSource := ''Hello''\<rparr>,
     InSMTPDomain = [], EnableDomainAge = False, EnableDomainBlocklist = False, EnableBrokenLinks = False, SimulationMode = sim\<rparr>"

lemma demo_complete: "all_complete demo_analysis"
  by (auto simp: all_complete_def demo_analysis_def)
lemma demo_read: "ReadMessage demo_analysis (RawSource (InMessage (demo_analyzer_input sim))) = Inr (demo_header, ''Hello'')"
  by (simp add: demo_analysis_def demo_analyzer_input_def)
lemma demo_body: "read_body ''Hello'' = (''Hello'' @ [LF], [])"
proof -
  have "raw_lines ''Hello'' = [''Hello'']" "trim_suffix ''Hello'' [CR] = ''Hello''" by code_simp+
  then show ?thesis by (simp add: read_body_def readLimited_def)
qed

definition demo_facts :: mail_facts where
  "demo_facts = mail_facts_of (content demo_analysis) ''a@example.org'' demo_header (''Hello'' @ [LF])"

text \<open>A finding that does not keep a report from the full score.\<close>

definition harmless :: "finding \<Rightarrow> bool" where
  "harmless c = (ScoreDelta (Findings.enrichCheckResult c) = 0 \<and> (ID c \<in> {''spf'', ''dkim'', ''dmarc'', ''ptr''} \<longrightarrow> finding.Status c = ''pass''))"

lemma harmless_score:
  assumes "list_all harmless cs"
  shows "gated_score sim (map (enrich_finding ctx) cs) = 10"
proof -
  have d: "ScoreDelta (enrich_finding ctx c) = ScoreDelta (Findings.enrichCheckResult c)" "finding.Status (enrich_finding ctx c) = finding.Status c" for c
    by (simp_all add: enrich_finding_def Findings.enrichCheckResult_def Let_def)
  have "fl 10 = 10" by code_simp
  then have "sum_deltas 10 (map (enrich_finding ctx) cs) = 10"
    using assms by (induction cs) (simp_all add: sum_deltas_def d harmless_def fadd_def)
  moreover have "essentialsAllPass (map (enrich_finding ctx) cs)"
    using assms by (auto simp: essentialsAllPass_def harmless_def list_all_iff d)
  ultimately show ?thesis by (simp add: gated_score_def) code_simp
qed

lemma demo_header_stage: "list_all harmless (HChecks (fst (header_checks (content demo_analysis) demo_facts ''mx.example.org'' 0)))"
    "snd (header_checks (content demo_analysis) demo_facts ''mx.example.org'' 0) = 0"
  by code_simp+

lemma demo_content_stage: "list_all harmless (KChecks (content_checks demo_analysis False demo_facts))" "KLinks (content_checks demo_analysis False demo_facts) = []"
  by code_simp+

lemma demo_network_stage: "list_all harmless (fst (network_stage demo_analysis (netTasks demo_analysis demo_options (demo_analyzer_input False) demo_facts []) 0))"
  by code_simp

lemma demo_own_part:
  obtains f own ks ctx n1 where "own_part demo_analysis demo_options (demo_analyzer_input False) 0 demo_header ''Hello'' = (f, own, ks, ctx, 0)" "f = demo_facts"
    "list_all harmless own" "KLinks ks = []"
proof -
  have i: "SMTPFrom (InMessage (demo_analyzer_input False)) = ''a@example.org''" "MsgHELO (InMessage (demo_analyzer_input False)) = ''mx.example.org''"
    "(OEnableBrokenLinks demo_options \<or> EnableBrokenLinks (demo_analyzer_input False)) = False"
    by (simp_all add: demo_analyzer_input_def demo_options_def)
  show ?thesis
    by (rule that) (simp_all only: own_part_def demo_body i Let_def case_prod_beta fst_conv snd_conv demo_facts_def [symmetric]
        demo_header_stage demo_content_stage list_all_append list.pred_inject simp_thms, simp_all add: demo_header_stage demo_content_stage)
qed

lemma demo_score: "AScore (fst (analyze demo_analysis demo_options (demo_analyzer_input False) 0)) = 10"
proof -
  obtain f own ks ctx n1 where p: "own_part demo_analysis demo_options (demo_analyzer_input False) 0 demo_header ''Hello'' = (f, own, ks, ctx, 0)" "f = demo_facts"
    "list_all harmless own" "KLinks ks = []" by (rule demo_own_part)
  have "\<not> SimulationMode (demo_analyzer_input False)" by (simp add: demo_analyzer_input_def)
  from analyze_delivered [OF demo_read this p(1)] show ?thesis
    using harmless_score [of "own @ _"] demo_network_stage p(2,3,4) by simp
qed

theorem top_score_needs_essentials_witness:
  "essentialPerfectCap < AScore (fst (analyze demo_analysis demo_options (demo_analyzer_input False) 0))
   \<and> map finding.Status (filter (\<lambda>c. ID c = ''ptr'') (AChecks (fst (analyze demo_analysis demo_options (demo_analyzer_input False) 0)))) = [''pass'']"
proof -
  have "\<not> SimulationMode (demo_analyzer_input False)" by (simp add: demo_analyzer_input_def)
  moreover have "essentialPerfectCap < AScore (fst (analyze demo_analysis demo_options (demo_analyzer_input False) 0))"
    by (simp add: demo_score essentialPerfectCap_def)
  ultimately show ?thesis using top_score_needs_essentials [OF demo_complete demo_read, where i = "''ptr''"] by simp
qed

theorem report_lists_checks_once_witness: "distinct (map ID (AChecks (fst (analyze demo_analysis demo_options (demo_analyzer_input False) 0))))"
  by (rule report_lists_checks_once) (rule demo_complete)


subsection \<open>Texts and verdicts\<close>

lemma truncate_enrich: "finding.truncate (Findings.enrichCheckResult c) = Findings.enrichCheckResult (finding.truncate c)"
  by (simp add: Findings.enrichCheckResult_def finding.truncate_def detail_def Let_def)

lemma truncate_english: "finding.truncate (enrichEnglish c ctx) = finding.truncate c"
  by (simp add: enrichEnglish_def finding.truncate_def Let_def)

lemma truncate_updates [simp]:
  "finding.truncate (c\<lparr>Name := x\<rparr>) = finding.truncate c" "finding.truncate (c\<lparr>Explanation := x\<rparr>) = finding.truncate c"
  "finding.truncate (c\<lparr>Recommendation := x\<rparr>) = finding.truncate c" "finding.truncate (c\<lparr>DocLinks := ds\<rparr>) = finding.truncate c"
  "finding.truncate (c\<lparr>TechnicalDetails := d\<rparr>) = (finding.truncate c)\<lparr>TechnicalDetails := d\<rparr>"
  by (simp_all add: finding.truncate_def)


subsection \<open>The order of the advice\<close>

lemma dedupe_first:
  fixes k :: "'a \<Rightarrow> 'b::linorder"
  assumes "sorted (map k cs)" "i < j" "j < length (dedupe_from seen (map f cs))"
  shows "\<exists>c\<in>set cs. f c = dedupe_from seen (map f cs) ! i \<and> (\<forall>d\<in>set cs. f d = dedupe_from seen (map f cs) ! j \<longrightarrow> k c \<le> k d)"
  using assms
proof (induction cs arbitrary: seen i j)
  case (Cons c cs)
  let ?ds = "dedupe_from seen (map f (c # cs))"
  have j: "?ds ! j \<in> set ?ds" using Cons.prems(3) by simp
  show ?case
  proof (cases "f c = [] \<or> f c \<in> set seen")
    case True
    then have ds: "?ds = dedupe_from seen (map f cs)" by auto
    from Cons.IH [of i j seen] Cons.prems obtain e where e: "e \<in> set cs" "f e = ?ds ! i" "\<forall>d\<in>set cs. f d = ?ds ! j \<longrightarrow> k e \<le> k d"
      unfolding ds by auto
    moreover have "f c \<noteq> ?ds ! j" using j True by (auto simp: dedupe_from_set)
    ultimately show ?thesis by auto
  next
    case False
    then have ds: "?ds = f c # dedupe_from (f c # seen) (map f cs)" by auto
    show ?thesis
    proof (cases i)
      case 0
      then show ?thesis using Cons.prems(1) ds by auto
    next
      case (Suc i')
      then obtain j' where j': "j = Suc j'" using Cons.prems(2) by (cases j) auto
      let ?es = "dedupe_from (f c # seen) (map f cs)"
      have len: "j' < length ?es" using Cons.prems(3) ds j' by simp
      then have "?es ! j' \<noteq> f c" using nth_mem [OF len] by (auto simp: dedupe_from_set)
      moreover have "\<exists>e\<in>set cs. f e = ?es ! i' \<and> (\<forall>d\<in>set cs. f d = ?es ! j' \<longrightarrow> k e \<le> k d)"
        using Cons.prems(1,2) Suc j' len by (intro Cons.IH) simp_all
      ultimately show ?thesis unfolding ds Suc j' by fastforce
    qed
  qed
qed simp

definition actionable :: "CheckResult list \<Rightarrow> CheckResult set" where
  "actionable cs = {c \<in> set cs. finding.Status c = ''fail'' \<or> finding.Status c = ''warn''}"

text \<open>
  The advice of a report is complete, without repetitions and worst first: it consists of what the failing and warning checks recommend, and an advice
  stands before another one only if some check that gives it costs at least as much as every check that gives the other.
\<close>

theorem advice_worst_first:
  "set (collect_suggestions cs) = {advice_of c | c. c \<in> actionable cs \<and> advice_of c \<noteq> []} \<and> distinct (collect_suggestions cs)
   \<and> (\<forall>j<length (collect_suggestions cs). \<forall>i<j. \<exists>c\<in>actionable cs. advice_of c = collect_suggestions cs ! i
        \<and> (\<forall>d\<in>actionable cs. advice_of d = collect_suggestions cs ! j \<longrightarrow> ScoreDelta c \<le> ScoreDelta d))"
proof -
  define ws where "ws = filter (\<lambda>c. finding.Status c \<in> {''fail'', ''warn''}) (sort_key ScoreDelta cs)"
  have ws: "set ws = actionable cs" by (auto simp: ws_def actionable_def)
  have sorted: "sorted (map ScoreDelta ws)" by (simp add: ws_def sorted_filter)
  have s: "collect_suggestions cs = dedupe_from [] (map advice_of ws)" by (simp add: collect_suggestions_def dedupeKeepOrder_def ws_def)
  show ?thesis
    using dedupe_first [OF sorted, of _ _ "[]" advice_of] unfolding s ws
    by (auto simp: dedupe_from_set dedupe_from_distinct ws)
qed

definition demo_advice :: "gostring \<Rightarrow> float64 \<Rightarrow> gostring \<Rightarrow> CheckResult" where
  "demo_advice i d rec = finding.extend (fail i d)
     \<lparr>Name = i, Summary = [], Suggestion = [], Explanation = [], Recommendation = rec, DocLinks = [], NameEN = [], SummaryEN = [], ExplanationEN = [], RecommendationEN = []\<rparr>"

theorem advice_worst_first_witness:
  "collect_suggestions [demo_advice ''date'' (- 1) ''set the date'', demo_advice ''dkim'' (- 3) ''sign''] = [''sign'', ''set the date'']
   \<and> (\<exists>c\<in>actionable [demo_advice ''date'' (- 1) ''set the date'', demo_advice ''dkim'' (- 3) ''sign'']. advice_of c = ''sign''
      \<and> (\<forall>d\<in>actionable [demo_advice ''date'' (- 1) ''set the date'', demo_advice ''dkim'' (- 3) ''sign'']. advice_of d = ''set the date'' \<longrightarrow> ScoreDelta c \<le> ScoreDelta d))"
proof
  show s: "collect_suggestions [demo_advice ''date'' (- 1) ''set the date'', demo_advice ''dkim'' (- 3) ''sign''] = [''sign'', ''set the date'']" by code_simp
  have "\<forall>j<length (collect_suggestions [demo_advice ''date'' (- 1) ''set the date'', demo_advice ''dkim'' (- 3) ''sign'']). \<forall>i<j.
      \<exists>c\<in>actionable [demo_advice ''date'' (- 1) ''set the date'', demo_advice ''dkim'' (- 3) ''sign''].
        advice_of c = collect_suggestions [demo_advice ''date'' (- 1) ''set the date'', demo_advice ''dkim'' (- 3) ''sign''] ! i
        \<and> (\<forall>d\<in>actionable [demo_advice ''date'' (- 1) ''set the date'', demo_advice ''dkim'' (- 3) ''sign''].
             advice_of d = collect_suggestions [demo_advice ''date'' (- 1) ''set the date'', demo_advice ''dkim'' (- 3) ''sign''] ! j \<longrightarrow> ScoreDelta c \<le> ScoreDelta d)"
    using advice_worst_first by blast
  from this [unfolded s, rule_format, of 1 0] show "\<exists>c\<in>actionable [demo_advice ''date'' (- 1) ''set the date'', demo_advice ''dkim'' (- 3) ''sign'']. advice_of c = ''sign''
      \<and> (\<forall>d\<in>actionable [demo_advice ''date'' (- 1) ''set the date'', demo_advice ''dkim'' (- 3) ''sign'']. advice_of d = ''set the date'' \<longrightarrow> ScoreDelta c \<le> ScoreDelta d)"
    by simp
qed

subsection \<open>Newsletters without their header fields\<close>

text \<open>
  A message whose content is a newsletter but whose header says nothing is rated as bulk mail by the newsletter checks, while the
  placeholder check and the return path were already judged with the type of the header and stay not applicable.
\<close>

lemma late_bulk_keeps_na:
  assumes "MType f = ''personal''" "looksLikeBulkContent (MHeader f) (snd (inspectBody (content env) (MHeader f) (MBody f)))"
  shows "KMailType (content_checks env b f) = ''bulk'' \<and> na ''template_urls'' \<in> set (KChecks (content_checks env b f))
    \<and> na ''return_path'' \<in> set (HChecks (fst (header_checks cenv f ehlo n)))"
  using assms by (simp add: content_checks_def header_checks_def return_path_checks_def templateURLCheck_def Let_def case_prod_beta)

end
