(* ===== verification/Texts.thy ===== *)
theory Texts
  imports Go_Strings
begin

text \<open>
  The tables of texts: the messages of \<open>internal/i18n/i18n.go\<close> in German and English, and the captions, titles and hints of the report in
  \<open>internal/web/server.go\<close>. Texts are UTF-8; bytes outside ASCII, quotation marks and apostrophes are written by their codes. A Go map
  is the list of its entries, which \<open>map_of\<close> reads.
\<close>

subsection \<open>Messages\<close>

definition i18n_de :: "(gostring \<times> gostring) list" where
  "i18n_de =
     [(''nav.home'', ''sender.report''), (''nav.about'', [CHR 0xC3, CHR 0x9C] @ ''ber''), (''nav.privacy'', ''Datenschutz''),
      (''nav.mailbox'', ''Mailbox''), (''nav.report'', ''Report''), (''nav.more'', ''Mehr''),
      (''nav.about_checks'', ''Was wird gepr'' @ [CHR 0xC3, CHR 0xBC] @ ''ft?''),
      (''nav.theme_toggle'', ''Darstellung w'' @ [CHR 0xC3, CHR 0xA4] @ ''hlen''), (''theme.menu_title'', ''Darstellung''),
      (''theme.auto'', ''System''), (''theme.light'', ''Hell''), (''theme.dark'', ''Dunkel''), (''theme.werkbank'', ''Werkbank''),
      (''home.title'', ''E-Mail-Zustellbarkeit testen''),
      (''home.subtitle'', ''Pr'' @ [CHR 0xC3, CHR 0xBC] @ ''f in Sekunden ob deine Mails bei Gmail, Outlook und Co. ankommen '' @ [CHR 0xE2, CHR 0x80, CHR 0x93] @ '' kostenlos, anonym und Ende-zu-Ende verschl'' @ [CHR 0xC3, CHR 0xBC] @ ''sselt.''),
      (''home.widget_title'', ''Deine Test-Mailbox''), (''home.e2e_badge'', ''Ende-zu-Ende verschl'' @ [CHR 0xC3, CHR 0xBC] @ ''sselt''),
      (''home.loading'', ''Mailbox wird vorbereitet '' @ [CHR 0xE2, CHR 0x80, CHR 0xA6]), (''home.copy_hint'', ''Klicken zum Kopieren''),
      (''home.copy_link'', ''Link kopieren (inkl. Schl'' @ [CHR 0xC3, CHR 0xBC] @ ''ssel)''), (''home.copied_modal_title'', ''Adresse kopiert!''),
      (''home.copied_modal_body'', ''Jetzt gleich eine neue Mail an diese Adresse '' @ [CHR 0xC3, CHR 0xB6] @ ''ffnen?''),
      (''home.copied_modal_open'', ''Mail-Programm '' @ [CHR 0xC3, CHR 0xB6] @ ''ffnen''),
      (''home.copied_modal_dismiss'', ''Sp'' @ [CHR 0xC3, CHR 0xA4] @ ''ter''), (''home.start'', ''Check starten''),
      (''home.new_address'', ''Neue Mailbox''), (''home.adv_checks'', ''Erweiterte Reputations-Checks''),
      (''home.waiting'', ''Warte auf eingehende E-Mail '' @ [CHR 0xE2, CHR 0x80, CHR 0xA6]),
      (''home.idle'', ''Noch keine E-Mail f'' @ [CHR 0xC3, CHR 0xBC] @ ''r diese Mailbox gepr'' @ [CHR 0xC3, CHR 0xBC] @ ''ft.''),
      (''home.expires'', ''G'' @ [CHR 0xC3, CHR 0xBC] @ ''ltig bis''), (''home.e2e_footer'', ''E2E verschl'' @ [CHR 0xC3, CHR 0xBC] @ ''sselt''),
      (''home.prev_title'', ''Fr'' @ [CHR 0xC3, CHR 0xBC] @ ''here Mailboxen''),
      (''home.trust_title'', ''Sicher '' @ [CHR 0xE2, CHR 0x80, CHR 0x93] @ '' ganz ohne Aufwand f'' @ [CHR 0xC3, CHR 0xBC] @ ''r dich''),
      (''home.features_title'', ''Was wird gepr'' @ [CHR 0xC3, CHR 0xBC] @ ''ft?''),
      (''home.feat_auth'', ''SPF '' @ [CHR 0xC2, CHR 0xB7] @ '' DKIM '' @ [CHR 0xC2, CHR 0xB7] @ '' DMARC''),
      (''home.feat_auth_desc'', ''Kryptografisch verifiziert '' @ [CHR 0xE2, CHR 0x80, CHR 0x93] @ '' genau wie echte Mailserver.''),
      (''home.feat_dns'', ''PTR '' @ [CHR 0xC2, CHR 0xB7] @ '' MX '' @ [CHR 0xC2, CHR 0xB7] @ '' HELO''),
      (''home.feat_dns_desc'', ''DNS-Infrastruktur auf Konfigurationsfehler pr'' @ [CHR 0xC3, CHR 0xBC] @ ''fen.''),
      (''home.feat_spam'', ''SpamAssassin '' @ [CHR 0xC2, CHR 0xB7] @ '' Rspamd '' @ [CHR 0xC2, CHR 0xB7] @ '' RBL''),
      (''home.feat_spam_desc'', ''Externe Filter-Scores und Blocklist-Status.''),
      (''home.feat_content'', ''MIME '' @ [CHR 0xC2, CHR 0xB7] @ '' Links '' @ [CHR 0xC2, CHR 0xB7] @ '' Betreff''),
      (''home.feat_content_desc'', ''Inhalt und Format auf Spam-Signale analysieren.''),
      (''home.feat_advanced'', ''Domain-Alter '' @ [CHR 0xC2, CHR 0xB7] @ '' Blocklisten''),
      (''home.feat_advanced_desc'', ''Optionale Reputations-Checks '' @ [CHR 0xE2, CHR 0x80, CHR 0x93] @ '' opt-in.''),
      (''home.open_report'', ''Report '' @ [CHR 0xC3, CHR 0xB6] @ ''ffnen''), (''home.mail_received'', ''E-Mail empfangen''),
      (''home.mail_analysed'', ''Analysiert''), (''home.cancel'', ''Abbrechen''),
      (''home.apply'', ''Auswahl '' @ [CHR 0xC3, CHR 0xBC] @ ''bernehmen''), (''home.adv_modal_title'', ''Erweiterte Reputations-Checks''),
      (''nav.close'', ''Schlie'' @ [CHR 0xC3, CHR 0x9F] @ ''en''), (''mailbox.send_to'', ''Sende deine Testmail an''),
      (''mailbox.auto_update'', ''aktualisiert automatisch''),
      (''mailbox.waiting'', ''Warte auf eingehende E-Mail '' @ [CHR 0xE2, CHR 0x80, CHR 0xA6]),
      (''mailbox.expires'', ''Mailbox l'' @ [CHR 0xC3, CHR 0xA4] @ ''uft ab''), (''mailbox.new_check'', ''Neuer Check''),
      (''mailbox.no_messages'', ''Noch keine Mails empfangen.''), (''mailbox.receives_until'', ''Empf'' @ [CHR 0xC3, CHR 0xA4] @ ''ngt bis''),
      (''mailbox.receiving'', ''Empfang''), (''mailbox.receiving_closed'', ''beendet''),
      (''mailbox.reports_kept'', ''Berichte bleiben %d Tage nach Eingang abrufbar''), (''mailbox.direct_link'', ''Direktlink''),
      (''mailbox.copy_link'', ''Link kopieren''), (''mailbox.received_messages'', ''Empfangene Nachrichten''),
      (''mailbox.newest_first'', ''Neueste zuerst''), (''mailbox.col_message'', ''Nachricht''), (''mailbox.col_actions'', ''Aktionen''),
      (''mailbox.no_email_yet'', ''Noch keine E-Mail empfangen''),
      (''mailbox.auto_updates_msg'', ''Diese Seite aktualisiert sich automatisch, sobald eine Nachricht eingeht.''),
      (''mailbox.analysing'', ''Analyse '' @ [CHR 0xE2, CHR 0x80, CHR 0xA6]), (''nav.home_link'', ''Startseite''),
      (''report.score_label'', ''Gesamtscore''), (''report.e2e_badge'', ''E2E verschl'' @ [CHR 0xC3, CHR 0xBC] @ ''sselt''),
      (''report.e2e_unlocked'', ''Entschl'' @ [CHR 0xC3, CHR 0xBC] @ ''sselt''), (''report.passed'', ''bestanden''),
      (''report.warnings'', ''Warnungen''), (''report.errors'', ''Fehler''), (''report.infos'', ''Infos''), (''report.subject'', ''Betreff''),
      (''report.received'', ''Empfangen''), (''report.from'', ''Envelope-From''), (''report.source'', ''Quelle (IP / HELO)''),
      (''report.size'', ''Gr'' @ [CHR 0xC3, CHR 0xB6, CHR 0xC3, CHR 0x9F] @ ''e''), (''report.share_title'', ''Report teilen''),
      (''report.share_full'', ''Vollst'' @ [CHR 0xC3, CHR 0xA4] @ ''ndiger Link (inkl. Schl'' @ [CHR 0xC3, CHR 0xBC] @ ''ssel)''),
      (''report.share_nokey'', ''Link ohne Schl'' @ [CHR 0xC3, CHR 0xBC] @ ''ssel''),
      (''report.share_key'', ''Nur der Schl'' @ [CHR 0xC3, CHR 0xBC] @ ''ssel''), (''report.copy'', ''Klicken zum Kopieren''),
      (''report.copy_button'', ''Kopieren''), (''report.copied'', ''Kopiert!''), (''check.explanation'', ''Erkl'' @ [CHR 0xC3, CHR 0xA4] @ ''rung''),
      (''check.how_to_fix'', ''Wie wird'' @ [CHR 0x27] @ ''s gemacht?''), (''check.sources'', ''Quellen & Tools''),
      (''check.raw_data'', ''Rohdaten anzeigen''), (''check.raw_hide'', ''Rohdaten ausblenden''), (''group.action_needed'', ''Handlungsbedarf''),
      (''group.check_recommended'', ''Pr'' @ [CHR 0xC3, CHR 0xBC] @ ''fen empfohlen''), (''group.all_good'', ''Alles in Ordnung''),
      (''group.reload'', ''Ganze Sektion neu pr'' @ [CHR 0xC3, CHR 0xBC] @ ''fen''),
      (''group.reload_check'', ''Neu pr'' @ [CHR 0xC3, CHR 0xBC] @ ''fen (frische DNS-/Reputations-Abfrage)''),
      (''cat.auth'', ''Authentifizierung''), (''cat.dns'', ''DNS und Infrastruktur''), (''cat.spam'', ''Spamfilter''),
      (''cat.content'', ''Format und Inhalt''), (''cat.headers'', ''Header und Rohdaten''),
      (''hint.auth'', ''Beweist, dass die Mail wirklich von deiner Domain stammt. SPF, DKIM und DMARC sind heute der wichtigste Faktor f'' @ [CHR 0xC3, CHR 0xBC] @ ''r die Zustellung '' @ [CHR 0xE2, CHR 0x80, CHR 0x93] @ '' Gmail und Outlook lehnen ohne sie zunehmend ab.''),
      (''hint.dns'', ''Pr'' @ [CHR 0xC3, CHR 0xBC] @ ''ft, ob deine sendende IP und deine Hostnamen sauber im DNS hinterlegt sind (Reverse DNS, HELO, MX, A/AAAA, TLS). Inkonsistenzen hier wirken wie ein schlecht konfigurierter oder gekaperter Server.''),
      (''hint.spam'', ''Externe Reputations- und Inhaltsfilter (SpamAssassin, Rspamd, DNSBL). Zeigt, wie verbreitete Filter deine Mail bewerten und welche Einzelsignale dabei z'' @ [CHR 0xC3, CHR 0xA4] @ ''hlen.''),
      (''hint.content'', ''Aufbau der Nachricht: MIME-Struktur, Text/HTML-Verh'' @ [CHR 0xC3, CHR 0xA4] @ ''ltnis, Links, Betreff und Anh'' @ [CHR 0xC3, CHR 0xA4] @ ''nge. Schlechtes Format ist ein klassisches Spam-Signal und kann die Darstellung beim Empf'' @ [CHR 0xC3, CHR 0xA4] @ ''nger zerst'' @ [CHR 0xC3, CHR 0xB6] @ ''ren.''),
      (''hint.headers'', ''Technische Basis-Header (Date, Message-ID, Received-Kette). Fehlende oder unplausible Pflichtfelder deuten auf einen fehlkonfigurierten Mailserver hin.''),
      (''status.pass'', ''Bestanden''), (''status.warn'', ''Warnung''), (''status.fail'', ''Fehler''), (''status.info'', ''Info''),
      (''status.na'', ''N/A''), (''imp.critical'', ''Kritisch''), (''imp.important'', ''Wichtig''), (''imp.recommended'', ''Empfohlen''),
      (''imp.optional'', ''Optional''), (''mailtype.personal'', ''Pers'' @ [CHR 0xC3, CHR 0xB6] @ ''nlich''),
      (''mailtype.transactional'', ''Transactional''), (''mailtype.bulk'', ''Newsletter/Bulk''), (''mailtype.unknown'', ''Unbekannt''),
      (''mailtype.detected'', ''Automatisch erkannter Mail-Typ''), (''report.download_pdf'', ''Als PDF''),
      (''report.recommendations'', ''Empfehlungen''), (''report.spam_signals'', ''Spam-Indikatoren''), (''report.links_title'', ''Gefundene Links''),
      (''report.links_clean'', ''Alle Links unauff'' @ [CHR 0xC3, CHR 0xA4] @ ''llig''),
      (''report.no_links'', ''Keine Links in der Mail gefunden.''), (''report.raw_headers'', ''Rohe Header''),
      (''report.advanced_title'', ''Erweiterte Checks''), (''report.advanced_info'', ''Erweiterte Reputations-Checks''),
      (''rbl.listed_on'', ''Gelistet auf''), (''rbl.before_delisting'', ''Vor dem Delisting''),
      (''rbl.template_letter'', ''Formulierungshilfe anzeigen (DE / EN)''), (''rbl.delisting_hints'', ''Delisting-Hinweise anzeigen''),
      (''rbl.delisting_btn'', ''Delisting''), (''recheck.updated'', ''Aktualisiert''), (''recheck.saved'', ''Gespeichert''),
      (''recheck.failed'', ''Aktualisiert '' @ [CHR 0xE2, CHR 0x9C, CHR 0x93] @ '' (Speichern fehlgeschlagen)''),
      (''misc.encrypted_content'', [CHR 0xF0, CHR 0x9F, CHR 0x94, CHR 0x92] @ '' verschl'' @ [CHR 0xC3, CHR 0xBC] @ ''sselt''),
      (''misc.no_subject'', ''(kein Betreff)''), (''misc.unknown'', ''unbekannt''), (''misc.none'', [CHR 0xE2, CHR 0x80, CHR 0x93])]"

definition i18n_en :: "(gostring \<times> gostring) list" where
  "i18n_en =
     [(''nav.home'', ''sender.report''), (''nav.about'', ''About''), (''nav.privacy'', ''Privacy''), (''nav.mailbox'', ''Mailbox''),
      (''nav.report'', ''Report''), (''nav.more'', ''More''), (''nav.about_checks'', ''What gets checked?''),
      (''nav.theme_toggle'', ''Choose appearance''), (''theme.menu_title'', ''Appearance''), (''theme.auto'', ''System''),
      (''theme.light'', ''Light''), (''theme.dark'', ''Dark''), (''theme.werkbank'', ''Workbench''),
      (''home.title'', ''Test your email deliverability''),
      (''home.subtitle'', ''Check in seconds whether your emails reach Gmail, Outlook and others '' @ [CHR 0xE2, CHR 0x80, CHR 0x93] @ '' free, anonymous and end-to-end encrypted.''),
      (''home.widget_title'', ''Your test mailbox''), (''home.e2e_badge'', ''End-to-end encrypted''),
      (''home.loading'', ''Preparing mailbox '' @ [CHR 0xE2, CHR 0x80, CHR 0xA6]), (''home.copy_hint'', ''Click to copy''),
      (''home.copy_link'', ''Copy link (incl. key)''), (''home.copied_modal_title'', ''Address copied!''),
      (''home.copied_modal_body'', ''Open a new email to this address now?''), (''home.copied_modal_open'', ''Open mail app''),
      (''home.copied_modal_dismiss'', ''Later''), (''home.start'', ''Start check''), (''home.new_address'', ''New mailbox''),
      (''home.adv_checks'', ''Advanced reputation checks''), (''home.waiting'', ''Waiting for incoming email '' @ [CHR 0xE2, CHR 0x80, CHR 0xA6]),
      (''home.idle'', ''No email received for this mailbox yet.''), (''home.expires'', ''Valid until''), (''home.e2e_footer'', ''E2E encrypted''),
      (''home.prev_title'', ''Previous mailboxes''), (''home.trust_title'', ''Secure '' @ [CHR 0xE2, CHR 0x80, CHR 0x93] @ '' no effort required''),
      (''home.features_title'', ''What gets checked?''),
      (''home.feat_auth'', ''SPF '' @ [CHR 0xC2, CHR 0xB7] @ '' DKIM '' @ [CHR 0xC2, CHR 0xB7] @ '' DMARC''),
      (''home.feat_auth_desc'', ''Cryptographically verified '' @ [CHR 0xE2, CHR 0x80, CHR 0x93] @ '' exactly like real mail servers.''),
      (''home.feat_dns'', ''PTR '' @ [CHR 0xC2, CHR 0xB7] @ '' MX '' @ [CHR 0xC2, CHR 0xB7] @ '' HELO''),
      (''home.feat_dns_desc'', ''Check DNS infrastructure for misconfigurations.''),
      (''home.feat_spam'', ''SpamAssassin '' @ [CHR 0xC2, CHR 0xB7] @ '' Rspamd '' @ [CHR 0xC2, CHR 0xB7] @ '' RBL''),
      (''home.feat_spam_desc'', ''External filter scores and blocklist status.''),
      (''home.feat_content'', ''MIME '' @ [CHR 0xC2, CHR 0xB7] @ '' Links '' @ [CHR 0xC2, CHR 0xB7] @ '' Subject''),
      (''home.feat_content_desc'', ''Analyse content and format for spam signals.''),
      (''home.feat_advanced'', ''Domain age '' @ [CHR 0xC2, CHR 0xB7] @ '' Blocklists''),
      (''home.feat_advanced_desc'', ''Optional reputation checks '' @ [CHR 0xE2, CHR 0x80, CHR 0x93] @ '' opt-in.''),
      (''home.open_report'', ''Open report''), (''home.mail_received'', ''Email received''), (''home.mail_analysed'', ''Analysed''),
      (''home.cancel'', ''Cancel''), (''home.apply'', ''Apply''), (''home.adv_modal_title'', ''Advanced Reputation Checks''),
      (''nav.close'', ''Close''), (''mailbox.send_to'', ''Send your test email to''), (''mailbox.auto_update'', ''updates automatically''),
      (''mailbox.waiting'', ''Waiting for incoming email '' @ [CHR 0xE2, CHR 0x80, CHR 0xA6]), (''mailbox.expires'', ''Mailbox expires''),
      (''mailbox.new_check'', ''New check''), (''mailbox.no_messages'', ''No emails received yet.''),
      (''mailbox.receives_until'', ''Receives until''), (''mailbox.receiving'', ''Receiving''), (''mailbox.receiving_closed'', ''closed''),
      (''mailbox.reports_kept'', ''Reports stay retrievable for %d days after delivery''), (''mailbox.direct_link'', ''Direct link''),
      (''mailbox.copy_link'', ''Copy link''), (''mailbox.received_messages'', ''Received messages''), (''mailbox.newest_first'', ''Newest first''),
      (''mailbox.col_message'', ''Message''), (''mailbox.col_actions'', ''Actions''), (''mailbox.no_email_yet'', ''No email received yet''),
      (''mailbox.auto_updates_msg'', ''This page updates automatically as soon as a message arrives.''),
      (''mailbox.analysing'', ''Analysing '' @ [CHR 0xE2, CHR 0x80, CHR 0xA6]), (''nav.home_link'', ''Home''),
      (''report.score_label'', ''Overall score''), (''report.e2e_badge'', ''E2E encrypted''), (''report.e2e_unlocked'', ''Decrypted''),
      (''report.passed'', ''passed''), (''report.warnings'', ''warnings''), (''report.errors'', ''errors''), (''report.infos'', ''infos''),
      (''report.subject'', ''Subject''), (''report.received'', ''Received''), (''report.from'', ''Envelope-From''),
      (''report.source'', ''Source (IP / HELO)''), (''report.size'', ''Size''), (''report.share_title'', ''Share report''),
      (''report.share_full'', ''Full link (incl. key)''), (''report.share_nokey'', ''Link without key''), (''report.share_key'', ''Key only''),
      (''report.copy'', ''Click to copy''), (''report.copy_button'', ''Copy''), (''report.copied'', ''Copied!''),
      (''check.explanation'', ''Explanation''), (''check.how_to_fix'', ''How to fix it''), (''check.sources'', ''Sources & tools''),
      (''check.raw_data'', ''Show raw data''), (''check.raw_hide'', ''Hide raw data''), (''group.action_needed'', ''Action needed''),
      (''group.check_recommended'', ''Review recommended''), (''group.all_good'', ''All good''), (''group.reload'', ''Re-check entire section''),
      (''group.reload_check'', ''Re-check (fresh DNS / reputation lookup)''), (''cat.auth'', ''Authentication''),
      (''cat.dns'', ''DNS & Infrastructure''), (''cat.spam'', ''Spam filters''), (''cat.content'', ''Format & content''),
      (''cat.headers'', ''Headers & raw data''),
      (''hint.auth'', ''Proves the email genuinely comes from your domain. SPF, DKIM and DMARC are the most important factor for deliverability today '' @ [CHR 0xE2, CHR 0x80, CHR 0x93] @ '' Gmail and Outlook increasingly reject mail without them.''),
      (''hint.dns'', ''Checks whether your sending IP and hostnames are correctly set up in DNS (reverse DNS, HELO, MX, A/AAAA, TLS). Inconsistencies here look like a misconfigured or hijacked server.''),
      (''hint.spam'', ''External reputation and content filters (SpamAssassin, Rspamd, DNSBL). Shows how common filters score your email and which individual signals contribute.''),
      (''hint.content'', ''Message structure: MIME layout, text/HTML ratio, links, subject and attachments. Poor formatting is a classic spam signal and can break rendering for recipients.''),
      (''hint.headers'', ''Technical base headers (Date, Message-ID, Received chain). Missing or implausible mandatory fields indicate a misconfigured mail server.''),
      (''status.pass'', ''Passed''), (''status.warn'', ''Warning''), (''status.fail'', ''Failed''), (''status.info'', ''Info''),
      (''status.na'', ''N/A''), (''imp.critical'', ''Critical''), (''imp.important'', ''Important''), (''imp.recommended'', ''Recommended''),
      (''imp.optional'', ''Optional''), (''mailtype.personal'', ''Personal''), (''mailtype.transactional'', ''Transactional''),
      (''mailtype.bulk'', ''Newsletter/Bulk''), (''mailtype.unknown'', ''Unknown''), (''mailtype.detected'', ''Auto-detected mail type''),
      (''report.download_pdf'', ''Download PDF''), (''report.recommendations'', ''Recommendations''), (''report.spam_signals'', ''Spam signals''),
      (''report.links_title'', ''Links found''), (''report.links_clean'', ''All links are clean''),
      (''report.no_links'', ''No links found in this email.''), (''report.raw_headers'', ''Raw headers''),
      (''report.advanced_title'', ''Advanced checks''), (''report.advanced_info'', ''Advanced reputation checks''),
      (''rbl.listed_on'', ''Listed on''), (''rbl.before_delisting'', ''Before requesting delisting''),
      (''rbl.template_letter'', ''Show template letter (DE / EN)''), (''rbl.delisting_hints'', ''Show delisting hints''),
      (''rbl.delisting_btn'', ''Delisting''), (''recheck.updated'', ''Updated''), (''recheck.saved'', ''Saved''),
      (''recheck.failed'', ''Updated '' @ [CHR 0xE2, CHR 0x9C, CHR 0x93] @ '' (save failed)''),
      (''misc.encrypted_content'', [CHR 0xF0, CHR 0x9F, CHR 0x94, CHR 0x92] @ '' encrypted''), (''misc.no_subject'', ''(no subject)''),
      (''misc.unknown'', ''unknown''), (''misc.none'', [CHR 0xE2, CHR 0x80, CHR 0x93])]"

subsection \<open>Captions of the report\<close>

definition techLabels :: "(gostring \<times> gostring) list" where
  "techLabels =
     [(''remote_ip'', ''Sendende IP''), (''helo'', ''HELO/EHLO''), (''helo_ehlo'', ''HELO/EHLO''), (''ptr_hostname'', ''PTR-Hostname''),
      (''ptr_pattern'', ''PTR-Muster''), (''dkim_result'', ''DKIM-Ergebnis''), (''dkim_domain'', ''DKIM-Domain (d=)''),
      (''dkim_signature'', ''DKIM-Signatur''), (''dkim_aligned'', ''DKIM aligned''), (''key_type'', ''Schl'' @ [CHR 0xC3, CHR 0xBC] @ ''sseltyp''),
      (''key_bits'', ''Schl'' @ [CHR 0xC3, CHR 0xBC] @ ''ssell'' @ [CHR 0xC3, CHR 0xA4] @ ''nge (Bit)''), (''dns_name'', ''DNS-Name''),
      (''selector'', ''DKIM-Selector (s=)''), (''verifier_detail'', ''Meldung des Pr'' @ [CHR 0xC3, CHR 0xBC] @ ''fers''),
      (''key_state'', ''Zustand des Schl'' @ [CHR 0xC3, CHR 0xBC] @ ''ssel-Records''),
      (''key_problem'', ''Problem im Schl'' @ [CHR 0xC3, CHR 0xBC] @ ''ssel-Record''), (''spf_result'', ''SPF-Ergebnis''),
      (''spf_records'', ''SPF-Record(s)''), (''spf_aligned'', ''SPF aligned''), (''all_mechanism'', ''SPF all-Mechanismus''),
      (''lookup_mechanisms_toplevel'', ''SPF DNS-Lookups (Top-Level)''), (''dmarc_result'', ''DMARC-Ergebnis''),
      (''dmarc_records'', ''DMARC-Record(s)''), (''dmarc_policy'', ''DMARC-Policy (p=)''), (''policy'', ''Policy''),
      (''from_domain'', ''From-Domain''), (''header_from'', ''Header-From''), (''header_from_domain'', ''Header-From-Domain''),
      (''envelope_from_domain'', ''Envelope-From-Domain''), (''smtp_mail_from'', ''Envelope-From (MAIL FROM)''), (''return_path'', ''Return-Path''),
      (''return_path_domain'', ''Return-Path-Domain''), (''bounce_domain'', ''Bounce-Domain''), (''mx_host'', ''MX-Host''),
      (''mx_records'', ''MX-Records''), (''a_aaaa_records'', ''A/AAAA-Records''), (''domain'', ''Domain''), (''registered'', ''Registriert am''),
      (''age_days'', ''Domain-Alter (Tage)''), (''rdap_error'', ''RDAP-Fehler''), (''dnskey_records'', ''DNSKEY-Records''),
      (''tlsa_records'', ''TLSA-Records''), (''tlsa_name'', ''TLSA-Name''), (''mx_domain'', ''MX-Domain''),
      (''checked_providers'', ''Gepr'' @ [CHR 0xC3, CHR 0xBC] @ ''fte Listen''), (''listed_on'', ''Gelistet auf''), (''listed'', ''Gelistet''),
      (''listed_providers'', ''Gelistet auf''), (''listing_responses'', ''Listing-Antworten''), (''lookup_errors'', ''Abfragefehler''),
      (''deliverability_impact'', ''Auswirkung auf Zustellung''), (''rbl_query_prefix'', ''RBL-Abfrage''), (''query_names'', ''Abfrage-Namen''),
      (''link_count'', ''Anzahl Links''), (''links'', ''Links''), (''link_domains_checked'', ''Gepr'' @ [CHR 0xC3, CHR 0xBC] @ ''fte Link-Domains''),
      (''display_name'', ''Anzeigename''), (''impersonated_brand'', ''Imitierte Marke''), (''embedded_domain'', ''Eingebettete Domain''),
      (''subject'', ''Betreff''), (''subject_chars'', ''Betreff-L'' @ [CHR 0xC3, CHR 0xA4] @ ''nge (Zeichen)''),
      (''exclamation_count'', ''Ausrufezeichen''), (''message_id'', ''Message-ID''), (''date'', ''Datum''), (''date_header'', ''Datum-Header''),
      (''date_skew'', ''Zeitabweichung''), (''received_count'', ''Anzahl Received-Header''), (''received_headers'', ''Received-Header''),
      (''content_type'', ''Content-Type''), (''content_transfer_encoding'', ''Transfer-Encoding''), (''charset'', ''Zeichensatz''),
      (''has_html_part'', ''HTML-Teil vorhanden''), (''has_text_part'', ''Text-Teil vorhanden''), (''html_chars'', ''HTML-Zeichen''),
      (''text_chars'', ''Text-Zeichen''), (''image_count'', ''Bilder''),
      (''image_text_ratio'', ''Bild/Text-Verh'' @ [CHR 0xC3, CHR 0xA4] @ ''ltnis''),
      (''attachment_count'', ''Anh'' @ [CHR 0xC3, CHR 0xA4] @ ''nge''), (''part_count'', ''MIME-Teile''),
      (''list_unsubscribe'', ''List-Unsubscribe''), (''list_id'', ''List-Id''), (''precedence'', ''Precedence''), (''arc_seal'', ''ARC-Seal''),
      (''arc_message_signature'', ''ARC-Message-Signature''), (''error'', ''Fehler''), (''parse_error'', ''Parse-Fehler''),
      (''raw_bytes'', ''Rohgr'' @ [CHR 0xC3, CHR 0xB6, CHR 0xC3, CHR 0x9F] @ ''e (Bytes)''), (''action'', ''Aktion''),
      (''required_score'', ''Schwellwert''), (''expected'', ''Erwartet''), (''spam_line'', ''Spam-Zeile''), (''preheader'', ''Preheader''),
      (''multipart_alt'', ''multipart/alternative'')]"

definition techLabelsEN :: "(gostring \<times> gostring) list" where
  "techLabelsEN =
     [(''remote_ip'', ''Sending IP''), (''ptr_hostname'', ''PTR hostname''), (''ptr_pattern'', ''PTR pattern''), (''dkim_result'', ''DKIM result''),
      (''dkim_signature'', ''DKIM signature''), (''key_type'', ''Key type''), (''key_bits'', ''Key length (bits)''), (''dns_name'', ''DNS name''),
      (''selector'', ''DKIM selector (s=)''), (''verifier_detail'', ''Verifier message''), (''key_state'', ''State of the key record''),
      (''key_problem'', ''Problem in the key record''), (''spf_result'', ''SPF result''), (''spf_records'', ''SPF record(s)''),
      (''all_mechanism'', ''SPF all mechanism''), (''lookup_mechanisms_toplevel'', ''SPF DNS lookups (top level)''),
      (''dmarc_result'', ''DMARC result''), (''dmarc_records'', ''DMARC record(s)''), (''header_from_domain'', ''Header-From domain''),
      (''envelope_from_domain'', ''Envelope-From domain''), (''return_path_domain'', ''Return-Path domain''), (''bounce_domain'', ''Bounce domain''),
      (''mx_host'', ''MX host''), (''mx_records'', ''MX records''), (''a_aaaa_records'', ''A/AAAA records''), (''registered'', ''Registered on''),
      (''age_days'', ''Domain age (days)''), (''rdap_error'', ''RDAP error''), (''dnskey_records'', ''DNSKEY records''),
      (''tlsa_records'', ''TLSA records''), (''tlsa_name'', ''TLSA name''), (''mx_domain'', ''MX domain''),
      (''checked_providers'', ''Lists checked''), (''listed_on'', ''Listed on''), (''listed'', ''Listed''), (''listed_providers'', ''Listed on''),
      (''listing_responses'', ''Listing responses''), (''lookup_errors'', ''Lookup errors''), (''deliverability_impact'', ''Impact on delivery''),
      (''rbl_query_prefix'', ''RBL query''), (''query_names'', ''Query names''), (''link_count'', ''Number of links''), (''links'', ''Links''),
      (''link_domains_checked'', ''Link domains checked''), (''display_name'', ''Display name''), (''impersonated_brand'', ''Impersonated brand''),
      (''embedded_domain'', ''Embedded domain''), (''subject'', ''Subject''), (''subject_chars'', ''Subject length (characters)''),
      (''exclamation_count'', ''Exclamation marks''), (''date'', ''Date''), (''date_header'', ''Date header''), (''date_skew'', ''Clock skew''),
      (''received_count'', ''Number of Received headers''), (''received_headers'', ''Received headers''), (''charset'', ''Character set''),
      (''has_html_part'', ''HTML part present''), (''has_text_part'', ''Text part present''), (''html_chars'', ''HTML characters''),
      (''text_chars'', ''Text characters''), (''image_count'', ''Images''), (''image_text_ratio'', ''Image-to-text ratio''),
      (''attachment_count'', ''Attachments''), (''part_count'', ''MIME parts''), (''error'', ''Error''), (''parse_error'', ''Parse error''),
      (''raw_bytes'', ''Raw size (bytes)''), (''action'', ''Action''), (''required_score'', ''Threshold''), (''expected'', ''Expected''),
      (''spam_line'', ''Spam line''), (''dns_lookup'', ''DNS lookup''), (''beantwortet'', ''Answered''), (''nicht_pruefbar'', ''Not checkable''),
      (''defekt'', ''Broken''), (''geprueft'', ''Checked''), (''nicht_abgerufen'', ''Not opened''), (''nicht_abgerufen_grund'', ''Why not opened''),
      (''herkunft'', ''Source''), (''pct'', ''pct''), (''subdomain_policy'', ''Subdomain policy''), (''betroffene_links'', ''Affected links''),
      (''beantwortete_abfragen'', ''Answered queries''), (''recheck_pending'', ''Result still open''),
      (''simulator_uebersprungen'', ''Skipped in the simulator'')]"

definition groupTitles :: "(gostring \<times> gostring) list" where
  "groupTitles =
     [(''Authentifizierung'', ''Authentication''), (''DNS und Infrastruktur'', ''DNS and infrastructure''), (''Spamfilter'', ''Spam filters''),
      (''Format und Inhalt'', ''Format and content''), (''Header und Rohdaten'', ''Headers and raw data'')]"

definition groupHintsDE :: "(gostring \<times> gostring) list" where
  "groupHintsDE =
     [(''Authentifizierung'', ''Beweist, dass die Nachricht wirklich von Ihrer Domain stammt. SPF, DKIM und DMARC sind heute der wichtigste Faktor f'' @ [CHR 0xC3, CHR 0xBC] @ ''r die Zustellung '' @ [CHR 0xE2, CHR 0x80, CHR 0x94] @ '' Gmail und Outlook lehnen Nachrichten ohne sie zunehmend ab.''),
      (''DNS und Infrastruktur'', ''Pr'' @ [CHR 0xC3, CHR 0xBC] @ ''ft, ob Ihre sendende IP-Adresse und Ihre Hostnamen sauber im DNS hinterlegt sind (R'' @ [CHR 0xC3, CHR 0xBC] @ ''ckw'' @ [CHR 0xC3, CHR 0xA4] @ ''rtsaufl'' @ [CHR 0xC3, CHR 0xB6] @ ''sung, HELO, MX, A/AAAA, TLS). Widerspr'' @ [CHR 0xC3, CHR 0xBC] @ ''che hier wirken auf Empf'' @ [CHR 0xC3, CHR 0xA4] @ ''nger wie ein schlecht eingerichteter oder '' @ [CHR 0xC3, CHR 0xBC] @ ''bernommener Server.''),
      (''Spamfilter'', ''Externe Reputations- und Inhaltsfilter (SpamAssassin, Rspamd, Blocklisten). Zeigt, wie verbreitete Filter Ihre Nachricht bewerten und welche Einzelsignale dabei z'' @ [CHR 0xC3, CHR 0xA4] @ ''hlen.''),
      (''Format und Inhalt'', ''Aufbau der Nachricht: MIME-Struktur, Verh'' @ [CHR 0xC3, CHR 0xA4] @ ''ltnis von Text zu HTML, Links, Betreff und Anh'' @ [CHR 0xC3, CHR 0xA4] @ ''nge. Ein schlechtes Format ist ein klassisches Spam-Signal und kann die Darstellung beim Empf'' @ [CHR 0xC3, CHR 0xA4] @ ''nger zerst'' @ [CHR 0xC3, CHR 0xB6] @ ''ren.''),
      (''Header und Rohdaten'', ''Technische Pflichtangaben im Kopfbereich (Datum, Message-ID, Received-Kette). Fehlende oder unplausible Felder deuten auf einen fehlerhaft eingerichteten Mailserver hin.'')]"

definition groupHintsEN :: "(gostring \<times> gostring) list" where
  "groupHintsEN =
     [(''Authentifizierung'', ''Proves the message really comes from your domain. SPF, DKIM and DMARC are the single biggest factor in deliverability today '' @ [CHR 0xE2, CHR 0x80, CHR 0x94] @ '' Gmail and Outlook increasingly reject mail without them.''),
      (''DNS und Infrastruktur'', ''Checks whether your sending IP address and hostnames are properly published in DNS (reverse DNS, HELO, MX, A/AAAA, TLS). Inconsistencies here look to a receiver like a misconfigured or hijacked server.''),
      (''Spamfilter'', ''External reputation and content filters (SpamAssassin, Rspamd, blocklists). Shows how widely used filters rate your message and which individual signals count.''),
      (''Format und Inhalt'', ''How the message is built: MIME structure, text-to-HTML ratio, links, subject and attachments. Poor formatting is a classic spam signal and can wreck how the message looks to the reader.''),
      (''Header und Rohdaten'', ''Mandatory technical header fields (Date, Message-ID, Received chain). Missing or implausible values point to a badly configured mail server.'')]"

end
