(* ===== verification/Request.thy ===== *)
theory Request
  imports Config Rate_Limit Texts
begin

text \<open>
  What the web server computes from a request before any state is touched: \<open>internal/web/server.go\<close> (client address, scheme,
  host, paths, redirects, texts), \<open>internal/web/seo.go\<close> (language prefixes) and \<open>Detect\<close> of \<open>internal/i18n/i18n.go\<close>.

  A \<open>request\<close> is the part of \<open>http.Request\<close> the handlers read: \<open>Header k\<close> is \<open>r.Header.Get(k)\<close>, \<open>Query k\<close> is
  \<open>r.URL.Query().Get(k)\<close>, \<open>LangOverride\<close> is the value that \<open>withLangPrefix\<close> puts into the context. The parser of URLs
  is an argument where the code uses it.
\<close>

record request =
  Method :: gostring
  URLPath :: gostring
  EscapedPath :: gostring
  RawQuery :: gostring
  Query :: "gostring \<Rightarrow> gostring"
  FormValue :: "gostring \<Rightarrow> gostring"
  Host :: gostring
  RemoteAddr :: gostring
  HasTLS :: bool
  Header :: "gostring \<Rightarrow> gostring"
  Cookie :: "gostring \<Rightarrow> gostring option"
  ReqBody :: gostring
  LangOverride :: "gostring option"

subsection \<open>Networks\<close>

text \<open>A \<open>net.IPNet\<close>: a network number and a mask of 4 or of 16 bytes.\<close>

datatype ip_mask = Mask4 "32 word" | Mask16 "128 word"

record IPNet =
  NetIP :: ip
  NetMask :: ip_mask

text \<open>\<open>net.ParseCIDR\<close>, the network of its result; an address with a dot before any colon has 32 bits.\<close>

definition ParseCIDR :: "gostring \<Rightarrow> IPNet option" where
  "ParseCIDR s =
     (case cut s ''/'' of (a, m, found) \<Rightarrow>
        if \<not> found \<or> m = [] \<or> \<not> list_all is_digit m then None
        else (case ParseIP a of
            None \<Rightarrow> None
          | Some i \<Rightarrow>
              (let v4 = (find (\<lambda>c. c = CHR ''.'' \<or> c = CHR '':'') a = Some (CHR ''.'')); n = nat (digits_val 0 m)
               in if (if v4 then 32 else 128) < n then None
                  else if v4
                  then Some \<lparr>NetIP = IP4 (ucast (to16 i) AND cidr_mask n), NetMask = Mask4 (cidr_mask n)\<rparr>
                  else Some \<lparr>NetIP = IP16 (to16 i AND cidr_mask n), NetMask = Mask16 (cidr_mask n)\<rparr>)))"

text \<open>\<open>IPNet.Contains\<close>: number and address in their short forms must have the same length.\<close>

definition net_contains :: "IPNet \<Rightarrow> ip \<Rightarrow> bool" where
  "net_contains nt i =
     (case (to4 (NetIP nt), to4 i) of
        (Some a, Some b) \<Rightarrow> (let m = (case NetMask nt of Mask4 m \<Rightarrow> m | Mask16 m \<Rightarrow> ucast m) in a AND m = b AND m)
      | (None, None) \<Rightarrow> (case NetMask nt of Mask4 m \<Rightarrow> False | Mask16 m \<Rightarrow> to16 (NetIP nt) AND m = to16 i AND m)
      | _ \<Rightarrow> False)"

text \<open>The error names the entry. The network of a single address is \<open>ParseCIDR\<close> of its own text with its full length.\<close>

fun parseTrustedProxyCIDRs :: "gostring list \<Rightarrow> gostring + IPNet option list" where
  "parseTrustedProxyCIDRs [] = Inr []"
| "parseTrustedProxyCIDRs (v # vs) =
     (let value = trim_space v
      in if value = [] then parseTrustedProxyCIDRs vs
         else (case ParseIP value of
             Some i \<Rightarrow> (let bits = (if to4 i = None then 128 else 32)
                 in map_sum id (Cons (ParseCIDR (ip_string i @ ''/'' @ show_int bits))) (parseTrustedProxyCIDRs vs))
           | None \<Rightarrow> (case ParseCIDR value of
                 None \<Rightarrow> Inl value
               | Some c \<Rightarrow> map_sum id (Cons (Some c)) (parseTrustedProxyCIDRs vs))))"

definition isTrustedProxy :: "IPNet option list \<Rightarrow> gostring \<Rightarrow> bool" where
  "isTrustedProxy proxies ipText =
     (case ParseIP (trim_space ipText) of
        None \<Rightarrow> False
      | Some i \<Rightarrow> list_ex (\<lambda>c. case c of None \<Rightarrow> False | Some nt \<Rightarrow> net_contains nt i) proxies)"

subsection \<open>The client\<close>

definition remoteAddrIP :: "gostring \<Rightarrow> gostring" where
  "remoteAddrIP remoteAddr =
     (case SplitHostPort (trim_space remoteAddr) of
        Some (host, _) \<Rightarrow> (case ParseIP host of Some i \<Rightarrow> ip_string i | None \<Rightarrow> host)
      | None \<Rightarrow> (case ParseIP (trim_space remoteAddr) of Some i \<Rightarrow> ip_string i | None \<Rightarrow> []))"

fun first_ip :: "gostring list \<Rightarrow> gostring" where
  "first_ip [] = []"
| "first_ip (p # ps) = (case ParseIP (trim_space p) of Some i \<Rightarrow> ip_string i | None \<Rightarrow> first_ip ps)"

definition firstForwardedIP :: "gostring \<Rightarrow> gostring" where
  "firstForwardedIP header = first_ip (split (CHR '','') header)"

definition isRequestFromTrustedProxy :: "IPNet option list \<Rightarrow> request \<Rightarrow> bool" where
  "isRequestFromTrustedProxy proxies r = isTrustedProxy proxies (remoteAddrIP (RemoteAddr r))"

definition clientIP :: "IPNet option list \<Rightarrow> request \<Rightarrow> gostring" where
  "clientIP proxies r =
     (let remoteIP = remoteAddrIP (RemoteAddr r); xf = firstForwardedIP (Header r ''X-Forwarded-For'')
      in if isTrustedProxy proxies remoteIP \<and> xf \<noteq> [] then xf
         else if remoteIP \<noteq> [] then remoteIP
         else RemoteAddr r)"

definition firstHeaderValue :: "gostring \<Rightarrow> gostring" where
  "firstHeaderValue header =
     (case filter (\<lambda>v. v \<noteq> []) (map (\<lambda>p. to_lower (trim_space p)) (split (CHR '','') header)) of [] \<Rightarrow> [] | v # _ \<Rightarrow> v)"

fun pair_value :: "gostring \<Rightarrow> gostring list \<Rightarrow> gostring option" where
  "pair_value key [] = None"
| "pair_value key (p # ps) =
     (case cut (trim_space p) ''='' of (name, val, ok) \<Rightarrow>
        if \<not> ok \<or> to_lower (trim_space name) \<noteq> key then pair_value key ps
        else Some (to_lower (trim_set (trim_space val) [CHR 0x22])))"

definition forwardedHeaderValue :: "gostring \<Rightarrow> gostring \<Rightarrow> gostring" where
  "forwardedHeaderValue header key =
     (case pair_value (to_lower (trim_space key)) (concat (map (split (CHR '';'')) (split (CHR '','') header))) of
        Some v \<Rightarrow> v | None \<Rightarrow> [])"

definition requestScheme :: "Config \<Rightarrow> IPNet option list \<Rightarrow> request \<Rightarrow> gostring" where
  "requestScheme cfg proxies r =
     (let xf = firstHeaderValue (Header r ''X-Forwarded-Proto''); fw = forwardedHeaderValue (Header r ''Forwarded'') ''proto''
      in if HasTLS r \<or> EnableTLS cfg then ''https''
         else if isRequestFromTrustedProxy proxies r \<and> (xf = ''https'' \<or> xf = ''http'') then xf
         else if isRequestFromTrustedProxy proxies r \<and> (fw = ''https'' \<or> fw = ''http'') then fw
         else ''http'')"

text \<open>\<open>strings.IndexAny\<close> and the cut before it.\<close>

definition before_any :: "gostring \<Rightarrow> gostring \<Rightarrow> gostring" where
  "before_any s chars = takeWhile (\<lambda>c. c \<notin> set chars) s"

definition requestHost :: "IPNet option list \<Rightarrow> request \<Rightarrow> gostring" where
  "requestHost proxies r =
     (let fw = forwardedHeaderValue (Header r ''Forwarded'') ''host''; xf = firstHeaderValue (Header r ''X-Forwarded-Host'');
          host = (if isRequestFromTrustedProxy proxies r
                  then (if fw \<noteq> [] then fw else if xf \<noteq> [] then xf else trim_space (Host r))
                  else trim_space (Host r));
          host = trim_space (trim_set host [CHR 0x22]);
          host = trim_prefix (trim_prefix host ''http://'') ''https://'';
          host = before_any host ''/?#''
      in if host = [] then ''localhost:8080'' else host)"

definition cleanDomain :: "gostring \<Rightarrow> gostring" where
  "cleanDomain value =
     (let v = to_lower (trim_space value);
          v = trim_prefix (trim_prefix v ''http://'') ''https://'';
          rest = (case SplitHostPort v of
              Some (host, _) \<Rightarrow> trim_set host ''[]''
            | None \<Rightarrow> trim_set (before_any v '':/?#'') ''[]'')
      in if has_prefix v ''['' then (case index v '']'' of Some i \<Rightarrow> trim_set (take (i + 1) v) ''[]'' | None \<Rightarrow> rest)
         else rest)"

definition requestSMTPDomain :: "Config \<Rightarrow> IPNet option list \<Rightarrow> request \<Rightarrow> gostring" where
  "requestSMTPDomain cfg proxies r =
     (if cleanDomain (SMTPDomain cfg) \<noteq> [] then cleanDomain (SMTPDomain cfg) else cleanDomain (requestHost proxies r))"

definition publicBaseURL :: "Config \<Rightarrow> IPNet option list \<Rightarrow> request \<Rightarrow> gostring" where
  "publicBaseURL cfg proxies r =
     (if PublicBaseURL cfg \<noteq> [] then PublicBaseURL cfg
      else requestScheme cfg proxies r @ ''://'' @ requestHost proxies r)"

definition secureCookies :: "Config \<Rightarrow> IPNet option list \<Rightarrow> request \<Rightarrow> bool" where
  "secureCookies cfg proxies r =
     (CookieSecure cfg = ''always''
      \<or> (CookieSecure cfg = ''auto''
         \<and> (requestScheme cfg proxies r = ''https'' \<or> has_prefix (to_lower (PublicBaseURL cfg)) ''https://'')))"

definition resolverHosts :: "gostring list \<Rightarrow> gostring list" where
  "resolverHosts addrs = map (\<lambda>a. case SplitHostPort a of Some (h, _) \<Rightarrow> h | None \<Rightarrow> a) addrs"

subsection \<open>Paths and redirects\<close>

definition cleanRequestPath :: "gostring \<Rightarrow> bool" where
  "cleanRequestPath p =
     (has_prefix p ''/''
      \<and> (let segs = split (CHR ''/'') (drop 1 p)
         in \<not> list_ex (\<lambda>seg. seg = ''.'' \<or> seg = ''..'') segs \<and> \<not> list_ex (\<lambda>seg. seg = []) (butlast segs)))"

definition httpsExempt :: "Config \<Rightarrow> gostring \<Rightarrow> bool" where
  "httpsExempt cfg path =
     (cleanRequestPath path
      \<and> list_ex (\<lambda>p. path = p \<or> (has_suffix p ''/'' \<and> has_prefix path p)) (ForceHTTPSExemptPaths cfg))"

text \<open>\<open>hostPortPattern\<close>: a name or an IPv4 address, or an IPv6 address in brackets, with an optional port.\<close>

definition name_ok :: "gostring \<Rightarrow> bool" where
  "name_ok h =
     list_all (\<lambda>l. l \<noteq> [] \<and> list_all (\<lambda>c. is_alnum c \<or> c = CHR ''_'' \<or> c = CHR ''-'') l)
       (split (CHR ''.'') (if has_suffix h ''.'' then butlast h else h))"

definition port_ok :: "gostring \<Rightarrow> bool" where
  "port_ok p = (p = [] \<or> (has_prefix p '':'' \<and> 2 \<le> length p \<and> length p \<le> 6 \<and> list_all is_digit (drop 1 p)))"

definition hostPortPattern :: "gostring \<Rightarrow> bool" where
  "hostPortPattern s =
     (if has_prefix s ''[''
      then (case index s '']'' of
          None \<Rightarrow> False
        | Some e \<Rightarrow> 2 \<le> e \<and> list_all ip_char (take (e - 1) (drop 1 s)) \<and> port_ok (drop (e + 1) s))
      else (let h = takeWhile (\<lambda>c. c \<noteq> CHR '':'') s in name_ok h \<and> port_ok (drop (length h) s)))"

text \<open>\<open>url_host\<close> is \<open>url.Parse\<close> with the \<open>Host\<close> of its result; \<open>None\<close> is its error.\<close>

definition publicHost :: "(gostring \<Rightarrow> gostring option) \<Rightarrow> Config \<Rightarrow> gostring" where
  "publicHost url_host cfg =
     (case url_host (PublicBaseURL cfg) of
        None \<Rightarrow> []
      | Some h \<Rightarrow> if hostPortPattern h then h else [])"

definition httpsRedirectHost :: "(gostring \<Rightarrow> gostring option) \<Rightarrow> Config \<Rightarrow> IPNet option list \<Rightarrow> request \<Rightarrow> gostring" where
  "httpsRedirectHost url_host cfg proxies r =
     (if publicHost url_host cfg \<noteq> [] then publicHost url_host cfg
      else if hostPortPattern (requestHost proxies r) then requestHost proxies r
      else [])"

text \<open>\<open>parse_ref\<close> is \<open>url.Parse\<close> with the escaped path and the raw query of its result.\<close>

definition localReturnPath :: "(gostring \<Rightarrow> (gostring \<times> gostring) option) \<Rightarrow> gostring \<Rightarrow> gostring" where
  "localReturnPath parse_ref referer =
     (case parse_ref referer of
        None \<Rightarrow> ''/''
      | Some (path, q) \<Rightarrow>
          if \<not> has_prefix path ''/'' \<or> has_prefix path ''//'' \<or> has_prefix path [CHR ''/'', CHR 0x5C] then ''/''
          else if q \<noteq> [] then path @ ''?'' @ q else path)"

subsection \<open>Languages\<close>

definition DE :: gostring where "DE = ''de''"
definition EN :: gostring where "EN = ''en''"

fun detect_tags :: "gostring list \<Rightarrow> gostring" where
  "detect_tags [] = EN"
| "detect_tags (p # ps) =
     (let tag = trim_space (before_any p '';''); primary = before_any (to_lower tag) ''-''
      in if primary = ''de'' then DE else if primary = ''en'' then EN else detect_tags ps)"

definition detectFromHeader :: "gostring \<Rightarrow> gostring" where
  "detectFromHeader header = detect_tags (split (CHR '','') header)"

definition Detect :: "request \<Rightarrow> gostring \<Rightarrow> gostring" where
  "Detect r cookieName =
     (case Cookie r cookieName of
        Some l \<Rightarrow> if l = DE \<or> l = EN then l else detectFromHeader (Header r ''Accept-Language'')
      | None \<Rightarrow> detectFromHeader (Header r ''Accept-Language''))"

definition T :: "gostring \<Rightarrow> gostring \<Rightarrow> gostring" where
  "T lg key =
     (case map_of (if lg = DE then i18n_de else i18n_en) key of
        Some s \<Rightarrow> s
      | None \<Rightarrow> (case map_of i18n_en key of Some s \<Rightarrow> s | None \<Rightarrow> key))"

definition lang :: "Config \<Rightarrow> request \<Rightarrow> gostring" where
  "lang cfg r = (case LangOverride r of Some l \<Rightarrow> l | None \<Rightarrow> Detect r (LangCookieName cfg))"

definition pickLang :: "gostring \<Rightarrow> gostring \<Rightarrow> gostring \<Rightarrow> gostring" where
  "pickLang lg de en = (if lg = EN \<and> trim_space en \<noteq> [] then en else de)"

definition langPrefixedPage :: "gostring \<Rightarrow> bool" where
  "langPrefixedPage rest =
     (rest \<in> {''/'', ''/about'', ''/privacy'', ''/simulate'', ''/guides''}
      \<or> (has_prefix rest ''/guides/'' \<and> length ''/guides/'' < length rest))"

fun split_prefixes :: "gostring list \<Rightarrow> gostring \<Rightarrow> (gostring \<times> gostring) option" where
  "split_prefixes [] path = None"
| "split_prefixes (l # ls) path =
     (let p = CHR ''/'' # l
      in if path = p then Some (l, ''/'')
         else if has_prefix path (p @ ''/'') \<and> langPrefixedPage (trim_prefix path p) then Some (l, trim_prefix path p)
         else split_prefixes ls path)"

definition splitLangPrefix :: "gostring \<Rightarrow> (gostring \<times> gostring) option" where
  "splitLangPrefix path = split_prefixes [DE, EN] path"

definition langPath :: "gostring \<Rightarrow> gostring \<Rightarrow> gostring" where
  "langPath l path =
     (let l = (if l \<noteq> DE \<and> l \<noteq> EN then EN else l)
      in if path = [] \<or> path = ''/'' then ''/'' @ l @ ''/''
         else ''/'' @ l @ (if has_prefix path ''/'' then path else CHR ''/'' # path))"

definition swapLangPrefix :: "gostring \<Rightarrow> gostring \<Rightarrow> gostring" where
  "swapLangPrefix target l =
     (case cut target ''?'' of (path, q, hasQuery) \<Rightarrow>
        (let path = (case splitLangPrefix path of Some (_, rest) \<Rightarrow> langPath l rest | None \<Rightarrow> path)
         in if hasQuery then path @ ''?'' @ q else path))"

text \<open>\<open>html.EscapeString\<close>.\<close>

definition escape_char :: "char \<Rightarrow> gostring" where
  "escape_char c =
     (if c = CHR ''<'' then ''&lt;'' else if c = CHR ''>'' then ''&gt;'' else if c = CHR ''&'' then ''&amp;''
      else if c = CHR 0x27 then ''&#39;'' else if c = CHR 0x22 then ''&#34;'' else [c])"

definition EscapeString :: "gostring \<Rightarrow> gostring" where
  "EscapeString s = concat (map escape_char s)"

definition head_line :: "gostring \<Rightarrow> gostring \<Rightarrow> gostring" where
  "head_line tag_text url = ''  <'' @ tag_text @ ''='' @ [CHR 0x22] @ EscapeString url @ [CHR 0x22] @ '' />'' @ [LF]"

definition quoted :: "gostring \<Rightarrow> gostring" where
  "quoted s = [CHR 0x22] @ s @ [CHR 0x22]"

definition seoHead :: "gostring \<Rightarrow> gostring \<Rightarrow> gostring \<Rightarrow> gostring" where
  "seoHead l publicURL path0 =
     (let base = trim_right publicURL ''/'';
          path = (if path0 = [] then ''/'' else path0);
          canonical = base @ langPath l path
      in head_line (''link rel='' @ quoted ''canonical'' @ '' href'') canonical
       @ head_line (''link rel='' @ quoted ''alternate'' @ '' hreflang='' @ quoted ''de'' @ '' href'') (base @ langPath ''de'' path)
       @ head_line (''link rel='' @ quoted ''alternate'' @ '' hreflang='' @ quoted ''en'' @ '' href'') (base @ langPath ''en'' path)
       @ head_line (''link rel='' @ quoted ''alternate'' @ '' hreflang='' @ quoted ''x-default'' @ '' href'') (base @ path)
       @ head_line (''meta property='' @ quoted ''og:url'' @ '' content'') canonical)"

definition robotsTxt :: "gostring \<Rightarrow> gostring" where
  "robotsTxt base = join [LF]
     [''User-agent: *'', ''Allow: /$'', ''Allow: /de/'', ''Allow: /en/'', ''Allow: /about'', ''Allow: /guides'', ''Allow: /privacy'',
      ''Disallow: /mailbox/'', ''Disallow: /report/'', ''Disallow: /raw/'', ''Disallow: /api/'', ''Sitemap: '' @ base @ ''/sitemap.xml'', []]"

subsection \<open>Waiting times, identifiers and scores\<close>

definition countNoun :: "int \<Rightarrow> gostring \<Rightarrow> gostring \<Rightarrow> gostring" where
  "countNoun n one many = (if n = 1 then ''1 '' @ one else show_int n @ '' '' @ many)"

text \<open>Go's integer division truncates towards zero.\<close>

definition go_div :: "int \<Rightarrow> int \<Rightarrow> int" where
  "go_div a b = (if 0 \<le> a then a div b else - (- a div b))"

definition waitSeconds :: "duration \<Rightarrow> int" where
  "waitSeconds d = (let secs = go_div (d + second - 1) second in if secs < 1 then 1 else secs)"

definition waitText :: "gostring \<Rightarrow> duration \<Rightarrow> gostring" where
  "waitText l d =
     (let secs = waitSeconds d; mins = (secs + 59) div 60
      in if secs < 60 then (if l = EN then countNoun secs ''second'' ''seconds'' else countNoun secs ''Sekunde'' ''Sekunden'')
         else (if l = EN then countNoun mins ''minute'' ''minutes'' else countNoun mins ''Minute'' ''Minuten''))"

definition safeID :: "gostring \<Rightarrow> gostring" where
  "safeID value =
     (let s = concat (map (\<lambda>r. case r of
              [c] \<Rightarrow> if is_digit c \<or> (97 \<le> (of_char c :: nat) \<and> (of_char c :: nat) \<le> 122) then [c] else ''-''
            | _ \<Rightarrow> ''-'') (runes (to_lower (trim_space value))));
          out = trim_set s ''-''
      in if out = [] then ''item'' else out)"

definition scorePercent :: "float64 \<Rightarrow> float64" where
  "scorePercent score = (if score < 0 then 0 else if 10 < score then 100 else fmul score 10)"

definition splitLinesFn :: "gostring \<Rightarrow> gostring list" where
  "splitLinesFn s = (if s = [] \<or> s = ''none'' then [] else filter (\<lambda>l. l \<noteq> []) (map trim_space (split LF s)))"

subsection \<open>The language switch\<close>

definition local_path :: "gostring \<Rightarrow> bool" where
  "local_path s = (has_prefix s ''/'' \<and> \<not> has_prefix s ''//'' \<and> \<not> has_prefix s [CHR ''/'', CHR 0x5C])"

lemma localReturnPath_local: "local_path (localReturnPath parse_ref ref)"
proof (cases "parse_ref ref")
  case None
  then show ?thesis by (simp add: localReturnPath_def local_path_def)
next
  case (Some x)
  obtain path q where x: "x = (path, q)" by (cases x)
  show ?thesis
  proof (cases "\<not> has_prefix path ''/'' \<or> has_prefix path ''//'' \<or> has_prefix path [CHR ''/'', CHR 0x5C]")
    case True
    with Some x show ?thesis by (auto simp: localReturnPath_def local_path_def)
  next
    case False
    then obtain t where t: "path = CHR ''/'' # t" by (cases path) auto
    with False Some x show ?thesis by (cases t) (auto simp: localReturnPath_def local_path_def)
  qed
qed

lemma splitLangPrefix_langs: "splitLangPrefix path = Some (l, rest) \<Longrightarrow> l \<in> {DE, EN} \<and> (rest = ''/'' \<or> langPrefixedPage rest)"
  by (auto simp: splitLangPrefix_def Let_def split: if_splits)

lemma langPrefixedPage_slash: "langPrefixedPage p \<Longrightarrow> \<exists>t. p = CHR ''/'' # t"
  by (auto simp: langPrefixedPage_def elim!: has_prefixE)

lemma langPath_page: "p = CHR ''/'' # t \<Longrightarrow> l \<in> {DE, EN} \<Longrightarrow> langPath l p = ''/'' @ l @ p"
  by (auto simp: langPath_def Let_def DE_def EN_def)

text \<open>
  The language switch is never an open redirect: whatever the Referer header says and however it is parsed, the address it returns
  to is a path of this instance, with one leading slash that is not followed by a slash or a backslash.
\<close>

theorem language_switch_stays_local:
  "local_path (swapLangPrefix (localReturnPath parse_ref referer) l)"
proof -
  let ?t = "localReturnPath parse_ref referer"
  obtain path q hq where c: "cut ?t ''?'' = (path, q, hq)" by (cases "cut ?t ''?''") auto
  show ?thesis
  proof (cases "splitLangPrefix path")
    case (Some x)
    obtain a rest where x: "x = (a, rest)" by (cases x)
    then have "\<exists>t. rest = CHR ''/'' # t"
      using splitLangPrefix_langs [of path a rest] langPrefixedPage_slash Some by auto
    then have "\<exists>u v. langPath l rest = [CHR ''/'', u] @ v \<and> u \<in> {CHR ''d'', CHR ''e''}"
      by (auto simp: langPath_def Let_def DE_def EN_def)
    with c Some x show ?thesis by (auto simp: swapLangPrefix_def local_path_def Let_def)
  next
    case None
    have "(if hq then path @ ''?'' @ q else path) = ?t"
      using c cut_Some [of ?t "''?''" path q] by (cases hq) (auto simp: cut_def split: option.splits)
    with None c localReturnPath_local [of parse_ref referer] show ?thesis by (cases hq) (simp_all add: swapLangPrefix_def Let_def)
  qed
qed

text \<open>
  The language prefixes are undone exactly: a public page, addressed in either language, is recognised with that language and
  without the prefix, and switching the language of such an address gives the address of the same page in
  the other language, with its query unchanged.
\<close>

theorem lang_prefix_round_trip:
  assumes "langPrefixedPage p" "l \<in> {DE, EN}" "m \<in> {DE, EN}" "CHR ''?'' \<notin> set p" "tail = [] \<or> has_prefix tail ''?''"
  shows "splitLangPrefix (langPath l p) = Some (l, p) \<and> swapLangPrefix (langPath l p @ tail) m = langPath m p @ tail"
proof -
  obtain t where t: "p = CHR ''/'' # t" using langPrefixedPage_slash [OF assms(1)] by blast
  have lp: "langPath l p = ''/'' @ l @ p" using langPath_page [OF t assms(2)] .
  have s: "splitLangPrefix (langPath l p) = Some (l, p)"
    using assms(1,2) unfolding lp by (auto simp: splitLangPrefix_def Let_def DE_def EN_def t trim_prefix_def)
  have nq: "CHR ''?'' \<notin> set (langPath l p)" using assms(2,4) unfolding lp by (auto simp: DE_def EN_def)
  have "cut (langPath l p @ tail) ''?'' = (langPath l p, drop 1 tail, tail \<noteq> [])"
    using assms(5) nq by (cases tail) auto
  with s assms(5) have "swapLangPrefix (langPath l p @ tail) m = langPath m p @ tail"
    by (cases tail) (auto simp: swapLangPrefix_def)
  with s show ?thesis by blast
qed

theorem lang_prefix_round_trip_witness:
  "swapLangPrefix ''/de/guides/spf?x=1'' EN = ''/en/guides/spf?x=1'' \<and> splitLangPrefix ''/de/guides/spf'' = Some (DE, ''/guides/spf'')"
proof -
  have "splitLangPrefix (langPath DE ''/guides/spf'') = Some (DE, ''/guides/spf'')
      \<and> swapLangPrefix (langPath DE ''/guides/spf'' @ ''?x=1'') EN = langPath EN ''/guides/spf'' @ ''?x=1''"
    by (rule lang_prefix_round_trip) (simp_all add: langPrefixedPage_def)
  moreover have "langPath DE ''/guides/spf'' = ''/de/guides/spf''" "langPath EN ''/guides/spf'' = ''/en/guides/spf''" by code_simp+
  ultimately show ?thesis by simp
qed

subsection \<open>Waiting times\<close>

lemma waitSeconds_bounds: "d \<le> waitSeconds d * second \<and> 1 \<le> waitSeconds d \<and> (second < d \<longrightarrow> (waitSeconds d - 1) * second < d)"
proof (cases "0 \<le> d + second - 1")
  case True
  define q r where "q = (d + second - 1) div second" and "r = (d + second - 1) mod second"
  then have "d + second - 1 = second * q + r" "0 \<le> r" "r < second" by (simp_all add: second_def)
  moreover have "waitSeconds d = (if q < 1 then 1 else q)"
    using True by (simp add: waitSeconds_def go_div_def Let_def q_def)
  ultimately show ?thesis by (simp add: second_def split: if_splits)
next
  case False
  then have "go_div (d + second - 1) second \<le> 0" by (simp add: go_div_def second_def pos_imp_zdiv_nonneg_iff)
  then have "waitSeconds d = 1" by (simp add: waitSeconds_def Let_def)
  with False show ?thesis by (simp add: second_def)
qed

subsection \<open>Paths exempt from HTTPS\<close>

lemma cleanRequestPath_segments:
  assumes "cleanRequestPath path"
  shows "\<forall>seg\<in>set (split (CHR ''/'') path). seg \<noteq> ''.'' \<and> seg \<noteq> ''..''"
proof -
  obtain t where "path = CHR ''/'' # t" using assms by (cases path) (auto simp: cleanRequestPath_def)
  with assms show ?thesis by (auto simp: cleanRequestPath_def Let_def list_ex_iff)
qed

text \<open>
  With a configuration that \<open>Load\<close> accepts, plain HTTP is answered only where the operator named the place: the start
  page never is exempt, an exempt path has no dot segments, and it is an entry of \<open>FORCE_HTTPS_EXEMPT_PATHS\<close>
  or lies below one that ends in a slash, segment by segment.
\<close>

theorem https_exempt_paths:
  assumes "Load env = Inr cfg" "httpsExempt cfg path"
  shows "path \<noteq> ''/'' \<and> (\<forall>seg\<in>set (split (CHR ''/'') path). seg \<noteq> ''.'' \<and> seg \<noteq> ''..'')
    \<and> (\<exists>p\<in>set (ForceHTTPSExemptPaths cfg). path = p
        \<or> (\<exists>t. p = t @ ''/'' \<and> prefix (split (CHR ''/'') t) (split (CHR ''/'') path)))"
proof -
  from assms(2) obtain p where p: "p \<in> set (ForceHTTPSExemptPaths cfg)" "path = p \<or> (has_suffix p ''/'' \<and> has_prefix path p)"
    and clean: "cleanRequestPath path" by (auto simp: httpsExempt_def list_ex_iff)
  have ok: "p \<noteq> ''/''" using Load_checked [OF assms(1)] p(1)
    by (auto simp: check_settings_def checkHTTPSExemptPaths_def list_all_iff check_path_None)
  have below: "\<exists>t. p = t @ ''/'' \<and> prefix (split (CHR ''/'') t) (split (CHR ''/'') path)" if suf: "has_suffix p ''/''" and pre: "has_prefix path p"
  proof -
    obtain t where t: "p = t @ ''/''" using suf by (rule has_suffixE)
    obtain u where u: "path = p @ u" using pre by (rule has_prefixE)
    have "split (CHR ''/'') path = split (CHR ''/'') t @ split (CHR ''/'') u"
      unfolding u t using split_append [of "CHR ''/''" t u] by simp
    with t show ?thesis by auto
  qed
  have "path \<noteq> ''/''"
  proof
    assume "path = ''/''"
    with p(2) ok have a: "has_suffix p ''/''" "has_prefix ''/'' p" by blast+
    obtain t where t: "p = t @ ''/''" using a(1) by (rule has_suffixE)
    have "length p \<le> 1" using a(2) prefix_length_le [of p "''/''"] by (simp add: has_prefix_iff)
    with t ok show False by simp
  qed
  moreover have "path = p \<or> (\<exists>t. p = t @ ''/'' \<and> prefix (split (CHR ''/'') t) (split (CHR ''/'') path))" using p(2) below by blast
  ultimately show ?thesis using p(1) cleanRequestPath_segments [OF clean] by blast
qed

theorem https_exempt_paths_witness:
  "\<exists>cfg. Load demo_environment = Inr cfg \<and> httpsExempt cfg ''/.well-known/acme'' \<and> \<not> httpsExempt cfg ''/''"
proof -
  have h: "case Load demo_environment of Inl e \<Rightarrow> False | Inr cfg \<Rightarrow> httpsExempt cfg ''/.well-known/acme''" by code_simp
  then obtain cfg where c: "Load demo_environment = Inr cfg" by (auto split: sum.splits)
  with h have "httpsExempt cfg ''/.well-known/acme''" by simp
  with c https_exempt_paths [OF c, of "''/''"] show ?thesis by blast
qed

end
