(* ===== verification/Web.thy ===== *)
theory Web
  imports Request Inbound Verdicts
begin

text \<open>
  The handlers of \<open>internal/web/server.go\<close>: mailboxes, reports, sealed payloads, rechecks, placement tests, the middleware and the routes.

  A handler takes the environment (configuration, trusted networks, seed accounts, decoders of the request bodies, the
  analysis and the cryptographic primitives), a \<open>web_run\<close> with the clock readings and random bytes of this request, the request and the
  state, and gives the response and the next state. Requests are served one after the other. A response holds the status code, the
  header fields and the body; a JSON object is the list of its members, a rendered template is the data it shows. Templates,
  logging and the static files are left out.
\<close>

subsection \<open>Responses\<close>

datatype jvalue =
    VStr gostring
  | VInt int
  | VBool bool
  | VTime time
  | VScore float64
  | VObj "(gostring \<times> jvalue) list"
  | VReport AnalysisReport
  | VSeeds "SeedInfo list"
  | VStrings "gostring list"

datatype content =
    Plain gostring
  | Object "(gostring \<times> jvalue) list"
  | ReportJSON AnalysisReport
  | CheckJSON finding
  | TestJSON PlacementTest
  | StatsJSON GlobalStats
  | MailboxPage Mailbox "(Message \<times> AnalysisReport option) list" time gostring gostring int
  | Events "gostring list"
  | GonePage gostring

record response =
  StatusCode :: int
  RespHeaders :: "(gostring \<times> gostring) list"
  RespBody :: content

definition http_error :: "int \<Rightarrow> gostring \<Rightarrow> response" where
  "http_error c msg = \<lparr>StatusCode = c, RespHeaders = [(''Content-Type'', ''text/plain; charset=utf-8''), (''X-Content-Type-Options'', ''nosniff'')],
     RespBody = Plain (msg @ [LF])\<rparr>"

definition not_found :: response where
  "not_found = http_error 404 ''404 page not found''"

definition jsonResp :: "int \<Rightarrow> (gostring \<times> jvalue) list \<Rightarrow> response" where
  "jsonResp c members = \<lparr>StatusCode = c, RespHeaders = [(''Content-Type'', ''application/json'')], RespBody = Object members\<rparr>"

definition json_error :: "int \<Rightarrow> gostring \<Rightarrow> response" where
  "json_error c reason = jsonResp c [(''error'', VStr reason)]"

definition json_content :: "content \<Rightarrow> response" where
  "json_content b = \<lparr>StatusCode = 200, RespHeaders = [(''Content-Type'', ''application/json'')], RespBody = b\<rparr>"

definition redirect :: "int \<Rightarrow> gostring \<Rightarrow> response" where
  "redirect c target = \<lparr>StatusCode = c, RespHeaders = [(''Location'', target)], RespBody = Plain []\<rparr>"

definition apiError :: "Config \<Rightarrow> request \<Rightarrow> int \<Rightarrow> gostring \<Rightarrow> gostring \<Rightarrow> gostring \<Rightarrow> response" where
  "apiError cfg r c reason de en = jsonResp c [(''error'', VStr reason), (''message'', VStr (pickLang (lang cfg r) de en))]"

subsection \<open>The server\<close>

text \<open>The bodies of the requests, as decoded from JSON.\<close>

record createBody =
  BIdentifier :: gostring
  BPublicKey :: gostring
  BDomainAge :: bool
  BDomainBlocklist :: bool
  BBrokenLinks :: bool

record persistBody =
  BPayloadEnc :: gostring
  BChecks :: "CheckResult list"

record reanalyzeBody =
  BRawSource :: gostring
  BRemoteIP :: gostring
  BHELO :: gostring
  BSMTPFrom :: gostring

record 'j web =
  world :: "'j world"
  webLimiter :: limiter
  burstLimiter :: limiter
  payloadLimiter :: "limiter option"
  iptLimiter :: limiter
  iptHealth :: "gostring \<rightharpoonup> AccountStatus"

text \<open>
  \<open>decode_\<dots>\<close> is \<open>json.NewDecoder(...).Decode\<close> into the struct of the handler, \<open>None\<close> its error. \<open>public_url\<close> and
  \<open>parse_referer\<close> are what the code takes from \<open>url.Parse\<close>.
\<close>

record 'j web_env =
  config :: Config
  trustedProxy :: "IPNet option list"
  seeds :: "Provider list option"
  iptMailer :: "MailerConfig option"
  inbound :: "'j inbound_env"
  analyzer :: analyzer_env
  map_order :: "gostring list \<Rightarrow> gostring list"
  probe_links :: "gostring list \<Rightarrow> finding"
  decode_create :: "gostring \<Rightarrow> createBody option"
  decode_flags :: "gostring \<Rightarrow> (bool \<times> bool \<times> bool) option"
  decode_recheck :: "gostring \<Rightarrow> (gostring \<times> RecheckInput) option"
  decode_persist :: "gostring \<Rightarrow> persistBody option"
  decode_reanalyze :: "gostring \<Rightarrow> reanalyzeBody option"
  decode_simulate :: "gostring \<Rightarrow> (gostring \<times> gostring) option"
  decode_providers :: "gostring \<Rightarrow> gostring list option"
  public_url :: "gostring \<Rightarrow> gostring option"
  parse_referer :: "gostring \<Rightarrow> (gostring \<times> gostring) option"
  marshal_object :: "(gostring \<times> jvalue) list \<Rightarrow> gostring"
  marshal_test :: "PlacementTest \<Rightarrow> gostring"
  marshal_stats :: "GlobalStats \<Rightarrow> gostring"
  api_texts :: "gostring \<Rightarrow> gostring list \<Rightarrow> gostring \<times> gostring"
  pages :: "request \<Rightarrow> 'j web \<Rightarrow> response"

record 'j web_run =
  t_minute :: time
  t_burst :: time
  t_limit :: time
  t_ip :: time
  t_global :: time
  t_check :: time
  t_touch :: time
  t_create :: time
  t_cookie :: time
  t_message :: time
  t_retry :: time
  t_test :: time
  rnd_bytes :: "nat \<Rightarrow> nat \<Rightarrow> gostring option"
  rnd_pick :: "nat \<Rightarrow> nat \<Rightarrow> nat"
  gap_mailbox :: nat
  gap_test :: nat
  stream_ticks :: "(time \<times> 'j db) list"

abbreviation database :: "'j web \<Rightarrow> 'j db" where
  "database w \<equiv> st (world w)"

definition set_db :: "'j db \<Rightarrow> 'j web \<Rightarrow> 'j web" where
  "set_db d w = w\<lparr>world := (world w)\<lparr>st := d\<rparr>\<rparr>"

definition client :: "'j web_env \<Rightarrow> request \<Rightarrow> gostring" where
  "client env r = clientIP (trustedProxy env) r"

definition IncMailboxesCreated :: "'j web \<Rightarrow> 'j web" where
  "IncMailboxesCreated w =
     w\<lparr>world := (world w)\<lparr>counts := (counts (world w))\<lparr>mailboxesCreated := mailboxesCreated (counts (world w)) + 1\<rparr>\<rparr>\<rparr>"

text \<open>The state of a new server, as \<open>New\<close> builds it.\<close>

definition new_web :: "Config \<Rightarrow> 'j world \<Rightarrow> 'j web" where
  "new_web cfg wd =
     \<lparr>world = wd, webLimiter = new_limiter minute (WebRateLimitPerMin cfg), burstLimiter = new_limiter (10 * second) (WebBurstPer10Sec cfg),
      payloadLimiter = Some (new_limiter minute (PayloadRateLimitPerMin cfg)), iptLimiter = new_limiter hour (IPTRateLimitPerHour cfg),
      iptHealth = Map.empty\<rparr>"

subsection \<open>Creating mailboxes\<close>

definition hex_encode :: "gostring \<Rightarrow> gostring" where
  "hex_encode s = concat (map (\<lambda>c. [hex_digit (of_char c div 16), hex_digit (of_char c mod 16)]) s)"

definition randomToken :: "'j web_run \<Rightarrow> nat \<Rightarrow> nat \<Rightarrow> gostring option" where
  "randomToken run i bytesLen = map_option hex_encode (rnd_bytes run i bytesLen)"

text \<open>The loop of \<open>generateMailboxAddress\<close>, from attempt \<open>i\<close> on with \<open>k\<close> attempts left.\<close>

fun try_addresses :: "'j web_run \<Rightarrow> gostring \<Rightarrow> 'j db \<Rightarrow> nat \<Rightarrow> nat \<Rightarrow> (gostring \<times> gostring) option" where
  "try_addresses run domain d i 0 = None"
| "try_addresses run domain d i (Suc k) =
     (case randomToken run i 6 of
        None \<Rightarrow> None
      | Some tok \<Rightarrow>
          (case GetMailboxByAddress (tok @ ''@'' @ domain) d of
             Inl e \<Rightarrow> if e = ErrNotFound then Some (tok, tok @ ''@'' @ domain) else None
           | Inr mb \<Rightarrow> try_addresses run domain d (Suc i) k))"

definition generateMailboxAddress :: "'j web_run \<Rightarrow> gostring \<Rightarrow> 'j db \<Rightarrow> (gostring \<times> gostring) option" where
  "generateMailboxAddress run domain d =
     (let domain = cleanDomain domain;
          domain = (if domain = [] then ''sender-report.local'' else domain)
      in try_addresses run domain d 0 8)"

definition mailboxJSON :: "'j web_env \<Rightarrow> request \<Rightarrow> Mailbox \<Rightarrow> (gostring \<times> jvalue) list" where
  "mailboxJSON env r mb =
     [(''token'', VStr (Token mb)), (''address'', VStr (Address mb)), (''encrypted'', VBool (PublicKey mb \<noteq> [])),
      (''expires_at'', VTime (ExpiresAt mb)),
      (''mailbox_url'', VStr (publicBaseURL (config env) (trustedProxy env) r @ ''/mailbox/'' @ Token mb)),
      (''status_path'', VStr (''/api/mailboxes/'' @ Token mb @ ''/status'')),
      (''events_path'', VStr (''/api/mailboxes/'' @ Token mb @ ''/events'')),
      (''check_domain_age'', VBool (CheckDomainAge mb)), (''check_domain_blocklist'', VBool (CheckDomainBlocklist mb)),
      (''check_broken_links'', VBool (CheckBrokenLinks mb))]"

text \<open>\<open>int(d.Seconds())\<close>: whole seconds plus the rest as a fraction, in \<open>float64\<close>, truncated.\<close>

definition int_seconds :: "duration \<Rightarrow> int" where
  "int_seconds d =
     to_int (fadd (fl (of_int (go_div d second))) (fdiv (fl (of_int (d - go_div d second * second))) (of_int second)))"

definition cookie_text :: "gostring \<Rightarrow> gostring \<Rightarrow> int \<Rightarrow> bool \<Rightarrow> gostring" where
  "cookie_text name val maxAge secure =
     name @ ''='' @ val @ ''; Path=/'' @ (if 0 < maxAge then ''; Max-Age='' @ show_int maxAge else []) @ ''; HttpOnly'' @ (if secure then ''; Secure'' else []) @ ''; SameSite=Lax''"

definition setMailboxCookie :: "'j web_env \<Rightarrow> 'j web_run \<Rightarrow> request \<Rightarrow> Mailbox \<Rightarrow> gostring \<times> gostring" where
  "setMailboxCookie env run r mb =
     (let maxAge = int_seconds (ExpiresAt mb - t_cookie run); maxAge = (if maxAge < 0 then 0 else maxAge)
      in (''Set-Cookie'', cookie_text (MailboxCookieName (config env)) (Token mb) maxAge (secureCookies (config env) (trustedProxy env) r)))"

text \<open>The end of every branch that inserts a mailbox with a key (lines after the identity is checked).\<close>

definition create_keyed :: "'j web_env \<Rightarrow> 'j web_run \<Rightarrow> request \<Rightarrow> createBody \<Rightarrow> gostring \<Rightarrow> gostring \<Rightarrow> 'j web \<Rightarrow> response \<times> 'j web" where
  "create_keyed env run r b ip address w =
     (case CreateMailbox (BIdentifier b) address (BPublicKey b) ip (MailboxTTL (config env)) (t_create run) (gap_mailbox run) (database w) of
        (Inl e, d) \<Rightarrow> (http_error 500 ''could not create mailbox'', set_db d w)
      | (Inr mb, d) \<Rightarrow>
          (let chosen = (BDomainAge b \<or> BDomainBlocklist b \<or> BBrokenLinks b);
               d = (if chosen then snd (UpdateMailboxChecks (Token mb) (BDomainAge b) (BDomainBlocklist b) (BBrokenLinks b) d) else d);
               mb = (if chosen
                     then mb\<lparr>CheckDomainAge := BDomainAge b, CheckDomainBlocklist := BDomainBlocklist b, CheckBrokenLinks := BBrokenLinks b\<rparr> else mb)
           in (jsonResp 201 (mailboxJSON env r mb), IncMailboxesCreated (set_db d w))))"

text \<open>The branch of a request that brings its own key.\<close>

definition create_sealed :: "'j web_env \<Rightarrow> 'j web_run \<Rightarrow> request \<Rightarrow> createBody \<Rightarrow> gostring \<Rightarrow> gostring \<Rightarrow> 'j web \<Rightarrow> response \<times> 'j web" where
  "create_sealed env run r b ip domain w =
     (case hex_decode (BPublicKey b) of
        None \<Rightarrow> (http_error 400 ''invalid public_key'', w)
      | Some pubBytes \<Rightarrow>
          if length pubBytes \<noteq> 32 then (http_error 400 ''invalid public_key'', w)
          else if Identifier (box (inbound env)) pubBytes \<noteq> BIdentifier b then (http_error 400 ''identifier does not match public_key'', w)
          else (let address = BIdentifier b @ ''@'' @ cleanDomain domain
                in case GetMailboxByToken (BIdentifier b) (database w) of
                     Inl e \<Rightarrow> create_keyed env run r b ip address w
                   | Inr existing \<Rightarrow>
                       if t_check run < ExpiresAt existing
                       then (jsonResp 200 (mailboxJSON env r existing),
                             set_db (TouchMailbox (MailboxRowID existing) (t_touch run) (database w)) w)
                       else create_keyed env run r b ip address
                              (set_db (snd (DeleteMailboxByToken (Token existing) (database w))) w)))"

text \<open>The branches of a request without a key: an address drawn by the server; \<open>reply\<close> is the answer to JSON or to the form.\<close>

definition create_plain :: "'j web_env \<Rightarrow> 'j web_run \<Rightarrow> gostring \<Rightarrow> gostring \<Rightarrow> (Mailbox \<Rightarrow> response) \<Rightarrow> 'j web \<Rightarrow> response \<times> 'j web" where
  "create_plain env run ip domain reply w =
     (case generateMailboxAddress run domain (database w) of
        None \<Rightarrow> (http_error 500 ''could not create mailbox'', w)
      | Some (token, address) \<Rightarrow>
          (case CreateMailbox token address [] ip (MailboxTTL (config env)) (t_create run) (gap_mailbox run) (database w) of
             (Inl e, d) \<Rightarrow> (http_error 500 ''could not create mailbox'', set_db d w)
           | (Inr mb, d) \<Rightarrow> (reply mb, IncMailboxesCreated (set_db d w))))"

definition createMailbox :: "'j web_env \<Rightarrow> 'j web_run \<Rightarrow> request \<Rightarrow> 'j web \<Rightarrow> response \<times> 'j web" where
  "createMailbox env run r w =
     (let cfg = config env; ip = client env r; domain = requestSMTPDomain cfg (trustedProxy env) r
      in if Method r \<noteq> ''POST'' then (http_error 405 ''method not allowed'', w)
         else if MaxActivePerIP cfg \<le> int (CountActiveMailboxesByIP ip (t_ip run) (database w))
         then (http_error 429 ''too many active mailboxes for this IP'', w)
         else if MaxActiveGlobal cfg \<le> int (CountActiveMailboxes (t_global run) (database w))
         then (http_error 429 ''too many active mailboxes globally'', w)
         else if contains (Header r ''Content-Type'') ''application/json''
         then (case decode_create env (take 4096 (ReqBody r)) of
                 Some b \<Rightarrow>
                   if BIdentifier b \<noteq> [] \<and> BPublicKey b \<noteq> [] then create_sealed env run r b ip domain w
                   else create_plain env run ip domain (\<lambda>mb. jsonResp 201 (mailboxJSON env r mb)) w
               | None \<Rightarrow> create_plain env run ip domain (\<lambda>mb. jsonResp 201 (mailboxJSON env r mb)) w)
         else create_plain env run ip domain
                (\<lambda>mb. let p = redirect 303 ''/'' in p\<lparr>RespHeaders := setMailboxCookie env run r mb # RespHeaders p\<rparr>) w)"

subsection \<open>Messages of a mailbox\<close>

definition Encrypted :: "Message \<Rightarrow> bool" where
  "Encrypted m = (PayloadEnc m \<noteq> [])"

definition messageReference :: "'j web_env \<Rightarrow> gostring \<Rightarrow> int \<Rightarrow> gostring" where
  "messageReference env mailboxToken messageID =
     hex_encode (take 8 (Sum256 (box (inbound env)) (mailboxToken @ '':'' @ show_int messageID)))"

definition selectMessageWithReport :: "'j web_env \<Rightarrow> gostring \<Rightarrow> (Message \<times> AnalysisReport option) list \<Rightarrow> gostring \<Rightarrow> (Message \<times> AnalysisReport option) option" where
  "selectMessageWithReport env token msgs msgRef =
     (let msgRef = trim_space msgRef
      in if msgRef = [] then None else find (\<lambda>m. messageReference env token (MessageRowID (fst m)) = msgRef) msgs)"

definition select_message :: "'j web_env \<Rightarrow> gostring \<Rightarrow> Message list \<Rightarrow> gostring \<Rightarrow> Message option" where
  "select_message env token msgs msgRef = find (\<lambda>m. messageReference env token (MessageRowID m) = msgRef) msgs"

definition list_reports :: "'j web_env \<Rightarrow> Mailbox \<Rightarrow> int \<Rightarrow> 'j web \<Rightarrow> (Message \<times> AnalysisReport option) list" where
  "list_reports env mb n w = ListMessagesWithReports (jsons (inbound env)) (MailboxRowID mb) n (database w)"

definition gonePage :: "'j web_env \<Rightarrow> request \<Rightarrow> int \<Rightarrow> response" where
  "gonePage env r c = \<lparr>StatusCode = c, RespHeaders = [(''Content-Type'', ''text/html; charset=utf-8'')], RespBody = GonePage (lang (config env) r)\<rparr>"

definition html_page :: "content \<Rightarrow> response" where
  "html_page b = \<lparr>StatusCode = 200, RespHeaders = [(''Content-Type'', ''text/html; charset=utf-8'')], RespBody = b\<rparr>"

text \<open>\<open>int(RetentionTTL.Hours() / 24)\<close>: whole hours plus the rest as a fraction, divided by 24 and truncated.\<close>

definition ttl_days :: "duration \<Rightarrow> int" where
  "ttl_days d =
     to_int (fdiv (fadd (fl (of_int (go_div d hour))) (fdiv (fl (of_int (d - go_div d hour * hour))) (of_int hour))) 24)"

definition mailboxPage :: "'j web_env \<Rightarrow> 'j web_run \<Rightarrow> request \<Rightarrow> 'j web \<Rightarrow> response \<times> 'j web" where
  "mailboxPage env run r w =
     (let token = trim_prefix (URLPath r) ''/mailbox/''
      in if Method r \<noteq> ''GET'' then (http_error 405 ''method not allowed'', w)
         else if token = [] \<or> contains token ''/'' then (not_found, w)
         else (case GetMailboxByToken token (database w) of
             Inl e \<Rightarrow> (gonePage env r (if e = ErrNotFound then 404 else 500), w)
           | Inr mb \<Rightarrow>
               (let w1 = set_db (TouchMailbox (MailboxRowID mb) (t_touch run) (database w)) w
                in (html_page (MailboxPage mb (list_reports env mb 30 w1) (t_check run)
                      (publicBaseURL (config env) (trustedProxy env) r) (lang (config env) r) (ttl_days (RetentionTTL (config env)))), w1))))"

definition rawPage :: "'j web_env \<Rightarrow> request \<Rightarrow> 'j web \<Rightarrow> response" where
  "rawPage env r w =
     (if Method r \<noteq> ''GET'' then http_error 405 ''method not allowed''
      else (case map trim_space (split (CHR ''/'') (trim_prefix (URLPath r) ''/raw/'')) of
          [token, msgRef, part] \<Rightarrow>
            if token = [] \<or> msgRef = [] then not_found
            else (case GetMailboxByToken token (database w) of
                Inl e \<Rightarrow> not_found
              | Inr mb \<Rightarrow>
                  (case select_message env token (ListMessagesByMailbox (MailboxRowID mb) 500 (database w)) msgRef of
                     None \<Rightarrow> not_found
                   | Some msg \<Rightarrow>
                       (let text = \<lambda>s. \<lparr>StatusCode = 200, RespHeaders = [(''Content-Type'', ''text/plain; charset=utf-8''),
                              (''X-Content-Type-Options'', ''nosniff'')], RespBody = Plain s\<rparr>
                        in if part = ''headers'' then text (HeaderBlock msg)
                           else if part = ''source'' then text (RawSource msg)
                           else not_found)))
        | _ \<Rightarrow> not_found))"

definition reportAPI :: "'j web_env \<Rightarrow> request \<Rightarrow> 'j web \<Rightarrow> response" where
  "reportAPI env r w =
     (if Method r \<noteq> ''GET'' then json_error 405 ''method not allowed''
      else (case map trim_space (split (CHR ''/'') (trim_prefix (URLPath r) ''/api/reports/'')) of
          [token, msgRef] \<Rightarrow>
            if token = [] \<or> msgRef = [] then json_error 404 ''not found''
            else (case GetMailboxByToken token (database w) of
                Inl e \<Rightarrow> json_error 404 ''mailbox not found''
              | Inr mb \<Rightarrow>
                  (case selectMessageWithReport env token (list_reports env mb 500 w) msgRef of
                     Some (m, Some report) \<Rightarrow>
                       jsonResp 200
                         [(''mailbox'', VObj [(''token'', VStr (Token mb)), (''address'', VStr (Address mb)), (''expires_at'', VTime (ExpiresAt mb))]),
                          (''message'', VObj [(''reference'', VStr msgRef), (''received_at'', VTime (ReceivedAt m)), (''smtp_from'', VStr (SMTPFrom m)),
                             (''rcpt_to'', VStr (RCPTTo m)), (''remote_ip'', VStr (MsgRemoteIP m)), (''helo'', VStr (MsgHELO m)),
                             (''subject'', VStr (Subject m)), (''size_bytes'', VInt (SizeBytes m))]),
                          (''report'', VReport report)]
                   | _ \<Rightarrow> json_error 404 ''report not found''))
        | _ \<Rightarrow> json_error 404 ''not found''))"

text \<open>A request to one of the limited endpoints: whether the limiter admits it, and the state after it.\<close>

definition payload_gate :: "'j web_env \<Rightarrow> 'j web_run \<Rightarrow> request \<Rightarrow> gostring \<Rightarrow> 'j web \<Rightarrow> bool \<times> 'j web" where
  "payload_gate env run r kind w =
     (case payloadLimiter w of
        None \<Rightarrow> (True, w)
      | Some l \<Rightarrow> (case Allow l (kind @ client env r) (t_limit run) of (ok, l') \<Rightarrow> (ok, w\<lparr>payloadLimiter := Some l'\<rparr>)))"

text \<open>\<open>strings.SplitN(s, "/", 2)\<close>.\<close>

definition split2 :: "gostring \<Rightarrow> gostring list" where
  "split2 s = (case cut s ''/'' of (a, b, found) \<Rightarrow> if found then [a, b] else [a])"

definition payloadAPI :: "'j web_env \<Rightarrow> 'j web_run \<Rightarrow> request \<Rightarrow> 'j web \<Rightarrow> response \<times> 'j web" where
  "payloadAPI env run r w =
     (if Method r \<noteq> ''GET'' then (json_error 405 ''method not allowed'', w)
      else (case payload_gate env run r ''payload:'' w of (ok, w1) \<Rightarrow>
        (if \<not> ok then json_error 429 ''rate limited''
         else (case split2 (trim_prefix (URLPath r) ''/api/payload/'') of
             [token, msgRef] \<Rightarrow>
               (case GetMailboxByToken token (database w1) of
                  Inl e \<Rightarrow> json_error 404 ''not found''
                | Inr mb \<Rightarrow>
                    if PublicKey mb = [] then json_error 404 ''mailbox not encrypted''
                    else (case selectMessageWithReport env token (list_reports env mb 100 w1) msgRef of
                        None \<Rightarrow> json_error 404 ''message not found''
                      | Some (m, rep) \<Rightarrow>
                          if \<not> Encrypted m then json_error 404 ''message not encrypted''
                          else jsonResp 200 [(''payload_enc'', VStr (PayloadEnc m)), (''token'', VStr token)]))
           | _ \<Rightarrow> json_error 400 ''bad path''), w1)))"

subsection \<open>Rechecks and the simulator\<close>

definition engine_recheck :: "'j web_env \<Rightarrow> gostring \<Rightarrow> RecheckInput \<Rightarrow> 'j web \<Rightarrow> response \<times> 'j web" where
  "engine_recheck env checkID inp w =
     (case Recheck (analyzer env) (map_order env) (probe_links env) (DomainBlocklistProviders (config env)) checkID inp (dns_failures (world w)) of
        None \<Rightarrow> (json_error 400 ''recheck failed'', w)
      | Some (res, n) \<Rightarrow> (json_content (CheckJSON res), w\<lparr>world := (world w)\<lparr>dns_failures := n\<rparr>\<rparr>))"

definition activate_check :: "gostring \<Rightarrow> Mailbox \<Rightarrow> 'j db \<Rightarrow> 'j db" where
  "activate_check checkID mb d =
     (if checkID = ''domain_age'' then snd (UpdateMailboxChecks (Token mb) True (CheckDomainBlocklist mb) (CheckBrokenLinks mb) d)
      else if checkID = ''domain_blocklist'' then snd (UpdateMailboxChecks (Token mb) (CheckDomainAge mb) True (CheckBrokenLinks mb) d)
      else if checkID = ''broken_links'' then snd (UpdateMailboxChecks (Token mb) (CheckDomainAge mb) (CheckDomainBlocklist mb) True d)
      else d)"

definition recheckAPI :: "'j web_env \<Rightarrow> 'j web_run \<Rightarrow> request \<Rightarrow> 'j web \<Rightarrow> response \<times> 'j web" where
  "recheckAPI env run r w =
     (if Method r \<noteq> ''POST'' then (json_error 405 ''method not allowed'', w)
      else (case payload_gate env run r ''recheck:'' w of (ok, w) \<Rightarrow>
        if \<not> ok then (json_error 429 ''rate limited'', w)
        else (case split2 (trim_prefix (URLPath r) ''/api/recheck/'') of
            [token, msgRef] \<Rightarrow>
              if token = [] then (json_error 400 ''bad path'', w)
              else (case GetMailboxByToken token (database w) of
                  Inl e \<Rightarrow> (json_error 404 ''mailbox not found'', w)
                | Inr mb \<Rightarrow>
                    (case decode_recheck env (take (64 * 1024) (ReqBody r)) of
                       None \<Rightarrow> (json_error 400 ''invalid body'', w)
                     | Some (checkID, inp) \<Rightarrow>
                         if \<not> Recheckable checkID then (json_error 400 ''check not re-checkable'', w)
                         else engine_recheck env checkID inp
                                (if Query r ''activate'' = ''1'' then set_db (activate_check checkID mb (database w)) w else w)))
          | _ \<Rightarrow> (json_error 400 ''bad path'', w))))"

definition simulateRecheckAPI :: "'j web_env \<Rightarrow> 'j web_run \<Rightarrow> request \<Rightarrow> 'j web \<Rightarrow> response \<times> 'j web" where
  "simulateRecheckAPI env run r w =
     (if Method r \<noteq> ''POST'' then (json_error 405 ''method not allowed'', w)
      else (case payload_gate env run r ''recheck:'' w of (ok, w) \<Rightarrow>
        (let token = trim_prefix (URLPath r) ''/api/simulate/recheck/''
         in if \<not> ok then (json_error 429 ''rate limited'', w)
            else if token = [] then (json_error 400 ''missing token'', w)
            else (case GetMailboxByToken token (database w) of
                Inl e \<Rightarrow> (json_error 404 ''mailbox not found'', w)
              | Inr mb \<Rightarrow>
                  (case decode_recheck env (take (64 * 1024) (ReqBody r)) of
                     None \<Rightarrow> (json_error 400 ''invalid body'', w)
                   | Some (checkID, inp) \<Rightarrow>
                       if \<not> Recheckable checkID then (json_error 400 ''check not re-checkable'', w)
                       else engine_recheck env checkID inp w)))))"

definition empty_message :: Message where
  "empty_message = \<lparr>MessageRowID = 0, MailboxID = 0, SMTPFrom = [], RCPTTo = [], MsgRemoteIP = [], MsgHELO = [], ReceivedAt = zero_time,
     RawSource = [], HeaderBlock = [], Subject = [], SizeBytes = 0, PayloadEnc = []\<rparr>"

definition engine_analyze :: "'j web_env \<Rightarrow> analyzer_input \<Rightarrow> 'j web \<Rightarrow> AnalysisReport \<times> 'j web" where
  "engine_analyze env inp w =
     (case Analyze (inbound env) inp (dns_failures (world w)) of
        (report, n) \<Rightarrow> (report, w\<lparr>world := (world w)\<lparr>dns_failures := n\<rparr>\<rparr>))"

definition simulateAPI :: "'j web_env \<Rightarrow> 'j web_run \<Rightarrow> request \<Rightarrow> 'j web \<Rightarrow> response \<times> 'j web" where
  "simulateAPI env run r w =
     (if Method r \<noteq> ''POST'' then (json_error 405 ''method not allowed'', w)
      else (case payload_gate env run r ''simulate:'' w of (ok, w) \<Rightarrow>
        if \<not> ok then (json_error 429 ''rate limited'', w)
        else (case decode_simulate env (take (512 * 1024) (ReqBody r)) of
            None \<Rightarrow> (json_error 400 ''invalid body'', w)
          | Some (token, src) \<Rightarrow>
              (case GetMailboxByToken token (database w) of
                 Inl e \<Rightarrow> (json_error 401 ''invalid token'', w)
               | Inr mb \<Rightarrow>
                   if trim_space src = [] then (json_error 400 ''source is empty'', w)
                   else (case engine_analyze env \<lparr>InMessage = empty_message\<lparr>RawSource := src\<rparr>, InSMTPDomain = [], EnableDomainAge = False,
                            EnableDomainBlocklist = False, EnableBrokenLinks = False, SimulationMode = True\<rparr> w of
                       (report, w') \<Rightarrow> (json_content (ReportJSON report), w'))))))"

text \<open>
  \<open>base64.RawURLEncoding.DecodeString\<close>: line breaks are skipped; every other character must be of the alphabet, and a
  single character is left over by no encoding.
\<close>

definition base64_digit :: "char \<Rightarrow> nat option" where
  "base64_digit c = map_of (zip base64_url [0..<64]) c"

definition base64url_decode :: "gostring \<Rightarrow> gostring option" where
  "base64url_decode s =
     (let cs = filter (\<lambda>c. c \<noteq> CR \<and> c \<noteq> LF) s; bs = concat (map (\<lambda>c. bits_of 6 (the (base64_digit c))) cs)
      in if list_ex (\<lambda>c. base64_digit c = None) cs \<or> length cs mod 4 = 1 then None else Some (bytes_of (length bs div 8) bs))"

text \<open>The part of \<open>recheckPersistAPI\<close> after the message is found: the body is checked, the score computed and both rows written.\<close>

definition persist_update :: "'j web_env \<Rightarrow> request \<Rightarrow> Message \<Rightarrow> 'j web \<Rightarrow> response \<times> 'j web" where
  "persist_update env r msg w =
     (case decode_persist env (take (4 * 1024 * 1024) (ReqBody r)) of
        None \<Rightarrow> (json_error 400 ''invalid body'', w)
      | Some b \<Rightarrow>
          (case base64url_decode (BPayloadEnc b) of
             None \<Rightarrow> (json_error 400 ''invalid payload'', w)
           | Some blob \<Rightarrow>
               if length blob < 4 \<or> take 4 blob \<noteq> ''MPE1'' then (json_error 400 ''invalid payload'', w)
               else if BChecks b = [] then (json_error 400 ''no checks'', w)
               else (case ComputeScore (BChecks b) of (score, label) \<Rightarrow>
                 (let checksJSON = marshal_checks (jsons (inbound env)) (map stripped_check (BChecks b))
                  in case UpdateMessagePayloadEnc (MessageRowID msg) (BPayloadEnc b) (database w) of
                       (Inl e, d) \<Rightarrow> (json_error 500 ''store error'', set_db d w)
                     | (Inr _, d) \<Rightarrow>
                         (case UpdateReportScoreChecks (MessageRowID msg) score label checksJSON d of
                            (Inl e, d) \<Rightarrow> (json_error 500 ''store error'', set_db d w)
                          | (Inr _, d) \<Rightarrow> (jsonResp 200 [(''status'', VStr ''saved''), (''score'', VScore score), (''score_label'', VStr label)],
                              set_db d w))))))"

definition recheckPersistAPI :: "'j web_env \<Rightarrow> 'j web_run \<Rightarrow> request \<Rightarrow> 'j web \<Rightarrow> response \<times> 'j web" where
  "recheckPersistAPI env run r w =
     (if Method r \<noteq> ''POST'' then (json_error 405 ''method not allowed'', w)
      else (case payload_gate env run r ''recheck:'' w of (ok, w) \<Rightarrow>
        if \<not> ok then (json_error 429 ''rate limited'', w)
        else (case split2 (trim_prefix (URLPath r) ''/api/recheck-persist/'') of
            [token, msgRef] \<Rightarrow>
              if token = [] \<or> msgRef = [] then (json_error 400 ''bad path'', w)
              else (case GetMailboxByToken token (database w) of
                  Inl e \<Rightarrow> (json_error 404 ''mailbox not found'', w)
                | Inr mb \<Rightarrow>
                    (case select_message env token (ListMessagesByMailbox (MailboxRowID mb) 500 (database w)) msgRef of
                       None \<Rightarrow> (json_error 404 ''message not found'', w)
                     | Some msg \<Rightarrow>
                         if \<not> Encrypted msg then (json_error 404 ''message not found'', w) else persist_update env r msg w))
          | _ \<Rightarrow> (json_error 400 ''bad path'', w))))"

definition reanalyzeAPI :: "'j web_env \<Rightarrow> 'j web_run \<Rightarrow> request \<Rightarrow> 'j web \<Rightarrow> response \<times> 'j web" where
  "reanalyzeAPI env run r w =
     (if Method r \<noteq> ''POST'' then (json_error 405 ''method not allowed'', w)
      else (case payload_gate env run r ''recheck:'' w of (ok, w) \<Rightarrow>
        if \<not> ok then (json_error 429 ''rate limited'', w)
        else (case split2 (trim_prefix (URLPath r) ''/api/reanalyze/'') of
            [token, msgRef] \<Rightarrow>
              if token = [] \<or> msgRef = [] then (json_error 400 ''bad path'', w)
              else (case GetMailboxByToken token (database w) of
                  Inl e \<Rightarrow> (json_error 404 ''mailbox not found'', w)
                | Inr mb \<Rightarrow>
                    if select_message env token (ListMessagesByMailbox (MailboxRowID mb) 500 (database w)) msgRef = None
                    then (json_error 404 ''message not found'', w)
                    else (case decode_reanalyze env (take (nat (Config.MaxMessageBytes (config env) + 64 * 1024)) (ReqBody r)) of
                        None \<Rightarrow> (json_error 400 ''invalid body'', w)
                      | Some b \<Rightarrow>
                          if trim_space (BRawSource b) = [] then (json_error 400 ''invalid body'', w)
                          else (case reverifyReceiverAuth (auth (inbound env)) (SMTPDomain (config env))
                                   \<lparr>RemoteIP = BRemoteIP b, HELO = BHELO b, MailFrom = BSMTPFrom b, RcptTo = Address mb, Data = [], TLS = False\<rparr>
                                   (BRawSource b) (dns_failures (world w)) of
                              (raw, n) \<Rightarrow>
                                (case engine_analyze env
                                    \<lparr>InMessage = empty_message\<lparr>MailboxID := MailboxRowID mb, SMTPFrom := BSMTPFrom b, RCPTTo := Address mb,
                                       MsgRemoteIP := BRemoteIP b, MsgHELO := BHELO b, ReceivedAt := t_message run, RawSource := raw\<rparr>,
                                     InSMTPDomain = SMTPDomain (config env), EnableDomainAge = CheckDomainAge mb,
                                     EnableDomainBlocklist = CheckDomainBlocklist mb, EnableBrokenLinks = CheckBrokenLinks mb, SimulationMode = False\<rparr>
                                    (w\<lparr>world := (world w)\<lparr>dns_failures := n\<rparr>\<rparr>) of
                                   (report, w') \<Rightarrow>
                                     (jsonResp 200 [(''report'', VReport report), (''raw_source'', VStr raw),
                                        (''header_block'', VStr (replace_all [LF] crlf (fst (cut (replace_all crlf [LF] raw) [LF, LF]))))], w')))))
          | _ \<Rightarrow> (json_error 400 ''bad path'', w))))"

subsection \<open>Inbox placement tests\<close>

text \<open>
  An error of these endpoints carries the reason and a message in the language of the visitor; \<open>api_texts\<close> gives the German and the
  English text for a reason and the providers it names. A panic of the handler closes the connection without an answer, which is \<open>aborted\<close>.
\<close>

definition ipt_error :: "'j web_env \<Rightarrow> request \<Rightarrow> int \<Rightarrow> gostring \<Rightarrow> response" where
  "ipt_error env r c reason = (case api_texts env reason [] of (de, en) \<Rightarrow> apiError (config env) r c reason de en)"

definition aborted :: response where
  "aborted = \<lparr>StatusCode = 0, RespHeaders = [], RespBody = Plain []\<rparr>"

definition newPlacementToken :: "'j web_env \<Rightarrow> 'j web_run \<Rightarrow> gostring option" where
  "newPlacementToken env run =
     (let n = IPTTokenLength (config env)
      in if n < MinIPTTokenLength \<or> MaxIPTTokenLength < n then None
         else map_option (take (nat n)) (randomToken run 0 (nat ((n + 1) div 2))))"

definition placementTokenAccepted :: "'j web_env \<Rightarrow> gostring \<Rightarrow> PlacementTest \<Rightarrow> time \<Rightarrow> bool" where
  "placementTokenAccepted env token pt t = (IPTTokenLength (config env) \<le> int (length token) \<or> t < TestExpiresAt pt)"

definition placementTestFor :: "'j web_env \<Rightarrow> Mailbox \<Rightarrow> gostring \<Rightarrow> time \<Rightarrow> 'j db \<Rightarrow> store_error + PlacementTest" where
  "placementTestFor env mb ptToken t d =
     (case GetPlacementTest (jsons (inbound env)) ptToken d of
        Inl e \<Rightarrow> Inl e
      | Inr pt \<Rightarrow>
          if TestMailboxID pt \<noteq> MailboxRowID mb \<or> \<not> placementTokenAccepted env ptToken pt t then Inl ErrNotFound else Inr pt)"

definition provider_healthy :: "(gostring \<rightharpoonup> AccountStatus) \<Rightarrow> Provider \<Rightarrow> bool" where
  "provider_healthy health p =
     list_ex (\<lambda>acc. case health (ProviderName p @ '':'' @ User acc) of Some v \<Rightarrow> OK v | None \<Rightarrow> True) (Accounts p)"

definition iptProviders :: "'j web_env \<Rightarrow> 'j web \<Rightarrow> (gostring \<times> bool) list" where
  "iptProviders env w = (case seeds env of None \<Rightarrow> [] | Some ps \<Rightarrow> map (\<lambda>p. (ProviderName p, provider_healthy (iptHealth w) p)) ps)"

definition iptProviderNames :: "'j web_env \<Rightarrow> gostring list" where
  "iptProviderNames env = (case seeds env of None \<Rightarrow> [] | Some ps \<Rightarrow> ProviderNames ps)"

definition placementRateLimited :: "'j web_env \<Rightarrow> request \<Rightarrow> duration \<Rightarrow> response" where
  "placementRateLimited env r d =
     (let n = IPTRateLimitPerHour (config env);
          resp = jsonResp 429
            [(''error'', VStr (''rate limit: max '' @ countNoun n ''placement test'' ''placement tests'' @ '' per hour'')),
             (''message'', VStr (pickLang (lang (config env) r)
                (''Ihre IP-Adresse hat in der letzten Stunde schon '' @ countNoun n ''Platzierungstest'' ''Platzierungstests'' @
                 '' gestartet, das ist die Obergrenze dieses Servers. Den n'' @ ae @ ''chsten Test k'' @ oe @ ''nnen Sie in '' @ waitText DE d @ '' starten.'')
                (''Your IP address has already started '' @ countNoun n ''placement test'' ''placement tests'' @
                 '' in the last hour, which is the limit on this server. You can start the next test in '' @ waitText EN d @ ''.'')))]
      in resp\<lparr>RespHeaders := (''Retry-After'', show_int (waitSeconds d)) # RespHeaders resp\<rparr>)"

text \<open>The part of \<open>iptStartAPI\<close> after the providers are chosen.\<close>

definition start_test :: "'j web_env \<Rightarrow> 'j web_run \<Rightarrow> request \<Rightarrow> Mailbox \<Rightarrow> Provider list \<Rightarrow> gostring list \<Rightarrow> 'j web \<Rightarrow> response \<times> 'j web" where
  "start_test env run r mb providers unavailable w =
     (case newPlacementToken env run of
        None \<Rightarrow> (ipt_error env r 500 ''token error'', w)
      | Some pt \<Rightarrow>
          (case Pick (rnd_pick run) providers of
             None \<Rightarrow> (aborted, w)
           | Some (infos, accounts) \<Rightarrow>
               (let expiresAt = t_test run + IPTTestDuration (config env)
                in case CreatePlacementTest (jsons (inbound env)) (MailboxRowID mb) pt infos expiresAt (t_create run) (gap_test run) (database w) of
                     (Inl e, d) \<Rightarrow> (ipt_error env r 500 ''db error'', set_db d w)
                   | (Inr _, d) \<Rightarrow>
                       (jsonResp 200 ([(''placement_token'', VStr pt), (''subject_tag'', VStr (''[SR-'' @ pt @ '']'')), (''seeds'', VSeeds infos),
                           (''expires_at'', VTime expiresAt)] @ (if unavailable = [] then [] else [(''unavailable_providers'', VStrings unavailable)])),
                        set_db d w))))"

definition iptStartAPI :: "'j web_env \<Rightarrow> 'j web_run \<Rightarrow> gostring \<Rightarrow> request \<Rightarrow> 'j web \<Rightarrow> response \<times> 'j web" where
  "iptStartAPI env run mailboxToken r w =
     (case seeds env of
        None \<Rightarrow> (ipt_error env r 503 ''inbox placement testing not configured'', w)
      | Some ps \<Rightarrow>
          (let key = ''ipt:'' @ client env r
           in case Allow (iptLimiter w) key (t_limit run) of (ok, l) \<Rightarrow>
             (let w = w\<lparr>iptLimiter := l\<rparr>
              in if \<not> ok then (placementRateLimited env r (RetryAfter l key (t_retry run)), w)
                 else (case GetMailboxByToken mailboxToken (database w) of
                     Inl e \<Rightarrow> (ipt_error env r 404 ''mailbox not found'', w)
                   | Inr mb \<Rightarrow>
                       (case decode_providers env (take 4096 (ReqBody r)) of
                          None \<Rightarrow> (ipt_error env r 400 ''invalid body'', w)
                        | Some selected \<Rightarrow>
                            (let allProviders = Filter ps selected;
                                 providers = filter (provider_healthy (iptHealth w)) allProviders;
                                 unavailable = map ProviderName (filter (\<lambda>p. \<not> provider_healthy (iptHealth w) p) allProviders)
                             in if allProviders = [] then (ipt_error env r 400 ''no valid providers selected'', w)
                                else if providers = []
                                then (case api_texts env ''all selected providers are currently unavailable'' unavailable of (de, en) \<Rightarrow>
                                  (jsonResp 503 [(''error'', VStr ''all selected providers are currently unavailable''),
                                     (''message'', VStr (pickLang (lang (config env) r) de en)),
                                     (''unavailable'', VStrings unavailable)], w))
                                else start_test env run r mb providers unavailable w))))))"

text \<open>
  The goroutine that stores the results of a test as the pollers deliver them: \<open>n\<close> results are expected, \<open>collected\<close> are
  stored already.
\<close>

definition collected_status :: "nat \<Rightarrow> ProviderResult list \<Rightarrow> gostring" where
  "collected_status n collected =
     (if length collected = n then (if list_ex (\<lambda>x. RStatus x = ''timeout'') collected then ''timeout'' else ''done'') else ''running'')"

fun store_results :: "'j json \<Rightarrow> gostring \<Rightarrow> nat \<Rightarrow> ProviderResult list \<Rightarrow> ProviderResult list \<Rightarrow> 'j db \<Rightarrow> 'j db" where
  "store_results js pt n collected [] d = d"
| "store_results js pt n collected (res # results) d =
     store_results js pt n (collected @ [res]) results
       (UpdatePlacementTestResult js pt (collected @ [res]) (collected_status n (collected @ [res])) d)"

definition iptResultAPI :: "'j web_env \<Rightarrow> 'j web_run \<Rightarrow> gostring \<Rightarrow> gostring \<Rightarrow> 'j web \<Rightarrow> response" where
  "iptResultAPI env run mailboxToken ptToken w =
     (case GetMailboxByToken mailboxToken (database w) of
        Inl e \<Rightarrow> json_error 404 ''mailbox not found''
      | Inr mb \<Rightarrow>
          (case placementTestFor env mb ptToken (t_check run) (database w) of
             Inl e \<Rightarrow> json_error 404 ''test not found''
           | Inr pt \<Rightarrow> json_content (TestJSON pt)))"

subsection \<open>Event streams\<close>

definition sse_event :: "gostring \<Rightarrow> gostring \<Rightarrow> gostring" where
  "sse_event name data_text = ''event: '' @ name @ [LF] @ ''data: '' @ data_text @ [LF, LF]"

definition event_stream :: "gostring list \<Rightarrow> response" where
  "event_stream frames = \<lparr>StatusCode = 200, RespHeaders = [(''Content-Type'', ''text/event-stream''), (''Cache-Control'', ''no-cache''),
     (''Connection'', ''keep-alive'')], RespBody = Events frames\<rparr>"

text \<open>What \<open>send\<close> writes for the payloads of the ticks: a frame whenever the payload differs from the last one sent.\<close>

fun send_changed :: "gostring \<Rightarrow> gostring \<Rightarrow> gostring list \<Rightarrow> gostring list" where
  "send_changed name last_payload [] = []"
| "send_changed name last_payload (raw # raws) =
     (if raw = last_payload then send_changed name last_payload raws else sse_event name raw # send_changed name raw raws)"

definition mailboxStatusPayload :: "'j web_env \<Rightarrow> Mailbox \<Rightarrow> int \<Rightarrow> 'j db \<Rightarrow> (gostring \<times> jvalue) list" where
  "mailboxStatusPayload env mb n d =
     [(''mailbox'', VStr (Address mb)), (''expires_at'', VTime (ExpiresAt mb))] @
     (case ListMessagesWithReports (jsons (inbound env)) (MailboxRowID mb) n d of
        [] \<Rightarrow> [(''message_count'', VInt 0)]
      | (m, rep) # rest \<Rightarrow>
          [(''message_count'', VInt (int (length rest) + 1)), (''latest_message_id'', VInt (MessageRowID m)), (''latest_received_at'', VTime (ReceivedAt m))] @
          (case rep of
             None \<Rightarrow> []
           | Some report \<Rightarrow>
               [(''latest_report_path'', VStr (''/report/'' @ Token mb @ ''?msg='' @ messageReference env (Token mb) (MessageRowID m))),
                (''latest_score'', VScore (Score report))]))"

definition mailboxEvents :: "'j web_env \<Rightarrow> 'j web_run \<Rightarrow> gostring \<Rightarrow> 'j web \<Rightarrow> response" where
  "mailboxEvents env run token w =
     (case GetMailboxByToken token (database w) of
        Inl e \<Rightarrow> not_found
      | Inr mb \<Rightarrow> event_stream (send_changed ''status'' []
          (map (\<lambda>d. marshal_object env (mailboxStatusPayload env mb 1 d)) (database w # map snd (stream_ticks run)))))"

definition statsEvents :: "'j web_env \<Rightarrow> 'j web_run \<Rightarrow> request \<Rightarrow> 'j web \<Rightarrow> response" where
  "statsEvents env run r w =
     (if Method r \<noteq> ''GET'' then http_error 405 ''method not allowed''
      else event_stream (send_changed ''stats'' []
        (map (\<lambda>(t, d). marshal_stats env (GetGlobalStats t d)) ((t_check run, database w) # stream_ticks run))))"

definition statsHandler :: "'j web_env \<Rightarrow> 'j web_run \<Rightarrow> request \<Rightarrow> 'j web \<Rightarrow> response" where
  "statsHandler env run r w =
     (if Method r \<noteq> ''GET'' then http_error 405 ''method not allowed''
      else (let p = json_content (StatsJSON (GetGlobalStats (t_check run) (database w)))
            in p\<lparr>RespHeaders := RespHeaders p @ [(''Cache-Control'', ''no-cache'')]\<rparr>))"

text \<open>
  The stream of a placement test. \<open>start\<close> marks the first send, whose error ends the stream without an event; the stream
  ends with the test, or with the states seen before the client goes away.
\<close>

fun test_events :: "'j web_env \<Rightarrow> Mailbox \<Rightarrow> gostring \<Rightarrow> bool \<Rightarrow> gostring \<Rightarrow> (time \<times> 'j db) list \<Rightarrow> gostring list" where
  "test_events env mb ptToken start last_payload [] = []"
| "test_events env mb ptToken start last_payload ((t, d) # states) =
     (case placementTestFor env mb ptToken t d of
        Inl e \<Rightarrow> if start then []
                 else [sse_event ''error'' (''{'' @ quoted ''error'' @ '':'' @ quoted (if e = ErrNotFound then ''test not found'' else ''db error'') @ ''}'')]
      | Inr pt \<Rightarrow>
          (let raw = marshal_test env pt; sent = (if raw \<noteq> last_payload then [sse_event ''ipt'' raw] else [])
           in if TestStatus pt = ''done'' \<or> TestStatus pt = ''timeout'' then sent @ [sse_event ''done'' ''{}'']
              else sent @ test_events env mb ptToken False raw states))"

definition iptEventsAPI :: "'j web_env \<Rightarrow> 'j web_run \<Rightarrow> gostring \<Rightarrow> gostring \<Rightarrow> 'j web \<Rightarrow> response" where
  "iptEventsAPI env run mailboxToken ptToken w =
     (case GetMailboxByToken mailboxToken (database w) of
        Inl e \<Rightarrow> not_found
      | Inr mb \<Rightarrow>
          (case placementTestFor env mb ptToken (t_check run) (database w) of
             Inl e \<Rightarrow> not_found
           | Inr pt \<Rightarrow> event_stream (test_events env mb ptToken True [] ((t_check run, database w) # stream_ticks run))))"

subsection \<open>Routes of a mailbox\<close>

definition mailbox_status :: "'j web_env \<Rightarrow> gostring \<Rightarrow> 'j web \<Rightarrow> response" where
  "mailbox_status env token w =
     (case GetMailboxByToken token (database w) of
        Inl e \<Rightarrow> json_error 404 ''not found''
      | Inr mb \<Rightarrow> jsonResp 200 (mailboxStatusPayload env mb 1 (database w)))"

definition mailbox_checks :: "'j web_env \<Rightarrow> gostring \<Rightarrow> request \<Rightarrow> 'j web \<Rightarrow> response \<times> 'j web" where
  "mailbox_checks env token r w =
     (case decode_flags env (take 1024 (ReqBody r)) of
        None \<Rightarrow> (json_error 400 ''invalid body'', w)
      | Some (age, blocklist, links) \<Rightarrow>
          (case UpdateMailboxChecks token age blocklist links (database w) of
             (Inl e, d) \<Rightarrow> (json_error (if e = ErrNotFound then 404 else 500) ''mailbox not found'', set_db d w)
           | (Inr _, d) \<Rightarrow>
               (jsonResp 200 [(''status'', VStr ''updated''), (''check_domain_age'', VBool age), (''check_domain_blocklist'', VBool blocklist),
                  (''check_broken_links'', VBool links)], set_db d w)))"

definition mailbox_delete :: "gostring \<Rightarrow> 'j web \<Rightarrow> response \<times> 'j web" where
  "mailbox_delete token w =
     (case DeleteMailboxByToken token (database w) of
        (Inl e, d) \<Rightarrow> (json_error (if e = ErrNotFound then 404 else 500) ''mailbox not found'', set_db d w)
      | (Inr _, d) \<Rightarrow> (jsonResp 200 [(''status'', VStr ''deleted'')], set_db d w))"

definition mailboxAPI :: "'j web_env \<Rightarrow> 'j web_run \<Rightarrow> request \<Rightarrow> 'j web \<Rightarrow> response \<times> 'j web" where
  "mailboxAPI env run r w =
     (case split (CHR ''/'') (trim_prefix (URLPath r) ''/api/mailboxes/'') of
        token # action # rest \<Rightarrow>
          if action = ''ipt'' \<and> rest = [''start''] \<and> Method r = ''POST'' then iptStartAPI env run token r w
          else if action = ''ipt'' \<and> length rest = 2 \<and> rest ! 1 = ''events'' \<and> Method r = ''GET'' then (iptEventsAPI env run token (rest ! 0) w, w)
          else if action = ''ipt'' \<and> length rest = 1 \<and> Method r = ''GET'' then (iptResultAPI env run token (rest ! 0) w, w)
          else if action = ''status'' \<and> Method r = ''GET'' then (mailbox_status env token w, w)
          else if action = ''events'' \<and> Method r = ''GET'' then (mailboxEvents env run token w, w)
          else if action = ''checks'' \<and> Method r = ''POST'' then mailbox_checks env token r w
          else if action = ''delete'' \<and> Method r = ''POST'' then mailbox_delete token w
          else (not_found, w)
      | _ \<Rightarrow> (not_found, w))"

subsection \<open>Language, health and static texts\<close>

definition setLang :: "'j web_env \<Rightarrow> request \<Rightarrow> response" where
  "setLang env r =
     (if Method r \<noteq> ''POST''
      then (case api_texts env ''method not allowed'' [] of (de, en) \<Rightarrow>
        (let p = http_error 405 (pickLang (lang (config env) r) de en) in p\<lparr>RespHeaders := (''Allow'', ''POST'') # RespHeaders p\<rparr>))
      else (let l = FormValue r ''l''; l = (if l \<noteq> DE \<and> l \<noteq> EN then EN else l);
                p = redirect 303 (swapLangPrefix (localReturnPath (parse_referer env) (Header r ''Referer'')) l)
            in p\<lparr>RespHeaders := (''Set-Cookie'', cookie_text (LangCookieName (config env)) l (LangCookieDays (config env) * 86400)
                   (secureCookies (config env) (trustedProxy env) r)) # RespHeaders p\<rparr>))"

definition plain_page :: "gostring \<Rightarrow> response" where
  "plain_page s = \<lparr>StatusCode = 200, RespHeaders = [], RespBody = Plain s\<rparr>"

definition ready :: "'j web \<Rightarrow> response" where
  "ready w = plain_page (''ready'' @ [LF] @ ''dns_lookup_failures_total '' @ show_int (uint (dns_failures (world w))) @ [LF])"

text \<open>
  The health check of the seed accounts: the statuses are stored under provider and user; accounts that were not known to be
  broken are reported. The result is the alert mail, if one is sent.
\<close>

fun record_health :: "AccountStatus list \<Rightarrow> (gostring \<rightharpoonup> AccountStatus) \<Rightarrow> (gostring \<rightharpoonup> AccountStatus) \<times> AccountStatus list" where
  "record_health [] health = (health, [])"
| "record_health (s # ss) health =
     (let key = SProvider s @ '':'' @ SUser s;
          fresh = (\<not> OK s \<and> (case health key of None \<Rightarrow> True | Some prev \<Rightarrow> OK prev))
      in case record_health ss (health(key \<mapsto> s)) of (h, failed) \<Rightarrow> (h, if fresh then s # failed else failed))"

definition runIPTHealthCheck :: "'j web_env \<Rightarrow> (Account \<Rightarrow> gostring \<Rightarrow> gostring option) \<Rightarrow> (time \<Rightarrow> gostring) \<Rightarrow> time \<Rightarrow> 'j web \<Rightarrow> gostring option \<times> 'j web" where
  "runIPTHealthCheck env ping fmt t w =
     (case seeds env of
        None \<Rightarrow> (None, w)
      | Some ps \<Rightarrow>
          (case record_health (CheckAll ping t ps) (iptHealth w) of (h, newlyFailed) \<Rightarrow>
             (if newlyFailed \<noteq> [] \<and> iptMailer env \<noteq> None \<and> IPTAlertEmail (config env) \<noteq> []
              then SendIPTAlert (iptMailer env) fmt t (IPTAlertEmail (config env)) newlyFailed else None,
              w\<lparr>iptHealth := h\<rparr>)))"

subsection \<open>Middleware\<close>

type_synonym 'j handler = "request \<Rightarrow> 'j web \<Rightarrow> response \<times> 'j web"

definition withLangPrefix :: "'j handler \<Rightarrow> 'j handler" where
  "withLangPrefix next_handler r w =
     (case splitLangPrefix (URLPath r) of
        Some (l, rest) \<Rightarrow> next_handler (r\<lparr>LangOverride := Some l, URLPath := rest\<rparr>) w
      | None \<Rightarrow>
          (case next_handler r w of (p, w') \<Rightarrow>
             (if langPrefixedPage (URLPath r) then p\<lparr>RespHeaders := (''Vary'', ''Accept-Language, Cookie'') # RespHeaders p\<rparr> else p, w')))"

definition withHTTPSRedirect :: "'j web_env \<Rightarrow> 'j handler \<Rightarrow> 'j handler" where
  "withHTTPSRedirect env next_handler r w =
     (let cfg = config env; host = httpsRedirectHost (public_url env) cfg (trustedProxy env) r
      in if \<not> ForceHTTPS cfg \<or> requestScheme cfg (trustedProxy env) r = ''https'' \<or> httpsExempt cfg (URLPath r) then next_handler r w
         else if host = []
         then (case api_texts env ''no valid host name'' [] of (de, en) \<Rightarrow> (http_error 400 (pickLang (lang cfg r) de en), w))
         else (redirect 308 (''https://'' @ host @ EscapedPath r @ (if RawQuery r = [] then [] else CHR ''?'' # RawQuery r)), w))"

definition rate_exempt :: "gostring \<Rightarrow> bool" where
  "rate_exempt path = (has_prefix path ''/healthz'' \<or> has_prefix path ''/readyz'' \<or> has_prefix path ''/metrics'' \<or> has_prefix path ''/static/'')"

definition web_gate :: "'j web_run \<Rightarrow> gostring \<Rightarrow> 'j web \<Rightarrow> bool \<times> 'j web" where
  "web_gate run ip w =
     (case Allow (webLimiter w) (''web:minute:'' @ ip) (t_minute run) of (ok1, l1) \<Rightarrow>
        (let w = w\<lparr>webLimiter := l1\<rparr>
         in if \<not> ok1 then (False, w)
            else (case Allow (burstLimiter w) (''web:burst:'' @ ip) (t_burst run) of (ok2, l2) \<Rightarrow> (ok2, w\<lparr>burstLimiter := l2\<rparr>))))"

definition IncWebRateLimited :: "'j web \<Rightarrow> 'j web" where
  "IncWebRateLimited w =
     w\<lparr>world := (world w)\<lparr>counts := (counts (world w))\<lparr>webRateLimitBlocked := webRateLimitBlocked (counts (world w)) + 1\<rparr>\<rparr>\<rparr>"

definition withRateLimit :: "'j web_env \<Rightarrow> 'j web_run \<Rightarrow> 'j handler \<Rightarrow> 'j handler" where
  "withRateLimit env run next_handler r w =
     (if rate_exempt (URLPath r) then next_handler r w
      else (case web_gate run (client env r) w of (ok, w') \<Rightarrow>
        if \<not> ok then (http_error 429 ''rate limit exceeded'', IncWebRateLimited w') else next_handler r w'))"

definition security_headers :: "(gostring \<times> gostring) list" where
  "security_headers =
     [(''X-Content-Type-Options'', ''nosniff''), (''X-Frame-Options'', ''DENY''), (''Referrer-Policy'', ''strict-origin-when-cross-origin''),
      (''Content-Security-Policy'', let q = \<lambda>s. [CHR 0x27] @ s @ [CHR 0x27] in
         ''default-src '' @ q ''self'' @ ''; script-src '' @ q ''self'' @ '' '' @ q ''unsafe-inline'' @ ''; style-src '' @ q ''self'' @ '' '' @ q ''unsafe-inline''
         @ ''; img-src '' @ q ''self'' @ '' data: blob:; font-src '' @ q ''self'' @ '' data:; connect-src '' @ q ''self'' @ ''; frame-src '' @ q ''self''
         @ ''; form-action '' @ q ''self'' @ ''; base-uri '' @ q ''self'')]"

definition withSecurityHeaders :: "'j handler \<Rightarrow> 'j handler" where
  "withSecurityHeaders next_handler r w =
     (case next_handler r w of (p, w') \<Rightarrow> (p\<lparr>RespHeaders := security_headers @ RespHeaders p\<rparr>, w'))"

definition IncHTTPRequests :: "'j web \<Rightarrow> 'j web" where
  "IncHTTPRequests w =
     w\<lparr>world := (world w)\<lparr>counts := (counts (world w))\<lparr>httpRequestsTotal := httpRequestsTotal (counts (world w)) + 1\<rparr>\<rparr>\<rparr>"

definition withLogging :: "'j handler \<Rightarrow> 'j handler" where
  "withLogging next_handler r w = next_handler r (IncHTTPRequests w)"

text \<open>
  The table of routes. A pattern that ends in a slash covers the paths below it, and the longest pattern that fits
  decides. The redirects with which \<open>http.ServeMux\<close> answers a path that is not clean, or that lacks the slash of a pattern, leave the
  state alone and belong to \<open>pages\<close>, like the pages that only render a template; the theory \<open>Pages\<close> defines them all.
\<close>

definition routes :: "'j web_env \<Rightarrow> 'j web_run \<Rightarrow> (gostring \<times> 'j handler) list" where
  "routes env run =
     [(''/lang'', \<lambda>r w. (setLang env r, w)), (''/healthz'', \<lambda>r w. (plain_page ''ok'', w)), (''/readyz'', \<lambda>r w. (ready w, w)),
      (''/api/stats'', \<lambda>r w. (statsHandler env run r w, w)), (''/api/stats/events'', \<lambda>r w. (statsEvents env run r w, w)),
      (''/api/mailboxes'', createMailbox env run), (''/api/mailboxes/'', mailboxAPI env run), (''/api/reports/'', \<lambda>r w. (reportAPI env r w, w)),
      (''/api/payload/'', payloadAPI env run), (''/api/recheck/'', recheckAPI env run), (''/api/recheck-persist/'', recheckPersistAPI env run),
      (''/api/reanalyze/'', reanalyzeAPI env run), (''/api/simulate'', simulateAPI env run), (''/api/simulate/recheck/'', simulateRecheckAPI env run),
      (''/mailbox/'', mailboxPage env run), (''/raw/'', \<lambda>r w. (rawPage env r w, w))]"

definition pattern_fits :: "gostring \<Rightarrow> gostring \<Rightarrow> bool" where
  "pattern_fits path p = (path = p \<or> (has_suffix p ''/'' \<and> has_prefix path p))"

definition mux :: "'j web_env \<Rightarrow> 'j web_run \<Rightarrow> 'j handler" where
  "mux env run r w =
     (case sort_key (\<lambda>(p, h). - int (length p)) (filter (\<lambda>(p, h). pattern_fits (URLPath r) p) (routes env run)) of
        (p, h) # _ \<Rightarrow> if cleanRequestPath (URLPath r) then h r w else (pages env r w, w)
      | [] \<Rightarrow> (pages env r w, w))"

definition Handler :: "'j web_env \<Rightarrow> 'j web_run \<Rightarrow> 'j handler" where
  "Handler env run = withLogging (withSecurityHeaders (withRateLimit env run (withHTTPSRedirect env (withLangPrefix (mux env run)))))"

subsection \<open>A concrete server\<close>

text \<open>The settings that \<open>Load\<close> gives for \<open>demo_environment\<close>, written out.\<close>

definition demo_config :: Config where
  "demo_config =
     \<lparr>AppName = ''sender.report'', HTTPListenAddr = '':8080'', EnableTLS = False, TLSCertFile = [], TLSKeyFile = [], ForceHTTPS = False,
      SMTPListenAddr = '':2525'', PublicBaseURL = [], SMTPDomain = [], DBPath = ''/data/sender-report.db'', DataDir = ''/data'', MailboxTTL =
      86400000000000, RetentionTTL = 604800000000000, CleanupInterval = 1800000000000, Config.MaxMessageBytes = 2097152, MaxActivePerIP = 20,
      MaxActiveGlobal = 2000, WebRateLimitPerMin = 60, WebBurstPer10Sec = 20, SMTPRateLimitPerHour = 200, SMTPBurstPerMin = 40,
      PayloadRateLimitPerMin = 30, EnableRBLChecks = False, RBLProviders = [''zen.spamhaus.org'', ''bl.spamcop.net'', ''b.barracudacentral.org'',
      ''psbl.surriel.com'', ''dnsbl.dronebl.org'', ''bl.blocklist.de''], DNSFallbackResolvers = [''1.1.1.1:53'', ''8.8.8.8:53'', ''9.9.9.9:53''],
      DNSFallbackTimeout = 2000000000, CfgEnableDomainAge = False, CfgEnableDomainBlocklist = False, DomainBlocklistProviders =
      [''dbl.spamhaus.org'', ''multi.uribl.com''], CfgEnableBrokenLinks = False, EnableSpamAssassin = False, SpamAssassinHostPort = ''spamd:783'',
      SpamAssassinWarnRatio = Fin (8106479329266893 / 9007199254740992), EnableRspamd = False, RspamdURL = ''http://rspamd:11334/checkv2'',
      RspamdPassword = [], AlertWebhookURL = [], TrustedProxyCIDRs = [], PrivacyOperatorName = [], PrivacyOperatorAddress = [],
      PrivacyOperatorEmail = [], PrivacyHideTemplateNote = False, EnableInboxPlacement = False, SeedAccountsFile = [], IPTCheckInterval =
      21600000000000, IPTAlertEmail = [], IPTAlertSMTPAddr = [], IPTAlertSMTPFrom = [], IPTAlertSMTPUser = [], IPTAlertSMTPPass = [],
      IPTAlertIncludeRaw = True, IPTRateLimitPerHour = 3, IPTTokenLength = 16, IPTTestDuration = 3600000000000, IPTPollInterval = 30000000000,
      IPTEventsInterval = 5000000000, IPTSearchMargin = 120000000000, IPTSpamFolders = [''Spam'', ''Junk'', ''[Gmail]/Spam'', ''Bulk Mail'',
      ''Bulk'', ''Junk E-Mail''], UIDefaultTheme = ''auto'', CookieSecure = ''auto'', LangCookieName = ''sr_lang'', LangCookieDays = 365,
      MailboxCookieName = ''sr_mailbox'', ForceHTTPSExemptPaths = [''/healthz'', ''/.well-known/'']\<rparr>"

lemma demo_config_loads: "Load demo_environment = Inr demo_config"
  by code_simp

definition demo_key :: gostring where
  "demo_key = ''7c'' @ concat (replicate 31 ''73'')"

definition demo_create :: createBody where
  "demo_create = \<lparr>BIdentifier = Identifier demo_crypto (CHR 0x7C # replicate 31 (CHR ''s'')), BPublicKey = demo_key,
     BDomainAge = False, BDomainBlocklist = False, BBrokenLinks = True\<rparr>"

definition demo_web_env :: "json_text web_env" where
  "demo_web_env = \<lparr>config = demo_config, trustedProxy = [], seeds = None, iptMailer = None, inbound = demo_inbound, analyzer = demo_analyzer,
     map_order = id, probe_links = (\<lambda>ls. info ''links'' 0), decode_create = (\<lambda>s. if s = [] then None else Some demo_create),
     decode_flags = Map.empty, decode_recheck = Map.empty,
     decode_persist = (\<lambda>s. Some \<lparr>BPayloadEnc = s, BChecks = []\<rparr>), decode_reanalyze = Map.empty, decode_simulate = Map.empty, decode_providers = Map.empty,
     public_url = Map.empty, parse_referer = Map.empty, marshal_object = (\<lambda>ms. ''{'' @ concat (map fst ms) @ ''}''), marshal_test = (\<lambda>t. TestStatus t), marshal_stats = (\<lambda>s. show_int (TotalReports s)),
     api_texts = (\<lambda>k xs. (k, k)), pages = (\<lambda>r w. plain_page ''page'')\<rparr>"

definition demo_run :: "nat \<Rightarrow> json_text web_run" where
  "demo_run k = \<lparr>t_minute = 6, t_burst = 6, t_limit = 6, t_ip = 6, t_global = 6, t_check = 6, t_touch = 6, t_create = 6, t_cookie = 6, t_message = 6,
     t_retry = 6, t_test = 6, rnd_bytes = (\<lambda>i n. Some (replicate n (char_of (k + i)))), rnd_pick = (\<lambda>i n. 0), gap_mailbox = 0, gap_test = 0, stream_ticks = []\<rparr>"

definition demo_request :: "gostring \<Rightarrow> gostring \<Rightarrow> gostring \<Rightarrow> request" where
  "demo_request method path body = \<lparr>Method = method, URLPath = path, EscapedPath = path, RawQuery = [], Query = (\<lambda>k. []), FormValue = (\<lambda>k. []),
     Host = ''t.example'', RemoteAddr = ''192.0.2.9:4711'', HasTLS = True,
     Header = (\<lambda>k. if k = ''Content-Type'' then ''application/json'' else []), Cookie = (\<lambda>k. None), ReqBody = body, LangOverride = None\<rparr>"

definition demo_web :: "json_text web" where
  "demo_web = new_web demo_config (demo_world\<lparr>st := migrate 0 empty_db\<rparr>)"

definition demo_web_keyed :: "json_text web" where
  "demo_web_keyed = snd (Handler demo_web_env (demo_run 0) (demo_request ''POST'' ''/api/mailboxes'' ''{}'') demo_web)"

lemma demo_web_keyed_box:
  "case GetMailboxByAddress ''onsw4zdfojzgk4dp@t.example'' (database demo_web_keyed) of
     Inr mb \<Rightarrow> hex_decode (PublicKey mb) = Some (CHR 0x7C # replicate 31 (CHR ''s'')) \<and> PublicKey mb \<noteq> [] \<and> 6 \<le> ExpiresAt mb
       \<and> Token mb = ''onsw4zdfojzgk4dp'' | Inl e \<Rightarrow> False"
  by code_simp

end
