(* ===== verification/Web_Safety.thy ===== *)
theory Web_Safety
  imports Web
begin

text \<open>
  What holds of every request the web server serves. The locale \<open>route_property\<close> is the interface between the routes and the
  middleware around them: a relation between the states before and after that every route keeps is kept by the inner handlers,
  and by the whole \<open>Handler\<close> when the limiters and counters of the middleware keep it too (\<open>handler_property\<close>).
\<close>

subsection \<open>Relations that every handler keeps\<close>

lemma database_simps [simp]:
  "database (set_db d w) = d" "webLimiter (set_db d w) = webLimiter w" "burstLimiter (set_db d w) = burstLimiter w"
  "iptLimiter (set_db d w) = iptLimiter w" "payloadLimiter (set_db d w) = payloadLimiter w" "iptHealth (set_db d w) = iptHealth w"
  "database (IncMailboxesCreated w) = database w" "database (IncWebRateLimited w) = database w" "database (IncHTTPRequests w) = database w"
  "webLimiter (IncMailboxesCreated w) = webLimiter w" "webLimiter (IncWebRateLimited w) = webLimiter w" "webLimiter (IncHTTPRequests w) = webLimiter w"
  by (simp_all add: set_db_def IncMailboxesCreated_def IncWebRateLimited_def IncHTTPRequests_def)

lemma web_gate_db [simp]: "database (snd (web_gate run ip w)) = database w"
  by (simp add: web_gate_def Let_def split: prod.splits)

lemma payload_gate_frame [simp]:
  "database (snd (payload_gate env run r k w)) = database w" "webLimiter (snd (payload_gate env run r k w)) = webLimiter w"
  by (simp_all add: payload_gate_def split: option.splits prod.splits)

locale route_property =
  fixes Q :: "'j web \<Rightarrow> 'j web \<Rightarrow> bool"
  assumes Q_refl: "Q w w"
begin

definition keeps :: "'j handler \<Rightarrow> bool" where
  "keeps h \<longleftrightarrow> (\<forall>r w. Q w (snd (h r w)))"

lemma keepsI: "(\<And>r w. Q w (snd (h r w))) \<Longrightarrow> keeps h"
  by (simp add: keeps_def)

lemma keeps_read: "keeps (\<lambda>r w. (f r w, w))"
  by (simp add: keeps_def Q_refl)

lemma mux_keeps:
  assumes "\<forall>(p, h)\<in>set (routes env run). keeps h"
  shows "keeps (mux env run)"
proof (rule keepsI)
  fix r :: request and w
  let ?hits = "sort_key (\<lambda>(p, h). - int (length p)) (filter (\<lambda>(p, h). pattern_fits (URLPath r) p) (routes env run))"
  show "Q w (snd (mux env run r w))"
  proof (cases ?hits)
    case (Cons x xs)
    obtain p h where x: "x = (p, h)" by (cases x)
    have "x \<in> set ?hits" using Cons by simp
    then have "keeps h" using assms x by auto
    with Cons x show ?thesis by (simp add: mux_def keeps_def Q_refl)
  qed (simp add: mux_def Q_refl)
qed

lemma lang_keeps: "keeps h \<Longrightarrow> keeps (withLangPrefix h)"
  by (auto simp: keeps_def withLangPrefix_def split: option.splits prod.splits) (metis snd_conv)+

lemma https_keeps: "keeps h \<Longrightarrow> keeps (withHTTPSRedirect env h)"
  by (auto simp: keeps_def withHTTPSRedirect_def Let_def Q_refl split: prod.splits)

end

locale handler_property = route_property +
  assumes Q_trans: "Q w w1 \<Longrightarrow> Q w1 w2 \<Longrightarrow> Q w w2"
    and Q_gate: "Q w (snd (web_gate run ip w))"
    and Q_counters: "Q w (IncWebRateLimited w)" "Q w (IncHTTPRequests w)"
begin

lemma rate_keeps: "keeps h \<Longrightarrow> keeps (withRateLimit env run h)"
proof (rule keepsI)
  fix r :: request and w
  assume h: "keeps h"
  obtain ok w1 where g: "web_gate run (client env r) w = (ok, w1)" by fastforce
  have "Q w w1" using Q_gate [of w run "client env r"] g by simp
  with g h show "Q w (snd (withRateLimit env run h r w))"
    by (auto simp: withRateLimit_def keeps_def intro: Q_trans Q_counters)
qed

lemma Handler_keeps:
  assumes "\<forall>(p, h)\<in>set (routes env run). keeps h"
  shows "Q w (snd (Handler env run r w))"
proof -
  have "keeps (withRateLimit env run (withHTTPSRedirect env (withLangPrefix (mux env run))))"
    by (intro rate_keeps https_keeps lang_keeps mux_keeps assms)
  then have "Q (IncHTTPRequests w) (snd (withRateLimit env run (withHTTPSRedirect env (withLangPrefix (mux env run))) r (IncHTTPRequests w)))"
    by (simp add: keeps_def)
  then show ?thesis
    by (simp add: Handler_def withLogging_def withSecurityHeaders_def split: prod.splits) (metis Q_counters(2) Q_trans snd_conv)
qed

end

subsection \<open>Every handler acts on the store through its operations\<close>

text \<open>
  The store operations a web request may cause, with what it may write: a mailbox without a key or with a key whose identifier is the token,
  flags and times of mailboxes, a new ciphertext, and a score with the reduced list of checks it was computed
  from. No request writes a message or a report row. \<open>cr\<close> says whether mailboxes may be created.
\<close>

definition key_ok :: "'j web_env \<Rightarrow> gostring \<Rightarrow> gostring \<Rightarrow> bool" where
  "key_ok env token k \<longleftrightarrow> (\<exists>pub. hex_decode k = Some pub \<and> length pub = 32 \<and> token = Identifier (box (inbound env)) pub)"

fun web_op :: "bool \<Rightarrow> 'j web_env \<Rightarrow> 'j store_op \<Rightarrow> bool" where
  "web_op cr env (OpCreateMailbox t a k ip ttl n g) \<longleftrightarrow> cr \<and> (k = [] \<or> key_ok env t k)"
| "web_op cr env (OpUpdateMailboxChecks t x y z) \<longleftrightarrow> True"
| "web_op cr env (OpTouchMailbox i n) \<longleftrightarrow> True"
| "web_op cr env (OpUpdateMessagePayloadEnc i p) \<longleftrightarrow> p \<noteq> []"
| "web_op cr env (OpUpdateReportScoreChecks i s l j) \<longleftrightarrow>
     (\<exists>cs. j = marshal_checks (jsons (inbound env)) (map stripped_check cs) \<and> ComputeScore cs = (s, l))"
| "web_op cr env (OpDeleteMailboxByToken t) \<longleftrightarrow> True"
| "web_op cr env (OpCreatePlacementTest i t ss ex n g) \<longleftrightarrow> True"
| "web_op cr env (OpSaveMessage m n g) \<longleftrightarrow> False"
| "web_op cr env (OpSaveReport r n g) \<longleftrightarrow> False"
| "web_op cr env (OpCleanup n d) \<longleftrightarrow> False"
| "web_op cr env (OpUpdatePlacementTestResult t rs s) \<longleftrightarrow> False"

lemma web_op_weaken: "web_op cr env c \<Longrightarrow> web_op True env c"
  by (cases c) auto

definition by_store_ops :: "bool \<Rightarrow> 'j web_env \<Rightarrow> 'j web \<Rightarrow> 'j web \<Rightarrow> bool" where
  "by_store_ops cr env w w' \<longleftrightarrow>
     (\<exists>ops. list_all (web_op cr env) ops \<and> database w' = fold (apply_op (jsons (inbound env))) ops (database w))"

lemma by_no_op: "database w' = database w \<Longrightarrow> by_store_ops cr env w w'"
  unfolding by_store_ops_def by (intro exI [of _ "[]"]) simp

lemma by_op: "web_op cr env c \<Longrightarrow> database w' = apply_op (jsons (inbound env)) c (database w) \<Longrightarrow> by_store_ops cr env w w'"
  unfolding by_store_ops_def by (intro exI [of _ "[c]"]) simp

lemma by_ops_trans:
  assumes "by_store_ops cr env w w1" "by_store_ops cr env w1 w2"
  shows "by_store_ops cr env w w2"
proof -
  from assms obtain xs ys where "list_all (web_op cr env) xs" "database w1 = fold (apply_op (jsons (inbound env))) xs (database w)"
    "list_all (web_op cr env) ys" "database w2 = fold (apply_op (jsons (inbound env))) ys (database w1)"
    by (auto simp: by_store_ops_def)
  then show ?thesis unfolding by_store_ops_def by (intro exI [of _ "xs @ ys"]) simp
qed

lemma by_ops_cong: "database w = database v \<Longrightarrow> database w' = database v' \<Longrightarrow> by_store_ops cr env w w' = by_store_ops cr env v v'"
  by (simp add: by_store_ops_def)

interpretation store_ops: handler_property "by_store_ops cr env"
  by unfold_locales (auto intro: by_no_op by_ops_trans)

lemma create_keyed_ops:
  assumes "key_ok env (BIdentifier b) (BPublicKey b)"
  shows "by_store_ops True env w (snd (create_keyed env run r b ip a w))"
proof -
  obtain x d where c: "CreateMailbox (BIdentifier b) a (BPublicKey b) ip (MailboxTTL (config env)) (t_create run) (gap_mailbox run) (database w) = (x, d)"
    by fastforce
  have one: "by_store_ops True env w (set_db d w)"
    using assms
    by (intro by_op [of True env "OpCreateMailbox (BIdentifier b) a (BPublicKey b) ip (MailboxTTL (config env)) (t_create run) (gap_mailbox run)"])
      (simp_all add: c)
  have two: "by_store_ops True env (set_db d w) (set_db (snd (UpdateMailboxChecks t x1 x2 x3 d)) w)" for t x1 x2 x3
    by (rule by_op [of _ _ "OpUpdateMailboxChecks t x1 x2 x3"]) simp_all
  have inc: "by_store_ops True env w (IncMailboxesCreated v) = by_store_ops True env w v" for v by (simp add: by_store_ops_def)
  show ?thesis
    using c one by (cases x) (auto simp: create_keyed_def Let_def inc intro: by_ops_trans [OF one two])
qed

lemma touch_op: "by_store_ops cr env w (set_db (TouchMailbox i t (database w)) w)"
  by (rule by_op [of _ _ "OpTouchMailbox i t"]) simp_all

lemma flags_op: "by_store_ops cr env w (set_db (snd (UpdateMailboxChecks t x y z (database w))) w)"
  by (rule by_op [of _ _ "OpUpdateMailboxChecks t x y z"]) simp_all

lemma delete_op: "by_store_ops cr env w (set_db (snd (DeleteMailboxByToken t (database w))) w)"
  by (rule by_op [of _ _ "OpDeleteMailboxByToken t"]) simp_all

lemma payload_op: "p \<noteq> [] \<Longrightarrow> by_store_ops cr env w (set_db (snd (UpdateMessagePayloadEnc i p (database w))) w)"
  by (rule by_op [of _ _ "OpUpdateMessagePayloadEnc i p"]) simp_all

lemma score_op: "ComputeScore cs = (s, l) \<Longrightarrow> j = marshal_checks (jsons (inbound env)) (map stripped_check cs) \<Longrightarrow>
    by_store_ops cr env w (set_db (snd (UpdateReportScoreChecks i s l j (database w))) w)"
  by (rule by_op [of _ _ "OpUpdateReportScoreChecks i s l j"]) auto

lemma create_sealed_ops: "by_store_ops True env w (snd (create_sealed env run r b ip domain w))"
proof -
  have del: "key_ok env (BIdentifier b) (BPublicKey b) \<Longrightarrow>
      by_store_ops True env w (snd (create_keyed env run r b ip a (set_db (snd (DeleteMailboxByToken t (database w))) w)))" for a t
    by (rule by_ops_trans [OF delete_op create_keyed_ops])
  have key: "hex_decode (BPublicKey b) = Some pub \<Longrightarrow> length pub = 32 \<Longrightarrow> Identifier (box (inbound env)) pub = BIdentifier b \<Longrightarrow>
      key_ok env (BIdentifier b) (BPublicKey b)" for pub
    by (auto simp: key_ok_def)
  show ?thesis
    by (auto simp: create_sealed_def Let_def intro: by_no_op create_keyed_ops del touch_op key split: option.splits sum.splits)
qed

lemma create_plain_ops: "by_store_ops True env w (snd (create_plain env run ip domain reply w))"
proof -
  have one: "by_store_ops True env w (set_db (snd (CreateMailbox t a [] ip ttl n g (database w))) w)" for t a ttl n g
    by (rule by_op [of _ _ "OpCreateMailbox t a [] ip ttl n g"]) simp_all
  have inc: "by_store_ops True env w (IncMailboxesCreated v) = by_store_ops True env w v" for v by (simp add: by_store_ops_def)
  show ?thesis
    by (auto simp: create_plain_def inc intro: by_no_op split: option.splits prod.splits sum.splits) (metis one snd_conv)+
qed

lemma createMailbox_ops: "by_store_ops True env w (snd (createMailbox env run r w))"
  by (auto simp: createMailbox_def Let_def intro: by_no_op create_sealed_ops create_plain_ops split: option.splits)

lemma mailboxPage_ops: "by_store_ops cr env w (snd (mailboxPage env run r w))"
  by (auto simp: mailboxPage_def Let_def intro: by_no_op touch_op split: sum.splits)

lemma payload_gateD: "payload_gate env run r k w = (ok, w1) \<Longrightarrow> database w1 = database w"
  by (metis payload_gate_frame(1) snd_conv)

lemma payloadAPI_ops: "by_store_ops cr env w (snd (payloadAPI env run r w))"
  by (auto simp: payloadAPI_def dest: payload_gateD intro: by_no_op split: prod.splits)

lemma engine_recheck_db [simp]: "database (snd (engine_recheck env i inp w)) = database w"
  by (auto simp: engine_recheck_def split: option.splits)

lemma engine_analyze_db [simp]: "database (snd (engine_analyze env inp w)) = database w"
  by (auto simp: engine_analyze_def split: prod.splits)

lemma activate_check_op: "by_store_ops cr env w (set_db (activate_check i mb (database w)) w)"
  by (auto simp: activate_check_def intro: flags_op by_no_op)

lemma recheckAPI_ops: "by_store_ops cr env w (snd (recheckAPI env run r w))"
proof -
  obtain ok w1 where g: "payload_gate env run r ''recheck:'' w = (ok, w1)" by fastforce
  then have db: "database w1 = database w" by (rule payload_gateD)
  have "by_store_ops cr env w (snd (engine_recheck env i inp (set_db (activate_check i mb (database w)) w1)))" for i inp mb
    using activate_check_op [of cr env w i mb] by (simp add: by_store_ops_def)
  with g db show ?thesis
    by (auto simp: recheckAPI_def intro: by_no_op split: list.splits sum.splits option.splits)
qed

lemma simulateRecheckAPI_ops: "by_store_ops cr env w (snd (simulateRecheckAPI env run r w))"
proof -
  obtain ok w1 where g: "payload_gate env run r ''recheck:'' w = (ok, w1)" by fastforce
  then have db: "database w1 = database w" by (rule payload_gateD)
  with g show ?thesis
    by (intro by_no_op) (simp add: simulateRecheckAPI_def Let_def split: sum.split option.split prod.split)
qed

lemma simulateAPI_ops: "by_store_ops cr env w (snd (simulateAPI env run r w))"
proof -
  obtain ok w1 where g: "payload_gate env run r ''simulate:'' w = (ok, w1)" by fastforce
  then have db: "database w1 = database w" by (rule payload_gateD)
  have "database w2 = database w1" if "engine_analyze env inp w1 = (rep, w2)" for inp rep w2
    using engine_analyze_db [of env inp w1] that by simp
  with g db show ?thesis
    by (intro by_no_op) (auto simp: simulateAPI_def split: sum.split option.split prod.split)
qed

lemma reanalyzeAPI_ops: "by_store_ops cr env w (snd (reanalyzeAPI env run r w))"
proof -
  obtain ok w1 where g: "payload_gate env run r ''recheck:'' w = (ok, w1)" by fastforce
  then have "database w1 = database w" by (rule payload_gateD)
  with g show ?thesis
    by (intro by_no_op) (simp add: reanalyzeAPI_def case_prod_beta split: list.split sum.split option.split)
qed

text \<open>The branches of \<open>recheckPersistAPI\<close>: a refused request leaves the store alone, an accepted one names a sealed message of the mailbox.\<close>

lemma response_codes [simp]: "StatusCode (json_error c x) = c" "StatusCode (jsonResp c y) = c" "StatusCode (http_error c z) = c"
  by (simp_all add: json_error_def jsonResp_def http_error_def)

definition persisted :: "'j web_env \<Rightarrow> Message \<Rightarrow> persistBody \<Rightarrow> 'j db \<Rightarrow> 'j db" where
  "persisted env msg b d =
     (case ComputeScore (BChecks b) of (score, label) \<Rightarrow>
        snd (UpdateReportScoreChecks (MessageRowID msg) score label (marshal_checks (jsons (inbound env)) (map stripped_check (BChecks b)))
          (snd (UpdateMessagePayloadEnc (MessageRowID msg) (BPayloadEnc b) d))))"

definition persist_ok :: "'j web_env \<Rightarrow> request \<Rightarrow> persistBody \<Rightarrow> bool" where
  "persist_ok env r b \<longleftrightarrow> decode_persist env (take (4 * 1024 * 1024) (ReqBody r)) = Some b \<and> BChecks b \<noteq> []
     \<and> (\<exists>blob. base64url_decode (BPayloadEnc b) = Some blob \<and> 4 \<le> length blob \<and> take 4 blob = ''MPE1'')"

lemma persist_update_cases:
  "(database (snd (persist_update env r msg w)) = database w \<and> StatusCode (fst (persist_update env r msg w)) \<noteq> 200)
   \<or> (\<exists>b. persist_ok env r b
        \<and> (database (snd (persist_update env r msg w)) = persisted env msg b (database w)
           \<or> (database (snd (persist_update env r msg w)) = snd (UpdateMessagePayloadEnc (MessageRowID msg) (BPayloadEnc b) (database w))
              \<and> StatusCode (fst (persist_update env r msg w)) = 500)))"
  by (auto simp: persist_update_def persist_ok_def persisted_def Let_def not_less split: option.split prod.split sum.split)

lemma recheckPersistAPI_cases:
  "(database (snd (recheckPersistAPI env run r w)) = database w \<and> StatusCode (fst (recheckPersistAPI env run r w)) \<noteq> 200)
   \<or> (\<exists>token mb msg w1. GetMailboxByToken token (database w) = Inr mb \<and> Encrypted msg
        \<and> msg \<in> set (ListMessagesByMailbox (MailboxRowID mb) 500 (database w))
        \<and> split2 (trim_prefix (URLPath r) ''/api/recheck-persist/'') = [token, messageReference env token (MessageRowID msg)]
        \<and> database w1 = database w \<and> recheckPersistAPI env run r w = persist_update env r msg w1)"
proof -
  obtain ok w1 where g: "payload_gate env run r ''recheck:'' w = (ok, w1)" by fastforce
  have db: "database w1 = database w" using g by (rule payload_gateD)
  have sel: "select_message env t ms mr = Some m \<Longrightarrow> m \<in> set ms \<and> messageReference env t (MessageRowID m) = mr" for t ms mr m
    by (auto simp: select_message_def dest: find_Some_set)
  show ?thesis
    using g db by (auto simp: recheckPersistAPI_def split: list.split sum.split option.split dest!: sel)
qed

lemma persist_update_ops: "by_store_ops cr env w (snd (persist_update env r msg w))"
proof -
  have pay: "persist_ok env r b \<Longrightarrow> by_store_ops cr env w (set_db (snd (UpdateMessagePayloadEnc (MessageRowID msg) (BPayloadEnc b) (database w))) w)" for b
    by (intro payload_op) (auto simp: persist_ok_def base64url_decode_def)
  have "persist_ok env r b \<Longrightarrow> by_store_ops cr env w (set_db (persisted env msg b (database w)) w)" for b
  proof -
    assume ok: "persist_ok env r b"
    obtain s l where sc: "ComputeScore (BChecks b) = (s, l)" by fastforce
    let ?d = "snd (UpdateMessagePayloadEnc (MessageRowID msg) (BPayloadEnc b) (database w))"
    have "by_store_ops cr env (set_db ?d w) (set_db (snd (UpdateReportScoreChecks (MessageRowID msg) s l
        (marshal_checks (jsons (inbound env)) (map stripped_check (BChecks b))) (database (set_db ?d w)))) (set_db ?d w))"
      by (rule score_op [OF sc]) simp
    from by_ops_trans [OF pay [OF ok] this] sc show ?thesis by (simp add: persisted_def by_store_ops_def)
  qed
  with pay show ?thesis
    using persist_update_cases [of env r msg w] by (auto simp: by_store_ops_def intro: exI [of _ "[]"])
qed

lemma recheckPersistAPI_ops: "by_store_ops cr env w (snd (recheckPersistAPI env run r w))"
  using recheckPersistAPI_cases [of env run r w]
proof (elim disjE exE conjE)
  fix token mb msg w1
  assume "database w1 = database w" "recheckPersistAPI env run r w = persist_update env r msg w1"
  with persist_update_ops [of cr env w1 r msg] show ?thesis by (simp add: by_store_ops_def)
qed (simp add: by_no_op)

lemma start_test_ops: "by_store_ops cr env w (snd (start_test env run r mb ps un w))"
proof -
  have one: "by_store_ops cr env w (set_db (snd (CreatePlacementTest (jsons (inbound env)) i t ss ex n g (database w))) w)" for i t ss ex n g
    by (rule by_op [of _ _ "OpCreatePlacementTest i t ss ex n g"]) simp_all
  show ?thesis
    by (auto simp: start_test_def Let_def intro: by_no_op split: option.splits prod.splits sum.splits) (metis one snd_conv)+
qed

lemma iptStartAPI_ops: "by_store_ops cr env w (snd (iptStartAPI env run t r w))"
proof -
  have "by_store_ops cr env w (snd (start_test env run r mb ps un (w\<lparr>iptLimiter := l\<rparr>)))" for mb ps un l
    using start_test_ops [of cr env "w\<lparr>iptLimiter := l\<rparr>" run r mb ps un] by (simp add: by_store_ops_def)
  then show ?thesis
    by (auto simp: iptStartAPI_def Let_def intro: by_no_op split: option.splits prod.splits sum.splits)
qed

lemma mailboxAPI_ops: "by_store_ops cr env w (snd (mailboxAPI env run r w))"
proof -
  have chk: "by_store_ops cr env w (set_db (snd (UpdateMailboxChecks t x1 x2 x3 (database w))) w)" for t x1 x2 x3 by (rule flags_op)
  have del: "by_store_ops cr env w (set_db (snd (DeleteMailboxByToken t (database w))) w)" for t by (rule delete_op)
  have "by_store_ops cr env w (snd (mailbox_checks env t r w))" for t
    by (auto simp: mailbox_checks_def intro: by_no_op split: option.splits prod.splits sum.splits) (metis chk snd_conv)+
  moreover have "by_store_ops cr env w (snd (mailbox_delete t w))" for t
    by (auto simp: mailbox_delete_def split: prod.splits sum.splits) (metis del snd_conv)+
  ultimately show ?thesis
    by (simp add: mailboxAPI_def store_ops.Q_refl iptStartAPI_ops split: list.split)
qed

text \<open>Only the route that creates mailboxes uses the operation that does.\<close>

lemma routes_store_ops: "\<forall>(p, h)\<in>set (routes env run). store_ops.keeps (p = ''/api/mailboxes'') env h"
  by (simp add: routes_def store_ops.keeps_read store_ops.keeps_def createMailbox_ops mailboxAPI_ops payloadAPI_ops recheckAPI_ops
      recheckPersistAPI_ops reanalyzeAPI_ops simulateAPI_ops simulateRecheckAPI_ops mailboxPage_ops store_ops.Q_refl)

lemma Handler_store_ops: "by_store_ops True env w (snd (Handler env run r w))"
proof (rule store_ops.Handler_keeps)
  have "by_store_ops cr env w w' \<Longrightarrow> by_store_ops True env w w'" for cr and w w' :: "'a web"
    unfolding by_store_ops_def by (auto simp: list_all_iff dest: web_op_weaken)
  then have "store_ops.keeps cr env h \<Longrightarrow> store_ops.keeps True env h" for cr and h :: "'a handler"
    unfolding store_ops.keeps_def by blast
  with routes_store_ops show "\<forall>(p, h)\<in>set (routes env run). store_ops.keeps True env h" by fastforce
qed

lemma Handler_inv: "store_inv (database w) \<Longrightarrow> store_inv (database (snd (Handler env run r w)))"
  using Handler_store_ops [of env w run r] by (auto simp: by_store_ops_def intro: store_inv_fold)

subsection \<open>Properties\<close>

text \<open>
  C4: The whole web interface refines the store: whatever the request, the database after \<open>Handler\<close> is the one before with a sequence of store
  operations applied, and only of the operations that \<open>web_op\<close> lists, so a request never writes a message or a report row, never
  sweeps, and never gives a mailbox a key that its token is not derived from.
\<close>

theorem requests_refine_store:
  "\<exists>ops. list_all (web_op True env) ops \<and> database (snd (Handler env run r w)) = fold (apply_op (jsons (inbound env))) ops (database w)"
  using Handler_store_ops [of env w run r] by (simp add: by_store_ops_def)

text \<open>
  C25: With \<open>FORCE_HTTPS\<close>, a request over plain HTTP for a path that is not exempt has no effect on the stored data and gets no content: the answer
  is the redirect to the same path and query over HTTPS, or the refusal for a missing host name or for too many requests.
\<close>

theorem plain_http_is_redirected:
  assumes "ForceHTTPS (config env)" "requestScheme (config env) (trustedProxy env) r \<noteq> ''https''" "\<not> httpsExempt (config env) (URLPath r)"
  shows "database (snd (Handler env run r w)) = database w
    \<and> (StatusCode (fst (Handler env run r w)) \<in> {400, 429}
       \<or> StatusCode (fst (Handler env run r w)) = 308
         \<and> (''Location'', ''https://'' @ httpsRedirectHost (public_url env) (config env) (trustedProxy env) r @ EscapedPath r
              @ (if RawQuery r = [] then [] else CHR ''?'' # RawQuery r)) \<in> set (RespHeaders (fst (Handler env run r w))))"
  using assms
  by (simp add: Handler_def withLogging_def withSecurityHeaders_def withRateLimit_def withHTTPSRedirect_def redirect_def case_prod_beta Let_def)

theorem plain_http_is_redirected_witness:
  "database (snd (Handler (demo_web_env\<lparr>config := demo_config\<lparr>ForceHTTPS := True\<rparr>\<rparr>) (demo_run 0)
      ((demo_request ''POST'' ''/api/mailboxes'' ''{}'')\<lparr>HasTLS := False\<rparr>) demo_web)) = database demo_web"
proof -
  let ?env = "demo_web_env\<lparr>config := demo_config\<lparr>ForceHTTPS := True\<rparr>\<rparr>" and ?r = "(demo_request ''POST'' ''/api/mailboxes'' ''{}'')\<lparr>HasTLS := False\<rparr>"
  have "requestScheme (config ?env) (trustedProxy ?env) ?r \<noteq> ''https''" "\<not> httpsExempt (config ?env) (URLPath ?r)" by code_simp+
  from plain_http_is_redirected [OF _ this] show ?thesis by simp
qed

text \<open>The draws of \<open>generateMailboxAddress\<close>.\<close>

definition drawn_address :: "'j web_run \<Rightarrow> gostring \<Rightarrow> nat \<Rightarrow> gostring \<times> gostring" where
  "drawn_address run domain i =
     (let tok = the (randomToken run i 6); dn = cleanDomain domain
      in (tok, tok @ ''@'' @ (if dn = [] then ''sender-report.local'' else dn)))"

text \<open>
  When the random source works, \<open>generateMailboxAddress\<close> gives the first of its eight draws whose address is free, and fails exactly when
  all eight are taken. An address it gives is in use by no mailbox, in upper or lower case.
\<close>

theorem generateMailboxAddress_first_free:
  assumes "\<And>i. rnd_bytes run i 6 \<noteq> None"
  shows "generateMailboxAddress run domain d = map_option (drawn_address run domain)
    (find (\<lambda>i. \<forall>mb\<in>set (mailboxes d). to_lower (Address mb) \<noteq> to_lower (snd (drawn_address run domain i))) [0..<8])"
proof -
  define dn where "dn = (if cleanDomain domain = [] then ''sender-report.local'' else cleanDomain domain)"
  have drawn: "drawn_address run domain i = (the (randomToken run i 6), the (randomToken run i 6) @ ''@'' @ dn)" for i
    by (simp add: drawn_address_def dn_def Let_def)
  have free: "GetMailboxByAddress a d = Inl ErrNotFound \<longleftrightarrow> (\<forall>mb\<in>set (mailboxes d). to_lower (Address mb) \<noteq> to_lower a)" for a
    by (auto simp: GetMailboxByAddress_def scanRow_def find_None_iff split: option.split dest!: find_Some_set)
  have "try_addresses run dn d i k = map_option (drawn_address run domain)
      (find (\<lambda>i. \<forall>mb\<in>set (mailboxes d). to_lower (Address mb) \<noteq> to_lower (snd (drawn_address run domain i))) [i..<i + k])" for i k
  proof (induction k arbitrary: i)
    case (Suc k)
    obtain tok where tok: "randomToken run i 6 = Some tok" using assms [of i] by (auto simp: randomToken_def)
    have "[i..<i + Suc k] = i # [Suc i..<Suc i + k]" by (simp add: upt_conv_Cons)
    with Suc [of "Suc i"] tok free [of "tok @ ''@'' @ dn"] show ?case
      by (cases "GetMailboxByAddress (tok @ ''@'' @ dn) d") (auto simp: drawn dest: GetMailboxByAddress_error)
  qed simp
  from this [of 0 8] show ?thesis by (simp add: generateMailboxAddress_def dn_def Let_def)
qed

theorem generateMailboxAddress_first_free_witness:
  "generateMailboxAddress (demo_run 0) ''t.example'' demo_db = map_option (drawn_address (demo_run 0) ''t.example'')
    (find (\<lambda>i. \<forall>mb\<in>set (mailboxes demo_db). to_lower (Address mb) \<noteq> to_lower (snd (drawn_address (demo_run 0) ''t.example'' i))) [0..<8])"
  by (rule generateMailboxAddress_first_free) (simp add: demo_run_def)

end
