(* ===== verification/Web_Limits.thy ===== *)
theory Web_Limits
  imports Web_Safety
begin

text \<open>
  What the limits of the configuration guarantee over the web: the two rate limiters of the middleware bound what a peer gets through, and the caps on
  active mailboxes hold after every request. Both are relations that all routes keep, so they are interpretations of \<open>route_property\<close> and \<open>handler_property\<close>.
\<close>

subsection \<open>The inner handlers leave the two limiters of the middleware alone\<close>

definition limiters_kept :: "'j web \<Rightarrow> 'j web \<Rightarrow> bool" where
  "limiters_kept w w' \<longleftrightarrow> webLimiter w' = webLimiter w \<and> burstLimiter w' = burstLimiter w"

interpretation kept_limiters: route_property limiters_kept
  by unfold_locales (simp add: limiters_kept_def)

lemma limiters_counters [simp]:
  "burstLimiter (IncMailboxesCreated w) = burstLimiter w" "burstLimiter (IncWebRateLimited w) = burstLimiter w"
  "burstLimiter (IncHTTPRequests w) = burstLimiter w"
  by (simp_all add: IncMailboxesCreated_def IncWebRateLimited_def IncHTTPRequests_def)

lemma payload_gate_limiters [simp]:
  "burstLimiter (snd (payload_gate env run r k w)) = burstLimiter w"
  by (simp add: payload_gate_def split: option.splits prod.splits)

lemma payload_gate_keptD: "payload_gate env run r k w = (ok, w1) \<Longrightarrow> webLimiter w1 = webLimiter w \<and> burstLimiter w1 = burstLimiter w"
  by (metis payload_gate_frame(2) payload_gate_limiters snd_conv)

lemma engine_limiters [simp]:
  "webLimiter (snd (engine_recheck env i inp w)) = webLimiter w" "burstLimiter (snd (engine_recheck env i inp w)) = burstLimiter w"
  "webLimiter (snd (engine_analyze env inp' w)) = webLimiter w" "burstLimiter (snd (engine_analyze env inp' w)) = burstLimiter w"
  by (simp_all add: engine_recheck_def engine_analyze_def case_prod_beta split: option.split)

lemma limiters_kept_simps [simp]:
  "limiters_kept w w" "limiters_kept w (set_db d v) = limiters_kept w v" "limiters_kept w (IncMailboxesCreated v) = limiters_kept w v"
  "limiters_kept w (snd (payload_gate env run r k v)) = limiters_kept w v" "limiters_kept w (snd (engine_recheck env i inp v)) = limiters_kept w v"
  "limiters_kept w (snd (engine_analyze env inp' v)) = limiters_kept w v" "limiters_kept w (v\<lparr>iptLimiter := l\<rparr>) = limiters_kept w v" "limiters_kept w (v\<lparr>world := wd\<rparr>) = limiters_kept w v"
  by (simp_all add: limiters_kept_def)

lemma create_limiters: "limiters_kept w (snd (createMailbox env run r w))"
proof -
  have k: "limiters_kept w (snd (create_keyed env run r b ip a v)) = limiters_kept w v" for b ip a and v :: "'a web"
    by (simp add: create_keyed_def case_prod_beta Let_def split: sum.split)
  have p: "limiters_kept w (snd (create_plain env run ip dn reply w))" for ip dn reply
    by (simp add: create_plain_def case_prod_beta split: option.split sum.split)
  have "limiters_kept w (snd (create_sealed env run r b ip dn w))" for b ip dn
    by (simp add: create_sealed_def Let_def k split: option.split sum.split)
  with p show ?thesis by (simp add: createMailbox_def Let_def split: option.split)
qed

lemma api_limiters:
  "limiters_kept w (snd (payloadAPI env run r w))" "limiters_kept w (snd (recheckAPI env run r w))" "limiters_kept w (snd (simulateRecheckAPI env run r w))"
  "limiters_kept w (snd (simulateAPI env run r w))" "limiters_kept w (snd (reanalyzeAPI env run r w))" "limiters_kept w (snd (mailboxPage env run r w))"
  by (simp_all add: payloadAPI_def recheckAPI_def simulateRecheckAPI_def simulateAPI_def reanalyzeAPI_def mailboxPage_def case_prod_beta Let_def
      split: list.split sum.split option.split)

lemma persist_limiters: "limiters_kept w (snd (recheckPersistAPI env run r w))"
proof -
  have "limiters_kept w (snd (persist_update env r msg v)) = limiters_kept w v" for msg and v :: "'a web"
    by (simp add: persist_update_def case_prod_beta Let_def split: sum.split option.split)
  then show ?thesis by (simp add: recheckPersistAPI_def case_prod_beta Let_def split: list.split sum.split option.split)
qed

lemma mailbox_limiters: "limiters_kept w (snd (mailboxAPI env run r w))"
proof -
  have "limiters_kept w (snd (start_test env run r mb ps un v)) = limiters_kept w v" for mb ps un and v :: "'a web"
    by (simp add: start_test_def case_prod_beta Let_def split: sum.split option.split)
  then have "limiters_kept w (snd (iptStartAPI env run t r w))" for t
    by (simp add: iptStartAPI_def case_prod_beta Let_def split: sum.split option.split)
  moreover have "limiters_kept w (snd (mailbox_checks env t r w))" "limiters_kept w (snd (mailbox_delete t w))" for t
    by (simp_all add: mailbox_checks_def mailbox_delete_def case_prod_beta split: sum.split option.split)
  ultimately show ?thesis by (simp add: mailboxAPI_def split: list.split)
qed

lemma routes_keep_limiters: "\<forall>(p, h)\<in>set (routes env run). kept_limiters.keeps h"
  by (simp add: routes_def kept_limiters.keeps_def create_limiters api_limiters persist_limiters mailbox_limiters)

subsection \<open>Requests one after the other\<close>

text \<open>Whether the middleware lets a request through to the handlers.\<close>

definition passes :: "'j web_env \<Rightarrow> 'j web_run \<Rightarrow> request \<Rightarrow> 'j web \<Rightarrow> bool" where
  "passes env run r w = (\<not> rate_exempt (URLPath r) \<and> fst (web_gate run (client env r) w))"

text \<open>The state after a sequence of requests, and those of them that counted against a limit and passed.\<close>

fun serve_requests :: "'j web_env \<Rightarrow> ('j web_run \<times> request) list \<Rightarrow> 'j web \<Rightarrow> 'j web \<times> ('j web_run \<times> request) list" where
  "serve_requests env [] w = (w, [])"
| "serve_requests env ((run, r) # rs) w =
     (case serve_requests env rs (snd (Handler env run r w)) of (w', passed) \<Rightarrow> (w', if passes env run r w then (run, r) # passed else passed))"

lemma inner_keeps: "limiters_kept w (snd (withHTTPSRedirect env (withLangPrefix (mux env run)) r w))"
  using kept_limiters.https_keeps [OF kept_limiters.lang_keeps [OF kept_limiters.mux_keeps [OF routes_keep_limiters]], of env env run]
  by (simp add: kept_limiters.keeps_def)

lemma web_gate_counter: "web_gate run ip (IncHTTPRequests w) = (fst (web_gate run ip w), IncHTTPRequests (snd (web_gate run ip w)))"
  by (simp add: web_gate_def IncHTTPRequests_def case_prod_beta Let_def)

lemma Handler_limiters:
  "limiters_kept (if rate_exempt (URLPath r) then w else snd (web_gate run (client env r) w)) (snd (Handler env run r w))"
proof -
  have "limiters_kept w (IncHTTPRequests v) = limiters_kept w v" "limiters_kept (IncHTTPRequests w) v = limiters_kept w v"
    "limiters_kept w (IncWebRateLimited v) = limiters_kept w v" for w v :: "'a web"
    by (simp_all add: limiters_kept_def)
  with inner_keeps [of "IncHTTPRequests w"] inner_keeps [of "IncHTTPRequests (snd (web_gate run (client env r) w))"] show ?thesis
    by (simp add: Handler_def withLogging_def withSecurityHeaders_def withRateLimit_def web_gate_counter case_prod_beta)
qed

definition minute_call :: "'j web_env \<Rightarrow> 'j web_run \<times> request \<Rightarrow> gostring \<times> time" where
  "minute_call env x = (''web:minute:'' @ client env (snd x), t_minute (fst x))"

definition burst_call :: "'j web_env \<Rightarrow> 'j web_run \<times> request \<Rightarrow> gostring \<times> time" where
  "burst_call env x = (''web:burst:'' @ client env (snd x), t_burst (fst x))"

lemma minute_run:
  "\<exists>adm. run_gate Allow (webLimiter w) (map (minute_call env) (filter (\<lambda>x. \<not> rate_exempt (URLPath (snd x))) rs)) = (webLimiter (fst (serve_requests env rs w)), adm)
     \<and> subseq (map (minute_call env) (snd (serve_requests env rs w))) adm"
proof (induction rs arbitrary: w)
  case (Cons x rs)
  obtain run r where x: "x = (run, r)" by (cases x)
  let ?w = "snd (Handler env run r w)"
  from Cons.IH [of ?w] obtain adm where ih:
    "run_gate Allow (webLimiter ?w) (map (minute_call env) (filter (\<lambda>x. \<not> rate_exempt (URLPath (snd x))) rs)) = (webLimiter (fst (serve_requests env rs ?w)), adm)"
    "subseq (map (minute_call env) (snd (serve_requests env rs ?w))) adm" by blast
  show ?case
  proof (cases "rate_exempt (URLPath r)")
    case True
    with Handler_limiters [of r w run env] ih x show ?thesis
      by (intro exI [of _ adm]) (auto simp: limiters_kept_def passes_def case_prod_beta)
  next
    case False
    then have "webLimiter ?w = snd (Allow (webLimiter w) (''web:minute:'' @ client env r) (t_minute run))"
      using Handler_limiters [of r w run env] by (simp add: limiters_kept_def web_gate_def case_prod_beta Let_def split: if_splits)
    moreover have "passes env run r w \<Longrightarrow> fst (Allow (webLimiter w) (''web:minute:'' @ client env r) (t_minute run))"
      by (auto simp: passes_def web_gate_def case_prod_beta Let_def split: if_splits)
    ultimately show ?thesis using ih x False
      by (intro exI [of _ "if fst (Allow (webLimiter w) (''web:minute:'' @ client env r) (t_minute run)) then minute_call env x # adm else adm"])
        (auto simp: case_prod_beta Let_def minute_call_def [of env "(run, r)"])
  qed
qed simp

lemma burst_run:
  "\<exists>cs. subseq cs (map (burst_call env) rs)
     \<and> run_gate Allow (burstLimiter w) cs = (burstLimiter (fst (serve_requests env rs w)), map (burst_call env) (snd (serve_requests env rs w)))"
proof (induction rs arbitrary: w)
  case (Cons x rs)
  obtain run r where x: "x = (run, r)" by (cases x)
  let ?w = "snd (Handler env run r w)" and ?a = "fst (Allow (webLimiter w) (''web:minute:'' @ client env r) (t_minute run))"
  from Cons.IH [of ?w] obtain cs where ih: "subseq cs (map (burst_call env) rs)"
    "run_gate Allow (burstLimiter ?w) cs = (burstLimiter (fst (serve_requests env rs ?w)), map (burst_call env) (snd (serve_requests env rs ?w)))" by blast
  show ?case
  proof (cases "\<not> rate_exempt (URLPath r) \<and> ?a")
    case False
    then have "burstLimiter ?w = burstLimiter w" "\<not> passes env run r w"
      using Handler_limiters [of r w run env] by (auto simp: limiters_kept_def passes_def web_gate_def case_prod_beta Let_def split: if_splits)
    with ih x show ?thesis by (intro exI [of _ cs]) (auto simp: case_prod_beta)
  next
    case True
    then have "burstLimiter ?w = snd (Allow (burstLimiter w) (''web:burst:'' @ client env r) (t_burst run))"
      "passes env run r w = fst (Allow (burstLimiter w) (''web:burst:'' @ client env r) (t_burst run))"
      using Handler_limiters [of r w run env] by (auto simp: limiters_kept_def passes_def web_gate_def case_prod_beta Let_def)
    with ih x show ?thesis
      by (intro exI [of _ "burst_call env x # cs"]) (auto simp: case_prod_beta Let_def burst_call_def [of env "(run, r)"])
  qed
qed (auto intro: exI [of _ "[]"])

definition from_peer :: "'j web_env \<Rightarrow> gostring \<Rightarrow> ('j web_run \<times> request) list \<Rightarrow> ('j web_run \<times> request) list" where
  "from_peer env ip rs = filter (\<lambda>x. remoteAddrIP (RemoteAddr (snd x)) = ip \<and> \<not> isTrustedProxy (trustedProxy env) ip) rs"

lemma from_peer_times:
  assumes "ip \<noteq> []" "\<And>x. fst (f x) = pre @ client env (snd x)"
  shows "subseq (map (snd \<circ> f) (from_peer env ip xs)) (times_of (pre @ ip) (map f xs))"
proof (induction xs)
  case (Cons y ys)
  have "client env (snd y) = ip" if "remoteAddrIP (RemoteAddr (snd y)) = ip" "\<not> isTrustedProxy (trustedProxy env) ip"
    using that assms(1) by (auto simp: client_def clientIP_def Let_def)
  then have "remoteAddrIP (RemoteAddr (snd y)) = ip \<Longrightarrow> \<not> isTrustedProxy (trustedProxy env) ip \<Longrightarrow> f y = (pre @ ip, snd (f y))"
    using assms(2) [of y] by (simp add: prod_eq_iff)
  with Cons show ?case by (cases "f y") (auto simp: from_peer_def)
qed (simp add: from_peer_def)

lemma times_of_subseq: "subseq xs ys \<Longrightarrow> subseq (times_of k xs) (times_of k ys)"
proof -
  have "times_of k xs = map snd (filter (\<lambda>x. fst x = k) xs)" for xs
    by (induction k xs rule: times_of.induct) auto
  then show "subseq xs ys \<Longrightarrow> subseq (times_of k xs) (times_of k ys)" by (simp add: subseq_map subseq_filter)
qed

lemma sorted_subseq: "subseq xs ys \<Longrightarrow> sorted ys \<Longrightarrow> sorted (xs :: time list)"
  by (induction rule: list_emb.induct) (auto dest: list_emb_set)



subsection \<open>The caps on mailboxes\<close>

definition active :: "(gostring \<Rightarrow> time \<Rightarrow> bool) \<Rightarrow> 'j db \<Rightarrow> nat" where
  "active P d = length (filter (\<lambda>b. P (CreatedIP b) (ExpiresAt b)) (mailboxes d))"

lemma active_update [simp]:
  "(\<And>b. CreatedIP (f b) = CreatedIP b \<and> ExpiresAt (f b) = ExpiresAt b) \<Longrightarrow> active P (d\<lparr>mailboxes := update_rows q f (mailboxes d)\<rparr>) = active P d"
  by (auto simp: active_def update_rows_def filter_map o_def if_distrib cong: if_cong)

lemma active_simps [simp]:
  "active P (snd (UpdateMailboxChecks t x y z d)) = active P d" "active P (TouchMailbox i n d) = active P d"
  by (simp_all add: UpdateMailboxChecks_def TouchMailbox_def)

lemma active_delete: "active P (delete_mailboxes q d) \<le> active P d"
proof -
  have "length (filter p (filter s bs)) \<le> length (filter p bs)" for p s and bs :: "Mailbox list" by (induction bs) auto
  then show ?thesis by (simp add: active_def delete_mailboxes_def Let_def)
qed

lemma active_op: "web_op False env c \<Longrightarrow> active P (apply_op js c d) \<le> active P d"
proof (cases c)
  case (OpDeleteMailboxByToken t)
  then show ?thesis by (simp add: DeleteMailboxByToken_def active_delete)
next
  case (OpCreatePlacementTest i t ss ex n g)
  then show ?thesis by (simp add: active_def CreatePlacementTest_def Let_def)
next
  case (OpUpdateMessagePayloadEnc i p)
  then show ?thesis by (simp add: active_def UpdateMessagePayloadEnc_def)
next
  case (OpUpdateReportScoreChecks i s l j)
  then show ?thesis by (simp add: active_def UpdateReportScoreChecks_def)
qed auto

lemma by_ops_active:
  assumes "by_store_ops False env w w'"
  shows "active P (database w') \<le> active P (database w)"
proof -
  have "list_all (web_op False env) ops \<Longrightarrow> active P (fold (apply_op (jsons (inbound env))) ops d) \<le> active P d" for ops and d :: "'a db"
    by (induction ops arbitrary: d) (auto intro: order_trans active_op)
  with assms show ?thesis by (auto simp: by_store_ops_def)
qed

lemma CreateMailbox_active:
  "active P (snd (CreateMailbox t a k ip ttl n g d)) \<le> active P d + of_bool (P ip (n + ttl))"
  by (simp add: CreateMailbox_def Let_def active_def incrCounter_def)

lemma create_active:
  assumes "\<forall>t. P ip t \<longrightarrow> 1 \<le> (c :: nat)"
  shows "active P (database (snd (create_keyed env run r body ip a w))) \<le> active P (database w) + c"
    and "active P (database (snd (create_plain env run ip dn reply w))) \<le> active P (database w) + c"
proof -
  have one: "active P (snd (CreateMailbox t a k ip ttl n g d)) \<le> active P d + c" for t a k ttl n g and d :: "'a db"
    using CreateMailbox_active [of P t a k ip ttl n g d] assms by (cases "P ip (n + ttl)") auto
  show "active P (database (snd (create_keyed env run r body ip a w))) \<le> active P (database w) + c"
    by (simp add: one create_keyed_def case_prod_beta Let_def split: sum.split)
  show "active P (database (snd (create_plain env run ip dn reply w))) \<le> active P (database w) + c"
    by (simp add: one create_plain_def case_prod_beta split: option.split sum.split)
qed

lemma createMailbox_active:
  assumes "\<forall>t. P (client env r) t \<longrightarrow> 1 \<le> (c :: nat)"
  shows "active P (database (snd (createMailbox env run r w))) \<le> active P (database w) + c"
proof -
  have "active P (database (snd (create_sealed env run r body (client env r) dn w))) \<le> active P (database w) + c" for body dn
  proof -
    have "active P (database (snd (create_keyed env run r body (client env r) a (set_db (snd (DeleteMailboxByToken t (database w))) w)))) 
        \<le> active P (database w) + c" for a t
      using create_active(1) [where P = P and ip = "client env r", OF assms, of env run r body a "set_db (snd (DeleteMailboxByToken t (database w))) w"] active_delete [of P "\<lambda>b. Token b = t" "database w"]
      by (simp add: DeleteMailboxByToken_def)
    then show ?thesis
      by (simp add: create_active(1) [where P = P and ip = "client env r", OF assms] create_sealed_def Let_def split: option.split sum.split)
  qed
  then show ?thesis by (simp add: create_active(2) [where P = P and ip = "client env r", OF assms] createMailbox_def Let_def split: option.split)
qed

lemma active_counts:
  "CountActiveMailboxes t d = active (\<lambda>ip e. t < e) d" "CountActiveMailboxesByIP ip t d = active (\<lambda>i e. i = ip \<and> t < e) d"
  by (simp_all add: active_def CountActiveMailboxes_def CountActiveMailboxesByIP_def)

lemma active_mono: "(\<And>i e. P i e \<Longrightarrow> R i e) \<Longrightarrow> active P d \<le> active R d"
proof -
  assume "\<And>i e. P i e \<Longrightarrow> R i e"
  then have "length (filter (\<lambda>b. P (CreatedIP b) (ExpiresAt b)) bs) \<le> length (filter (\<lambda>b. R (CreatedIP b) (ExpiresAt b)) bs)" for bs
    by (induction bs) auto
  then show ?thesis by (simp add: active_def)
qed

text \<open>A request leaves the number of active mailboxes at or below the cap, or where it was.\<close>

definition caps_kept :: "'j web_env \<Rightarrow> 'j web_run \<Rightarrow> 'j web \<Rightarrow> 'j web \<Rightarrow> bool" where
  "caps_kept env run w w' \<longleftrightarrow>
     (\<forall>t. t_global run \<le> t \<longrightarrow> int (CountActiveMailboxes t (database w')) \<le> max (MaxActiveGlobal (config env)) (int (CountActiveMailboxes t (database w))))
     \<and> (\<forall>ip t. t_ip run \<le> t \<longrightarrow> int (CountActiveMailboxesByIP ip t (database w')) \<le> max (MaxActivePerIP (config env)) (int (CountActiveMailboxesByIP ip t (database w))))"

lemma caps_no_more: "(\<And>P. active P (database w') \<le> active P (database w)) \<Longrightarrow> caps_kept env run w w'"
  by (auto simp: caps_kept_def active_counts intro: max.coboundedI2)

interpretation caps: handler_property "caps_kept env run"
proof
  fix w w1 w2 :: "'a web" assume "caps_kept env run w w1" "caps_kept env run w1 w2"
  then show "caps_kept env run w w2" unfolding caps_kept_def by (fastforce intro: order_trans)
qed (auto intro: caps_no_more)

lemma createMailbox_caps: "caps_kept env run w (snd (createMailbox env run r w))"
proof (cases "database (snd (createMailbox env run r w)) = database w")
  case True
  then show ?thesis by (intro caps_no_more) simp
next
  case False
  let ?d = "database w" and ?e = "database (snd (createMailbox env run r w))"
  have below: "int (CountActiveMailboxesByIP (client env r) (t_ip run) ?d) < MaxActivePerIP (config env)"
    "int (CountActiveMailboxes (t_global run) ?d) < MaxActiveGlobal (config env)"
    using False by (auto simp: createMailbox_def Let_def split: if_splits)
  have all: "active P ?e \<le> active P ?d + 1" for P
    by (rule createMailbox_active) simp
  have other: "active (\<lambda>i e. i = ip \<and> t < e) ?e \<le> active (\<lambda>i e. i = ip \<and> t < e) ?d + 0" if "ip \<noteq> client env r" for ip t
    by (rule createMailbox_active) (use that in auto)
  have later: "active (\<lambda>ip e. t < e) ?d \<le> active (\<lambda>ip e. t_global run < e) ?d" if "t_global run \<le> t" for t
    by (rule active_mono) (use that in auto)
  have later_ip: "active (\<lambda>i e. i = ip \<and> t < e) ?d \<le> active (\<lambda>i e. i = ip \<and> t_ip run < e) ?d" if "t_ip run \<le> t" for ip t
    by (rule active_mono) (use that in auto)
  have "int (active (\<lambda>ip e. t < e) ?e) \<le> MaxActiveGlobal (config env)" if "t_global run \<le> t" for t
    using all [of "\<lambda>ip e. t < e"] later [OF that] below(2) unfolding active_counts by linarith
  moreover have "int (active (\<lambda>i e. i = ip \<and> t < e) ?e) \<le> max (MaxActivePerIP (config env)) (int (active (\<lambda>i e. i = ip \<and> t < e) ?d))"
    if "t_ip run \<le> t" for ip t
  proof (cases "ip = client env r")
    case True
    then show ?thesis using all [of "\<lambda>i e. i = ip \<and> t < e"] later_ip [OF that, of ip] below(1) unfolding active_counts by simp
  qed (use other [of ip t] in simp)
  ultimately show ?thesis unfolding caps_kept_def active_counts by (auto intro: max.coboundedI1)
qed

lemma routes_caps: "\<forall>(p, h)\<in>set (routes env run). caps.keeps env run h"
proof -
  have "\<forall>(p, h)\<in>set (routes env run). p \<noteq> ''/api/mailboxes'' \<longrightarrow> caps.keeps env run h"
    using routes_store_ops [of env run] by (fastforce simp: caps.keeps_def store_ops.keeps_def intro!: caps_no_more by_ops_active)
  moreover have "\<forall>(p, h)\<in>set (routes env run). p = ''/api/mailboxes'' \<longrightarrow> h = createMailbox env run"
    by (simp add: routes_def)
  ultimately show ?thesis by (fastforce simp: caps.keeps_def createMailbox_caps)
qed

text \<open>
  C7: No request can bring the number of active mailboxes above the configured caps. Counted at any time from the check on, the mailboxes of an address
  that still receive are at most \<open>MAX_ACTIVE_MAILBOXES_PER_IP\<close>, or no more than before the request, and likewise all
  mailboxes and \<open>MAX_ACTIVE_MAILBOXES_GLOBAL\<close>.
\<close>

theorem mailbox_caps_kept:
  assumes "t_ip run \<le> t" "t_global run \<le> t"
  shows "int (CountActiveMailboxesByIP ip t (database (snd (Handler env run r w))))
      \<le> max (MaxActivePerIP (config env)) (int (CountActiveMailboxesByIP ip t (database w)))
    \<and> int (CountActiveMailboxes t (database (snd (Handler env run r w))))
      \<le> max (MaxActiveGlobal (config env)) (int (CountActiveMailboxes t (database w)))"
  using caps.Handler_keeps [OF routes_caps [of env run], of w r] assms by (simp add: caps_kept_def)

theorem mailbox_caps_kept_witness:
  "int (CountActiveMailboxesByIP ''192.0.2.9'' 7 (database demo_web_keyed)) \<le> 20"
proof -
  have "max (MaxActivePerIP (config demo_web_env)) (int (CountActiveMailboxesByIP ''192.0.2.9'' 7 (database demo_web))) = 20"
    by (simp add: demo_web_env_def demo_config_def demo_web_def new_web_def CountActiveMailboxesByIP_def migrate_def insert_or_ignore_def empty_db_def Let_def)
  moreover have "t_ip (demo_run 0) \<le> 7" "t_global (demo_run 0) \<le> 7" by (simp_all add: demo_run_def)
  note mailbox_caps_kept [OF this, of "''192.0.2.9''" demo_web_env "demo_request ''POST'' ''/api/mailboxes'' ''{}''" demo_web]
  ultimately show ?thesis unfolding demo_web_keyed_def by simp
qed

end
