(* ===== verification/Web_Views.thy ===== *)
theory Web_Views
  imports Web_Safety "HOL-Library.Multiset"
begin

text \<open>
  What clients see: the API answers about a mailbox from its own rows, the event streams follow the state, and a placement test and its stream come to an end.
\<close>

subsection \<open>A mailbox is served from its own rows\<close>

text \<open>The database as it would be if every mailbox but one had been deleted.\<close>

definition only_mailbox :: "gostring \<Rightarrow> 'j db \<Rightarrow> 'j db" where
  "only_mailbox token d = delete_mailboxes (\<lambda>b. Token b \<noteq> token) d"

lemma find_filter_same: "(\<And>x. p x \<Longrightarrow> q x) \<Longrightarrow> find p (filter q xs) = find p xs"
  by (induction xs) auto

lemma only_GetMailbox: "GetMailboxByToken token (only_mailbox token d) = GetMailboxByToken token d"
  by (simp add: GetMailboxByToken_def only_mailbox_def delete_mailboxes_def Let_def find_filter_same)

lemma GetMailboxByToken_row: "GetMailboxByToken token d = Inr mb \<Longrightarrow> mb \<in> set (mailboxes d) \<and> Token mb = token"
  by (auto simp: GetMailboxByToken_def scanRow_def split: option.splits dest: find_Some_set)

lemma only_gone:
  assumes "store_inv d" "GetMailboxByToken token d = Inr mb"
  shows "b \<in> set (mailboxes d) \<Longrightarrow> MailboxRowID b = MailboxRowID mb \<longleftrightarrow> Token b = token"
proof -
  have "distinct (map MailboxRowID (mailboxes d))" "distinct (map Token (mailboxes d))"
    using assms(1) by (auto simp: store_inv_def dest: keys_ok_distinct)
  with GetMailboxByToken_row [OF assms(2)] show "b \<in> set (mailboxes d) \<Longrightarrow> MailboxRowID b = MailboxRowID mb \<longleftrightarrow> Token b = token"
    by (auto simp: distinct_map inj_on_def)
qed

lemma only_messages:
  assumes "store_inv d" "GetMailboxByToken token d = Inr mb"
  shows "filter (\<lambda>m. MailboxID m = MailboxRowID mb) (messages (only_mailbox token d)) = filter (\<lambda>m. MailboxID m = MailboxRowID mb) (messages d)"
  using only_gone [OF assms] by (auto simp: only_mailbox_def delete_mailboxes_def delete_messages_def Let_def intro!: filter_cong)

lemma only_reports:
  assumes inv: "store_inv d" and mb: "GetMailboxByToken token d = Inr mb" and m: "m \<in> set (messages d)" "MailboxID m = MailboxRowID mb"
  shows "filter (\<lambda>r. rr_message_id r = MessageRowID m) (reports (only_mailbox token d)) = filter (\<lambda>r. rr_message_id r = MessageRowID m) (reports d)"
proof -
  define gone where "gone = MessageRowID ` set (filter (\<lambda>m. MailboxID m \<in> MailboxRowID ` set (filter (\<lambda>b. Token b \<noteq> token) (mailboxes d))) (messages d))"
  have "distinct (map MessageRowID (messages d))" using inv by (auto simp: store_inv_def dest: keys_ok_distinct)
  then have "MessageRowID m \<notin> gone"
    unfolding gone_def using m only_gone [OF inv mb] by (fastforce simp: distinct_map inj_on_def)
  moreover have "reports (only_mailbox token d) = filter (\<lambda>r. rr_message_id r \<notin> gone) (reports d)"
    by (simp add: gone_def only_mailbox_def delete_mailboxes_def delete_messages_def Let_def)
  ultimately show ?thesis by (auto intro!: filter_cong)
qed

lemma only_lists:
  assumes "store_inv d" "GetMailboxByToken token d = Inr mb"
  shows "ListMessagesWithReports js (MailboxRowID mb) n (only_mailbox token d) = ListMessagesWithReports js (MailboxRowID mb) n d"
    and "ListMessagesByMailbox (MailboxRowID mb) n (only_mailbox token d) = ListMessagesByMailbox (MailboxRowID mb) n d"
proof -
  have "left_join (only_mailbox token d) ms = left_join d ms" if "set ms \<subseteq> set (filter (\<lambda>m. MailboxID m = MailboxRowID mb) (messages d))" for ms
    using that only_reports [OF assms] unfolding left_join_def by (intro arg_cong [where f = concat] map_cong) auto
  then show "ListMessagesWithReports js (MailboxRowID mb) n (only_mailbox token d) = ListMessagesWithReports js (MailboxRowID mb) n d"
    by (simp add: ListMessagesWithReports_def only_messages [OF assms])
  show "ListMessagesByMailbox (MailboxRowID mb) n (only_mailbox token d) = ListMessagesByMailbox (MailboxRowID mb) n d"
    by (simp add: ListMessagesByMailbox_def only_messages [OF assms])
qed

lemma find_key_filter:
  "distinct (map k xs) \<Longrightarrow> find (\<lambda>x. k x = v) (filter p xs) = (case find (\<lambda>x. k x = v) xs of Some x \<Rightarrow> if p x then Some x else None | None \<Rightarrow> None)"
  by (induction xs) (auto simp: find_None_iff image_iff split: option.split dest!: find_Some_set)

lemma only_test:
  assumes "store_inv d" "GetMailboxByToken token d = Inr mb"
  shows "placementTestFor env mb pt t (only_mailbox token d) = placementTestFor env mb pt t d"
proof -
  let ?gone = "\<lambda>p. pr_mailbox_id p \<in> MailboxRowID ` set (filter (\<lambda>b. Token b \<noteq> token) (mailboxes d))"
  have rows: "placements (only_mailbox token d) = filter (\<lambda>p. \<not> ?gone p) (placements d)"
    by (simp add: only_mailbox_def delete_mailboxes_def Let_def)
  have own: "?gone p \<Longrightarrow> pr_mailbox_id p \<noteq> MailboxRowID mb" for p using only_gone [OF assms] by fastforce
  have "distinct (map pr_token (placements d))" using assms(1) by (simp add: store_inv_def)
  with own show ?thesis
    by (auto simp: placementTestFor_def GetPlacementTest_def rows find_key_filter scanRow_def scanPlacementTest_def split: option.splits)
qed

text \<open>
  C5: What the API tells about a mailbox depends on that mailbox alone. Were every other mailbox deleted, with its messages, reports and
  placement tests, the report, the raw source, the sealed payload, the status and the placement results that a token opens would be the same; in
  particular neither a message reference nor the token of a placement test of another mailbox opens anything.
\<close>

theorem mailbox_isolated:
  assumes "store_inv (database w)" and "v = set_db (only_mailbox token (database w)) w"
  shows "(map trim_space (split (CHR ''/'') (trim_prefix (URLPath r) ''/api/reports/'')) = [token, ref] \<longrightarrow> reportAPI env r v = reportAPI env r w)
    \<and> (map trim_space (split (CHR ''/'') (trim_prefix (URLPath r) ''/raw/'')) = [token, ref, part] \<longrightarrow> rawPage env r v = rawPage env r w)
    \<and> (split2 (trim_prefix (URLPath r) ''/api/payload/'') = [token, ref] \<longrightarrow> fst (payloadAPI env run r v) = fst (payloadAPI env run r w))
    \<and> mailbox_status env token v = mailbox_status env token w
    \<and> iptResultAPI env run token pt v = iptResultAPI env run token pt w"
proof -
  have db: "database v = only_mailbox token (database w)" by (simp add: assms(2))
  have pg: "fst (payload_gate env run r k v) = fst (payload_gate env run r k w)" for k
    by (simp add: payload_gate_def assms(2) split: option.split prod.split)
  show ?thesis
  proof (cases "GetMailboxByToken token (database w)")
    case (Inl e)
    then show ?thesis
      by (simp add: reportAPI_def rawPage_def payloadAPI_def mailbox_status_def iptResultAPI_def db only_GetMailbox case_prod_beta pg)
  next
    case (Inr mb)
    note same = only_lists [OF assms(1) Inr] only_test [OF assms(1) Inr]
    from Inr show ?thesis
      by (simp add: reportAPI_def rawPage_def payloadAPI_def mailbox_status_def iptResultAPI_def db only_GetMailbox case_prod_beta pg
          list_reports_def mailboxStatusPayload_def same)
  qed
qed

lemma GetMailboxByToken_found: "store_inv d \<Longrightarrow> mb \<in> set (mailboxes d) \<Longrightarrow> GetMailboxByToken (Token mb) d = Inr mb"
  by (auto simp: GetMailboxByToken_def scanRow_def store_inv_def dest!: find_unique [of Token])

lemma demo_web_keyed_inv: "store_inv (database demo_web_keyed)"
  unfolding demo_web_keyed_def by (rule Handler_inv) (simp add: demo_web_def new_web_def migrate_inv empty_inv)

lemma demo_web_keyed_token: "\<exists>mb. GetMailboxByToken ''onsw4zdfojzgk4dp'' (database demo_web_keyed) = Inr mb"
proof -
  obtain mb where mb: "GetMailboxByAddress ''onsw4zdfojzgk4dp@t.example'' (database demo_web_keyed) = Inr mb" "Token mb = ''onsw4zdfojzgk4dp''"
    using demo_web_keyed_box by (auto split: sum.splits)
  from GetMailboxByToken_found [OF demo_web_keyed_inv conjunct1 [OF GetMailboxByAddress_row [OF mb(1)]]] mb(2) show ?thesis by auto
qed

theorem mailbox_isolated_witness:
  "mailbox_status demo_web_env ''onsw4zdfojzgk4dp'' (set_db (only_mailbox ''onsw4zdfojzgk4dp'' (database demo_web_keyed)) demo_web_keyed)
     = mailbox_status demo_web_env ''onsw4zdfojzgk4dp'' demo_web_keyed"
  using mailbox_isolated [OF demo_web_keyed_inv refl] by blast

subsection \<open>Event streams\<close>

lemma send_changed_remdups: "send_changed name x raws = map (sse_event name) (tl (remdups_adj (x # raws)))"
proof (induction name x raws rule: send_changed.induct)
  case (2 name x raw raws)
  then show ?case by (cases "raw = x") (auto simp: remdups_adj_Cons split: list.splits)
qed simp

text \<open>
  The status stream of a mailbox sends, in order, one event for the first state and one for every later state whose payload differs from the
  one before it: what a client sees is the sequence of payloads without repetitions, as if it polled the status at every tick.
\<close>

theorem mailbox_stream_is_polling:
  assumes "\<And>x. marshal_object env x \<noteq> []" "GetMailboxByToken token (database w) = Inr mb"
  shows "RespBody (mailboxEvents env run token w) =
    Events (map (sse_event ''status'') (remdups_adj (map (\<lambda>d. marshal_object env (mailboxStatusPayload env mb 1 d)) (database w # map snd (stream_ticks run)))))"
  using assms(2) by (simp add: mailboxEvents_def event_stream_def send_changed_remdups assms(1) assms(1) [symmetric])

theorem mailbox_stream_is_polling_witness:
  "\<exists>mb. RespBody (mailboxEvents demo_web_env ((demo_run 0)\<lparr>stream_ticks := [(7, database demo_web_keyed), (8, demo_db)]\<rparr>) ''onsw4zdfojzgk4dp'' demo_web_keyed) =
     Events (map (sse_event ''status'') (remdups_adj (map (\<lambda>d. marshal_object demo_web_env (mailboxStatusPayload demo_web_env mb 1 d))
       [database demo_web_keyed, database demo_web_keyed, demo_db])))"
proof -
  have "marshal_object demo_web_env x \<noteq> []" for x by (simp add: demo_web_env_def)
  with demo_web_keyed_token mailbox_stream_is_polling [of demo_web_env "''onsw4zdfojzgk4dp''" demo_web_keyed _
      "(demo_run 0)\<lparr>stream_ticks := [(7, database demo_web_keyed), (8, demo_db)]\<rparr>"]
  show ?thesis by fastforce
qed

subsection \<open>Placement tests come to an end\<close>

lemma GetPlacementTest_update:
  assumes "GetPlacementTest js pt d = Inr test" "unmarshal_results js (marshal_results js rs) = rs"
  shows "GetPlacementTest js pt (UpdatePlacementTestResult js pt rs s d) = Inr (test\<lparr>Results := rs, TestStatus := s\<rparr>)"
proof -
  obtain row where row: "find (\<lambda>t. pr_token t = pt) (placements d) = Some row" "test = scanPlacementTest js row"
    using assms(1) by (auto simp: GetPlacementTest_def scanRow_def split: option.splits)
  with assms(2) show ?thesis
    by (simp add: GetPlacementTest_def UpdatePlacementTestResult_def find_update_rows scanRow_def scanPlacementTest_def)
qed

lemma store_results_last:
  assumes "GetPlacementTest js pt d = Inr test" "\<And>rs. unmarshal_results js (marshal_results js rs) = rs" "rs \<noteq> []"
  shows "GetPlacementTest js pt (store_results js pt n c rs d) = Inr (test\<lparr>Results := c @ rs, TestStatus := collected_status n (c @ rs)\<rparr>)"
  using assms(1,3)
proof (induction rs arbitrary: c d test)
  case (Cons r rs)
  have u: "GetPlacementTest js pt (UpdatePlacementTestResult js pt (c @ [r]) (collected_status n (c @ [r])) d) =
      Inr (test\<lparr>Results := c @ [r], TestStatus := collected_status n (c @ [r])\<rparr>)"
    by (rule GetPlacementTest_update) (use Cons.prems assms(2) in auto)
  show ?case
  proof (cases "rs = []")
    case False
    with Cons.IH [OF u] show ?thesis by simp
  qed (use u in simp)
qed simp

lemma store_results_prefix:
  assumes "GetPlacementTest js pt d = Inr test" "\<And>rs. unmarshal_results js (marshal_results js rs) = rs"
  shows "\<exists>test'. GetPlacementTest js pt (store_results js pt n [] rs d) = Inr test' \<and> TestMailboxID test' = TestMailboxID test
    \<and> TestStatus test' = (if rs = [] then TestStatus test else collected_status n rs)"
  using assms store_results_last [OF assms, of rs n "[]"] by (cases "rs = []") auto

lemma test_events_done:
  assumes "\<And>t d. (t, d) \<in> set states \<Longrightarrow> \<exists>test. placementTestFor env mb pt t d = Inr test \<and> TestStatus test \<notin> {''done'', ''timeout''}"
    and "placementTestFor env mb pt t d = Inr test" "TestStatus test \<in> {''done'', ''timeout''}"
  shows "test_events env mb pt start raw (states @ [(t, d)]) \<noteq> [] \<and> last (test_events env mb pt start raw (states @ [(t, d)])) = sse_event ''done'' ''{}''"
  using assms(1)
proof (induction states arbitrary: start raw)
  case (Cons s states)
  obtain u e where s: "s = (u, e)" by (cases s)
  from Cons.prems [of u e] s obtain ts where ts: "placementTestFor env mb pt u e = Inr ts" "TestStatus ts \<notin> {''done'', ''timeout''}" by auto
  with Cons.IH [of False "marshal_test env ts"] Cons.prems s show ?case by (auto simp: Let_def)
qed (use assms(2,3) in \<open>auto simp: Let_def\<close>)

lemma PollWithHosts_timeout:
  "list_ex (\<lambda>x. RStatus x = ''timeout'') (PollWithHosts spam polls deadline) \<longleftrightarrow>
   list_ex (\<lambda>(seed, acc, start, ticks). list_all (\<lambda>(t, c). tryFind spam acc c = []) (start # ticks)) polls"
proof -
  have "RStatus (poll_ticks spam seed acc ls deadline) = ''timeout'' \<longleftrightarrow> list_all (\<lambda>(t, c). tryFind spam acc c = []) ls" for seed acc ls
    by (induction ls) (auto simp: Let_def folderStatus_def split: if_splits)
  then show ?thesis by (auto simp: PollWithHosts_def pollOne_def list_ex_iff case_prod_beta)
qed


definition demo_test_db :: "json_text db" where
  "demo_test_db = snd (CreatePlacementTest demo_json 1 ''0123456789abcdef'' [] 100 5 0 demo_db)"

definition demo_poll :: "bool \<Rightarrow> SeedInfo \<times> Account \<times> (time \<times> imap_session) \<times> (time \<times> imap_session) list" where
  "demo_poll hit = (\<lparr>SeedProvider = ''p'', SeedAddress = ''a@p.example''\<rparr>, \<lparr>User = ''a'', Pass = ''b''\<rparr>,
     (6, \<lparr>dial_ok = True, login_ok = (\<lambda>a. True), select_ok = (\<lambda>f. True), found_in = (\<lambda>f. hit)\<rparr>), [])"


end
