(* ===== verification/System.thy ===== *)
theory System
  imports Web_Limits
begin

text \<open>
  The running program as one state machine: the web server, the SMTP handler, the retention sweep, the pollers of placement
  tests and the health check of the seed accounts all act on one state. A step is one served request, one received mail, one sweep,
  one stored batch of placement results or one health check, with whatever clock readings, random bytes and answers of other parties.
\<close>

subsection \<open>Steps\<close>

definition receive :: "'j web_env \<Rightarrow> inbound_run \<Rightarrow> ReceivedMail \<Rightarrow> 'j web \<Rightarrow> 'j web" where
  "receive env irun rm w = w\<lparr>world := snd (handle_mail (inbound env) (SMTPDomain (config env)) irun (world w) rm)\<rparr>"

lemma receive_db: "database (receive env irun rm w) = st (snd (processInbound (inbound env) (SMTPDomain (config env)) irun rm (world w)))"
  by (simp add: receive_def handle_mail_def split: prod.split option.split)

text \<open>
  Sealing a mail for a mailbox with a key succeeds when the random source does and the key is a point of the curve; a mail
  whose sealing fails is stored in clear, so the guard of the step says that it does not.
\<close>

definition seals :: "'j web_env \<Rightarrow> inbound_run \<Rightarrow> ReceivedMail \<Rightarrow> 'j web \<Rightarrow> bool" where
  "seals env irun rm w \<longleftrightarrow>
     (\<forall>mb pub pt. GetMailboxByAddress (to_lower (trim_space (RcptTo rm))) (database w) = Inr mb \<longrightarrow> hex_decode (PublicKey mb) = Some pub \<longrightarrow>
        PublicKey mb \<noteq> [] \<longrightarrow> (\<exists>blob. Seal (box (inbound env)) pt pub (rnd_secret irun) (rnd_nonce irun) = Inr blob))"

inductive system_step :: "'j web_env \<Rightarrow> 'j web \<Rightarrow> 'j web \<Rightarrow> bool" for env where
  request: "system_step env w (snd (Handler env run r w))"
| mail: "seals env irun rm w \<Longrightarrow> system_step env w (receive env irun rm w)"
| sweep: "system_step env w (set_db (snd (Cleanup t (RetentionTTL (config env)) (database w))) w)"
| results: "system_step env w (set_db (UpdatePlacementTestResult (jsons (inbound env)) pt rs status (database w)) w)"
| health: "system_step env w (snd (runIPTHealthCheck env ping fmt t w))"

inductive_cases system_stepE: "system_step env w w'"

definition system_init :: "'j web_env \<Rightarrow> 'j web \<Rightarrow> bool" where
  "system_init env w \<longleftrightarrow> (\<exists>wd. w = new_web (config env) wd \<and> st wd = migrate 0 empty_db)"

subsection \<open>What is stored of mail for a mailbox with a key\<close>

definition row_sealed :: "Message \<Rightarrow> bool" where
  "row_sealed m \<longleftrightarrow> PayloadEnc m \<noteq> [] \<and> RawSource m = encrypted_mark \<and> HeaderBlock m = encrypted_mark \<and> Subject m = encrypted_mark
     \<and> SMTPFrom m = encrypted_mark \<and> MsgRemoteIP m = encrypted_mark \<and> MsgHELO m = encrypted_mark"

definition report_stripped :: "'j json \<Rightarrow> 'j report_row \<Rightarrow> bool" where
  "report_stripped js row \<longleftrightarrow> (\<exists>cs. checks_json row = marshal_checks js (map stripped_check cs))
     \<and> warnings_json row = marshal_strings js [] \<and> suggestions_json row = marshal_strings js [] \<and> headers_json row = marshal_headers js Map.empty
     \<and> links_json row = marshal_strings js [] \<and> spam_signals_json row = marshal_strings js []"

definition keyed :: "'j db \<Rightarrow> int set" where
  "keyed d = MailboxRowID ` {mb \<in> set (mailboxes d). PublicKey mb \<noteq> []}"

definition private_inv :: "'j web_env \<Rightarrow> 'j db \<Rightarrow> bool" where
  "private_inv env d \<longleftrightarrow>
     (\<forall>mb\<in>set (mailboxes d). PublicKey mb \<noteq> [] \<longrightarrow> key_ok env (Token mb) (PublicKey mb))
     \<and> (\<forall>m\<in>set (messages d). MailboxID m \<in> keyed d \<longrightarrow>
          row_sealed m \<and> (\<forall>row\<in>set (reports d). rr_message_id row = MessageRowID m \<longrightarrow> report_stripped (jsons (inbound env)) row))"

lemma private_invI:
  assumes "\<And>mb. mb \<in> set (mailboxes d) \<Longrightarrow> PublicKey mb \<noteq> [] \<Longrightarrow> key_ok env (Token mb) (PublicKey mb)"
    and "\<And>m. m \<in> set (messages d) \<Longrightarrow> MailboxID m \<in> keyed d \<Longrightarrow> row_sealed m"
    and "\<And>m row. m \<in> set (messages d) \<Longrightarrow> MailboxID m \<in> keyed d \<Longrightarrow> row \<in> set (reports d) \<Longrightarrow> rr_message_id row = MessageRowID m \<Longrightarrow>
      report_stripped (jsons (inbound env)) row"
  shows "private_inv env d"
  using assms by (auto simp: private_inv_def)

lemma private_invD:
  assumes "private_inv env d"
  shows "mb \<in> set (mailboxes d) \<Longrightarrow> PublicKey mb \<noteq> [] \<Longrightarrow> key_ok env (Token mb) (PublicKey mb)"
    and "m \<in> set (messages d) \<Longrightarrow> MailboxID m \<in> keyed d \<Longrightarrow> row_sealed m"
    and "m \<in> set (messages d) \<Longrightarrow> MailboxID m \<in> keyed d \<Longrightarrow> row \<in> set (reports d) \<Longrightarrow> rr_message_id row = MessageRowID m \<Longrightarrow>
      report_stripped (jsons (inbound env)) row"
  using assms by (auto simp: private_inv_def)

text \<open>Deleting rows keeps the invariant.\<close>

lemma private_subset:
  assumes "private_inv env d" "set (mailboxes e) \<subseteq> set (mailboxes d)" "set (messages e) \<subseteq> set (messages d)" "set (reports e) \<subseteq> set (reports d)"
  shows "private_inv env e"
proof -
  have "keyed e \<subseteq> keyed d" using assms(2) by (auto simp: keyed_def)
  with assms show ?thesis unfolding private_inv_def by blast
qed

lemma delete_messages_subset:
  "mailboxes (delete_messages p d) = mailboxes d" "set (messages (delete_messages p d)) \<subseteq> set (messages d)"
  "set (reports (delete_messages p d)) \<subseteq> set (reports d)"
  by (auto simp: delete_messages_def Let_def)

lemma delete_mailboxes_subset:
  "set (mailboxes (delete_mailboxes p d)) \<subseteq> set (mailboxes d)" "set (messages (delete_mailboxes p d)) \<subseteq> set (messages d)"
  "set (reports (delete_mailboxes p d)) \<subseteq> set (reports d)"
  by (auto simp: delete_mailboxes_def delete_messages_def Let_def)

lemma private_delete: "private_inv env d \<Longrightarrow> private_inv env (delete_mailboxes p d)"
  by (rule private_subset [where d = d], assumption) (rule delete_mailboxes_subset)+

lemma private_delete_messages: "private_inv env d \<Longrightarrow> private_inv env (delete_messages p d)"
  by (rule private_subset [where d = d], assumption) (simp_all add: delete_messages_subset)

lemma private_Cleanup: "private_inv env d \<Longrightarrow> private_inv env (snd (Cleanup t ret d))"
  unfolding Cleanup_def Let_def snd_conv by (intro private_delete private_delete_messages)

text \<open>Rewriting mailboxes keeps it when keys, tokens and ids stay.\<close>

lemma private_mailboxes:
  assumes "private_inv env d" "map (\<lambda>b. (MailboxRowID b, Token b, PublicKey b)) bs = map (\<lambda>b. (MailboxRowID b, Token b, PublicKey b)) (mailboxes d)"
  shows "private_inv env (d\<lparr>mailboxes := bs\<rparr>)"
proof -
  have s: "(\<lambda>b. (MailboxRowID b, Token b, PublicKey b)) ` set bs = (\<lambda>b. (MailboxRowID b, Token b, PublicKey b)) ` set (mailboxes d)"
    using arg_cong [OF assms(2), of set] by simp
  have k: "keyed (d\<lparr>mailboxes := bs\<rparr>) = keyed d"
  proof -
    have "keyed e = {i. \<exists>t k. (i, t, k) \<in> (\<lambda>b. (MailboxRowID b, Token b, PublicKey b)) ` set (mailboxes e) \<and> k \<noteq> []}" for e :: "'a db"
      unfolding keyed_def by blast
    then show ?thesis using s by simp
  qed
  show ?thesis
  proof (rule private_invI)
    fix mb assume "mb \<in> set (mailboxes (d\<lparr>mailboxes := bs\<rparr>))" "PublicKey mb \<noteq> []"
    then have "(MailboxRowID mb, Token mb, PublicKey mb) \<in> (\<lambda>b. (MailboxRowID b, Token b, PublicKey b)) ` set (mailboxes d)" using s by auto
    then show "key_ok env (Token mb) (PublicKey mb)" using private_invD(1) [OF assms(1)] \<open>PublicKey mb \<noteq> []\<close> by auto
  qed (use private_invD(2,3) [OF assms(1)] k in \<open>simp_all\<close>)
qed

lemma private_messages:
  assumes "private_inv env d" "map (\<lambda>m. (MessageRowID m, MailboxID m)) ms = map (\<lambda>m. (MessageRowID m, MailboxID m)) (messages d)"
    "\<And>m. m \<in> set (messages d) \<Longrightarrow> row_sealed m \<Longrightarrow> row_sealed (f m)" "ms = map f (messages d)"
  shows "private_inv env (d\<lparr>messages := ms\<rparr>)"
proof -
  have f: "MessageRowID (f m) = MessageRowID m" "MailboxID (f m) = MailboxID m" if "m \<in> set (messages d)" for m
    using assms(2) that unfolding assms(4) by (auto simp: map_eq_conv)
  have k: "keyed (d\<lparr>messages := map f (messages d)\<rparr>) = keyed d" by (simp add: keyed_def)
  show ?thesis
    unfolding assms(4) by (rule private_invI) (use private_invD [OF assms(1)] f assms(3) in \<open>auto simp: k\<close>)
qed

lemma private_reports:
  assumes "private_inv env d" "\<And>row. row \<in> set (reports d) \<Longrightarrow> rr_message_id (f row) = rr_message_id row"
    "\<And>row. report_stripped (jsons (inbound env)) row \<Longrightarrow> report_stripped (jsons (inbound env)) (f row)"
  shows "private_inv env (d\<lparr>reports := map f (reports d)\<rparr>)"
proof -
  have k: "keyed (d\<lparr>reports := map f (reports d)\<rparr>) = keyed d" by (simp add: keyed_def)
  show ?thesis
    by (rule private_invI) (use private_invD [OF assms(1)] assms(2,3) in \<open>auto simp: k\<close>)
qed

lemma private_cong:
  "mailboxes e = mailboxes d \<Longrightarrow> messages e = messages d \<Longrightarrow> reports e = reports d \<Longrightarrow> private_inv env e = private_inv env d"
  by (simp add: private_inv_def keyed_def)

text \<open>Every store operation of a request keeps it; a new mailbox has a fresh id, so no stored message belongs to it.\<close>

lemma private_create:
  assumes inv: "store_inv d" "private_inv env d" and key: "PublicKey mb \<noteq> [] \<longrightarrow> key_ok env (Token mb) (PublicKey mb)"
    and fresh: "MailboxRowID mb \<notin> MailboxRowID ` set (mailboxes d)"
  shows "private_inv env (d\<lparr>mailboxes := mailboxes d @ [mb]\<rparr>)"
proof (rule private_invI)
  fix b assume "b \<in> set (mailboxes (d\<lparr>mailboxes := mailboxes d @ [mb]\<rparr>))" "PublicKey b \<noteq> []"
  then show "key_ok env (Token b) (PublicKey b)" using key private_invD(1) [OF inv(2)] by auto
next
  have old: "MailboxID m \<in> keyed d" if "m \<in> set (messages d)" "MailboxID m \<in> keyed (d\<lparr>mailboxes := mailboxes d @ [mb]\<rparr>)" for m
  proof -
    have "MailboxID m \<in> MailboxRowID ` set (mailboxes d)" using inv(1) that(1) by (auto simp: store_inv_def)
    with that(2) fresh show ?thesis by (cases "PublicKey mb = []") (auto simp: keyed_def image_iff)
  qed
  fix m assume m: "m \<in> set (messages (d\<lparr>mailboxes := mailboxes d @ [mb]\<rparr>))" "MailboxID m \<in> keyed (d\<lparr>mailboxes := mailboxes d @ [mb]\<rparr>)"
  then show "row_sealed m" using old private_invD(2) [OF inv(2)] by simp
  fix row assume "row \<in> set (reports (d\<lparr>mailboxes := mailboxes d @ [mb]\<rparr>))" "rr_message_id row = MessageRowID m"
  with m old show "report_stripped (jsons (inbound env)) row" using private_invD(3) [OF inv(2)] by simp
qed

lemma private_web_op:
  assumes inv: "store_inv d" "private_inv env d" and c: "web_op True env c"
  shows "private_inv env (apply_op (jsons (inbound env)) c d)"
proof (cases c)
  case (OpCreateMailbox t a k ip ttl n g)
  show ?thesis
  proof (cases "t \<in> Token ` set (mailboxes d) \<or> a \<in> Address ` set (mailboxes d)")
    case False
    let ?mb = "\<lparr>MailboxRowID = mailbox_seq d + 1 + int g, Token = t, Address = a, PublicKey = k, CreatedIP = ip,
                MailboxCreatedAt = n, ExpiresAt = n + ttl, LastSeenAt = n,
                CheckDomainAge = False, CheckDomainBlocklist = False, CheckBrokenLinks = False\<rparr>"
    have "mailbox_seq d + 1 + int g \<notin> set (map MailboxRowID (mailboxes d))"
      using inv(1) by (intro keys_ok_fresh) (auto simp: store_inv_def)
    then have "private_inv env (d\<lparr>mailboxes := mailboxes d @ [?mb]\<rparr>)"
      using c OpCreateMailbox by (intro private_create inv) auto
    with False OpCreateMailbox show ?thesis
      by (subst private_cong [where d = "d\<lparr>mailboxes := mailboxes d @ [?mb]\<rparr>"]) (auto simp: CreateMailbox_def Let_def incrCounter_def)
  qed (use OpCreateMailbox inv in \<open>auto simp: CreateMailbox_def\<close>)
next
  case (OpUpdateMessagePayloadEnc i p)
  have "private_inv env (d\<lparr>messages := update_rows (\<lambda>m. MessageRowID m = i) (\<lambda>m. m\<lparr>PayloadEnc := p\<rparr>) (messages d)\<rparr>)"
    by (rule private_messages [OF inv(2) _ _ update_rows_def]) (use c OpUpdateMessagePayloadEnc in \<open>auto simp: row_sealed_def\<close>)
  then show ?thesis by (simp add: OpUpdateMessagePayloadEnc UpdateMessagePayloadEnc_def)
next
  case (OpUpdateReportScoreChecks i s l j)
  have "private_inv env (d\<lparr>reports := map (\<lambda>r. if rr_message_id r = i then r\<lparr>rr_score := s, rr_score_label := l, checks_json := j\<rparr> else r) (reports d)\<rparr>)"
    by (rule private_reports [OF inv(2)]) (use c OpUpdateReportScoreChecks in \<open>auto simp: report_stripped_def\<close>)
  then show ?thesis by (simp add: OpUpdateReportScoreChecks UpdateReportScoreChecks_def update_rows_def)
next
  case (OpCreatePlacementTest i t ss ex n g)
  then show ?thesis using inv(2) by (subst private_cong [where d = d]) (auto simp: CreatePlacementTest_def Let_def)
qed (use c inv(2) in \<open>auto simp: UpdateMailboxChecks_def TouchMailbox_def DeleteMailboxByToken_def intro!: private_mailboxes private_delete\<close>)

lemma private_fold:
  "store_inv d \<Longrightarrow> private_inv env d \<Longrightarrow> list_all (web_op True env) ops \<Longrightarrow> private_inv env (fold (apply_op (jsons (inbound env))) ops d)"
  by (induction ops arbitrary: d) (auto intro: apply_op_inv private_web_op)

lemma base64url_nonempty: "s \<noteq> [] \<Longrightarrow> base64url_encode s \<noteq> []"
  by (cases s) (auto simp: base64url_encode_def bits8_def)

lemma seal_for_keyed:
  assumes "key_ok env t k" "seal_for (inbound env) run k raw hs sub m r = (sm, sr)"
    and seals: "\<And>pub pt. hex_decode k = Some pub \<Longrightarrow> \<exists>blob. Seal (box (inbound env)) pt pub (rnd_secret run) (rnd_nonce run) = Inr blob"
  shows "row_sealed sm" "sr = stripReportForStorage r"
proof -
  obtain pub where pub: "hex_decode k = Some pub" "length pub = 32" using assms(1) by (auto simp: key_ok_def)
  then have "k \<noteq> []" by auto
  let ?p = "payload_of (inbound env) raw hs sub m r"
  obtain blob where blob: "Seal (box (inbound env)) (payload_json (inbound env) ?p) pub (rnd_secret run) (rnd_nonce run) = Inr blob"
    using seals [OF pub(1)] by blast
  then have "blob \<noteq> []" by (auto simp: Seal_def sealWithEphemeral_def magic_def split: if_splits option.splits)
  with blob pub \<open>k \<noteq> []\<close> assms(2) show "row_sealed sm" "sr = stripReportForStorage r"
    by (auto simp: seal_for_def buildEncryptedPayload_def row_sealed_def base64url_nonempty)
qed

lemma report_row_stripped: "report_stripped js (report_row_of js j ((stripReportForStorage r)\<lparr>MessageID := i, CreatedAt := t\<rparr>))"
  by (auto simp: report_stripped_def report_row_of_def stripReportForStorage_def)

lemma private_append:
  assumes inv: "private_inv env d"
    and fresh: "MessageRowID m \<notin> MessageRowID ` set (messages d)" "rr_message_id ` set (reports d) \<subseteq> MessageRowID ` set (messages d)"
    and new: "rr_message_id row = MessageRowID m" "MailboxID m \<in> keyed d \<Longrightarrow> row_sealed m \<and> report_stripped (jsons (inbound env)) row"
  shows "private_inv env (d\<lparr>messages := messages d @ [m], reports := reports d @ [row]\<rparr>)" (is "private_inv env ?e")
proof -
  have k: "keyed ?e = keyed d" by (simp add: keyed_def)
  have "MessageRowID m \<notin> rr_message_id ` set (reports d)" using fresh by auto
  with fresh(1) show ?thesis
    by (intro private_invI) (use private_invD [OF inv] new in \<open>auto simp: k image_iff\<close>)
qed

text \<open>Of several mailboxes with one id, as there are none, one has a key exactly when the one that a mail was filed under has.\<close>

lemma keyed_iff:
  assumes "store_inv d" "mb \<in> set (mailboxes d)"
  shows "MailboxRowID mb \<in> keyed d \<longleftrightarrow> PublicKey mb \<noteq> []"
proof
  assume "MailboxRowID mb \<in> keyed d"
  then obtain b where "b \<in> set (mailboxes d)" "MailboxRowID b = MailboxRowID mb" "PublicKey b \<noteq> []" by (auto simp: keyed_def)
  moreover have "distinct (map MailboxRowID (mailboxes d))" using assms(1) by (auto simp: store_inv_def dest: keys_ok_distinct)
  ultimately show "PublicKey mb \<noteq> []" using assms(2) by (auto simp: distinct_map inj_on_def)
qed (use assms in \<open>auto simp: keyed_def\<close>)

lemma keyed_mailboxes:
  assumes "map (\<lambda>b. (MailboxRowID b, PublicKey b)) (mailboxes (e :: 'j db)) = map (\<lambda>b. (MailboxRowID b, PublicKey b)) (mailboxes (d :: 'j db))"
  shows "keyed e = keyed d"
proof -
  have "keyed e = fst ` {p \<in> set (map (\<lambda>b. (MailboxRowID b, PublicKey b)) (mailboxes e)). snd p \<noteq> []}" for e :: "'j db"
    unfolding keyed_def by force
  from this [of e] this [of d] assms show ?thesis by (simp only:)
qed

lemma private_receive:
  assumes inv: "store_inv (st w)" "private_inv env (st w)"
    and seals: "\<And>mb pub pt. GetMailboxByAddress (to_lower (trim_space (RcptTo rm))) (st w) = Inr mb \<Longrightarrow> hex_decode (PublicKey mb) = Some pub \<Longrightarrow>
        PublicKey mb \<noteq> [] \<Longrightarrow> \<exists>blob. Seal (box (inbound env)) pt pub (rnd_secret run) (rnd_nonce run) = Inr blob"
  shows "private_inv env (st (snd (processInbound (inbound env) dn run rm w)))" (is "private_inv env ?d")
proof (cases "\<exists>mb. GetMailboxByAddress (to_lower (trim_space (RcptTo rm))) (st w) = Inr mb
      \<and> matchesConfiguredDomain dn (RcptTo rm) \<and> at_check run \<le> ExpiresAt mb")
  case False
  then have "processInbound (inbound env) dn run rm w = (None, w)"
    using processInbound_cases [OF inv(1), where rm = rm and dn = dn and run = run and env = "inbound env"] by (auto split: sum.splits if_splits)
  with inv show ?thesis by simp
next
  case True
  then obtain mb where mb: "GetMailboxByAddress (to_lower (trim_space (RcptTo rm))) (st w) = Inr mb"
    "matchesConfiguredDomain dn (RcptTo rm)" "at_check run \<le> ExpiresAt mb" by blast
  obtain raw headers subject report sm sr i j where
    sealed: "seal_for (inbound env) run (PublicKey mb) raw headers subject
       (received_message run mb rm (to_lower (trim_space (RcptTo rm))) raw headers subject) report = (sm, sr)"
    and rows: "messages ?d = messages (st w) @
        [sm\<lparr>ReceivedAt := if ReceivedAt sm = zero_time then at_save run else ReceivedAt sm, MessageRowID := i\<rparr>]"
      "reports ?d = reports (st w) @
        [report_row_of (jsons (inbound env)) j (sr\<lparr>MessageID := i, CreatedAt := if CreatedAt sr = zero_time then at_report run else CreatedAt sr\<rparr>)]"
      "mailboxes ?d = update_rows (\<lambda>b. MailboxRowID b = MailboxRowID mb) (\<lambda>b. b\<lparr>LastSeenAt := at_touch run\<rparr>) (mailboxes (st w))"
    using processInbound_rows [OF inv(1) mb(2,1,3), of "inbound env"] by metis
  let ?m = "sm\<lparr>ReceivedAt := if ReceivedAt sm = zero_time then at_save run else ReceivedAt sm, MessageRowID := i\<rparr>"
  let ?row = "report_row_of (jsons (inbound env)) j (sr\<lparr>MessageID := i, CreatedAt := if CreatedAt sr = zero_time then at_report run else CreatedAt sr\<rparr>)"
  let ?e = "st w\<lparr>mailboxes := mailboxes ?d\<rparr>"
  have p0: "private_inv env ?e" unfolding rows(3) by (intro private_mailboxes inv) simp
  have box: "mb \<in> set (mailboxes (st w))" using GetMailboxByAddress_row [OF mb(1)] ..
  have sm: "MailboxID sm = MailboxRowID mb"
    using seal_for_frame(1) [of "inbound env" run "PublicKey mb" raw headers subject
      "received_message run mb rm (to_lower (trim_space (RcptTo rm))) raw headers subject" report] by (simp add: sealed)
  have new: "row_sealed ?m \<and> report_stripped (jsons (inbound env)) ?row" if key: "MailboxID ?m \<in> keyed ?e"
  proof -
    have "keyed ?e = keyed (st w)" by (rule keyed_mailboxes) (simp add: rows(3))
    with key sm keyed_iff [OF inv(1) box] have k: "PublicKey mb \<noteq> []" by simp
    from seal_for_keyed [OF private_invD(1) [OF inv(2) box k] sealed] seals [OF mb(1)] k
    have "row_sealed sm" "sr = stripReportForStorage report" by blast+
    then show ?thesis by (simp add: row_sealed_def report_row_stripped del: if_split if_cancel)
  qed
  have "store_inv ?d" by (rule processInbound_inv) (rule inv)
  then have "i \<notin> MessageRowID ` set (messages ?e)" by (auto simp: store_inv_def rows(1) dest!: keys_ok_distinct)
  moreover have "rr_message_id ` set (reports ?e) \<subseteq> MessageRowID ` set (messages ?e)" using inv(1) by (simp add: store_inv_def)
  ultimately have "private_inv env (?e\<lparr>messages := messages ?e @ [?m], reports := reports ?e @ [?row]\<rparr>)"
    using new by (intro private_append p0) (auto simp: report_row_of_def)
  then show ?thesis by (rule private_cong [THEN iffD1, rotated 3]) (simp_all add: rows(1,2))
qed

interpretation system: state_machine "system_init env" "system_step env" "\<lambda>w. store_inv (database w) \<and> private_inv env (database w)"
proof
  fix w assume "system_init env w"
  then have "database w = migrate 0 empty_db" by (auto simp: system_init_def new_web_def)
  moreover have "private_inv env (migrate 0 empty_db)"
    by (simp add: private_inv_def migrate_def insert_or_ignore_def empty_db_def Let_def)
  ultimately show "store_inv (database w) \<and> private_inv env (database w)" by (simp add: migrate_inv empty_inv)
next
  fix w w' assume inv: "store_inv (database w) \<and> private_inv env (database w)" and step: "system_step env w w'"
  from step show "store_inv (database w') \<and> private_inv env (database w')"
  proof cases
    case (request run r)
    from Handler_store_ops [of env w run r] inv show ?thesis
      unfolding request by (auto simp: by_store_ops_def intro: store_inv_fold private_fold)
  next
    case (mail irun rm)
    have "private_inv env (database (receive env irun rm w))"
      using inv mail(2) by (auto simp: receive_db seals_def intro!: private_receive)
    with inv mail(1) show ?thesis by (simp add: receive_db processInbound_inv)
  next
    case (sweep t)
    with inv show ?thesis by (simp add: Cleanup_inv private_Cleanup)
  next
    case (results pt rs status)
    have "private_inv env (UpdatePlacementTestResult (jsons (inbound env)) pt rs status (database w)) = private_inv env (database w)"
      by (rule private_cong) (simp_all add: UpdatePlacementTestResult_def)
    with inv results show ?thesis by (simp add: updates_inv)
  next
    case (health ping fmt t)
    with inv show ?thesis by (simp add: runIPTHealthCheck_def split: option.split prod.split)
  qed
qed

lemma receive_keyed:
  assumes "store_inv (database w)"
  shows "keyed (database (receive env irun rm w)) = keyed (database w)"
proof (cases "\<exists>mb. GetMailboxByAddress (to_lower (trim_space (RcptTo rm))) (database w) = Inr mb
      \<and> matchesConfiguredDomain (SMTPDomain (config env)) (RcptTo rm) \<and> at_check irun \<le> ExpiresAt mb")
  case False
  then have "processInbound (inbound env) (SMTPDomain (config env)) irun rm (world w) = (None, world w)"
    using processInbound_cases [OF assms, where rm = rm and dn = "SMTPDomain (config env)" and run = irun and env = "inbound env"]
    by (auto split: sum.splits if_splits)
  then show ?thesis by (simp add: receive_db)
next
  case True
  then obtain mb where mb: "GetMailboxByAddress (to_lower (trim_space (RcptTo rm))) (database w) = Inr mb"
    "matchesConfiguredDomain (SMTPDomain (config env)) (RcptTo rm)" "at_check irun \<le> ExpiresAt mb" by blast
  obtain ur where "mailboxes (database (receive env irun rm w)) =
      update_rows (\<lambda>b. MailboxRowID b = MailboxRowID mb) (\<lambda>b. b\<lparr>LastSeenAt := ur\<rparr>) (mailboxes (database w))"
    unfolding receive_db using processInbound_rows [OF assms mb(2,1,3), of "inbound env"] by (simp, metis)
  then show ?thesis by (intro keyed_mailboxes) simp
qed


definition demo_mail_in :: ReceivedMail where
  "demo_mail_in = demo_received\<lparr>RcptTo := ''onsw4zdfojzgk4dp@t.example''\<rparr>"


end
