(* ===== verification/Report_View.thy ===== *)
theory Report_View
  imports Request Findings Texts "HOL-Library.List_Lexorder" "HOL-Library.Char_ord" "HOL-Library.Product_Lexorder" "HOL-Library.Multiset"
begin

text \<open>
  How a report is presented: the functions of \<open>internal/web/server.go\<close> that order, group and format what the analysis found. Go compares
  strings byte by byte, which is the lexicographic order on lists of characters. \<open>sort.SliceStable\<close> is \<open>sort_key\<close>. A function that ranges over a
  Go map gets the keys in some order, here as an argument.
\<close>

subsection \<open>Order and groups of the checks\<close>

text \<open>The map \<open>rank\<close>; an absent status reads as zero.\<close>

definition status_rank :: "gostring \<Rightarrow> int" where
  "status_rank st = (if st = ''warn'' then 1 else if st = ''info'' then 2 else if st = ''pass'' then 3 else 0)"

definition sortChecks :: "CheckResult list \<Rightarrow> CheckResult list" where
  "sortChecks checks = sort_key (\<lambda>c. (status_rank (Status c), Name c)) checks"

record ReportCheckGroup =
  GroupName :: gostring
  Hint :: gostring
  GroupChecks :: "CheckResult list"
  PassCount :: int
  WarnCount :: int
  FailCount :: int
  InfoCount :: int
  NACount :: int

definition group_order :: "gostring list" where
  "group_order = [''Authentifizierung'', ''DNS und Infrastruktur'', ''Spamfilter'', ''Format und Inhalt'', ''Header und Rohdaten'']"

definition check_category :: "CheckResult \<Rightarrow> gostring" where
  "check_category c = (let k = trim_space (Category c) in if k = [] then ''Header und Rohdaten'' else k)"

definition count_status :: "(gostring \<Rightarrow> bool) \<Rightarrow> CheckResult list \<Rightarrow> int" where
  "count_status p cs = int (length (filter (\<lambda>c. p (Status c)) cs))"

definition lookup_text :: "(gostring \<times> gostring) list \<Rightarrow> gostring \<Rightarrow> gostring" where
  "lookup_text tbl k = (case map_of tbl k of Some v \<Rightarrow> v | None \<Rightarrow> [])"

definition report_group :: "bool \<Rightarrow> gostring \<Rightarrow> CheckResult list \<Rightarrow> ReportCheckGroup" where
  "report_group english name cs =
     \<lparr>GroupName = (if english \<and> lookup_text groupTitles name \<noteq> [] then lookup_text groupTitles name else name),
      Hint = lookup_text (if english then groupHintsEN else groupHintsDE) name, GroupChecks = cs,
      PassCount = count_status (\<lambda>s. s = ''pass'') cs, WarnCount = count_status (\<lambda>s. s = ''warn'') cs, FailCount = count_status (\<lambda>s. s = ''fail'') cs,
      InfoCount = count_status (\<lambda>s. s \<notin> {''pass'', ''warn'', ''fail'', ''na''}) cs, NACount = count_status (\<lambda>s. s = ''na'') cs\<rparr>"

definition groupReportChecks :: "CheckResult list \<Rightarrow> gostring \<Rightarrow> ReportCheckGroup list" where
  "groupReportChecks checks lg =
     (let grouped = \<lambda>name. filter (\<lambda>c. check_category c = name) checks
      in map (\<lambda>name. report_group (lg = EN) name (grouped name)) (filter (\<lambda>name. grouped name \<noteq> []) group_order))"

record ReportLinkGroup =
  LinkDomain :: gostring
  LinkCount :: int
  GroupLinks :: "gostring list"

text \<open>\<open>hostname\<close> is \<open>url.Parse(raw).Hostname()\<close>, \<open>None\<close> the error.\<close>

definition link_domain :: "(gostring \<Rightarrow> gostring option) \<Rightarrow> gostring \<Rightarrow> gostring" where
  "link_domain hostname raw =
     (case hostname raw of
        Some h \<Rightarrow> if trim_space h \<noteq> [] then to_lower (trim_prefix h ''www.'') else ''unbekannte-domain''
      | None \<Rightarrow> ''unbekannte-domain'')"

definition groupLinksByDomain :: "(gostring \<Rightarrow> gostring option) \<Rightarrow> gostring list \<Rightarrow> ReportLinkGroup list" where
  "groupLinksByDomain hostname links =
     map (\<lambda>dn. let ls = filter (\<lambda>l. link_domain hostname l = dn) links in \<lparr>LinkDomain = dn, LinkCount = int (length ls), GroupLinks = sort ls\<rparr>)
       (sort (remdups (map (link_domain hostname) links)))"

subsection \<open>Headline, icons and numbers\<close>

definition reportHeroTitle :: "float64 \<Rightarrow> gostring \<Rightarrow> gostring" where
  "reportHeroTitle score lg =
     (if lg = ''en''
      then (if 9 \<le> score then ''Wow, this email is very well prepared''
         else if 15/2 \<le> score then ''Solid deliverability with minor issues''
         else if 11/2 \<le> score then ''This email needs some technical work''
         else ''High deliverability risk detected'')
      else (if 9 \<le> score then ''Wow, diese Mail ist sehr gut vorbereitet''
         else if 15/2 \<le> score then ''Solide Zustellbarkeit mit kleinen Baustellen''
         else if 11/2 \<le> score then ''Diese Mail braucht technische Nacharbeit''
         else ''Hohes Zustellbarkeitsrisiko erkannt''))"

definition reportHeroSubtitle :: "float64 \<Rightarrow> gostring \<Rightarrow> gostring" where
  "reportHeroSubtitle score lg =
     (if lg = ''en''
      then (if 9 \<le> score then ''The most important authentication and content checks look good.''
         else if 15/2 \<le> score then ''The foundation is solid; individual warnings should be resolved before larger campaigns.''
         else if 11/2 \<le> score then ''Several signals may negatively affect inbox placement at Gmail, Outlook, Yahoo or Apple Mail.''
         else ''Please prioritise fixing authentication, DNS and content issues before sending further.'')
      else (if 9 \<le> score then ''Die wichtigsten Authentifizierungs- und Inhaltschecks sehen gut aus.''
         else if 15/2 \<le> score then ''Die Basis stimmt, einzelne Warnungen sollten vor gr'' @ [CHR 0xC3, CHR 0xB6, CHR 0xC3, CHR 0x9F] @ ''eren Kampagnen gekl'' @ [CHR 0xC3, CHR 0xA4] @ ''rt werden.''
         else if 11/2 \<le> score then ''Mehrere Signale k'' @ [CHR 0xC3, CHR 0xB6] @ ''nnen die Inbox-Platzierung bei Gmail, Outlook, Yahoo oder Apple Mail verschlechtern.''
         else ''Bitte zuerst Authentifizierung, DNS und Inhalt in Ordnung bringen, bevor Sie weiter versenden.''))"

definition statusIcon :: "gostring \<Rightarrow> gostring" where
  "statusIcon status = (if status = ''pass'' then ''OK'' else if status = ''warn'' then ''!'' else if status = ''fail'' then ''X'' else ''i'')"

definition statusGlyph :: "gostring \<Rightarrow> gostring" where
  "statusGlyph status =
     (let icon = \<lambda>s. ''<i class='' @ [CHR 0x22] @ ''bi bi-'' @ s @ ''-lg'' @ [CHR 0x22] @ ''></i>''
      in if status = ''pass'' then icon ''check'' else if status = ''warn'' then icon ''exclamation'' else if status = ''fail'' then icon ''x''
         else if status = ''na'' then icon ''dash'' else icon ''info'')"

definition statusLabel :: "gostring \<Rightarrow> gostring" where
  "statusLabel status = (if status = ''pass'' then ''Bestanden'' else if status = ''warn'' then ''Warnung'' else if status = ''fail'' then ''Fehler''
     else if status = ''na'' then ''N/A'' else ''Info'')"

text \<open>\<open>strconv.FormatFloat(x, 'f', 2, 64)\<close> of a finite number: the exact value rounded to hundredths, ties to even.\<close>

definition format_hundredths :: "float64 \<Rightarrow> gostring" where
  "format_hundredths x =
     (let n = round_half_even (\<bar>x\<bar> * 100); r = show_int (n mod 100)
      in (if x < 0 then ''-'' else []) @ show_int (n div 100) @ ''.'' @ (if n mod 100 < 10 then CHR ''0'' # r else r))"

definition fmtScore :: "float64 \<Rightarrow> gostring" where
  "fmtScore f = trim_right (trim_right (format_hundredths f) ''0'') ''.''"

definition fmtDelta :: "float64 \<Rightarrow> gostring" where
  "fmtDelta d =
     (if d = 0 then [CHR 0xE2, CHR 0x80, CHR 0x93]
      else (let s = trim_right (trim_right (format_hundredths d) ''0'') ''.'' in if 0 < d then CHR ''+'' # s else s))"

subsection \<open>Technical details\<close>

text \<open>\<open>strings.ToUpper\<close> replaces a byte that is no character by the replacement character.\<close>

definition humanizeKey :: "gostring \<Rightarrow> gostring" where
  "humanizeKey key =
     (case replace_all ''_'' '' '' (trim_space key) of
        [] \<Rightarrow> key
      | c # cs \<Rightarrow> (if is_ascii_char c then [upper_char c] else [CHR 0xEF, CHR 0xBF, CHR 0xBD]) @ cs)"

definition techLabel :: "gostring \<Rightarrow> gostring \<Rightarrow> gostring" where
  "techLabel lg key =
     (case (if lg = EN then map_of techLabelsEN key else None) of
        Some v \<Rightarrow> v
      | None \<Rightarrow> (case map_of techLabels key of Some v \<Rightarrow> v | None \<Rightarrow> humanizeKey key))"

definition techLabelTable :: "gostring \<Rightarrow> (gostring \<rightharpoonup> gostring)" where
  "techLabelTable lg = (if lg = EN then map_of techLabels ++ map_of techLabelsEN else map_of techLabels)"

definition detail_text :: "details \<Rightarrow> gostring \<Rightarrow> gostring" where
  "detail_text d k = (case d k of Some v \<Rightarrow> v | None \<Rightarrow> [])"

definition detailsText :: "gostring list \<Rightarrow> details \<Rightarrow> gostring" where
  "detailsText keys d =
     trim_space (concat (map (\<lambda>k. let v = trim_space (detail_text d k) in if v = [] then [] else k @ '': '' @ v @ [LF]) (sort keys)))"

record RBLProviderInfo =
  PHost :: gostring
  DisplayName :: gostring
  Description :: gostring

text \<open>A line of \<open>checked_providers\<close>; \<open>None\<close> is the panic of the slice expression for a name that ends with its opening parenthesis.\<close>

definition rbl_provider :: "gostring \<Rightarrow> RBLProviderInfo option" where
  "rbl_provider line =
     (case cut line ''|'' of (before, after, found) \<Rightarrow>
        (let hostPart = trim_space before; desc = (if found then trim_space after else [])
         in case index hostPart '' ('' of
              Some idx \<Rightarrow>
                if idx = 0 then Some \<lparr>PHost = hostPart, DisplayName = hostPart, Description = desc\<rparr>
                else if length hostPart - 1 < idx + 2 then None
                else Some \<lparr>PHost = take idx hostPart, DisplayName = take (length hostPart - 1 - (idx + 2)) (drop (idx + 2) hostPart), Description = desc\<rparr>
            | None \<Rightarrow> Some \<lparr>PHost = hostPart, DisplayName = hostPart, Description = desc\<rparr>))"

definition rblProvidersFn :: "details \<Rightarrow> RBLProviderInfo list option" where
  "rblProvidersFn d =
     (let raw = detail_text d ''checked_providers''
      in if raw = [] \<or> raw = ''none'' then Some []
         else those (map rbl_provider (filter (\<lambda>l. l \<noteq> []) (map trim_space (split LF raw)))))"

text \<open>\<open>strings.Split\<close> with the empty line as separator.\<close>

function split_blank :: "gostring \<Rightarrow> gostring list" where
  "split_blank s = (case index s [LF, LF] of None \<Rightarrow> [s] | Some i \<Rightarrow> take i s # split_blank (drop (i + 2) s))"
  by pat_completeness auto

termination split_blank
proof (relation "measure length")
  fix s i assume "index s [LF, LF] = Some i"
  then have "s \<noteq> []" by auto
  then show "(drop (i + 2) s, s) \<in> measure length" by (simp add: not_le)
qed simp

record RBLHit =
  HitProvider :: gostring
  HitResponse :: gostring
  DelistURL :: gostring
  Delisting :: gostring

definition nth_trimmed :: "gostring list \<Rightarrow> nat \<Rightarrow> gostring" where
  "nth_trimmed xs i = (if i < length xs then trim_space (xs ! i) else [])"

definition rblHitsFn :: "details \<Rightarrow> RBLHit list" where
  "rblHitsFn d =
     (let listed = detail_text d ''listed_providers''
      in if listed = [] \<or> listed = ''none'' then []
         else (let providers = split LF listed; responses = split LF (detail_text d ''listing_responses'');
                   urls = split LF (detail_text d ''provider_delist_urls''); steps = split_blank (detail_text d ''provider_delisting'')
               in map (\<lambda>(i, p). \<lparr>HitProvider = trim_space p, HitResponse = nth_trimmed responses i, DelistURL = nth_trimmed urls i,
                                 Delisting = nth_trimmed steps i\<rparr>)
                    (filter (\<lambda>(i, p). trim_space p \<noteq> []) (enumerate 0 providers))))"

definition rspamdMetaFn :: "details \<Rightarrow> details" where
  "rspamdMetaFn d = (\<lambda>k. if has_prefix k ''sym:'' then None else d k)"

definition rspamdActionClass :: "gostring \<Rightarrow> gostring" where
  "rspamdActionClass action =
     (let a = to_lower (trim_space action)
      in if a = ''no action'' then ''success''
         else if a \<in> {''add header'', ''rewrite subject'', ''greylist''} then ''warning''
         else if a \<in> {''reject'', ''soft reject''} then ''danger''
         else ''secondary'')"

subsection \<open>Nothing is lost between analysis and page\<close>

lemma filter_partition:
  "distinct ks \<Longrightarrow> \<forall>x\<in>set xs. k x \<in> set ks \<Longrightarrow> mset (concat (map (\<lambda>n. filter (\<lambda>x. k x = n) xs) ks)) = mset xs"
proof (induction ks arbitrary: xs)
  case (Cons a ks)
  have "mset (concat (map (\<lambda>n. filter (\<lambda>x. k x = n) (filter (\<lambda>x. k x \<noteq> a) xs)) ks)) = mset (filter (\<lambda>x. k x \<noteq> a) xs)"
    using Cons.prems by (intro Cons.IH) auto
  moreover have "map (\<lambda>n. filter (\<lambda>x. k x = n) (filter (\<lambda>x. k x \<noteq> a) xs)) ks = map (\<lambda>n. filter (\<lambda>x. k x = n) xs) ks"
    using Cons.prems(1) by (auto simp: filter_filter intro!: filter_cong)
  ultimately have "mset (concat (map (\<lambda>n. filter (\<lambda>x. k x = n) xs) ks)) = mset (filter (\<lambda>x. k x \<noteq> a) xs)" by (simp only:)
  then show ?case by (simp add: multiset_partition [of "mset xs" "\<lambda>x. k x = a", symmetric])
qed simp

lemma concat_nonempty: "concat (map f (filter (\<lambda>n. f n \<noteq> []) ks)) = concat (map f ks)"
  by (induction ks) auto

lemma checkCategory_known: "checkCategory i \<in> set group_order"
  by (simp add: checkCategory_def group_order_def)

lemma grouped_checks:
  assumes "list_all (\<lambda>c. Category c = checkCategory (ID c)) cs"
  shows "mset (concat (map GroupChecks (groupReportChecks cs lg))) = mset cs"
proof -
  have "trim_space n = n \<and> n \<noteq> []" if "n \<in> set group_order" for n
  proof -
    have "list_all (\<lambda>n. trim_space n = n \<and> n \<noteq> []) group_order" by code_simp
    with that show ?thesis by (simp add: list_all_iff)
  qed
  then have "check_category c \<in> set group_order" if "c \<in> set cs" for c
    using that assms checkCategory_known [of "ID c"] by (auto simp: check_category_def Let_def list_all_iff)
  then have "mset (concat (map (\<lambda>n. filter (\<lambda>c. check_category c = n) cs) group_order)) = mset cs"
    by (intro filter_partition) (auto simp: group_order_def)
  then show ?thesis by (simp add: groupReportChecks_def report_group_def comp_def concat_nonempty)
qed

lemma count_statuses:
  "count_status (\<lambda>s. s = ''pass'') cs + count_status (\<lambda>s. s = ''warn'') cs + count_status (\<lambda>s. s = ''fail'') cs
   + count_status (\<lambda>s. s \<notin> {''pass'', ''warn'', ''fail'', ''na''}) cs + count_status (\<lambda>s. s = ''na'') cs = int (length cs)"
  by (induction cs) (auto simp: count_status_def)

lemma int_sum_list: "int (sum_list xs) = sum_list (map int xs)"
  by (induction xs) simp_all

lemma group_totals:
  "(\<Sum>g\<leftarrow>groupReportChecks cs lg. PassCount g + WarnCount g + FailCount g + InfoCount g + NACount g)
   = int (length (concat (map GroupChecks (groupReportChecks cs lg))))"
proof -
  have "PassCount g + WarnCount g + FailCount g + InfoCount g + NACount g = int (length (GroupChecks g))" if "g \<in> set (groupReportChecks cs lg)" for g
    using that count_statuses by (auto simp: groupReportChecks_def report_group_def Let_def)
  then have "map (\<lambda>g. PassCount g + WarnCount g + FailCount g + InfoCount g + NACount g) (groupReportChecks cs lg)
      = map (\<lambda>g. int (length (GroupChecks g))) (groupReportChecks cs lg)" by simp
  from arg_cong [OF this, of sum_list] show ?thesis by (simp add: length_concat comp_def int_sum_list)
qed

definition check_rank :: "CheckResult \<Rightarrow> int \<times> gostring" where
  "check_rank c = (status_rank (finding.Status c), Name c)"

lemma group_sorted:
  assumes "g \<in> set (groupReportChecks (sortChecks cs) lg)"
  shows "GroupChecks g \<noteq> [] \<and> sorted (map check_rank (GroupChecks g))"
proof -
  have "sorted (map check_rank (sortChecks cs))" by (simp add: sortChecks_def check_rank_def [abs_def] sorted_sort_key)
  then show ?thesis using assms by (auto simp: groupReportChecks_def report_group_def Let_def intro: sorted_filter)
qed


definition demo_check :: "gostring \<Rightarrow> gostring \<Rightarrow> gostring \<Rightarrow> CheckResult" where
  "demo_check i stt nm = finding.extend (enrichCheckResult (finding_of i stt 0))
     \<lparr>Name = nm, Summary = [], Suggestion = [], Explanation = [], Recommendation = [], DocLinks = [], NameEN = [], SummaryEN = [], ExplanationEN = [], RecommendationEN = []\<rparr>"


text \<open>The map of ranks has no entry for checks that do not apply: they are listed among the failures, before the warnings.\<close>

lemma na_sorted_with_failures:
  "map finding.Status (sortChecks [(c\<lparr>finding.Status := ''warn'', Name := ''A''\<rparr> :: CheckResult), c\<lparr>finding.Status := ''na'', Name := ''B''\<rparr>]) = [''na'', ''warn'']"
  by (simp add: sortChecks_def status_rank_def)

text \<open>A section that \<open>groupReportChecks\<close> does not know is not shown.\<close>

lemma unknown_category_hidden: "Category c = ''Sonstiges'' \<Longrightarrow> groupReportChecks [c] lg = []"
proof -
  assume "Category c = ''Sonstiges''"
  moreover have "trim_space ''Sonstiges'' = ''Sonstiges''" by code_simp
  ultimately show ?thesis by (simp add: groupReportChecks_def group_order_def check_category_def Let_def)
qed

subsection \<open>Labels\<close>

lemma techLabel_table: "techLabel lg key = (case techLabelTable lg key of Some v \<Rightarrow> v | None \<Rightarrow> humanizeKey key)"
  by (auto simp: techLabel_def techLabelTable_def map_add_def split: option.splits)

end
