(* ===== verification/Env_Migrate.thy ===== *)
theory Env_Migrate
  imports Config Content
begin

text \<open>
  \<open>internal/envmigrate/migrate.go\<close>: the list of known variables and \<open>MigrateFile\<close>, which appends the missing ones to the operator's file at start-up. The file is its
  contents; \<open>version.Version\<close> and the date are arguments. The reader is \<open>bufio.Scanner\<close> with its limit of 64 KiB per line.
\<close>

record VarDef =
  Key :: gostring
  Default :: gostring
  Comment :: gostring
  Group :: gostring

definition AllVars :: "VarDef list" where
  "AllVars = map (\<lambda>(k, d, c, g). \<lparr>Key = k, Default = d, Comment = c, Group = g\<rparr>)
     [(''APP_NAME'', ''Sender-Report'', ''Application display name'', ''App''),
      (''HTTP_LISTEN_ADDR'', '':8080'', ''Internal HTTP listen address inside the container'', ''Listen addresses (do NOT change when using Docker)''),
      (''SMTP_LISTEN_ADDR'', '':2525'', ''Internal SMTP listen address inside the container'', []),
      (''PUBLIC_BASE_URL'', [], ''Override auto-detected public base URL, e.g. https://sender-report.example.com'', ''Public URLs''),
      (''SMTP_DOMAIN'', [], ''SMTP domain for generated addresses; defaults to request host'', []),
      (''ENABLE_TLS'', ''false'', ''Enable built-in TLS for the web server'', ''TLS''),
      (''TLS_CERT_FILE'', [], ''Path to TLS certificate (required when ENABLE_TLS=true)'', []),
      (''TLS_KEY_FILE'', [], ''Path to TLS private key (required when ENABLE_TLS=true)'', []),
      (''FORCE_HTTPS'', ''false'', ''Redirect plain HTTP to HTTPS'', []),
      (''FORCE_HTTPS_EXEMPT_PATHS'', DefaultForceHTTPSExemptPaths, (''Paths that answer over plain HTTP although FORCE_HTTPS is set; an entry ending in / covers the paths below it, '' @ NoExemptPaths @ '' redirects every path''), []),
      (''SENDER_REPORT_IMAGE'', ''ghcr.io/brightcolor/sender-report:latest'', ''Container image used by docker-compose'', ''Docker / Compose''),
      (''HTTP_PORT'', ''9090'', ''Host port mapped to the web UI (container always uses :8080)'', []),
      (''SMTP_PORT'', ''25'', ''Host port for inbound SMTP (use 25 in production)'', []),
      (''HEALTHCHECK_URL'', ''http://127.0.0.1:9090/healthz'', ''Health-check URL used by the compose healthcheck'', []),
      (''DATA_DIR'', ''/data'', ''Base directory for persistent data'', ''Storage''),
      (''DB_PATH'', ''/data/sender-report.db'', ''Path to the SQLite database file'', []),
      (''MAILBOX_TTL'', ''24h'', ''How long a mailbox accepts incoming mail'', ''Lifetime & cleanup''),
      (''DATA_RETENTION_TTL'', ''168h'', ''How long emails and reports stay retrievable (7 days)'', []),
      (''CLEANUP_INTERVAL'', ''30m'', ''How often the cleanup job runs'', []),
      (''MAX_MESSAGE_BYTES'', ''2097152'', ''Maximum email size in bytes (2 MiB)'', ''Limits''),
      (''MAX_ACTIVE_MAILBOXES_PER_IP'', ''20'', ''Max active mailboxes per IP address'', []),
      (''MAX_ACTIVE_MAILBOXES_GLOBAL'', ''2000'', ''Max active mailboxes globally'', []),
      (''WEB_RATE_LIMIT_PER_MIN'', ''60'', ''Web requests allowed per minute per IP'', []),
      (''WEB_BURST_PER_10_SEC'', ''20'', ''Web request burst per 10 s per IP'', []),
      (''SMTP_RATE_LIMIT_PER_HOUR'', ''200'', ''SMTP connections allowed per hour per IP'', []),
      (''SMTP_BURST_PER_MIN'', ''40'', ''SMTP burst per minute per IP'', []),
      (''PAYLOAD_RATE_LIMIT_PER_MIN'', show_int DefaultPayloadRateLimitPerMin, (''Encrypted reports one IP may fetch per minute; rechecks and simulator runs count separately against the same number (1 to '' @ show_int MaxPayloadRateLimitPerMin @ '')''), []),
      (''TRUSTED_PROXY_CIDRS'', [], ''Comma-separated CIDRs whose X-Forwarded-For header is trusted'', []),
      (''ENABLE_RBL_CHECKS'', ''false'', ''Enable DNSBL/RBL IP reputation checks'', ''Optional checks''),
      (''RBL_PROVIDERS'', ''zen.spamhaus.org,bl.spamcop.net,b.barracudacentral.org,psbl.surriel.com,dnsbl.dronebl.org,bl.blocklist.de'', ''Comma-separated list of RBL zones'', []),
      (''DNS_FALLBACK_RESOLVERS'', ''1.1.1.1,8.8.8.8,9.9.9.9'', (''External resolvers asked for a TXT record (DKIM key, SPF, DMARC) the local resolver cannot find; '' @ [CHR 0x27] @ ''none'' @ [CHR 0x27] @ '' turns it off. They see the queried domain names''), []),
      (''DNS_FALLBACK_TIMEOUT'', ''2s'', ''How long each external resolver gets to answer (500ms to 10s)'', []),
      (''ENABLE_DOMAIN_AGE'', ''false'', ''Opt-in: domain registration age via RDAP (third-party rdap.org)'', []),
      (''ENABLE_DOMAIN_BLOCKLIST'', ''false'', ''Opt-in: sender/link domains against domain/URI blocklists (third-party)'', []),
      (''DOMAIN_BLOCKLIST_PROVIDERS'', ''dbl.spamhaus.org,multi.uribl.com'', ''Comma-separated domain/URI blocklist zones'', []),
      (''ENABLE_RSPAMD'', ''true'', (''Enable Rspamd integration (default: true '' @ [CHR 0xE2, CHR 0x80, CHR 0x94] @ '' requires rspamd service)''), []),
      (''RSPAMD_URL'', ''http://rspamd:11334/checkv2'', ''Rspamd checkv2 endpoint'', []),
      (''RSPAMD_PASSWORD'', [], ''Rspamd controller password (leave empty when using secure_ip)'', []),
      (''ENABLE_SPAMASSASSIN'', ''false'', ''Enable SpamAssassin integration (optional, disabled by default)'', []),
      (''SPAMASSASSIN_WARN_RATIO'', ''0.9'', ''Share of the spam limit from which the SpamAssassin finding warns (0.9 = from 4.5 of 5.0; 0.1 to 1.0)'', []),
      (''SPAMASSASSIN_HOSTPORT'', ''spamd:783'', ''SpamAssassin spamd address (only used when ENABLE_SPAMASSASSIN=true)'', []),
      (''ALERT_WEBHOOK_URL'', [], ''Webhook URL for error/warning notifications (JSON POST)'', ''Alerting''),
      (''PRIVACY_OPERATOR_NAME'', [], (''Legal name of the operator shown in the Datenschutzerkl'' @ [CHR 0xC3, CHR 0xA4] @ ''rung''), ''Privacy page''),
      (''PRIVACY_OPERATOR_ADDRESS'', [], ''Postal address of the operator'', []),
      (''PRIVACY_OPERATOR_EMAIL'', [], ''Contact email of the operator'', []),
      (''PRIVACY_HIDE_TEMPLATE_NOTE'', ''false'', (''Set to true to hide the '' @ [CHR 0x27] @ ''this is a template'' @ [CHR 0x27] @ '' notice once operator details are filled in''), []),
      (''UI_DEFAULT_THEME'', ''auto'', ''Display option for visitors who have not picked one: auto (follows the system), light, dark or werkbank'', ''Web interface''),
      (''COOKIE_SECURE'', ''auto'', ''Secure attribute of cookies: auto (HTTPS requests and an https:// PUBLIC_BASE_URL), always or never'', ''Cookies''),
      (''LANG_COOKIE_NAME'', ''sr_lang'', ''Cookie with the language picked in the switcher'', []),
      (''LANG_COOKIE_DAYS'', ''365'', ''Days the browser keeps the language choice (1 to 400)'', []),
      (''MAILBOX_COOKIE_NAME'', ''sr_mailbox'', ''Cookie with the mailbox created without JavaScript'', []),
      (''ENV_FILE'', ''/config/.env'', ''Path inside the container to the mounted .env file; enables automatic migration on startup'', ''Env migration''),
      (''IPT_RATE_LIMIT_PER_HOUR'', show_int DefaultIPTRateLimitPerHour, (''Placement tests one IP may start per hour (1 to '' @ show_int MaxIPTRateLimitPerHour @ '')''), ''Inbox placement testing''),
      (''IPT_TOKEN_LENGTH'', show_int DefaultIPTTokenLength, (''Hexadecimal characters in the subject token of a new placement test ('' @ show_int MinIPTTokenLength @ '' to '' @ show_int MaxIPTTokenLength @ ''); a test with a shorter token answers to it until it expires''), []),
      (''IPT_TEST_DURATION'', FormatDuration DefaultIPTTestDuration, (''How long a placement test waits for its message, in whole minutes ('' @ FormatDuration MinIPTTestDuration @ '' to '' @ FormatDuration MaxIPTTestDuration @ '')''), []),
      (''IPT_POLL_INTERVAL'', FormatDuration DefaultIPTPollInterval, (''Pause between two IMAP lookups in one seed account ('' @ FormatDuration MinIPTPollInterval @ '' to '' @ FormatDuration MaxIPTPollInterval @ ''), shorter than IPT_TEST_DURATION''), []),
      (''IPT_EVENTS_INTERVAL'', FormatDuration DefaultIPTEventsInterval, (''How often the open placement dialog receives the state of its test ('' @ FormatDuration MinIPTEventsInterval @ '' to '' @ FormatDuration MaxIPTEventsInterval @ '')''), []),
      (''IPT_SEARCH_MARGIN'', FormatDuration DefaultIPTSearchMargin, (''How far before the start of a test the IMAP search reaches back (0s to '' @ FormatDuration MaxIPTSearchMargin @ '')''), []),
      (''IPT_SPAM_FOLDERS'', DefaultIPTSpamFolders, (''Folders a placement test searches after INBOX, in this order (at most '' @ show_nat MaxIPTSpamFolders @ ''); '' @ NoSpamFolders @ '' searches INBOX alone''), [])]"

subsection \<open>Reading\<close>

definition MaxScanTokenSize :: nat where "MaxScanTokenSize = 64 * 1024"

definition scanned_lines :: "gostring \<Rightarrow> gostring list option" where
  "scanned_lines s = (if list_ex (\<lambda>l. MaxScanTokenSize \<le> length l) (raw_lines s) then None else Some (map (\<lambda>l. trim_suffix l [CR]) (raw_lines s)))"

definition line_key :: "gostring \<Rightarrow> gostring option" where
  "line_key line =
     (let trimmed = trim_space line
      in if trimmed = [] \<or> has_prefix trimmed ''#'' then None
         else (case cut (trim_prefix trimmed ''export '') ''='' of (before, after, found) \<Rightarrow>
           (let key = trim_space before in if key = [] then None else Some key)))"

definition parseEnvFile :: "gostring \<Rightarrow> (gostring set \<times> gostring list) option" where
  "parseEnvFile s = map_option (\<lambda>ls. (set (List.map_filter line_key ls), ls)) (scanned_lines s)"

subsection \<open>Migration\<close>

text \<open>The variables that are added, and the lines for them; the group is printed when it changes.\<close>

fun missing_lines :: "gostring set \<Rightarrow> gostring \<Rightarrow> VarDef list \<Rightarrow> gostring list" where
  "missing_lines existing currentGroup [] = []"
| "missing_lines existing currentGroup (v # vs) =
     (if Key v \<in> existing then missing_lines existing currentGroup vs
      else (let new = Group v \<noteq> [] \<and> Group v \<noteq> currentGroup
            in (if new then [[], (''# '' @ [CHR 0xE2, CHR 0x94, CHR 0x80, CHR 0xE2, CHR 0x94, CHR 0x80] @ '' '') @ Group v @ ('' '' @ [CHR 0xE2, CHR 0x94, CHR 0x80, CHR 0xE2, CHR 0x94, CHR 0x80])] else [])
               @ (if Comment v \<noteq> [] then [''# '' @ Comment v] else []) @ [Key v @ ''='' @ Default v]
               @ missing_lines existing (if new then Group v else currentGroup) vs))"

definition missing :: "gostring set \<Rightarrow> VarDef list" where
  "missing existing = filter (\<lambda>v. Key v \<notin> existing) AllVars"

definition rule_text :: gostring where
  "rule_text = (''# '' @ [CHR 0xE2, CHR 0x95, CHR 0x90, CHR 0xE2, CHR 0x95, CHR 0x90, CHR 0xE2, CHR 0x95, CHR 0x90, CHR 0xE2, CHR 0x95, CHR 0x90, CHR 0xE2, CHR 0x95, CHR 0x90, CHR 0xE2, CHR 0x95, CHR 0x90, CHR 0xE2, CHR 0x95, CHR 0x90, CHR 0xE2, CHR 0x95, CHR 0x90, CHR 0xE2, CHR 0x95, CHR 0x90, CHR 0xE2, CHR 0x95, CHR 0x90, CHR 0xE2, CHR 0x95, CHR 0x90, CHR 0xE2, CHR 0x95, CHR 0x90, CHR 0xE2, CHR 0x95, CHR 0x90, CHR 0xE2, CHR 0x95, CHR 0x90, CHR 0xE2, CHR 0x95, CHR 0x90, CHR 0xE2, CHR 0x95, CHR 0x90, CHR 0xE2, CHR 0x95, CHR 0x90, CHR 0xE2, CHR 0x95, CHR 0x90, CHR 0xE2, CHR 0x95, CHR 0x90, CHR 0xE2, CHR 0x95, CHR 0x90, CHR 0xE2, CHR 0x95, CHR 0x90, CHR 0xE2, CHR 0x95, CHR 0x90, CHR 0xE2, CHR 0x95, CHR 0x90, CHR 0xE2, CHR 0x95, CHR 0x90, CHR 0xE2, CHR 0x95, CHR 0x90, CHR 0xE2, CHR 0x95, CHR 0x90, CHR 0xE2, CHR 0x95, CHR 0x90, CHR 0xE2, CHR 0x95, CHR 0x90, CHR 0xE2, CHR 0x95, CHR 0x90, CHR 0xE2, CHR 0x95, CHR 0x90, CHR 0xE2, CHR 0x95, CHR 0x90, CHR 0xE2, CHR 0x95, CHR 0x90, CHR 0xE2, CHR 0x95, CHR 0x90, CHR 0xE2, CHR 0x95, CHR 0x90, CHR 0xE2, CHR 0x95, CHR 0x90, CHR 0xE2, CHR 0x95, CHR 0x90, CHR 0xE2, CHR 0x95, CHR 0x90, CHR 0xE2, CHR 0x95, CHR 0x90, CHR 0xE2, CHR 0x95, CHR 0x90, CHR 0xE2, CHR 0x95, CHR 0x90, CHR 0xE2, CHR 0x95, CHR 0x90, CHR 0xE2, CHR 0x95, CHR 0x90, CHR 0xE2, CHR 0x95, CHR 0x90, CHR 0xE2, CHR 0x95, CHR 0x90, CHR 0xE2, CHR 0x95, CHR 0x90, CHR 0xE2, CHR 0x95, CHR 0x90, CHR 0xE2, CHR 0x95, CHR 0x90, CHR 0xE2, CHR 0x95, CHR 0x90, CHR 0xE2, CHR 0x95, CHR 0x90, CHR 0xE2, CHR 0x95, CHR 0x90, CHR 0xE2, CHR 0x95, CHR 0x90, CHR 0xE2, CHR 0x95, CHR 0x90, CHR 0xE2, CHR 0x95, CHR 0x90, CHR 0xE2, CHR 0x95, CHR 0x90, CHR 0xE2, CHR 0x95, CHR 0x90, CHR 0xE2, CHR 0x95, CHR 0x90, CHR 0xE2, CHR 0x95, CHR 0x90, CHR 0xE2, CHR 0x95, CHR 0x90, CHR 0xE2, CHR 0x95, CHR 0x90, CHR 0xE2, CHR 0x95, CHR 0x90, CHR 0xE2, CHR 0x95, CHR 0x90, CHR 0xE2, CHR 0x95, CHR 0x90, CHR 0xE2, CHR 0x95, CHR 0x90, CHR 0xE2, CHR 0x95, CHR 0x90, CHR 0xE2, CHR 0x95, CHR 0x90, CHR 0xE2, CHR 0x95, CHR 0x90, CHR 0xE2, CHR 0x95, CHR 0x90, CHR 0xE2, CHR 0x95, CHR 0x90, CHR 0xE2, CHR 0x95, CHR 0x90, CHR 0xE2, CHR 0x95, CHR 0x90, CHR 0xE2, CHR 0x95, CHR 0x90, CHR 0xE2, CHR 0x95, CHR 0x90, CHR 0xE2, CHR 0x95, CHR 0x90, CHR 0xE2, CHR 0x95, CHR 0x90, CHR 0xE2, CHR 0x95, CHR 0x90, CHR 0xE2, CHR 0x95, CHR 0x90, CHR 0xE2, CHR 0x95, CHR 0x90, CHR 0xE2, CHR 0x95, CHR 0x90])"

definition header_block :: "gostring \<Rightarrow> gostring \<Rightarrow> gostring list" where
  "header_block ver today =
     [[], rule_text, ''# Auto-added by Sender-Report '' @ ver @ '' on '' @ today, ''# New variables were found that are not yet in this file.'',
      ''# Review the values below and restart the container when done.'', rule_text]"

definition unlines :: "gostring list \<Rightarrow> gostring" where
  "unlines ls = concat (map (\<lambda>l. l @ [LF]) ls)"

datatype env_file = NoFile | Unreadable | Contents gostring

datatype migration = Nothing_To_Do | Failed | Added "gostring list" gostring

definition MigrateFile :: "gostring \<Rightarrow> gostring \<Rightarrow> bool \<Rightarrow> gostring \<Rightarrow> env_file \<Rightarrow> migration" where
  "MigrateFile ver today writable path f =
     (if trim_space path = [] then Nothing_To_Do
      else (case f of
          NoFile \<Rightarrow> Nothing_To_Do
        | Unreadable \<Rightarrow> Failed
        | Contents s \<Rightarrow>
            (case parseEnvFile s of
               None \<Rightarrow> Failed
             | Some (existing, raw) \<Rightarrow>
                 if missing existing = [] then Nothing_To_Do
                 else if \<not> writable then Failed
                 else Added (map Key (missing existing)) (unlines (raw @ header_block ver today @ missing_lines existing [] AllVars @ [[]])))))"

subsection \<open>A line and its key\<close>

lemma space_len_CR:
  assumes "p \<noteq> []"
  shows "space_len utf8_spaces (p @ [CR]) = space_len utf8_spaces p"
proof -
  have "list_all (\<lambda>w. CR \<notin> set w) utf8_spaces" by (simp add: utf8_spaces_def)
  then have "has_prefix (p @ [CR]) w = has_prefix p w" if "w \<in> set utf8_spaces" for w
    using that by (auto simp: has_prefix_iff prefix_append list_all_iff prefix_Cons)
  then have "find (has_prefix (p @ [CR])) utf8_spaces = find (has_prefix p) utf8_spaces"
    by (intro find_cong) auto
  with assms show ?thesis by (cases p) (simp_all add: space_len_def)
qed

lemma skip_space_CR: "skip_space utf8_spaces (p @ [CR]) = (if skip_space utf8_spaces p = [] then [] else skip_space utf8_spaces p @ [CR])"
proof (induction p rule: length_induct)
  case (1 p)
  show ?case
  proof (cases "p = []")
    case True
    have "skip_space utf8_spaces [CR] = []" by code_simp
    with True show ?thesis by simp
  next
    case False
    show ?thesis
    proof (cases "space_len utf8_spaces p = 0")
      case True
      with False show ?thesis by (simp add: space_len_CR)
    next
      case nz: False
      let ?k = "space_len utf8_spaces p"
      have "length w \<le> length p" if "find (has_prefix p) utf8_spaces = Some w" for w
        using that by (auto simp: find_Some_iff has_prefix_iff dest: prefix_length_le)
      then have le: "?k \<le> length p" using False by (cases p) (auto simp: space_len_def split: option.splits)
      have "skip_space utf8_spaces (p @ [CR]) = skip_space utf8_spaces (drop ?k p @ [CR])"
        using False nz le by (subst skip_space.simps) (simp add: space_len_CR)
      moreover have "skip_space utf8_spaces p = skip_space utf8_spaces (drop ?k p)" using False nz by (subst skip_space.simps) simp
      ultimately show ?thesis using 1 False nz by simp
    qed
  qed
qed

lemma CR_space: "is_ascii_char CR" "ascii_space CR" and hash_no_space: "is_ascii_char (CHR ''#'')" "\<not> ascii_space (CHR ''#'')"
  by code_simp+

lemma trim_space_CR: "trim_space (p @ [CR]) = trim_space p"
proof -
  have "trim_right_space (q @ [CR]) = trim_right_space q" for q
  proof -
    have "space_len (map rev utf8_spaces) (CR # rev q) = 1" using CR_space by (simp add: space_len_def)
    then show ?thesis by (simp add: trim_right_space_def skip_space.simps [of _ "CR # rev q"])
  qed
  then show ?thesis by (simp add: trim_space_def trim_left_space_def skip_space_CR)
qed

lemma line_key_CR: "line_key (trim_suffix l [CR]) = line_key l"
proof (cases "has_suffix l [CR]")
  case True
  then obtain p where "l = p @ [CR]" by (auto elim: has_suffixE)
  then show ?thesis by (simp add: line_key_def trim_space_CR)
qed (simp add: trim_suffix_def)

lemma line_key_comment: "line_key (CHR ''#'' # l) = None"
proof -
  have "space_len utf8_spaces (CHR ''#'' # l) = 0" using hash_no_space by (simp add: space_len_def)
  then have t: "trim_space (CHR ''#'' # l) = trim_right_space (CHR ''#'' # l)" by (simp add: trim_space_def trim_left_space_def)
  have "prefix (trim_space (CHR ''#'' # l)) (CHR ''#'' # l)" unfolding t by (rule trim_right_space_prefix)
  then show ?thesis by (cases "trim_space (CHR ''#'' # l)") (auto simp: line_key_def has_prefix_iff)
qed

subsection \<open>The file after a migration\<close>

lemma split_unlines: "list_all (\<lambda>l. LF \<notin> set l) ls \<Longrightarrow> split LF (unlines ls) = ls @ [[]]"
  by (induction ls) (simp_all add: unlines_def)

lemma raw_lines_unlines: "list_all (\<lambda>l. LF \<notin> set l) ls \<Longrightarrow> raw_lines (unlines ls) = ls"
  by (simp add: raw_lines_def split_unlines)

lemma raw_lines_no_LF: "list_all (\<lambda>l. LF \<notin> set l) (raw_lines s)"
proof -
  have "set (butlast xs) \<subseteq> set xs" for xs :: "gostring list" by (auto dest: in_set_butlastD)
  then have "set (raw_lines s) \<subseteq> set (split LF s)" by (auto simp: raw_lines_def Let_def)
  then show ?thesis using split_no_sep [of _ LF s] by (auto simp: list_all_iff)
qed

text \<open>What the proofs need of the table: the line of a variable is read back as its key, everything fits on a line.\<close>

definition sound_entry :: "VarDef \<Rightarrow> bool" where
  "sound_entry v = (line_key (Key v @ ''='' @ Default v) = Some (Key v) \<and> LF \<notin> set (Key v @ Default v @ Comment v @ Group v)
     \<and> length (Key v) + length (Default v) + length (Comment v) + length (Group v) < 1000)"

lemma AllVars_sound: "list_all sound_entry AllVars"
  by code_simp

lemma missing_lines_keys:
  "list_all sound_entry vs \<Longrightarrow> List.map_filter line_key (missing_lines ex g vs) = map Key (filter (\<lambda>v. Key v \<notin> ex) vs)"
proof (induction vs arbitrary: g)
  case (Cons v vs)
  have [simp]: "line_key [] = None" by code_simp
  show ?case using Cons
    by (simp add: sound_entry_def List.map_filter_def line_key_comment Let_def)
qed (simp add: List.map_filter_def)

definition short_line :: "gostring \<Rightarrow> bool" where
  "short_line l = (LF \<notin> set l \<and> length l < 2000)"

lemma short_line_fits: "short_line l \<Longrightarrow> LF \<notin> set l \<and> length l < MaxScanTokenSize"
  by (simp add: short_line_def MaxScanTokenSize_def)

lemma missing_lines_short: "list_all sound_entry vs \<Longrightarrow> list_all short_line (missing_lines ex g vs)"
  by (induction vs arbitrary: g) (simp_all add: sound_entry_def short_line_def Let_def)

lemma header_block_short:
  "LF \<notin> set ver \<Longrightarrow> LF \<notin> set today \<Longrightarrow> length ver + length today < 1000 \<Longrightarrow> list_all short_line (header_block ver today)"
  by (simp add: header_block_def short_line_def rule_text_def)

lemma header_block_keys: "List.map_filter line_key (header_block ver today) = []"
proof -
  have "line_key [] = None" by code_simp
  then show ?thesis by (simp add: header_block_def List.map_filter_def line_key_comment rule_text_def)
qed

text \<open>A file whose lines all fit is read completely; a second trimming of line ends changes no key.\<close>

lemma parse_unlines:
  assumes "list_all (\<lambda>l. LF \<notin> set l \<and> length l < MaxScanTokenSize) ls"
  shows "parseEnvFile (unlines ls) = Some (set (List.map_filter line_key ls), map (\<lambda>l. trim_suffix l [CR]) ls)"
proof -
  have "list_all (\<lambda>l. LF \<notin> set l) ls" using assms by (simp add: list_all_iff)
  then have "raw_lines (unlines ls) = ls" by (rule raw_lines_unlines)
  moreover have "\<not> list_ex (\<lambda>l. MaxScanTokenSize \<le> length l) ls" using assms by (auto simp: list_ex_iff list_all_iff)
  moreover have "List.map_filter line_key (map (\<lambda>l. trim_suffix l [CR]) ls) = List.map_filter line_key ls"
    by (induction ls) (simp_all add: List.map_filter_def line_key_CR)
  ultimately show ?thesis by (simp add: parseEnvFile_def scanned_lines_def)
qed

lemma trim_suffix_shorter: "length (trim_suffix l [CR]) \<le> length l" "set (trim_suffix l [CR]) \<subseteq> set l"
  by (auto simp: trim_suffix_def dest: in_set_takeD)

lemma parsed_lines_fit:
  assumes "parseEnvFile s = Some (existing, raw)"
  shows "list_all (\<lambda>l. LF \<notin> set l \<and> length l < MaxScanTokenSize) raw" "existing = set (List.map_filter line_key raw)"
proof -
  have raw: "raw = map (\<lambda>l. trim_suffix l [CR]) (raw_lines s)" "\<not> list_ex (\<lambda>l. MaxScanTokenSize \<le> length l) (raw_lines s)"
    using assms by (auto simp: parseEnvFile_def scanned_lines_def split: if_splits)
  show "list_all (\<lambda>l. LF \<notin> set l \<and> length l < MaxScanTokenSize) raw"
    using raw(2) raw_lines_no_LF [of s] trim_suffix_shorter unfolding raw(1)
    by (fastforce simp: list_all_iff list_ex_iff not_le intro: le_less_trans)
  show "existing = set (List.map_filter line_key raw)" using assms by (auto simp: parseEnvFile_def scanned_lines_def split: if_splits)
qed

text \<open>
  C33: A migration keeps the operator's file and completes it: the lines that were there are kept in order at the start, every known
  variable is defined afterwards, exactly the missing ones were added and none that was there is defined again, and a further migration, whenever and with whichever version, has nothing to do.
\<close>

theorem migration_completes_file:
  assumes "MigrateFile ver today writable path (Contents s) = Added added s'" "parseEnvFile s = Some (existing, raw)"
    and "LF \<notin> set ver" "LF \<notin> set today" "length ver + length today < 1000"
  shows "(\<exists>rest. parseEnvFile s' = Some (existing \<union> set added, map (\<lambda>l. trim_suffix l [CR]) raw @ rest))
    \<and> existing \<union> set added = existing \<union> Key ` set AllVars \<and> existing \<inter> set added = {} \<and> distinct added
    \<and> MigrateFile ver' today' writable' path (Contents s') = Nothing_To_Do"
proof -
  let ?new = "header_block ver today @ missing_lines existing [] AllVars @ [[]]"
  have s': "s' = unlines (raw @ ?new)" and added: "added = map Key (missing existing)"
    using assms(1,2) by (auto simp: MigrateFile_def split: if_splits)
  have "list_all short_line ?new"
    using header_block_short [OF assms(3-5)] missing_lines_short [OF AllVars_sound] by (simp add: short_line_def)
  then have "list_all (\<lambda>l. LF \<notin> set l \<and> length l < MaxScanTokenSize) ?new" by (rule list.pred_mono_strong) (rule short_line_fits)
  then have fit: "list_all (\<lambda>l. LF \<notin> set l \<and> length l < MaxScanTokenSize) (raw @ ?new)"
    using parsed_lines_fit(1) [OF assms(2)] by simp
  have "line_key [] = None" by code_simp
  then have "set (List.map_filter line_key (raw @ ?new)) = existing \<union> set added"
    using header_block_keys missing_lines_keys [OF AllVars_sound] parsed_lines_fit(2) [OF assms(2)]
    by (simp add: List.map_filter_def added missing_def)
  then have parse: "parseEnvFile s' = Some (existing \<union> set added, map (\<lambda>l. trim_suffix l [CR]) (raw @ ?new))"
    unfolding s' using parse_unlines [OF fit] by simp
  moreover have all: "existing \<union> set added = existing \<union> Key ` set AllVars" by (auto simp: added missing_def)
  moreover have "missing (existing \<union> set added) = []" unfolding all by (simp add: missing_def filter_empty_conv)
  moreover have "distinct (map Key AllVars)" by code_simp
  ultimately show ?thesis by (auto simp: MigrateFile_def added missing_def distinct_map_filter)
qed

subsection \<open>The defaults that are written\<close>

definition default_value :: "gostring \<Rightarrow> gostring" where
  "default_value k = (case map_of (map (\<lambda>v. (Key v, Default v)) AllVars) k of Some d \<Rightarrow> d | None \<Rightarrow> [])"

definition default_table :: "(gostring \<times> gostring) list" where
  "default_table =
     [(''APP_NAME'', ''Sender-Report''),
      (''HTTP_LISTEN_ADDR'', '':8080''),
      (''SMTP_LISTEN_ADDR'', '':2525''),
      (''PUBLIC_BASE_URL'', []),
      (''SMTP_DOMAIN'', []),
      (''ENABLE_TLS'', ''false''),
      (''TLS_CERT_FILE'', []),
      (''TLS_KEY_FILE'', []),
      (''FORCE_HTTPS'', ''false''),
      (''FORCE_HTTPS_EXEMPT_PATHS'', ''/healthz,/readyz''),
      (''SENDER_REPORT_IMAGE'', ''ghcr.io/brightcolor/sender-report:latest''),
      (''HTTP_PORT'', ''9090''),
      (''SMTP_PORT'', ''25''),
      (''HEALTHCHECK_URL'', ''http://127.0.0.1:9090/healthz''),
      (''DATA_DIR'', ''/data''),
      (''DB_PATH'', ''/data/sender-report.db''),
      (''MAILBOX_TTL'', ''24h''),
      (''DATA_RETENTION_TTL'', ''168h''),
      (''CLEANUP_INTERVAL'', ''30m''),
      (''MAX_MESSAGE_BYTES'', ''2097152''),
      (''MAX_ACTIVE_MAILBOXES_PER_IP'', ''20''),
      (''MAX_ACTIVE_MAILBOXES_GLOBAL'', ''2000''),
      (''WEB_RATE_LIMIT_PER_MIN'', ''60''),
      (''WEB_BURST_PER_10_SEC'', ''20''),
      (''SMTP_RATE_LIMIT_PER_HOUR'', ''200''),
      (''SMTP_BURST_PER_MIN'', ''40''),
      (''PAYLOAD_RATE_LIMIT_PER_MIN'', ''30''),
      (''TRUSTED_PROXY_CIDRS'', []),
      (''ENABLE_RBL_CHECKS'', ''false''),
      (''RBL_PROVIDERS'', ''zen.spamhaus.org,bl.spamcop.net,b.barracudacentral.org,psbl.surriel.com,dnsbl.dronebl.org,bl.blocklist.de''),
      (''DNS_FALLBACK_RESOLVERS'', ''1.1.1.1,8.8.8.8,9.9.9.9''),
      (''DNS_FALLBACK_TIMEOUT'', ''2s''),
      (''ENABLE_DOMAIN_AGE'', ''false''),
      (''ENABLE_DOMAIN_BLOCKLIST'', ''false''),
      (''DOMAIN_BLOCKLIST_PROVIDERS'', ''dbl.spamhaus.org,multi.uribl.com''),
      (''ENABLE_RSPAMD'', ''true''),
      (''RSPAMD_URL'', ''http://rspamd:11334/checkv2''),
      (''RSPAMD_PASSWORD'', []),
      (''ENABLE_SPAMASSASSIN'', ''false''),
      (''SPAMASSASSIN_WARN_RATIO'', ''0.9''),
      (''SPAMASSASSIN_HOSTPORT'', ''spamd:783''),
      (''ALERT_WEBHOOK_URL'', []),
      (''PRIVACY_OPERATOR_NAME'', []),
      (''PRIVACY_OPERATOR_ADDRESS'', []),
      (''PRIVACY_OPERATOR_EMAIL'', []),
      (''PRIVACY_HIDE_TEMPLATE_NOTE'', ''false''),
      (''UI_DEFAULT_THEME'', ''auto''),
      (''COOKIE_SECURE'', ''auto''),
      (''LANG_COOKIE_NAME'', ''sr_lang''),
      (''LANG_COOKIE_DAYS'', ''365''),
      (''MAILBOX_COOKIE_NAME'', ''sr_mailbox''),
      (''ENV_FILE'', ''/config/.env''),
      (''IPT_RATE_LIMIT_PER_HOUR'', ''3''),
      (''IPT_TOKEN_LENGTH'', ''32''),
      (''IPT_TEST_DURATION'', ''10m''),
      (''IPT_POLL_INTERVAL'', ''30s''),
      (''IPT_EVENTS_INTERVAL'', ''5s''),
      (''IPT_SEARCH_MARGIN'', ''2m''),
      (''IPT_SPAM_FOLDERS'', [CHR ''S'', CHR ''p'', CHR ''a'', CHR ''m'', CHR '','', CHR ''J'', CHR ''u'', CHR ''n'', CHR ''k'', CHR '','', CHR ''['', CHR ''G'', CHR ''m'', CHR ''a'', CHR ''i'', CHR ''l'', CHR '']'', CHR ''/'', CHR ''S'', CHR ''p'', CHR ''a'', CHR ''m'', CHR '','', CHR ''B'', CHR ''u'', CHR ''l'', CHR ''k'', SP, CHR ''M'', CHR ''a'', CHR ''i'', CHR ''l'', CHR '','', CHR ''B'', CHR ''u'', CHR ''l'', CHR ''k'', CHR '','', CHR ''J'', CHR ''u'', CHR ''n'', CHR ''k'', SP, CHR ''E'', CHR ''-'', CHR ''M'', CHR ''a'', CHR ''i'', CHR ''l''])]"

lemma default_table: "map (\<lambda>v. (Key v, Default v)) AllVars = default_table"
  by code_simp

lemma default_value_table [code]: "default_value k = (case map_of default_table k of Some d \<Rightarrow> d | None \<Rightarrow> [])"
  by (simp add: default_value_def default_table)

text \<open>The environment of the program after the variables \<open>added\<close> were written with their defaults.\<close>

definition migrated :: "gostring list \<Rightarrow> (gostring \<Rightarrow> gostring) \<Rightarrow> gostring \<Rightarrow> gostring" where
  "migrated added env k = (if k \<in> set added then default_value k else env k)"

text \<open>Each written default is the value that the program uses without the variable.\<close>

lemma defaults_agree:
  "getEnvIntChecked default_value ''LANG_COOKIE_DAYS'' 365 = Inr 365"
  "getEnvIntChecked default_value ''PAYLOAD_RATE_LIMIT_PER_MIN'' DefaultPayloadRateLimitPerMin = Inr DefaultPayloadRateLimitPerMin"
  "getEnvIntChecked default_value ''IPT_RATE_LIMIT_PER_HOUR'' DefaultIPTRateLimitPerHour = Inr DefaultIPTRateLimitPerHour"
  "getEnvIntChecked default_value ''IPT_TOKEN_LENGTH'' DefaultIPTTokenLength = Inr DefaultIPTTokenLength"
  "getEnvDurationChecked default_value ''IPT_TEST_DURATION'' DefaultIPTTestDuration = Inr DefaultIPTTestDuration"
  "getEnvDurationChecked default_value ''IPT_POLL_INTERVAL'' DefaultIPTPollInterval = Inr DefaultIPTPollInterval"
  "getEnvDurationChecked default_value ''IPT_EVENTS_INTERVAL'' DefaultIPTEventsInterval = Inr DefaultIPTEventsInterval"
  "getEnvDurationChecked default_value ''IPT_SEARCH_MARGIN'' DefaultIPTSearchMargin = Inr DefaultIPTSearchMargin"
  "getEnv default_value ''HTTP_LISTEN_ADDR'' '':8080'' = '':8080''"
  "getEnvBool default_value ''ENABLE_TLS'' False = False"
  "getEnv default_value ''TLS_CERT_FILE'' [] = []"
  "getEnv default_value ''TLS_KEY_FILE'' [] = []"
  "getEnvBool default_value ''FORCE_HTTPS'' False = False"
  "getEnv default_value ''SMTP_LISTEN_ADDR'' '':2525'' = '':2525''"
  "getEnv default_value ''PUBLIC_BASE_URL'' [] = []"
  "getEnv default_value ''SMTP_DOMAIN'' [] = []"
  "getEnv default_value ''DB_PATH'' ''/data/sender-report.db'' = ''/data/sender-report.db''"
  "getEnv default_value ''DATA_DIR'' ''/data'' = ''/data''"
  "getEnvDuration default_value ''MAILBOX_TTL'' (24 * hour) = (24 * hour)"
  "getEnvDuration default_value ''DATA_RETENTION_TTL'' (7 * 24 * hour) = (7 * 24 * hour)"
  "getEnvDuration default_value ''CLEANUP_INTERVAL'' (30 * minute) = (30 * minute)"
  "getEnvInt64 default_value ''MAX_MESSAGE_BYTES'' (2 * 1024 * 1024) = (2 * 1024 * 1024)"
  "getEnvInt default_value ''MAX_ACTIVE_MAILBOXES_PER_IP'' 20 = 20"
  "getEnvInt default_value ''MAX_ACTIVE_MAILBOXES_GLOBAL'' 2000 = 2000"
  "getEnvInt default_value ''WEB_RATE_LIMIT_PER_MIN'' 60 = 60"
  "getEnvInt default_value ''WEB_BURST_PER_10_SEC'' 20 = 20"
  "getEnvInt default_value ''SMTP_RATE_LIMIT_PER_HOUR'' 200 = 200"
  "getEnvInt default_value ''SMTP_BURST_PER_MIN'' 40 = 40"
  "getEnvBool default_value ''ENABLE_RBL_CHECKS'' False = False"
  "getEnv default_value ''RBL_PROVIDERS'' ''zen.spamhaus.org,bl.spamcop.net,b.barracudacentral.org,psbl.surriel.com,dnsbl.dronebl.org,bl.blocklist.de'' = ''zen.spamhaus.org,bl.spamcop.net,b.barracudacentral.org,psbl.surriel.com,dnsbl.dronebl.org,bl.blocklist.de''"
  "getEnvBool default_value ''ENABLE_DOMAIN_AGE'' False = False"
  "getEnvBool default_value ''ENABLE_DOMAIN_BLOCKLIST'' False = False"
  "getEnv default_value ''DOMAIN_BLOCKLIST_PROVIDERS'' ''dbl.spamhaus.org,multi.uribl.com'' = ''dbl.spamhaus.org,multi.uribl.com''"
  "getEnvBool default_value ''ENABLE_BROKEN_LINKS'' False = False"
  "getEnvBool default_value ''ENABLE_SPAMASSASSIN'' False = False"
  "getEnv default_value ''SPAMASSASSIN_HOSTPORT'' ''spamd:783'' = ''spamd:783''"
  "getEnv default_value ''RSPAMD_URL'' ''http://rspamd:11334/checkv2'' = ''http://rspamd:11334/checkv2''"
  "getEnv default_value ''RSPAMD_PASSWORD'' [] = []"
  "getEnv default_value ''ALERT_WEBHOOK_URL'' [] = []"
  "getEnv default_value ''TRUSTED_PROXY_CIDRS'' [] = []"
  "getEnv default_value ''PRIVACY_OPERATOR_NAME'' [] = []"
  "getEnv default_value ''PRIVACY_OPERATOR_ADDRESS'' [] = []"
  "getEnv default_value ''PRIVACY_OPERATOR_EMAIL'' [] = []"
  "getEnvBool default_value ''PRIVACY_HIDE_TEMPLATE_NOTE'' False = False"
  "getEnvBool default_value ''ENABLE_INBOX_PLACEMENT'' False = False"
  "getEnv default_value ''SEED_ACCOUNTS_FILE'' [] = []"
  "getEnvDuration default_value ''IPT_CHECK_INTERVAL'' (6 * hour) = (6 * hour)"
  "getEnv default_value ''IPT_ALERT_EMAIL'' [] = []"
  "getEnv default_value ''IPT_ALERT_SMTP_ADDR'' [] = []"
  "getEnv default_value ''IPT_ALERT_SMTP_FROM'' [] = []"
  "getEnv default_value ''IPT_ALERT_SMTP_USER'' [] = []"
  "getEnv default_value ''IPT_ALERT_SMTP_PASS'' [] = []"
  "getEnvBool default_value ''IPT_ALERT_INCLUDE_RAW_ERRORS'' True = True"
  "getEnv default_value ''IPT_SPAM_FOLDERS'' DefaultIPTSpamFolders = DefaultIPTSpamFolders"
  "getEnv default_value ''UI_DEFAULT_THEME'' ''auto'' = ''auto''"
  "getEnv default_value ''COOKIE_SECURE'' ''auto'' = ''auto''"
  "getEnv default_value ''LANG_COOKIE_NAME'' ''sr_lang'' = ''sr_lang''"
  "getEnv default_value ''MAILBOX_COOKIE_NAME'' ''sr_mailbox'' = ''sr_mailbox''"
  "getEnv default_value ''FORCE_HTTPS_EXEMPT_PATHS'' DefaultForceHTTPSExemptPaths = DefaultForceHTTPSExemptPaths"
  "getEnv default_value ''DNS_FALLBACK_RESOLVERS'' DefaultResolvers = DefaultResolvers"
  "getEnvDurationChecked default_value ''DNS_FALLBACK_TIMEOUT'' DefaultTimeout = Inr DefaultTimeout"
  by code_simp+

lemma migrated_access:
  assumes "k \<in> set added \<Longrightarrow> env k = []"
  shows "getEnv default_value k d = d \<Longrightarrow> getEnv (migrated added env) k d = getEnv env k d"
    and "getEnvInt default_value k n = n \<Longrightarrow> getEnvInt (migrated added env) k n = getEnvInt env k n"
    and "getEnvInt64 default_value k n = n \<Longrightarrow> getEnvInt64 (migrated added env) k n = getEnvInt64 env k n"
    and "getEnvBool default_value k b = b \<Longrightarrow> getEnvBool (migrated added env) k b = getEnvBool env k b"
    and "getEnvDuration default_value k n = n \<Longrightarrow> getEnvDuration (migrated added env) k n = getEnvDuration env k n"
    and "getEnvIntChecked default_value k n = Inr n \<Longrightarrow> getEnvIntChecked (migrated added env) k n = getEnvIntChecked env k n"
    and "getEnvDurationChecked default_value k n = Inr n \<Longrightarrow> getEnvDurationChecked (migrated added env) k n = getEnvDurationChecked env k n"
  using assms
  by (auto simp: migrated_def getEnv_def getEnvInt_def getEnvInt64_def getEnvBool_def getEnvDuration_def getEnvIntChecked_def getEnvDurationChecked_def Let_def)

lemma migrated_ratio:
  assumes "''SPAMASSASSIN_WARN_RATIO'' \<in> set added \<Longrightarrow> env ''SPAMASSASSIN_WARN_RATIO'' = []"
  shows "loadSpamAssassinWarnRatio (migrated added env) cfg = loadSpamAssassinWarnRatio env cfg"
proof -
  have v: "trim_space (default_value ''SPAMASSASSIN_WARN_RATIO'') = ''0.9''"
    "ParseFloat (replace_all '','' ''.'' ''0.9'') = Some (Fin DefaultSpamAssassinWarnRatio)" by code_simp+
  show ?thesis using assms v by (auto simp: loadSpamAssassinWarnRatio_def migrated_def Let_def)
qed

text \<open>
  C34: Writing the missing variables into the operator's file does not change the configuration: with every variable but two, what the
  migration writes is what the program uses when the variable is not set, so that the configuration that is loaded, or the error that is reported, stays the same.
  The two are \<open>APP_NAME\<close> and \<open>ENABLE_RSPAMD\<close>.
\<close>

theorem migration_keeps_configuration:
  assumes "\<forall>k\<in>set added. env k = [] \<and> k \<noteq> ''APP_NAME'' \<and> k \<noteq> ''ENABLE_RSPAMD''"
  shows "Load (migrated added env) = Load env"
proof -
  have unset: "k \<in> set added \<Longrightarrow> env k = []" for k using assms by blast
  have "migrated added env ''APP_NAME'' = env ''APP_NAME''" "migrated added env ''ENABLE_RSPAMD'' = env ''ENABLE_RSPAMD''"
    using assms by (auto simp: migrated_def)
  then have two: "getEnv (migrated added env) ''APP_NAME'' d = getEnv env ''APP_NAME'' d"
      "getEnvBool (migrated added env) ''ENABLE_RSPAMD'' b = getEnvBool env ''ENABLE_RSPAMD'' b" for d b
    by (simp_all add: getEnv_def getEnvBool_def)
  note same = two migrated_access [of _ added env, OF unset] defaults_agree
  have "environment_config (migrated added env) = environment_config env"
    unfolding environment_config_def [abs_def] by (simp only: same)
  moreover have "loadDNSFallback (migrated added env) = loadDNSFallback env"
    unfolding loadDNSFallback_def [abs_def] by (simp only: same)
  moreover have "loadSpamAssassinWarnRatio (migrated added env) = loadSpamAssassinWarnRatio env"
    by (intro ext migrated_ratio unset)
  ultimately show ?thesis unfolding Load_def by (simp only: same)
qed

theorem migration_keeps_configuration_witness:
  "Load (migrated [''MAILBOX_TTL'', ''RBL_PROVIDERS'', ''IPT_SPAM_FOLDERS''] demo_environment) = Load demo_environment"
  by (rule migration_keeps_configuration) (simp add: demo_environment_def)

text \<open>The other two: an operator whose file does not mention them gets another name, and Rspamd switched on.\<close>

lemma migration_switches_rspamd_on:
  "\<exists>cfg. Load (\<lambda>k. []) = Inr cfg \<and> Load (migrated [''APP_NAME'', ''ENABLE_RSPAMD''] (\<lambda>k. []))
     = Inr (cfg\<lparr>AppName := ''Sender-Report'', EnableRspamd := True\<rparr>) \<and> \<not> EnableRspamd cfg \<and> AppName cfg = ''sender.report''"
proof -
  have "case Load (\<lambda>k. []) of Inl e \<Rightarrow> False | Inr cfg \<Rightarrow> Load (migrated [''APP_NAME'', ''ENABLE_RSPAMD''] (\<lambda>k. []))
     = Inr (cfg\<lparr>AppName := ''Sender-Report'', EnableRspamd := True\<rparr>) \<and> \<not> EnableRspamd cfg \<and> AppName cfg = ''sender.report''" by code_simp
  then show ?thesis by (auto split: sum.splits)
qed

definition demo_file :: gostring where "demo_file = ''APP_NAME=Test'' @ [CR, LF] @ ''export SMTP_PORT = 2525'' @ [LF]"

lemma demo_file_parsed: "parseEnvFile demo_file = Some ({''APP_NAME'', ''SMTP_PORT''}, [''APP_NAME=Test'', ''export SMTP_PORT = 2525''])"
proof -
  have "raw_lines demo_file = [''APP_NAME=Test'' @ [CR], ''export SMTP_PORT = 2525'']" by code_simp
  moreover have "line_key ''APP_NAME=Test'' = Some ''APP_NAME''" "line_key ''export SMTP_PORT = 2525'' = Some ''SMTP_PORT''"
    "trim_suffix (''APP_NAME=Test'' @ [CR]) [CR] = ''APP_NAME=Test''" "trim_suffix ''export SMTP_PORT = 2525'' [CR] = ''export SMTP_PORT = 2525''" by code_simp+
  ultimately show ?thesis by (simp add: parseEnvFile_def scanned_lines_def MaxScanTokenSize_def List.map_filter_simps)
qed

theorem migration_completes_file_witness:
  "\<exists>added s'. MigrateFile ''v1'' ''2025-01-01'' True ''/config/.env'' (Contents demo_file) = Added added s' \<and> ''MAILBOX_TTL'' \<in> set added \<and> ''SMTP_PORT'' \<notin> set added
    \<and> MigrateFile ''v2'' ''2026-01-01'' True ''/config/.env'' (Contents s') = Nothing_To_Do"
proof -
  have p: "trim_space ''/config/.env'' \<noteq> []" and m: "''MAILBOX_TTL'' \<in> set (map Key (missing {''APP_NAME'', ''SMTP_PORT''}))" by code_simp+
  then have "missing {''APP_NAME'', ''SMTP_PORT''} \<noteq> []" by auto
  with p obtain added s' where a: "MigrateFile ''v1'' ''2025-01-01'' True ''/config/.env'' (Contents demo_file) = Added added s'"
      "added = map Key (missing {''APP_NAME'', ''SMTP_PORT''})"
    by (simp add: MigrateFile_def demo_file_parsed)
  have lf: "LF \<notin> set ''v1''" "LF \<notin> set ''2025-01-01''" by code_simp+
  from migration_completes_file [OF a(1) demo_file_parsed lf] a m show ?thesis by auto
qed

end
