(* ===== verification/Guides.thy ===== *)
theory Guides
  imports Web Regex "HOL-Library.Char_ord" "HOL-Library.List_Lexorder"
begin

text \<open>
  The guides (\<open>web/guides.go\<close>, \<open>web/guides_content.go\<close>) and the sitemap (\<open>web/seo.go\<close>). The texts are those of the source. A page is the data
  that its template shows; the JSON-LD of a page is the text that \<open>json.Marshal\<close> writes. Objects are written with their keys in order, as
  \<open>encoding/json\<close> does for a map.
\<close>

subsection \<open>The texts\<close>

record guideSection =
  Heading :: gostring
  Paragraphs :: "gostring list"
  Items :: "gostring list"
  Code :: gostring

record guideFAQ =
  FQ :: gostring
  FA :: gostring

record guideText =
  Title :: gostring
  Description :: gostring
  H1 :: gostring
  Lead :: gostring
  Sections :: "guideSection list"
  FAQ :: "guideFAQ list"

record guide =
  Slug :: gostring
  Updated :: gostring
  Icon :: gostring
  Related :: "gostring list"
  GDE :: guideText
  GEN :: guideText

definition deliverability_DE :: guideText where
  "deliverability_DE = \<lparr>Title = (''E-Mail-Zustellbarkeit verbessern: Checkliste f'' @ [CHR 0xC3, CHR 0xBC] @ ''r SPF, DKIM, DMARC & Spam-Score''),
     Description = ''Warum Mails im Spam landen und wie du es behebst: Checkliste zu SPF, DKIM, DMARC, Reverse-DNS, Blacklists, Spam-Score und Inhalt. Mit kostenlosem Test.'',
     H1 = ''E-Mail-Zustellbarkeit verbessern'', Lead = (''Ob eine Mail im Posteingang oder im Spam-Ordner landet, entscheiden Empf'' @ [CHR 0xC3, CHR 0xA4] @ ''nger-Server anhand von drei Gruppen: Authentifizierung, Infrastruktur und Inhalt. Diese Checkliste geht sie der Reihe nach durch.''),
     Sections = [\<lparr>Heading = ''1. Authentifizierung: SPF, DKIM und DMARC'', Paragraphs = [(''Die drei Verfahren beweisen, dass eine Mail von deiner Domain stammt und unterwegs unver'' @ [CHR 0xC3, CHR 0xA4] @ ''ndert blieb. Gmail, Yahoo und Outlook erwarten sie von jedem, der gr'' @ [CHR 0xC3, CHR 0xB6, CHR 0xC3, CHR 0x9F] @ ''ere Mengen versendet.'')],
          Items = [(''SPF legt fest, welche Server f'' @ [CHR 0xC3, CHR 0xBC] @ ''r deine Domain senden d'' @ [CHR 0xC3, CHR 0xBC] @ ''rfen.''), ''DKIM versieht jede Mail mit einer kryptografischen Signatur.'', (''DMARC sagt dem Empf'' @ [CHR 0xC3, CHR 0xA4] @ ''nger, was bei fehlgeschlagener Pr'' @ [CHR 0xC3, CHR 0xBC] @ ''fung geschehen soll, und liefert dir Berichte.'')], Code = []\<rparr>,
        \<lparr>Heading = ''2. Infrastruktur: Reverse-DNS, HELO, TLS und IP-Ruf'', Paragraphs = [(''Der sendende Server braucht einen passenden PTR-Record, einen HELO-Namen, der zur IP geh'' @ [CHR 0xC3, CHR 0xB6] @ ''rt, und eine verschl'' @ [CHR 0xC3, CHR 0xBC] @ ''sselte Verbindung per STARTTLS. Steht die IP auf einer Blacklist, helfen die besten Inhalte wenig.'')],
          Items = [], Code = []\<rparr>,
        \<lparr>Heading = ''3. Inhalt und Format'', Paragraphs = [(''Spamfilter bewerten Aufbau und Text. Hilfreich sind ein sauberer Plaintext-Teil neben dem HTML, ein aussagekr'' @ [CHR 0xC3, CHR 0xA4] @ ''ftiger Betreff, ein ausgewogenes Verh'' @ [CHR 0xC3, CHR 0xA4] @ ''ltnis von Text und Bildern, ausgeschriebene Links statt Kurz-URLs und bei Newslettern ein List-Unsubscribe-Header mit One-Click-Abmeldung.'')],
          Items = [], Code = []\<rparr>,
        \<lparr>Heading = ''So gehst du vor'', Paragraphs = [],
          Items = [''Sende eine Testmail an die Adresse, die sender.report dir anzeigt.'', ([CHR 0xC3, CHR 0x96] @ ''ffne den Bericht und arbeite die Befunde nach Wichtigkeit ab: erst Fehler, dann Warnungen.''), (''Hast du im DNS etwas ge'' @ [CHR 0xC3, CHR 0xA4] @ ''ndert, klicke im Bericht auf '' @ [CHR 0xE2, CHR 0x80, CHR 0x9E] @ ''DNS neu abfragen & neu bewerten'' @ [CHR 0xE2, CHR 0x80, CHR 0x9C] @ ''. Die Testmail muss daf'' @ [CHR 0xC3, CHR 0xBC] @ ''r nicht erneut gesendet werden.''), (''Wiederhole den Test, bis keine Fehler '' @ [CHR 0xC3, CHR 0xBC] @ ''brig sind und der Wert im gr'' @ [CHR 0xC3, CHR 0xBC] @ ''nen Bereich liegt.'')], Code = []\<rparr>],
     FAQ = [\<lparr>FQ = ''Was ist ein guter Zustellbarkeits-Wert?'', FA = ''Bei sender.report gelten Werte ab 9 von 10 als ausgezeichnet und ab 7,5 als gut. Wichtiger als die Zahl sind die Befunde: SPF, DKIM, DMARC und Reverse-DNS sollten bestehen.''\<rparr>,
        \<lparr>FQ = ''Warum landet meine Mail im Spam, obwohl SPF und DKIM bestehen?'', FA = (''H'' @ [CHR 0xC3, CHR 0xA4] @ ''ufige Gr'' @ [CHR 0xC3, CHR 0xBC] @ ''nde sind eine schlechte IP-Reputation, Blacklist-Eintr'' @ [CHR 0xC3, CHR 0xA4] @ ''ge, ein auff'' @ [CHR 0xC3, CHR 0xA4] @ ''lliger Inhalt oder fehlende Alignment-'' @ [CHR 0xC3, CHR 0x9C] @ ''bereinstimmung zwischen From-Adresse und der signierenden Domain.'')\<rparr>,
        \<lparr>FQ = (''Muss ich f'' @ [CHR 0xC3, CHR 0xBC] @ ''r den Test ein Konto anlegen?''), FA = (''Nein, der Test arbeitet mit einer tempor'' @ [CHR 0xC3, CHR 0xA4] @ ''ren Mailbox. Die Berichte sind Ende-zu-Ende-verschl'' @ [CHR 0xC3, CHR 0xBC] @ ''sselt.'')\<rparr>]\<rparr>"

definition deliverability_EN :: guideText where
  "deliverability_EN = \<lparr>Title = ''Improve email deliverability: a checklist for SPF, DKIM, DMARC and spam score'',
     Description = ''Why mail lands in spam and how to fix it: a checklist covering SPF, DKIM, DMARC, reverse DNS, blacklists, spam score and content. With a free test.'',
     H1 = ''Improve email deliverability'', Lead = ''Receiving servers decide between inbox and spam folder based on three groups of signals: authentication, infrastructure and content. This checklist walks through them in order.'',
     Sections = [\<lparr>Heading = ''1. Authentication: SPF, DKIM and DMARC'', Paragraphs = [''The three standards prove that a message comes from your domain and arrived unchanged. Gmail, Yahoo and Outlook expect them from anyone who sends larger volumes.''],
          Items = [''SPF lists the servers that may send for your domain.'', ''DKIM adds a cryptographic signature to every message.'', ''DMARC tells receivers what to do when a check fails and sends you reports.''], Code = []\<rparr>,
        \<lparr>Heading = ''2. Infrastructure: reverse DNS, HELO, TLS and IP reputation'', Paragraphs = [''The sending server needs a matching PTR record, a HELO name that belongs to its IP and an encrypted connection through STARTTLS. If the IP sits on a blacklist, even the best content helps little.''],
          Items = [], Code = []\<rparr>,
        \<lparr>Heading = ''3. Content and format'', Paragraphs = [''Spam filters score structure and text. A clean plain-text part next to the HTML, a meaningful subject, a balanced ratio of text to images, spelled-out links instead of short URLs and, for newsletters, a List-Unsubscribe header with one-click unsubscribe all help.''],
          Items = [], Code = []\<rparr>,
        \<lparr>Heading = ''How to proceed'', Paragraphs = [],
          Items = [''Send a test message to the address sender.report shows you.'', ''Open the report and work through the findings by importance: errors first, then warnings.'', (''After you change something in DNS, click '' @ [CHR 0xE2, CHR 0x80, CHR 0x9C] @ ''Re-query DNS & re-score'' @ [CHR 0xE2, CHR 0x80, CHR 0x9D] @ '' in the report. You do not need to send the test mail again.''), ''Repeat the test until no errors remain and the score is in the green range.''], Code = []\<rparr>],
     FAQ = [\<lparr>FQ = ''What is a good deliverability score?'', FA = ''On sender.report a score of 9 out of 10 or higher is excellent and 7.5 or higher is good. The findings matter more than the number: SPF, DKIM, DMARC and reverse DNS should pass.''\<rparr>,
        \<lparr>FQ = ''Why does my mail land in spam although SPF and DKIM pass?'', FA = ''Common reasons are a poor IP reputation, blacklist entries, conspicuous content or missing alignment between the From address and the signing domain.''\<rparr>,
        \<lparr>FQ = ''Do I need an account for the test?'', FA = ''No. The test uses a temporary mailbox, and reports are end-to-end encrypted.''\<rparr>]\<rparr>"

definition spf_DE :: guideText where
  "spf_DE = \<lparr>Title = (''SPF pr'' @ [CHR 0xC3, CHR 0xBC] @ ''fen und einrichten: Syntax, 10-Lookup-Limit und h'' @ [CHR 0xC3, CHR 0xA4] @ ''ufige Fehler''),
     Description = (''SPF-Record erkl'' @ [CHR 0xC3, CHR 0xA4] @ ''rt: Aufbau, ~all oder -all, das Limit von 10 DNS-Abfragen und die h'' @ [CHR 0xC3, CHR 0xA4] @ ''ufigsten Fehler. Mit Beispiel und kostenlosem SPF-Test.''),
     H1 = (''SPF pr'' @ [CHR 0xC3, CHR 0xBC] @ ''fen und einrichten''), Lead = (''SPF (Sender Policy Framework) ist eine Liste in deinem DNS, die festh'' @ [CHR 0xC3, CHR 0xA4] @ ''lt, welche Server E-Mails f'' @ [CHR 0xC3, CHR 0xBC] @ ''r deine Domain verschicken d'' @ [CHR 0xC3, CHR 0xBC] @ ''rfen. Der Empf'' @ [CHR 0xC3, CHR 0xA4] @ ''nger vergleicht die IP des einliefernden Servers mit dieser Liste.''),
     Sections = [\<lparr>Heading = ''So sieht ein SPF-Record aus'', Paragraphs = [(''Ein SPF-Record ist ein TXT-Eintrag auf der Domain, der mit v=spf1 beginnt. Danach folgen die erlaubten Absender und am Ende eine Regel f'' @ [CHR 0xC3, CHR 0xBC] @ ''r alle anderen.'')],
          Items = [], Code = (''example.org.  IN TXT  '' @ [CHR 0x22] @ ''v=spf1 mx include:_spf.google.com ip4:203.0.113.25 -all'' @ [CHR 0x22])\<rparr>,
        \<lparr>Heading = ''Die wichtigsten Bausteine'', Paragraphs = [],
          Items = [''mx: die Server aus den MX-Records der Domain.'', ''a: die IP-Adresse der Domain selbst.'', ''ip4: und ip6: einzelne Adressen oder Netze.'', ''include: die SPF-Liste eines Dienstes, etwa deines Mailanbieters oder Newsletter-Tools.'', (''-all lehnt alle anderen ab, ~all markiert sie als verd'' @ [CHR 0xC3, CHR 0xA4] @ ''chtig (Softfail).'')], Code = []\<rparr>,
        \<lparr>Heading = (''H'' @ [CHR 0xC3, CHR 0xA4] @ ''ufige Fehler''), Paragraphs = [],
          Items = [''Zwei SPF-Records auf derselben Domain. Es darf genau einer existieren, sonst ist das Ergebnis ein Fehler.'', (''Mehr als 10 DNS-Abfragen. include, a, mx, ptr, exists und redirect z'' @ [CHR 0xC3, CHR 0xA4] @ ''hlen mit; wer das Limit '' @ [CHR 0xC3, CHR 0xBC] @ ''berschreitet, erh'' @ [CHR 0xC3, CHR 0xA4] @ ''lt einen permanenten Fehler.''), ''Ein Versanddienst fehlt in der Liste, etwa das Newsletter-Tool oder der Kontaktformular-Server.'', ''+all am Ende erlaubt jedem Server den Versand und entwertet den Record.''], Code = []\<rparr>,
        \<lparr>Heading = ''~all oder -all?'', Paragraphs = [''Starte mit ~all, solange du nicht sicher bist, dass alle Absender in der Liste stehen. Sobald DMARC-Berichte keine unbekannten Quellen mehr zeigen, stelle auf -all um.''],
          Items = [], Code = []\<rparr>,
        \<lparr>Heading = ''Was SPF nicht leistet'', Paragraphs = [(''SPF pr'' @ [CHR 0xC3, CHR 0xBC] @ ''ft die Envelope-Adresse (Return-Path) und '' @ [CHR 0xC3, CHR 0xBC] @ ''berlebt keine Weiterleitung. F'' @ [CHR 0xC3, CHR 0xBC] @ ''r DMARC muss diese Adresse zur sichtbaren From-Domain passen (Alignment). DKIM erg'' @ [CHR 0xC3, CHR 0xA4] @ ''nzt SPF an genau diesen Stellen.'')],
          Items = [], Code = []\<rparr>],
     FAQ = [\<lparr>FQ = ''Wie viele SPF-Records darf eine Domain haben?'', FA = (''Genau einen. Mehrere Records f'' @ [CHR 0xC3, CHR 0xBC] @ ''hren zu einem permanenten Fehler.'')\<rparr>,
        \<lparr>FQ = ''Was bedeutet das Limit von 10 DNS-Abfragen?'', FA = (''Ein Empf'' @ [CHR 0xC3, CHR 0xA4] @ ''nger darf bei der Auswertung h'' @ [CHR 0xC3, CHR 0xB6] @ ''chstens zehn DNS-Abfragen ausl'' @ [CHR 0xC3, CHR 0xB6] @ ''sen (RFC 7208). Verschachtelte include-Eintr'' @ [CHR 0xC3, CHR 0xA4] @ ''ge z'' @ [CHR 0xC3, CHR 0xA4] @ ''hlen mit. Bei '' @ [CHR 0xC3, CHR 0x9C] @ ''berschreitung gilt der Record als ung'' @ [CHR 0xC3, CHR 0xBC] @ ''ltig.'')\<rparr>,
        \<lparr>FQ = (''Pr'' @ [CHR 0xC3, CHR 0xBC] @ ''ft sender.report SPF wirklich?''), FA = (''Ja. sender.report wertet den Record gegen die tats'' @ [CHR 0xC3, CHR 0xA4] @ ''chliche IP deiner Testmail aus, statt nur das Vorhandensein zu pr'' @ [CHR 0xC3, CHR 0xBC] @ ''fen.'')\<rparr>]\<rparr>"

definition spf_EN :: guideText where
  "spf_EN = \<lparr>Title = ''Check and set up SPF: syntax, the 10-lookup limit and common mistakes'',
     Description = ''The SPF record explained: structure, ~all versus -all, the limit of 10 DNS lookups and the most common mistakes. With an example and a free SPF test.'',
     H1 = ''Check and set up SPF'', Lead = ''SPF (Sender Policy Framework) is a list in your DNS that states which servers may send email for your domain. The receiver compares the IP of the delivering server with that list.'',
     Sections = [\<lparr>Heading = ''What an SPF record looks like'', Paragraphs = [''An SPF record is a TXT entry on the domain that starts with v=spf1. It lists the permitted senders and ends with a rule for everyone else.''],
          Items = [], Code = (''example.org.  IN TXT  '' @ [CHR 0x22] @ ''v=spf1 mx include:_spf.google.com ip4:203.0.113.25 -all'' @ [CHR 0x22])\<rparr>,
        \<lparr>Heading = ''The main building blocks'', Paragraphs = [],
          Items = [(''mx: the servers in the domain'' @ [CHR 0x27] @ ''s MX records.''), ''a: the IP address of the domain itself.'', ''ip4: and ip6: single addresses or networks.'', ''include: the SPF list of a service such as your mail provider or newsletter tool.'', ''-all rejects everyone else, ~all marks them as suspicious (softfail).''], Code = []\<rparr>,
        \<lparr>Heading = ''Common mistakes'', Paragraphs = [],
          Items = [''Two SPF records on the same domain. Exactly one may exist, otherwise the result is an error.'', ''More than 10 DNS lookups. include, a, mx, ptr, exists and redirect all count; exceeding the limit produces a permanent error.'', ''A sending service is missing from the list, such as the newsletter tool or the contact-form server.'', ''+all at the end allows every server to send and makes the record worthless.''], Code = []\<rparr>,
        \<lparr>Heading = ''~all or -all?'', Paragraphs = [''Start with ~all while you are unsure that every sender is on the list. Once DMARC reports show no unknown sources, switch to -all.''],
          Items = [], Code = []\<rparr>,
        \<lparr>Heading = ''What SPF cannot do'', Paragraphs = [''SPF checks the envelope address (Return-Path) and breaks on forwarding. For DMARC, that address has to match the visible From domain (alignment). DKIM covers exactly those gaps.''],
          Items = [], Code = []\<rparr>],
     FAQ = [\<lparr>FQ = ''How many SPF records may a domain have?'', FA = ''Exactly one. Several records cause a permanent error.''\<rparr>,
        \<lparr>FQ = ''What does the limit of 10 DNS lookups mean?'', FA = ''A receiver may trigger at most ten DNS lookups while evaluating the record (RFC 7208). Nested include entries count. Above the limit the record is invalid.''\<rparr>,
        \<lparr>FQ = ''Does sender.report really check SPF?'', FA = ''Yes. sender.report evaluates the record against the actual IP of your test mail instead of only checking that a record exists.''\<rparr>]\<rparr>"

definition dkim_DE :: guideText where
  "dkim_DE = \<lparr>Title = (''DKIM pr'' @ [CHR 0xC3, CHR 0xBC] @ ''fen und einrichten: Selector, Schl'' @ [CHR 0xC3, CHR 0xBC] @ ''ssell'' @ [CHR 0xC3, CHR 0xA4] @ ''nge und typische Fehler''),
     Description = (''DKIM erkl'' @ [CHR 0xC3, CHR 0xA4] @ ''rt: Selector, DNS-Record, 2048-Bit-Schl'' @ [CHR 0xC3, CHR 0xBC] @ ''ssel und die h'' @ [CHR 0xC3, CHR 0xA4] @ ''ufigsten Fehler wie fehlender Schl'' @ [CHR 0xC3, CHR 0xBC] @ ''ssel oder ver'' @ [CHR 0xC3, CHR 0xA4] @ ''nderter Inhalt. Mit kostenlosem DKIM-Test.''),
     H1 = (''DKIM pr'' @ [CHR 0xC3, CHR 0xBC] @ ''fen und einrichten''), Lead = (''DKIM (DomainKeys Identified Mail) versieht jede Mail mit einer Signatur. Den passenden '' @ [CHR 0xC3, CHR 0xB6] @ ''ffentlichen Schl'' @ [CHR 0xC3, CHR 0xBC] @ ''ssel hinterlegst du im DNS, und der Empf'' @ [CHR 0xC3, CHR 0xA4] @ ''nger pr'' @ [CHR 0xC3, CHR 0xBC] @ ''ft damit, dass die Mail von deiner Domain stammt und unterwegs unver'' @ [CHR 0xC3, CHR 0xA4] @ ''ndert blieb.''),
     Sections = [\<lparr>Heading = ''Wie DKIM funktioniert'', Paragraphs = [(''Dein Mailserver signiert ausgehende Mails mit einem privaten Schl'' @ [CHR 0xC3, CHR 0xBC] @ ''ssel und schreibt die Signatur in den Header DKIM-Signature. Darin stehen die Domain (d=) und der Selector (s=). Aus beiden ergibt sich der Name des DNS-Eintrags, in dem der '' @ [CHR 0xC3, CHR 0xB6] @ ''ffentliche Schl'' @ [CHR 0xC3, CHR 0xBC] @ ''ssel liegt.'')],
          Items = [], Code = (''dkim._domainkey.example.org.  IN TXT  '' @ [CHR 0x22] @ ''v=DKIM1; k=rsa; p=MIIBIjANBgkqhkiG9w0BAQEFAAOCAQ8A'' @ [CHR 0xE2, CHR 0x80, CHR 0xA6, CHR 0x22])\<rparr>,
        \<lparr>Heading = ''Empfehlungen'', Paragraphs = [],
          Items = [(''RSA-Schl'' @ [CHR 0xC3, CHR 0xBC] @ ''ssel mit 2048 Bit verwenden. 1024 Bit gelten noch als g'' @ [CHR 0xC3, CHR 0xBC] @ ''ltig, Gmail und andere empfehlen 2048.''), ''Mit rsa-sha256 signieren. rsa-sha1 ist laut RFC 8301 veraltet.'', (''Die Signatur-Domain (d=) sollte zur sichtbaren From-Domain passen, damit DKIM f'' @ [CHR 0xC3, CHR 0xBC] @ ''r DMARC z'' @ [CHR 0xC3, CHR 0xA4] @ ''hlt.''), (''Schl'' @ [CHR 0xC3, CHR 0xBC] @ ''ssel gelegentlich wechseln und daf'' @ [CHR 0xC3, CHR 0xBC] @ ''r einen neuen Selector anlegen.'')], Code = []\<rparr>,
        \<lparr>Heading = (''H'' @ [CHR 0xC3, CHR 0xA4] @ ''ufige Fehler''), Paragraphs = [],
          Items = [(''Der Schl'' @ [CHR 0xC3, CHR 0xBC] @ ''ssel fehlt im DNS oder liegt unter einem anderen Selector, als die Signatur nennt.''), (''Der Record enth'' @ [CHR 0xC3, CHR 0xA4] @ ''lt mehrere TXT-Eintr'' @ [CHR 0xC3, CHR 0xA4] @ ''ge, ein leeres p= (widerrufener Schl'' @ [CHR 0xC3, CHR 0xBC] @ ''ssel) oder Zeilenumbr'' @ [CHR 0xC3, CHR 0xBC] @ ''che und Anf'' @ [CHR 0xC3, CHR 0xBC] @ ''hrungszeichen, die beim Einf'' @ [CHR 0xC3, CHR 0xBC] @ ''gen im DNS-Panel mitkopiert wurden.''), (''Der Inhalt wurde nach dem Signieren ver'' @ [CHR 0xC3, CHR 0xA4] @ ''ndert, etwa durch einen Footer, einen Disclaimer oder eine Mailingliste. Dann stimmt der Body-Hash nicht mehr.''), (''Das Tag l= (Body-Length) l'' @ [CHR 0xC3, CHR 0xA4] @ ''sst zu, dass Inhalt angeh'' @ [CHR 0xC3, CHR 0xA4] @ ''ngt wird, und wird von strengen Pr'' @ [CHR 0xC3, CHR 0xBC] @ ''fern abgelehnt.'')], Code = []\<rparr>,
        \<lparr>Heading = (''So pr'' @ [CHR 0xC3, CHR 0xBC] @ ''fst du es''), Paragraphs = [(''Sende eine Testmail an sender.report. Der Bericht nennt Selector, Domain und den abgefragten DNS-Namen und sagt, ob der Record fehlt, fehlerhaft ist oder der DNS-Server nicht geantwortet hat. Nach einer '' @ [CHR 0xC3, CHR 0x84] @ ''nderung im DNS fragst du mit einem Klick alles neu ab.'')],
          Items = [], Code = []\<rparr>],
     FAQ = [\<lparr>FQ = ''Was ist ein DKIM-Selector?'', FA = (''Der Selector ist ein frei gew'' @ [CHR 0xC3, CHR 0xA4] @ ''hlter Name, der den Schl'' @ [CHR 0xC3, CHR 0xBC] @ ''ssel unter deiner Domain eindeutig macht. Er erm'' @ [CHR 0xC3, CHR 0xB6] @ ''glicht mehrere Schl'' @ [CHR 0xC3, CHR 0xBC] @ ''ssel parallel, etwa beim Wechsel.'')\<rparr>,
        \<lparr>FQ = (''Wo trage ich den DKIM-Schl'' @ [CHR 0xC3, CHR 0xBC] @ ''ssel ein?''), FA = (''Als TXT-Record unter selector._domainkey.deine-domain.de. Der Wert beginnt mit v=DKIM1 und enth'' @ [CHR 0xC3, CHR 0xA4] @ ''lt den '' @ [CHR 0xC3, CHR 0xB6] @ ''ffentlichen Schl'' @ [CHR 0xC3, CHR 0xBC] @ ''ssel im Feld p=.'')\<rparr>,
        \<lparr>FQ = (''Warum meldet der Test, der Schl'' @ [CHR 0xC3, CHR 0xBC] @ ''ssel sei nicht gefunden, obwohl der Record existiert?''), FA = (''Ein zwischengespeicherter Negativ-Eintrag im DNS kann eine frische '' @ [CHR 0xC3, CHR 0x84] @ ''nderung verdecken. sender.report fragt deshalb zus'' @ [CHR 0xC3, CHR 0xA4] @ ''tzlich externe Resolver ab und erlaubt eine Neuabfrage per Klick.'')\<rparr>]\<rparr>"

definition dkim_EN :: guideText where
  "dkim_EN = \<lparr>Title = ''Check and set up DKIM: selector, key length and typical mistakes'',
     Description = ''DKIM explained: selector, DNS record, 2048-bit keys and the most common mistakes such as a missing key or modified content. With a free DKIM test.'',
     H1 = ''Check and set up DKIM'', Lead = ''DKIM (DomainKeys Identified Mail) adds a signature to every message. You publish the matching public key in DNS, and the receiver uses it to verify that the message came from your domain and arrived unchanged.'',
     Sections = [\<lparr>Heading = ''How DKIM works'', Paragraphs = [''Your mail server signs outgoing mail with a private key and writes the signature into the DKIM-Signature header. It names the domain (d=) and the selector (s=). Together they give the name of the DNS entry that holds the public key.''],
          Items = [], Code = (''dkim._domainkey.example.org.  IN TXT  '' @ [CHR 0x22] @ ''v=DKIM1; k=rsa; p=MIIBIjANBgkqhkiG9w0BAQEFAAOCAQ8A'' @ [CHR 0xE2, CHR 0x80, CHR 0xA6, CHR 0x22])\<rparr>,
        \<lparr>Heading = ''Recommendations'', Paragraphs = [],
          Items = [''Use RSA keys with 2048 bits. 1024 bits are still valid, Gmail and others recommend 2048.'', ''Sign with rsa-sha256. rsa-sha1 is deprecated by RFC 8301.'', ''The signing domain (d=) should match the visible From domain so DKIM counts for DMARC.'', ''Rotate keys now and then and publish a new selector for it.''], Code = []\<rparr>,
        \<lparr>Heading = ''Common mistakes'', Paragraphs = [],
          Items = [''The key is missing in DNS or sits under another selector than the signature names.'', ''The record holds several TXT entries, an empty p= (a revoked key), or line breaks and quotes that were copied along when pasting into the DNS panel.'', ''The content changed after signing, for example through a footer, a disclaimer or a mailing list. The body hash no longer matches.'', ''The l= tag (body length) allows content to be appended and strict verifiers reject it.''], Code = []\<rparr>,
        \<lparr>Heading = ''How to check it'', Paragraphs = [''Send a test mail to sender.report. The report names the selector, the domain and the DNS name it queried, and says whether the record is missing, malformed or the DNS server did not answer. After a DNS change you query everything again with one click.''],
          Items = [], Code = []\<rparr>],
     FAQ = [\<lparr>FQ = ''What is a DKIM selector?'', FA = ''The selector is a freely chosen name that makes the key unique under your domain. It allows several keys in parallel, for example during a rotation.''\<rparr>,
        \<lparr>FQ = ''Where do I publish the DKIM key?'', FA = ''As a TXT record at selector._domainkey.your-domain.com. The value starts with v=DKIM1 and carries the public key in the p= field.''\<rparr>,
        \<lparr>FQ = ''Why does the test say the key was not found although the record exists?'', FA = ''A cached negative answer in DNS can hide a fresh change. sender.report therefore also asks external resolvers and lets you query again with one click.''\<rparr>]\<rparr>"

definition dmarc_DE :: guideText where
  "dmarc_DE = \<lparr>Title = (''DMARC pr'' @ [CHR 0xC3, CHR 0xBC] @ ''fen und einrichten: Policy none, quarantine, reject und Berichte''),
     Description = (''DMARC erkl'' @ [CHR 0xC3, CHR 0xA4] @ ''rt: Record, Policy none, quarantine und reject, Alignment, Subdomain-Policy sp= und der sichere Weg zu p=reject. Mit kostenlosem DMARC-Test.''),
     H1 = (''DMARC pr'' @ [CHR 0xC3, CHR 0xBC] @ ''fen und einrichten''), Lead = (''DMARC sagt dem Empf'' @ [CHR 0xC3, CHR 0xA4] @ ''nger, was mit Mails geschehen soll, die vorgeben von deiner Domain zu stammen, aber SPF und DKIM nicht bestehen. Zus'' @ [CHR 0xC3, CHR 0xA4] @ ''tzlich schickt es dir Berichte, wer in deinem Namen sendet.''),
     Sections = [\<lparr>Heading = ''Der DMARC-Record'', Paragraphs = [''DMARC liegt als TXT-Record unter _dmarc.deine-domain. Ein erster Eintrag zum Beobachten sieht so aus:''],
          Items = [], Code = (''_dmarc.example.org.  IN TXT  '' @ [CHR 0x22] @ ''v=DMARC1; p=none; rua=mailto:dmarc@example.org'' @ [CHR 0x22])\<rparr>,
        \<lparr>Heading = ''Die Policy p='', Paragraphs = [],
          Items = [(''p=none beobachtet nur und sch'' @ [CHR 0xC3, CHR 0xBC] @ ''tzt noch nicht.''), ''p=quarantine verschiebt durchgefallene Mails in den Spam-Ordner.'', (''p=reject lehnt sie ab und bietet den st'' @ [CHR 0xC3, CHR 0xA4] @ ''rksten Schutz vor F'' @ [CHR 0xC3, CHR 0xA4] @ ''lschungen deiner Domain.'')], Code = []\<rparr>,
        \<lparr>Heading = ''Alignment'', Paragraphs = [(''DMARC besteht, wenn SPF oder DKIM besteht und die gepr'' @ [CHR 0xC3, CHR 0xBC] @ ''fte Domain zur sichtbaren From-Domain passt. Mit aspf und adkim w'' @ [CHR 0xC3, CHR 0xA4] @ ''hlst du zwischen relaxed (Subdomains erlaubt) und strict (exakte '' @ [CHR 0xC3, CHR 0x9C] @ ''bereinstimmung).'')],
          Items = [], Code = []\<rparr>,
        \<lparr>Heading = ''Subdomains und pct'', Paragraphs = [(''Mit sp= legst du eine eigene Policy f'' @ [CHR 0xC3, CHR 0xBC] @ ''r Subdomains fest. Steht dort none, sind alle Subdomains ungesch'' @ [CHR 0xC3, CHR 0xBC] @ ''tzt, obwohl die Hauptdomain gesch'' @ [CHR 0xC3, CHR 0xBC] @ ''tzt ist. Mit pct= wendest du die Policy nur auf einen Teil der Mails an. F'' @ [CHR 0xC3, CHR 0xBC] @ ''r vollen Schutz bleibt pct unter 100 nicht dauerhaft stehen.'')],
          Items = [], Code = []\<rparr>,
        \<lparr>Heading = ''Der sichere Weg zu p=reject'', Paragraphs = [],
          Items = [''Mit p=none und einer rua-Adresse starten und die Berichte lesen.'', ''Alle legitimen Absender in SPF und DKIM aufnehmen, bis die Berichte keine unbekannten Quellen zeigen.'', ''Auf p=quarantine wechseln, danach auf p=reject.''], Code = []\<rparr>],
     FAQ = [\<lparr>FQ = ''Brauche ich DMARC wirklich?'', FA = (''Gmail und Yahoo verlangen seit 2024 von Massenversendern SPF, DKIM und einen DMARC-Record. Auch f'' @ [CHR 0xC3, CHR 0xBC] @ ''r kleine Versender senkt ein DMARC-Record das Risiko, dass Dritte deine Domain f'' @ [CHR 0xC3, CHR 0xA4] @ ''lschen.'')\<rparr>,
        \<lparr>FQ = ''Was bedeutet rua?'', FA = (''rua ist die Adresse, an die Empf'' @ [CHR 0xC3, CHR 0xA4] @ ''nger t'' @ [CHR 0xC3, CHR 0xA4] @ ''gliche Zusammenfassungen senden. Sie zeigen, welche Server mit deiner Domain Mails versenden und ob SPF und DKIM bestehen.'')\<rparr>,
        \<lparr>FQ = ''Warum ist sp=none ein Risiko?'', FA = (''Die Policy der Hauptdomain gilt dann nicht f'' @ [CHR 0xC3, CHR 0xBC] @ ''r Subdomains. Angreifer nutzen genau solche L'' @ [CHR 0xC3, CHR 0xBC] @ ''cken f'' @ [CHR 0xC3, CHR 0xBC] @ ''r F'' @ [CHR 0xC3, CHR 0xA4] @ ''lschungen.'')\<rparr>]\<rparr>"

definition dmarc_EN :: guideText where
  "dmarc_EN = \<lparr>Title = ''Check and set up DMARC: policy none, quarantine, reject and reports'',
     Description = ''DMARC explained: the record, policy none, quarantine and reject, alignment, the subdomain policy sp= and the safe path to p=reject. With a free DMARC test.'',
     H1 = ''Check and set up DMARC'', Lead = ''DMARC tells a receiver what to do with mail that claims to come from your domain but fails SPF and DKIM. It also sends you reports on who sends in your name.'',
     Sections = [\<lparr>Heading = ''The DMARC record'', Paragraphs = [''DMARC lives in a TXT record at _dmarc.your-domain. A first entry for observing looks like this:''],
          Items = [], Code = (''_dmarc.example.org.  IN TXT  '' @ [CHR 0x22] @ ''v=DMARC1; p=none; rua=mailto:dmarc@example.org'' @ [CHR 0x22])\<rparr>,
        \<lparr>Heading = ''The p= policy'', Paragraphs = [],
          Items = [''p=none only observes and does not protect yet.'', ''p=quarantine moves failing mail into the spam folder.'', ''p=reject rejects it and gives the strongest protection against forgeries of your domain.''], Code = []\<rparr>,
        \<lparr>Heading = ''Alignment'', Paragraphs = [''DMARC passes when SPF or DKIM passes and the checked domain matches the visible From domain. With aspf and adkim you choose between relaxed (subdomains allowed) and strict (exact match).''],
          Items = [], Code = []\<rparr>,
        \<lparr>Heading = ''Subdomains and pct'', Paragraphs = [''With sp= you set a separate policy for subdomains. If it says none, all subdomains are unprotected although the main domain is protected. With pct= you apply the policy to only a share of the mail. For full protection, do not leave pct below 100 permanently.''],
          Items = [], Code = []\<rparr>,
        \<lparr>Heading = ''The safe path to p=reject'', Paragraphs = [],
          Items = [''Start with p=none and a rua address and read the reports.'', ''Add every legitimate sender to SPF and DKIM until the reports show no unknown sources.'', ''Switch to p=quarantine, then to p=reject.''], Code = []\<rparr>],
     FAQ = [\<lparr>FQ = ''Do I really need DMARC?'', FA = ''Since 2024 Gmail and Yahoo require SPF, DKIM and a DMARC record from bulk senders. For small senders a DMARC record also lowers the risk that third parties forge your domain.''\<rparr>,
        \<lparr>FQ = ''What does rua mean?'', FA = ''rua is the address to which receivers send daily summaries. They show which servers send mail with your domain and whether SPF and DKIM pass.''\<rparr>,
        \<lparr>FQ = ''Why is sp=none a risk?'', FA = ''The policy of the main domain then does not apply to subdomains. Attackers use exactly such gaps for forgeries.''\<rparr>]\<rparr>"

definition spam_score_DE :: guideText where
  "spam_score_DE = \<lparr>Title = ''Spam-Score testen: SpamAssassin und Rspamd verstehen und senken'',
     Description = ''So liest du den Spam-Score von SpamAssassin und Rspamd: Schwellwerte, typische Regeln und wie du die Punkte senkst. Mit kostenlosem Spam-Test.'',
     H1 = ''Spam-Score testen und senken'', Lead = (''Spamfilter z'' @ [CHR 0xC3, CHR 0xA4] @ ''hlen Punkte. Jede auff'' @ [CHR 0xC3, CHR 0xA4] @ ''llige Eigenschaft einer Mail gibt Pluspunkte, jede vertrauensw'' @ [CHR 0xC3, CHR 0xBC] @ ''rdige Eigenschaft Minuspunkte. Ab einer Schwelle gilt die Mail als Spam.''),
     Sections = [\<lparr>Heading = ''Wie die Schwellen aussehen'', Paragraphs = [(''SpamAssassin markiert Mails standardm'' @ [CHR 0xC3, CHR 0xA4, CHR 0xC3, CHR 0x9F] @ ''ig ab 5,0 Punkten als Spam. Rspamd arbeitet mit Aktionen: je nach Punktzahl wird eine Mail verz'' @ [CHR 0xC3, CHR 0xB6] @ ''gert, markiert, im Betreff ver'' @ [CHR 0xC3, CHR 0xA4] @ ''ndert oder abgelehnt, die Ablehnung liegt in der Vorgabe bei 15 Punkten. Jeder Empf'' @ [CHR 0xC3, CHR 0xA4] @ ''nger setzt eigene Schwellen, und gro'' @ [CHR 0xC3, CHR 0x9F] @ ''e Anbieter erg'' @ [CHR 0xC3, CHR 0xA4] @ ''nzen eigene Verfahren. Ein Wert knapp unter der Schwelle ist deshalb bei manchen Empf'' @ [CHR 0xC3, CHR 0xA4] @ ''ngern schon Spam.'')],
          Items = [], Code = []\<rparr>,
        \<lparr>Heading = (''Typische Ausl'' @ [CHR 0xC3, CHR 0xB6] @ ''ser''), Paragraphs = [],
          Items = [(''Fehlende oder auff'' @ [CHR 0xC3, CHR 0xA4] @ ''llige Header wie Date, Message-ID, Subject oder From.''), ''Fehlgeschlagene oder fehlende Authentifizierung (SPF, DKIM, DMARC).'', ''Nur-HTML-Mails ohne Plaintext-Teil und Bilder ohne begleitenden Text.'', (''Verk'' @ [CHR 0xC3, CHR 0xBC] @ ''rzte Links, Links auf Domains, die auf Blocklisten stehen, und Betreffzeilen in Gro'' @ [CHR 0xC3, CHR 0x9F] @ ''buchstaben.''), ''Eine sendende IP auf einer Blacklist oder mit generischem Reverse-DNS.''], Code = []\<rparr>,
        \<lparr>Heading = ''Punkte senken'', Paragraphs = [],
          Items = [(''Zuerst die Regeln mit dem gr'' @ [CHR 0xC3, CHR 0xB6, CHR 0xC3, CHR 0x9F] @ ''ten Gewicht beheben. sender.report listet sie nach Punkten sortiert mit Beschreibung auf.''), (''Authentifizierung vervollst'' @ [CHR 0xC3, CHR 0xA4] @ ''ndigen und Reverse-DNS pr'' @ [CHR 0xC3, CHR 0xBC] @ ''fen.''), (''Text und HTML sauber trennen, ausgeschriebene Links verwenden und einen klaren Betreff w'' @ [CHR 0xC3, CHR 0xA4] @ ''hlen.'')], Code = []\<rparr>],
     FAQ = [\<lparr>FQ = ''Welcher Spam-Score ist gut?'', FA = ''Je niedriger, desto besser. Werte unter null sind gut, ein Wert nahe der Schwelle von 5,0 bei SpamAssassin ist riskant.''\<rparr>,
        \<lparr>FQ = ''Warum zeigt sender.report zwei Spamfilter?'', FA = ''SpamAssassin und Rspamd bewerten nach unterschiedlichen Regeln. Zusammen ergeben sie ein breiteres Bild als ein einzelner Filter.''\<rparr>,
        \<lparr>FQ = ''Kann ich Texte testen, ohne jedes Mal eine Mail zu senden?'', FA = ''Ja, der Mail-Simulator bewertet bearbeiteten Quelltext direkt.''\<rparr>]\<rparr>"

definition spam_score_EN :: guideText where
  "spam_score_EN = \<lparr>Title = ''Test your spam score: understand and lower SpamAssassin and Rspamd results'',
     Description = ''How to read the spam score of SpamAssassin and Rspamd: thresholds, typical rules and how to lower the points. With a free spam test.'',
     H1 = ''Test and lower your spam score'', Lead = ''Spam filters count points. Every conspicuous property of a message adds points, every trustworthy property removes some. Above a threshold the message counts as spam.'',
     Sections = [\<lparr>Heading = ''What the thresholds look like'', Paragraphs = [''SpamAssassin marks mail as spam from 5.0 points by default. Rspamd works with actions: depending on the score a message is delayed, marked, gets a rewritten subject or is rejected, and rejection defaults to 15 points. Every receiver sets its own thresholds and large providers add their own methods. A score just below the threshold can therefore already be spam for some recipients.''],
          Items = [], Code = []\<rparr>,
        \<lparr>Heading = ''Typical triggers'', Paragraphs = [],
          Items = [''Missing or conspicuous headers such as Date, Message-ID, Subject or From.'', ''Failed or missing authentication (SPF, DKIM, DMARC).'', ''HTML-only mail without a plain-text part and images without accompanying text.'', ''Shortened links, links to domains on blocklists and subject lines in capital letters.'', ''A sending IP on a blacklist or with generic reverse DNS.''], Code = []\<rparr>,
        \<lparr>Heading = ''Lowering the points'', Paragraphs = [],
          Items = [''Fix the rules with the greatest weight first. sender.report lists them by points with a description.'', ''Complete authentication and check reverse DNS.'', ''Separate text and HTML cleanly, use spelled-out links and choose a clear subject.''], Code = []\<rparr>],
     FAQ = [\<lparr>FQ = ''Which spam score is good?'', FA = ''The lower the better. Scores below zero are good, a score close to the SpamAssassin threshold of 5.0 is risky.''\<rparr>,
        \<lparr>FQ = ''Why does sender.report show two spam filters?'', FA = ''SpamAssassin and Rspamd score by different rules. Together they give a broader picture than a single filter.''\<rparr>,
        \<lparr>FQ = ''Can I test text without sending a mail every time?'', FA = ''Yes, the mail simulator scores edited source directly.''\<rparr>]\<rparr>"

definition blacklist_DE :: guideText where
  "blacklist_DE = \<lparr>Title = ''Blacklist-Check: Ist meine Mailserver-IP gelistet? Ursachen und Delisting'',
     Description = (''Blacklist (DNSBL) pr'' @ [CHR 0xC3, CHR 0xBC] @ ''fen: Spamhaus, SpamCop, Barracuda und andere, Ursachen f'' @ [CHR 0xC3, CHR 0xBC] @ ''r Eintr'' @ [CHR 0xC3, CHR 0xA4] @ ''ge und Schritte zum Delisting. Mit kostenlosem Test der Absender-IP.''),
     H1 = (''Blacklist-Check f'' @ [CHR 0xC3, CHR 0xBC] @ ''r deine Mailserver-IP''), Lead = ''Blacklists (DNSBL) sammeln IP-Adressen, von denen Spam oder Schadcode ausging. Steht deine sendende IP auf einer verbreiteten Liste, lehnen viele Server deine Mails ab oder sortieren sie in den Spam-Ordner.'',
     Sections = [\<lparr>Heading = ''Wie die Abfrage funktioniert'', Paragraphs = [(''Eine DNSBL ist eine DNS-Zone. Der Empf'' @ [CHR 0xC3, CHR 0xA4] @ ''nger dreht die IP um, h'' @ [CHR 0xC3, CHR 0xA4] @ ''ngt den Namen der Liste an und fragt den DNS-Server. Eine Antwort im Bereich 127.0.0.x bedeutet: gelistet.'')],
          Items = [], Code = ''203.0.113.25  ->  25.113.0.203.zen.spamhaus.org''\<rparr>,
        \<lparr>Heading = ''Die wichtigsten Listen'', Paragraphs = [],
          Items = [(''Spamhaus ZEN fasst SBL, XBL und PBL zusammen. SBL und XBL stehen f'' @ [CHR 0xC3, CHR 0xBC] @ ''r Spam-Quellen und kompromittierte Rechner, PBL f'' @ [CHR 0xC3, CHR 0xBC] @ ''r Adressbereiche, die keine Mailserver betreiben sollen.''), ''SpamCop (bl.spamcop.net) listet nach Nutzerbeschwerden.'', (''Barracuda (b.barracudacentral.org) und weitere Listen flie'' @ [CHR 0xC3, CHR 0x9F] @ ''en in viele Filter ein.'')], Code = []\<rparr>,
        \<lparr>Heading = ''Warum eine IP gelistet wird'', Paragraphs = [],
          Items = [''Ein kompromittiertes Postfach oder ein gehackter Server versendet Spam.'', ''Ein offenes Relay oder ein unsicheres Kontaktformular wird missbraucht.'', (''Die IP geh'' @ [CHR 0xC3, CHR 0xB6] @ ''rt zu einem Bereich f'' @ [CHR 0xC3, CHR 0xBC] @ ''r Privatkunden (dynamisch) oder hat einen schlechten Nachbarn auf einem geteilten Server.'')], Code = []\<rparr>,
        \<lparr>Heading = ''Delisting'', Paragraphs = [],
          Items = [(''Ursache finden und abstellen: Konten sperren, Passw'' @ [CHR 0xC3, CHR 0xB6] @ ''rter '' @ [CHR 0xC3, CHR 0xA4] @ ''ndern, L'' @ [CHR 0xC3, CHR 0xBC] @ ''cken schlie'' @ [CHR 0xC3, CHR 0x9F] @ ''en.''), (''Danach auf der Seite der Liste einen Antrag auf Entfernung stellen. Manche Listen entfernen Eintr'' @ [CHR 0xC3, CHR 0xA4] @ ''ge nach einer Wartezeit selbst.''), (''Bei PBL-Eintr'' @ [CHR 0xC3, CHR 0xA4] @ ''gen '' @ [CHR 0xC3, CHR 0xBC] @ ''ber einen Relay des Providers senden oder die Freigabe beim Provider beantragen.'')], Code = []\<rparr>],
     FAQ = [\<lparr>FQ = ''Warum zeigt mein Test eine Liste als nicht erreichbar?'', FA = (''Spamhaus und andere beantworten Abfragen '' @ [CHR 0xC3, CHR 0xBC] @ ''ber '' @ [CHR 0xC3, CHR 0xB6] @ ''ffentliche Resolver wie 8.8.8.8 mit Fehlercodes statt mit einem Ergebnis. Betreiber sollten einen eigenen Resolver verwenden.'')\<rparr>,
        \<lparr>FQ = (''Reicht es, die Blacklists zu pr'' @ [CHR 0xC3, CHR 0xBC] @ ''fen?''), FA = (''Nein, sie sind ein Teil. Reverse-DNS, Authentifizierung und Inhalt geh'' @ [CHR 0xC3, CHR 0xB6] @ ''ren ebenso zur Zustellbarkeit.'')\<rparr>]\<rparr>"

definition blacklist_EN :: guideText where
  "blacklist_EN = \<lparr>Title = ''Blacklist check: is my mail server IP listed? Causes and delisting'',
     Description = ''Check blacklists (DNSBL): Spamhaus, SpamCop, Barracuda and others, causes of listings and steps to delisting. With a free test of the sender IP.'',
     H1 = ''Blacklist check for your mail server IP'', Lead = ''Blacklists (DNSBL) collect IP addresses that sent spam or malware. If your sending IP sits on a common list, many servers reject your mail or move it to the spam folder.'',
     Sections = [\<lparr>Heading = ''How the lookup works'', Paragraphs = [''A DNSBL is a DNS zone. The receiver reverses the IP, appends the name of the list and asks the DNS server. An answer in the range 127.0.0.x means: listed.''],
          Items = [], Code = ''203.0.113.25  ->  25.113.0.203.zen.spamhaus.org''\<rparr>,
        \<lparr>Heading = ''The main lists'', Paragraphs = [],
          Items = [''Spamhaus ZEN combines SBL, XBL and PBL. SBL and XBL stand for spam sources and compromised machines, PBL for address ranges that should not run mail servers.'', ''SpamCop (bl.spamcop.net) lists based on user complaints.'', ''Barracuda (b.barracudacentral.org) and further lists feed into many filters.''], Code = []\<rparr>,
        \<lparr>Heading = ''Why an IP gets listed'', Paragraphs = [],
          Items = [''A compromised mailbox or hacked server sends spam.'', ''An open relay or an insecure contact form is abused.'', ''The IP belongs to a consumer (dynamic) range or has a bad neighbour on a shared server.''], Code = []\<rparr>,
        \<lparr>Heading = ''Delisting'', Paragraphs = [],
          Items = [''Find and fix the cause: lock accounts, change passwords, close the holes.'', (''Then file a removal request on the list'' @ [CHR 0x27] @ ''s website. Some lists remove entries on their own after a waiting period.''), (''For PBL entries send through the provider'' @ [CHR 0x27] @ ''s relay or request a release from the provider.'')], Code = []\<rparr>],
     FAQ = [\<lparr>FQ = ''Why does my test show a list as unreachable?'', FA = ''Spamhaus and others answer queries from public resolvers such as 8.8.8.8 with error codes instead of a result. Operators should use their own resolver.''\<rparr>,
        \<lparr>FQ = ''Is checking blacklists enough?'', FA = ''No, they are one part. Reverse DNS, authentication and content belong to deliverability as well.''\<rparr>]\<rparr>"

definition reverse_dns_DE :: guideText where
  "reverse_dns_DE = \<lparr>Title = (''Reverse-DNS (PTR) und HELO pr'' @ [CHR 0xC3, CHR 0xBC] @ ''fen: so richtest du den Mailserver korrekt ein''),
     Description = (''Reverse-DNS, PTR-Record und HELO f'' @ [CHR 0xC3, CHR 0xBC] @ ''r Mailserver erkl'' @ [CHR 0xC3, CHR 0xA4] @ ''rt: Forward-confirmed rDNS, typische Fehler und wo du den PTR setzt. Mit kostenlosem Test.''),
     H1 = (''Reverse-DNS (PTR) und HELO pr'' @ [CHR 0xC3, CHR 0xBC] @ ''fen''), Lead = (''Empf'' @ [CHR 0xC3, CHR 0xA4] @ ''nger-Server fragen zur IP des Absenders den Namen ab (Reverse-DNS) und pr'' @ [CHR 0xC3, CHR 0xBC] @ ''fen, ob dieser Name wieder auf dieselbe IP zeigt. Fehlt das oder wirkt der Name generisch, steigt der Spam-Score.''),
     Sections = [\<lparr>Heading = (''Was gepr'' @ [CHR 0xC3, CHR 0xBC] @ ''ft wird''), Paragraphs = [],
          Items = [''Die sendende IP hat einen PTR-Record.'', (''Der PTR-Name l'' @ [CHR 0xC3, CHR 0xB6] @ ''st per A- oder AAAA-Record wieder auf dieselbe IP auf (forward-confirmed reverse DNS).''), (''Der HELO/EHLO-Name im SMTP-Dialog ist ein voll qualifizierter Hostname, der zur IP geh'' @ [CHR 0xC3, CHR 0xB6] @ ''rt.''), ''Der PTR-Name wirkt wie ein dedizierter Mailserver, etwa mail.example.org.''], Code = []\<rparr>,
        \<lparr>Heading = ''Typische Fehler'', Paragraphs = [],
          Items = [(''Der PTR tr'' @ [CHR 0xC3, CHR 0xA4] @ ''gt den automatischen Namen des Providers wie 203-0-113-25.dyn.provider.net. Filter erkennen solche Muster als Endkunden-IP.''), ''PTR und HELO nennen verschiedene Namen, die nicht zur IP passen.'', ''Der A-Record des PTR-Namens fehlt.''], Code = []\<rparr>,
        \<lparr>Heading = ''Wo setzt du den PTR?'', Paragraphs = [(''Den PTR pflegt der Besitzer des IP-Blocks, also dein Hosting-Anbieter oder Internetprovider. Du tr'' @ [CHR 0xC3, CHR 0xA4] @ ''gst ihn im Kundenbereich ein oder bittest den Support darum. Den passenden A-Record legst du in deiner eigenen DNS-Zone an.'')],
          Items = [], Code = (''dig -x 203.0.113.25 +short'' @ [CHR 0x0A] @ ''dig A mail.example.org +short'')\<rparr>],
     FAQ = [\<lparr>FQ = (''Brauche ich auch einen PTR f'' @ [CHR 0xC3, CHR 0xBC] @ ''r IPv6?''), FA = (''Ja. Sendet dein Server '' @ [CHR 0xC3, CHR 0xBC] @ ''ber IPv6, braucht diese Adresse einen PTR und einen AAAA-Record.'')\<rparr>,
        \<lparr>FQ = ''Muss der HELO-Name mit dem PTR identisch sein?'', FA = ''Er sollte auf dieselbe IP zeigen und im Idealfall dem PTR entsprechen. So wirkt der Server stimmig.''\<rparr>]\<rparr>"

definition reverse_dns_EN :: guideText where
  "reverse_dns_EN = \<lparr>Title = ''Check reverse DNS (PTR) and HELO: set up your mail server correctly'',
     Description = ''Reverse DNS, PTR record and HELO for mail servers explained: forward-confirmed rDNS, typical mistakes and where to set the PTR. With a free test.'',
     H1 = ''Check reverse DNS (PTR) and HELO'', Lead = (''Receiving servers look up the name for the sender'' @ [CHR 0x27] @ ''s IP (reverse DNS) and check that this name points back to the same IP. If it is missing or looks generic, the spam score rises.''),
     Sections = [\<lparr>Heading = ''What is checked'', Paragraphs = [],
          Items = [''The sending IP has a PTR record.'', ''The PTR name resolves through an A or AAAA record to the same IP (forward-confirmed reverse DNS).'', ''The HELO/EHLO name in the SMTP dialogue is a fully qualified hostname that belongs to the IP.'', ''The PTR name looks like a dedicated mail server, such as mail.example.org.''], Code = []\<rparr>,
        \<lparr>Heading = ''Typical mistakes'', Paragraphs = [],
          Items = [(''The PTR carries the provider'' @ [CHR 0x27] @ ''s automatic name such as 203-0-113-25.dyn.provider.net. Filters recognise such patterns as consumer IPs.''), ''PTR and HELO name different hosts that do not fit the IP.'', ''The A record for the PTR name is missing.''], Code = []\<rparr>,
        \<lparr>Heading = ''Where to set the PTR'', Paragraphs = [''The owner of the IP block maintains the PTR, which means your hosting provider or internet provider. You enter it in the customer area or ask support to do it. You create the matching A record in your own DNS zone.''],
          Items = [], Code = (''dig -x 203.0.113.25 +short'' @ [CHR 0x0A] @ ''dig A mail.example.org +short'')\<rparr>],
     FAQ = [\<lparr>FQ = ''Do I need a PTR for IPv6 as well?'', FA = ''Yes. If your server sends over IPv6, that address needs a PTR and an AAAA record.''\<rparr>,
        \<lparr>FQ = ''Does the HELO name have to equal the PTR?'', FA = ''It should point to the same IP and ideally match the PTR. That makes the server look consistent.''\<rparr>]\<rparr>"

definition mail_tester_alternative_DE :: guideText where
  "mail_tester_alternative_DE = \<lparr>Title = (''Mail-Tester-Alternative: kostenloser, verschl'' @ [CHR 0xC3, CHR 0xBC] @ ''sselter E-Mail-Test mit 68 Checks''),
     Description = (''sender.report als Alternative zu Mail-Tester: kostenloser Zustellbarkeitstest mit 68 Checks, Ende-zu-Ende-verschl'' @ [CHR 0xC3, CHR 0xBC] @ ''sselten Berichten, Mail-Simulator und eigenem Hosting.''),
     H1 = ''Eine Alternative zu Mail-Tester: sender.report'', Lead = (''Wer die Zustellbarkeit einer Mail testen will, sucht oft ein Werkzeug wie mail-tester.com. sender.report beantwortet dieselbe Frage mit eigenen Schwerpunkten: Datenschutz, Tiefe der Pr'' @ [CHR 0xC3, CHR 0xBC] @ ''fungen und die M'' @ [CHR 0xC3, CHR 0xB6] @ ''glichkeit, es selbst zu betreiben.''),
     Sections = [\<lparr>Heading = ''Das macht sender.report aus'', Paragraphs = [],
          Items = [(''Die Nutzung ist anonym und kostenlos. Eine tempor'' @ [CHR 0xC3, CHR 0xA4] @ ''re Mailbox entsteht automatisch.''), (''68 Pr'' @ [CHR 0xC3, CHR 0xBC] @ ''fungen in f'' @ [CHR 0xC3, CHR 0xBC] @ ''nf Bereichen: Authentifizierung, DNS und Infrastruktur, Spamfilter, Format und Inhalt sowie Header und Rohdaten.''), (''SPF, DKIM und DMARC werden gegen die tats'' @ [CHR 0xC3, CHR 0xA4] @ ''chliche Testmail gepr'' @ [CHR 0xC3, CHR 0xBC] @ ''ft. Befunde nennen Ursache und n'' @ [CHR 0xC3, CHR 0xA4] @ ''chsten Schritt.''), (''Berichte sind Ende-zu-Ende-verschl'' @ [CHR 0xC3, CHR 0xBC] @ ''sselt. Den Schl'' @ [CHR 0xC3, CHR 0xBC] @ ''ssel tr'' @ [CHR 0xC3, CHR 0xA4] @ ''gt nur dein Link.''), (''Nach einer DNS-'' @ [CHR 0xC3, CHR 0x84] @ ''nderung fragt ein Klick alles neu ab und berechnet die Bewertung neu, ohne neue Testmail.''), ''Der Mail-Simulator bewertet bearbeiteten Quelltext sofort.'', (''Das Projekt ist Open Source und l'' @ [CHR 0xC3, CHR 0xA4] @ ''uft als Docker-Image auf eigener Infrastruktur.'')], Code = []\<rparr>,
        \<lparr>Heading = ''So testest du'', Paragraphs = [],
          Items = [''Rufe die Startseite auf und kopiere die angezeigte Testadresse.'', (''Sende eine Mail aus dem System, dessen Zustellbarkeit du pr'' @ [CHR 0xC3, CHR 0xBC] @ ''fen willst, an diese Adresse.''), ([CHR 0xC3, CHR 0x96] @ ''ffne den Bericht und gehe die Befunde der Reihe nach durch.'')], Code = []\<rparr>],
     FAQ = [\<lparr>FQ = ''Was kostet sender.report?'', FA = ''Die Nutzung ist kostenlos.''\<rparr>,
        \<lparr>FQ = ''Werden meine Testmails an Dritte weitergegeben?'', FA = (''Nein. Sie werden nur f'' @ [CHR 0xC3, CHR 0xBC] @ ''r die Analyse verarbeitet, Ende-zu-Ende-verschl'' @ [CHR 0xC3, CHR 0xBC] @ ''sselt gespeichert und nach Ablauf der Aufbewahrungsfrist gel'' @ [CHR 0xC3, CHR 0xB6] @ ''scht.'')\<rparr>,
        \<lparr>FQ = ''Kann ich sender.report selbst betreiben?'', FA = (''Ja, als einzelnes Docker-Image mit Web-Oberfl'' @ [CHR 0xC3, CHR 0xA4] @ ''che, SMTP-Empfang und Datenbank.'')\<rparr>]\<rparr>"

definition mail_tester_alternative_EN :: guideText where
  "mail_tester_alternative_EN = \<lparr>Title = ''A Mail-Tester alternative: free, encrypted email test with 68 checks'',
     Description = ''sender.report as an alternative to Mail-Tester: a free deliverability test with 68 checks, end-to-end encrypted reports, a mail simulator and self-hosting.'',
     H1 = ''An alternative to Mail-Tester: sender.report'', Lead = ''Anyone who wants to test the deliverability of a message often looks for a tool like mail-tester.com. sender.report answers the same question with its own emphasis: privacy, depth of the checks and the option to run it yourself.'',
     Sections = [\<lparr>Heading = ''What sets sender.report apart'', Paragraphs = [],
          Items = [''Use is anonymous and free. A temporary mailbox is created automatically.'', ''68 checks in five areas: authentication, DNS and infrastructure, spam filters, format and content, and headers and raw data.'', ''SPF, DKIM and DMARC are verified against your actual test mail. Findings name the cause and the next step.'', ''Reports are end-to-end encrypted. Only your link carries the key.'', ''After a DNS change, one click queries everything again and recalculates the score, without a new test mail.'', ''The mail simulator scores edited source immediately.'', ''The project is open source and runs as a Docker image on your own infrastructure.''], Code = []\<rparr>,
        \<lparr>Heading = ''How to test'', Paragraphs = [],
          Items = [''Open the start page and copy the test address it shows.'', ''Send a message from the system whose deliverability you want to check to that address.'', ''Open the report and go through the findings in order.''], Code = []\<rparr>],
     FAQ = [\<lparr>FQ = ''What does sender.report cost?'', FA = ''Use is free.''\<rparr>,
        \<lparr>FQ = ''Are my test mails shared with third parties?'', FA = ''No. They are processed only for the analysis, stored end-to-end encrypted and deleted when the retention period ends.''\<rparr>,
        \<lparr>FQ = ''Can I run sender.report myself?'', FA = ''Yes, as a single Docker image with web interface, SMTP reception and database.''\<rparr>]\<rparr>"

definition guideList :: "guide list" where
  "guideList = [\<lparr>Slug = ''deliverability'', Updated = ''2026-10-16'', Icon = ''bi-send-check'', Related = [''spf'', ''dkim'', ''dmarc'', ''reverse-dns'', ''blacklist'', ''spam-score''], GDE = deliverability_DE, GEN = deliverability_EN\<rparr>,
     \<lparr>Slug = ''spf'', Updated = ''2026-10-16'', Icon = ''bi-shield-check'', Related = [''dkim'', ''dmarc'', ''deliverability''], GDE = spf_DE, GEN = spf_EN\<rparr>,
     \<lparr>Slug = ''dkim'', Updated = ''2026-10-16'', Icon = ''bi-key'', Related = [''spf'', ''dmarc'', ''deliverability''], GDE = dkim_DE, GEN = dkim_EN\<rparr>,
     \<lparr>Slug = ''dmarc'', Updated = ''2026-10-16'', Icon = ''bi-patch-check'', Related = [''spf'', ''dkim'', ''deliverability''], GDE = dmarc_DE, GEN = dmarc_EN\<rparr>,
     \<lparr>Slug = ''spam-score'', Updated = ''2026-10-16'', Icon = ''bi-speedometer2'', Related = [''deliverability'', ''blacklist'', ''dkim''], GDE = spam_score_DE, GEN = spam_score_EN\<rparr>,
     \<lparr>Slug = ''blacklist'', Updated = ''2026-10-16'', Icon = ''bi-slash-circle'', Related = [''reverse-dns'', ''spam-score'', ''deliverability''], GDE = blacklist_DE, GEN = blacklist_EN\<rparr>,
     \<lparr>Slug = ''reverse-dns'', Updated = ''2026-10-16'', Icon = ''bi-hdd-network'', Related = [''blacklist'', ''deliverability'', ''spf''], GDE = reverse_dns_DE, GEN = reverse_dns_EN\<rparr>,
     \<lparr>Slug = ''mail-tester-alternative'', Updated = ''2026-10-16'', Icon = ''bi-shuffle'', Related = [''deliverability'', ''spam-score'', ''dmarc''], GDE = mail_tester_alternative_DE, GEN = mail_tester_alternative_EN\<rparr>]"

subsection \<open>JSON\<close>

datatype json_ld = JStr gostring | JNum int | JArr "json_ld list" | JObj "(gostring \<times> json_ld) list"

definition hex4 :: "nat \<Rightarrow> gostring" where
  "hex4 n = ''00'' @ [Net_IP.hex_digit (int (n div 16)), Net_IP.hex_digit (int (n mod 16))]"

text \<open>A character of a string as \<open>encoding/json\<close> writes it, with the escapes for use inside HTML.\<close>

definition json_rune :: "rune \<Rightarrow> gostring" where
  "json_rune r =
     (case r of
        [c] \<Rightarrow>
          if \<not> is_ascii_char c then [CHR 0x5C] @ ''ufffd''
          else if c = CHR 0x22 then [CHR 0x5C, CHR 0x22]
          else if c = CHR 0x5C then [CHR 0x5C, CHR 0x5C]
          else if c = CHR 0x08 then [CHR 0x5C] @ ''b''
          else if c = CHR 0x0C then [CHR 0x5C] @ ''f''
          else if c = LF then [CHR 0x5C] @ ''n''
          else if c = CR then [CHR 0x5C] @ ''r''
          else if c = CHR 0x09 then [CHR 0x5C] @ ''t''
          else if of_char c < (32 :: nat) \<or> c = CHR ''<'' \<or> c = CHR ''>'' \<or> c = CHR ''&'' then [CHR 0x5C] @ ''u'' @ hex4 (of_char c)
          else [c]
      | _ \<Rightarrow>
          if r = [CHR 0xE2, CHR 0x80, CHR 0xA8] then [CHR 0x5C] @ ''u2028''
          else if r = [CHR 0xE2, CHR 0x80, CHR 0xA9] then [CHR 0x5C] @ ''u2029''
          else r)"

definition json_string :: "gostring \<Rightarrow> gostring" where
  "json_string s = quoted (concat (map json_rune (runes s)))"

fun Marshal :: "json_ld \<Rightarrow> gostring" where
  "Marshal (JStr s) = json_string s"
| "Marshal (JNum n) = show_int n"
| "Marshal (JArr vs) = ''['' @ join '','' (map Marshal vs) @ '']''"
| "Marshal (JObj ms) = ''{'' @ join '','' (map (\<lambda>(k, t). json_string k @ '':'' @ t) (sort_key fst (map (\<lambda>(k, v). (k, Marshal v)) ms))) @ ''}''"

definition jsonLD :: "json_ld \<Rightarrow> gostring" where
  "jsonLD v = Marshal v"

subsection \<open>The pages\<close>

definition guide_text :: "guide \<Rightarrow> gostring \<Rightarrow> guideText" where
  "guide_text g l = (if l = DE then GDE g else GEN g)"

record guideLink =
  LinkSlug :: gostring
  LinkTitle :: gostring
  LinkDescription :: gostring
  LinkIcon :: gostring

record GuidePageData =
  GAppName :: gostring
  GDomain :: gostring
  GPublicURL :: gostring
  GLang :: gostring
  GSlug :: gostring
  GSEOPath :: gostring
  GPageTitle :: gostring
  GH1 :: gostring
  GLead :: gostring
  GDescription :: gostring
  GGuide :: "guideText option"
  GIcon :: gostring
  GUpdated :: gostring
  GRelated :: "guideLink list"
  GGuides :: "guideLink list"
  GJSONLD :: gostring

definition findGuide :: "gostring \<Rightarrow> guide option" where
  "findGuide slug = find (\<lambda>g. Slug g = slug) guideList"

definition contains_slug :: "gostring list \<Rightarrow> gostring \<Rightarrow> bool" where
  "contains_slug xs s = list_ex (\<lambda>v. v = s) xs"

definition guideLinks :: "gostring \<Rightarrow> gostring list option \<Rightarrow> guideLink list" where
  "guideLinks l slugs =
     map (\<lambda>g. \<lparr>LinkSlug = Slug g, LinkTitle = H1 (guide_text g l), LinkDescription = Description (guide_text g l), LinkIcon = Icon g\<rparr>)
       (filter (\<lambda>g. case slugs of None \<Rightarrow> True | Some xs \<Rightarrow> contains_slug xs (Slug g)) guideList)"

definition guidesName :: "gostring \<Rightarrow> gostring" where
  "guidesName l = (if l = DE then ''Ratgeber'' else ''Guides'')"

definition guidesIntro :: "gostring \<Rightarrow> gostring \<times> gostring \<times> gostring" where
  "guidesIntro l =
     (if l = DE then
        (''Ratgeber zur E-Mail-Zustellbarkeit'',
         (''Verst'' @ [CHR 0xC3, CHR 0xA4] @ ''ndliche Anleitungen zu SPF, DKIM, DMARC, Spam-Score, Blacklists und Reverse-DNS. Jeder Ratgeber erkl'' @ [CHR 0xC3, CHR 0xA4] @ ''rt das Verfahren, nennt typische Fehler und f'' @ [CHR 0xC3, CHR 0xBC] @ ''hrt zum kostenlosen Test.''),
         ''Ratgeber zu SPF, DKIM, DMARC, Spam-Score, Blacklists und Reverse-DNS: so verbesserst du die Zustellbarkeit deiner E-Mails. Mit kostenlosem Test.'')
      else
        (''Email deliverability guides'',
         ''Clear guides to SPF, DKIM, DMARC, spam score, blacklists and reverse DNS. Each guide explains the standard, names typical mistakes and leads to the free test.'',
         ''Guides to SPF, DKIM, DMARC, spam score, blacklists and reverse DNS: how to improve the deliverability of your email. With a free test.''))"

definition list_item :: "int \<Rightarrow> gostring \<Rightarrow> gostring \<Rightarrow> json_ld" where
  "list_item n title url = JObj [(''@type'', JStr ''ListItem''), (''position'', JNum n), (''name'', JStr title), (''item'', JStr url)]"

definition guideJSONLD :: "guide \<Rightarrow> gostring \<Rightarrow> gostring \<Rightarrow> gostring \<Rightarrow> gostring" where
  "guideJSONLD g l base app_name =
     (let t = guide_text g l;
          pageURL = base @ langPath l (''/guides/'' @ Slug g);
          faq = map (\<lambda>f. JObj [(''@type'', JStr ''Question''), (''name'', JStr (FQ f)),
                                (''acceptedAnswer'', JObj [(''@type'', JStr ''Answer''), (''text'', JStr (FA f))])]) (FAQ t);
          org = JObj [(''@type'', JStr ''Organization''), (''name'', JStr app_name), (''url'', JStr (base @ ''/''))];
          article = JObj [(''@type'', JStr ''Article''), (''headline'', JStr (H1 t)), (''description'', JStr (Description t)), (''inLanguage'', JStr l),
                          (''datePublished'', JStr (Updated g)), (''dateModified'', JStr (Updated g)),
                          (''mainEntityOfPage'', JStr pageURL), (''author'', org), (''publisher'', org)];
          crumbs = JObj [(''@type'', JStr ''BreadcrumbList''),
                         (''itemListElement'', JArr [list_item 1 app_name (base @ langPath l ''/''),
                            list_item 2 (guidesName l) (base @ langPath l ''/guides''), list_item 3 (H1 t) pageURL])];
          graph = [article, crumbs] @ (if faq = [] then [] else [JObj [(''@type'', JStr ''FAQPage''), (''mainEntity'', JArr faq)]])
      in jsonLD (JObj [(''@context'', JStr ''https://schema.org''), (''@graph'', JArr graph)]))"

definition guidesIndexJSONLD :: "gostring \<Rightarrow> gostring \<Rightarrow> gostring \<Rightarrow> gostring" where
  "guidesIndexJSONLD l base app_name =
     (let items = map (\<lambda>(i, g). JObj [(''@type'', JStr ''ListItem''), (''position'', JNum (int i + 1)),
                                     (''url'', JStr (base @ langPath l (''/guides/'' @ Slug g))), (''name'', JStr (H1 (guide_text g l)))])
                  (zip [0..<length guideList] guideList)
      in jsonLD (JObj [(''@context'', JStr ''https://schema.org''),
           (''@graph'', JArr [JObj [(''@type'', JStr ''CollectionPage''), (''name'', JStr (guidesName l @ ('' '' @ [CHR 0xE2, CHR 0x80, CHR 0x93] @ '' '') @ app_name)), (''inLanguage'', JStr l),
                                     (''url'', JStr (base @ langPath l ''/guides''))],
                              JObj [(''@type'', JStr ''ItemList''), (''itemListElement'', JArr items)]])]))"

definition is_get :: "request \<Rightarrow> bool" where
  "is_get r = (Method r = ''GET'' \<or> Method r = ''HEAD'')"

text \<open>\<open>render\<close> is the template as a function of the data, \<open>None\<close> when it fails.\<close>

definition render :: "('d \<Rightarrow> gostring option) \<Rightarrow> 'd \<Rightarrow> response" where
  "render tmpl d = (case tmpl d of Some html \<Rightarrow> html_page (Plain html) | None \<Rightarrow> http_error 500 ''template error'')"

definition guidesIndex_data :: "Config \<Rightarrow> IPNet option list \<Rightarrow> request \<Rightarrow> GuidePageData" where
  "guidesIndex_data cfg proxies r =
     (let l = Request.lang cfg r; base = publicBaseURL cfg proxies r
      in case guidesIntro l of (title, lead, desc) \<Rightarrow>
           \<lparr>GAppName = AppName cfg, GDomain = requestSMTPDomain cfg proxies r, GPublicURL = base, GLang = l, GSlug = [], GSEOPath = ''/guides'',
            GPageTitle = title @ ('' '' @ [CHR 0xE2, CHR 0x80, CHR 0x93] @ '' '') @ AppName cfg, GH1 = title, GLead = lead, GDescription = desc, GGuide = None, GIcon = [], GUpdated = [],
            GRelated = [], GGuides = guideLinks l None, GJSONLD = guidesIndexJSONLD l base (AppName cfg)\<rparr>)"

definition guidesIndex :: "Config \<Rightarrow> IPNet option list \<Rightarrow> (GuidePageData \<Rightarrow> gostring option) \<Rightarrow> request \<Rightarrow> response" where
  "guidesIndex cfg proxies tmpl r = (if \<not> is_get r then http_error 405 ''method not allowed'' else render tmpl (guidesIndex_data cfg proxies r))"

definition guidePage_data :: "Config \<Rightarrow> IPNet option list \<Rightarrow> request \<Rightarrow> guide \<Rightarrow> GuidePageData" where
  "guidePage_data cfg proxies r g =
     (let l = Request.lang cfg r; base = publicBaseURL cfg proxies r; t = guide_text g l
      in \<lparr>GAppName = AppName cfg, GDomain = requestSMTPDomain cfg proxies r, GPublicURL = base, GLang = l, GSlug = Slug g,
          GSEOPath = ''/guides/'' @ Slug g, GPageTitle = Title t, GH1 = H1 t, GLead = Lead t, GDescription = Description t, GGuide = Some t,
          GIcon = Icon g, GUpdated = Updated g, GRelated = guideLinks l (Some (Related g)), GGuides = [],
          GJSONLD = guideJSONLD g l base (AppName cfg)\<rparr>)"

definition guide_slug :: "request \<Rightarrow> gostring" where
  "guide_slug r = trim_set (trim_prefix (URLPath r) ''/guides/'') ''/''"

definition guidePage :: "Config \<Rightarrow> IPNet option list \<Rightarrow> (GuidePageData \<Rightarrow> gostring option) \<Rightarrow> request \<Rightarrow> response" where
  "guidePage cfg proxies tmpl r =
     (if \<not> is_get r then http_error 405 ''method not allowed''
      else (case findGuide (guide_slug r) of
              None \<Rightarrow> not_found
            | Some g \<Rightarrow> render tmpl (guidePage_data cfg proxies r g)))"

subsection \<open>The sitemap\<close>

record sitemapPage =
  SitePath :: gostring
  Priority :: gostring
  Changes :: gostring
  SiteUpdated :: gostring

definition days_in :: "nat \<Rightarrow> nat \<Rightarrow> nat" where
  "days_in y m =
     (if m = 2 then (if 4 dvd y \<and> (\<not> 100 dvd y \<or> 400 dvd y) then 29 else 28) else if m \<in> {4, 6, 9, 11} then 30 else 31)"

text \<open>What \<open>time.Parse\<close> accepts for the layout \<open>2006-01-02\<close>.\<close>

definition is_date :: "gostring \<Rightarrow> bool" where
  "is_date s =
     (length s = 10 \<and> s ! 4 = CHR ''-'' \<and> s ! 7 = CHR ''-'' \<and> list_all is_digit (take 4 s @ take 2 (drop 5 s) @ drop 8 s)
      \<and> (let y = nat (digits_val 0 (take 4 s)); m = nat (digits_val 0 (take 2 (drop 5 s))); d = nat (digits_val 0 (drop 8 s))
         in 1 \<le> m \<and> m \<le> 12 \<and> 1 \<le> d \<and> d \<le> days_in y m))"

definition lastModified :: "gostring \<Rightarrow> gostring" where
  "lastModified date = (if is_date date then date else [])"

definition sitemapPages :: "sitemapPage list" where
  "sitemapPages =
     [\<lparr>SitePath = ''/'', Priority = ''1.0'', Changes = ''weekly'', SiteUpdated = []\<rparr>,
      \<lparr>SitePath = ''/guides'', Priority = ''0.9'', Changes = ''weekly'', SiteUpdated = []\<rparr>,
      \<lparr>SitePath = ''/about'', Priority = ''0.8'', Changes = ''monthly'', SiteUpdated = []\<rparr>,
      \<lparr>SitePath = ''/privacy'', Priority = ''0.3'', Changes = ''yearly'', SiteUpdated = []\<rparr>]
     @ map (\<lambda>g. \<lparr>SitePath = ''/guides/'' @ Slug g, Priority = ''0.8'', Changes = ''monthly'', SiteUpdated = Updated g\<rparr>) guideList"

definition site_langs :: "gostring list" where
  "site_langs = [''de'', ''en'']"

definition alternate_line :: "gostring \<Rightarrow> gostring \<Rightarrow> gostring" where
  "alternate_line tag url = (''    <xhtml:link rel='' @ [CHR 0x22] @ ''alternate'' @ [CHR 0x22] @ '' hreflang='' @ [CHR 0x22]) @ tag @ ([CHR 0x22] @ '' href='' @ [CHR 0x22]) @ EscapeString url @ ([CHR 0x22] @ ''/>'') @ [LF]"

definition sitemap_entry :: "gostring \<Rightarrow> sitemapPage \<Rightarrow> gostring \<Rightarrow> gostring" where
  "sitemap_entry base p l =
     ''  <url>'' @ [LF] @ ''    <loc>'' @ EscapeString (base @ langPath l (SitePath p)) @ ''</loc>'' @ [LF]
     @ concat (map (\<lambda>alt. alternate_line alt (base @ langPath alt (SitePath p))) site_langs)
     @ alternate_line ''x-default'' (base @ SitePath p)
     @ (if lastModified (SiteUpdated p) \<noteq> [] then ''    <lastmod>'' @ lastModified (SiteUpdated p) @ ''</lastmod>'' @ [LF] else [])
     @ ''    <changefreq>'' @ Changes p @ ''</changefreq>'' @ [LF] @ ''    <priority>'' @ Priority p @ ''</priority>'' @ [LF] @ ''  </url>'' @ [LF]"

definition sitemap_text :: "gostring \<Rightarrow> gostring" where
  "sitemap_text base =
     (''<?xml version='' @ [CHR 0x22] @ ''1.0'' @ [CHR 0x22] @ '' encoding='' @ [CHR 0x22] @ ''UTF-8'' @ [CHR 0x22] @ ''?>'') @ [LF]
     @ (''<urlset xmlns='' @ [CHR 0x22] @ ''http://www.sitemaps.org/schemas/sitemap/0.9'' @ [CHR 0x22] @ '' xmlns:xhtml='' @ [CHR 0x22] @ ''http://www.w3.org/1999/xhtml'' @ [CHR 0x22] @ ''>'') @ [LF]
     @ concat (map (\<lambda>p. concat (map (sitemap_entry base p) site_langs)) sitemapPages)
     @ ''</urlset>'' @ [LF]"

definition sitemapXML :: "Config \<Rightarrow> IPNet option list \<Rightarrow> request \<Rightarrow> response" where
  "sitemapXML cfg proxies r =
     \<lparr>StatusCode = 200, RespHeaders = [(''Content-Type'', ''application/xml; charset=utf-8''), (''Cache-Control'', ''public, max-age=86400'')],
      RespBody = Plain (sitemap_text (publicBaseURL cfg proxies r))\<rparr>"

subsection \<open>Facts about the guides\<close>

definition slugs :: "gostring list" where
  "slugs = [''deliverability'', ''spf'', ''dkim'', ''dmarc'', ''spam-score'', ''blacklist'', ''reverse-dns'', ''mail-tester-alternative'']"

lemma guide_slugs: "map Slug guideList = slugs"
  by (simp add: guideList_def slugs_def)

lemma slugs_distinct: "distinct slugs"
  by (simp add: slugs_def)

lemma findGuide_own:
  assumes "g \<in> set guideList"
  shows "findGuide (Slug g) = Some g"
proof -
  have d: "distinct (map Slug guideList)" by (simp add: guide_slugs slugs_distinct)
  have "find (\<lambda>h. Slug h = Slug g) gs = Some g" if "distinct (map Slug gs)" "g \<in> set gs" for gs
    using that by (induction gs) (auto simp: rev_image_eqI)
  then show ?thesis using d assms by (simp add: findGuide_def)
qed

definition sound_guide :: "guide \<Rightarrow> bool" where
  "sound_guide g =
     (set (Related g) \<subseteq> set slugs \<and> Slug g \<notin> set (Related g) \<and> is_date (Updated g) \<and> Slug g \<noteq> [] \<and> trim_set (Slug g) ''/'' = Slug g
      \<and> cleanRequestPath (''/guides/'' @ Slug g))"

lemma guides_sound: "list_all sound_guide guideList"
  unfolding guideList_def list.pred_inject sound_guide_def guide.select_convs slugs_def by code_simp

lemma guide_sound: "g \<in> set guideList \<Longrightarrow> sound_guide g"
  using guides_sound by (simp add: list_all_iff)

lemma guideLinks_slugs: "set (map LinkSlug (guideLinks l (Some xs))) = set xs \<inter> set slugs"
  by (auto simp: guideLinks_def contains_slug_def list_ex_iff simp flip: guide_slugs)

text \<open>
  The guides refer to each other soundly: every guide is found under its own address, the related guides that its page links are exactly the ones its author
  named, in both languages, each of these leads to a guide, no guide is related to itself, and its date is a real date, so that it appears in the sitemap.
\<close>

theorem guides_consistent:
  assumes "g \<in> set guideList"
  shows "findGuide (Slug g) = Some g
    \<and> set (map LinkSlug (guideLinks l (Some (Related g)))) = set (Related g)
    \<and> (\<forall>s \<in> set (Related g). \<exists>h. findGuide s = Some h \<and> h \<in> set guideList \<and> Slug h = s \<and> h \<noteq> g)
    \<and> lastModified (Updated g) = Updated g \<and> Updated g \<noteq> []"
proof -
  note sound = guide_sound [OF assms]
  have "\<exists>h. findGuide s = Some h \<and> h \<in> set guideList \<and> Slug h = s \<and> h \<noteq> g" if "s \<in> set (Related g)" for s
  proof -
    have "s \<in> Slug ` set guideList" using sound that by (auto simp: sound_guide_def simp flip: guide_slugs)
    then obtain h where h: "h \<in> set guideList" "Slug h = s" by blast
    then have "findGuide s = Some h" using findGuide_own by blast
    moreover have "h \<noteq> g" using h that sound by (auto simp: sound_guide_def)
    ultimately show ?thesis using h by blast
  qed
  moreover have "set (map LinkSlug (guideLinks l (Some (Related g)))) = set (Related g)"
    using sound by (subst guideLinks_slugs) (auto simp: sound_guide_def)
  moreover have "Updated g \<noteq> []" using sound by (auto simp: sound_guide_def is_date_def)
  ultimately show ?thesis using findGuide_own [OF assms] sound by (simp add: lastModified_def sound_guide_def)
qed

theorem guides_consistent_witness:
  "findGuide ''spf'' \<noteq> None \<and> set (map LinkSlug (guideLinks ''de'' (Some [''dkim'', ''dmarc'', ''deliverability'']))) = {''dkim'', ''dmarc'', ''deliverability''}"
proof -
  have "guideList ! 1 \<in> set guideList" by (rule nth_mem) (simp add: guideList_def)
  moreover have "Slug (guideList ! 1) = ''spf''" "Related (guideList ! 1) = [''dkim'', ''dmarc'', ''deliverability'']" by (simp_all add: guideList_def)
  ultimately show ?thesis using guides_consistent [of "guideList ! 1" "''de''"] by auto
qed

text \<open>JSON-LD stands inside a script element of the page: no text, whatever its characters are, can leave it.\<close>

lemma rune_ascii:
  "r \<in> set (runes s) \<Longrightarrow> c \<in> set r \<Longrightarrow> is_ascii_char c \<Longrightarrow> r = [c]"
proof (induction s rule: runes.induct)
  case (1 s)
  then have ne: "s \<noteq> []" by (auto simp: runes.simps [of "[]"])
  show ?case
  proof (cases "r \<in> set (runes (drop (rune_len s) s))")
    case True
    with "1.IH" [OF ne] "1.prems" show ?thesis by blast
  next
    case False
    with "1.prems"(1) ne have r: "r = take (rune_len s) s" by (simp add: runes.simps [of s])
    with "1.prems"(2) obtain p q where p: "take (rune_len s) s = p @ c # q" by (metis split_list)
    then have s: "s = p @ c # (q @ drop (rune_len s) s)" by (metis append_assoc append_Cons append_take_drop_id)
    have "p = []"
    proof (rule ccontr)
      assume "p \<noteq> []"
      then have "rune_len s \<le> length p" using rune_len_before_ascii [OF "1.prems"(3), of p] rune_len_le [of p] s by metis
      moreover have "length (p @ c # q) \<le> rune_len s" unfolding p [symmetric] by simp
      ultimately show False by simp
    qed
    then have "rune_len s = 1" using s rune_len_ascii_front [OF "1.prems"(3)] by (metis append_Nil)
    then show ?thesis using r s \<open>p = []\<close> by (metis One_nat_def append_Nil take0 take_Suc_Cons)
  qed
qed

definition markup :: "char set" where
  "markup = {CHR ''<'', CHR ''>'', CHR ''&''}"

lemma hex_no_markup: "0 \<le> n \<Longrightarrow> n < 16 \<Longrightarrow> Net_IP.hex_digit n \<notin> markup"
proof -
  assume "0 \<le> n" "n < 16"
  then have "n \<in> set [0..15]" by simp
  moreover have "list_all (\<lambda>n. Net_IP.hex_digit n \<noteq> CHR ''<'' \<and> Net_IP.hex_digit n \<noteq> CHR ''>'' \<and> Net_IP.hex_digit n \<noteq> CHR ''&'') [0..15]" by code_simp
  ultimately show ?thesis by (simp only: markup_def list_all_iff) auto
qed

lemma json_rune_safe:
  assumes "r \<in> set (runes s)"
  shows "set (json_rune r) \<inter> markup = {}"
proof (cases "\<exists>c. r = [c]")
  case True
  then obtain c where r: "r = [c]" by blast
  have h: "set (hex4 (of_char c)) \<inter> markup = {}"
    using hex_no_markup [of "int (of_char c div 16)"] hex_no_markup [of "int (of_char c mod 16)"] nat_of_char_less_256 [of c]
    by (simp add: hex4_def markup_def less_mult_imp_div_less)
  show ?thesis using h by (auto simp: r json_rune_def markup_def)
next
  case False
  have "c \<notin> markup" if "c \<in> set r" for c
  proof
    assume "c \<in> markup"
    then have "is_ascii_char c" by (auto simp: markup_def is_ascii_char_def)
    from rune_ascii [OF assms that this] False show False by blast
  qed
  then have "set r \<inter> markup = {}" by blast
  moreover have "json_rune r \<in> {[CHR 0x5C] @ ''u2028'', [CHR 0x5C] @ ''u2029'', r}"
    using False by (cases r; cases "tl r") (auto simp: json_rune_def)
  ultimately show ?thesis by (auto simp: markup_def)
qed

lemma json_string_safe: "set (json_string s) \<inter> markup = {}"
  using json_rune_safe [of _ s] by (auto simp: json_string_def quoted_def markup_def)

lemma show_int_safe: "set (show_int i) \<inter> markup = {}"
  using show_int_set [of i] by (auto simp: markup_def is_digit_def)

lemma join_safe: "set sep \<inter> markup = {} \<Longrightarrow> (\<And>w. w \<in> set ws \<Longrightarrow> set w \<inter> markup = {}) \<Longrightarrow> set (join sep ws) \<inter> markup = {}"
  using set_join [of sep ws] by blast

lemma comma_safe: "set '','' \<inter> markup = {}"
  by (simp add: markup_def)

text \<open>
  Structured data that the pages carry inside a script element holds no character of markup, whatever titles, addresses and application names are put into it:
  it can neither end the element nor open another one.
\<close>

theorem jsonLD_no_markup: "set (jsonLD v) \<inter> {CHR ''<'', CHR ''>'', CHR ''&''} = {}"
proof -
  have "set (Marshal v) \<inter> markup = {}"
  proof (induction v)
    case (JArr vs)
    then have "set (join '','' (map Marshal vs)) \<inter> markup = {}" by (intro join_safe [OF comma_safe]) auto
    then show ?case by (simp add: markup_def)
  next
    case (JObj ms)
    let ?ts = "map (\<lambda>(k, t). json_string k @ '':'' @ t) (sort_key fst (map (\<lambda>(k, v). (k, Marshal v)) ms))"
    have "set w \<inter> markup = {}" if "w \<in> set ?ts" for w
    proof -
      from that obtain k x where kv: "(k, x) \<in> set ms" "w = json_string k @ '':'' @ Marshal x" by auto
      then have "set (Marshal x) \<inter> markup = {}" using JObj by (force simp: snds.simps)
      then show ?thesis using kv(2) json_string_safe [of k] by (auto simp: markup_def)
    qed
    then have "set (join '','' ?ts) \<inter> markup = {}" by (intro join_safe [OF comma_safe])
    then show ?case by (simp add: markup_def)
  qed (simp_all add: json_string_safe show_int_safe)
  then show ?thesis by (simp add: jsonLD_def markup_def)
qed

text \<open>
  Reading a sitemap: the addresses are the texts of the elements \<open>loc\<close>.
\<close>

fun locs :: "gostring \<Rightarrow> gostring list" where
  "locs [] = []"
| "locs (c # t) = (if c = CHR ''<'' \<and> has_prefix t ''loc>'' then takeWhile (\<lambda>d. d \<noteq> CHR ''<'') (drop 4 t) # locs t else locs t)"

lemma locs_front: "CHR ''<'' \<notin> set w \<Longrightarrow> locs (w @ t) = locs t"
  by (induction w) auto

lemma escape_no_tag: "CHR ''<'' \<notin> set (EscapeString s)"
  by (auto simp: EscapeString_def escape_char_def split: if_splits)

lemma text_of_element: "CHR ''<'' \<notin> set w \<Longrightarrow> takeWhile (\<lambda>d. d \<noteq> CHR ''<'') (w @ CHR ''<'' # t) = w"
  by (induction w) auto

definition plain_page_row :: "sitemapPage \<Rightarrow> bool" where
  "plain_page_row p = (CHR ''<'' \<notin> set (SiteUpdated p) \<and> CHR ''<'' \<notin> set (Changes p) \<and> CHR ''<'' \<notin> set (Priority p))"

lemma locs_alternate: "CHR ''<'' \<notin> set tag \<Longrightarrow> locs (alternate_line tag url @ rest) = locs rest"
  by (simp add: alternate_line_def locs_front escape_no_tag)

lemma locs_entry:
  assumes "plain_page_row p"
  shows "locs (sitemap_entry base p l @ rest) = EscapeString (base @ langPath l (SitePath p)) # locs rest"
proof -
  have "CHR ''<'' \<notin> set (lastModified (SiteUpdated p))" using assms by (simp add: lastModified_def plain_page_row_def)
  then show ?thesis using assms
    by (simp add: sitemap_entry_def site_langs_def locs_alternate locs_front text_of_element escape_no_tag plain_page_row_def)
qed

lemma locs_entries:
  "list_all plain_page_row ps \<Longrightarrow>
   locs (concat (map (\<lambda>p. concat (map (sitemap_entry base p) site_langs)) ps) @ rest)
     = [EscapeString (base @ langPath l (SitePath p)). p \<leftarrow> ps, l \<leftarrow> site_langs] @ locs rest"
  by (induction ps) (simp_all add: site_langs_def locs_entry)

lemma sitemapPages_plain: "list_all plain_page_row sitemapPages"
  by (simp add: sitemapPages_def guideList_def plain_page_row_def)

text \<open>
  Whatever host the base address was taken from, the sitemap lists exactly the public pages, each in German and in English, in this order: reading the addresses
  out of the written document gives back the escaped addresses of the pages and nothing else.
\<close>

theorem sitemap_lists_pages:
  "locs (sitemap_text base) = [EscapeString (base @ langPath l (SitePath p)). p \<leftarrow> sitemapPages, l \<leftarrow> site_langs]"
  by (simp add: sitemap_text_def locs_entries [OF sitemapPages_plain])

end
