(* ===== verification/Pdf_Report.thy ===== *)
theory Pdf_Report
  imports Report_View Inbound Regex
begin

text \<open>
  The PDF of a report (\<open>internal/pdf/report.go\<close>). The library that writes the PDF is a parameter: a record with the effect of every drawing
  command on the document, the queries of the code (position, width of a text in the current font, line breaking) and the final output. The state
  also keeps the list of the commands, which the theorems speak about. Coordinates are \<open>float64\<close>; sums of constants
  are exact, as the compiler folds them.
\<close>

subsection \<open>Commands and the document\<close>

record rgb =
  red :: int
  green :: int
  blue :: int

datatype cmd =
    SetMargins float64 float64 float64
  | SetAutoPageBreak bool float64
  | AddPage
  | SetFont gostring float64
  | SetFillColor rgb
  | SetTextColor rgb
  | SetDrawColor rgb
  | SetLineWidth float64
  | Rect float64 float64 float64 float64 gostring
  | RoundedRect float64 float64 float64 float64 float64 gostring gostring
  | Circle float64 float64 float64 gostring
  | Line float64 float64 float64 float64
  | SetXY float64 float64
  | SetY float64
  | CellFormat float64 float64 gostring int gostring
  | Ln float64

record 'f fpdf =
  new_doc :: 'f
  run_cmd :: "cmd \<Rightarrow> 'f \<Rightarrow> 'f"
  set_footer :: "('f \<Rightarrow> 'f) \<Rightarrow> 'f \<Rightarrow> 'f"
  page_width :: "'f \<Rightarrow> float64"
  GetY :: "'f \<Rightarrow> float64"
  PageNo :: "'f \<Rightarrow> int"
  GetStringWidth :: "'f \<Rightarrow> gostring \<Rightarrow> float64"
  SplitLines :: "'f \<Rightarrow> gostring \<Rightarrow> float64 \<Rightarrow> gostring list"
  Output :: "'f \<Rightarrow> gostring option"

record 'f pdf =
  doc :: 'f
  cmds :: "cmd list"

definition emit :: "'f fpdf \<Rightarrow> cmd \<Rightarrow> 'f pdf \<Rightarrow> 'f pdf" where
  "emit f c s = s\<lparr>doc := run_cmd f c (doc s), cmds := cmds s @ [c]\<rparr>"

definition draw :: "'f fpdf \<Rightarrow> cmd list \<Rightarrow> 'f pdf \<Rightarrow> 'f pdf" where
  "draw f cs s = fold (emit f) cs s"

definition fsub :: "float64 \<Rightarrow> float64 \<Rightarrow> float64" where "fsub x y = fl (x - y)"

record Options =
  IncludePass :: bool
  IncludeWarn :: bool
  IncludeFail :: bool
  IncludeInfo :: bool
  IncludeHero :: bool
  IncludeMeta :: bool
  IncludeDetails :: bool

record CheckGroup =
  GrpName :: gostring
  GrpHint :: gostring
  GrpChecks :: "CheckResult list"

record pdfData =
  DAppName :: gostring
  DPublicURL :: gostring
  DMailbox :: Mailbox
  DMessage :: Message
  DReport :: AnalysisReport
  DGroups :: "CheckGroup list"
  DGeneratedAt :: time

subsection \<open>Colours and texts\<close>

definition col :: "int \<Rightarrow> int \<Rightarrow> int \<Rightarrow> rgb" where "col r g b = \<lparr>red = r, green = g, blue = b\<rparr>"

definition colPrimary :: rgb where "colPrimary = col 13 110 253"
definition colSuccess :: rgb where "colSuccess = col 25 135 84"
definition colWarning :: rgb where "colWarning = col 253 126 20"
definition colDanger :: rgb where "colDanger = col 220 53 69"
definition colCyan :: rgb where "colCyan = col 13 202 240"
definition colGray :: rgb where "colGray = col 108 117 125"
definition colLight :: rgb where "colLight = col 248 249 250"
definition colBorder :: rgb where "colBorder = col 222 226 230"
definition colWhite :: rgb where "colWhite = col 255 255 255"
definition colDark :: rgb where "colDark = col 33 37 41"
definition colSubtext :: rgb where "colSubtext = col 73 80 87"
definition colGrpBg :: rgb where "colGrpBg = col 235 242 255"
definition colGrpFg :: rgb where "colGrpFg = col 10 66 180"
definition colExplFg :: rgb where "colExplFg = col 40 50 110"
definition colRecoFg :: rgb where "colRecoFg = col 102 68 3"

definition statusColor :: "gostring \<Rightarrow> rgb" where
  "statusColor status = (if status = ''pass'' then colSuccess else if status = ''warn'' then colWarning
     else if status = ''fail'' then colDanger else if status = ''info'' then colCyan else colGray)"

text \<open>Other statuses are written by the program only as \<open>na\<close>; letter case is ASCII.\<close>

definition statusLabel :: "gostring \<Rightarrow> gostring" where
  "statusLabel status = (if status = ''pass'' then ''OK'' else if status = ''warn'' then ''WARNUNG''
     else if status = ''fail'' then ''FEHLER'' else if status = ''info'' then ''INFO'' else to_upper status)"

definition scoreColor :: "float64 \<Rightarrow> rgb" where
  "scoreColor score = (if 15/2 \<le> score then colSuccess else if 11/2 \<le> score then colWarning else colDanger)"

definition scoreLabel :: "float64 \<Rightarrow> gostring" where
  "scoreLabel score = (if 9 \<le> score then ''Ausgezeichnet'' else if 15/2 \<le> score then ''Sehr gut''
     else if 11/2 \<le> score then ''Verbesserungsbedarf'' else ''Kritisch'')"

definition lighten :: "rgb \<Rightarrow> float64 \<Rightarrow> rgb" where
  "lighten c t = (let l = \<lambda>a. a + to_int (fmul (of_int (255 - a)) t) in col (l (red c)) (l (green c)) (l (blue c)))"

definition latin1_subst :: "(rune \<times> gostring) list" where
  "latin1_subst =
     [([CHR 0xC3, CHR 0xA4], ''ae''), ([CHR 0xC3, CHR 0xB6], ''oe''), ([CHR 0xC3, CHR 0xBC], ''ue''), ([CHR 0xC3, CHR 0x84], ''Ae''), ([CHR 0xC3, CHR 0x96], ''Oe''), ([CHR 0xC3, CHR 0x9C], ''Ue''), ([CHR 0xC3, CHR 0x9F], ''ss''),
      ([CHR 0xE2, CHR 0x80, CHR 0x93], ''-''), ([CHR 0xE2, CHR 0x80, CHR 0x94], ''-''), ([CHR 0xE2, CHR 0x80, CHR 0x98], [CHR 0x27]), ([CHR 0xE2, CHR 0x80, CHR 0x99], [CHR 0x27]), ([CHR 0xE2, CHR 0x80, CHR 0x9C], [CHR 0x22]), ([CHR 0xE2, CHR 0x80, CHR 0x9D], [CHR 0x22]),
      ([CHR 0xE2, CHR 0x80, CHR 0xA6], ''...''), ([CHR 0xE2, CHR 0x86, CHR 0x92], ''->''), ([CHR 0xE2, CHR 0x86, CHR 0x90], ''<-''), ([CHR 0xE2, CHR 0x9C, CHR 0x93], ''+''), ([CHR 0xE2, CHR 0x9C, CHR 0x97], ''x''), ([CHR 0xE2, CHR 0x9C, CHR 0x94], ''+''), ([CHR 0xE2, CHR 0x9A, CHR 0xA0], ''!''), ([CHR 0xE2, CHR 0x80, CHR 0xA2], ''*'')]"

text \<open>A character up to \<open>0xFF\<close> is written with \<open>WriteRune\<close>, as two bytes; a byte that is no character reads as \<open>0xFFFD\<close>.\<close>

definition latin1_rune :: "rune \<Rightarrow> gostring" where
  "latin1_rune r =
     (case map_of latin1_subst r of
        Some sub \<Rightarrow> sub
      | None \<Rightarrow> (case r of
                   [c] \<Rightarrow> if is_ascii_char c then [c] else []
                 | [c, d] \<Rightarrow> if c = CHR 0xC2 \<or> c = CHR 0xC3 then r else []
                 | _ \<Rightarrow> []))"

definition latin1 :: "gostring \<Rightarrow> gostring" where
  "latin1 s = concat (map latin1_rune (runes s))"

text \<open>\<open>%.1f\<close> and \<open>%+.1f\<close> of a finite number, and the dates of the report.\<close>

definition format_tenths :: "float64 \<Rightarrow> gostring" where
  "format_tenths x = (let n = round_half_even (\<bar>x\<bar> * 10) in (if x < 0 then ''-'' else []) @ show_int (n div 10) @ ''.'' @ show_int (n mod 10))"

definition format_delta :: "float64 \<Rightarrow> gostring" where
  "format_delta x = (if x < 0 then [] else ''+'') @ format_tenths x"

definition two_digits :: "int \<Rightarrow> gostring" where
  "two_digits n = (if n < 10 then CHR ''0'' # show_int n else show_int n)"

text \<open>The civil date of a day counted from 1 January 1970, by cycles of 400 years that begin in March.\<close>

definition civil_date :: "int \<Rightarrow> int \<times> int \<times> int" where
  "civil_date days =
     (let z = days + 719468; era = z div 146097; doe = z mod 146097;
          yoe = (doe - doe div 1460 + doe div 36524 - doe div 146096) div 365;
          doy = doe - (365 * yoe + yoe div 4 - yoe div 100);
          mp = (5 * doy + 2) div 153;
          m = (if mp < 10 then mp + 3 else mp - 9)
      in (yoe + era * 400 + (if m \<le> 2 then 1 else 0), m, doy - (153 * mp + 2) div 5 + 1))"

definition four_digits :: "int \<Rightarrow> gostring" where
  "four_digits n = two_digits (n div 100) @ two_digits (n mod 100)"

text \<open>\<open>Format("02.01.2006  15:04")\<close> of a time in UTC; \<open>show_seconds\<close> is the same with \<open>:05\<close>.\<close>

definition show_minutes :: "time \<Rightarrow> gostring" where
  "show_minutes t =
     (let secs = t div 1000000000; sod = secs mod 86400
      in case civil_date (secs div 86400) of (y, m, d) \<Rightarrow>
           two_digits d @ ''.'' @ two_digits m @ ''.'' @ four_digits y @ ''  '' @ two_digits (sod div 3600) @ '':'' @ two_digits (sod div 60 mod 60))"

definition show_seconds :: "time \<Rightarrow> gostring" where
  "show_seconds t = show_minutes t @ '':'' @ two_digits (t div 1000000000 mod 60)"

definition wrapText :: "'f fpdf \<Rightarrow> gostring \<Rightarrow> float64 \<Rightarrow> 'f pdf \<Rightarrow> gostring list" where
  "wrapText f txt maxW s = (if trim_space txt = [] then [] else filter (\<lambda>b. trim_space b \<noteq> []) (SplitLines f (doc s) txt maxW))"

definition count_checks :: "gostring \<Rightarrow> CheckResult list \<Rightarrow> int" where
  "count_checks status checks = int (length (filter (\<lambda>c. finding.Status c = status) checks))"

definition checkCounts :: "CheckResult list \<Rightarrow> int \<times> int \<times> int \<times> int" where
  "checkCounts checks = (count_checks ''pass'' checks, count_checks ''warn'' checks, count_checks ''fail'' checks, count_checks ''info'' checks)"

definition filterChecks :: "CheckResult list \<Rightarrow> Options \<Rightarrow> CheckResult list" where
  "filterChecks checks opts =
     filter (\<lambda>c. if finding.Status c = ''pass'' then IncludePass opts else if finding.Status c = ''warn'' then IncludeWarn opts
                 else if finding.Status c = ''fail'' then IncludeFail opts else finding.Status c = ''info'' \<and> IncludeInfo opts) checks"

definition countGroups :: "CheckGroup list \<Rightarrow> int" where
  "countGroups groups = int (length (filter (\<lambda>g. GrpChecks g \<noteq> []) groups))"

definition cleanMeta :: "gostring \<Rightarrow> gostring" where
  "cleanMeta s = (if s = encrypted_mark \<or> s = [] then ''(E2E-verschluesselt - nur im Browser lesbar)'' else s)"

subsection \<open>The sections of the document\<close>

definition sf :: "gostring \<Rightarrow> float64 \<Rightarrow> cmd" where "sf style pt = SetFont style pt"
definition fc :: "rgb \<Rightarrow> cmd" where "fc c = SetFillColor c"
definition tc :: "rgb \<Rightarrow> cmd" where "tc c = SetTextColor c"
definition dc :: "rgb \<Rightarrow> cmd" where "dc c = SetDrawColor c"

definition cell :: "float64 \<Rightarrow> float64 \<Rightarrow> gostring \<Rightarrow> gostring \<Rightarrow> cmd" where
  "cell w h txt align = CellFormat w h txt 0 align"

definition drawFooter :: "'f fpdf \<Rightarrow> gostring \<Rightarrow> float64 \<Rightarrow> 'f \<Rightarrow> 'f" where
  "drawFooter f appL pageW d0 =
     (let d1 = fold (run_cmd f) [SetY (- 12), dc colBorder, SetLineWidth (fl (2/10))] d0;
          d2 = fold (run_cmd f) [Line 14 (GetY f d1) (fsub pageW 14) (GetY f d1), Ln (3/2), sf [] (13/2), tc colGray] d1
      in run_cmd f (cell 0 4 (appL @ ''  -  Deliverability Report  -  Seite '' @ show_int (PageNo f d2)) ''C'') d2)"

definition drawHeader :: "'f fpdf \<Rightarrow> pdfData \<Rightarrow> float64 \<Rightarrow> 'f pdf \<Rightarrow> 'f pdf" where
  "drawHeader f data pageW s = draw f
     [fc colPrimary, Rect 0 0 pageW 22 ''F'',
      fc colWhite, RoundedRect 10 5 12 12 (3/2) ''1234'' ''F'', fc colPrimary, Rect (23/2) 7 9 6 ''F'',
      dc colWhite, SetLineWidth (fl (55/100)), Line (23/2) (15/2) 16 11, Line 16 11 (41/2) (15/2),
      fc colSuccess, Circle 21 16 3 ''F'', tc colWhite, sf ''B'' (11/2), SetXY (fl (192/10)) (fl (142/10)), cell (fl (36/10)) (fl (36/10)) ''+'' ''C'',
      tc colWhite, sf ''B'' 12, SetXY 25 7, cell 90 8 (latin1 (DAppName data)) ''L'',
      sf [] 8, SetXY 0 7, cell (fsub pageW 13) 8 ''DELIVERABILITY REPORT'' ''R'',
      fc colLight, Rect 0 22 pageW 9 ''F'', dc colBorder, SetLineWidth (fl (2/10)), Line 0 31 pageW 31,
      sf [] (15/2), tc colSubtext, SetXY 14 24, cell 75 5 (latin1 (''Mailbox: '' @ Address (DMailbox data))) ''L'',
      cell 40 5 (''Score: '' @ format_tenths (Score (DReport data)) @ '' / 10'') ''C'',
      cell 0 5 (latin1 (''Erstellt: '' @ show_minutes (DGeneratedAt data))) ''R'',
      SetY 36] s"

definition drawE2ENotice :: "'f fpdf \<Rightarrow> float64 \<Rightarrow> 'f pdf \<Rightarrow> 'f pdf" where
  "drawE2ENotice f w s =
     (let y = GetY f (doc s) in draw f
       [fc (col 255 248 230), dc (col 253 200 100), SetLineWidth (fl (2/10)), RoundedRect 14 y w 9 (3/2) ''1234'' ''FD'',
        fc (col 253 126 20), Rect 14 y 3 9 ''F'', RoundedRect 14 y 3 9 (3/2) ''14'' ''F'',
        sf ''B'' (15/2), tc (col 102 68 3), SetXY 20 (fadd y (3/2)),
        cell (fsub w 10) 5 ''E2E-verschluesselt: Betreff, Absender und IP sind nur im Browser mit deinem Schlussel lesbar.'' ''L'',
        sf [] (13/2), SetXY 20 (fadd y (11/2)),
        cell (fsub w 10) (7/2) ''Der Score und alle Pruefergebnisse sind serverseitig verfuegbar und werden vollstaendig angezeigt.'' ''L'',
        SetY (fadd y 9)] s)"

text \<open>A text that is centred in the coloured panel of 46 mm, measured in the font that is set.\<close>

definition centred :: "'f fpdf \<Rightarrow> gostring \<Rightarrow> float64 \<Rightarrow> float64 \<Rightarrow> 'f pdf \<Rightarrow> cmd list" where
  "centred f txt y h s = (let tw = GetStringWidth f (doc s) txt in [SetXY (fadd 14 (fdiv (fsub 46 tw) 2)) y, cell tw h txt ''L''])"

text \<open>The pills of the counters; one that does not fit any more begins a new line.\<close>

definition pill_texts :: "CheckResult list \<Rightarrow> (gostring \<times> gostring) list" where
  "pill_texts checks = map (\<lambda>(status, label). (status, show_int (count_checks status checks) @ '' '' @ label))
     [(''pass'', ''bestanden''), (''warn'', ''Warnungen''), (''fail'', ''Fehler''), (''info'', ''Infos'')]"

fun draw_pills :: "'f fpdf \<Rightarrow> float64 \<Rightarrow> float64 \<Rightarrow> (gostring \<times> gostring) list \<Rightarrow> float64 \<Rightarrow> float64 \<Rightarrow> 'f pdf \<Rightarrow> 'f pdf" where
  "draw_pills f w rx [] px py s = s"
| "draw_pills f w rx ((status, txt) # ps) px py s =
     (let pc = statusColor status;
          pw = fadd (GetStringWidth f (doc s) txt) 6;
          wrap = fsub (fadd 14 w) 3 < fadd px pw;
          px = (if wrap then rx else px);
          py = (if wrap then fadd py 8 else py)
      in draw_pills f w rx ps (fadd px (fadd pw 3)) py
           (draw f [fc (lighten pc (fl (82/100))), RoundedRect px py pw 6 1 ''1234'' ''F'', tc pc, SetXY px py, cell pw 6 txt ''C''] s))"

definition drawHero :: "'f fpdf \<Rightarrow> pdfData \<Rightarrow> float64 \<Rightarrow> 'f pdf \<Rightarrow> 'f pdf" where
  "drawHero f data w s =
     (let y = GetY f (doc s);
          c = scoreColor (Score (DReport data));
          label = scoreLabel (Score (DReport data));
          s = draw f
            [fc colWhite, dc colBorder, SetLineWidth (fl (2/10)), RoundedRect 14 y w 42 2 ''1234'' ''F'',
             fc c, Rect 14 y 46 42 ''F'', RoundedRect 14 y 46 42 2 ''14'' ''F'',
             dc colBorder, RoundedRect 14 y w 42 2 ''1234'' ''D'', SetLineWidth (fl (12/100)), Line 60 (fadd y 2) 60 (fsub (fadd y 42) 2),
             sf ''B'' 26, tc colWhite] s;
          s = draw f (centred f (format_tenths (Score (DReport data))) (fadd y 7) 16 s) s;
          s = draw f [sf [] (17/2)] s;
          s = draw f (centred f ''/ 10'' (fadd y 24) 6 s) s;
          s = draw f [sf ''B'' 6] s;
          s = draw f (tc (lighten c (fl (55/100))) # centred f (to_upper label) (fadd y 33) 5 s) s;
          rw = fsub (fsub (fsub w 46) 4) 3;
          s = draw f
            [sf [] (13/2), tc colGray, SetXY 64 (fadd y 5), cell rw (9/2) ''GESAMTSCORE'' ''L'',
             sf ''B'' 15, tc colDark, SetXY 64 (fadd y 10), cell rw 10 (latin1 label) ''L'', sf ''B'' (13/2)] s;
          s = draw_pills f w 64 (pill_texts (Checks (DReport data))) 64 (fadd y 23) s
      in draw f [SetY (fadd y 42)] s)"

text \<open>The table of the groups: columns of 70 and four times 28 mm, rows of 7.5 mm.\<close>

definition table_columns :: "(gostring \<times> float64 \<times> gostring) list" where
  "table_columns = [(''Kategorie'', 17, ''L''), (''OK'', 87, ''C''), (''Warnungen'', 115, ''C''), (''Fehler'', 143, ''C''), (''Infos'', 171, ''C'')]"

definition column_width :: "float64 \<Rightarrow> float64" where
  "column_width x = (if x = 17 then 70 else 28)"

definition count_cell :: "float64 \<Rightarrow> float64 \<Rightarrow> int \<times> rgb \<Rightarrow> cmd list" where
  "count_cell y x = (\<lambda>(n, c). (if 0 < n then [tc c, sf ''B'' 7] else [tc (col 180 185 190), sf [] 7]) @ [SetXY x (fadd y (3/2)), cell 28 (11/2) (show_int n) ''C''])"

definition table_row :: "float64 \<Rightarrow> float64 \<Rightarrow> bool \<Rightarrow> CheckGroup \<Rightarrow> cmd list" where
  "table_row w y shade grp =
     (case checkCounts (GrpChecks grp) of (p, wn, fa, i) \<Rightarrow>
       [fc (if shade then col 245 247 252 else colWhite), Rect 14 y w (15/2) ''F'', Line 14 (fadd y (15/2)) (fadd 14 w) (fadd y (15/2)),
        sf ''B'' 7, tc colDark, SetXY 17 (fadd y (3/2)), cell 70 (11/2) (latin1 (GrpName grp)) ''L'']
       @ count_cell y 87 (p, colSuccess) @ count_cell y 115 (wn, colWarning) @ count_cell y 143 (fa, colDanger) @ count_cell y 171 (i, colCyan))"

fun table_rows :: "'f fpdf \<Rightarrow> float64 \<Rightarrow> CheckGroup list \<Rightarrow> float64 \<Rightarrow> bool \<Rightarrow> 'f pdf \<Rightarrow> float64 \<times> 'f pdf" where
  "table_rows f w [] y shade s = (y, s)"
| "table_rows f w (grp # gs) y shade s =
     (if GrpChecks grp = [] then table_rows f w gs y shade s
      else table_rows f w gs (fadd y (15/2)) (\<not> shade) (draw f (table_row w y shade grp) s))"

definition drawCategoryTable :: "'f fpdf \<Rightarrow> pdfData \<Rightarrow> float64 \<Rightarrow> 'f pdf \<Rightarrow> 'f pdf" where
  "drawCategoryTable f data w s =
     (let s = draw f [sf ''B'' (15/2), tc colSubtext] s;
          s = draw f [SetXY 14 (GetY f (doc s)), CellFormat w 5 ''PRUEFKATEGORIEN - UEBERSICHT'' 1 ''L'', Ln 1] s;
          y = GetY f (doc s);
          s = draw f ([fc colPrimary, Rect 14 y w (15/2) ''F'', sf ''B'' 7, tc colWhite]
                @ concat (map (\<lambda>(h, x, align). [SetXY x (fadd y (3/2)), cell (column_width x) (11/2) h align]) table_columns)
                @ [dc colBorder, SetLineWidth (fl (12/100))]) s
      in case table_rows f w (DGroups data) (fadd y (15/2)) False s of (y, s) \<Rightarrow>
           (let s = draw f [dc colBorder, SetLineWidth (fl (2/10))] s;
                h = fmul (of_int (countGroups (DGroups data))) (15/2)
            in draw f [Rect 14 (fsub (fsub (GetY f (doc s)) h) (15/2)) w (fadd h (15/2)) ''D'', SetY y] s))"

text \<open>A value that is too wide loses characters at its end until it fits.\<close>

function shorten :: "(gostring \<Rightarrow> float64) \<Rightarrow> float64 \<Rightarrow> gostring \<Rightarrow> gostring" where
  "shorten width limit val = (if 3 < length val \<and> limit < width val then shorten width limit (take (length val - 4) val @ ''...'') else val)"
  by pat_completeness auto
termination
  by (relation "measure (\<lambda>(width, limit, val). length val)") auto

declare shorten.simps [simp del]

definition meta_items :: "Message \<Rightarrow> (gostring \<times> gostring) list" where
  "meta_items m =
     (let source = (if MsgRemoteIP m = encrypted_mark \<or> MsgRemoteIP m = [] then cleanMeta encrypted_mark
                    else if MsgHELO m \<noteq> [] \<and> MsgHELO m \<noteq> encrypted_mark then MsgRemoteIP m @ '' / '' @ MsgHELO m
                    else MsgRemoteIP m)
      in [(''Betreff'', cleanMeta (Subject m)),
          (''Empfangen'', if ReceivedAt m \<noteq> zero_time then show_seconds (ReceivedAt m) else ''(E2E-verschluesselt)''),
          (''Envelope-From'', cleanMeta (SMTPFrom m)),
          (''Quelle (IP / HELO)'', source)])"

definition meta_card :: "'f fpdf \<Rightarrow> float64 \<Rightarrow> float64 \<Rightarrow> nat \<times> gostring \<times> gostring \<Rightarrow> 'f pdf \<Rightarrow> 'f pdf" where
  "meta_card f cw y = (\<lambda>(i, label, val) s.
     (let ix = fadd 14 (fmul (of_nat (i mod 2)) (fadd cw 4));
          iy = fadd y (fmul (of_nat (i div 2)) 16);
          s = draw f
            [fc colWhite, RoundedRect ix iy cw 14 (3/2) ''1234'' ''FD'', fc colPrimary, Rect (fadd ix (3/2)) iy (fsub cw 3) 2 ''F'',
             sf [] (13/2), tc colGray, SetXY (fadd ix 4) (fadd iy 4), cell (fsub cw 6) 4 (latin1 label) ''L'', sf ''B'' 8, tc colDark] s;
          val = shorten (GetStringWidth f (doc s)) (fsub cw 8) (latin1 val)
      in draw f [SetXY (fadd ix 4) (fadd iy (17/2)), cell (fsub cw 6) 5 val ''L''] s))"

definition drawMeta :: "'f fpdf \<Rightarrow> pdfData \<Rightarrow> float64 \<Rightarrow> 'f pdf \<Rightarrow> 'f pdf" where
  "drawMeta f data w s =
     (let y = GetY f (doc s);
          cw = fdiv (fsub w 4) 2;
          s = draw f [dc colBorder, SetLineWidth (fl (2/10))] s;
          s = fold (meta_card f cw y) (zip [0..<4] (meta_items (DMessage data))) s
      in draw f [SetY (fadd y 32)] s)"

subsection \<open>The checks\<close>

fun count_pills :: "'f fpdf \<Rightarrow> float64 \<Rightarrow> (int \<times> rgb \<times> gostring) list \<Rightarrow> float64 \<Rightarrow> 'f pdf \<Rightarrow> 'f pdf" where
  "count_pills f y [] px s = s"
| "count_pills f y ((n, c, label) # ps) px s =
     (if n = 0 then count_pills f y ps px s
      else (let txt = show_int n @ '' '' @ label;
                pw = fadd (GetStringWidth f (doc s) txt) 4;
                px = fsub px pw
            in count_pills f y ps (fsub px 2)
                 (draw f [fc (lighten c (3/4)), RoundedRect px (fadd y (5/2)) pw (9/2) (fl (7/10)) ''1234'' ''F'', tc c,
                          SetXY px (fadd y (5/2)), cell pw (9/2) txt ''C''] s)))"

definition drawGroupHeader :: "'f fpdf \<Rightarrow> gostring \<Rightarrow> CheckResult list \<Rightarrow> float64 \<Rightarrow> 'f pdf \<Rightarrow> 'f pdf" where
  "drawGroupHeader f name filtered w s =
     (let y = GetY f (doc s);
          s = draw f
            [fc colGrpBg, Rect 14 y w 9 ''F'', fc colPrimary, Rect 14 y 3 9 ''F'', dc colBorder, SetLineWidth (fl (15/100)),
             Line 14 (fadd y 9) (fadd 14 w) (fadd y 9), sf ''B'' 8, tc colGrpFg, SetXY 19 (fadd y 2), cell 100 5 (latin1 name) ''L'',
             sf ''B'' (11/2)] s
      in case checkCounts filtered of (p, wn, fa, i) \<Rightarrow>
           draw f [Ln 10] (count_pills f y [(i, colCyan, ''I''), (fa, colDanger, ''F''), (wn, colWarning, ''W''), (p, colSuccess, ''OK'')]
             (fsub (fadd 14 w) 2) s))"

text \<open>What is measured before a card is drawn: the texts of the card and its height.\<close>

record card =
  badgeW :: float64
  deltaW :: float64
  summLines :: "gostring list"
  explLines :: "gostring list"
  recoLines :: "gostring list"
  sepH :: float64
  cardH :: float64

definition no_summary :: gostring where
  "no_summary = ''(Details im Web-Report verfuegbar - Inhalt moeglicherweise E2E-verschluesselt)''"

definition block_height :: "gostring list \<Rightarrow> float64" where
  "block_height ls = (if ls = [] then 0 else fadd (fadd (11/2) (fmul (of_nat (length ls)) 4)) 2)"

definition measure_card :: "'f fpdf \<Rightarrow> CheckResult \<Rightarrow> float64 \<Rightarrow> bool \<Rightarrow> 'f pdf \<Rightarrow> card \<times> 'f pdf" where
  "measure_card f chk w details s =
     (let txW = fsub (fsub (fsub w 4) 5) 4;
          s = draw f [sf ''B'' (11/2)] s;
          badge = fadd (GetStringWidth f (doc s) (statusLabel (finding.Status chk))) 5;
          s = draw f [sf ''B'' 7] s;
          delta = fadd (GetStringWidth f (doc s) (format_delta (ScoreDelta chk))) 3;
          s = draw f [sf [] (15/2)] s;
          summ = wrapText f (if trim_space (latin1 (Summary chk)) = [] then no_summary else latin1 (Summary chk)) txW s;
          shows_expl = (details \<and> Explanation chk \<noteq> []);
          s = (if shows_expl then draw f [sf [] 7] s else s);
          expl = (if shows_expl then wrapText f (latin1 (Explanation chk)) (fsub txW 2) s else []);
          shows_reco = (details \<and> Recommendation chk \<noteq> [] \<and> (finding.Status chk = ''warn'' \<or> finding.Status chk = ''fail''));
          s = (if shows_reco then draw f [sf [] 7] s else s);
          reco = (if shows_reco then wrapText f (latin1 (Recommendation chk)) (fsub txW 2) s else []);
          sep = (if 0 < fadd (block_height expl) (block_height reco) then 3 else 0);
          h = fadd (fadd (fadd (fadd (fadd (21/2) (fmul (of_nat (length summ)) (9/2))) sep) (block_height expl)) (block_height reco)) (7/2)
      in (\<lparr>badgeW = badge, deltaW = delta, summLines = summ, explLines = expl, recoLines = reco, sepH = sep, cardH = h\<rparr>, s))"

fun text_lines :: "float64 \<Rightarrow> float64 \<Rightarrow> float64 \<Rightarrow> gostring list \<Rightarrow> float64 \<Rightarrow> cmd list \<times> float64" where
  "text_lines x w h [] y = ([], y)"
| "text_lines x w h (l # ls) y = (let r = text_lines x w h ls (fadd y h) in (SetXY x y # cell w h l ''L'' # fst r, snd r))"

definition explanation_block :: "float64 \<Rightarrow> card \<Rightarrow> float64 \<Rightarrow> cmd list \<times> float64" where
  "explanation_block w cd y =
     (if explLines cd = [] then ([], y)
      else (let txW = fsub (fsub (fsub w 4) 5) 4 in
        (case text_lines 24 (fsub txW 1) 4 (explLines cd) (fadd y (11/2)) of (cs, y1) \<Rightarrow>
           (let y2 = fadd y1 2
            in ([sf ''B'' (13/2), tc colExplFg, SetXY 23 y, cell txW 5 ''Erklaerung'' ''L'', sf [] 7] @ cs
                @ (if recoLines cd = [] then [] else [dc colBorder, SetLineWidth (fl (1/10)), Line 18 y2 (fsub (fadd 14 w) (1/2)) y2]),
                if recoLines cd = [] then y2 else fadd y2 (3/2))))))"

definition recommendation_block :: "float64 \<Rightarrow> card \<Rightarrow> float64 \<Rightarrow> cmd list" where
  "recommendation_block w cd y =
     (if recoLines cd = [] then []
      else (let txW = fsub (fsub (fsub w 4) 5) 4 in
        [sf ''B'' (13/2), tc colRecoFg, SetXY 23 y, cell txW 5 ''Empfehlung'' ''L'', sf [] 7, tc colRecoFg]
        @ fst (text_lines 24 (fsub txW 1) 4 (recoLines cd) (fadd y (11/2)))))"

definition card_cmds :: "CheckResult \<Rightarrow> float64 \<Rightarrow> card \<Rightarrow> float64 \<Rightarrow> cmd list" where
  "card_cmds chk w cd y =
     (let c = statusColor (finding.Status chk);
          txW = fsub (fsub (fsub w 4) 5) 4;
          nameW = fsub (fsub (fsub txW (badgeW cd)) (deltaW cd)) 2;
          y0 = fadd y (7/2);
          bx = fsub (fsub (fadd 14 w) (badgeW cd)) 4;
          y1 = fadd y0 7;
          summ = text_lines 23 txW (9/2) (summLines cd) y1;
          y2 = (if 0 < sepH cd then fadd (snd summ) (3/2) else snd summ);
          y3 = (if 0 < sepH cd then fadd y2 (3/2) else y2);
          expl = explanation_block w cd y3
      in [fc colWhite, dc colBorder, SetLineWidth (fl (15/100)), Rect 14 y w (cardH cd) ''FD'', fc c, Rect 14 y 4 (cardH cd) ''F'',
          sf ''B'' (11/2), fc c, RoundedRect bx (fadd y0 (1/2)) (badgeW cd) (9/2) (fl (7/10)) ''1234'' ''F'', tc colWhite,
          SetXY bx (fadd y0 (1/2)), cell (badgeW cd) (9/2) (statusLabel (finding.Status chk)) ''C'',
          sf ''B'' 7, tc c, SetXY (fsub (fsub bx (deltaW cd)) 1) (fadd y0 (1/2)), cell (deltaW cd) (9/2) (format_delta (ScoreDelta chk)) ''R'',
          sf ''B'' (17/2), tc colDark, SetXY 23 y0, cell nameW (11/2) (latin1 (Name chk)) ''L'',
          sf [] (15/2), tc colSubtext] @ fst summ
         @ (if 0 < sepH cd then [dc colBorder, SetLineWidth (fl (12/100)), Line 18 y2 (fsub (fadd 14 w) (1/2)) y2] else [])
         @ fst expl @ recommendation_block w cd (snd expl) @ [SetY (fadd (fadd y (cardH cd)) (3/2))])"

definition drawCheckCard :: "'f fpdf \<Rightarrow> CheckResult \<Rightarrow> float64 \<Rightarrow> bool \<Rightarrow> gostring \<Rightarrow> 'f pdf \<Rightarrow> 'f pdf" where
  "drawCheckCard f chk w details grpName s =
     (case measure_card f chk w details s of (cd, s) \<Rightarrow>
       (let s = (if 276 < fadd (GetY f (doc s)) (cardH cd)
                 then (let s = draw f [AddPage] s
                       in if grpName \<noteq> [] then drawGroupHeader f (latin1 grpName @ '' (Forts.)'') [] w s else s)
                 else s)
        in draw f (card_cmds chk w cd (GetY f (doc s))) s))"

definition drawGroup :: "'f fpdf \<Rightarrow> Options \<Rightarrow> float64 \<Rightarrow> CheckGroup \<Rightarrow> 'f pdf \<Rightarrow> 'f pdf" where
  "drawGroup f opts cw grp s =
     (let filtered = filterChecks (GrpChecks grp) opts
      in if filtered = [] then s
         else (let s = (if 250 < GetY f (doc s) then draw f [AddPage] s else s);
                   s = drawGroupHeader f (GrpName grp) filtered cw s
               in draw f [Ln 4] (fold (\<lambda>chk. drawCheckCard f chk cw (IncludeDetails opts) (GrpName grp)) filtered s)))"

definition document :: "'f fpdf \<Rightarrow> pdfData \<Rightarrow> Options \<Rightarrow> 'f pdf" where
  "document f data opts =
     (let s = draw f [SetMargins 14 14 14, SetAutoPageBreak True 16, AddPage] \<lparr>doc = new_doc f, cmds = []\<rparr>;
          pageW = page_width f (doc s);
          cw = fsub pageW 28;
          s = s\<lparr>doc := set_footer f (drawFooter f (latin1 (DAppName data)) pageW) (doc s)\<rparr>;
          s = drawHeader f data pageW s;
          s = (if Subject (DMessage data) = encrypted_mark then draw f [Ln 4] (drawE2ENotice f cw s) else s);
          s = (if IncludeHero opts then draw f [Ln 5] (drawHero f data cw s) else s);
          s = draw f [Ln 5] (drawCategoryTable f data cw s);
          s = (if IncludeMeta opts then draw f [Ln 5] (drawMeta f data cw s) else s)
      in fold (drawGroup f opts cw) (DGroups data) s)"

definition Generate :: "'f fpdf \<Rightarrow> pdfData \<Rightarrow> Options \<Rightarrow> gostring option" where
  "Generate f data opts = Output f (doc (document f data opts))"

subsection \<open>What the document shows\<close>

text \<open>
  The names of the cards are the only texts in bold 8.5 point. \<open>card_step\<close> collects the texts that are written in this font; a list of commands
  that never selects it is quiet.
\<close>

definition is_card_font :: "gostring \<Rightarrow> float64 \<Rightarrow> bool" where
  "is_card_font style pt = (style = ''B'' \<and> pt = 17/2)"

definition card_step :: "cmd \<Rightarrow> gostring list \<times> bool \<Rightarrow> gostring list \<times> bool" where
  "card_step c acc =
     (case c of
        SetFont style pt \<Rightarrow> (fst acc, is_card_font style pt)
      | CellFormat w h txt k align \<Rightarrow> (if snd acc then fst acc @ [txt] else fst acc, snd acc)
      | _ \<Rightarrow> acc)"

definition card_names :: "cmd list \<Rightarrow> gostring list \<times> bool" where
  "card_names cs = fold card_step cs ([], False)"

definition quiet_cmd :: "cmd \<Rightarrow> bool" where
  "quiet_cmd c = (case c of SetFont style pt \<Rightarrow> \<not> is_card_font style pt | _ \<Rightarrow> True)"

abbreviation quiet :: "cmd list \<Rightarrow> bool" where
  "quiet cs \<equiv> list_all quiet_cmd cs"

named_theorems pdf_cmds

lemmas [pdf_cmds] = sf_def fc_def tc_def dc_def cell_def quiet_cmd_def is_card_font_def

lemma quiet_step: "quiet cs \<Longrightarrow> fold card_step cs (ns, False) = (ns, False)"
  by (induction cs) (auto simp: quiet_cmd_def card_step_def split: cmd.splits)

text \<open>The cards of a state so far, when no card is being written.\<close>

definition shows_cards :: "gostring list \<Rightarrow> 'f pdf \<Rightarrow> bool" where
  "shows_cards ns s = (card_names (cmds s) = (ns, False))"

lemma cmds_draw: "cmds (draw f cs s) = cmds s @ cs"
  unfolding draw_def by (induction cs arbitrary: s) (simp_all add: emit_def)

lemma quiet_draw: "quiet cs \<Longrightarrow> shows_cards ns s \<Longrightarrow> shows_cards ns (draw f cs s)"
  by (simp add: shows_cards_def card_names_def cmds_draw quiet_step)

text \<open>Local definitions in the drawing code: a new state shows the same cards, other values do not matter.\<close>

lemma let_state: "shows_cards ns t \<Longrightarrow> (\<And>x. shows_cards ns x \<Longrightarrow> shows_cards ns (g x)) \<Longrightarrow> shows_cards ns (Let t g)"
  by simp

lemma let_value:
  "(\<And>x. shows_cards ns (g x)) \<Longrightarrow> shows_cards ns (Let (v :: rat) g)"
  "(\<And>x. shows_cards ns (h x)) \<Longrightarrow> shows_cards ns (Let (c :: rgb) h)"
  "(\<And>x. shows_cards ns (k x)) \<Longrightarrow> shows_cards ns (Let (txt :: gostring) k)"
  by simp_all

lemma let_measured:
  "shows_cards ns t \<Longrightarrow> (\<And>x. shows_cards ns x \<Longrightarrow> shows_cards ns (snd (g x))) \<Longrightarrow> shows_cards ns (snd (Let t g))"
  "(\<And>x. shows_cards ns (snd (h x))) \<Longrightarrow> shows_cards ns (snd (Let (v :: rat) h))"
  "(\<And>x. shows_cards ns (snd (k x))) \<Longrightarrow> shows_cards ns (snd (Let (ls :: gostring list) k))"
  "(\<And>x. shows_cards ns (snd (m x))) \<Longrightarrow> shows_cards ns (snd (Let (b :: bool) m))"
  by simp_all

lemma if_shows: "shows_cards ns s \<Longrightarrow> shows_cards ns t \<Longrightarrow> shows_cards ns (if b then s else t)"
  by simp

lemmas drawing = let_state let_value let_measured if_shows quiet_draw

lemma quiet_text_lines: "quiet (fst (text_lines x w h ls y))"
  by (induction x w h ls y rule: text_lines.induct) (simp_all add: Let_def pdf_cmds)

lemma quiet_pills: "shows_cards ns s \<Longrightarrow> shows_cards ns (draw_pills f w rx ps px py s)"
  by (induction f w rx ps px py s rule: draw_pills.induct) (simp_all add: Let_def quiet_draw pdf_cmds)

lemma quiet_count_pills: "shows_cards ns s \<Longrightarrow> shows_cards ns (count_pills f y ps px s)"
  by (induction f y ps px s rule: count_pills.induct) (simp_all add: Let_def quiet_draw pdf_cmds)

lemma quiet_row: "quiet (table_row w y shade grp)"
  by (simp add: table_row_def count_cell_def checkCounts_def pdf_cmds)

lemma quiet_rows: "shows_cards ns s \<Longrightarrow> shows_cards ns (snd (table_rows f w gs y shade s))"
  by (induction f w gs y shade s rule: table_rows.induct) (simp_all add: quiet_draw quiet_row)

lemma quiet_meta_card: "shows_cards ns s \<Longrightarrow> shows_cards ns (meta_card f cw y it s)"
  by (cases it) (simp add: meta_card_def Let_def quiet_draw pdf_cmds)

lemma quiet_meta_cards: "shows_cards ns s \<Longrightarrow> shows_cards ns (fold (meta_card f cw y) its s)"
  by (induction its arbitrary: s) (simp_all add: quiet_meta_card)

lemma quiet_header: "shows_cards ns s \<Longrightarrow> shows_cards ns (drawHeader f data pageW s)"
  by (simp add: drawHeader_def quiet_draw pdf_cmds)

lemma quiet_notice: "shows_cards ns s \<Longrightarrow> shows_cards ns (drawE2ENotice f w s)"
  by (simp add: drawE2ENotice_def Let_def quiet_draw pdf_cmds)

lemma quiet_hero: "shows_cards ns s \<Longrightarrow> shows_cards ns (drawHero f data w s)"
  unfolding drawHero_def by (intro drawing quiet_pills) (simp_all add: centred_def Let_def pdf_cmds)

lemma quiet_table: "shows_cards ns s \<Longrightarrow> shows_cards ns (drawCategoryTable f data w s)"
  by (simp add: drawCategoryTable_def Let_def case_prod_unfold table_columns_def quiet_draw quiet_rows pdf_cmds)

lemma quiet_meta: "shows_cards ns s \<Longrightarrow> shows_cards ns (drawMeta f data w s)"
  by (simp add: drawMeta_def Let_def quiet_draw quiet_meta_cards pdf_cmds)

lemma quiet_group_header: "shows_cards ns s \<Longrightarrow> shows_cards ns (drawGroupHeader f nm cs w s)"
  unfolding drawGroupHeader_def checkCounts_def prod.case by (intro drawing quiet_count_pills) (simp_all add: pdf_cmds)

lemma quiet_measure: "shows_cards ns s \<Longrightarrow> shows_cards ns (snd (measure_card f chk w details s))"
  unfolding measure_card_def by (intro drawing) (simp_all add: quiet_draw pdf_cmds)

lemma quiet_blocks: "quiet (fst (explanation_block w cd y))" "quiet (recommendation_block w cd y)"
  by (simp_all add: explanation_block_def recommendation_block_def Let_def case_prod_unfold quiet_text_lines pdf_cmds)

lemma card_cmds_shows: "fold card_step (card_cmds chk w cd y) (ns, False) = (ns @ [latin1 (Name chk)], False)"
  by (simp add: card_cmds_def Let_def quiet_step quiet_text_lines quiet_blocks pdf_cmds card_step_def)

lemma drawCheckCard_shows: "shows_cards ns s \<Longrightarrow> shows_cards (ns @ [latin1 (Name chk)]) (drawCheckCard f chk w details grp s)"
proof -
  assume "shows_cards ns s"
  then have m: "shows_cards ns (snd (measure_card f chk w details s))" by (rule quiet_measure)
  have card: "shows_cards (ns @ [latin1 (Name chk)]) (draw f (card_cmds chk w cd y) t)" if "shows_cards ns t" for cd y t
    using that card_cmds_shows [of chk w cd y ns] by (simp add: shows_cards_def card_names_def cmds_draw)
  have page: "shows_cards ns (draw f [AddPage] (snd (measure_card f chk w details s)))" by (rule quiet_draw [OF _ m]) (simp add: pdf_cmds)
  show ?thesis by (simp add: drawCheckCard_def case_prod_unfold Let_def card m page quiet_group_header)
qed

lemma cards_shown:
  "shows_cards ns s \<Longrightarrow> shows_cards (ns @ map (\<lambda>c. latin1 (Name c)) chks) (fold (\<lambda>chk. drawCheckCard f chk w details grp) chks s)"
proof (induction chks arbitrary: ns s)
  case (Cons c chks)
  from Cons.IH [OF drawCheckCard_shows [OF Cons.prems, where chk = c and f = f and w = w and details = details and grp = grp]] show ?case by simp
qed simp

lemma drawGroup_shows:
  assumes "shows_cards ns s"
  shows "shows_cards (ns @ map (\<lambda>c. latin1 (Name c)) (filterChecks (GrpChecks grp) opts)) (drawGroup f opts cw grp s)"
  using assms by (simp add: drawGroup_def Let_def quiet_draw quiet_group_header cards_shown pdf_cmds)

lemma groups_shown:
  "shows_cards ns s \<Longrightarrow>
   shows_cards (ns @ concat (map (\<lambda>g. map (\<lambda>c. latin1 (Name c)) (filterChecks (GrpChecks g) opts)) gs)) (fold (drawGroup f opts cw) gs s)"
proof (induction gs arbitrary: ns s)
  case (Cons g gs)
  from Cons.IH [OF drawGroup_shows [OF Cons.prems, where grp = g and opts = opts and f = f and cw = cw]] show ?case by simp
qed simp

text \<open>
  Whatever the PDF library does and which parts are switched off: the document has exactly one card for each check
  whose status was selected, in the order of the groups and of the checks in them, under its name.
\<close>

lemma document_cards:
  "fst (card_names (cmds (document f data opts)))
     = concat (map (\<lambda>g. map (\<lambda>c. latin1 (Name c)) (filterChecks (GrpChecks g) opts)) (DGroups data))"
proof -
  have start: "shows_cards [] (draw f [SetMargins 14 14 14, SetAutoPageBreak True 16, AddPage] \<lparr>doc = new_doc f, cmds = []\<rparr>)"
    by (rule quiet_draw) (simp_all add: pdf_cmds shows_cards_def card_names_def)
  have footer: "shows_cards ns (s\<lparr>doc := d\<rparr>) = shows_cards ns s" for ns d and s :: "'a pdf" by (simp add: shows_cards_def)
  have ln: "shows_cards ns (draw f [Ln h] s) = shows_cards ns s" for ns h and s :: "'a pdf"
    by (auto simp: shows_cards_def card_names_def cmds_draw card_step_def)
  have "shows_cards ([] @ concat (map (\<lambda>g. map (\<lambda>c. latin1 (Name c)) (filterChecks (GrpChecks g) opts)) (DGroups data))) (document f data opts)"
    unfolding document_def Let_def
    by (rule groups_shown) (simp add: start footer ln quiet_header quiet_notice quiet_hero quiet_table quiet_meta)
  then show ?thesis by (simp add: shows_cards_def)
qed

text \<open>A shortened value fits or has no more than three characters, is never longer than the value, and is the value or a beginning of it with dots.\<close>

lemma shorten_fits: "length (shorten width limit v) \<le> 3 \<or> width (shorten width limit v) \<le> limit"
proof (induction width limit v rule: shorten.induct)
  case (1 width limit v)
  then show ?case by (cases "3 < length v \<and> limit < width v") (auto simp: shorten.simps [of width limit v])
qed

lemma shorten_dots: "v = u @ ''...'' \<Longrightarrow> \<exists>k. shorten width limit v = take k u @ ''...''"
proof (induction width limit v arbitrary: u rule: shorten.induct)
  case (1 width limit v)
  show ?case
  proof (cases "3 < length v \<and> limit < width v")
    case True
    then have v: "take (length v - 4) v = take (length u - 1) u" using "1.prems" by simp
    from "1.IH" [OF True, of "take (length u - 1) u"] v obtain k where "shorten width limit (take (length v - 4) v @ ''...'') = take k (take (length u - 1) u) @ ''...''"
      by auto
    then show ?thesis using True by (auto simp: shorten.simps [of width limit v] take_take)
  next
    case False
    then have "shorten width limit v = v" by (subst shorten.simps) auto
    then show ?thesis using "1.prems" by (intro exI [of _ "length u"]) simp
  qed
qed

lemma shorten_prefix: "shorten width limit v = v \<or> (\<exists>k < length v. shorten width limit v = take k v @ ''...'')"
proof (cases "3 < length v \<and> limit < width v")
  case True
  from shorten_dots [OF refl, of width limit "take (length v - 4) v"]
  obtain k where "shorten width limit (take (length v - 4) v @ ''...'') = take k (take (length v - 4) v) @ ''...''" by blast
  then have "shorten width limit v = take (min k (length v - 4)) v @ ''...''" using True by (simp add: shorten.simps [of width limit v] take_take)
  moreover have "min k (length v - 4) < length v" using True by auto
  ultimately show ?thesis by blast
next
  case False
  then have "shorten width limit v = v" by (subst shorten.simps) auto
  then show ?thesis ..
qed

text \<open>A lighter colour is still a colour.\<close>

definition valid_rgb :: "rgb \<Rightarrow> bool" where
  "valid_rgb c = (list_all (\<lambda>v. 0 \<le> v \<and> v \<le> 255) [red c, green c, blue c])"

lemma lighten_channel:
  assumes "0 \<le> a" "a \<le> 255" "0 \<le> t" "t \<le> 1"
  shows "0 \<le> a + to_int (fmul (of_int (255 - a)) t) \<and> a + to_int (fmul (of_int (255 - a)) t) \<le> 255"
proof -
  have p: "0 \<le> of_int (255 - a) * t" "of_int (255 - a) * t \<le> of_int (255 - a)" using assms by (simp_all add: mult_left_le)
  have b: "fl (of_int (255 - a)) = of_int (255 - a)" by (rule fl_int) (use assms in simp)
  have "0 \<le> fmul (of_int (255 - a)) t" using fl_mono [OF p(1)] by (simp add: fmul_def)
  moreover have "fmul (of_int (255 - a)) t \<le> of_int (255 - a)" using fl_mono [OF p(2)] b by (simp add: fmul_def)
  ultimately have "0 \<le> to_int (fmul (of_int (255 - a)) t)" "to_int (fmul (of_int (255 - a)) t) \<le> 255 - a"
    by (simp_all add: to_int_def floor_le_iff le_floor_iff)
  then show ?thesis using assms by linarith
qed

lemma lighten_valid: "valid_rgb c \<Longrightarrow> 0 \<le> t \<Longrightarrow> t \<le> 1 \<Longrightarrow> valid_rgb (lighten c t)"
  using lighten_channel by (simp add: valid_rgb_def lighten_def col_def Let_def)

text \<open>\<open>latin1\<close> keeps an accented letter as the two bytes of UTF-8, which a font in Latin-1 shows as two other characters.\<close>

lemma latin1_keeps_utf8: "latin1 [CHR 0xC3, CHR 0xA9] = [CHR 0xC3, CHR 0xA9] \<and> length (latin1 [CHR 0xC3, CHR 0xA9]) = 2"
  by code_simp

lemma latin1_rune_ascii: "is_ascii_char c \<Longrightarrow> latin1_rune [c] = [c]"
  by (simp add: latin1_rune_def latin1_subst_def)

lemma latin1_ascii: "list_all is_ascii_char s \<Longrightarrow> latin1 s = s"
  by (induction s) (simp_all add: latin1_def runes.simps [of "[]"] runes_Cons_ascii latin1_rune_ascii)

lemma na_checks_left_out: "finding.Status c = ''na'' \<Longrightarrow> filterChecks [c] opts = []"
  by (simp add: filterChecks_def)

subsection \<open>A concrete document\<close>

text \<open>A library that keeps the vertical position only: no page breaks of its own, characters of two millimetres.\<close>

definition demo_fpdf :: "rat fpdf" where
  "demo_fpdf = \<lparr>new_doc = 0,
     run_cmd = (\<lambda>c y. case c of SetXY _ v \<Rightarrow> v | SetY v \<Rightarrow> if v < 0 then 297 + v else v | Ln h \<Rightarrow> y + h
                 | CellFormat _ h _ k _ \<Rightarrow> if k = 1 then y + h else y | AddPage \<Rightarrow> 14 | _ \<Rightarrow> y),
     set_footer = (\<lambda>g y. y), page_width = (\<lambda>y. 210), GetY = id, PageNo = (\<lambda>y. 1), GetStringWidth = (\<lambda>y t. 2 * of_nat (length t)),
     SplitLines = (\<lambda>y t w. [t]), Output = (\<lambda>y. Some ''%PDF'')\<rparr>"

definition demo_group :: CheckGroup where
  "demo_group = \<lparr>GrpName = ''DNS'', GrpHint = [], GrpChecks = [demo_check ''mx'' ''pass'' ''MX'']\<rparr>"

text \<open>
  The frame of the table of categories is placed by the position after the last cell, which is 1.5 mm below the top of the last row, as if it were
  the end of the table: it is drawn 6 mm above the table. Here the heading of the table begins at 20 and its head row at 26.
\<close>

lemma table_frame_displaced:
  "filter (\<lambda>c. case c of Rect x y w h style \<Rightarrow> True | _ \<Rightarrow> False)
     (cmds (drawCategoryTable demo_fpdf \<lparr>DAppName = [], DPublicURL = [], DMailbox = undefined, DMessage = undefined, DReport = undefined,
        DGroups = [demo_group], DGeneratedAt = 0\<rparr> 182 \<lparr>doc = 20, cmds = []\<rparr>))
   = [Rect 14 26 182 (15/2) ''F'', Rect 14 (67/2) 182 (15/2) ''F'', Rect 14 20 182 15 ''D'']"
  by code_simp

end
