(* ===== verification/Body_Views.thy ===== *)
theory Body_Views
  imports Content
begin

text \<open>
  The body of a message as the report page shows it (\<open>messageBodyViews\<close> and its helpers in \<open>web/server.go\<close>): the plain text and the HTML source, taken
  from the first parts that have them. The decoder of quoted-printable, the charset tables and the reader of the message are parameters beside the MIME parsers of
  \<open>Content\<close>. \<open>extractBodyViews\<close> has no limit on nested parts; the model counts the levels, and \<open>None\<close> stands for a nesting that is deeper.
\<close>

record views_env =
  mime :: content_env
  read_mail :: "gostring \<Rightarrow> (header \<times> gostring) option"
  qp_decode :: "gostring \<Rightarrow> gostring option"
  charset_decode :: "gostring \<Rightarrow> gostring \<Rightarrow> gostring option"

definition removeWhitespace :: "gostring \<Rightarrow> gostring" where
  "removeWhitespace s = trim_space (replace_all [LF] [] (replace_all [CR] [] s))"

definition decodeCharset :: "views_env \<Rightarrow> header \<Rightarrow> gostring \<Rightarrow> gostring" where
  "decodeCharset env h body =
     (case ParseMediaType (mime env) (Get h ''Content-Type'') of (mediatype, params, bad) \<Rightarrow>
        let label = trim_space (param params ''charset'')
        in if bad \<or> label = [] then body else (case charset_decode env label body of Some d \<Rightarrow> d | None \<Rightarrow> body))"

definition decodeTransferBody :: "views_env \<Rightarrow> header \<Rightarrow> gostring \<Rightarrow> gostring" where
  "decodeTransferBody env h body =
     (let enc = to_lower (trim_space (Get h ''Content-Transfer-Encoding''));
          decoded = (if enc = ''base64'' then (case base64_std_decode (removeWhitespace body) of Some d \<Rightarrow> d | None \<Rightarrow> body)
                     else if enc = ''quoted-printable'' then (case qp_decode env body of Some d \<Rightarrow> d | None \<Rightarrow> body)
                     else body)
      in decodeCharset env h decoded)"

text \<open>\<open>(?s)<[^>]*>\<close> replaced by a space: from a \<open><\<close> to the next \<open>>\<close>, if there is one.\<close>

function strip_tags :: "gostring \<Rightarrow> gostring" where
  "strip_tags [] = []"
| "strip_tags (c # t) =
     (if c = CHR ''<'' \<and> CHR ''>'' \<in> set t then CHR '' '' # strip_tags (drop 1 (dropWhile (\<lambda>d. d \<noteq> CHR ''>'') t)) else c # strip_tags t)"
  by pat_completeness auto
termination
  by (relation "measure length") (auto intro: le_imp_less_Suc le_trans [OF diff_le_self length_dropWhile_le])

definition stripHTMLTags :: "gostring \<Rightarrow> gostring" where
  "stripHTMLTags s = join '' '' (Go_Strings.fields (strip_tags s))"

text \<open>The first text and the first HTML among the parts. A part that cannot be read is skipped; at most 3 MB of a part are read.\<close>

fun part_views :: "(header \<Rightarrow> gostring \<Rightarrow> (gostring \<times> gostring) option) \<Rightarrow> mime_part list \<Rightarrow> gostring \<times> gostring \<Rightarrow> (gostring \<times> gostring) option" where
  "part_views view [] acc = Some acc"
| "part_views view (p # ps) acc =
     (if PartBroken p then part_views view ps acc
      else (case view (PartHeader p) (take (3 * 1024 * 1024) (PartData p)) of
              None \<Rightarrow> None
            | Some (t, h) \<Rightarrow> part_views view ps (if fst acc = [] then t else fst acc, if snd acc = [] then h else snd acc)))"

primrec extractBodyViews :: "nat \<Rightarrow> views_env \<Rightarrow> header \<Rightarrow> gostring \<Rightarrow> (gostring \<times> gostring) option" where
  "extractBodyViews 0 env h body = None"
| "extractBodyViews (Suc n) env h body =
     (case ParseMediaType (mime env) (Get h ''Content-Type'') of (mediatype, params, bad) \<Rightarrow>
        let text = trim_space (decodeTransferBody env h body); mediatype = to_lower (trim_space mediatype)
        in if bad then Some (text, [])
           else if has_prefix mediatype ''multipart/''
           then (let boundary = trim_space (param params ''boundary'')
                 in if boundary = [] then Some (text, [])
                    else map_option (map_prod trim_space trim_space) (part_views (extractBodyViews n env) (multipart_parts (mime env) body boundary) ([], [])))
           else if mediatype = ''text/html'' then Some ([], text)
           else Some (text, []))"

definition messageBodyViews :: "nat \<Rightarrow> views_env \<Rightarrow> gostring \<Rightarrow> (gostring \<times> gostring) option" where
  "messageBodyViews n env raw =
     (case read_mail env raw of
        None \<Rightarrow> Some ([], [])
      | Some (h, body) \<Rightarrow>
          map_option (\<lambda>(plain, html). (trim_space (if plain = [] \<and> html \<noteq> [] then trim_space (stripHTMLTags html) else plain), trim_space html))
            (extractBodyViews n env h (take (5 * 1024 * 1024) body)))"

subsection \<open>The nesting is bounded by the size\<close>

lemma part_views_returns:
  "(\<And>p. p \<in> set ps \<Longrightarrow> \<exists>v. view (PartHeader p) (take (3 * 1024 * 1024) (PartData p)) = Some v) \<Longrightarrow> \<exists>v. part_views view ps acc = Some v"
proof (induction ps arbitrary: acc)
  case (Cons p ps)
  obtain t h where "view (PartHeader p) (take (3 * 1024 * 1024) (PartData p)) = Some (t, h)" using Cons.prems [of p] by auto
  then show ?case using Cons.IH Cons.prems by simp
qed simp

lemma parts_shorter: "parts_fit env \<Longrightarrow> p \<in> set (multipart_parts env body boundary) \<Longrightarrow> length (PartData p) + 2 \<le> length body"
proof -
  assume fit: "parts_fit env" and p: "p \<in> set (multipart_parts env body boundary)"
  have "length (PartData p) + 2 \<le> sum_list (map (\<lambda>p. length (PartData p) + 2) (multipart_parts env body boundary))"
    by (rule member_le_sum_list) (use p in auto)
  also have "\<dots> \<le> length body" using fit by (simp add: parts_fit_def)
  finally show ?thesis .
qed

lemma extract_returns: "parts_fit (mime env) \<Longrightarrow> length body < 2 * n \<Longrightarrow> \<exists>v. extractBodyViews n env h body = Some v"
proof (induction n arbitrary: h body)
  case (Suc n)
  have "\<exists>v. extractBodyViews n env (PartHeader p) (take (3 * 1024 * 1024) (PartData p)) = Some v"
    if "p \<in> set (multipart_parts (mime env) body b)" for p b
  proof (rule Suc.IH [OF Suc.prems(1)])
    show "length (take (3 * 1024 * 1024) (PartData p)) < 2 * n" using parts_shorter [OF Suc.prems(1) that] Suc.prems(2) by (simp add: min_def)
  qed
  then have "\<exists>v. part_views (extractBodyViews n env) (multipart_parts (mime env) body b) acc = Some v" for b acc
    by (rule part_views_returns)
  then show ?case by (auto simp: Let_def split: prod.splits)
qed simp

lemma part_views_more:
  assumes "\<And>h b v. view h b = Some v \<Longrightarrow> view' h b = Some v"
  shows "part_views view ps acc = Some v \<Longrightarrow> part_views view' ps acc = Some v"
proof (induction ps arbitrary: acc)
  case (Cons p ps)
  show ?case
  proof (cases "view (PartHeader p) (take (3 * 1024 * 1024) (PartData p))")
    case (Some r)
    then show ?thesis using Cons assms [OF Some] by (simp split: prod.splits if_splits)
  qed (use Cons in \<open>simp split: if_splits\<close>)
qed simp

lemma extract_more: "extractBodyViews n env h body = Some v \<Longrightarrow> extractBodyViews (n + k) env h body = Some v"
proof (induction n arbitrary: h body v)
  case (Suc n)
  have more: "part_views (extractBodyViews n env) ps acc = Some u \<Longrightarrow> part_views (extractBodyViews (n + k) env) ps acc = Some u" for ps acc u
    by (rule part_views_more [of "extractBodyViews n env" "extractBodyViews (n + k) env"]) (use Suc.IH in auto)
  show ?case using Suc.prems by (auto simp: Let_def more split: prod.splits if_splits)
qed simp

text \<open>
  C40: Showing the body of a report ends on every message: however deep parts are nested, half as many levels as the message has bytes are enough, and with any larger
  number the texts are the same. What is assumed of the library is that the body is not longer than the message, and that the parts of a body are disjoint
  pieces of it, each after a boundary line.
\<close>

theorem body_views_terminate:
  assumes "parts_fit (mime env)" "\<And>h body. read_mail env raw = Some (h, body) \<Longrightarrow> length body \<le> length raw"
  shows "\<exists>v. \<forall>k. messageBodyViews (Suc (length raw div 2) + k) env raw = Some v"
proof (cases "read_mail env raw")
  case None
  then show ?thesis by (simp add: messageBodyViews_def)
next
  case (Some r)
  obtain h body where r: "read_mail env raw = Some (h, body)" using Some by (cases r) auto
  have "length (take (5 * 1024 * 1024) body) \<le> length raw" using assms(2) [OF r] by simp
  then have "length (take (5 * 1024 * 1024) body) < 2 * Suc (length raw div 2)" by presburger
  from extract_returns [OF assms(1) this] obtain v where v: "extractBodyViews (Suc (length raw div 2)) env h (take (5 * 1024 * 1024) body) = Some v" by blast
  show ?thesis using extract_more [OF v] r by (intro exI allI) (simp only: messageBodyViews_def option.case prod.case option.map)
qed

definition demo_views :: views_env where
  "demo_views = \<lparr>mime = demo_content, read_mail = (\<lambda>raw. Some (Map.empty, drop 2 raw)), qp_decode = Some, charset_decode = (\<lambda>l b. None)\<rparr>"

theorem body_views_terminate_witness:
  "\<exists>v. \<forall>k. messageBodyViews (Suc (length (replicate 9 (CHR ''x'')) div 2) + k) demo_views (replicate 9 (CHR ''x'')) = Some v"
proof (rule body_views_terminate)
  show "parts_fit (mime demo_views)" using demo_content_fit by (simp add: demo_views_def)
  show "length body \<le> length (replicate 9 (CHR ''x''))" if "read_mail demo_views (replicate 9 (CHR ''x'')) = Some (h, body)" for h body
    using that by (auto simp: demo_views_def)
qed

end
