(* ===== verification/Pages.thy ===== *)
theory Pages
  imports Guides Body_Views Pdf_Report Web_Views
begin

text \<open>
  The pages of \<open>web/server.go\<close> that render a template or write a document: start page, about, privacy, simulator, report, PDF download, metrics, static
  files, and the complete table of routes. A page is the data that is handed to its template; \<open>show_page\<close> is the template. With \<open>site\<close> these pages
  take the place of the parameter \<open>pages\<close> of the web server, so that every theorem about \<open>Handler\<close> covers the whole server.
\<close>

subsection \<open>Metrics\<close>

definition uptime_seconds :: "duration \<Rightarrow> float64" where
  "uptime_seconds d = fadd (fl (of_int (go_div d 1000000000))) (fdiv (fl (of_int (d - go_div d 1000000000 * 1000000000))) 1000000000)"

definition metric_block :: "gostring \<Rightarrow> gostring \<Rightarrow> gostring \<Rightarrow> gostring \<Rightarrow> gostring" where
  "metric_block name help kind val =
     ''# HELP sender_report_'' @ name @ '' '' @ help @ [LF] @ ''# TYPE sender_report_'' @ name @ '' '' @ kind @ [LF]
     @ ''sender_report_'' @ name @ '' '' @ val @ [LF]"

definition counter_table :: "(gostring \<times> gostring \<times> (metrics \<Rightarrow> 64 word)) list" where
  "counter_table =
     [(''http_requests_total'', ''Total HTTP requests'', httpRequestsTotal),
      (''mailboxes_created_total'', ''Total created mailboxes'', mailboxesCreated),
      (''mails_received_total'', ''Total inbound mails received'', mailsReceived),
      (''reports_generated_total'', ''Total analysis reports generated'', reportsGenerated),
      (''analyzer_errors_total'', ''Total analyzer/report persistence errors'', analyzerErrors),
      (''inbound_errors_total'', ''Total inbound processing errors'', inboundErrors),
      (''web_ratelimit_blocked_total'', ''Total web requests blocked by rate limiting'', webRateLimitBlocked),
      (''smtp_ratelimit_blocked_total'', ''Total SMTP sessions blocked by rate limiting'', smtpRateLimitBlocked)]"

definition RenderPrometheus :: "duration \<Rightarrow> metrics \<Rightarrow> gostring" where
  "RenderPrometheus uptime c =
     metric_block ''uptime_seconds'' ''Process uptime in seconds'' ''gauge'' (show_int (round_half_even (uptime_seconds uptime)))
     @ concat (map (\<lambda>(name, help, get). metric_block name help ''counter'' (show_int (uint (get c)))) counter_table)"

definition metricsPage :: "duration \<Rightarrow> request \<Rightarrow> 'j web \<Rightarrow> response" where
  "metricsPage uptime r w =
     (if Method r \<noteq> ''GET'' then http_error 405 ''method not allowed''
      else \<lparr>StatusCode = 200, RespHeaders = [(''Content-Type'', ''text/plain; version=0.0.4; charset=utf-8'')],
            RespBody = Plain (RenderPrometheus uptime (counts (world w)))\<rparr>)"

subsection \<open>The data of the pages\<close>

record HomeData =
  HAppName :: gostring
  HDomain :: gostring
  HPublicURL :: gostring
  HStats :: GlobalStats
  HLang :: gostring
  HEnableInboxPlacement :: bool
  HIPTProviderNames :: "gostring list"
  HIPTProviders :: "(gostring \<times> bool) list"
  HIPTTestMinutes :: int

record AboutData =
  AAppName :: gostring
  ADomain :: gostring
  APublicURL :: gostring
  ALang :: gostring
  AEnableInboxPlacement :: bool
  ARetentionDays :: int
  AMailboxHours :: int

record PrivacyData =
  PAppName :: gostring
  PPublicURL :: gostring
  POperatorName :: gostring
  POperatorAddress :: gostring
  POperatorEmail :: gostring
  PHideTemplateNote :: bool
  PLang :: gostring
  PCookieSecure :: gostring
  PLangCookieName :: gostring
  PLangCookieDays :: int
  PMailboxCookieName :: gostring
  PMailboxHours :: int
  PRetentionDays :: int
  PDNSFallback :: "gostring list"

record ReportData =
  RAppName :: gostring
  RMessage :: Message
  RMailbox :: Mailbox
  RReport :: AnalysisReport
  RLang :: gostring
  RStatuses :: "gostring \<Rightarrow> int"
  RCheckGroups :: "ReportCheckGroup list"
  RLinkGroups :: "ReportLinkGroup list"
  RLinkTotal :: int
  RHeroTitle :: gostring
  RHeroSubtitle :: gostring
  RPlainTextBody :: gostring
  RHTMLSourceBody :: gostring
  REncrypted :: bool
  RMsgRef :: gostring
  REnableInboxPlacement :: bool
  RIPTProviderNames :: "gostring list"
  RIPTProviders :: "(gostring \<times> bool) list"
  RIPTTestMinutes :: int

datatype page =
    HomePage HomeData
  | AboutPage AboutData
  | PrivacyPage PrivacyData
  | GuidesPage GuidePageData
  | SimulatePage gostring
  | ReportPage ReportData

text \<open>
  What the pages use from outside: the templates, the static files, the redirects of \<open>http.ServeMux\<close>, the readers of a message body, the host name of a link, the PDF
  library, and for each request the uptime, the time in a PDF and the bound for nested parts.
\<close>

record 'f site_env =
  show_page :: "page \<Rightarrow> gostring option"
  static_files :: "request \<Rightarrow> response"
  mux_redirect :: "request \<Rightarrow> response"
  body_reader :: views_env
  link_host :: "gostring \<Rightarrow> gostring option"
  pdf_library :: "'f fpdf"
  uptime_now :: duration
  pdf_time :: time
  nesting :: nat

definition ttl_hours :: "duration \<Rightarrow> int" where
  "ttl_hours d = to_int (fadd (fl (of_int (go_div d hour))) (fdiv (fl (of_int (d - go_div d hour * hour))) (of_int hour)))"

definition home :: "'f site_env \<Rightarrow> 'j web_run \<Rightarrow> 'j web_env \<Rightarrow> request \<Rightarrow> 'j web \<Rightarrow> response" where
  "home sx run env r w =
     (let cfg = config env in
      if URLPath r \<noteq> ''/'' then not_found
      else if Method r \<noteq> ''GET'' then http_error 405 ''method not allowed''
      else render (show_page sx) (HomePage
        \<lparr>HAppName = AppName cfg, HDomain = requestSMTPDomain cfg (trustedProxy env) r, HPublicURL = publicBaseURL cfg (trustedProxy env) r,
         HStats = GetGlobalStats (t_check run) (database w), HLang = Request.lang cfg r, HEnableInboxPlacement = (seeds env \<noteq> None),
         HIPTProviderNames = iptProviderNames env, HIPTProviders = iptProviders env w, HIPTTestMinutes = go_div (IPTTestDuration cfg) minute\<rparr>))"

definition aboutPage :: "'f site_env \<Rightarrow> 'j web_env \<Rightarrow> request \<Rightarrow> response" where
  "aboutPage sx env r =
     (let cfg = config env in
      if Method r \<noteq> ''GET'' then http_error 405 ''method not allowed''
      else render (show_page sx) (AboutPage
        \<lparr>AAppName = AppName cfg, ADomain = (case SplitHostPort (Host r) of Some (h, p) \<Rightarrow> h | None \<Rightarrow> Host r),
         APublicURL = publicBaseURL cfg (trustedProxy env) r, ALang = Request.lang cfg r, AEnableInboxPlacement = (seeds env \<noteq> None),
         ARetentionDays = ttl_days (RetentionTTL cfg), AMailboxHours = ttl_hours (MailboxTTL cfg)\<rparr>))"

definition privacyPage :: "'f site_env \<Rightarrow> 'j web_env \<Rightarrow> request \<Rightarrow> response" where
  "privacyPage sx env r =
     (let cfg = config env in
      if Method r \<noteq> ''GET'' then http_error 405 ''method not allowed''
      else render (show_page sx) (PrivacyPage
        \<lparr>PAppName = AppName cfg, PPublicURL = publicBaseURL cfg (trustedProxy env) r, POperatorName = PrivacyOperatorName cfg,
         POperatorAddress = PrivacyOperatorAddress cfg, POperatorEmail = PrivacyOperatorEmail cfg, PHideTemplateNote = PrivacyHideTemplateNote cfg,
         PLang = Request.lang cfg r, PCookieSecure = CookieSecure cfg, PLangCookieName = LangCookieName cfg, PLangCookieDays = LangCookieDays cfg,
         PMailboxCookieName = MailboxCookieName cfg, PMailboxHours = ttl_hours (MailboxTTL cfg), PRetentionDays = ttl_days (RetentionTTL cfg),
         PDNSFallback = resolverHosts (DNSFallbackResolvers cfg)\<rparr>))"

definition simulatePage :: "'f site_env \<Rightarrow> 'j web_env \<Rightarrow> request \<Rightarrow> response" where
  "simulatePage sx env r =
     (if URLPath r \<noteq> ''/simulate'' then not_found else render (show_page sx) (SimulatePage (Request.lang (config env) r)))"

subsection \<open>The report page\<close>

definition choose_report :: "'j web_env \<Rightarrow> gostring \<Rightarrow> (Message \<times> AnalysisReport option) list \<Rightarrow> gostring \<Rightarrow> (Message \<times> AnalysisReport option) option" where
  "choose_report env token msgs msgRef =
     (case selectMessageWithReport env token msgs msgRef of
        Some m \<Rightarrow> Some m
      | None \<Rightarrow> find (\<lambda>m. snd m \<noteq> None) msgs)"

definition report_data :: "'f site_env \<Rightarrow> 'j web_env \<Rightarrow> request \<Rightarrow> 'j web \<Rightarrow> Mailbox \<Rightarrow> Message \<Rightarrow> AnalysisReport \<Rightarrow> ReportData" where
  "report_data sx env r w mb msg rep =
     (let cfg = config env; l = Request.lang cfg r;
          (plain, html) = (if Encrypted msg then ([], [])
             else (case messageBodyViews (nesting sx) (body_reader sx) (RawSource msg) of Some v \<Rightarrow> v | None \<Rightarrow> ([], [])));
          checks = sortChecks (Checks rep)
      in \<lparr>RAppName = AppName cfg, RMessage = msg, RMailbox = mb, RReport = rep\<lparr>Checks := checks\<rparr>, RLang = l,
          RStatuses = (\<lambda>s. int (length (filter (\<lambda>c. finding.Status c = s) checks))),
          RCheckGroups = groupReportChecks checks l, RLinkGroups = groupLinksByDomain (link_host sx) (Links rep), RLinkTotal = int (length (Links rep)),
          RHeroTitle = reportHeroTitle (Score rep) l, RHeroSubtitle = reportHeroSubtitle (Score rep) l, RPlainTextBody = plain, RHTMLSourceBody = html,
          REncrypted = Encrypted msg, RMsgRef = messageReference env (Token mb) (MessageRowID msg), REnableInboxPlacement = (seeds env \<noteq> None),
          RIPTProviderNames = iptProviderNames env, RIPTProviders = iptProviders env w, RIPTTestMinutes = go_div (IPTTestDuration cfg) minute\<rparr>)"

definition reportPage :: "'f site_env \<Rightarrow> 'j web_env \<Rightarrow> request \<Rightarrow> 'j web \<Rightarrow> response" where
  "reportPage sx env r w =
     (let token = trim_prefix (URLPath r) ''/report/'' in
      if Method r \<noteq> ''GET'' then http_error 405 ''method not allowed''
      else if token = [] \<or> contains token ''/'' then not_found
      else (case GetMailboxByToken token (database w) of
              Inl e \<Rightarrow> gonePage env r 404
            | Inr mb \<Rightarrow>
                (case choose_report env token (list_reports env mb 100 w) (trim_space (Query r ''msg'')) of
                   Some (msg, Some rep) \<Rightarrow> render (show_page sx) (ReportPage (report_data sx env r w mb msg rep))
                 | _ \<Rightarrow> http_error 404 ''report not found'')))"

subsection \<open>The PDF\<close>

definition boolParam :: "request \<Rightarrow> gostring \<Rightarrow> bool \<Rightarrow> bool" where
  "boolParam r key def = (let v = Query r key in if v = [] then def else v = ''1'' \<or> v = ''true'')"

definition pdf_options :: "request \<Rightarrow> Pdf_Report.Options" where
  "pdf_options r =
     \<lparr>IncludePass = boolParam r ''pass'' True, IncludeWarn = boolParam r ''warn'' True, IncludeFail = boolParam r ''fail'' True,
      IncludeInfo = boolParam r ''info'' True, IncludeHero = boolParam r ''hero'' True, IncludeMeta = boolParam r ''meta'' True,
      IncludeDetails = boolParam r ''details'' True\<rparr>"

definition pdf_data :: "'f site_env \<Rightarrow> 'j web_env \<Rightarrow> request \<Rightarrow> Mailbox \<Rightarrow> Message \<Rightarrow> AnalysisReport \<Rightarrow> pdfData" where
  "pdf_data sx env r mb msg rep =
     \<lparr>DAppName = AppName (config env), DPublicURL = PublicBaseURL (config env), DMailbox = mb, DMessage = msg, DReport = rep,
      DGroups = map (\<lambda>g. \<lparr>GrpName = GroupName g, GrpHint = Hint g, GrpChecks = GroupChecks g\<rparr>)
        (groupReportChecks (Checks rep) (Request.lang (config env) r)),
      DGeneratedAt = pdf_time sx\<rparr>"

text \<open>The file name takes the first eight bytes of the token; for a shorter one the slice panics, and the connection ends without an answer.\<close>

definition pdf_answer :: "gostring \<Rightarrow> gostring \<Rightarrow> response" where
  "pdf_answer token bytes =
     (if length token < 8 then aborted
      else \<lparr>StatusCode = 200,
            RespHeaders = [(''Content-Type'', ''application/pdf''),
              (''Content-Disposition'', (''attachment; filename='' @ [CHR 0x22] @ ''deliverability-report-'') @ take 8 token @ (''.pdf'' @ [CHR 0x22])),
              (''Content-Length'', show_nat (length bytes)), (''Cache-Control'', ''no-store'')],
            RespBody = Plain bytes\<rparr>)"

definition reportPDFHandler :: "'f site_env \<Rightarrow> 'j web_env \<Rightarrow> request \<Rightarrow> 'j web \<Rightarrow> response" where
  "reportPDFHandler sx env r w =
     (let token = trim_prefix (URLPath r) ''/api/pdf/'' in
      if Method r \<noteq> ''GET'' then http_error 405 ''method not allowed''
      else if token = [] \<or> contains token ''/'' then not_found
      else (case GetMailboxByToken token (database w) of
              Inl e \<Rightarrow> not_found
            | Inr mb \<Rightarrow>
                (case list_reports env mb 1 w of
                   (msg, Some listed) # _ \<Rightarrow>
                     (case GetReportByMessageID (jsons (inbound env)) (MessageRowID msg) (database w) of
                        Inl e \<Rightarrow> http_error 404 ''no report found''
                      | Inr rep \<Rightarrow>
                          (case Generate (pdf_library sx) (pdf_data sx env r mb msg rep) (pdf_options r) of
                             None \<Rightarrow> http_error 500 ''PDF generation failed''
                           | Some bytes \<Rightarrow> pdf_answer token bytes))
                 | _ \<Rightarrow> http_error 404 ''no report found'')))"

subsection \<open>All routes\<close>

definition staticCacheHeaders :: "(request \<Rightarrow> response) \<Rightarrow> request \<Rightarrow> response" where
  "staticCacheHeaders next_handler r =
     (let p = next_handler r
      in p\<lparr>RespHeaders := (''Cache-Control'', if Query r ''v'' \<noteq> [] then ''public, max-age=31536000, immutable'' else ''no-cache'') # RespHeaders p\<rparr>)"

definition robots_answer :: "'j web_env \<Rightarrow> request \<Rightarrow> response" where
  "robots_answer env r =
     \<lparr>StatusCode = 200, RespHeaders = [(''Content-Type'', ''text/plain; charset=utf-8''), (''Cache-Control'', ''public, max-age=86400'')],
      RespBody = Plain (robotsTxt (publicBaseURL (config env) (trustedProxy env) r))\<rparr>"

definition page_routes :: "'f site_env \<Rightarrow> 'j web_run \<Rightarrow> 'j web_env \<Rightarrow> (gostring \<times> (request \<Rightarrow> 'j web \<Rightarrow> response)) list" where
  "page_routes sx run env =
     (let cfg = config env; proxies = trustedProxy env in
     [(''/static/'', \<lambda>r w. staticCacheHeaders (static_files sx) r), (''/favicon.ico'', \<lambda>r w. redirect 301 ''/static/favicon.svg''),
      (''/robots.txt'', \<lambda>r w. robots_answer env r), (''/sitemap.xml'', \<lambda>r w. sitemapXML cfg proxies r), (''/'', home sx run env),
      (''/about'', \<lambda>r w. aboutPage sx env r), (''/privacy'', \<lambda>r w. privacyPage sx env r),
      (''/guides'', \<lambda>r w. guidesIndex cfg proxies (\<lambda>d. show_page sx (GuidesPage d)) r),
      (''/guides/'', \<lambda>r w. guidePage cfg proxies (\<lambda>d. show_page sx (GuidesPage d)) r),
      (''/metrics'', metricsPage (uptime_now sx)), (''/api/pdf/'', reportPDFHandler sx env), (''/simulate'', \<lambda>r w. simulatePage sx env r),
      (''/report/'', reportPage sx env)])"

text \<open>A path that is not clean, or that is a pattern without its last slash, is redirected by \<open>http.ServeMux\<close>.\<close>

definition lacks_slash :: "gostring list \<Rightarrow> gostring \<Rightarrow> bool" where
  "lacks_slash patterns path = (path \<notin> set patterns \<and> path @ ''/'' \<in> set patterns)"

definition site_page :: "'f site_env \<Rightarrow> 'j web_run \<Rightarrow> 'j web_env \<Rightarrow> request \<Rightarrow> 'j web \<Rightarrow> response" where
  "site_page sx run env r w =
     (if \<not> cleanRequestPath (URLPath r) \<or> lacks_slash (map fst (page_routes sx run env) @ map fst (routes env run)) (URLPath r) then mux_redirect sx r
      else (case sort_key (\<lambda>(p, h). - int (length p)) (filter (\<lambda>(p, h). pattern_fits (URLPath r) p) (page_routes sx run env)) of
              (p, h) # _ \<Rightarrow> h r w
            | [] \<Rightarrow> not_found))"

definition site :: "'f site_env \<Rightarrow> 'j web_run \<Rightarrow> 'j web_env \<Rightarrow> 'j web_env" where
  "site sx run env = env\<lparr>pages := site_page sx run env\<rparr>"

subsection \<open>Every address of the sitemap is served\<close>

fun page_lang :: "page \<Rightarrow> gostring" where
  "page_lang (HomePage d) = HLang d"
| "page_lang (AboutPage d) = ALang d"
| "page_lang (PrivacyPage d) = PLang d"
| "page_lang (GuidesPage d) = GLang d"
| "page_lang (SimulatePage l) = l"
| "page_lang (ReportPage d) = RLang d"

fun page_path :: "page \<Rightarrow> gostring" where
  "page_path (HomePage d) = ''/''"
| "page_path (AboutPage d) = ''/about''"
| "page_path (PrivacyPage d) = ''/privacy''"
| "page_path (GuidesPage d) = GSEOPath d"
| "page_path (SimulatePage l) = ''/simulate''"
| "page_path (ReportPage d) = ''/report/'' @ Token (RMailbox d)"

definition public_paths :: "gostring list" where
  "public_paths = [''/'', ''/guides'', ''/about'', ''/privacy''] @ map (\<lambda>s. ''/guides/'' @ s) slugs"

lemma sitemap_paths: "map SitePath sitemapPages = public_paths"
  by (simp add: sitemapPages_def public_paths_def slugs_def guideList_def)

definition route_patterns :: "gostring list" where
  "route_patterns = [''/lang'', ''/healthz'', ''/readyz'', ''/api/stats'', ''/api/stats/events'', ''/api/mailboxes'', ''/api/mailboxes/'', ''/api/reports/'',
     ''/api/payload/'', ''/api/recheck/'', ''/api/recheck-persist/'', ''/api/reanalyze/'', ''/api/simulate'', ''/api/simulate/recheck/'', ''/mailbox/'', ''/raw/'']"

definition page_patterns :: "gostring list" where
  "page_patterns = [''/static/'', ''/favicon.ico'', ''/robots.txt'', ''/sitemap.xml'', ''/'', ''/about'', ''/privacy'', ''/guides'', ''/guides/'', ''/metrics'', ''/api/pdf/'',
     ''/simulate'', ''/report/'']"

lemma patterns: "map fst (routes env run) = route_patterns" "map fst (page_routes sx run env) = page_patterns"
  by (simp_all add: routes_def page_routes_def route_patterns_def page_patterns_def Let_def)

lemma mux_site:
  assumes "list_all (\<lambda>p. \<not> pattern_fits (URLPath r) p) route_patterns"
  shows "mux (site sx run env) run r w = (site_page sx run env r w, w)"
proof -
  have "map fst (routes (site sx run env) run) = route_patterns" by (rule patterns)
  then have "filter (\<lambda>(p, h). pattern_fits (URLPath r) p) (routes (site sx run env) run) = []"
    using assms by (auto simp: filter_empty_conv list_all_iff simp flip: \<open>map fst (routes (site sx run env) run) = route_patterns\<close>)
  then have "mux (site sx run env) run r w = (pages (site sx run env) r w, w)" by (simp add: mux_def)
  then show ?thesis by (simp add: site_def)
qed

definition public_path_ok :: "gostring \<Rightarrow> bool" where
  "public_path_ok path =
     (list_all (\<lambda>p. \<not> pattern_fits path p) route_patterns \<and> cleanRequestPath path \<and> \<not> lacks_slash (page_patterns @ route_patterns) path
      \<and> list_all (\<lambda>l. splitLangPrefix (langPath l path) = Some (l, path)) [DE, EN])"

lemma public_paths_ok: "list_all public_path_ok public_paths"
  by code_simp

lemma sort_least_last: "(\<And>y. y \<in> set hs \<Longrightarrow> k x < k y) \<Longrightarrow> sort_key k (hs @ [x]) = x # sort_key k hs"
proof (induction hs)
  case (Cons a hs)
  then have "\<not> k a \<le> k x" by (simp add: not_le)
  with Cons show ?case by simp
qed simp

lemma chosen_page:
  assumes "public_path_ok (URLPath r)"
    and "filter (\<lambda>(p, h). pattern_fits (URLPath r) p) (page_routes sx run env) = hs @ [(p, h)]"
    and "list_all (\<lambda>(q, _). length q < length p) hs"
  shows "site_page sx run env r w = h r w"
proof -
  have "sort_key (\<lambda>(q, g). - int (length q)) (hs @ [(p, h)]) = (p, h) # sort_key (\<lambda>(q, g). - int (length q)) hs"
    by (rule sort_least_last) (use assms(3) in \<open>auto simp: list_all_iff\<close>)
  then show ?thesis using assms(1,2) by (auto simp: site_page_def public_path_ok_def patterns)
qed

lemmas routing = page_routes_def pattern_fits_def has_suffix_def Let_def

lemma slug_not_Nil: "s \<in> set slugs \<Longrightarrow> s \<noteq> []"
  by (auto simp: slugs_def)

lemma slug_found: "s \<in> set slugs \<Longrightarrow> \<exists>g. findGuide s = Some g \<and> Slug g = s \<and> sound_guide g"
proof -
  assume "s \<in> set slugs"
  then obtain g where "g \<in> set guideList" "Slug g = s" by (auto simp flip: guide_slugs)
  then show ?thesis using findGuide_own guide_sound by blast
qed

lemma slug_trimmed: "s \<in> set slugs \<Longrightarrow> trim_set s ''/'' = s"
  using slug_found [of s] by (auto simp: sound_guide_def)

lemma page_of_path:
  assumes "URLPath r \<in> set public_paths" "Method r = ''GET''"
  shows "\<exists>pg. page_lang pg = Request.lang (config env) r \<and> page_path pg = URLPath r \<and> site_page sx run env r w = render (show_page sx) pg"
proof -
  have ok: "public_path_ok (URLPath r)" using assms(1) public_paths_ok by (simp add: list_all_iff)
  consider "URLPath r = ''/''" | "URLPath r = ''/guides''" | "URLPath r = ''/about''" | "URLPath r = ''/privacy''"
    | s where "s \<in> set slugs" "URLPath r = ''/guides/'' @ s" using assms(1) by (auto simp: public_paths_def)
  then show ?thesis
  proof cases
    case 1
    have "site_page sx run env r w = home sx run env r w"
      by (rule chosen_page [OF ok, where hs = "[]" and p = "''/''"]) (simp_all add: 1 routing)
    then show ?thesis using 1 assms(2) by (auto simp: home_def Let_def intro!: exI [of _ "HomePage _"])
  next
    case 2
    have "site_page sx run env r w = guidesIndex (config env) (trustedProxy env) (\<lambda>d. show_page sx (GuidesPage d)) r"
      by (rule chosen_page [OF ok, where hs = "[(''/'', home sx run env)]" and p = "''/guides''" and h = "\<lambda>r w. guidesIndex (config env) (trustedProxy env) (\<lambda>d. show_page sx (GuidesPage d)) r"])
        (simp_all add: 2 routing)
    then show ?thesis using 2 assms(2) by (auto simp: guidesIndex_def is_get_def render_def guidesIndex_data_def Let_def case_prod_unfold intro!: exI [of _ "GuidesPage _"])
  next
    case 3
    have "site_page sx run env r w = aboutPage sx env r"
      by (rule chosen_page [OF ok, where hs = "[(''/'', home sx run env)]" and p = "''/about''" and h = "\<lambda>r w. aboutPage sx env r"])
        (simp_all add: 3 routing)
    then show ?thesis using 3 assms(2) by (auto simp: aboutPage_def Let_def intro!: exI [of _ "AboutPage _"])
  next
    case 4
    have "site_page sx run env r w = privacyPage sx env r"
      by (rule chosen_page [OF ok, where hs = "[(''/'', home sx run env)]" and p = "''/privacy''" and h = "\<lambda>r w. privacyPage sx env r"])
        (simp_all add: 4 routing)
    then show ?thesis using 4 assms(2) by (auto simp: privacyPage_def Let_def intro!: exI [of _ "PrivacyPage _"])
  next
    case 5
    have "site_page sx run env r w = guidePage (config env) (trustedProxy env) (\<lambda>d. show_page sx (GuidesPage d)) r"
      by (rule chosen_page [OF ok, where hs = "[(''/'', home sx run env)]" and p = "''/guides/''"
            and h = "\<lambda>r w. guidePage (config env) (trustedProxy env) (\<lambda>d. show_page sx (GuidesPage d)) r"])
        (simp_all add: 5(2) routing slug_not_Nil [OF 5(1)])
    moreover have "guide_slug r = s" using slug_trimmed [OF 5(1)] 5(2) by (simp add: guide_slug_def trim_prefix_def)
    moreover obtain g where "findGuide s = Some g" "Slug g = s" using slug_found [OF 5(1)] by blast
    ultimately show ?thesis using 5(2) assms(2)
      by (auto simp: guidePage_def is_get_def render_def guidePage_data_def Let_def intro!: exI [of _ "GuidesPage _"])
  qed
qed

text \<open>
  C38: Every address of the sitemap is served: a request for a listed page in one of the two languages is answered, after the language prefix is taken off and the
  route is chosen, with the page of that path in that language, and changes nothing.
\<close>

theorem sitemap_pages_served:
  assumes "p \<in> set sitemapPages" "l \<in> set site_langs" "Method r = ''GET''" "URLPath r = langPath l (SitePath p)"
  shows "\<exists>pg. page_lang pg = l \<and> page_path pg = SitePath p
    \<and> withLangPrefix (mux (site sx run env) run) r w = (render (show_page sx) pg, w)"
proof -
  let ?r = "r\<lparr>LangOverride := Some l, URLPath := SitePath p\<rparr>"
  have path: "SitePath p \<in> set public_paths" using assms(1) by (simp flip: sitemap_paths)
  then have ok: "public_path_ok (SitePath p)" using public_paths_ok by (simp add: list_all_iff)
  have l: "l = DE \<or> l = EN" using assms(2) by (auto simp: site_langs_def DE_def EN_def)
  then have "splitLangPrefix (URLPath r) = Some (l, SitePath p)" using ok assms(4) by (auto simp: public_path_ok_def)
  then have "withLangPrefix (mux (site sx run env) run) r w = mux (site sx run env) run ?r w" by (simp add: withLangPrefix_def)
  also have "\<dots> = (site_page sx run env ?r w, w)" by (rule mux_site) (use ok in \<open>simp add: public_path_ok_def\<close>)
  finally have "withLangPrefix (mux (site sx run env) run) r w = (site_page sx run env ?r w, w)" .
  moreover have "Request.lang (config env) ?r = l" by (simp add: Request.lang_def)
  ultimately show ?thesis using page_of_path [of ?r env sx run w] path assms(3) by auto
qed

definition demo_site :: "rat site_env" where
  "demo_site = \<lparr>show_page = (\<lambda>pg. Some (page_lang pg @ '' '' @ page_path pg)), static_files = (\<lambda>r. plain_page ''asset''), mux_redirect = (\<lambda>r. redirect 301 ''/''),
     body_reader = demo_views, link_host = Map.empty, pdf_library = demo_fpdf, uptime_now = 5000000000, pdf_time = 0, nesting = 100\<rparr>"

theorem sitemap_pages_served_witness:
  "withLangPrefix (mux (site demo_site (demo_run 0) demo_web_env) (demo_run 0)) (demo_request ''GET'' ''/en/guides/spf'' []) demo_web
     = (html_page (Plain ''en /guides/spf''), demo_web)"
proof -
  have "\<lparr>SitePath = ''/guides/spf'', Priority = ''0.8'', Changes = ''monthly'', SiteUpdated = ''2026-10-16''\<rparr> \<in> set sitemapPages"
    by (simp add: sitemapPages_def guideList_def)
  moreover have "''en'' \<in> set site_langs" by (simp add: site_langs_def)
  moreover have "Method (demo_request ''GET'' ''/en/guides/spf'' []) = ''GET''" by (simp add: demo_request_def)
  moreover have "URLPath (demo_request ''GET'' ''/en/guides/spf'' []) = langPath ''en'' (SitePath \<lparr>SitePath = ''/guides/spf'', Priority = ''0.8'', Changes = ''monthly'', SiteUpdated = ''2026-10-16''\<rparr>)"
    by (simp add: demo_request_def langPath_def EN_def DE_def)
  ultimately obtain pg where pg: "page_lang pg = ''en''" "page_path pg = ''/guides/spf''"
      "withLangPrefix (mux (site demo_site (demo_run 0) demo_web_env) (demo_run 0)) (demo_request ''GET'' ''/en/guides/spf'' []) demo_web
         = (render (show_page demo_site) pg, demo_web)"
    using sitemap_pages_served [of _ "''en''" _ demo_site "demo_run 0" demo_web_env demo_web] by fastforce
  show ?thesis unfolding pg(3) by (simp add: render_def demo_site_def pg(1,2))
qed

subsection \<open>Reports are served from the mailbox alone\<close>

lemma find_filter_hd: "find p xs = (case filter p xs of [] \<Rightarrow> None | x # _ \<Rightarrow> Some x)"
  by (induction xs) auto

lemma left_join_messages: "(m, q) \<in> set (left_join d ms) \<Longrightarrow> m \<in> set ms"
proof -
  assume "(m, q) \<in> set (left_join d ms)"
  then obtain x where x: "x \<in> set ms"
    "(m, q) \<in> set (case filter (\<lambda>r. rr_message_id r = MessageRowID x) (reports d) of [] \<Rightarrow> [(x, None)] | rs \<Rightarrow> map (\<lambda>r. (x, Some r)) rs)"
    by (auto simp: left_join_def)
  then show ?thesis by (cases "filter (\<lambda>r. rr_message_id r = MessageRowID x) (reports d)") auto
qed

lemma listed_own:
  assumes "(m, rep) \<in> set (list_reports env mb n w)"
  shows "m \<in> set (messages (database w)) \<and> MailboxID m = MailboxRowID mb"
proof -
  from assms obtain q where "(m, q) \<in> set (left_join (database w) (filter (\<lambda>m. MailboxID m = MailboxRowID mb) (messages (database w))))"
    by (auto simp: list_reports_def ListMessagesWithReports_def newest_first_def dest!: in_set_takeD)
  from left_join_messages [OF this] show ?thesis by simp
qed

text \<open>
  C36: The report page and the PDF that a token opens depend on that mailbox alone: were every other mailbox deleted, they would be the same, whichever message reference is
  asked for. For a sealed message the page carries no text of the body.
\<close>

theorem report_pages_isolated:
  assumes "store_inv (database w)" and "v = set_db (only_mailbox token (database w)) w"
  shows "(URLPath r = ''/report/'' @ token \<longrightarrow> reportPage sx env r v = reportPage sx env r w)
    \<and> (URLPath r = ''/api/pdf/'' @ token \<longrightarrow> reportPDFHandler sx env r v = reportPDFHandler sx env r w)
    \<and> (Encrypted msg \<longrightarrow> RPlainTextBody (report_data sx env r w mb msg rep) = [] \<and> RHTMLSourceBody (report_data sx env r w mb msg rep) = [])"
proof -
  have db: "database v = only_mailbox token (database w)" by (simp add: assms(2))
  have data: "report_data sx env r v = report_data sx env r w" for r
  proof -
    have "iptProviders env v = iptProviders env w" by (simp add: iptProviders_def assms(2) set_db_def cong: option.case_cong)
    then show ?thesis by (intro ext) (simp only: report_data_def)
  qed
  have rows: "reportPage sx env r v = reportPage sx env r w" if "URLPath r = ''/report/'' @ token"
  proof (cases "GetMailboxByToken token (database w)")
    case (Inr b)
    then have "list_reports env b 100 v = list_reports env b 100 w" by (simp add: list_reports_def db only_lists [OF assms(1) Inr])
    then show ?thesis using that Inr by (simp add: reportPage_def trim_prefix_def db only_GetMailbox data Let_def split: option.split prod.split)
  qed (use that in \<open>simp add: reportPage_def trim_prefix_def db only_GetMailbox Let_def\<close>)
  have pdf: "reportPDFHandler sx env r v = reportPDFHandler sx env r w" if "URLPath r = ''/api/pdf/'' @ token"
  proof (cases "GetMailboxByToken token (database w)")
    case (Inr b)
    then have l: "list_reports env b 1 v = list_reports env b 1 w" by (simp add: list_reports_def db only_lists [OF assms(1) Inr])
    show ?thesis
    proof (cases "list_reports env b 1 w")
      case Nil
      then show ?thesis using that Inr by (simp add: reportPDFHandler_def trim_prefix_def db only_GetMailbox l)
    next
      case (Cons x ms)
      obtain m q where x: "x = (m, q)" by (cases x)
      have "GetReportByMessageID js (MessageRowID m) (only_mailbox token (database w)) = GetReportByMessageID js (MessageRowID m) (database w)" for js
        using only_reports [OF assms(1) Inr] listed_own [of m q env b 1 w] Cons x by (simp add: GetReportByMessageID_def find_filter_hd)
      then show ?thesis using that Inr Cons by (simp add: x reportPDFHandler_def trim_prefix_def db only_GetMailbox l split: option.split)
    qed
  qed (use that in \<open>simp add: reportPDFHandler_def trim_prefix_def db only_GetMailbox\<close>)
  show ?thesis using rows pdf by (auto simp: report_data_def Let_def)
qed

theorem report_pages_isolated_witness:
  "reportPage demo_site demo_web_env (demo_request ''GET'' ''/report/onsw4zdfojzgk4dp'' []) (set_db (only_mailbox ''onsw4zdfojzgk4dp'' (database demo_web_keyed)) demo_web_keyed)
     = reportPage demo_site demo_web_env (demo_request ''GET'' ''/report/onsw4zdfojzgk4dp'' []) demo_web_keyed"
  using report_pages_isolated [OF demo_web_keyed_inv refl, of "demo_request ''GET'' ''/report/onsw4zdfojzgk4dp'' []" "''onsw4zdfojzgk4dp''" demo_site demo_web_env]
  by (simp add: demo_request_def)

subsection \<open>The PDF shows the selected checks\<close>

definition selected_check :: "request \<Rightarrow> CheckResult \<Rightarrow> bool" where
  "selected_check r c = list_ex (\<lambda>s. finding.Status c = s \<and> boolParam r s True) [''pass'', ''warn'', ''fail'', ''info'']"

lemma filterChecks_selected: "filterChecks cs (pdf_options r) = filter (selected_check r) cs"
  by (auto simp: filterChecks_def pdf_options_def selected_check_def intro!: filter_cong)



text \<open>A token shorter than eight bytes ends the request in a panic.\<close>

lemma pdf_short_token: "length token < 8 \<longleftrightarrow> pdf_answer token bytes = aborted"
  by (simp add: pdf_answer_def aborted_def)

subsection \<open>Metrics can be read back\<close>

definition read_metric :: "gostring \<Rightarrow> gostring \<Rightarrow> gostring option" where
  "read_metric name t =
     (let key = ''sender_report_'' @ name @ '' ''
      in map_option (drop (length key)) (find (\<lambda>l. has_prefix l key) (split LF t)))"

definition block_lines :: "gostring \<Rightarrow> gostring \<Rightarrow> gostring \<Rightarrow> gostring \<Rightarrow> gostring list" where
  "block_lines name help kind val =
     [''# HELP sender_report_'' @ name @ '' '' @ help, ''# TYPE sender_report_'' @ name @ '' '' @ kind, ''sender_report_'' @ name @ '' '' @ val]"

lemma split_lines: "list_all (\<lambda>l. LF \<notin> set l) ls \<Longrightarrow> split LF (concat (map (\<lambda>l. l @ [LF]) ls) @ t) = ls @ split LF t"
  by (induction ls) simp_all

lemma split_block:
  "LF \<notin> set name \<union> set help \<union> set kind \<union> set val \<Longrightarrow> split LF (metric_block name help kind val @ t) = block_lines name help kind val @ split LF t"
  using split_lines [of "block_lines name help kind val" t] by (simp add: block_lines_def metric_block_def)

lemmas split_last_block = split_block [where t = "[]", unfolded append_Nil2]

lemma show_int_LF: "LF \<notin> set (show_int i)"
  using show_int_set [of i] by (auto simp: is_digit_def)

text \<open>
  Every counter of the process can be read from the metrics page: the line that begins with its name holds exactly its value.
\<close>

theorem metrics_read_back:
  "list_all (\<lambda>(name, help, get). read_metric name (RenderPrometheus uptime c) = Some (show_int (uint (get c)))) counter_table"
proof -
  have "split LF (RenderPrometheus uptime c)
      = block_lines ''uptime_seconds'' ''Process uptime in seconds'' ''gauge'' (show_int (round_half_even (uptime_seconds uptime)))
        @ concat (map (\<lambda>(name, help, get). block_lines name help ''counter'' (show_int (uint (get c)))) counter_table) @ [[]]"
    by (simp add: RenderPrometheus_def counter_table_def split_block split_last_block show_int_LF)
  then show ?thesis by (simp add: read_metric_def counter_table_def block_lines_def)
qed

end
