(* ===== verification/Startup.thy ===== *)
theory Startup
  imports Pages System Env_Migrate
begin

text \<open>
  Starting the program: the check of the storage (\<open>cmd/sender-report/storage.go\<close>), the certificate for STARTTLS (\<open>internal/tlscert\<close>), the alert webhook
  (\<open>internal/telemetry\<close>), the construction of the web server (\<open>New\<close> in \<open>web/server.go\<close>) and the order in which \<open>main\<close> takes these steps. The operating system
  is a parameter of the storage check; for the certificate a directory is a map from paths to contents with a test for what may be written. Key generation and X.509 are
  parameters.
\<close>

subsection \<open>Paths\<close>

definition clean_step :: "bool \<Rightarrow> gostring list \<Rightarrow> gostring \<Rightarrow> gostring list" where
  "clean_step rooted acc seg =
     (if seg = [] \<or> seg = ''.'' then acc
      else if seg = ''..'' then
        (if acc \<noteq> [] \<and> last acc \<noteq> ''..'' then butlast acc else if rooted then acc else acc @ [''..''])
      else acc @ [seg])"

definition Clean :: "gostring \<Rightarrow> gostring" where
  "Clean path =
     (let rooted = has_prefix path ''/'';
          p = (if rooted then ''/'' else []) @ join ''/'' (foldl (clean_step rooted) [] (split (CHR ''/'') path))
      in if p = [] then ''.'' else p)"

definition Dir :: "gostring \<Rightarrow> gostring" where
  "Dir path = Clean (rev (dropWhile (\<lambda>c. c \<noteq> CHR ''/'') (rev path)))"

definition Join :: "gostring \<Rightarrow> gostring \<Rightarrow> gostring" where
  "Join d name = (if d = [] then Clean name else Clean (d @ ''/'' @ name))"

subsection \<open>The storage check\<close>

datatype open_result = Opened | NotExist | OpenError gostring

record 'fs os =
  MkdirAll :: "gostring \<Rightarrow> 'fs \<Rightarrow> gostring option \<times> 'fs"
  CreateTemp :: "gostring \<Rightarrow> 'fs \<Rightarrow> (gostring + gostring) \<times> 'fs"
  RemoveFile :: "gostring \<Rightarrow> 'fs \<Rightarrow> gostring option \<times> 'fs"
  OpenFile :: "gostring \<Rightarrow> 'fs \<Rightarrow> open_result"
  Getuid :: int
  Getgid :: int

definition sqliteFileSuffixes :: "gostring list" where
  "sqliteFileSuffixes = [[], ''-wal'', ''-shm'']"

definition storageError :: "'fs os \<Rightarrow> gostring \<Rightarrow> gostring \<Rightarrow> gostring" where
  "storageError sys path err_text =
     (let uid = show_int (Getuid sys); gid = show_int (Getgid sys)
      in if Getuid sys < 0
         then path @ '' is not writable for the server process: '' @ err_text @ ''. Give the user that runs sender-report write access to it''
         else path @ '' is not writable for the server process (uid '' @ uid @ '', gid '' @ gid @ ''): '' @ err_text
              @ ''. Give this user write access; with the default docker-compose.yml run on the Docker host: sudo chown -R '' @ uid @ '':'' @ gid @ '' ./data'')"

definition probe_dir :: "'fs os \<Rightarrow> gostring \<Rightarrow> 'fs \<Rightarrow> gostring option \<times> 'fs" where
  "probe_dir sys dir fs =
     (case MkdirAll sys dir fs of
        (Some e, fs) \<Rightarrow> (Some (storageError sys dir e), fs)
      | (None, fs) \<Rightarrow>
          (case CreateTemp sys dir fs of
             (Inl e, fs) \<Rightarrow> (Some (storageError sys dir e), fs)
           | (Inr name, fs) \<Rightarrow>
               (case RemoveFile sys name fs of
                  (Some e, fs) \<Rightarrow> (Some (storageError sys dir e), fs)
                | (None, fs) \<Rightarrow> (None, fs))))"

fun probe_dirs :: "'fs os \<Rightarrow> gostring list \<Rightarrow> 'fs \<Rightarrow> gostring option \<times> 'fs" where
  "probe_dirs sys [] fs = (None, fs)"
| "probe_dirs sys (d # ds) fs = (case probe_dir sys d fs of (Some e, fs) \<Rightarrow> (Some e, fs) | (None, fs) \<Rightarrow> probe_dirs sys ds fs)"

fun probe_files :: "'fs os \<Rightarrow> gostring list \<Rightarrow> 'fs \<Rightarrow> gostring option" where
  "probe_files sys [] fs = None"
| "probe_files sys (p # ps) fs = (case OpenFile sys p fs of OpenError e \<Rightarrow> Some (storageError sys p e) | _ \<Rightarrow> probe_files sys ps fs)"

definition storage_dirs :: "gostring \<Rightarrow> gostring \<Rightarrow> gostring list" where
  "storage_dirs dataDir dbPath = dataDir # (if Clean (Dir dbPath) \<noteq> Clean dataDir then [Dir dbPath] else [])"

definition checkStorage :: "'fs os \<Rightarrow> gostring \<Rightarrow> gostring \<Rightarrow> 'fs \<Rightarrow> gostring option \<times> 'fs" where
  "checkStorage sys dataDir dbPath fs =
     (case probe_dirs sys (storage_dirs dataDir dbPath) fs of
        (Some e, fs) \<Rightarrow> (Some e, fs)
      | (None, fs) \<Rightarrow> (probe_files sys (map (\<lambda>s. dbPath @ s) sqliteFileSuffixes) fs, fs))"

subsection \<open>The certificate for STARTTLS\<close>

type_synonym files = "gostring \<rightharpoonup> gostring"

definition certFile :: gostring where "certFile = ''smtp.crt''"
definition keyFile :: gostring where "keyFile = ''smtp.key''"

text \<open>What is written into a certificate; a day has 24 hours here.\<close>

record cert_template =
  CommonName :: gostring
  Organization :: "gostring list"
  DNSNames :: "gostring list"
  NotBefore :: time
  NotAfter :: time

definition template_for :: "gostring \<Rightarrow> time \<Rightarrow> cert_template" where
  "template_for domain t = \<lparr>CommonName = domain, Organization = [''Sender-Report''], DNSNames = [domain],
     NotBefore = t - minute, NotAfter = t + 10 * 365 * 24 * hour\<rparr>"

text \<open>
  \<open>new_pair\<close> gives the PEM texts of a certificate and its key for a template and the random bytes of this start, \<open>None\<close> when one of its steps fails;
  \<open>X509KeyPair\<close> reads them.
\<close>

record 'c tls_env =
  new_pair :: "cert_template \<Rightarrow> gostring \<Rightarrow> (gostring \<times> gostring) option"
  X509KeyPair :: "gostring \<Rightarrow> gostring \<Rightarrow> 'c option"
  may_write :: "gostring \<Rightarrow> bool"

record 'c tls_config =
  Certificates :: "'c list"
  MinVersion :: nat

definition tlsConfig :: "'c \<Rightarrow> 'c tls_config" where
  "tlsConfig c = \<lparr>Certificates = [c], MinVersion = 0x0303\<rparr>"

definition generate :: "'c tls_env \<Rightarrow> gostring \<Rightarrow> time \<Rightarrow> gostring \<Rightarrow> gostring \<Rightarrow> gostring \<Rightarrow> files \<Rightarrow> 'c option \<times> files" where
  "generate env domain t rnd certPath keyPath fs =
     (case new_pair env (template_for domain t) rnd of
        None \<Rightarrow> (None, fs)
      | Some (certPEM, keyPEM) \<Rightarrow>
          if \<not> may_write env certPath then (None, fs)
          else if \<not> may_write env keyPath then (None, fs(certPath \<mapsto> certPEM))
          else (X509KeyPair env certPEM keyPEM, fs(certPath \<mapsto> certPEM, keyPath \<mapsto> keyPEM)))"

definition EnsureAndLoad :: "'c tls_env \<Rightarrow> gostring \<Rightarrow> gostring \<Rightarrow> time \<Rightarrow> gostring \<Rightarrow> files \<Rightarrow> 'c tls_config option \<times> files" where
  "EnsureAndLoad env dataDir domain t rnd fs =
     (let certPath = Join dataDir certFile; keyPath = Join dataDir keyFile
      in case (fs certPath, fs keyPath) of
           (Some c, Some k) \<Rightarrow> (map_option tlsConfig (X509KeyPair env c k), fs)
         | _ \<Rightarrow> (case generate env domain t rnd certPath keyPath fs of (c, fs') \<Rightarrow> (map_option tlsConfig c, fs')))"

subsection \<open>Alerts\<close>

datatype alert_outcome = NoAlert | Sent | AlertFailed

text \<open>\<open>Format(time.RFC3339)\<close> in UTC.\<close>

definition rfc3339 :: "time \<Rightarrow> gostring" where
  "rfc3339 t =
     (let secs = t div 1000000000; sod = secs mod 86400
      in case civil_date (secs div 86400) of (y, m, d) \<Rightarrow>
           four_digits y @ ''-'' @ two_digits m @ ''-'' @ two_digits d @ ''T'' @ two_digits (sod div 3600) @ '':'' @ two_digits (sod div 60 mod 60)
           @ '':'' @ two_digits (sod mod 60) @ ''Z'')"

definition alert_payload :: "time \<Rightarrow> gostring \<Rightarrow> gostring \<Rightarrow> gostring \<Rightarrow> (gostring \<times> json_ld) list \<Rightarrow> gostring" where
  "alert_payload t severity event message flds =
     Marshal (JObj [(''timestamp'', JStr (rfc3339 t)), (''severity'', JStr (to_lower (trim_space severity))), (''event'', JStr (trim_space event)),
       (''message'', JStr (trim_space message)), (''fields'', JObj flds)])"

text \<open>\<open>post\<close> is the request of the HTTP client: the status of the answer, \<open>None\<close> when there is none or the address is not usable.\<close>

definition alerter_Send :: "(gostring \<Rightarrow> gostring \<Rightarrow> int option) \<Rightarrow> gostring \<Rightarrow> time \<Rightarrow> gostring \<Rightarrow> gostring \<Rightarrow> gostring \<Rightarrow> (gostring \<times> json_ld) list \<Rightarrow> alert_outcome" where
  "alerter_Send post webhookURL t severity event message flds =
     (let url = trim_space webhookURL
      in if url = [] then NoAlert
         else (case post url (alert_payload t severity event message flds) of
                 None \<Rightarrow> AlertFailed
               | Some status \<Rightarrow> if status < 200 \<or> 300 \<le> status then AlertFailed else Sent))"

subsection \<open>The web server and the order of the start\<close>

text \<open>The defaults for a configuration that was not loaded. The list of spam folders has a default only when it is nil, which a list of the model never is.\<close>

definition server_config :: "Config \<Rightarrow> Config" where
  "server_config cfg =
     cfg\<lparr>IPTTestDuration := if IPTTestDuration cfg \<le> 0 then DefaultIPTTestDuration else IPTTestDuration cfg,
         IPTPollInterval := if IPTPollInterval cfg \<le> 0 then DefaultIPTPollInterval else IPTPollInterval cfg,
         IPTEventsInterval := if IPTEventsInterval cfg \<le> 0 then DefaultIPTEventsInterval else IPTEventsInterval cfg\<rparr>"

text \<open>\<open>read_seeds\<close> reads and parses the file of the seed accounts.\<close>

definition LoadSeeds :: "(gostring \<Rightarrow> Provider list option) \<Rightarrow> gostring \<Rightarrow> gostring + Provider list option" where
  "LoadSeeds read_seeds path =
     (if trim_space path = [] then Inr None
      else (case read_seeds path of None \<Rightarrow> Inl path | Some ps \<Rightarrow> Inr (Some ps)))"

definition server_seeds :: "(gostring \<Rightarrow> Provider list option) \<Rightarrow> Config \<Rightarrow> Provider list option" where
  "server_seeds read_seeds cfg =
     (if EnableInboxPlacement cfg \<and> SeedAccountsFile cfg \<noteq> []
      then (case LoadSeeds read_seeds (SeedAccountsFile cfg) of
              Inr (Some ps) \<Rightarrow> if Validate ps = None then Some ps else None
            | _ \<Rightarrow> None)
      else None)"

definition server_mailer :: "Config \<Rightarrow> MailerConfig option" where
  "server_mailer cfg =
     (if IPTAlertEmail cfg \<noteq> [] \<and> IPTAlertSMTPAddr cfg \<noteq> []
      then Some \<lparr>Addr = IPTAlertSMTPAddr cfg, From = IPTAlertSMTPFrom cfg, SMTPUser = IPTAlertSMTPUser cfg, SMTPPass = IPTAlertSMTPPass cfg,
                 IncludeRawErrs = IPTAlertIncludeRaw cfg\<rparr>
      else None)"

text \<open>\<open>base\<close> holds what the server takes from elsewhere: decoders, analysis, primitives. \<open>templates_ok\<close> says that the templates were read.\<close>

definition New :: "(gostring \<Rightarrow> Provider list option) \<Rightarrow> bool \<Rightarrow> 'j web_env \<Rightarrow> Config \<Rightarrow> gostring + 'j web_env" where
  "New read_seeds templates_ok base cfg0 =
     (let cfg = server_config cfg0
      in if \<not> templates_ok then Inl ''template''
         else (case parseTrustedProxyCIDRs (TrustedProxyCIDRs cfg) of
                 Inl bad \<Rightarrow> Inl bad
               | Inr nets \<Rightarrow> Inr (base\<lparr>config := cfg, trustedProxy := nets, seeds := server_seeds read_seeds cfg, iptMailer := server_mailer cfg\<rparr>)))"

text \<open>The health checks of \<open>StartBackgroundTasks\<close>: one at once, and one per tick when an interval is set; nothing without seed accounts.\<close>

definition background_checks :: "'j web_env \<Rightarrow> time list \<Rightarrow> time list" where
  "background_checks env instants = (if seeds env = None then [] else if IPTCheckInterval (config env) \<le> 0 then take 1 instants else instants)"

datatype 'j start = Exit_Config | Exit_Storage gostring | Exit_DB | Exit_Web gostring | Running "'j web_env" "'j web"

text \<open>
  \<open>main\<close> up to the listeners. \<open>env_file\<close> is the outcome of the migration of the environment file, which is logged and otherwise ignored. \<open>open_db\<close> opens the database
  and migrates it, after which the counters of the process start at zero.
\<close>

definition main_start :: "(gostring \<Rightarrow> gostring) \<Rightarrow> migration \<Rightarrow> 'fs os \<Rightarrow> (gostring \<Rightarrow> 'fs \<Rightarrow> 'j db option)
    \<Rightarrow> (gostring \<Rightarrow> Provider list option) \<Rightarrow> bool \<Rightarrow> 'j web_env \<Rightarrow> 'j world \<Rightarrow> 'fs \<Rightarrow> 'j start" where
  "main_start env env_file sys open_db read_seeds templates_ok base wd fs =
     (case Load env of
        Inl e \<Rightarrow> Exit_Config
      | Inr cfg \<Rightarrow>
          (case checkStorage sys (DataDir cfg) (DBPath cfg) fs of
             (Some e, fs) \<Rightarrow> Exit_Storage e
           | (None, fs) \<Rightarrow>
               (case open_db (DBPath cfg) fs of
                  None \<Rightarrow> Exit_DB
                | Some d \<Rightarrow>
                    (case New read_seeds templates_ok base cfg of
                       Inl e \<Rightarrow> Exit_Web e
                     | Inr wenv \<Rightarrow> Running wenv (new_web (config wenv) (wd\<lparr>st := d\<rparr>))))))"

subsection \<open>Facts about the start\<close>

text \<open>A file name is put behind its directory as it is.\<close>

definition plain_name :: "gostring \<Rightarrow> bool" where
  "plain_name name = (CHR ''/'' \<notin> set name \<and> name \<noteq> [] \<and> name \<noteq> ''.'' \<and> name \<noteq> ''..'')"

lemma join_snoc: "join ''/'' (xs @ [x]) = (if xs = [] then [] else join ''/'' xs @ ''/'') @ x"
  by (cases "xs = []") (simp_all add: join_append)

lemma Join_ends:
  "\<exists>p. \<forall>name. plain_name name \<longrightarrow> Join d name = p @ name"
proof (cases "d = []")
  case True
  have "Join d name = name" if "plain_name name" for name
  proof -
    have "\<not> has_prefix name ''/''" using that by (cases name) (auto simp: plain_name_def)
    then show ?thesis using that True by (simp add: Join_def Clean_def clean_step_def plain_name_def)
  qed
  then show ?thesis by (intro exI [of _ "[]"]) simp
next
  case False
  define segs where "segs = foldl (clean_step (has_prefix d ''/'')) [] (split (CHR ''/'') d)"
  have "Join d name = ((if has_prefix d ''/'' then ''/'' else []) @ (if segs = [] then [] else join ''/'' segs @ ''/'')) @ name" if "plain_name name" for name
  proof -
    have "split (CHR ''/'') (d @ CHR ''/'' # name) = split (CHR ''/'') d @ [name]" using that by (simp add: split_append plain_name_def)
    moreover have "has_prefix (d @ CHR ''/'' # name) ''/'' = has_prefix d ''/''" using False by (cases d) simp_all
    ultimately show ?thesis using that False by (simp add: Join_def Clean_def clean_step_def plain_name_def join_snoc segs_def)
  qed
  then show ?thesis by blast
qed

lemma cert_paths_differ: "Join d certFile \<noteq> Join d keyFile"
proof -
  obtain p where "\<And>name. plain_name name \<Longrightarrow> Join d name = p @ name" using Join_ends by blast
  then show ?thesis by (simp add: plain_name_def certFile_def keyFile_def)
qed

text \<open>
  C39: The certificate for STARTTLS is made once: after a start that has one, with whatever name, time and random bytes, every later start gets the same
  certificate and leaves the files as they are.
\<close>

theorem certificate_is_kept:
  assumes "EnsureAndLoad env dataDir domain t rnd fs = (Some c, fs')"
  shows "EnsureAndLoad env dataDir domain' t' rnd' fs' = (Some c, fs')"
proof -
  have "(\<exists>crt k. fs' (Join dataDir certFile) = Some crt \<and> fs' (Join dataDir keyFile) = Some k \<and> map_option tlsConfig (X509KeyPair env crt k) = Some c)"
    using assms cert_paths_differ [of dataDir]
    by (auto simp: EnsureAndLoad_def generate_def Let_def split: option.splits prod.splits if_splits)
  then show ?thesis by (auto simp: EnsureAndLoad_def)
qed

definition demo_tls :: "gostring tls_env" where
  "demo_tls = \<lparr>new_pair = (\<lambda>tpl rnd. Some (CommonName tpl @ rnd, rnd)), X509KeyPair = (\<lambda>crt k. Some crt), may_write = (\<lambda>p. True)\<rparr>"

theorem certificate_is_kept_witness:
  "\<exists>c fs. EnsureAndLoad demo_tls ''/data'' ''t.example'' 0 ''r'' Map.empty = (Some c, fs) \<and> EnsureAndLoad demo_tls ''/data'' ''u.example'' 9 ''s'' fs = (Some c, fs)"
proof -
  have "\<exists>c fs. EnsureAndLoad demo_tls ''/data'' ''t.example'' 0 ''r'' Map.empty = (Some c, fs)"
    by (simp add: EnsureAndLoad_def generate_def demo_tls_def)
  then show ?thesis using certificate_is_kept [of demo_tls "''/data''" "''t.example''" 0 "''r''" Map.empty _ _ "''u.example''" 9 "''s''"] by blast
qed

lemma server_config_loaded:
  assumes "Load env = Inr cfg"
  shows "server_config cfg = cfg"
proof -
  have "check_settings cfg = None" using Load_checked [OF assms] by auto
  then have "0 < IPTTestDuration cfg" "0 < IPTPollInterval cfg" "0 < IPTEventsInterval cfg"
    by (auto simp: check_settings_def checkIPTTiming_def check_duration_def MinIPTTestDuration_def MinIPTPollInterval_def MinIPTEventsInterval_def duration_defs split: option.splits if_splits)
  then show ?thesis by (simp add: server_config_def)
qed

lemma probed_files: "probe_files sys ps fs = None \<Longrightarrow> p \<in> set ps \<Longrightarrow> OpenFile sys p fs = Opened \<or> OpenFile sys p fs = NotExist"
  by (induction ps) (auto split: open_result.splits)

text \<open>A probe leaves nothing behind, when the system gives the temporary file a name of its own and the removal removes it.\<close>

lemma probe_leaves_nothing:
  assumes "\<And>d fs. content (snd (MkdirAll sys d fs)) = content fs"
    and "\<And>d fs name fs'. CreateTemp sys d fs = (Inr name, fs') \<Longrightarrow> content fs' = insert name (content fs) \<and> name \<notin> content fs"
    and "\<And>name fs fs'. RemoveFile sys name fs = (None, fs') \<Longrightarrow> content fs' = content fs - {name}"
  shows "probe_dirs sys ds fs = (None, fs') \<Longrightarrow> content fs' = content fs"
proof (induction ds arbitrary: fs)
  case (Cons d ds)
  then obtain fs1 where p: "probe_dir sys d fs = (None, fs1)" "probe_dirs sys ds fs1 = (None, fs')" by (auto split: prod.splits option.splits)
  then obtain f1 f2 name where s: "MkdirAll sys d fs = (None, f1)" "CreateTemp sys d f1 = (Inr name, f2)" "RemoveFile sys name f2 = (None, fs1)"
    by (auto simp: probe_dir_def split: prod.splits option.splits sum.splits)
  have "content fs1 = content fs" using assms(1) [of d fs] assms(2) [OF s(2)] assms(3) [OF s(3)] s(1) by auto
  with Cons.IH [OF p(2)] show ?case by simp
qed simp


definition demo_os :: "unit os" where
  "demo_os = \<lparr>MkdirAll = (\<lambda>d fs. (None, fs)), CreateTemp = (\<lambda>d fs. (Inr (d @ ''/.write-check-1''), fs)), RemoveFile = (\<lambda>p fs. (None, fs)),
     OpenFile = (\<lambda>p fs. NotExist), Getuid = 1000, Getgid = 1000\<rparr>"

lemma demo_storage: "checkStorage demo_os dataDir dbPath fs = (None, fs)"
  by (simp add: checkStorage_def storage_dirs_def probe_dir_def sqliteFileSuffixes_def demo_os_def)

lemma demo_start:
  "\<exists>wenv w. main_start demo_environment Nothing_To_Do demo_os (\<lambda>p fs. Some (migrate 0 empty_db)) (\<lambda>p. None) True demo_web_env demo_world () = Running wenv w"
  by (simp add: main_start_def demo_config_loads demo_storage New_def server_config_def demo_config_def Let_def)


end
