(* ===== verification/Clients.thy ===== *)
theory Clients
  imports Startup Analysis
begin

text \<open>
  What the program asks of other servers, beside DNS and the spam filters: the alert mail over SMTP (\<open>ipt/mailer.go\<close>), the login test of seed accounts
  (\<open>PingAccount\<close> in \<open>ipt/check.go\<close>) and the registration date of a domain (\<open>rdapRegistrationDate\<close>); and the two analysis engines that \<open>main\<close> and the web server build.
  The other side of a conversation is a record of its answers; the conversation itself is the list of the steps taken.
\<close>

subsection \<open>The alert mail\<close>

datatype mail_step =
    DialTLS gostring gostring
  | DialPlain gostring
  | StartTLS gostring
  | AuthPlain gostring gostring
  | MailFrom gostring
  | RcptFor gostring
  | DataBegin
  | DataBody gostring
  | DataEnd

datatype mail_error = BadAddr | TLSDialError | ClientError | DialFailed | StartTLSError | AuthError | MailError | RcptError | DataError | BodyError | CloseError

text \<open>The answers of the server the mail is handed to; \<open>hello_ok\<close> is whether it accepts EHLO or HELO, which the client sends before its first command, \<open>offers_tls\<close> whether the answer lists STARTTLS.\<close>

record relay =
  conn_ok :: bool
  greets :: bool
  hello_ok :: bool
  offers_tls :: bool
  tls_ok :: bool
  auth_ok :: bool
  mail_ok :: bool
  rcpt_ok :: bool
  data_ok :: bool
  body_ok :: bool
  close_ok :: bool

text \<open>The client of \<open>net/smtp\<close> refuses a line break in an address (\<open>validateLine\<close>) before it sends anything.\<close>

definition validLine :: "gostring \<Rightarrow> bool" where
  "validLine s = (CR \<notin> set s \<and> LF \<notin> set s)"

text \<open>A step of a conversation: what is sent, and whether the other side accepts it.\<close>

fun conversation :: "(mail_step list \<times> bool \<times> mail_error) list \<Rightarrow> mail_step list \<times> mail_error option" where
  "conversation [] = ([], None)"
| "conversation ((sent, ok, e) # rest) =
     (if ok then (case conversation rest of (steps, r) \<Rightarrow> (sent @ steps, r)) else (sent, Some e))"

definition sendViaClient :: "relay \<Rightarrow> gostring \<Rightarrow> gostring \<Rightarrow> gostring \<Rightarrow> (mail_step list \<times> bool \<times> mail_error) list" where
  "sendViaClient srv from to msg =
     [(if validLine from \<and> hello_ok srv then [MailFrom from] else [], validLine from \<and> hello_ok srv \<and> mail_ok srv, MailError),
      (if validLine to then [RcptFor to] else [], validLine to \<and> rcpt_ok srv, RcptError),
      ([DataBegin], data_ok srv, DataError), ([DataBody msg], body_ok srv, BodyError), ([DataEnd], close_ok srv, CloseError)]"

text \<open>
  \<open>smtp.PlainAuth\<close> sends the password only over TLS or to this computer; otherwise \<open>Auth\<close> fails before anything is sent. The name of the server is the host of the
  address in both branches, so the comparison of names always holds.
\<close>

definition is_localhost :: "gostring \<Rightarrow> bool" where
  "is_localhost host = (host \<in> {''localhost'', ''127.0.0.1'', ''::1''})"

definition auth_part :: "MailerConfig \<Rightarrow> relay \<Rightarrow> gostring \<Rightarrow> bool \<Rightarrow> (mail_step list \<times> bool \<times> mail_error) list" where
  "auth_part cfg srv host tls =
     (if SMTPUser cfg = [] then []
      else if tls \<or> is_localhost host then [(if hello_ok srv then [AuthPlain (SMTPUser cfg) (SMTPPass cfg)] else [], hello_ok srv \<and> auth_ok srv, AuthError)]
      else [([], False, AuthError)])"

definition send :: "MailerConfig \<Rightarrow> relay \<Rightarrow> gostring \<Rightarrow> gostring \<Rightarrow> mail_step list \<times> mail_error option" where
  "send cfg srv to msg =
     (case SplitHostPort (Addr cfg) of
        None \<Rightarrow> ([], Some BadAddr)
      | Some (host, port) \<Rightarrow>
          conversation
            (if port = ''465''
             then [([DialTLS (Addr cfg) host], conn_ok srv, TLSDialError), ([], greets srv, ClientError)]
                  @ auth_part cfg srv host True @ sendViaClient srv (From cfg) to msg
             else [([DialPlain (Addr cfg)], conn_ok srv \<and> greets srv, DialFailed)]
                  @ (if hello_ok srv \<and> offers_tls srv then [([StartTLS host], tls_ok srv, StartTLSError)] else [])
                  @ auth_part cfg srv host (hello_ok srv \<and> offers_tls srv) @ sendViaClient srv (From cfg) to msg))"

subsection \<open>The login test of a seed account\<close>

text \<open>
  \<open>dial\<close> and \<open>login\<close> give how long the IMAP client takes and the text of its error; \<open>stopped\<close> is when the program ends, if it does. The test runs beside a timer of ten
  seconds; what happens later is not waited for.
\<close>

definition imap_name :: "gostring \<Rightarrow> gostring" where
  "imap_name imapHost = (case SplitHostPort imapHost of Some (host, _) \<Rightarrow> host | None \<Rightarrow> imapHost)"

definition PingAccount :: "(gostring \<Rightarrow> gostring \<Rightarrow> duration \<times> gostring option) \<Rightarrow> (Account \<Rightarrow> duration \<times> gostring option) \<Rightarrow> duration option
    \<Rightarrow> Account \<Rightarrow> gostring \<Rightarrow> gostring option" where
  "PingAccount dial login stopped acc imapHost =
     (let (took, failed) = (case dial imapHost (imap_name imapHost) of
            (d, Some e) \<Rightarrow> (d, Some e)
          | (d, None) \<Rightarrow> (case login acc of (l, r) \<Rightarrow> (d + l, r)));
          limit = (case stopped of Some s \<Rightarrow> min s (10 * second) | None \<Rightarrow> 10 * second)
      in if took < limit then failed
         else Some (if limit < 10 * second then ''context canceled'' else ''context deadline exceeded''))"

subsection \<open>The registration date of a domain\<close>

datatype rdap_reply = NoRequest | NoAnswer | RdapAnswer int gostring bool

text \<open>\<open>decode\<close> gives the events of an answer as action and date, the date as \<open>time.Parse\<close> reads it; an empty text has none. The flag of an answer is whether its body could not be read to the end.\<close>

definition rdapRegistrationDate :: "(gostring \<Rightarrow> rdap_reply) \<Rightarrow> (gostring \<Rightarrow> (gostring \<times> time option) list option) \<Rightarrow> gostring \<Rightarrow> time option" where
  "rdapRegistrationDate request decode domain =
     (case request (''https://rdap.org/domain/'' @ domain) of
        RdapAnswer status answer broken \<Rightarrow>
          if status \<noteq> 200 then None
          else (case decode (case readLimited (1024 * 1024) broken answer of Some txt \<Rightarrow> txt | None \<Rightarrow> []) of
                  None \<Rightarrow> None
                | Some es \<Rightarrow> (case find (\<lambda>e. equal_fold (fst e) ''registration'' \<and> snd e \<noteq> None) es of Some e \<Rightarrow> snd e | None \<Rightarrow> None))
      | _ \<Rightarrow> None)"

subsection \<open>The two engines\<close>

text \<open>The options that \<open>main\<close> gives to the engine for incoming mail, and those that \<open>web.New\<close> gives to the engine for rechecks, re-analysis and the simulator.\<close>

definition main_engine :: "Config \<Rightarrow> Analysis.Options" where
  "main_engine cfg =
     Analysis.Options.make (Config.EnableRBLChecks cfg) (Config.RBLProviders cfg) (Config.EnableSpamAssassin cfg) (Config.SpamAssassinHostPort cfg)
       (SpamAssassinWarnRatio cfg) (Config.EnableRspamd cfg) (Config.RspamdURL cfg) (Config.RspamdPassword cfg) (CfgEnableDomainAge cfg)
       (CfgEnableDomainBlocklist cfg) (Config.DomainBlocklistProviders cfg) (CfgEnableBrokenLinks cfg)"

definition web_engine :: "Config \<Rightarrow> Analysis.Options" where
  "web_engine cfg =
     Analysis.Options.make (Config.EnableRBLChecks cfg) (Config.RBLProviders cfg) (Config.EnableSpamAssassin cfg) (Config.SpamAssassinHostPort cfg)
       (SpamAssassinWarnRatio cfg) (Config.EnableRspamd cfg) (Config.RspamdURL cfg) (Config.RspamdPassword cfg) (CfgEnableDomainAge cfg)
       (CfgEnableDomainBlocklist cfg) (Config.DomainBlocklistProviders cfg) False"

subsection \<open>Passwords need TLS\<close>

lemma conversation_append:
  "conversation (xs @ ys) = (case conversation xs of (s, Some e) \<Rightarrow> (s, Some e) | (s, None) \<Rightarrow> (case conversation ys of (t, r) \<Rightarrow> (s @ t, r)))"
  by (induction xs rule: conversation.induct) (auto split: prod.split option.split)

lemma conversation_steps: "s \<in> set (fst (conversation xs)) \<Longrightarrow> \<exists>p \<in> set xs. s \<in> set (fst p)"
  by (induction xs rule: conversation.induct) (auto split: prod.splits if_splits)

lemma no_password_in_mail: "AuthPlain u p \<notin> set (fst (conversation (sendViaClient srv from to msg)))"
  using conversation_steps by (fastforce simp: sendViaClient_def)

text \<open>
  The password of the alert account leaves the program only over TLS or to this computer: whenever it is part of a conversation, the connection was opened with TLS or was
  switched to TLS before, unless the host of the address is the local one.
\<close>

theorem password_needs_tls:
  assumes "AuthPlain u p \<in> set (fst (send cfg srv to msg))"
  shows "u = SMTPUser cfg \<and> p = SMTPPass cfg
    \<and> (\<exists>host port. SplitHostPort (Addr cfg) = Some (host, port)
        \<and> (let before = takeWhile (\<lambda>s. s \<noteq> AuthPlain u p) (fst (send cfg srv to msg))
           in is_localhost host \<or> DialTLS (Addr cfg) host \<in> set before \<or> StartTLS host \<in> set before))"
proof -
  obtain host port where hp: "SplitHostPort (Addr cfg) = Some (host, port)" using assms by (auto simp: send_def split: option.splits)
  note no_password = no_password_in_mail [of u p srv "From cfg" to msg]
  show ?thesis
  proof (cases "port = ''465''")
    case True
    then show ?thesis using assms hp no_password
      by (auto simp: send_def auth_part_def split: prod.splits if_splits)
  next
    case False
    then show ?thesis using assms hp no_password
      by (auto simp: send_def auth_part_def split: prod.splits if_splits)
  qed
qed

text \<open>A mail that was accepted was sent as a whole, and neither address brings a line of its own into the conversation.\<close>

theorem accepted_mail_is_complete:
  assumes "send cfg srv to msg = (steps, None)"
  shows "suffix [MailFrom (From cfg), RcptFor to, DataBegin, DataBody msg, DataEnd] steps \<and> validLine (From cfg) \<and> validLine to"
  using assms
  by (auto simp: send_def auth_part_def sendViaClient_def suffix_def split: option.splits prod.splits if_splits)

subsection \<open>Health of the seed accounts\<close>

text \<open>The health check calls an account healthy exactly if connection and login succeed within ten seconds, or before the program ends.\<close>

lemma healthy_account:
  "PingAccount dial login stopped acc h = None \<longleftrightarrow>
     snd (dial h (imap_name h)) = None \<and> snd (login acc) = None
     \<and> fst (dial h (imap_name h)) + fst (login acc) < (case stopped of Some s \<Rightarrow> min s (10 * second) | None \<Rightarrow> 10 * second)"
  by (auto simp: PingAccount_def Let_def split: prod.splits option.splits)

lemma checked_accounts:
  "acs \<in> set (CheckAll (PingAccount dial login None) t ps) \<Longrightarrow> OK acs \<Longrightarrow>
     \<exists>p \<in> set ps. \<exists>a \<in> set (Accounts p). SUser acs = User a \<and> snd (login a) = None \<and> fst (dial (IMAP p) (imap_name (IMAP p))) + fst (login a) < 10 * second"
  by (force simp: CheckAll_def healthy_account)

subsection \<open>What the engine of the web server leaves out\<close>

lemma same_options:
  "Analysis.Options.EnableRBLChecks (web_engine cfg) = Analysis.Options.EnableRBLChecks (main_engine cfg)"
  "Analysis.Options.RBLProviders (web_engine cfg) = Analysis.Options.RBLProviders (main_engine cfg)"
  "Analysis.Options.EnableSpamAssassin (web_engine cfg) = Analysis.Options.EnableSpamAssassin (main_engine cfg)"
  "Analysis.Options.SpamAssassinHostPort (web_engine cfg) = Analysis.Options.SpamAssassinHostPort (main_engine cfg)"
  "OWarnRatio (web_engine cfg) = OWarnRatio (main_engine cfg)"
  "Analysis.Options.EnableRspamd (web_engine cfg) = Analysis.Options.EnableRspamd (main_engine cfg)"
  "Analysis.Options.RspamdURL (web_engine cfg) = Analysis.Options.RspamdURL (main_engine cfg)"
  "Analysis.Options.RspamdPassword (web_engine cfg) = Analysis.Options.RspamdPassword (main_engine cfg)"
  "OEnableDomainAge (web_engine cfg) = OEnableDomainAge (main_engine cfg)"
  "OEnableDomainBlocklist (web_engine cfg) = OEnableDomainBlocklist (main_engine cfg)"
  "Analysis.Options.DomainBlocklistProviders (web_engine cfg) = Analysis.Options.DomainBlocklistProviders (main_engine cfg)"
  by (simp_all add: web_engine_def main_engine_def Analysis.Options.make_def)

text \<open>
  The two engines analyse alike unless links are to be opened for all mails: then the engine of the web server opens links only when the request asks for it, so that a
  re-analysis drops the result of the link check.
\<close>

theorem engines_agree:
  assumes "CfgEnableBrokenLinks cfg \<longrightarrow> EnableBrokenLinks inp"
  shows "analyze env (web_engine cfg) inp n = analyze env (main_engine cfg) inp n"
proof -
  have tasks: "netTasks env (web_engine cfg) inp f links = netTasks env (main_engine cfg) inp f links" for f links
    unfolding netTasks_def same_options ..
  have links: "(OEnableBrokenLinks (web_engine cfg) \<or> EnableBrokenLinks inp) = (OEnableBrokenLinks (main_engine cfg) \<or> EnableBrokenLinks inp)"
    using assms by (auto simp: web_engine_def main_engine_def Analysis.Options.make_def)
  show ?thesis unfolding analyze_def tasks links ..
qed

theorem engines_differ:
  assumes "CfgEnableBrokenLinks cfg" "\<not> EnableBrokenLinks inp"
  shows "OEnableBrokenLinks (main_engine cfg) \<and> \<not> (OEnableBrokenLinks (web_engine cfg) \<or> EnableBrokenLinks inp)"
  using assms by (simp add: web_engine_def main_engine_def Analysis.Options.make_def)

end
