(* ===== verification/Spam_View.thy ===== *)
theory Spam_View
  imports Spam_Filters Report_View
begin

text \<open>
  The tables of spam filter results on the report page (\<open>rspamdSymbolsFn\<close>, \<open>rspamdScorePercent\<close> in \<open>web/server.go\<close>): how the page reads the details that the clients of the
  filters wrote. The details are a Go map, here the list of its entries in the order in which an iteration visits them.
\<close>

subsection \<open>Numbers\<close>

text \<open>
  The number that \<open>ParseFloat\<close> returns beside an error that is ignored: an infinity for a number out of range, 0 for a text that is no number.
\<close>

definition parsed_float :: "gostring \<Rightarrow> go_float" where
  "parsed_float s =
     (case ParseFloat s of
        Some x \<Rightarrow> x
      | None \<Rightarrow>
          (case strip_sign s of (neg, t) \<Rightarrow>
             if CHR ''_'' \<in> set s \<and> \<not> underscore_ok s \<or> read_float (replace_all ''_'' [] t) = None then Fin 0 else Inf neg))"

subsection \<open>The rows of the symbol table\<close>

record RspamdSymbolRow =
  RowName :: gostring
  RowScore :: go_float
  RowDesc :: gostring
  RowExplain :: gostring

definition symbol_row :: "gostring \<times> gostring \<Rightarrow> RspamdSymbolRow" where
  "symbol_row e =
     (case e of (k, v) \<Rightarrow>
        (case cut v ''|'' of (s, rest, _) \<Rightarrow>
           (case cut rest ''|'' of (desc, explain, _) \<Rightarrow>
              \<lparr>RowName = trim_prefix k ''sym:'', RowScore = parsed_float s, RowDesc = desc, RowExplain = explain\<rparr>)))"

text \<open>The order of the rows: the larger absolute score first, then by name.\<close>

definition row_key :: "RspamdSymbolRow \<Rightarrow> (nat \<times> rat) \<times> gostring" where
  "row_key r = (case RowScore r of Fin x \<Rightarrow> (1, - \<bar>x\<bar>) | _ \<Rightarrow> (0, 0), RowName r)"

text \<open>\<open>None\<close> when a score is not a number: the comparison is no order then, and what \<open>sort.Slice\<close> makes of it is not specified.\<close>

definition rspamdSymbolsFn :: "(gostring \<times> gostring) list \<Rightarrow> RspamdSymbolRow list option" where
  "rspamdSymbolsFn det =
     (let rows = map symbol_row (filter (\<lambda>(k, v). has_prefix k ''sym:'') det)
      in if list_ex (\<lambda>r. RowScore r = NaN) rows then None else Some (sort_key row_key rows))"

text \<open>The share of the limit in percent. A quotient that is not a number is neither above 100 nor below 0.\<close>

definition clamp_percent :: "float64 \<Rightarrow> float64" where
  "clamp_percent p = (if p < 0 then 0 else if 100 < p then 100 else p)"

definition rspamdScorePercent :: "details \<Rightarrow> go_float" where
  "rspamdScorePercent d =
     (let read = \<lambda>k. parsed_float (case d k of Some v \<Rightarrow> v | None \<Rightarrow> [])
      in case read ''required_score'' of
           NaN \<Rightarrow> NaN
         | Inf neg \<Rightarrow> if neg then Fin 0 else (case read ''score'' of Fin x \<Rightarrow> Fin 0 | _ \<Rightarrow> NaN)
         | Fin y \<Rightarrow>
             if y \<le> 0 then Fin 0
             else (case read ''score'' of
                     Fin x \<Rightarrow> Fin (clamp_percent (fl (fl (x / y) * 100)))
                   | Inf neg \<Rightarrow> Fin (if neg then 0 else 100)
                   | NaN \<Rightarrow> NaN))"

subsection \<open>The page shows what the filter found\<close>

definition two_places :: "int \<Rightarrow> gostring" where
  "two_places m = (let r = show_int m in if m < 10 then CHR ''0'' # r else r)"

lemma two_places_facts:
  assumes "0 \<le> m" "m < 100"
  shows "list_all is_digit (two_places m) \<and> length (two_places m) = 2 \<and> digits_val 0 (two_places m) = m"
proof -
  have "list_all (\<lambda>m. list_all is_digit (two_places m) \<and> length (two_places m) = 2 \<and> digits_val 0 (two_places m) = m) [0..99]" by code_simp
  moreover have "m \<in> set [0..99]" using assms by simp
  ultimately show ?thesis unfolding list_all_iff by blast
qed

lemma digits_val_shift: "digits_val a ds = a * 10 ^ length ds + digits_val 0 ds"
proof (induction ds arbitrary: a)
  case (Cons c ds)
  show ?case using Cons.IH [of "10 * a + digit_val c"] Cons.IH [of "digit_val c"] by (simp add: algebra_simps)
qed simp

lemma digits_val_two: "digits_val 0 (xs @ ys) = digits_val 0 xs * 10 ^ length ys + digits_val 0 ys"
proof -
  have "digits_val a (xs @ ys) = digits_val (digits_val a xs) ys" for a by (induction xs arbitrary: a) simp_all
  then show ?thesis using digits_val_shift [of "digits_val 0 xs" ys] by simp
qed

lemma digit_lower: "is_digit c \<Longrightarrow> lower_char c = c \<and> c \<noteq> CHR ''x'' \<and> c \<noteq> CHR ''i'' \<and> c \<noteq> CHR ''n'' \<and> c \<noteq> CHR ''_'' \<and> c \<noteq> CHR ''.'' \<and> c \<noteq> CHR ''-'' \<and> c \<noteq> CHR ''+'' \<and> c \<noteq> CHR ''|''"
  by (auto simp: is_digit_def lower_char_def Let_def)

lemma not_hex: "CHR ''x'' \<notin> set s \<Longrightarrow> \<not> has_prefix s ''0x''"
  by (auto elim!: has_prefixE)

lemma fixed_text_read:
  assumes "0 \<le> n"
  shows "read_float (show_int (n div 100) @ CHR ''.'' # two_places (n mod 100)) = Some (of_int n / 100)"
proof -
  let ?ip = "show_int (n div 100)" and ?fp = "two_places (n mod 100)"
  have ip: "list_all is_digit ?ip" "digits_val 0 ?ip = n div 100" using assms by (simp_all add: show_int_digits show_int_val)
  have fp: "list_all is_digit ?fp" "length ?fp = 2" "digits_val 0 ?fp = n mod 100" using two_places_facts [of "n mod 100"] by simp_all
  have "CHR ''x'' \<notin> set (to_lower (?ip @ CHR ''.'' # ?fp))"
    using ip(1) fp(1) digit_lower by (fastforce simp: to_lower_def list_all_iff lower_char_def)
  from not_hex [OF this] have hex: "\<not> has_prefix (to_lower (?ip @ CHR ''.'' # ?fp)) ''0x''" .
  have tw: "takeWhile is_digit (?ip @ CHR ''.'' # ?fp) = ?ip" "dropWhile is_digit (?ip @ CHR ''.'' # ?fp) = CHR ''.'' # ?fp"
    using ip(1) digit_lower by (auto simp: takeWhile_append2 dropWhile_append2 list_all_iff takeWhile_append dropWhile_append)
  have all: "takeWhile is_digit ?fp = ?fp" "dropWhile is_digit ?fp = []" using fp(1) by (simp_all add: list_all_iff)
  have m: "mantissa is_digit (?ip @ CHR ''.'' # ?fp) = (?ip, ?fp, [])" by (simp add: mantissa_def tw all)
  have v: "digits_val 0 (?ip @ ?fp) = n" by (simp add: digits_val_two ip fp)
  show ?thesis using hex by (simp add: read_float_def m v float_exponent_def fp(2) power_int_minus)
qed

lemma fixed_text_chars:
  assumes "0 \<le> n" "c \<in> set (show_int (n div 100) @ CHR ''.'' # two_places (n mod 100))"
  shows "is_digit c \<or> c = CHR ''.''"
  using assms show_int_digits [of "n div 100"] two_places_facts [of "n mod 100"] by (auto simp: list_all_iff)

lemma signed_text_read:
  assumes "0 \<le> n" "fl (of_int n / 100) < 2 ^ 1024" "sign \<in> {CHR ''-'', CHR ''+''}"
  shows "ParseFloat (sign # show_int (n div 100) @ CHR ''.'' # two_places (n mod 100)) = Some (Fin (if sign = CHR ''-'' then - fl (of_int n / 100) else fl (of_int n / 100)))"
proof -
  define t where "t = show_int (n div 100) @ CHR ''.'' # two_places (n mod 100)"
  have r: "read_float t = Some (of_int n / 100)" unfolding t_def by (rule fixed_text_read [OF assms(1)])
  have u: "CHR ''_'' \<notin> set t" using fixed_text_chars [OF assms(1)] digit_lower unfolding t_def by fastforce
  have dot: "CHR ''.'' \<in> set (to_lower t)" by (auto simp: t_def to_lower_def lower_char_def)
  have names: "to_lower t \<noteq> ''inf''" "to_lower t \<noteq> ''infinity''" using dot by auto
  have nan: "to_lower (sign # t) \<noteq> ''nan''" using dot by (auto simp: to_lower_def)
  have "strip_sign (sign # t) = (sign = CHR ''-'', t)" using assms(3) by (auto simp: strip_sign_def)
  moreover have "filter (\<lambda>x. x \<noteq> CHR ''_'') t = t" using u by (simp add: filter_id_conv) blast
  ultimately have "ParseFloat (sign # t) = Some (Fin (if sign = CHR ''-'' then - fl (of_int n / 100) else fl (of_int n / 100)))"
    using assms(2,3) u names nan r by (auto simp: ParseFloat_def)
  then show ?thesis by (simp add: t_def)
qed

text \<open>The score of a row: the score of the symbol to two decimals.\<close>

definition shown_score :: "float64 \<Rightarrow> float64" where
  "shown_score x = (let n = round_half_even (\<bar>x\<bar> * 100); y = fl (of_int n / 100) in if x < 0 then - y else y)"

lemma shown_score_small:
  assumes "\<bar>x\<bar> \<le> 2 ^ 1000"
  shows "0 \<le> round_half_even (\<bar>x\<bar> * 100) \<and> fl (of_int (round_half_even (\<bar>x\<bar> * 100)) / 100) < 2 ^ 1024"
proof -
  have "round_half_even 0 \<le> round_half_even (\<bar>x\<bar> * 100)" by (rule round_mono) simp
  moreover have "round_half_even (\<bar>x\<bar> * 100) \<le> round_half_even (of_int (2 ^ 1000 * 100))" by (rule round_mono) (use assms in simp)
  then have "round_half_even (\<bar>x\<bar> * 100) \<le> 2 ^ 1000 * 100" by (simp only: round_int)
  then have "(of_int (round_half_even (\<bar>x\<bar> * 100)) :: rat) \<le> of_int (2 ^ 1000 * 100)" by (simp only: of_int_le_iff)
  then have "(of_int (round_half_even (\<bar>x\<bar> * 100)) :: rat) / 100 \<le> 2 powi 1000" by simp
  then have "fl (of_int (round_half_even (\<bar>x\<bar> * 100)) / 100) \<le> 2 powi 1000" using fl_mono fl_powi by metis
  moreover have "(2 :: rat) powi 1000 < 2 ^ 1024" by simp
  ultimately show ?thesis using round_int [of 0] by auto
qed

text \<open>
  The page reads the details of a spam filter back as they were written: a symbol becomes one row with its name, its score to two decimals, its description and its
  explanation, provided that the description has no vertical bar.
\<close>

theorem symbol_row_reads_entry:
  assumes "CHR ''|'' \<notin> set (SymDesc r)" "\<bar>SymScore r\<bar> \<le> 2 ^ 1000"
  shows "symbol_row (symbol_entry explain r) = \<lparr>RowName = SymName r, RowScore = Fin (shown_score (SymScore r)), RowDesc = SymDesc r, RowExplain = explain\<rparr>"
proof -
  let ?n = "round_half_even (\<bar>SymScore r\<bar> * 100)"
  let ?sign = "if SymScore r < 0 then CHR ''-'' else CHR ''+''"
  have n: "0 \<le> ?n" "fl (of_int ?n / 100) < 2 ^ 1024" using shown_score_small [OF assms(2)] by auto
  have shown: "format_signed2 (SymScore r) = ?sign # show_int (?n div 100) @ CHR ''.'' # two_places (?n mod 100)"
    by (simp add: format_signed2_def format_fixed2_def two_places_def Let_def)
  have "CHR ''|'' \<notin> set (show_int (?n div 100) @ CHR ''.'' # two_places (?n mod 100))"
    using fixed_text_chars [OF n(1), of "CHR ''|''"] digit_lower [of "CHR ''|''"] by blast
  then have "CHR ''|'' \<notin> set (format_signed2 (SymScore r))" unfolding shown by simp
  moreover have "parsed_float (format_signed2 (SymScore r)) = Fin (shown_score (SymScore r))"
    unfolding shown parsed_float_def using signed_text_read [OF n, of "?sign"] by (simp add: shown_score_def)
  ultimately show ?thesis using assms(1) by (simp add: symbol_row_def symbol_entry_def trim_prefix_def)
qed

text \<open>A vertical bar in a description moves the rest of it into the explanation.\<close>

lemma bar_splits_description:
  "symbol_row (symbol_entry ''e'' \<lparr>SymName = ''N'', SymScore = 0, SymDesc = ''a|b''\<rparr>) = \<lparr>RowName = ''N'', RowScore = Fin 0, RowDesc = ''a'', RowExplain = ''b|e''\<rparr>"
  by code_simp

text \<open>The table is the same for every iteration order of the map, and it lists each symbol once.\<close>

theorem symbol_rows_any_order:
  assumes "distinct (map fst det)" "mset det' = mset det"
  shows "rspamdSymbolsFn det' = rspamdSymbolsFn det
    \<and> (\<forall>rows. rspamdSymbolsFn det = Some rows \<longrightarrow> distinct (map RowName rows) \<and> sorted (map row_key rows))"
proof -
  let ?rows = "\<lambda>d. map symbol_row (filter (\<lambda>(k, v). has_prefix k ''sym:'') d)"
  have m: "mset (?rows det') = mset (?rows det)" using assms(2) by (simp only: mset_map mset_filter)
  have name: "RowName (symbol_row e) = trim_prefix (fst e) ''sym:''" for e by (simp add: symbol_row_def split: prod.split)
  have inj: "inj_on (\<lambda>e. trim_prefix (fst e) ''sym:'') (set (filter (\<lambda>(k, v). has_prefix k ''sym:'') det))"
    using assms(1) by (auto simp: inj_on_def trim_prefix_def elim!: has_prefixE dest: eq_key_imp_eq_value)
  have d: "distinct (map RowName (?rows det))"
    using assms(1) inj by (simp add: comp_def name distinct_map)
  then have "inj_on row_key (set (?rows det))" by (auto simp: inj_on_def distinct_map row_key_def)
  then have s: "sort_key row_key (?rows det) = sort_key row_key (?rows det')" using sort_any_order [OF m [symmetric]] by blast
  have "list_ex (\<lambda>r. RowScore r = NaN) (?rows det') = list_ex (\<lambda>r. RowScore r = NaN) (?rows det)"
    using mset_eq_setD [OF m] by (simp add: list_ex_iff del: set_map)
  moreover have "distinct (map RowName (sort_key row_key (?rows det)))"
    using d mset_eq_imp_distinct_iff [of "map RowName (sort_key row_key (?rows det))" "map RowName (?rows det)"] by (simp only: mset_map mset_sort)
  ultimately show ?thesis using s by (auto simp: rspamdSymbolsFn_def Let_def)
qed

lemma score_percent_range: "rspamdScorePercent d = Fin p \<Longrightarrow> 0 \<le> p \<and> p \<le> 100"
  by (auto simp: rspamdScorePercent_def clamp_percent_def Let_def split: go_float.splits if_splits)

end
