(* ===== verification/Spec2Isabelle.thy ===== *)
theory Spec2Isabelle
  imports Prelude Go_Strings Regex Content Spam_Filters Report_Texts Analysis Rate_Limit SMTP_Server Net_IP Dns SPF Auth Float64 Findings Checks Verdicts Placement Store
    SealedBox Inbound Config Request Web Web_Safety Web_Limits Web_Views System Texts Report_View Env_Migrate
    Guides Pdf_Report Body_Views Pages Startup Clients Spam_View
begin

text \<open>
  A verification development for sender-report, the Go service that receives test mails over SMTP, evaluates their
  authentication and deliverability and shows a report with a score.

  \<^bold>\<open>The program.\<close> The SMTP server (\<open>internal/smtp\<close>) accepts mail for existing test mailboxes and hands every message to
  \<open>processInbound\<close> (\<open>cmd/sender-report/main.go\<close>). That function evaluates SPF, DKIM and DMARC and prepends the results as header fields
  (\<open>cmd/sender-report/auth.go\<close>), runs the analyzer (\<open>internal/analyzer\<close>), seals the contents for mailboxes with a public key
  (\<open>internal/sealedbox\<close>) and writes message and report to SQLite (\<open>internal/store\<close>, \<open>internal/db\<close>). The analyzer reads the header
  fields back, inspects body, links and subject, asks DNS (with fallback resolvers, \<open>internal/dnsfallback\<close>) and the spam filters, and adds up the score. A ticker removes old
  rows (\<open>internal/cleanup\<close>). Inbox placement tests (\<open>internal/ipt\<close>) poll seed accounts over IMAP. The web server (\<open>internal/web\<close>) creates and
  deletes mailboxes, shows reports, hands out sealed payloads, rechecks findings and runs placement tests. Rate limiters
  (\<open>internal/ratelimit\<close>) protect SMTP and HTTP. All settings come from the environment (\<open>internal/config\<close>).

  \<^bold>\<open>The theories\<close>, in the order of their imports:

  \<^item> \<open>Prelude\<close>: types of the model, durations, list lemmas, and the locales \<open>state_machine\<close> and \<open>codec\<close>.
  \<^item> \<open>Go_Strings\<close>: the functions of Go's packages \<open>strings\<close> and \<open>strconv\<close> that the program uses, on byte strings.
    \<open>trim_space\<close> and \<open>fields\<close> know the Unicode spaces; letter case is ASCII.
  \<^item> \<open>Rate_Limit\<close>: the sliding-window limiter (\<open>ratelimit.go\<close>): \<open>Allow\<close> and \<open>RetryAfter\<close> on a map from keys to instants.
    Shown: the bound per window over every run, and that \<open>RetryAfter\<close> is the exact waiting time.
  \<^item> \<open>SMTP_Server\<close>: \<open>handleConn\<close> and its helpers (\<open>smtp/server.go\<close>): one definition per command, the loop \<open>serve\<close>
    with a termination proof, the reader of DATA with dot-unstuffing and the size limit, STARTTLS. Shown: no open relay, the
    round trip of DATA, that STARTTLS drops the plain-text state, a bound on the sessions per hour. The locale
    \<open>smtp_handlers\<close> is the contract between the server and its callbacks.
  \<^item> \<open>Net_IP\<close>: \<open>net.IP\<close> on 128-bit words: parsing, printing, masks, \<open>SplitHostPort\<close>.
  \<^item> \<open>Dns\<close>: \<open>dnsfallback.go\<close> and \<open>analyzer/dns.go\<close>: resolver lists, the order in which resolvers are asked, the three outcomes of a lookup
    (answered, absent, unavailable), DMARC discovery with the organisational domain.
  \<^item> \<open>SPF\<close>: the SPF evaluator of \<open>auth.go\<close>: mechanisms, CIDR matching, the budget of ten lookups. The recursion is
    by levels, as deep as the depth limit of \<open>checkSPFDomain\<close>. The locale \<open>spf_evaluation\<close> is the
    interface of the evaluator one level down.
  \<^item> \<open>Auth\<close>: the rest of \<open>auth.go\<close>: DKIM and DMARC verdicts, the header fields added at reception, their removal and re-verification, and
    \<open>parseAuthResult\<close> of the analyzer, which reads them. Shown: no header injection, and that results are read back as written.
  \<^item> \<open>Float64\<close>: IEEE binary64 rounding on rationals (\<open>fl\<close>), without overflow and subnormal numbers, which scores do not reach.
  \<^item> \<open>Findings\<close>: check results, weights, score, the runner of concurrent checks. Shown: range, grid, gate and monotonicity of the score.
  \<^item> \<open>Checks\<close>: the DNS-based checks and blocklists of \<open>analyzer.go\<close>. The locale \<open>dns_check\<close> states what all
    of them promise when DNS does not answer, and is interpreted for each of them.
  \<^item> \<open>Verdicts\<close>: the authentication sections of \<open>Analyze\<close>, DKIM key diagnosis (\<open>dkim_diag.go\<close>) and the recheck of single checks.
  \<^item> \<open>Regex\<close>: regular expressions with leftmost-first matching, as Go's \<open>regexp\<close> has them, and their languages. Shown: a pattern matches a text exactly if
    the text contains a word of its language.
  \<^item> \<open>Content\<close>: the content checks of \<open>analyzer.go\<close>: MIME walk, transfer encodings, links and their probes, HTML, subject, header fields,
    newsletters, display names. Shown: which links are opened, that the MIME walk ends after linearly many steps, that base64 parts are read back.
  \<^item> \<open>Spam_Filters\<close>: the clients of SpamAssassin and Rspamd: requests, reports, verdicts, advice. Shown: the order of Go's maps does not matter.
  \<^item> \<open>Report_Texts\<close>: names, explanations, summaries, recommendations and links of every check in both languages, and \<open>enrichCheckResult\<close> as a whole.
  \<^item> \<open>Analysis\<close>: \<open>Engine.Analyze\<close>, composed of the checks above. Shown: every check is listed once, a top score needs the essential checks, the
    simulator marks what it has not checked, texts never change a verdict, the advice is worst first.
  \<^item> \<open>Texts\<close>, \<open>Report_View\<close>: the message tables of \<open>i18n.go\<close> and how \<open>web/server.go\<close> orders, groups and formats a report. Shown: no check is lost on
    the way to the page.
  \<^item> \<open>Placement\<close>: seeds, polling, account health and alert mails of \<open>internal/ipt\<close>.
  \<^item> \<open>Store\<close>: the tables and every operation of \<open>store.go\<close>, the migration of the counters, cleanup. It is a \<open>state_machine\<close> whose invariant is referential integrity.
    Shown: integrity, lifetime counters, exact retention, reading reports back, equivalence of the joined list.
  \<^item> \<open>SealedBox\<close>: \<open>sealedbox.go\<close> with the text encodings around it. Shown: opening inverts sealing; the shape of identifiers.
  \<^item> \<open>Inbound\<close>: the path of a mail through \<open>main.go\<close> and the server as \<open>main\<close> configures it. Shown: the effect of a mail on the
    store, and what is stored for sealed mailboxes.
  \<^item> \<open>Config\<close>: \<open>config.go\<close>: \<open>Load\<close> with every setting, default and check, and the parts of \<open>strconv\<close> and \<open>time\<close> it reads numbers and
    durations with. Shown: the bounds of every accepted configuration, and that printed durations are read back.
  \<^item> \<open>Env_Migrate\<close>: \<open>envmigrate/migrate.go\<close>: the table of variables and \<open>MigrateFile\<close>, which appends the missing ones to the operator's file. Shown:
    the file is completed and nothing in it is lost, and the configuration stays the same but for two variables.
  \<^item> \<open>Request\<close>: the helpers of \<open>web/server.go\<close> and \<open>web/seo.go\<close> that look at a request: client address behind trusted proxies, scheme, host, paths
    exempt from HTTPS, language and language prefixes. Shown: no open redirect, which paths are exempt.
  \<^item> \<open>Web\<close>: the handlers of \<open>web/server.go\<close>, the middleware, the routes. A handler maps a request and the state to a response and the next state.
  \<^item> \<open>Web_Safety\<close>: the locales \<open>route_property\<close> and \<open>handler_property\<close>, in which a relation that all routes keep is carried through the middleware to
    \<open>Handler\<close>. Shown: the web interface refines the store, plain HTTP is redirected, how addresses are drawn.
  \<^item> \<open>Web_Limits\<close>: further interpretations of these locales. Shown: the rate limits bound every untrusted peer, and the caps on mailboxes hold.
  \<^item> \<open>Web_Views\<close>: what clients see. Shown: mailboxes are isolated from each other, streams are equivalent to polling, placement tests come to an end.
  \<^item> \<open>System\<close>: the running program as a step relation, an instance of \<open>state_machine\<close>. Shown: mail for mailboxes with a key stays sealed
    in every reachable state.
  \<^item> \<open>Guides\<close>: the texts of \<open>web/guides_content.go\<close>, the pages and the structured data of \<open>web/guides.go\<close>, the sitemap of \<open>web/seo.go\<close>. Shown: guides only refer to guides, structured
    data carries no markup, the sitemap lists exactly the public pages.
  \<^item> \<open>Pdf_Report\<close>: \<open>pdf/report.go\<close>: every drawing function as the sequence of calls it makes; the PDF library is a record of what a call does to the position on the page and of
    the widths of texts. Shown: which cards a document has, that colours stay in range.
  \<^item> \<open>Body_Views\<close>: \<open>messageBodyViews\<close> and its helpers, the texts of a mail on the report page.
  \<^item> \<open>Pages\<close>: the data of every page, metrics, the PDF download, static files and the complete table of routes; \<open>site\<close> puts them in place of the parameter \<open>pages\<close> of
    \<open>Web\<close>. Shown: every address of the sitemap is served, report page and PDF show one mailbox alone, metrics can be read back.
  \<^item> \<open>Spam_View\<close>: the symbol tables of the report page. Shown: they show what the clients of the spam filters wrote, in an order that does not depend on Go's maps.
  \<^item> \<open>Startup\<close>: the storage check, the certificate for STARTTLS, alerts, \<open>web.New\<close> and the order of \<open>main\<close>. Shown: nothing is served before every step succeeded, the certificate
    is kept.
  \<^item> \<open>Clients\<close>: the alert mail over SMTP, the login test of seed accounts, the registration date of a domain and the two analysis engines. Shown: a password is sent over TLS only,
    and where the two engines differ.

  \<^bold>\<open>Conventions.\<close> A Go string is a list of bytes, a time is a number of nanoseconds, a Go map is a partial function. Errors are values of
  sum or option types. Clock readings, random bytes and row-id gaps are arguments. Third-party code (the DNS resolvers, the URL parser, the DKIM
  and DMARC libraries, the public suffix list, IMAP, curve, hash and cipher primitives, JSON writers) is a field of an environment record; a theorem that needs
  something of it says so in its assumptions. The theories of the single checks are up to their wording: identifier, status, score delta and technical
  details; the wording that does not depend on a single finding is in \<open>Report_Texts\<close>.

  \<^bold>\<open>Bounds and fuel.\<close> The SMTP loop and the readers are total by the length of the input. The levels of the SPF
  evaluation are the code's own depth limit, whose last level gives the permerror that the code gives. \<open>extractBodyViews\<close> has no limit in the code; its model counts the nested levels, and
  half as many levels as the message has bytes are shown to be enough. The counters of the database are float64 and exact up to two to the power of 53.

  \<^bold>\<open>Not modelled\<close>: the summaries that a check writes with its findings, the HTML of the templates (a page is the data it is rendered from), the decoders of JSON answers
  (\<open>parseRspamdSymbolPayload\<close>), the reading of \<open>resolv.conf\<close>, logging, the shutdown of the process. Requests and mails are served one after the other: failures of the disk while the program runs and the
  interleaving of goroutines inside one request are not modelled either, so a bound that a handler checks before it writes is shown for requests in sequence.
\<close>

subsection \<open>From the wire to the store\<close>

text \<open>
  C1: Whatever bytes clients send in any sequence of connections, the server as \<open>main\<close> wires it only ever adds to the mail store: the
  messages and reports of before are still there, and every message added is within the size limit, addressed to the configured domain and
  filed under an existing mailbox with exactly that address.
\<close>

theorem smtp_traffic_is_filed:
  assumes "store_inv (st (app_world a))"
  shows "\<exists>ms. messages (st (app_world (connections (smtp_server env dn maxb smtpTLS runs) cs g a))) = messages (st (app_world a)) @ ms
    \<and> list_all (filed dn maxb (st (app_world (connections (smtp_server env dn maxb smtpTLS runs) cs g a)))) ms
    \<and> prefix (reports (st (app_world a))) (reports (st (app_world (connections (smtp_server env dn maxb smtpTLS runs) cs g a))))"
proof -
  have "traffic_ok dn maxb (st (app_world a)) (st (app_world a))" using assms by (simp add: traffic_ok_def)
  from connections_traffic [OF this, of env smtpTLS runs cs g] show ?thesis by (auto simp: traffic_ok_def)
qed

theorem smtp_traffic_is_filed_witness:
  "\<exists>ms. messages (st (app_world (connections (smtp_server demo_inbound ''t.example'' 1000 False (\<lambda>i. demo_inbound_run))
      [(''192.0.2.7'', 0, ''HELO mx'' @ crlf @ ''MAIL FROM:<a@b.example>'' @ crlf @ ''RCPT TO:<x@t.example>'' @ crlf @ ''DATA'' @ crlf
          @ ''Subject: hi'' @ crlf @ crlf @ ''.'' @ crlf, None)]
      \<lparr>RateLimiter = None, BurstLimiter = None\<rparr> \<lparr>app_world = demo_world, ticks = 0\<rparr>))) = messages demo_db @ ms"
proof -
  have "store_inv (st (app_world \<lparr>app_world = demo_world, ticks = 0\<rparr>))" by (simp add: demo_world_def demo_db_inv)
  then show ?thesis
    using smtp_traffic_is_filed [of "\<lparr>app_world = demo_world, ticks = 0\<rparr>"] by (metis demo_world_def app.select_convs(1) world.select_convs(1))
qed

end
